(* ===== verification/Prelude.thy ===== *)
theory Prelude
  imports Complex_Main
    "HOL-Library.Product_Lexorder"
    "HOL-Library.List_Lexorder"
    "HOL-Library.Char_ord"
    "HOL-Library.Multiset"
begin

text \<open>
  Shared vocabulary of the development: the exceptions of the NestJS services as a
  datatype, the JavaScript string operations the sources use (ASCII), the Prisma table
  operations the services use (a table is a list of rows in the database's row order),
  and generic lemmas on them. The locale \<open>step_system\<close> carries the lifting of a
  one-step invariant to runs; each state machine of the development interprets it.
\<close>

section \<open>Exceptions of the HTTP layer\<close>

text \<open>The Nest exceptions the services throw, with their message.\<close>

datatype http_error =
    BadRequest string
  | NotFound string
  | Forbidden string
  | Conflict string
  | Unauthorized string
  | TooManyRequests string
  | JsError string

text \<open>Ids of the database are strings (cuid).\<close>

type_synonym ident = string

section \<open>Collections of facts\<close>

named_theorems js_simps "equations of the JavaScript string and table operations"

section \<open>Decimal rendering of numbers (template literals)\<close>

fun show_nat :: "nat \<Rightarrow> string" where
  "show_nat n =
     (if n < 10 then [char_of (48 + n)] else show_nat (n div 10) @ [char_of (48 + n mod 10)])"

declare show_nat.simps [simp del]

definition show_int :: "int \<Rightarrow> string" where
  "show_int i = (if i < 0 then ''-'' @ show_nat (nat (- i)) else show_nat (nat i))"

lemma show_nat_nonempty [simp]: "show_nat n \<noteq> []"
  by (subst show_nat.simps) simp

section \<open>ASCII strings\<close>

definition is_upper_char :: "char \<Rightarrow> bool" where
  "is_upper_char c = (65 \<le> (of_char c :: nat) \<and> (of_char c :: nat) \<le> 90)"

definition is_lower_char :: "char \<Rightarrow> bool" where
  "is_lower_char c = (97 \<le> (of_char c :: nat) \<and> (of_char c :: nat) \<le> 122)"

definition is_digit_char :: "char \<Rightarrow> bool" where
  "is_digit_char c = (48 \<le> (of_char c :: nat) \<and> (of_char c :: nat) \<le> 57)"

definition is_space_char :: "char \<Rightarrow> bool" where
  "is_space_char c = ((of_char c :: nat) \<in> {9, 10, 11, 12, 13, 32})"

definition to_lower_char :: "char \<Rightarrow> char" where
  "to_lower_char c = (if is_upper_char c then char_of ((of_char c :: nat) + 32) else c)"

definition to_upper_char :: "char \<Rightarrow> char" where
  "to_upper_char c = (if is_lower_char c then char_of ((of_char c :: nat) - 32) else c)"

definition to_lower :: "string \<Rightarrow> string" where
  "to_lower = map to_lower_char"

definition to_upper :: "string \<Rightarrow> string" where
  "to_upper = map to_upper_char"

text \<open>\<open>String.prototype.trim\<close>.\<close>

definition trim :: "string \<Rightarrow> string" where
  "trim s = rev (dropWhile is_space_char (rev (dropWhile is_space_char s)))"

fun starts_with :: "string \<Rightarrow> string \<Rightarrow> bool" where
  "starts_with s [] = True"
| "starts_with [] (c # p) = False"
| "starts_with (d # s) (c # p) = (d = c \<and> starts_with s p)"

text \<open>\<open>String.prototype.includes\<close>.\<close>

fun str_includes :: "string \<Rightarrow> string \<Rightarrow> bool" where
  "str_includes [] p = (p = [])"
| "str_includes (c # s) p = (starts_with (c # s) p \<or> str_includes s p)"

text \<open>\<open>Array.prototype.join\<close>.\<close>

fun join_with :: "string \<Rightarrow> string list \<Rightarrow> string" where
  "join_with sep [] = []"
| "join_with sep [x] = x"
| "join_with sep (x # y # ys) = x @ sep @ join_with sep (y # ys)"

text \<open>
  A JavaScript string value that may be \<open>null\<close> or \<open>undefined\<close> is an option; it is truthy
  when it is present and not empty.
\<close>

definition truthy :: "string option \<Rightarrow> bool" where
  "truthy s = (case s of None \<Rightarrow> False | Some x \<Rightarrow> x \<noteq> [])"

definition or_else :: "string option \<Rightarrow> string option \<Rightarrow> string option" where
  "or_else a b = (if truthy a then a else b)"

text \<open>\<open>x || undefined\<close> and \<open>x || null\<close>: an empty string becomes absent.\<close>

definition or_undefined :: "string option \<Rightarrow> string option" where
  "or_undefined a = (if truthy a then a else None)"

text \<open>\<open>x ?? d\<close>.\<close>

definition nullish :: "'a option \<Rightarrow> 'a \<Rightarrow> 'a" where
  "nullish x d = (case x of None \<Rightarrow> d | Some v \<Rightarrow> v)"

lemma truthy_simps [simp, js_simps]:
  "truthy None = False" "truthy (Some []) = False" "truthy (Some (c # s)) = True"
  by (simp_all add: truthy_def)

lemma nullish_simps [simp, js_simps]: "nullish None d = d" "nullish (Some v) d = v"
  by (simp_all add: nullish_def)

lemma or_undefined_simps [simp, js_simps]:
  "or_undefined None = None" "or_undefined (Some []) = None"
  "or_undefined (Some (c # s)) = Some (c # s)"
  by (simp_all add: or_undefined_def)

lemma truthy_or_undefined [simp]: "truthy (or_undefined a) = truthy a"
  by (simp add: or_undefined_def)

lemma or_undefined_Some: "or_undefined a = Some s \<Longrightarrow> a = Some s \<and> s \<noteq> []"
  by (cases a) (auto simp: or_undefined_def truthy_def split: if_splits)

section \<open>Tables\<close>

text \<open>
  A table is the list of its rows. \<open>findFirst\<close> without \<open>orderBy\<close> reads the rows in table
  order; \<open>updateMany\<close> rewrites every row its filter selects; \<open>count\<close> counts them.
\<close>

definition update_where :: "('r \<Rightarrow> bool) \<Rightarrow> ('r \<Rightarrow> 'r) \<Rightarrow> 'r list \<Rightarrow> 'r list" where
  "update_where p f rows = map (\<lambda>r. if p r then f r else r) rows"

definition count_where :: "('r \<Rightarrow> bool) \<Rightarrow> 'r list \<Rightarrow> nat" where
  "count_where p rows = length (filter p rows)"

definition delete_where :: "('r \<Rightarrow> bool) \<Rightarrow> 'r list \<Rightarrow> 'r list" where
  "delete_where p rows = filter (\<lambda>r. \<not> p r) rows"

lemma update_where_simps [simp, js_simps]:
  "update_where p f [] = []"
  "update_where p f (r # rows) = (if p r then f r else r) # update_where p f rows"
  by (simp_all add: update_where_def)

lemma length_update_where [simp]: "length (update_where p f rows) = length rows"
  by (simp add: update_where_def)

lemma set_update_where: "set (update_where p f rows) = (\<lambda>r. if p r then f r else r) ` set rows"
  by (simp add: update_where_def)

lemma update_where_none: "(\<And>r. r \<in> set rows \<Longrightarrow> \<not> p r) \<Longrightarrow> update_where p f rows = rows"
  by (induction rows) auto

lemma map_update_where_frame:
  "(\<And>r. g (f r) = g r) \<Longrightarrow> map g (update_where p f rows) = map g rows"
  by (induction rows) auto

lemma count_where_simps [simp, js_simps]:
  "count_where p [] = 0"
  "count_where p (r # rows) = (if p r then 1 else 0) + count_where p rows"
  by (simp_all add: count_where_def)

lemma count_where_append [simp]: "count_where p (xs @ ys) = count_where p xs + count_where p ys"
  by (simp add: count_where_def)

lemma count_where_mono: "(\<And>r. r \<in> set rows \<Longrightarrow> p r \<Longrightarrow> q r) \<Longrightarrow> count_where p rows \<le> count_where q rows"
  by (induction rows) auto

lemma count_where_zero: "(\<And>r. r \<in> set rows \<Longrightarrow> \<not> p r) \<Longrightarrow> count_where p rows = 0"
  by (induction rows) auto

lemma find_update_where_other:
  assumes "\<And>r. q (f r) = q r"
  shows "find q (update_where p f rows) =
    map_option (\<lambda>r. if p r then f r else r) (find q rows)"
  using assms by (induction rows) auto

lemma find_Some_in: "find p xs = Some x \<Longrightarrow> x \<in> set xs \<and> p x"
  by (auto simp: find_Some_iff)

lemma find_None_all: "find p xs = None \<longleftrightarrow> (\<forall>x\<in>set xs. \<not> p x)"
  by (auto simp: find_None_iff)

lemma find_append: "find p (xs @ ys) = (case find p xs of None \<Rightarrow> find p ys | Some x \<Rightarrow> Some x)"
  by (induction xs) auto

text \<open>\<open>Array.prototype.findIndex\<close>, with \<open>-1\<close> as None, and a write at that index.\<close>

fun update_first :: "('r \<Rightarrow> bool) \<Rightarrow> ('r \<Rightarrow> 'r) \<Rightarrow> 'r list \<Rightarrow> 'r list" where
  "update_first p f [] = []"
| "update_first p f (r # rows) = (if p r then f r # rows else r # update_first p f rows)"

lemma length_update_first [simp]: "length (update_first p f rows) = length rows"
  by (induction rows) auto

lemma update_first_in:
  "x \<in> set rows \<Longrightarrow> \<not> p x \<Longrightarrow> x \<in> set (update_first p f rows)"
  by (induction rows) auto

lemma map_update_first_frame:
  "(\<And>r. p r \<Longrightarrow> g (f r) = g r) \<Longrightarrow> map g (update_first p f rows) = map g rows"
  by (induction rows) auto

text \<open>Rows with a unique key.\<close>

lemma distinct_update_first:
  "distinct (map k rows) \<Longrightarrow> update_first (\<lambda>r. k r = i) f rows = update_where (\<lambda>r. k r = i) f rows"
proof (induction rows)
  case (Cons r rows)
  show ?case
  proof (cases "k r = i")
    case True
    then have "update_where (\<lambda>r. k r = i) f rows = rows"
      using Cons.prems by (intro update_where_none) (auto simp: image_iff)
    then show ?thesis using True by simp
  qed (use Cons in simp)
qed simp

lemma set_update_firstD: "x \<in> set (update_first p f rows) \<Longrightarrow> x \<in> set rows \<or> (\<exists>r\<in>set rows. p r \<and> x = f r)"
  by (induction rows) (auto split: if_splits)

lemma distinct_key_eq: "distinct (map k rows) \<Longrightarrow> x \<in> set rows \<Longrightarrow> y \<in> set rows \<Longrightarrow> k x = k y \<Longrightarrow> x = y"
  by (simp add: distinct_map inj_on_def)

lemma find_by_key: "distinct (map k rows) \<Longrightarrow> x \<in> set rows \<Longrightarrow> find (\<lambda>r. k r = k x) rows = Some x"
  by (induction rows) (auto simp: image_iff)

text \<open>Keep the first occurrence of each value (\<open>[...new Set(xs)]\<close>).\<close>

fun uniq :: "'a list \<Rightarrow> 'a list" where
  "uniq [] = []"
| "uniq (x # xs) = x # uniq (filter (\<lambda>y. y \<noteq> x) xs)"

section \<open>Shuffles\<close>

text \<open>\<open>[a[i], a[j]] = [a[j], a[i]]\<close> for indices in range.\<close>

definition swap_at :: "nat \<Rightarrow> nat \<Rightarrow> 'a list \<Rightarrow> 'a list" where
  "swap_at i j xs = xs[i := xs ! j, j := xs ! i]"

lemma mset_swap_at: "i < length xs \<Longrightarrow> j < length xs \<Longrightarrow> mset (swap_at i j xs) = mset xs"
  unfolding swap_at_def using mset_swap [of j xs i] by simp

lemma length_swap_at [simp]: "length (swap_at i j xs) = length xs"
  by (simp add: swap_at_def)

section \<open>Runs of a step function\<close>

text \<open>
  An invariant of one step, under a guard on the events, is an invariant of every run whose
  events satisfy the guard; a step system without a guard is the special case.
\<close>

locale guarded_step_system =
  fixes step :: "'e \<Rightarrow> 's \<Rightarrow> 's"
    and inv :: "'s \<Rightarrow> bool"
    and ok :: "'e \<Rightarrow> bool"
  assumes step_inv: "inv s \<Longrightarrow> ok e \<Longrightarrow> inv (step e s)"
begin

lemma run_inv: "inv s \<Longrightarrow> (\<And>e. e \<in> set es \<Longrightarrow> ok e) \<Longrightarrow> inv (fold step es s)"
  by (induction es arbitrary: s) (auto intro: step_inv)

lemma run_inv_prefix:
  assumes "inv s" "\<And>e. e \<in> set es \<Longrightarrow> ok e"
  shows "inv (fold step (take n es) s)"
  using assms by (intro run_inv) (auto dest: in_set_takeD)

end

locale step_system =
  fixes step :: "'e \<Rightarrow> 's \<Rightarrow> 's"
    and inv :: "'s \<Rightarrow> bool"
  assumes step_keeps: "inv s \<Longrightarrow> inv (step e s)"

sublocale step_system \<subseteq> unguarded: guarded_step_system step inv "\<lambda>e. True"
  by unfold_locales (rule step_keeps)

context step_system
begin

lemma all_runs: "inv s \<Longrightarrow> inv (fold step es s)"
  by (rule unguarded.run_inv) simp_all

end

end
