(* ===== verification/JsDate.thy ===== *)
theory JsDate
  imports Prelude
begin

text \<open>
  JavaScript dates. A \<open>Date\<close> is its time value, the milliseconds since the epoch, as an
  integer. Day, year, month and date numbers are the ECMAScript functions; the local
  fields are read in a zone of constant offset \<open>tz\<close> (milliseconds; Nigeria, UTC+1, and a
  UTC server have no daylight saving). A setter recombines the fields as \<open>MakeDay\<close> does,
  so that a month or a day number out of range rolls over.
\<close>

type_synonym date = int

definition ms_per_day :: int where
  "ms_per_day = 86400000"

definition day_number :: "date \<Rightarrow> int" where
  "day_number t = t div ms_per_day"

definition day_from_year :: "int \<Rightarrow> int" where
  "day_from_year y =
     365 * (y - 1970) + (y - 1969) div 4 - (y - 1901) div 100 + (y - 1601) div 400"

definition leap_year :: "int \<Rightarrow> bool" where
  "leap_year y = (y mod 4 = 0 \<and> (y mod 100 \<noteq> 0 \<or> y mod 400 = 0))"

text \<open>
  The largest year that starts at or before day \<open>n\<close>: an estimate from the mean year
  length, corrected by one year either way.
\<close>

definition year_from_day :: "int \<Rightarrow> int" where
  "year_from_day n =
     (let y = 1970 + (400 * n) div 146097
      in if n < day_from_year y then y - 1
         else if day_from_year (y + 1) \<le> n then y + 1 else y)"

text \<open>Days of the year before the start of month \<open>m\<close> (0 is January, 12 the next year).\<close>

definition month_start :: "bool \<Rightarrow> int \<Rightarrow> int" where
  "month_start leap m =
     (let l = (if leap then 1 else 0)
      in if m \<le> 0 then 0 else if m = 1 then 31 else if m = 2 then 59 + l
         else if m = 3 then 90 + l else if m = 4 then 120 + l else if m = 5 then 151 + l
         else if m = 6 then 181 + l else if m = 7 then 212 + l else if m = 8 then 243 + l
         else if m = 9 then 273 + l else if m = 10 then 304 + l else if m = 11 then 334 + l
         else 365 + l)"

definition month_of_year_day :: "bool \<Rightarrow> int \<Rightarrow> int" where
  "month_of_year_day leap d =
     (if d < month_start leap 1 then 0 else if d < month_start leap 2 then 1
      else if d < month_start leap 3 then 2 else if d < month_start leap 4 then 3
      else if d < month_start leap 5 then 4 else if d < month_start leap 6 then 5
      else if d < month_start leap 7 then 6 else if d < month_start leap 8 then 7
      else if d < month_start leap 9 then 8 else if d < month_start leap 10 then 9
      else if d < month_start leap 11 then 10 else 11)"

definition month_from_day :: "int \<Rightarrow> int" where
  "month_from_day n =
     (let y = year_from_day n in month_of_year_day (leap_year y) (n - day_from_year y))"

definition date_from_day :: "int \<Rightarrow> int" where
  "date_from_day n =
     (let y = year_from_day n
      in n - day_from_year y - month_start (leap_year y) (month_from_day n) + 1)"

text \<open>\<open>MakeDay(y, m, d)\<close>: months beyond the year roll into later or earlier years.\<close>

definition make_day :: "int \<Rightarrow> int \<Rightarrow> int \<Rightarrow> int" where
  "make_day y m d =
     (let ym = y + m div 12; mn = m mod 12
      in day_from_year ym + month_start (leap_year ym) mn + d - 1)"

section \<open>Setters in a zone of constant offset\<close>

definition local_day :: "int \<Rightarrow> date \<Rightarrow> int" where
  "local_day tz t = (t + tz) div ms_per_day"

text \<open>\<open>setHours(0, 0, 0, 0)\<close> and \<open>setHours(23, 59, 59, 999)\<close>.\<close>

definition local_midnight :: "int \<Rightarrow> date \<Rightarrow> date" where
  "local_midnight tz t = local_day tz t * ms_per_day - tz"

definition local_day_end :: "int \<Rightarrow> date \<Rightarrow> date" where
  "local_day_end tz t = local_midnight tz t + (ms_per_day - 1)"

text \<open>\<open>getDay()\<close>: 0 is Sunday; day 0 of the epoch was a Thursday.\<close>

definition week_day :: "int \<Rightarrow> date \<Rightarrow> int" where
  "week_day tz t = (local_day tz t + 4) mod 7"

text \<open>\<open>setDate(getDate() + n)\<close> and \<open>setUTCDate(getUTCDate() + n)\<close> move by whole days.\<close>

definition plus_days :: "date \<Rightarrow> int \<Rightarrow> date" where
  "plus_days t n = t + n * ms_per_day"

text \<open>\<open>setMonth(getMonth() + k)\<close> and \<open>setFullYear(getFullYear() + k)\<close>.\<close>

definition plus_months :: "int \<Rightarrow> date \<Rightarrow> int \<Rightarrow> date" where
  "plus_months tz t k =
     (let n = local_day tz t
      in make_day (year_from_day n) (month_from_day n + k) (date_from_day n) * ms_per_day
         + (t + tz) mod ms_per_day - tz)"

definition plus_years :: "int \<Rightarrow> date \<Rightarrow> int \<Rightarrow> date" where
  "plus_years tz t k =
     (let n = local_day tz t
      in make_day (year_from_day n + k) (month_from_day n) (date_from_day n) * ms_per_day
         + (t + tz) mod ms_per_day - tz)"

section \<open>Facts\<close>

lemma ms_per_day_pos [simp]: "0 < ms_per_day"
  by (simp add: ms_per_day_def)

lemma div_succ:
  fixes a k :: int
  assumes k: "0 < k"
  shows "(a + 1) div k = a div k + (if (a + 1) mod k = 0 then 1 else 0)"
proof (cases "(a + 1) mod k = 0")
  case True
  have "k * ((a + 1) div k) + (a + 1) mod k = a + 1"
    by (rule mult_div_mod_eq)
  then have "k * ((a + 1) div k) = a + 1"
    unfolding True by linarith
  then have "a = k * ((a + 1) div k - 1) + (k - 1)"
    unfolding right_diff_distrib by linarith
  then have "a div k = (a + 1) div k - 1"
    by (rule int_div_pos_eq) (use k in simp_all)
  then show ?thesis using True by simp
next
  case False
  have r: "0 < (a + 1) mod k" "(a + 1) mod k < k"
    using False k by (simp_all add: order_le_neq_trans)
  have "k * ((a + 1) div k) + (a + 1) mod k = a + 1"
    by (rule mult_div_mod_eq)
  then have "a = k * ((a + 1) div k) + ((a + 1) mod k - 1)"
    by linarith
  then have "a div k = (a + 1) div k"
    by (rule int_div_pos_eq) (use r in simp_all)
  then show ?thesis using False by simp
qed

lemma mod_shift_zero: "(y - k * j) mod k = 0 \<longleftrightarrow> y mod k = 0" for y k j :: int
proof -
  have "(y - k * j) mod k = (y + k * (- j)) mod k" by simp
  also have "\<dots> = y mod k" by (rule mod_mult_self2)
  finally show ?thesis by simp
qed

lemma div_succ_shift:
  fixes y k j :: int
  assumes "0 < k"
  shows "(y + 1 - (k * j + 1)) div k = (y - (k * j + 1)) div k + (if y mod k = 0 then 1 else 0)"
proof -
  have eq: "y - (k * j + 1) + 1 = y - k * j" "y + 1 - (k * j + 1) = y - k * j" by simp_all
  show ?thesis
    using div_succ [OF assms, of "y - (k * j + 1)"] unfolding eq mod_shift_zero by simp
qed

lemma year_sum:
  fixes y a a' b b' c c' x u v :: int
  assumes "a' = a + x" "b' = b + u" "c' = c + v"
  shows "365 * (y + 1 - 1970) + a' - b' + c' =
    365 * (y - 1970) + a - b + c + 365 + x - u + v"
  using assms by simp

lemma leap_sum:
  fixes x a :: int
  assumes "x = a + 365 + (if p then 1 else 0) - (if q then 1 else 0) + (if r then 1 else 0)"
    and "r \<Longrightarrow> q" "q \<Longrightarrow> p"
  shows "x = a + (if p \<and> (\<not> q \<or> r) then 366 else 365)"
  using assms by (cases p; cases q; cases r) simp_all

lemma day_from_year_succ:
  "day_from_year (y + 1) = day_from_year y + (if leap_year y then 366 else 365)"
proof -
  have a: "(y + 1 - 1969) div 4 = (y - 1969) div 4 + (if y mod 4 = 0 then 1 else 0)"
    using div_succ_shift [of 4 y 492] by simp
  have b: "(y + 1 - 1901) div 100 = (y - 1901) div 100 + (if y mod 100 = 0 then 1 else 0)"
    using div_succ_shift [of 100 y 19] by simp
  have c: "(y + 1 - 1601) div 400 = (y - 1601) div 400 + (if y mod 400 = 0 then 1 else 0)"
    using div_succ_shift [of 400 y 4] by simp
  have "(100 :: int) dvd 400" "(4 :: int) dvd 100" by simp_all
  then have d: "y mod 400 = 0 \<Longrightarrow> y mod 100 = 0" "y mod 100 = 0 \<Longrightarrow> y mod 4 = 0"
    unfolding mod_eq_0_iff_dvd by (blast intro: dvd_trans)+
  have "day_from_year (y + 1) = day_from_year y + 365
      + (if y mod 4 = 0 then 1 else 0) - (if y mod 100 = 0 then 1 else 0)
      + (if y mod 400 = 0 then 1 else 0)"
    unfolding day_from_year_def by (rule year_sum [OF a b c])
  then show ?thesis
    unfolding leap_year_def by (rule leap_sum) (fact d(1), fact d(2))
qed

lemma month_start_12: "month_start (leap_year y) 12 = day_from_year (y + 1) - day_from_year y"
  by (simp add: month_start_def day_from_year_succ)

lemma month_from_day_range: "0 \<le> month_from_day n \<and> month_from_day n \<le> 11"
  by (simp add: month_from_day_def month_of_year_day_def Let_def)

text \<open>Reading the fields of a day and making the day again is the identity.\<close>

lemma make_day_fields:
  "make_day (year_from_day n) (month_from_day n) (date_from_day n) = n"
proof -
  have "month_from_day n div 12 = 0" "month_from_day n mod 12 = month_from_day n"
    using month_from_day_range [of n] by auto
  then show ?thesis by (simp add: make_day_def date_from_day_def Let_def)
qed

lemma month_length:
  assumes "0 \<le> m" "m \<le> 11"
  shows "28 \<le> month_start l (m + 1) - month_start l m"
    and "month_start l (m + 1) - month_start l m \<le> 31"
proof -
  have "m \<in> {0, 1, 2, 3, 4, 5, 6, 7, 8, 9, 10, 11}" using assms by (simp, presburger)
  then show "28 \<le> month_start l (m + 1) - month_start l m"
    "month_start l (m + 1) - month_start l m \<le> 31"
    by (auto simp: month_start_def)
qed

text \<open>Moving a date by one month moves it by the length of its month: 28 to 31 days.\<close>

lemma make_day_next_month:
  assumes "0 \<le> m" "m \<le> 11"
  shows "make_day y (m + 1) d - make_day y m d =
    month_start (leap_year y) (m + 1) - month_start (leap_year y) m"
proof (cases "m = 11")
  case True
  then show ?thesis
    by (simp add: make_day_def day_from_year_succ month_start_def Let_def)
next
  case False
  then have "m div 12 = 0" "m mod 12 = m" "(m + 1) div 12 = 0" "(m + 1) mod 12 = m + 1"
    using assms by auto
  then show ?thesis by (simp add: make_day_def Let_def)
qed

lemma plus_months_one:
  "28 * ms_per_day \<le> plus_months tz t 1 - t" "plus_months tz t 1 - t \<le> 31 * ms_per_day"
proof -
  let ?n = "local_day tz t"
  let ?m = "month_from_day ?n" and ?y = "year_from_day ?n" and ?d = "date_from_day ?n"
  let ?len = "month_start (leap_year ?y) (?m + 1) - month_start (leap_year ?y) ?m"
  have m: "0 \<le> ?m" "?m \<le> 11" using month_from_day_range [of ?n] by auto
  have "make_day ?y (?m + 1) ?d = ?n + ?len"
    using make_day_next_month [OF m, of ?y ?d] make_day_fields [of ?n] by simp
  moreover have t: "t = ?n * ms_per_day + (t + tz) mod ms_per_day - tz"
    by (simp add: local_day_def)
  ultimately have "plus_months tz t 1 = (?n + ?len) * ms_per_day + (t - ?n * ms_per_day)"
    unfolding plus_months_def Let_def by simp
  then have "plus_months tz t 1 - t = ?len * ms_per_day"
    by (simp add: distrib_right)
  then show "28 * ms_per_day \<le> plus_months tz t 1 - t" "plus_months tz t 1 - t \<le> 31 * ms_per_day"
    using month_length [OF m, of "leap_year ?y"] by (simp_all add: mult_right_mono)
qed

lemma plus_days_mono: "0 < n \<Longrightarrow> t < plus_days t n"
  by (simp add: plus_days_def)

lemma month_start_mono_leap:
  "month_start True m - 1 \<le> month_start l m" "month_start l m \<le> month_start True m"
  by (auto simp: month_start_def)

lemma plus_years_one: "364 * ms_per_day \<le> plus_years tz t 1 - t"
proof -
  let ?n = "local_day tz t"
  let ?m = "month_from_day ?n" and ?y = "year_from_day ?n" and ?d = "date_from_day ?n"
  have m: "?m div 12 = 0" "?m mod 12 = ?m" using month_from_day_range [of ?n] by auto
  have "make_day (?y + 1) ?m ?d - make_day ?y ?m ?d =
      day_from_year (?y + 1) - day_from_year ?y
      + month_start (leap_year (?y + 1)) ?m - month_start (leap_year ?y) ?m"
    using m by (simp add: make_day_def Let_def)
  then have "364 \<le> make_day (?y + 1) ?m ?d - ?n"
    using month_start_mono_leap [where m = ?m and l = "leap_year (?y + 1)"]
      month_start_mono_leap [where m = ?m and l = "leap_year ?y"] day_from_year_succ [of ?y]
      make_day_fields [of ?n]
    by (simp split: if_splits)
  then have "364 * ms_per_day \<le> (make_day (?y + 1) ?m ?d - ?n) * ms_per_day"
    by (simp add: mult_right_mono)
  moreover have "t = ?n * ms_per_day + (t + tz) mod ms_per_day - tz"
    by (simp add: local_day_def)
  ultimately show ?thesis
    unfolding plus_years_def Let_def by (simp add: algebra_simps)
qed

lemma local_midnight_idem [simp]: "local_midnight tz (local_midnight tz t) = local_midnight tz t"
  by (simp add: local_midnight_def local_day_def)

lemma local_midnight_le: "local_midnight tz t \<le> t"
proof -
  have "(t + tz) div ms_per_day * ms_per_day = t + tz - (t + tz) mod ms_per_day"
    by (simp add: minus_mod_eq_div_mult)
  moreover have "0 \<le> (t + tz) mod ms_per_day" by simp
  ultimately show ?thesis by (simp add: local_midnight_def local_day_def)
qed

lemma local_day_midnight [simp]: "local_day tz (local_midnight tz t) = local_day tz t"
  by (simp add: local_midnight_def local_day_def ms_per_day_def)

lemma local_day_plus_days [simp]: "local_day tz (plus_days t n) = local_day tz t + n"
proof -
  have "t + n * ms_per_day + tz = (t + tz) + n * ms_per_day" by simp
  then show ?thesis by (simp add: local_day_def plus_days_def ms_per_day_def)
qed

lemma local_midnight_eq_iff: "local_midnight tz a = local_midnight tz b \<longleftrightarrow> local_day tz a = local_day tz b"
  by (simp add: local_midnight_def ms_per_day_def)

lemma local_midnight_le_iff: "local_midnight tz a \<le> local_midnight tz b \<longleftrightarrow> local_day tz a \<le> local_day tz b"
  by (simp add: local_midnight_def ms_per_day_def)

lemma local_midnight_less_iff: "local_midnight tz a < local_midnight tz b \<longleftrightarrow> local_day tz a < local_day tz b"
  by (simp add: local_midnight_def ms_per_day_def)

lemma local_midnight_plus_days: "local_midnight tz (plus_days t n) = plus_days (local_midnight tz t) n"
  using local_day_plus_days [of tz t n]
  by (simp add: local_midnight_def plus_days_def distrib_right)

end
