(* ===== verification/InstructionalDays.thy ===== *)
theory InstructionalDays
  imports JsDate "HOL-Library.AList"
begin

text \<open>
  The school calendar: \<open>src/src/common/utils/instructional-day.util.ts\<close> (which days are
  taught, which weeks of a term are teaching weeks) and
  \<open>src/src/common/utils/term-phase.util.ts\<close> (the phase a term is in). Dates are read in a
  zone of constant offset \<open>tz\<close>. A JavaScript \<open>Map\<close> is an association list kept in insertion
  order, updated in place (\<open>AList.update\<close>).
\<close>

section \<open>Working days and date ranges\<close>

datatype working_day =
  MONDAY | TUESDAY | WEDNESDAY | THURSDAY | FRIDAY | SATURDAY | SUNDAY

definition default_working_days :: "working_day list" where
  "default_working_days = [MONDAY, TUESDAY, WEDNESDAY, THURSDAY, FRIDAY]"

record date_range =
  range_start :: date
  range_end :: date

definition day_names :: "working_day list" where
  "day_names = [SUNDAY, MONDAY, TUESDAY, WEDNESDAY, THURSDAY, FRIDAY, SATURDAY]"

definition start_of_local_day :: "int \<Rightarrow> date \<Rightarrow> date" where
  "start_of_local_day tz d = local_midnight tz d"

definition end_of_local_day :: "int \<Rightarrow> date \<Rightarrow> date" where
  "end_of_local_day tz d = local_day_end tz d"

definition get_working_day_name :: "int \<Rightarrow> date \<Rightarrow> working_day" where
  "get_working_day_name tz d = day_names ! nat (week_day tz d)"

definition is_working_day :: "int \<Rightarrow> date \<Rightarrow> working_day list \<Rightarrow> bool" where
  "is_working_day tz d working_days = (get_working_day_name tz d \<in> set working_days)"

definition is_date_in_range :: "int \<Rightarrow> date \<Rightarrow> date_range option \<Rightarrow> bool" where
  "is_date_in_range tz d rng =
     (case rng of
        None \<Rightarrow> False
      | Some r \<Rightarrow>
          let t = start_of_local_day tz d
          in start_of_local_day tz (range_start r) \<le> t \<and>
             t \<le> start_of_local_day tz (range_end r))"

definition is_in_any_range :: "int \<Rightarrow> date \<Rightarrow> date_range option list \<Rightarrow> bool" where
  "is_in_any_range tz d ranges = list_ex (is_date_in_range tz d) ranges"

text \<open>
  The options object; a missing list is the empty list, which the code treats alike
  (\<open>?.length\<close>).
\<close>

record day_options =
  opt_working_days :: "working_day list"
  opt_term_range :: "date_range option"
  opt_non_instructional :: "date_range option list"

definition effective_working_days :: "working_day list \<Rightarrow> working_day list" where
  "effective_working_days wds = (if wds = [] then default_working_days else wds)"

definition is_instructional_day :: "int \<Rightarrow> date \<Rightarrow> day_options \<Rightarrow> bool" where
  "is_instructional_day tz d options =
     (let working_days = effective_working_days (opt_working_days options)
      in if opt_term_range options \<noteq> None \<and> \<not> is_date_in_range tz d (opt_term_range options)
         then False
         else if \<not> is_working_day tz d working_days then False
         else if opt_non_instructional options \<noteq> [] \<and>
                 is_in_any_range tz d (opt_non_instructional options) then False
         else True)"

definition add_days :: "date \<Rightarrow> int \<Rightarrow> date" where
  "add_days d n = plus_days d n"

section \<open>The loop over the days of a term\<close>

text \<open>
  \<open>for (d = start; d <= end; d = addDays(d, 1))\<close>, the body folded into \<open>acc\<close>.
\<close>

function for_days :: "(date \<Rightarrow> 'a \<Rightarrow> 'a) \<Rightarrow> date \<Rightarrow> date \<Rightarrow> 'a \<Rightarrow> 'a" where
  "for_days body d stop acc =
     (if d \<le> stop then for_days body (add_days d 1) stop (body d acc) else acc)"
  by pat_completeness auto
termination
  by (relation "measure (\<lambda>(body, d, stop, acc). nat (stop + 1 - d))")
    (auto simp: add_days_def plus_days_def ms_per_day_def)

declare for_days.simps [simp del]

definition week_bucket :: "int \<Rightarrow> date \<Rightarrow> date \<Rightarrow> int" where
  "week_bucket tz start d = (start_of_local_day tz d - start) div (7 * 24 * 60 * 60 * 1000)"

section \<open>Teaching weeks of a term\<close>

record teaching_week_info =
  current_teaching_week :: "int option"
  total_teaching_weeks :: int

definition mark_week ::
  "int \<Rightarrow> day_options \<Rightarrow> date \<Rightarrow> date \<Rightarrow> (int \<times> bool) list \<Rightarrow> (int \<times> bool) list" where
  "mark_week tz options start d weeks =
     (let bucket = week_bucket tz start d
      in if is_instructional_day tz d options then AList.update bucket True weeks
         else if map_of weeks bucket = None then AList.update bucket False weeks
         else weeks)"

definition instructional_by_week ::
  "int \<Rightarrow> day_options \<Rightarrow> date \<Rightarrow> date \<Rightarrow> (int \<times> bool) list" where
  "instructional_by_week tz options start stop =
     for_days (mark_week tz options start) start stop []"

definition get_teaching_week_info ::
  "int \<Rightarrow> date \<Rightarrow> date \<Rightarrow> date \<Rightarrow> working_day list \<Rightarrow> date_range option list
    \<Rightarrow> teaching_week_info" where
  "get_teaching_week_info tz term_start term_end as_of wds ranges =
     (let working_days = effective_working_days wds;
          start = start_of_local_day tz term_start;
          stop = start_of_local_day tz term_end;
          as_of_day = start_of_local_day tz as_of;
          options = \<lparr>opt_working_days = working_days,
            opt_term_range = Some \<lparr>range_start = start, range_end = stop\<rparr>,
            opt_non_instructional = ranges\<rparr>;
          weeks = instructional_by_week tz options start stop;
          teaching_buckets = sort (map fst (filter snd weeks));
          total = max 1 (int (length teaching_buckets));
          idx = int (length (filter
            (\<lambda>b. b \<le> (as_of_day - start) div (7 * 24 * 60 * 60 * 1000)) teaching_buckets))
      in \<lparr>current_teaching_week =
            (if start \<le> as_of_day \<and> 0 < idx then Some (min idx total) else None),
          total_teaching_weeks = total\<rparr>)"

definition build_half_term_range :: "int \<Rightarrow> date option \<Rightarrow> date option \<Rightarrow> date_range option" where
  "build_half_term_range tz half_start half_end =
     (case (half_start, half_end) of
        (Some s, Some e) \<Rightarrow>
          Some \<lparr>range_start = start_of_local_day tz s, range_end = end_of_local_day tz e\<rparr>
      | _ \<Rightarrow> None)"

record calendar_event =
  event_type :: string
  event_start :: date
  event_end :: date

definition holiday_ranges_from_events :: "int \<Rightarrow> calendar_event list \<Rightarrow> date_range list" where
  "holiday_ranges_from_events tz events =
     map (\<lambda>e. \<lparr>range_start = start_of_local_day tz (event_start e),
               range_end = end_of_local_day tz (event_end e)\<rparr>)
       (filter (\<lambda>e. event_type e = ''HOLIDAY'') events)"

section \<open>Term phases\<close>

record term_phase_input =
  tp_start :: date
  tp_end :: date
  tp_status :: "string option"
  tp_exam_start :: "date option"
  tp_exam_end :: "date option"
  tp_exam_published_at :: "date option"

definition date_within :: "int \<Rightarrow> date \<Rightarrow> date \<Rightarrow> date \<Rightarrow> bool" where
  "date_within tz d start stop =
     (let t = start_of_local_day tz d
      in start_of_local_day tz start \<le> t \<and> t \<le> start_of_local_day tz stop)"

definition is_term_in_session :: "int \<Rightarrow> term_phase_input \<Rightarrow> date \<Rightarrow> bool" where
  "is_term_in_session tz tm today =
     (if truthy (tp_status tm) \<and> tp_status tm \<noteq> Some ''ACTIVE'' then False
      else date_within tz today (tp_start tm) (tp_end tm))"

definition is_term_past_end_date :: "int \<Rightarrow> term_phase_input \<Rightarrow> date \<Rightarrow> bool" where
  "is_term_past_end_date tz tm today =
     (start_of_local_day tz (tp_end tm) < start_of_local_day tz today)"

definition is_exam_timetable_published :: "term_phase_input \<Rightarrow> bool" where
  "is_exam_timetable_published tm = (tp_exam_published_at tm \<noteq> None)"

definition is_term_in_exam_period :: "int \<Rightarrow> term_phase_input \<Rightarrow> date \<Rightarrow> bool" where
  "is_term_in_exam_period tz tm today =
     (case (tp_exam_start tm, tp_exam_end tm) of
        (Some s, Some e) \<Rightarrow> date_within tz today s e
      | _ \<Rightarrow> False)"

definition is_lesson_schedule_active :: "int \<Rightarrow> term_phase_input \<Rightarrow> date \<Rightarrow> bool \<Rightarrow> bool" where
  "is_lesson_schedule_active tz tm today exam_blackout_enabled =
     (if \<not> is_term_in_session tz tm today then False
      else if exam_blackout_enabled \<and> is_term_in_exam_period tz tm today \<and>
              is_exam_timetable_published tm then False
      else True)"

definition is_exam_schedule_active :: "int \<Rightarrow> term_phase_input \<Rightarrow> date \<Rightarrow> bool" where
  "is_exam_schedule_active tz tm today =
     (is_term_in_exam_period tz tm today \<and> is_exam_timetable_published tm)"

datatype term_phase = PH_NOT_STARTED | PH_IN_SESSION | PH_EXAM_PERIOD | PH_OVERDUE | PH_ENDED

definition is_term_before_start :: "int \<Rightarrow> term_phase_input \<Rightarrow> date \<Rightarrow> bool" where
  "is_term_before_start tz tm today =
     (start_of_local_day tz today < start_of_local_day tz (tp_start tm))"

definition get_term_phase :: "int \<Rightarrow> term_phase_input \<Rightarrow> date \<Rightarrow> term_phase" where
  "get_term_phase tz tm today =
     (if tp_status tm = Some ''COMPLETED'' \<or> tp_status tm = Some ''ARCHIVED'' then PH_ENDED
      else if is_term_before_start tz tm today then PH_NOT_STARTED
      else if is_term_past_end_date tz tm today then PH_OVERDUE
      else if is_exam_schedule_active tz tm today then PH_EXAM_PERIOD
      else PH_IN_SESSION)"

section \<open>Facts: ranges and phases\<close>

lemma is_date_in_range_iff:
  "is_date_in_range tz d (Some r) \<longleftrightarrow>
     local_day tz (range_start r) \<le> local_day tz d \<and> local_day tz d \<le> local_day tz (range_end r)"
  by (simp add: is_date_in_range_def start_of_local_day_def local_midnight_le_iff Let_def)

lemma is_instructional_day_iff:
  "is_instructional_day tz d options \<longleftrightarrow>
     (\<forall>r. opt_term_range options = Some r \<longrightarrow> is_date_in_range tz d (Some r)) \<and>
     get_working_day_name tz d \<in> set (effective_working_days (opt_working_days options)) \<and>
     (\<forall>r \<in> set (opt_non_instructional options). \<not> is_date_in_range tz d r)"
  by (auto simp: is_instructional_day_def is_working_day_def is_in_any_range_def list_ex_iff
      Let_def)

lemma exam_phase_silences_lessons:
  "get_term_phase tz tm today = PH_EXAM_PERIOD \<Longrightarrow>
    is_exam_schedule_active tz tm today \<and> \<not> is_lesson_schedule_active tz tm today True"
  by (auto simp: get_term_phase_def is_exam_schedule_active_def is_lesson_schedule_active_def
      split: if_splits)

lemma session_phase_lessons:
  "tp_status tm = Some ''ACTIVE'' \<Longrightarrow>
    is_lesson_schedule_active tz tm today True \<longleftrightarrow> get_term_phase tz tm today = PH_IN_SESSION"
  by (auto simp: get_term_phase_def is_exam_schedule_active_def is_lesson_schedule_active_def
      is_term_in_session_def date_within_def is_term_before_start_def is_term_past_end_date_def
      Let_def)

section \<open>Facts: the day loop as a fold over day numbers\<close>

definition term_days :: "date \<Rightarrow> date \<Rightarrow> nat" where
  "term_days start stop = nat ((stop - start) div ms_per_day + 1)"

lemma for_days_fold:
  assumes "stop = start + int n * ms_per_day"
  shows "for_days body start stop acc = fold (\<lambda>k. body (plus_days start (int k))) [0..<Suc n] acc"
  using assms
proof (induction n arbitrary: start acc)
  case 0
  have "\<not> add_days start 1 \<le> start" by (simp add: add_days_def plus_days_def ms_per_day_def)
  then show ?case
    using 0 by (simp add: for_days.simps [of body start] for_days.simps [of body "add_days start 1"]
        plus_days_def)
next
  case (Suc n)
  have "start \<le> stop" using Suc.prems by (simp add: ms_per_day_def)
  then have "for_days body start stop acc = for_days body (add_days start 1) stop (body start acc)"
    by (subst for_days.simps) simp
  also have "\<dots> = fold (\<lambda>k. body (plus_days (add_days start 1) (int k))) [0..<Suc n] (body start acc)"
    using Suc.prems by (intro Suc.IH) (simp add: add_days_def plus_days_def distrib_right)
  also have "\<dots> = fold (\<lambda>k. body (plus_days start (int k))) (map Suc [0..<Suc n]) (body start acc)"
    by (simp add: fold_map comp_def add_days_def plus_days_def distrib_right add.assoc
        del: upt_Suc)
  also have "\<dots> = fold (\<lambda>k. body (plus_days start (int k))) [0..<Suc (Suc n)] acc"
    by (simp add: map_Suc_upt upt_conv_Cons plus_days_def del: upt_Suc)
  finally show ?case .
qed

lemma midnight_distance:
  assumes "a = start_of_local_day tz x" "b = start_of_local_day tz y" "a \<le> b"
  shows "b = a + int (nat (local_day tz y - local_day tz x)) * ms_per_day"
  using assms by (simp add: start_of_local_day_def local_midnight_le_iff)
    (simp add: local_midnight_def distrib_right left_diff_distrib)

lemma week_bucket_day:
  assumes "start = start_of_local_day tz x"
  shows "week_bucket tz start (plus_days start (int k)) = int (k div 7)"
proof -
  have "week_bucket tz start (plus_days start (int k)) = int k * ms_per_day div (7 * ms_per_day)"
    using assms by (simp add: week_bucket_def start_of_local_day_def local_midnight_plus_days
        ms_per_day_def) (simp add: plus_days_def ms_per_day_def)
  also have "\<dots> = int k div 7" by (simp add: ms_per_day_def)
  finally show ?thesis by (simp add: zdiv_int)
qed

section \<open>Facts: accumulating per week\<close>

text \<open>
  Both loops of the calendar fold one value per week bucket into a map: \<open>h k old\<close> is the
  bucket's value after day \<open>k\<close>. The map they build lists the buckets in order.
\<close>

definition bucket_value :: "(nat \<Rightarrow> 'v option \<Rightarrow> 'v) \<Rightarrow> nat \<Rightarrow> nat \<Rightarrow> 'v option" where
  "bucket_value h b n = fold (\<lambda>k v. Some (h k v)) (filter (\<lambda>k. k div 7 = b) [0..<n]) None"

lemma bucket_value_0 [simp]: "bucket_value h b 0 = None"
  by (simp add: bucket_value_def)

lemma bucket_value_Suc:
  "bucket_value h b (Suc n) =
     (if n div 7 = b then Some (h n (bucket_value h b n)) else bucket_value h b n)"
  by (simp add: bucket_value_def)

lemma bucket_value_None: "bucket_value h b n = None \<longleftrightarrow> n \<le> 7 * b"
  by (induction n) (auto simp: bucket_value_Suc)

lemma alist_update_append:
  "AList.update k v (xs @ ys) =
     (if k \<in> fst ` set xs then AList.update k v xs @ ys else xs @ AList.update k v ys)"
  by (induction xs) auto

lemma alist_update_upt:
  "b \<le> m \<Longrightarrow> AList.update (int b) v (map (\<lambda>i. (int i, g i)) [0..<m]) =
     map (\<lambda>i. (int i, (g(b := v)) i)) [0..<max m (Suc b)]"
proof (induction m)
  case 0
  then show ?case by simp
next
  case (Suc m)
  show ?case
  proof (cases "b \<le> m")
    case True
    have keys: "int b \<in> fst ` set (map (\<lambda>i. (int i, g i)) [0..<m]) \<longleftrightarrow> b < m"
      by force
    show ?thesis
    proof (cases "b < m")
      case True
      then have eq: "max m (Suc b) = m" "max (Suc m) (Suc b) = Suc m" by simp_all
      have "AList.update (int b) v (map (\<lambda>i. (int i, g i)) [0..<m] @ [(int m, g m)]) =
          map (\<lambda>i. (int i, (g(b := v)) i)) [0..<m] @ [(int m, g m)]"
        using Suc.IH \<open>b \<le> m\<close> keys \<open>b < m\<close>
        by (simp only: alist_update_append eq if_True)
      then show ?thesis using \<open>b < m\<close> unfolding eq by simp
    next
      case False
      with \<open>b \<le> m\<close> have "b = m" by simp
      then show ?thesis using keys by (simp add: alist_update_append)
    qed
  next
    case False
    with Suc.prems have "b = Suc m" by simp
    moreover have "int (Suc m) \<notin> fst ` set (map (\<lambda>i. (int i, g i)) [0..<Suc m])"
      by force
    then have "AList.update (int (Suc m)) v (map (\<lambda>i. (int i, g i)) [0..<Suc m] @ []) =
        map (\<lambda>i. (int i, g i)) [0..<Suc m] @ AList.update (int (Suc m)) v []"
      by (simp only: alist_update_append if_False)
    ultimately show ?thesis by simp
  qed
qed

lemma map_of_upt:
  "map_of (map (\<lambda>i. (int i, g i)) [0..<m]) (int b) = (if b < m then Some (g b) else None)"
  by (induction m) (auto simp: map_add_def less_Suc_eq)

lemma bucket_scan:
  assumes upd: "\<And>k acc. upd k acc =
    AList.update (int (k div 7)) (h k (map_of acc (int (k div 7)))) acc"
  shows "fold upd [0..<n] [] =
    map (\<lambda>b. (int b, the (bucket_value h b n))) [0..<(n + 6) div 7]"
proof (induction n)
  case 0
  then show ?case by simp
next
  case (Suc n)
  let ?m = "(n + 6) div 7" and ?b = "n div 7"
  let ?g = "\<lambda>b. the (bucket_value h b n)"
  have b: "?b \<le> ?m" by simp
  have old: "map_of (map (\<lambda>b. (int b, ?g b)) [0..<?m]) (int ?b) = bucket_value h ?b n"
  proof (cases "?b < ?m")
    case True
    then have "bucket_value h ?b n \<noteq> None" unfolding bucket_value_None by simp
    then show ?thesis using True by (simp add: map_of_upt)
  next
    case False
    then have "n \<le> 7 * ?b" by linarith
    then have "bucket_value h ?b n = None" by (simp only: bucket_value_None)
    then show ?thesis using False by (simp add: map_of_upt)
  qed
  have "fold upd [0..<Suc n] [] = upd n (map (\<lambda>b. (int b, ?g b)) [0..<?m])"
    using Suc.IH by simp
  also have "\<dots> = map (\<lambda>i. (int i, (?g(?b := h n (bucket_value h ?b n))) i)) [0..<max ?m (Suc ?b)]"
    by (simp only: upd old alist_update_upt [OF b])
  also have "max ?m (Suc ?b) = (Suc n + 6) div 7" by linarith
  also have "?g(?b := h n (bucket_value h ?b n)) = (\<lambda>b. the (bucket_value h b (Suc n)))"
    by (auto simp: bucket_value_Suc)
  finally show ?case .
qed

section \<open>Facts: teaching weeks\<close>

text \<open>Day \<open>k\<close> of the term is taught; week \<open>b\<close> of the term (days \<open>7b\<close> to \<open>7b+6\<close>) has a taught day.\<close>

definition taught :: "int \<Rightarrow> day_options \<Rightarrow> date \<Rightarrow> nat \<Rightarrow> bool" where
  "taught tz options start k = is_instructional_day tz (plus_days start (int k)) options"

definition week_taught :: "int \<Rightarrow> day_options \<Rightarrow> date \<Rightarrow> nat \<Rightarrow> nat \<Rightarrow> bool" where
  "week_taught tz options start n b = (\<exists>k<n. k div 7 = b \<and> taught tz options start k)"

definition taught_weeks :: "int \<Rightarrow> day_options \<Rightarrow> date \<Rightarrow> nat \<Rightarrow> nat list" where
  "taught_weeks tz options start n =
     filter (week_taught tz options start n) [0..<(n + 6) div 7]"

lemma sorted_map_int_filter: "sorted (map int (filter P [0..<m]))"
  by (simp add: sorted_map sorted_wrt_filter)

lemma bucket_value_taught:
  "the (bucket_value (\<lambda>k v. p k \<or> v = Some True) b n) \<longleftrightarrow> (\<exists>k<n. k div 7 = b \<and> p k)"
  if "\<not> n \<le> 7 * b"
proof -
  have "bucket_value (\<lambda>k v. p k \<or> v = Some True) b n =
      (if n \<le> 7 * b then None else Some (\<exists>k<n. k div 7 = b \<and> p k))" for n
  proof (induction n)
    case 0
    then show ?case by simp
  next
    case (Suc n)
    have "n \<le> 7 * b \<Longrightarrow> n div 7 = b \<Longrightarrow> n = 7 * b" by linarith
    then show ?case using Suc less_Suc_eq
      by (auto simp: bucket_value_Suc)
  qed
  then show ?thesis using that by simp
qed

lemma instructional_by_week_eq:
  assumes "start = start_of_local_day tz x" "stop = start + int n * ms_per_day"
  shows "instructional_by_week tz options start stop =
    map (\<lambda>b. (int b, week_taught tz options start (Suc n) b)) [0..<(Suc n + 6) div 7]"
proof -
  let ?h = "\<lambda>k v. taught tz options start k \<or> v = Some True"
  have "mark_week tz options start (plus_days start (int k)) acc =
      AList.update (int (k div 7)) (?h k (map_of acc (int (k div 7)))) acc" for k acc
    using week_bucket_day [OF assms(1), of k]
    by (cases "map_of acc (int (k div 7))")
      (auto simp: mark_week_def taught_def Let_def AList.update_triv)
  then have "instructional_by_week tz options start stop =
      map (\<lambda>b. (int b, the (bucket_value ?h b (Suc n)))) [0..<(Suc n + 6) div 7]"
    unfolding instructional_by_week_def for_days_fold [OF assms(2)] by (rule bucket_scan)
  moreover have "the (bucket_value ?h b (Suc n)) = week_taught tz options start (Suc n) b"
    if "b < (Suc n + 6) div 7" for b
  proof -
    from that have "\<not> Suc n \<le> 7 * b" by linarith
    then show ?thesis unfolding week_taught_def by (rule bucket_value_taught)
  qed
  ultimately show ?thesis by simp
qed

lemma teaching_buckets_eq:
  assumes "start = start_of_local_day tz x" "stop = start + int n * ms_per_day"
  shows "sort (map fst (filter snd (instructional_by_week tz options start stop))) =
    map int (taught_weeks tz options start (Suc n))"
proof -
  have "map fst (filter snd (instructional_by_week tz options start stop)) =
      map int (taught_weeks tz options start (Suc n))"
    unfolding instructional_by_week_eq [OF assms] taught_weeks_def
    by (simp add: filter_map comp_def)
  moreover have "sorted (map int (taught_weeks tz options start (Suc n)))"
    unfolding taught_weeks_def by (rule sorted_map_int_filter)
  ultimately show ?thesis by (simp add: sorted_sort_id)
qed

text \<open>
  The specification: the set of week numbers of the term (week \<open>b\<close> holds the term's days
  \<open>7b\<close> to \<open>7b+6\<close>) in which some working day falls outside every holiday range.
\<close>

definition teaching_week_set ::
  "int \<Rightarrow> date \<Rightarrow> date \<Rightarrow> working_day list \<Rightarrow> date_range option list \<Rightarrow> nat set" where
  "teaching_week_set tz ts te wds ranges =
     {b. \<exists>k. b = k div 7 \<and> local_day tz ts + int k \<le> local_day tz te \<and>
          get_working_day_name tz (plus_days ts (int k)) \<in> set (effective_working_days wds) \<and>
          (\<forall>r \<in> set ranges. \<not> is_date_in_range tz (plus_days ts (int k)) r)}"

lemma working_day_name_local:
  "local_day tz a = local_day tz b \<Longrightarrow> get_working_day_name tz a = get_working_day_name tz b"
  by (simp add: get_working_day_name_def week_day_def)

lemma in_range_local:
  "local_day tz a = local_day tz b \<Longrightarrow> is_date_in_range tz a r = is_date_in_range tz b r"
  by (cases r) (simp_all add: is_date_in_range_iff is_date_in_range_def [of _ _ None])

lemma effective_working_days_idem [simp]:
  "effective_working_days (effective_working_days wds) = effective_working_days wds"
  by (simp add: effective_working_days_def default_working_days_def)

lemma taught_iff:
  assumes "start = start_of_local_day tz ts" "stop = start_of_local_day tz te"
  shows "taught tz \<lparr>opt_working_days = effective_working_days wds,
      opt_term_range = Some \<lparr>range_start = start, range_end = stop\<rparr>,
      opt_non_instructional = ranges\<rparr> start k \<longleftrightarrow>
    local_day tz ts + int k \<le> local_day tz te \<and>
    get_working_day_name tz (plus_days ts (int k)) \<in> set (effective_working_days wds) \<and>
    (\<forall>r \<in> set ranges. \<not> is_date_in_range tz (plus_days ts (int k)) r)"
proof -
  have eq: "local_day tz (plus_days start (int k)) = local_day tz (plus_days ts (int k))"
    using assms by (simp add: start_of_local_day_def)
  show ?thesis
    unfolding taught_def is_instructional_day_iff
    using assms by (simp add: is_date_in_range_iff start_of_local_day_def
        working_day_name_local [OF eq [unfolded assms start_of_local_day_def]]
        in_range_local [OF eq [unfolded assms start_of_local_day_def]])
qed

lemma week_set_eq:
  assumes "\<And>k. p k \<and> q k \<Longrightarrow> k < Suc n"
  shows "set (filter (\<lambda>b. \<exists>k<Suc n. k div 7 = b \<and> p k \<and> q k) [0..<(Suc n + 6) div 7]) =
    {b. \<exists>k. b = k div 7 \<and> p k \<and> q k}"
proof -
  have "k < Suc n \<Longrightarrow> k div 7 < (Suc n + 6) div 7" for k by linarith
  then show ?thesis using assms by (fastforce simp del: upt_Suc)
qed

lemma taught_weeks_set:
  assumes "start = start_of_local_day tz ts" "stop = start_of_local_day tz te"
    and "local_day tz ts \<le> local_day tz te"
  shows "set (taught_weeks tz \<lparr>opt_working_days = effective_working_days wds,
      opt_term_range = Some \<lparr>range_start = start, range_end = stop\<rparr>,
      opt_non_instructional = ranges\<rparr> start (Suc (nat (local_day tz te - local_day tz ts)))) =
    teaching_week_set tz ts te wds ranges"
  unfolding taught_weeks_def week_taught_def teaching_week_set_def taught_iff [OF assms(1,2)]
  by (rule week_set_eq) (use assms(3) in linarith)

lemma distinct_taught_weeks [simp]: "distinct (taught_weeks tz options start n)"
  by (simp add: taught_weeks_def)

lemma length_filter_distinct: "distinct xs \<Longrightarrow> length (filter P xs) = card {x \<in> set xs. P x}"
  by (metis distinct_card distinct_filter set_filter)

lemma as_of_bucket:
  "(start_of_local_day tz x - start_of_local_day tz ts) div (7 * 24 * 60 * 60 * 1000) =
    (local_day tz x - local_day tz ts) div 7"
proof -
  have "start_of_local_day tz x - start_of_local_day tz ts =
      (local_day tz x - local_day tz ts) * ms_per_day"
    by (simp add: start_of_local_day_def local_midnight_def left_diff_distrib)
  then show ?thesis by (simp add: ms_per_day_def)
qed

lemma filter_int_map: "length (filter (\<lambda>b. b \<le> c) (map int xs)) = length (filter (\<lambda>b. int b \<le> c) xs)"
  by (induction xs) auto

text \<open>
  The teaching-week counter of a term. The total is the number of weeks of the term
  with at least one taught day (1 when there is none), and the current week is the number
  of such weeks up to the week of the given day, None before the first of them.
\<close>

theorem teaching_week_info_correct:
  assumes "local_day tz ts \<le> local_day tz te"
  shows "get_teaching_week_info tz ts te as_of wds ranges =
    \<lparr>current_teaching_week =
       (let w = card {b \<in> teaching_week_set tz ts te wds ranges.
                       int b \<le> (local_day tz as_of - local_day tz ts) div 7}
        in if w = 0 then None else Some (int w)),
     total_teaching_weeks = max 1 (int (card (teaching_week_set tz ts te wds ranges)))\<rparr>"
proof -
  let ?start = "start_of_local_day tz ts" and ?stop = "start_of_local_day tz te"
  let ?n = "nat (local_day tz te - local_day tz ts)"
  let ?o = "\<lparr>opt_working_days = effective_working_days wds,
      opt_term_range = Some \<lparr>range_start = ?start, range_end = ?stop\<rparr>,
      opt_non_instructional = ranges\<rparr>"
  let ?W = "taught_weeks tz ?o ?start (Suc ?n)"
  let ?c = "(local_day tz as_of - local_day tz ts) div 7"
  have le: "?start \<le> ?stop"
    using assms by (simp add: start_of_local_day_def local_midnight_le_iff)
  have buckets: "sort (map fst (filter snd (instructional_by_week tz ?o ?start ?stop))) = map int ?W"
    by (rule teaching_buckets_eq [OF refl]) (rule midnight_distance [OF refl refl le])
  have set_W: "set ?W = teaching_week_set tz ts te wds ranges"
    by (rule taught_weeks_set [OF refl refl assms])
  have len: "length ?W = card (teaching_week_set tz ts te wds ranges)"
    using distinct_card [of ?W] set_W by simp
  have idx: "length (filter (\<lambda>b. int b \<le> ?c) ?W) =
      card {b \<in> teaching_week_set tz ts te wds ranges. int b \<le> ?c}"
    using length_filter_distinct [of ?W "\<lambda>b. int b \<le> ?c"] set_W by simp
  have before: "\<not> ?start \<le> start_of_local_day tz as_of \<Longrightarrow> filter (\<lambda>b. int b \<le> ?c) ?W = []"
    by (auto simp: start_of_local_day_def local_midnight_le_iff filter_empty_conv)
  have "length (filter (\<lambda>b. int b \<le> ?c) ?W) \<le> length ?W" by simp
  then have bound: "min (int (length (filter (\<lambda>b. int b \<le> ?c) ?W))) (max 1 (int (length ?W))) =
      int (length (filter (\<lambda>b. int b \<le> ?c) ?W))"
    by (intro min_absorb1) (simp add: le_max_iff_disj)
  show ?thesis
    unfolding get_teaching_week_info_def Let_def buckets as_of_bucket filter_int_map length_map
    unfolding idx [symmetric] len [symmetric] bound
    using before by (cases "?start \<le> start_of_local_day tz as_of") auto
qed

theorem teaching_week_info_correct_witness:
  "get_teaching_week_info 0 0 (20 * ms_per_day) (8 * ms_per_day) [] [] =
    \<lparr>current_teaching_week =
       (let w = card {b \<in> teaching_week_set 0 0 (20 * ms_per_day) [] [].
                       int b \<le> (local_day 0 (8 * ms_per_day) - local_day 0 0) div 7}
        in if w = 0 then None else Some (int w)),
     total_teaching_weeks = max 1 (int (card (teaching_week_set 0 0 (20 * ms_per_day) [] [])))\<rparr>"
  by (rule teaching_week_info_correct) (simp add: local_day_def ms_per_day_def)

text \<open>
  The phases of a term agree with its schedules. In the exam phase the exam timetable
  is live and, with the blackout on, lessons are not; for a term whose status is ACTIVE the
  lesson timetable is live exactly in the session phase.
\<close>

theorem term_phase_schedules:
  assumes "tp_status tm = Some ''ACTIVE''"
  shows "is_lesson_schedule_active tz tm today True = (get_term_phase tz tm today = PH_IN_SESSION)
    \<and> (get_term_phase tz tm today = PH_EXAM_PERIOD) =
       (is_exam_schedule_active tz tm today \<and> is_term_in_session tz tm today)
    \<and> \<not> (is_lesson_schedule_active tz tm today True \<and> is_exam_schedule_active tz tm today)"
  using assms
  by (auto simp: get_term_phase_def is_exam_schedule_active_def is_lesson_schedule_active_def
      is_term_in_session_def date_within_def is_term_before_start_def is_term_past_end_date_def
      Let_def)

definition sample_term :: term_phase_input where
  "sample_term = \<lparr>tp_start = 0, tp_end = 90 * 86400000, tp_status = Some ''ACTIVE'',
     tp_exam_start = Some (80 * 86400000), tp_exam_end = Some (90 * 86400000),
     tp_exam_published_at = Some (70 * 86400000)\<rparr>"

theorem term_phase_schedules_witness:
  "is_lesson_schedule_active 0 sample_term (85 * 86400000) True =
      (get_term_phase 0 sample_term (85 * 86400000) = PH_IN_SESSION)
    \<and> (get_term_phase 0 sample_term (85 * 86400000) = PH_EXAM_PERIOD) =
       (is_exam_schedule_active 0 sample_term (85 * 86400000) \<and>
        is_term_in_session 0 sample_term (85 * 86400000))
    \<and> \<not> (is_lesson_schedule_active 0 sample_term (85 * 86400000) True \<and>
           is_exam_schedule_active 0 sample_term (85 * 86400000))"
  by (rule term_phase_schedules) (simp add: sample_term_def)

end
