(* ===== verification/SchemePacker.thy ===== *)
theory SchemePacker
  imports InstructionalDays
begin

text \<open>
  Scheme-of-work packing, \<open>src/src/schools/curriculum/scheme-calendar-packer.util.ts\<close>: the
  instructional weeks of a term, the three packers that lay topics on them, the coverage
  counters and the flattening of a packed week. The JavaScript arrays of week objects that
  alias each other (\<open>contentSlots\<close>, \<open>revisionSlots\<close> and \<open>examSlots\<close> hold references into
  \<open>packed\<close>) are lists of indices into \<open>packed\<close>; a push through a reference updates the
  entry at its index. What the calendar promises to the packers is stated in \<open>SchemeGrid\<close>.
\<close>

section \<open>Data\<close>

record packable_topic =
  pt_stable_key :: string
  pt_agora_topic_id :: "string option"
  pt_school_topic_id :: "string option"
  pt_title :: string
  pt_topic :: "string option"
  pt_description :: "string option"
  pt_sub_topics :: "string list"
  pt_learning_outcomes :: "string list"
  pt_student_outcomes :: "string list"
  pt_activities :: "string list"
  pt_resources :: "string list"
  pt_assessment_type :: "string option"
  pt_week_number :: "int option"
  pt_order :: "int option"
  pt_is_revision :: bool
  pt_is_exam :: bool

datatype slot_kind = CONTENT | REVISION | EXAM | CATCH_UP

record packed_week =
  pw_week_number :: int
  pw_start :: "date option"
  pw_end :: "date option"
  pw_kind :: slot_kind
  pw_topics :: "packable_topic list"
  pw_source_id :: "string option"

record week_range =
  wr_week_number :: int
  wr_start :: date
  wr_end :: date

record content_week =
  cw_id :: "string option"
  cw_topic :: string
  cw_sub_topics :: "string list"
  cw_learning_outcomes :: "string list"
  cw_student_outcomes :: "string list"
  cw_activities :: "string list"
  cw_resources :: "string list"
  cw_assessment_type :: "string option"
  cw_topics :: "packable_topic list"

datatype calendar_mismatch = ALIGNED | SHORT | LONG

record calendar_coverage =
  cov_instructional_weeks :: int
  cov_plan_weeks :: int
  cov_unscheduled_weeks :: int
  cov_buffer_weeks :: int
  cov_mismatch :: calendar_mismatch

section \<open>Coverage counters\<close>

definition catch_up_assessment :: string where
  "catch_up_assessment = ''CATCH_UP''"

definition is_catch_up_assessment :: "string option \<Rightarrow> bool" where
  "is_catch_up_assessment a = (to_upper (nullish (or_undefined a) []) = catch_up_assessment)"

definition compute_calendar_coverage :: "int \<Rightarrow> int \<Rightarrow> int \<Rightarrow> int \<Rightarrow> calendar_coverage" where
  "compute_calendar_coverage instructional plan unscheduled buffer =
     \<lparr>cov_instructional_weeks = instructional, cov_plan_weeks = plan,
      cov_unscheduled_weeks = unscheduled, cov_buffer_weeks = buffer,
      cov_mismatch = (if 0 < unscheduled then SHORT else if 0 < buffer then LONG else ALIGNED)\<rparr>"

record stored_week =
  sw_assessment_type :: "string option"
  sw_calendar_start :: "date option"

definition coverage_from_stored_weeks ::
  "stored_week list \<Rightarrow> int option \<Rightarrow> calendar_coverage" where
  "coverage_from_stored_weeks weeks instructional =
     (let buffer = int (count_where (\<lambda>w. is_catch_up_assessment (sw_assessment_type w)) weeks);
          plan = int (length weeks) - buffer;
          unscheduled = int (count_where (\<lambda>w. \<not> is_catch_up_assessment (sw_assessment_type w) \<and>
            sw_calendar_start w = None) weeks);
          dated = int (count_where (\<lambda>w. sw_calendar_start w \<noteq> None) weeks)
      in compute_calendar_coverage (nullish instructional dated) plan unscheduled buffer)"

section \<open>Instructional weeks of a term\<close>

text \<open>The map entry of a bucket: first day, last day so far, and whether a day of it is taught.\<close>

type_synonym week_entry = "date \<times> date \<times> bool"

definition extend_week ::
  "int \<Rightarrow> day_options \<Rightarrow> date \<Rightarrow> date \<Rightarrow> (int \<times> week_entry) list \<Rightarrow> (int \<times> week_entry) list" where
  "extend_week tz options start d buckets =
     (let bucket = week_bucket tz start d;
          instructional = is_instructional_day tz d options;
          day = start_of_local_day tz d
      in case map_of buckets bucket of
           None \<Rightarrow> AList.update bucket (day, day, instructional) buckets
         | Some (s, e, has) \<Rightarrow> AList.update bucket (s, day, has \<or> instructional) buckets)"

definition build_instructional_week_ranges ::
  "int \<Rightarrow> date \<Rightarrow> date \<Rightarrow> working_day list \<Rightarrow> date_range option list \<Rightarrow> week_range list" where
  "build_instructional_week_ranges tz term_start term_end wds ranges =
     (let start = start_of_local_day tz term_start;
          stop = start_of_local_day tz term_end;
          options = \<lparr>opt_working_days = effective_working_days wds,
            opt_term_range = Some \<lparr>range_start = start, range_end = stop\<rparr>,
            opt_non_instructional = ranges\<rparr>;
          buckets = for_days (extend_week tz options start) start stop [];
          taught = sort_key fst (filter (\<lambda>(b, s, e, has). has) buckets)
      in map (\<lambda>(i, b, s, e, has).
           \<lparr>wr_week_number = int i + 1, wr_start = s, wr_end = e\<rparr>) (List.enumerate 0 taught))"

section \<open>Revision and exam topics\<close>

definition is_word_char :: "char \<Rightarrow> bool" where
  "is_word_char c = (is_upper_char c \<or> is_lower_char c \<or> is_digit_char c \<or> c = CHR ''_'')"

text \<open>The regular expression \<open>\b(p)\b\<close> for a literal \<open>p\<close> that starts and ends with a word character.\<close>

fun contains_word_from :: "bool \<Rightarrow> string \<Rightarrow> string \<Rightarrow> bool" where
  "contains_word_from prev_word p [] = False"
| "contains_word_from prev_word p (c # s) =
     ((\<not> prev_word \<and> starts_with (c # s) p \<and>
       (case drop (length p) (c # s) of [] \<Rightarrow> True | d # _ \<Rightarrow> \<not> is_word_char d)) \<or>
      contains_word_from (is_word_char c) p s)"

definition matches_any_word :: "string list \<Rightarrow> string \<Rightarrow> bool" where
  "matches_any_word ps s = list_ex (\<lambda>p. contains_word_from False p s) ps"

definition topic_text :: "packable_topic \<Rightarrow> string" where
  "topic_text t = to_lower (pt_title t @ '' '' @ nullish (or_undefined (pt_topic t)) [])"

definition looks_like_revision :: "packable_topic \<Rightarrow> bool" where
  "looks_like_revision t =
     (if pt_is_revision t then True
      else matches_any_word
        [''revision'', ''review'', ''recap'', ''mid-term'', ''mid term'', ''midterm'']
        (topic_text t))"

definition looks_like_exam :: "packable_topic \<Rightarrow> bool" where
  "looks_like_exam t =
     (if pt_is_exam t then True
      else matches_any_word [''exam'', ''examination''] (topic_text t))"

section \<open>The calendar packer\<close>

text \<open>\<open>slots[i].topics.push(t)\<close> through the slot's index in \<open>packed\<close>.\<close>

definition push_topic :: "nat \<Rightarrow> packable_topic \<Rightarrow> packed_week list \<Rightarrow> packed_week list" where
  "push_topic i t packed = packed[i := (packed ! i)\<lparr>pw_topics := pw_topics (packed ! i) @ [t]\<rparr>]"

text \<open>\<open>items.forEach((t, i) => ...)\<close> with the slot chosen by the item's position.\<close>

definition push_each ::
  "(nat \<Rightarrow> nat) \<Rightarrow> (nat \<times> packable_topic) list \<Rightarrow> packed_week list \<Rightarrow> packed_week list" where
  "push_each dest items packed = fold (\<lambda>(i, t). push_topic (dest i) t) items packed"

definition place ::
  "nat list \<Rightarrow> packable_topic list \<Rightarrow> nat list \<Rightarrow> packed_week list \<Rightarrow> packed_week list" where
  "place content_slots items slots packed =
     (let n = length slots; numbered = List.enumerate 0 items
      in if slots = [] then
           let fallback = (if content_slots \<noteq> [] then content_slots else [0..<length packed])
           in push_each (\<lambda>i. fallback ! min i (length fallback - 1)) numbered packed
         else if length items \<le> n then push_each (\<lambda>i. slots ! i) numbered packed
         else
           let extra = length items - n;
               spread = push_each (\<lambda>i. if i < n then slots ! i
                 else slots ! nat (max 0 (int n - 1 - int ((i - n) mod max 1 extra)))) numbered packed
           in push_each (\<lambda>i. slots ! (n - 1)) (drop n numbered) spread)"

definition order_key :: "packable_topic \<Rightarrow> int" where
  "order_key t = nullish (pt_order t) (nullish (pt_week_number t) 0)"

definition slots_of_kind :: "slot_kind \<Rightarrow> packed_week list \<Rightarrow> nat list" where
  "slots_of_kind k packed = filter (\<lambda>i. pw_kind (packed ! i) = k) [0..<length packed]"

definition blank_week :: "week_range \<Rightarrow> packed_week" where
  "blank_week w = \<lparr>pw_week_number = wr_week_number w, pw_start = Some (wr_start w),
     pw_end = Some (wr_end w), pw_kind = CONTENT, pw_topics = [], pw_source_id = None\<rparr>"

text \<open>The grid before any topic is placed: the exam slot last, the revision slot before it.\<close>

definition mark_slots ::
  "packable_topic list \<Rightarrow> packable_topic list \<Rightarrow> packed_week list \<Rightarrow> packed_week list" where
  "mark_slots exam_topics revision_topics packed =
     (let n = length packed;
          packed = (if 1 \<le> n \<and> exam_topics \<noteq> []
            then packed[n - 1 := (packed ! (n - 1))\<lparr>pw_kind := EXAM\<rparr>] else packed)
      in if 2 \<le> n \<and> revision_topics \<noteq> [] then
           let r = (if 7 \<le> n then min 6 (n - 2) else n - 2)
           in if pw_kind (packed ! r) = CONTENT
              then packed[r := (packed ! r)\<lparr>pw_kind := REVISION\<rparr>] else packed
         else packed)"

definition pack_topics_onto_calendar ::
  "packable_topic list \<Rightarrow> week_range list \<Rightarrow> http_error + packed_week list" where
  "pack_topics_onto_calendar topics week_ranges =
     (if week_ranges = [] then Inl (JsError ''TERM_HAS_NO_INSTRUCTIONAL_WEEKS'')
      else
        let ordered = sort_key order_key topics;
            exam_topics = filter looks_like_exam ordered;
            revision_topics = filter (\<lambda>t. looks_like_revision t \<and> \<not> looks_like_exam t) ordered;
            content_topics = filter (\<lambda>t. \<not> looks_like_exam t \<and> \<not> looks_like_revision t) ordered;
            packed = mark_slots exam_topics revision_topics (map blank_week week_ranges);
            content_slots = slots_of_kind CONTENT packed;
            revision_slots = slots_of_kind REVISION packed;
            exam_slots = slots_of_kind EXAM packed;
            numbered = List.enumerate 0 content_topics;
            with_content =
              (if content_topics \<noteq> [] \<and> content_slots \<noteq> [] then
                 push_each (\<lambda>i. if i < length content_slots then content_slots ! i
                   else content_slots ! (length content_slots - 1)) numbered packed
               else if content_topics \<noteq> [] then
                 push_each (\<lambda>i. min i (length packed - 1)) numbered packed
               else packed);
            with_revision = place content_slots revision_topics revision_slots with_content
        in Inr (place content_slots exam_topics exam_slots with_revision))"

section \<open>The packers that keep week numbers\<close>

definition dates_within_term ::
  "int \<Rightarrow> week_range option \<Rightarrow> date option \<Rightarrow> (date \<times> date) option" where
  "dates_within_term tz rng term_end =
     (case rng of
        None \<Rightarrow> None
      | Some r \<Rightarrow>
          (case term_end of
             Some te \<Rightarrow> if start_of_local_day tz te < start_of_local_day tz (wr_start r) then None
                        else Some (wr_start r, wr_end r)
           | None \<Rightarrow> Some (wr_start r, wr_end r)))"

text \<open>\<open>new Map(weekRanges.map(w => [w.weekNumber, w]))\<close>: a later range with the same number wins.\<close>

definition range_by_number :: "week_range list \<Rightarrow> int \<Rightarrow> week_range option" where
  "range_by_number ranges = map_of (rev (map (\<lambda>w. (wr_week_number w, w)) ranges))"

function next_free :: "int list \<Rightarrow> int \<Rightarrow> int" where
  "next_free used n = (if n \<in> set used then next_free used (n + 1) else n)"
  by pat_completeness auto
termination
proof (relation "measure (\<lambda>(used, n). card {x \<in> set used. n \<le> x})")
  fix used :: "int list" and n :: int
  assume "n \<in> set used"
  then have "n \<in> {x \<in> set used. n \<le> x} - {x \<in> set used. n + 1 \<le> x}" by simp
  moreover have "{x \<in> set used. n + 1 \<le> x} \<subseteq> {x \<in> set used. n \<le> x}" by auto
  ultimately have "{x \<in> set used. n + 1 \<le> x} \<subset> {x \<in> set used. n \<le> x}" by blast
  then show "((used, n + 1), used, n) \<in> measure (\<lambda>(used, n). card {x \<in> set used. n \<le> x})"
    by (simp add: psubset_card_mono)
qed simp

declare next_free.simps [simp del]

definition choose_week_number :: "nat \<Rightarrow> packable_topic \<Rightarrow> int list \<Rightarrow> int" where
  "choose_week_number i t used =
     (let w = (case pt_week_number t of Some n \<Rightarrow> if 0 < n then n else int i + 1
                                      | None \<Rightarrow> int i + 1)
      in if w \<in> set used then next_free used (int i + 1) else w)"

definition topic_kind :: "packable_topic \<Rightarrow> slot_kind" where
  "topic_kind t =
     (if looks_like_exam t then EXAM else if looks_like_revision t then REVISION else CONTENT)"

text \<open>\<open>ordered.map((topic, i) => ...)\<close>, threading the set of numbers in use.\<close>

fun number_topics ::
  "int \<Rightarrow> week_range list \<Rightarrow> date option \<Rightarrow> nat \<Rightarrow> packable_topic list \<Rightarrow> int list
    \<Rightarrow> packed_week list \<times> int list" where
  "number_topics tz ranges term_end i [] used = ([], used)"
| "number_topics tz ranges term_end i (t # ts) used =
     (let w = choose_week_number i t used;
          bounded = dates_within_term tz (range_by_number ranges w) term_end;
          (rest, used') = number_topics tz ranges term_end (Suc i) ts (w # used)
      in (\<lparr>pw_week_number = w, pw_start = map_option fst bounded, pw_end = map_option snd bounded,
           pw_kind = topic_kind t, pw_topics = [t], pw_source_id = None\<rparr> # rest, used'))"

definition catch_up_week :: "week_range \<Rightarrow> date \<times> date \<Rightarrow> packed_week" where
  "catch_up_week r bounded = \<lparr>pw_week_number = wr_week_number r, pw_start = Some (fst bounded),
     pw_end = Some (snd bounded), pw_kind = CATCH_UP, pw_topics = [], pw_source_id = None\<rparr>"

definition pack_library_topics_preserve_weeks ::
  "int \<Rightarrow> packable_topic list \<Rightarrow> week_range list \<Rightarrow> date option \<Rightarrow> packed_week list" where
  "pack_library_topics_preserve_weeks tz topics week_ranges term_end =
     (let ordered = sort_key (\<lambda>t. nullish (pt_week_number t) (nullish (pt_order t) 0)) topics;
          (packed, used) = number_topics tz week_ranges term_end 0 ordered [];
          leftover = filter (\<lambda>w. wr_week_number w \<notin> set used) week_ranges;
          extra = List.map_filter (\<lambda>r. map_option (catch_up_week r)
            (dates_within_term tz (Some r) term_end)) leftover
      in sort_key pw_week_number (packed @ extra))"

definition stub_topic :: "nat \<Rightarrow> content_week \<Rightarrow> packable_topic" where
  "stub_topic i w =
     \<lparr>pt_stable_key = (if truthy (cw_id w) then ''keep:'' @ the (cw_id w)
        else ''new:'' @ show_nat i),
      pt_agora_topic_id = (case cw_topics w of [] \<Rightarrow> None | t # _ \<Rightarrow> pt_agora_topic_id t),
      pt_school_topic_id = (case cw_topics w of [] \<Rightarrow> None | t # _ \<Rightarrow> pt_school_topic_id t),
      pt_title = cw_topic w, pt_topic = None, pt_description = None,
      pt_sub_topics = cw_sub_topics w, pt_learning_outcomes = cw_learning_outcomes w,
      pt_student_outcomes = cw_student_outcomes w, pt_activities = cw_activities w,
      pt_resources = cw_resources w,
      pt_assessment_type = (if is_catch_up_assessment (cw_assessment_type w) then None
        else or_undefined (cw_assessment_type w)),
      pt_week_number = None, pt_order = None, pt_is_revision = False, pt_is_exam = False\<rparr>"

definition restamp_week ::
  "int \<Rightarrow> week_range list \<Rightarrow> date option \<Rightarrow> nat \<times> content_week \<Rightarrow> packed_week" where
  "restamp_week tz ranges term_end = (\<lambda>(i, w).
     let n = int i + 1;
         bounded = dates_within_term tz (range_by_number ranges n) term_end;
         stub = stub_topic i w
     in \<lparr>pw_week_number = n, pw_start = map_option fst bounded, pw_end = map_option snd bounded,
         pw_kind = topic_kind stub,
         pw_topics = (if cw_topics w \<noteq> [] then cw_topics w else [stub]),
         pw_source_id = or_undefined (cw_id w)\<rparr>)"

fun append_leftover ::
  "int \<Rightarrow> date option \<Rightarrow> week_range list \<Rightarrow> int list \<Rightarrow> packed_week list" where
  "append_leftover tz term_end [] used = []"
| "append_leftover tz term_end (r # rs) used =
     (if wr_week_number r \<in> set used then append_leftover tz term_end rs used
      else case dates_within_term tz (Some r) term_end of
             None \<Rightarrow> append_leftover tz term_end rs used
           | Some bounded \<Rightarrow>
               catch_up_week r bounded # append_leftover tz term_end rs (wr_week_number r # used))"

definition restamp_content_weeks_onto_calendar ::
  "int \<Rightarrow> content_week list \<Rightarrow> week_range list \<Rightarrow> date option \<Rightarrow> http_error + packed_week list" where
  "restamp_content_weeks_onto_calendar tz content_weeks week_ranges term_end =
     (if content_weeks = [] then Inl (JsError ''SCHEME_HAS_NO_CONTENT_WEEKS'')
      else
        let packed = map (restamp_week tz week_ranges term_end) (List.enumerate 0 content_weeks)
        in Inr (sort_key pw_week_number
             (packed @ append_leftover tz term_end week_ranges (map pw_week_number packed))))"

section \<open>Flattening\<close>

record flat_week =
  fw_topic :: string
  fw_sub_topics :: "string list"
  fw_learning_outcomes :: "string list"
  fw_student_outcomes :: "string list"
  fw_activities :: "string list"
  fw_resources :: "string list"
  fw_assessment_type :: "string option"

definition flatten_content_week :: "content_week \<Rightarrow> flat_week" where
  "flatten_content_week w =
     \<lparr>fw_topic = (if trim (cw_topic w) = [] then ''Untitled topic'' else trim (cw_topic w)),
      fw_sub_topics = cw_sub_topics w, fw_learning_outcomes = cw_learning_outcomes w,
      fw_student_outcomes = (if cw_student_outcomes w \<noteq> [] then cw_student_outcomes w
        else cw_learning_outcomes w),
      fw_activities = cw_activities w, fw_resources = cw_resources w,
      fw_assessment_type = (if is_catch_up_assessment (cw_assessment_type w) then None
        else or_undefined (cw_assessment_type w))\<rparr>"

definition flatten_packed_week_topic :: "packed_week \<Rightarrow> flat_week" where
  "flatten_packed_week_topic w =
     (if pw_kind w = CATCH_UP then
        \<lparr>fw_topic = ''Catch-up / revision'', fw_sub_topics = [],
         fw_learning_outcomes =
           [''Use this week to finish outstanding topics, revise, or sit remaining assessments.''],
         fw_student_outcomes = [''I can catch up on work from earlier weeks.''],
         fw_activities = [''Review incomplete topics'', ''Targeted practice'', ''Past-question drill''],
         fw_resources = [], fw_assessment_type = Some catch_up_assessment\<rparr>
      else
        let titles = filter (\<lambda>t. t \<noteq> []) (map pt_title (pw_topics w))
        in \<lparr>fw_topic = (if join_with '' / '' titles = [] then ''Week '' @ show_int (pw_week_number w)
              else join_with '' / '' titles),
            fw_sub_topics = concat (map pt_sub_topics (pw_topics w)),
            fw_learning_outcomes = concat (map pt_learning_outcomes (pw_topics w)),
            fw_student_outcomes = concat (map pt_student_outcomes (pw_topics w)),
            fw_activities = concat (map pt_activities (pw_topics w)),
            fw_resources = concat (map pt_resources (pw_topics w)),
            fw_assessment_type = (case pw_topics w of [] \<Rightarrow> None
              | t # _ \<Rightarrow> or_undefined (pt_assessment_type t))\<rparr>)"

section \<open>Facts: the instructional weeks\<close>

definition week_span :: "date \<Rightarrow> nat \<Rightarrow> nat \<Rightarrow> date \<times> date" where
  "week_span start n b = (plus_days start (7 * int b), plus_days start (int (min (7 * b + 6) n)))"

lemma ex_week_Suc:
  "(\<exists>k<Suc n. k div 7 = b \<and> p k) \<longleftrightarrow> (\<exists>k<n. k div 7 = b \<and> p k) \<or> n div 7 = b \<and> p n"
  for b n :: nat
  using less_Suc_eq by auto

lemma week_span_first: "week_span start (7 * b) b = (plus_days start (7 * int b), plus_days start (7 * int b))"
  by (simp add: week_span_def)

lemma week_span_fst: "fst (week_span start n b) = plus_days start (7 * int b)"
  by (simp add: week_span_def)

lemma week_span_within: "n \<le> 7 * b + 6 \<Longrightarrow> snd (week_span start n b) = plus_days start (int n)"
  by (simp add: week_span_def)

lemma week_span_after: "7 * b + 6 \<le> n \<Longrightarrow> snd (week_span start n b) = plus_days start (7 * int b + 6)"
  by (simp add: week_span_def min_def)

lemma bucket_value_span:
  "bucket_value (\<lambda>k v. case v of None \<Rightarrow> (plus_days start (int k), plus_days start (int k), p k)
        | Some (s, e, has) \<Rightarrow> (s, plus_days start (int k), has \<or> p k)) b n =
    (if n \<le> 7 * b then None
     else Some (fst (week_span start (n - 1) b), snd (week_span start (n - 1) b),
                \<exists>k<n. k div 7 = b \<and> p k))"
proof (induction n)
  case 0
  then show ?case by simp
next
  case (Suc n)
  consider "n < 7 * b" | "n = 7 * b" | "7 * b < n" "n \<le> 7 * b + 6" | "7 * b + 6 < n" by linarith
  then show ?case
  proof cases
    case 1
    then have "n div 7 \<noteq> b" by linarith
    then show ?thesis using Suc 1 by (simp add: bucket_value_Suc)
  next
    case 2
    then have no: "(\<exists>k<7 * b. k div 7 = b \<and> p k) = False" by auto
    show ?thesis using Suc 2
      by (simp add: bucket_value_Suc ex_week_Suc week_span_first no)
  next
    case 3
    then have "n div 7 = b" by linarith
    then show ?thesis using Suc 3
      by (simp add: bucket_value_Suc ex_week_Suc week_span_fst week_span_within)
  next
    case 4
    then have "n div 7 \<noteq> b" by linarith
    then show ?thesis using Suc 4
      by (simp add: bucket_value_Suc ex_week_Suc week_span_fst week_span_after)
  qed
qed

lemma week_span_end:
  assumes "stop = start + int n * ms_per_day"
  shows "snd (week_span start n b) = min (plus_days start (7 * int b + 6)) stop"
  using assms by (simp add: week_span_def plus_days_def ms_per_day_def min_def)

lemma sort_key_map_filter_id:
  "sort_key fst (filter P (map (\<lambda>b. (int b, g b)) [0..<m])) =
    filter P (map (\<lambda>b. (int b, g b)) [0..<m])"
proof -
  have "map fst (filter P (map (\<lambda>b. (int b, g b)) [0..<m])) =
      map int (filter (\<lambda>b. P (int b, g b)) [0..<m])"
    by (simp add: filter_map comp_def)
  then have "sorted (map fst (filter P (map (\<lambda>b. (int b, g b)) [0..<m])))"
    by (simp only: sorted_map_int_filter)
  then show ?thesis by (rule sort_key_id_if_sorted)
qed

lemma enumerate_map_second: "List.enumerate i (map f xs) = map (\<lambda>(j, x). (j, f x)) (List.enumerate i xs)"
  by (induction xs arbitrary: i) auto

lemma week_buckets_eq:
  assumes "start = start_of_local_day tz x" "stop = start + int n * ms_per_day"
  shows "for_days (extend_week tz options start) start stop [] =
    map (\<lambda>b. (int b, fst (week_span start n b), snd (week_span start n b),
      week_taught tz options start (Suc n) b)) [0..<(Suc n + 6) div 7]"
proof -
  let ?h = "\<lambda>k v. case v of
      None \<Rightarrow> (plus_days start (int k), plus_days start (int k), taught tz options start k)
    | Some (s, e, has) \<Rightarrow> (s, plus_days start (int k), has \<or> taught tz options start k)"
  have mid: "start_of_local_day tz (plus_days start (int k)) = plus_days start (int k)" for k
    using assms(1) by (simp add: start_of_local_day_def local_midnight_plus_days)
  have "extend_week tz options start (plus_days start (int k)) acc =
      AList.update (int (k div 7)) (?h k (map_of acc (int (k div 7)))) acc" for k acc
    using week_bucket_day [OF assms(1), of k]
    by (auto simp: extend_week_def taught_def Let_def mid split: option.splits)
  then have "for_days (extend_week tz options start) start stop [] =
      map (\<lambda>b. (int b, the (bucket_value ?h b (Suc n)))) [0..<(Suc n + 6) div 7]"
    unfolding for_days_fold [OF assms(2)] by (rule bucket_scan)
  moreover have "the (bucket_value ?h b (Suc n)) =
      (fst (week_span start n b), snd (week_span start n b), week_taught tz options start (Suc n) b)"
    if "b < (Suc n + 6) div 7" for b
  proof -
    from that have "\<not> Suc n \<le> 7 * b" by linarith
    then show ?thesis unfolding bucket_value_span week_taught_def by simp
  qed
  ultimately show ?thesis by simp
qed

lemma filter_snd_buckets:
  "filter (\<lambda>(b, s, e, has). has) (map (\<lambda>b. (int b, f b, g b, p b)) xs) =
    map (\<lambda>b. (int b, f b, g b, True)) (filter p xs)"
  by (induction xs) auto

lemma taught_weeks_sorted_list:
  "taught_weeks tz options start n = sorted_list_of_set (set (taught_weeks tz options start n))"
  unfolding taught_weeks_def
  by (rule sym, rule sorted_list_of_set.idem_if_sorted_distinct) (simp_all add: sorted_wrt_filter)

text \<open>
  C14: the instructional weeks of a term are exactly its teaching weeks in order, numbered
  from 1: week \<open>b\<close> of the term spans its days \<open>7b\<close> to \<open>7b+6\<close>, cut at the term's last day.
\<close>

theorem build_week_ranges_correct:
  assumes "local_day tz ts \<le> local_day tz te"
  shows "build_instructional_week_ranges tz ts te wds ranges =
    map (\<lambda>(i, b). \<lparr>wr_week_number = int i + 1,
        wr_start = plus_days (local_midnight tz ts) (7 * int b),
        wr_end = min (plus_days (local_midnight tz ts) (7 * int b + 6)) (local_midnight tz te)\<rparr>)
      (List.enumerate 0 (sorted_list_of_set (teaching_week_set tz ts te wds ranges)))"
proof -
  let ?start = "start_of_local_day tz ts" and ?stop = "start_of_local_day tz te"
  let ?n = "nat (local_day tz te - local_day tz ts)"
  let ?o = "\<lparr>opt_working_days = effective_working_days wds,
      opt_term_range = Some \<lparr>range_start = ?start, range_end = ?stop\<rparr>,
      opt_non_instructional = ranges\<rparr>"
  let ?W = "taught_weeks tz ?o ?start (Suc ?n)"
  have le: "?start \<le> ?stop"
    using assms by (simp add: start_of_local_day_def local_midnight_le_iff)
  have stop: "?stop = ?start + int ?n * ms_per_day"
    by (rule midnight_distance [OF refl refl le])
  have W: "?W = sorted_list_of_set (teaching_week_set tz ts te wds ranges)"
    using taught_weeks_sorted_list [of tz ?o ?start "Suc ?n"]
    unfolding taught_weeks_set [OF refl refl assms] .
  have buckets: "sort_key fst (filter (\<lambda>(b, s, e, has). has)
      (for_days (extend_week tz ?o ?start) ?start ?stop [])) =
    map (\<lambda>b. (int b, fst (week_span ?start ?n b), snd (week_span ?start ?n b), True)) ?W"
    unfolding week_buckets_eq [OF refl stop] sort_key_map_filter_id
    unfolding filter_snd_buckets taught_weeks_def ..
  have last: "snd (week_span ?start ?n b) = min (plus_days ?start (7 * int b + 6)) ?stop" for b
    by (rule week_span_end [OF stop])
  show ?thesis
    unfolding build_instructional_week_ranges_def Let_def buckets enumerate_map_second last W
    by (simp add: week_span_fst start_of_local_day_def case_prod_unfold comp_def)
qed

theorem build_week_ranges_correct_witness:
  "build_instructional_week_ranges 0 0 (13 * ms_per_day) [] [] =
    map (\<lambda>(i, b). \<lparr>wr_week_number = int i + 1,
        wr_start = plus_days (local_midnight 0 0) (7 * int b),
        wr_end = min (plus_days (local_midnight 0 0) (7 * int b + 6))
          (local_midnight 0 (13 * ms_per_day))\<rparr>)
      (List.enumerate 0 (sorted_list_of_set (teaching_week_set 0 0 (13 * ms_per_day) [] [])))"
  by (rule build_week_ranges_correct) (simp add: local_day_def ms_per_day_def)

end
