(* ===== verification/SchemeGrid.thy ===== *)
theory SchemeGrid
  imports SchemePacker
begin

text \<open>
  Correctness of the scheme packers. The locale \<open>week_grid\<close> is what a packer relies on: the
  week ranges it is given are numbered 1 to n. \<open>term_week_grid\<close> adds that they start no later
  than the term end the packer is given. Both are interpreted on the weeks that
  \<open>build_instructional_week_ranges\<close> builds, which is where the services take them from.
\<close>

section \<open>Placing topics\<close>

definition placed_topics :: "packed_week list \<Rightarrow> packable_topic multiset" where
  "placed_topics packed = mset (concat (map pw_topics packed))"

lemma placed_topics_sum:
  "placed_topics xs = sum_mset (image_mset (\<lambda>w. mset (pw_topics w)) (mset xs))"
  by (induction xs) (auto simp: placed_topics_def)

lemma placed_topics_update:
  "i < length packed \<Longrightarrow>
    placed_topics (packed[i := w]) + mset (pw_topics (packed ! i)) = placed_topics packed + mset (pw_topics w)"
proof (induction packed arbitrary: i)
  case Nil
  then show ?case by simp
next
  case (Cons p packed)
  show ?case
  proof (cases i)
    case 0
    then show ?thesis by (simp add: placed_topics_def)
  next
    case (Suc j)
    with Cons.prems have "j < length packed" by simp
    from Cons.IH [OF this] show ?thesis using Suc by (simp add: placed_topics_def)
  qed
qed

lemma length_push_topic [simp]: "length (push_topic i t packed) = length packed"
  by (simp add: push_topic_def)

lemma kinds_push_topic [simp]: "map pw_kind (push_topic i t packed) = map pw_kind packed"
  by (cases "i < length packed")
    (simp_all add: push_topic_def map_update list_update_same_conv list_update_beyond)

lemma placed_push_topic:
  assumes "i < length packed"
  shows "placed_topics (push_topic i t packed) = add_mset t (placed_topics packed)"
  using placed_topics_update [OF assms, of "(packed ! i)\<lparr>pw_topics := pw_topics (packed ! i) @ [t]\<rparr>"]
  by (simp add: push_topic_def)

lemma push_each_simps:
  "push_each dest [] packed = packed"
  "push_each dest ((i, t) # items) packed = push_each dest items (push_topic (dest i) t packed)"
  by (simp_all add: push_each_def)

lemma length_push_each [simp]: "length (push_each dest items packed) = length packed"
  by (induction items arbitrary: packed) (auto simp: push_each_simps)

lemma kinds_push_each [simp]: "map pw_kind (push_each dest items packed) = map pw_kind packed"
  by (induction items arbitrary: packed) (auto simp: push_each_simps)

lemma placed_push_each:
  assumes "\<And>i t. (i, t) \<in> set items \<Longrightarrow> dest i < length packed"
  shows "placed_topics (push_each dest items packed) = placed_topics packed + mset (map snd items)"
  using assms
proof (induction items arbitrary: packed)
  case Nil
  then show ?case by (simp add: push_each_simps)
next
  case (Cons a items)
  obtain i t where a: "a = (i, t)" by force
  have "dest i < length packed" using Cons.prems [of i t] a by simp
  moreover have "placed_topics (push_each dest items (push_topic (dest i) t packed)) =
      placed_topics (push_topic (dest i) t packed) + mset (map snd items)"
    using Cons.prems by (intro Cons.IH) auto
  ultimately show ?case by (simp add: a push_each_simps placed_push_topic)
qed

lemma map_snd_enumerate [simp]: "map snd (List.enumerate i xs) = xs"
  by (simp add: enumerate_eq_zip)

lemma enumerate_index: "(i, t) \<in> set (List.enumerate 0 xs) \<Longrightarrow> i < length xs"
  by (auto simp: in_set_enumerate_eq)

text \<open>
  What \<open>place\<close> adds: every item once, and each item beyond the number of slots a second time.
\<close>

lemma length_place [simp]: "length (place content_slots items slots packed) = length packed"
  by (simp add: place_def Let_def)

lemma placed_place:
  assumes "set slots \<subseteq> {..<length packed}" "set content_slots \<subseteq> {..<length packed}" "packed \<noteq> []"
  shows "placed_topics (place content_slots items slots packed) =
    placed_topics packed + mset items + (if slots = [] then {#} else mset (drop (length slots) items))"
proof -
  have nth: "i < length slots \<Longrightarrow> slots ! i < length packed" for i
    using assms(1) nth_mem by fastforce
  show ?thesis
  proof (cases "slots = []")
    case True
    let ?fb = "if content_slots \<noteq> [] then content_slots else [0..<length packed]"
    have fb: "?fb \<noteq> []" "set ?fb \<subseteq> {..<length packed}" using assms(2,3) by auto
    have "?fb ! min i (length ?fb - 1) < length packed" for i
    proof -
      have "min i (length ?fb - 1) < length ?fb" using fb(1) by (cases ?fb) auto
      then have "?fb ! min i (length ?fb - 1) \<in> set ?fb" by (rule nth_mem)
      then show ?thesis using fb(2) by blast
    qed
    then show ?thesis using True
      by (simp add: place_def Let_def placed_push_each)
  next
    case False
    note slots = False
    show ?thesis
    proof (cases "length items \<le> length slots")
      case True
      then show ?thesis using slots nth
        by (simp add: place_def Let_def)
          (subst placed_push_each, auto dest!: enumerate_index)
    next
      case False
      let ?n = "length slots"
      have n: "0 < ?n" using slots by simp
      have clamp: "nat (max 0 (int ?n - 1 - int k)) < ?n" for k
        using n by linarith
      have spread: "(if i < ?n then slots ! i
          else slots ! nat (max 0 (int ?n - 1 - int ((i - ?n) mod max 1 (length items - ?n))))) < length packed" for i
        using n clamp by (auto intro!: nth)
      have last: "slots ! (?n - 1) < length packed" using n by (intro nth) simp
      define d where "d = (\<lambda>i. if i < ?n then slots ! i
          else slots ! nat (max 0 (int ?n - 1 - int ((i - ?n) mod max 1 (length items - ?n)))))"
      have "placed_topics (push_each d (List.enumerate 0 items) packed) = placed_topics packed + mset items"
        using spread by (simp add: placed_push_each d_def)
      moreover have "map snd (drop ?n (List.enumerate 0 items)) = drop ?n items"
        by (simp add: drop_map [symmetric])
      then have "placed_topics (push_each (\<lambda>i. slots ! (?n - 1)) (drop ?n (List.enumerate 0 items)) q) =
          placed_topics q + mset (drop ?n items)" if "length q = length packed" for q
        using last that by (simp add: placed_push_each)
      moreover have "place content_slots items slots packed =
          push_each (\<lambda>i. slots ! (?n - 1)) (drop ?n (List.enumerate 0 items))
            (push_each d (List.enumerate 0 items) packed)"
        unfolding place_def Let_def d_def using slots False by (simp only: if_False)
      ultimately show ?thesis using slots by simp
    qed
  qed
qed

section \<open>The slots of the grid\<close>

lemma filter_upt_eq: "filter (\<lambda>i. i = a) [0..<n] = (if a < n then [a] else [])" for a n :: nat
  by (induction n) auto

lemma slots_of_kind_bound: "set (slots_of_kind k packed) \<subseteq> {..<length packed}"
  by (auto simp: slots_of_kind_def)

lemma length_mark_slots [simp]: "length (mark_slots e r packed) = length packed"
  by (simp add: mark_slots_def Let_def)

lemma map_list_update_frame: "g y = g (xs ! i) \<Longrightarrow> map g (xs[i := y]) = map g xs"
  by (cases "i < length xs") (simp_all add: map_update list_update_beyond, metis list_update_id nth_map)

lemma topics_mark_slots: "packed \<noteq> [] \<Longrightarrow> map pw_topics (mark_slots e r packed) = map pw_topics packed"
  by (simp add: mark_slots_def Let_def map_list_update_frame)

definition revision_index :: "nat \<Rightarrow> nat" where
  "revision_index n = (if 7 \<le> n then min 6 (n - 2) else n - 2)"

lemma revision_index_less: "2 \<le> n \<Longrightarrow> revision_index n < n - 1"
  by (auto simp: revision_index_def)

lemma kinds_mark_slots:
  assumes "map pw_kind packed = replicate n CONTENT" "1 \<le> n" "i < n"
  shows "pw_kind (mark_slots e r packed ! i) =
    (if e \<noteq> [] \<and> i = n - 1 then EXAM
     else if r \<noteq> [] \<and> 2 \<le> n \<and> i = revision_index n then REVISION else CONTENT)"
proof -
  have len: "length packed = n" using arg_cong [OF assms(1), of length] by simp
  have kind: "j < n \<Longrightarrow> pw_kind (packed ! j) = CONTENT" for j
    using arg_cong [OF assms(1), of "\<lambda>xs. xs ! j"] len by simp
  have "2 \<le> n \<Longrightarrow> revision_index n < n - 1" by (rule revision_index_less)
  then show ?thesis
    using assms(2,3) kind len
    unfolding mark_slots_def Let_def revision_index_def [symmetric]
    by (auto simp: nth_list_update)
qed

lemma slots_mark_slots:
  assumes "map pw_kind packed = replicate n CONTENT" "1 \<le> n"
  shows "slots_of_kind EXAM (mark_slots e r packed) = (if e \<noteq> [] then [n - 1] else [])"
    and "slots_of_kind REVISION (mark_slots e r packed) =
      (if r \<noteq> [] \<and> 2 \<le> n then [revision_index n] else [])"
proof -
  have len: "length packed = n" using arg_cong [OF assms(1), of length] by simp
  have "slots_of_kind EXAM (mark_slots e r packed) = filter (\<lambda>i. e \<noteq> [] \<and> i = n - 1) [0..<n]"
    unfolding slots_of_kind_def length_mark_slots len
    by (rule filter_cong) (use assms in \<open>auto simp: kinds_mark_slots\<close>)
  then show "slots_of_kind EXAM (mark_slots e r packed) = (if e \<noteq> [] then [n - 1] else [])"
    using assms(2) by (auto simp: filter_upt_eq)
  have "slots_of_kind REVISION (mark_slots e r packed) =
      filter (\<lambda>i. (r \<noteq> [] \<and> 2 \<le> n) \<and> i = revision_index n) [0..<n]"
    unfolding slots_of_kind_def length_mark_slots len
    by (rule filter_cong) (use assms revision_index_less [of n] in \<open>auto simp: kinds_mark_slots\<close>)
  then show "slots_of_kind REVISION (mark_slots e r packed) =
      (if r \<noteq> [] \<and> 2 \<le> n then [revision_index n] else [])"
    using revision_index_less [of n] by (auto simp: filter_upt_eq)
qed

lemma partition_three:
  "mset (filter p xs) + mset (filter (\<lambda>x. q x \<and> \<not> p x) xs) + mset (filter (\<lambda>x. \<not> p x \<and> \<not> q x) xs) = mset xs"
  by (induction xs) auto

definition exam_topics_of :: "packable_topic list \<Rightarrow> packable_topic list" where
  "exam_topics_of topics = filter looks_like_exam (sort_key order_key topics)"

definition revision_topics_of :: "packable_topic list \<Rightarrow> packable_topic list" where
  "revision_topics_of topics =
     filter (\<lambda>t. looks_like_revision t \<and> \<not> looks_like_exam t) (sort_key order_key topics)"

lemma weeks_push_topic [simp]: "map pw_week_number (push_topic i t packed) = map pw_week_number packed"
  by (cases "i < length packed")
    (simp_all add: push_topic_def map_update list_update_same_conv list_update_beyond)

lemma weeks_push_each [simp]: "map pw_week_number (push_each dest items packed) = map pw_week_number packed"
  by (induction items arbitrary: packed) (auto simp: push_each_simps)

lemma weeks_place [simp]:
  "map pw_week_number (place content_slots items slots packed) = map pw_week_number packed"
  by (simp add: place_def Let_def)

lemma weeks_mark_slots [simp]:
  "packed \<noteq> [] \<Longrightarrow> map pw_week_number (mark_slots e r packed) = map pw_week_number packed"
  by (simp add: mark_slots_def Let_def map_list_update_frame)

definition place_content :: "nat list \<Rightarrow> packable_topic list \<Rightarrow> packed_week list \<Rightarrow> packed_week list" where
  "place_content content_slots content_topics packed =
     (if content_topics \<noteq> [] \<and> content_slots \<noteq> [] then
        push_each (\<lambda>i. if i < length content_slots then content_slots ! i
          else content_slots ! (length content_slots - 1)) (List.enumerate 0 content_topics) packed
      else if content_topics \<noteq> [] then
        push_each (\<lambda>i. min i (length packed - 1)) (List.enumerate 0 content_topics) packed
      else packed)"

lemma length_place_content [simp]: "length (place_content cs c packed) = length packed"
  by (simp add: place_content_def)

lemma weeks_place_content [simp]:
  "map pw_week_number (place_content cs c packed) = map pw_week_number packed"
  by (simp add: place_content_def)

lemma placed_place_content:
  assumes "set cs \<subseteq> {..<length packed}" "packed \<noteq> []"
  shows "placed_topics (place_content cs c packed) = placed_topics packed + mset c"
proof -
  have "i < length cs \<Longrightarrow> cs ! i < length packed" for i
    using assms(1) nth_mem by fastforce
  moreover have "min i (length packed - 1) < length packed" for i
    using assms(2) by (cases packed) auto
  ultimately show ?thesis
    by (simp add: place_content_def placed_push_each)
qed

lemma pack_topics_unfold:
  assumes "week_ranges \<noteq> []"
  shows "pack_topics_onto_calendar topics week_ranges =
    (let e = exam_topics_of topics; r = revision_topics_of topics;
         c = filter (\<lambda>t. \<not> looks_like_exam t \<and> \<not> looks_like_revision t) (sort_key order_key topics);
         packed = mark_slots e r (map blank_week week_ranges);
         cs = slots_of_kind CONTENT packed
     in Inr (place cs e (slots_of_kind EXAM packed)
          (place cs r (slots_of_kind REVISION packed) (place_content cs c packed))))"
  using assms
  by (simp add: pack_topics_onto_calendar_def exam_topics_of_def revision_topics_of_def
      place_content_def Let_def)

lemma blank_grid:
  "map pw_kind (map blank_week ws) = replicate (length ws) CONTENT"
  "placed_topics (map blank_week ws) = {#}"
  "map pw_week_number (map blank_week ws) = map wr_week_number ws"
  by (induction ws) (auto simp: blank_week_def placed_topics_def)

text \<open>
  What the calendar packer schedules. It fails exactly on an empty grid. Otherwise every
  topic is placed once, and beyond that every exam topic after the first is placed a second
  time, and so is every revision topic after the first when the term has two weeks or more:
  the overflow branch of \<open>place\<close> pushes the topics it has already spread over the slots.
\<close>

theorem pack_topics_schedules:
  shows "pack_topics_onto_calendar topics [] = Inl (JsError ''TERM_HAS_NO_INSTRUCTIONAL_WEEKS'')
    \<and> (\<forall>w ws. \<exists>packed. pack_topics_onto_calendar topics (w # ws) = Inr packed
        \<and> map pw_week_number packed = map wr_week_number (w # ws)
        \<and> placed_topics packed = mset topics + mset (drop 1 (exam_topics_of topics))
            + (if ws = [] then {#} else mset (drop 1 (revision_topics_of topics))))"
proof (intro conjI allI)
  show "pack_topics_onto_calendar topics [] = Inl (JsError ''TERM_HAS_NO_INSTRUCTIONAL_WEEKS'')"
    by (simp add: pack_topics_onto_calendar_def)
next
  fix w ws
  define e r where "e = exam_topics_of topics" and "r = revision_topics_of topics"
  define c where
    "c = filter (\<lambda>t. \<not> looks_like_exam t \<and> \<not> looks_like_revision t) (sort_key order_key topics)"
  define grid where "grid = map blank_week (w # ws)"
  define packed where "packed = mark_slots e r grid"
  define cs where "cs = slots_of_kind CONTENT packed"
  define content where "content = place_content cs c packed"
  define rev where "rev = place cs r (slots_of_kind REVISION packed) content"
  define all where "all = place cs e (slots_of_kind EXAM packed) rev"
  have grid: "grid \<noteq> []" "map pw_kind grid = replicate (Suc (length ws)) CONTENT"
    "placed_topics grid = {#}" "map pw_week_number grid = map wr_week_number (w # ws)"
    using blank_grid [of "w # ws"] unfolding grid_def by simp_all
  have ne: "packed \<noteq> []" and len: "length content = length packed" "length rev = length packed"
    using grid(1) unfolding packed_def content_def rev_def length_greater_0_conv [symmetric] by simp_all
  then have ne': "content \<noteq> []" "rev \<noteq> []" by auto
  have bounds: "set (slots_of_kind k packed) \<subseteq> {..<length packed}" for k
    by (rule slots_of_kind_bound)
  then have csb: "set cs \<subseteq> {..<length packed}" by (simp add: cs_def)
  have p0: "placed_topics packed = {#}"
    using topics_mark_slots [OF grid(1), of e r] grid(3) by (simp add: placed_topics_def packed_def)
  have slots: "slots_of_kind EXAM packed = (if e \<noteq> [] then [length ws] else [])"
    "slots_of_kind REVISION packed =
      (if r \<noteq> [] \<and> ws \<noteq> [] then [revision_index (Suc (length ws))] else [])"
    using slots_mark_slots [OF grid(2), of e r] by (auto simp: packed_def Suc_le_eq)
  have "placed_topics content = mset c"
    using placed_place_content [OF csb ne, of c] p0 by (simp add: content_def)
  moreover have "placed_topics rev = placed_topics content + mset r
      + (if ws = [] then {#} else mset (drop 1 r))"
    using placed_place [of "slots_of_kind REVISION packed" content cs r]
      bounds [of REVISION] csb ne' len slots(2) by (auto simp: rev_def)
  moreover have "placed_topics all = placed_topics rev + mset e + mset (drop 1 e)"
    using placed_place [of "slots_of_kind EXAM packed" rev cs e]
      bounds [of EXAM] csb ne' len slots(1) by (auto simp: all_def)
  moreover have "mset e + mset r + mset c = mset topics"
    using partition_three [of looks_like_exam "sort_key order_key topics" looks_like_revision]
    by (simp add: e_def r_def c_def exam_topics_of_def revision_topics_of_def)
  ultimately have "placed_topics all = mset topics + mset (drop 1 e)
      + (if ws = [] then {#} else mset (drop 1 r))"
    by (simp add: ac_simps)
  moreover have "map pw_week_number all = map wr_week_number (w # ws)"
    using grid by (simp add: all_def rev_def content_def packed_def)
  moreover have "pack_topics_onto_calendar topics (w # ws) = Inr all"
    by (simp add: pack_topics_unfold Let_def all_def rev_def content_def cs_def packed_def
        grid_def c_def e_def r_def)
  ultimately show "\<exists>packed. pack_topics_onto_calendar topics (w # ws) = Inr packed
        \<and> map pw_week_number packed = map wr_week_number (w # ws)
        \<and> placed_topics packed = mset topics + mset (drop 1 (exam_topics_of topics))
            + (if ws = [] then {#} else mset (drop 1 (revision_topics_of topics)))"
    unfolding e_def r_def by blast
qed

text \<open>The weeks of the sample term: 14 days from Monday 5 January 1970.\<close>

definition sample_grid :: "week_range list" where
  "sample_grid = [\<lparr>wr_week_number = 1, wr_start = 4 * 86400000, wr_end = 10 * 86400000\<rparr>,
     \<lparr>wr_week_number = 2, wr_start = 11 * 86400000, wr_end = 17 * 86400000\<rparr>]"

section \<open>The week grid as an interface\<close>

lemma upt_append_le: "a \<le> b \<Longrightarrow> [0..<a] @ [a..<b] = [0..<b]"
  using upt_add_eq_append [of 0 a "b - a"] by simp

lemma length_filter_enumerate:
  "length (filter (\<lambda>(i, w). m \<le> i) (List.enumerate 0 xs)) = length (filter (\<lambda>i. m \<le> i) [0..<length xs])"
proof -
  have "filter (\<lambda>i. m \<le> i) (map fst (List.enumerate 0 xs)) =
      map fst (filter (\<lambda>(i, w). m \<le> i) (List.enumerate 0 xs))"
    unfolding filter_map by (simp add: comp_def case_prod_unfold)
  from arg_cong [OF this, of length] show ?thesis by (simp only: map_fst_enumerate length_map add_0)
qed

lemma enumerate_value: "(i, x) \<in> set (List.enumerate k xs) \<Longrightarrow> x \<in> set xs"
  by (induction xs arbitrary: k) auto

locale week_grid =
  fixes ranges :: "week_range list"
  assumes numbers: "map wr_week_number ranges = map (\<lambda>i. int i + 1) [0..<length ranges]"
begin

lemma number_nth: "i < length ranges \<Longrightarrow> wr_week_number (ranges ! i) = int i + 1"
  using arg_cong [OF numbers, of "\<lambda>xs. xs ! i"] by simp

lemma distinct_numbers: "distinct (map wr_week_number ranges)"
  unfolding numbers by (simp add: distinct_map inj_on_def)

lemma set_numbers: "wr_week_number ` set ranges = {1..int (length ranges)}"
proof -
  have "wr_week_number ` set ranges = (\<lambda>i. int i + 1) ` {0..<length ranges}"
    using arg_cong [OF numbers, of set] by simp
  also have "\<dots> = {1..int (length ranges)}"
  proof
    show "{1..int (length ranges)} \<subseteq> (\<lambda>i. int i + 1) ` {0..<length ranges}"
    proof
      fix x assume "x \<in> {1..int (length ranges)}"
      then have "x = int (nat (x - 1)) + 1" "nat (x - 1) < length ranges" by auto
      then show "x \<in> (\<lambda>i. int i + 1) ` {0..<length ranges}" by force
    qed
  qed auto
  finally show ?thesis .
qed

lemma range_by_number_None: "range_by_number ranges n = None \<longleftrightarrow> n < 1 \<or> int (length ranges) < n"
proof -
  have "range_by_number ranges n = None \<longleftrightarrow> n \<notin> wr_week_number ` set ranges"
    by (simp add: range_by_number_def map_of_eq_None_iff image_image)
  then show ?thesis unfolding set_numbers by auto
qed

end

text \<open>
  The packer is also given the term's end: no range starts after it, so no range is left
  undated or dropped by \<open>datesWithinTerm\<close>.
\<close>

locale term_week_grid = week_grid +
  fixes tz :: int and term_end :: "date option"
  assumes in_term: "r \<in> set ranges \<Longrightarrow>
    dates_within_term tz (Some r) term_end = Some (wr_start r, wr_end r)"
begin

lemma range_in_set: "range_by_number ranges n = Some r \<Longrightarrow> r \<in> set ranges \<and> wr_week_number r = n"
  by (auto simp: range_by_number_def dest!: map_of_SomeD)

lemma bounded_None:
  "dates_within_term tz (range_by_number ranges n) term_end = None \<longleftrightarrow>
    n < 1 \<or> int (length ranges) < n"
proof (cases "range_by_number ranges n")
  case None
  then show ?thesis by (simp add: range_by_number_None [symmetric] dates_within_term_def)
next
  case (Some r)
  then show ?thesis
    using range_in_set [OF Some] in_term [of r] range_by_number_None [of n] by auto
qed

lemma append_leftover_eq:
  assumes "set rs \<subseteq> set ranges" "distinct (map wr_week_number rs)"
  shows "append_leftover tz term_end rs used =
    map (\<lambda>r. catch_up_week r (wr_start r, wr_end r)) (filter (\<lambda>r. wr_week_number r \<notin> set used) rs)"
  using assms
proof (induction rs arbitrary: used)
  case Nil
  then show ?case by simp
next
  case (Cons r rs)
  have "filter (\<lambda>x. wr_week_number x \<notin> set (wr_week_number r # used)) rs =
      filter (\<lambda>x. wr_week_number x \<notin> set used) rs"
    using Cons.prems(2) by (intro filter_cong) (auto, metis image_eqI)
  then show ?case using Cons in_term [of r] by auto
qed

lemma leftover_numbers:
  "map wr_week_number (filter (\<lambda>r. wr_week_number r \<notin> {1..int c}) ranges) =
    map (\<lambda>i. int i + 1) [c..<length ranges]"
proof -
  have "map wr_week_number (filter (\<lambda>r. wr_week_number r \<notin> {1..int c}) ranges) =
      filter (\<lambda>n. n \<notin> {1..int c}) (map wr_week_number ranges)"
    by (simp add: filter_map comp_def)
  also have "\<dots> = map (\<lambda>i. int i + 1) (filter (\<lambda>i. c \<le> i) [0..<length ranges])"
    unfolding numbers filter_map by (simp add: comp_def not_le)
  also have "filter (\<lambda>i. c \<le> i) [0..<n] = [c..<n]" for n
    by (induction n) auto
  finally show ?thesis by simp
qed

lemma restamp_parts:
  assumes "cs \<noteq> []"
  defines "packed \<equiv> map (restamp_week tz ranges term_end) (List.enumerate 0 cs)"
  defines "extra \<equiv> map (\<lambda>r. catch_up_week r (wr_start r, wr_end r))
    (filter (\<lambda>r. wr_week_number r \<notin> {1..int (length cs)}) ranges)"
  shows "restamp_content_weeks_onto_calendar tz cs ranges term_end = Inr (packed @ extra)"
    and "map pw_week_number (packed @ extra) =
      map (\<lambda>i. int i + 1) [0..<max (length cs) (length ranges)]"
proof -
  have numbers_packed: "map pw_week_number packed = map (\<lambda>i. int i + 1) [0..<length cs]"
    by (rule nth_equalityI)
      (auto simp: packed_def restamp_week_def Let_def nth_enumerate_eq case_prod_beta)
  have used: "set (map pw_week_number packed) = {1..int (length cs)}"
  proof -
    have "x \<in> {1..int (length cs)} \<Longrightarrow> x = int (nat (x - 1)) + 1 \<and> nat (x - 1) < length cs" for x
      by auto
    then show ?thesis unfolding numbers_packed by force
  qed
  have extra: "append_leftover tz term_end ranges (map pw_week_number packed) = extra"
    unfolding append_leftover_eq [OF subset_refl distinct_numbers] used extra_def ..
  have "map pw_week_number extra = map (\<lambda>i. int i + 1) [length cs..<length ranges]"
    unfolding extra_def leftover_numbers [symmetric] by (simp add: comp_def catch_up_week_def)
  then have "map pw_week_number (packed @ extra) =
      map (\<lambda>i. int i + 1) ([0..<length cs] @ [length cs..<length ranges])"
    by (simp add: numbers_packed)
  also have "[0..<length cs] @ [length cs..<length ranges] = [0..<max (length cs) (length ranges)]"
    by (cases "length cs \<le> length ranges") (simp_all add: upt_append_le max_def)
  finally show nums: "map pw_week_number (packed @ extra) =
      map (\<lambda>i. int i + 1) [0..<max (length cs) (length ranges)]" .
  have "sorted (map pw_week_number (packed @ extra))"
    unfolding nums by (simp add: sorted_map sorted_wrt_map)
  then show "restamp_content_weeks_onto_calendar tz cs ranges term_end = Inr (packed @ extra)"
    using assms(1) extra
    by (simp add: restamp_content_weeks_onto_calendar_def Let_def packed_def sort_key_id_if_sorted)
qed

lemma restamp_counts:
  assumes "cs \<noteq> []" "restamp_content_weeks_onto_calendar tz cs ranges term_end = Inr ps"
  shows "map pw_week_number ps = map (\<lambda>i. int i + 1) [0..<max (length cs) (length ranges)]"
    and "count_where (\<lambda>w. pw_kind w = CATCH_UP) ps = length ranges - length cs"
    and "count_where (\<lambda>w. pw_start w = None) ps = length cs - length ranges"
proof -
  define packed where "packed = map (restamp_week tz ranges term_end) (List.enumerate 0 cs)"
  define extra where "extra = map (\<lambda>r. catch_up_week r (wr_start r, wr_end r))
    (filter (\<lambda>r. wr_week_number r \<notin> {1..int (length cs)}) ranges)"
  have ps: "ps = packed @ extra"
    using restamp_parts(1) [OF assms(1)] assms(2) by (simp add: packed_def extra_def)
  show "map pw_week_number ps = map (\<lambda>i. int i + 1) [0..<max (length cs) (length ranges)]"
    unfolding ps packed_def extra_def by (rule restamp_parts(2) [OF assms(1)])
  have "count_where (\<lambda>w. pw_kind w = CATCH_UP) packed = 0"
    by (rule count_where_zero)
      (auto simp: packed_def restamp_week_def Let_def topic_kind_def split: if_splits)
  moreover have "count_where (\<lambda>w. pw_kind w = CATCH_UP) extra = length extra"
    by (simp add: count_where_def extra_def catch_up_week_def filter_map comp_def)
  moreover have "length extra = length ranges - length cs"
    using arg_cong [OF leftover_numbers [of "length cs"], of length] by (simp add: extra_def)
  ultimately show "count_where (\<lambda>w. pw_kind w = CATCH_UP) ps = length ranges - length cs"
    by (simp add: ps)
  have "count_where (\<lambda>w. pw_start w = None) extra = 0"
    by (rule count_where_zero) (auto simp: extra_def catch_up_week_def)
  moreover have "count_where (\<lambda>w. pw_start w = None) packed =
      length (filter (\<lambda>i. length ranges \<le> i) [0..<length cs])"
  proof -
    have "filter (\<lambda>w. pw_start w = None) packed =
        map (restamp_week tz ranges term_end) (filter (\<lambda>(i, w). length ranges \<le> i) (List.enumerate 0 cs))"
      unfolding packed_def filter_map
      by (rule arg_cong [where f = "map _"], rule filter_cong)
        (auto simp: restamp_week_def Let_def bounded_None)
    then show ?thesis by (simp add: count_where_def length_filter_enumerate)
  qed
  moreover have "filter (\<lambda>i. m \<le> i) [0..<n] = [m..<n]" for m n :: nat
    by (induction n) auto
  ultimately show "count_where (\<lambda>w. pw_start w = None) ps = length cs - length ranges"
    by (simp add: ps)
qed

end

section \<open>The packers on the weeks of the calendar\<close>

lemma build_numbers:
  "map wr_week_number (build_instructional_week_ranges tz ts te wds rs) =
    map (\<lambda>i. int i + 1) [0..<length (build_instructional_week_ranges tz ts te wds rs)]"
  by (rule nth_equalityI)
    (auto simp: build_instructional_week_ranges_def Let_def nth_enumerate_eq case_prod_beta)

interpretation calendar_grid: week_grid "build_instructional_week_ranges tz ts te wds rs"
  for tz ts te wds rs
  by unfold_locales (rule build_numbers)

lemma for_days_empty: "stop < start \<Longrightarrow> for_days body start stop acc = acc"
  by (subst for_days.simps) simp

lemma build_in_term:
  assumes "r \<in> set (build_instructional_week_ranges tz ts te wds rs)"
  shows "dates_within_term tz (Some r) (Some te) = Some (wr_start r, wr_end r)"
proof (cases "local_day tz ts \<le> local_day tz te")
  case True
  let ?S = "teaching_week_set tz ts te wds rs"
  have fin: "finite ?S"
    unfolding taught_weeks_set [OF refl refl True, symmetric] by simp
  obtain i b where ib: "(i, b) \<in> set (List.enumerate 0 (sorted_list_of_set ?S))"
    and r: "wr_start r = plus_days (local_midnight tz ts) (7 * int b)"
    using assms unfolding build_week_ranges_correct [OF True] by auto
  then have "b \<in> ?S" using fin enumerate_value [OF ib] by simp
  then obtain k where "b = k div 7" "local_day tz ts + int k \<le> local_day tz te"
    by (auto simp: teaching_week_set_def)
  then have "local_day tz ts + 7 * int b \<le> local_day tz te" by linarith
  then have "\<not> start_of_local_day tz te < start_of_local_day tz (wr_start r)"
    by (simp add: r start_of_local_day_def local_midnight_less_iff)
  then show ?thesis by (simp add: dates_within_term_def)
next
  case False
  then have "start_of_local_day tz te < start_of_local_day tz ts"
    by (simp add: start_of_local_day_def local_midnight_less_iff)
  then show ?thesis using assms
    by (simp add: build_instructional_week_ranges_def Let_def for_days_empty)
qed

interpretation calendar_term_grid:
  term_week_grid "build_instructional_week_ranges tz ts te wds rs" tz "Some te"
  for tz ts te wds rs
  by unfold_locales (rule build_in_term)

text \<open>
  Restamping an edited scheme on the term's calendar. The weeks come out numbered
  1, 2, 3, \<open>\<dots>\<close> without a gap, as many as the longer of the plan and the calendar; the calendar
  weeks beyond the plan become catch-up weeks, the plan weeks beyond the calendar stay
  undated, and the stored coverage says SHORT, LONG or ALIGNED accordingly.
\<close>

theorem restamp_covers_term:
  assumes "cs \<noteq> []"
    and "restamp_content_weeks_onto_calendar tz cs
      (build_instructional_week_ranges tz ts te wds rs) (Some te) = Inr ps"
  shows "let n = length (build_instructional_week_ranges tz ts te wds rs) in
    map pw_week_number ps = map (\<lambda>i. int i + 1) [0..<max (length cs) n]
    \<and> count_where (\<lambda>w. pw_kind w = CATCH_UP) ps = n - length cs
    \<and> count_where (\<lambda>w. pw_start w = None) ps = length cs - n
    \<and> cov_mismatch (compute_calendar_coverage (int n) (int (length cs))
          (int (count_where (\<lambda>w. pw_start w = None) ps))
          (int (count_where (\<lambda>w. pw_kind w = CATCH_UP) ps))) =
        (if n < length cs then SHORT else if length cs < n then LONG else ALIGNED)"
proof -
  note counts = calendar_term_grid.restamp_counts [OF assms]
  show ?thesis
    unfolding Let_def compute_calendar_coverage_def counts(2,3)
    using counts(1) by auto
qed

definition sample_week :: content_week where
  "sample_week = \<lparr>cw_id = Some ''w1'', cw_topic = ''Algebra'', cw_sub_topics = [],
     cw_learning_outcomes = [], cw_student_outcomes = [], cw_activities = [],
     cw_resources = [], cw_assessment_type = None, cw_topics = []\<rparr>"

theorem restamp_covers_term_witness:
  "\<exists>ps. restamp_content_weeks_onto_calendar 0 [sample_week]
      (build_instructional_week_ranges 0 0 (13 * ms_per_day) [] []) (Some (13 * ms_per_day)) = Inr ps
    \<and> (let n = length (build_instructional_week_ranges 0 0 (13 * ms_per_day) [] []) in
    map pw_week_number ps = map (\<lambda>i. int i + 1) [0..<max (length [sample_week]) n]
    \<and> count_where (\<lambda>w. pw_kind w = CATCH_UP) ps = n - length [sample_week]
    \<and> count_where (\<lambda>w. pw_start w = None) ps = length [sample_week] - n
    \<and> cov_mismatch (compute_calendar_coverage (int n) (int (length [sample_week]))
          (int (count_where (\<lambda>w. pw_start w = None) ps))
          (int (count_where (\<lambda>w. pw_kind w = CATCH_UP) ps))) =
        (if n < length [sample_week] then SHORT
         else if length [sample_week] < n then LONG else ALIGNED))"
proof -
  obtain ps where ps: "restamp_content_weeks_onto_calendar 0 [sample_week]
      (build_instructional_week_ranges 0 0 (13 * ms_per_day) [] []) (Some (13 * ms_per_day)) = Inr ps"
    by (simp add: restamp_content_weeks_onto_calendar_def Let_def)
  show ?thesis by (rule exI [of _ ps], rule conjI [OF ps restamp_covers_term [OF list.distinct(2) ps]])
qed

section \<open>The library import\<close>

lemma next_free_fresh: "next_free used n \<notin> set used"
  by (induction used n rule: next_free.induct) (subst next_free.simps, auto)

lemma choose_week_number_fresh: "choose_week_number i t used \<notin> set used"
  by (simp add: choose_week_number_def Let_def next_free_fresh)

lemma number_topics_spec:
  "number_topics tz ranges te i ts used = (packed, used') \<Longrightarrow>
    map pw_topics packed = map (\<lambda>t. [t]) ts \<and>
    distinct (map pw_week_number packed) \<and>
    set (map pw_week_number packed) \<inter> set used = {} \<and>
    set used' = set used \<union> set (map pw_week_number packed)"
proof (induction ts arbitrary: i used packed used')
  case Nil
  then show ?case by simp
next
  case (Cons t ts)
  let ?w = "choose_week_number i t used"
  obtain rest used2 where rest: "number_topics tz ranges te (Suc i) ts (?w # used) = (rest, used2)"
    by force
  from Cons.IH [OF rest] Cons.prems rest choose_week_number_fresh [of i t used]
  show ?case by (auto simp: Let_def)
      (metis IntI disjoint_iff empty_iff image_eqI)
qed

lemma number_topics_own:
  "number_topics tz ranges te i ts used = (packed, used') \<Longrightarrow>
    distinct (map pt_week_number ts) \<Longrightarrow>
    (\<And>t. t \<in> set ts \<Longrightarrow> \<exists>n>0. pt_week_number t = Some n \<and> n \<notin> set used) \<Longrightarrow>
    map pw_week_number packed = map (\<lambda>t. the (pt_week_number t)) ts"
proof (induction ts arbitrary: i used packed used')
  case Nil
  then show ?case by simp
next
  case (Cons t ts)
  obtain n where n: "0 < n" "pt_week_number t = Some n" "n \<notin> set used"
    using Cons.prems(3) [OF list.set_intros(1)] by blast
  then have w: "choose_week_number i t used = n"
    by (simp add: choose_week_number_def)
  obtain rest used2 where rest: "number_topics tz ranges te (Suc i) ts (n # used) = (rest, used2)"
    by force
  have "map pw_week_number rest = map (\<lambda>t. the (pt_week_number t)) ts"
  proof (rule Cons.IH [OF rest])
    show "distinct (map pt_week_number ts)" using Cons.prems(2) by simp
    show "\<exists>m>0. pt_week_number x = Some m \<and> m \<notin> set (n # used)" if x: "x \<in> set ts" for x
    proof -
      obtain m where m: "0 < m" "pt_week_number x = Some m" "m \<notin> set used"
        using Cons.prems(3) [OF list.set_intros(2) [OF x]] by blast
      have "pt_week_number x \<noteq> pt_week_number t" using Cons.prems(2) x by (auto, metis image_eqI)
      then show ?thesis using m n by auto
    qed
  qed
  then show ?case using Cons.prems(1) rest w n by (auto simp: Let_def)
qed

lemma map_filter_some: "(\<And>x. x \<in> set xs \<Longrightarrow> f x = Some (g x)) \<Longrightarrow> List.map_filter f xs = map g xs"
  by (induction xs) (auto simp: List.map_filter_simps)

context term_week_grid
begin

lemma library_parts:
  obtains packed where
    "map pw_topics packed = map (\<lambda>t. [t])
      (sort_key (\<lambda>t. nullish (pt_week_number t) (nullish (pt_order t) 0)) topics)"
    "distinct (map pw_week_number packed)"
    "pack_library_topics_preserve_weeks tz topics ranges term_end =
      sort_key pw_week_number (packed @ map (\<lambda>r. catch_up_week r (wr_start r, wr_end r))
        (filter (\<lambda>r. wr_week_number r \<notin> set (map pw_week_number packed)) ranges))"
proof -
  let ?ordered = "sort_key (\<lambda>t. nullish (pt_week_number t) (nullish (pt_order t) 0)) topics"
  obtain packed used where nt: "number_topics tz ranges term_end 0 ?ordered [] = (packed, used)"
    by force
  note spec = number_topics_spec [OF nt]
  have "List.map_filter (\<lambda>r. map_option (catch_up_week r) (dates_within_term tz (Some r) term_end))
      (filter (\<lambda>w. wr_week_number w \<notin> set used) ranges) =
    map (\<lambda>r. catch_up_week r (wr_start r, wr_end r)) (filter (\<lambda>w. wr_week_number w \<notin> set used) ranges)"
    by (rule map_filter_some) (simp add: in_term)
  then show ?thesis
    using spec by (intro that [of packed])
      (auto simp: pack_library_topics_preserve_weeks_def Let_def nt)
qed

lemma library_weeks:
  "distinct (map pw_week_number (pack_library_topics_preserve_weeks tz topics ranges term_end))"
  "sorted (map pw_week_number (pack_library_topics_preserve_weeks tz topics ranges term_end))"
  "placed_topics (pack_library_topics_preserve_weeks tz topics ranges term_end) = mset topics"
  "{1..int (length ranges)} \<subseteq>
    set (map pw_week_number (pack_library_topics_preserve_weeks tz topics ranges term_end))"
proof -
  obtain packed where p: "map pw_topics packed = map (\<lambda>t. [t])
      (sort_key (\<lambda>t. nullish (pt_week_number t) (nullish (pt_order t) 0)) topics)"
    "distinct (map pw_week_number packed)"
    "pack_library_topics_preserve_weeks tz topics ranges term_end =
      sort_key pw_week_number (packed @ map (\<lambda>r. catch_up_week r (wr_start r, wr_end r))
        (filter (\<lambda>r. wr_week_number r \<notin> set (map pw_week_number packed)) ranges))"
    by (rule library_parts)
  let ?extra = "map (\<lambda>r. catch_up_week r (wr_start r, wr_end r))
        (filter (\<lambda>r. wr_week_number r \<notin> set (map pw_week_number packed)) ranges)"
  have extra: "map pw_week_number ?extra =
      map wr_week_number (filter (\<lambda>r. wr_week_number r \<notin> set (map pw_week_number packed)) ranges)"
    by (simp add: comp_def catch_up_week_def)
  have "distinct (map pw_week_number (packed @ ?extra))"
    unfolding map_append distinct_append extra
    using p(2) distinct_map_filter [OF distinct_numbers] by (auto, metis image_eqI)
  moreover have perm: "mset (map pw_week_number (sort_key pw_week_number (packed @ ?extra))) =
      mset (map pw_week_number (packed @ ?extra))"
    by (simp only: mset_map mset_sort)
  ultimately show "distinct (map pw_week_number
      (pack_library_topics_preserve_weeks tz topics ranges term_end))"
    unfolding p(3) using mset_eq_imp_distinct_iff by blast
  show "sorted (map pw_week_number (pack_library_topics_preserve_weeks tz topics ranges term_end))"
    unfolding p(3) by simp
  have "placed_topics (sort_key pw_week_number (packed @ ?extra)) = placed_topics (packed @ ?extra)"
    unfolding placed_topics_sum by (simp only: mset_sort)
  also have "\<dots> = mset (concat (map pw_topics packed)) + mset (concat (map pw_topics ?extra))"
    by (simp add: placed_topics_def)
  also have "concat (map pw_topics ?extra) = []"
    by (simp add: comp_def catch_up_week_def)
  also have "concat (map (\<lambda>t. [t]) xs) = xs" for xs :: "packable_topic list"
    by (induction xs) auto
  then have "mset (concat (map pw_topics packed)) = mset topics"
    unfolding p(1) by simp
  finally show "placed_topics (pack_library_topics_preserve_weeks tz topics ranges term_end) = mset topics"
    unfolding p(3) by simp
  have "{1..int (length ranges)} \<subseteq> set (map pw_week_number (packed @ ?extra))"
    unfolding set_numbers [symmetric] map_append set_append extra by auto
  then show "{1..int (length ranges)} \<subseteq>
      set (map pw_week_number (pack_library_topics_preserve_weeks tz topics ranges term_end))"
    unfolding p(3) using mset_eq_setD [OF perm] by blast
qed

end

text \<open>
  Importing library topics onto the term's calendar. Every topic is scheduled exactly
  once, no two weeks share a number, the weeks come out in order, and every instructional
  week of the term is there, as a topic's week or as a catch-up week.
\<close>

theorem library_import_complete:
  "let ranges = build_instructional_week_ranges tz ts te wds rs;
       packed = pack_library_topics_preserve_weeks tz topics ranges (Some te)
   in placed_topics packed = mset topics
    \<and> distinct (map pw_week_number packed) \<and> sorted (map pw_week_number packed)
    \<and> wr_week_number ` set ranges \<subseteq> pw_week_number ` set packed"
  unfolding Let_def calendar_grid.set_numbers
  using calendar_term_grid.library_weeks [where topics = topics and tz = tz and ts = ts and te = te and wds = wds and rs = rs] by simp

end
