(* ===== verification/CuratorSolver.thy ===== *)
theory CuratorSolver
  imports InstructionalDays "HOL-Library.AList"
begin

text \<open>
  The timetable curator, \<open>src/src/timetable/timetable-curator.solver.ts\<close> with its types and
  \<open>timetable-schedule.util.ts\<close>. \<open>solveTimetable\<close> keeps one mutable result array, two load
  trackers and a source of random numbers; here they are the fields of \<open>solver_state\<close>, and
  the random numbers are a stream \<open>nat \<Rightarrow> rat\<close> read at the position \<open>ss_pos\<close>, which each
  call of \<open>random()\<close> advances. The callbacks of the two nested \<open>forEach\<close> loops are
  \<open>fill_day\<close> and \<open>fill_slot\<close>. \<open>localeCompare\<close> on the HH:MM strings of the timetable is the
  comparison of collation weights (punctuation before digits before letters).
\<close>

section \<open>Data\<close>

datatype school_type = PRIMARY | SECONDARY | TERTIARY

type_synonym curator_day = working_day

text \<open>\<open>RawType\<close> is a value that the unchecked cast of a bell template lets through.\<close>

datatype period_type = LESSON | BREAK | LUNCH | ASSEMBLY | RawType string

datatype workload_status = LOW | NORMAL | HIGH | OVERLOADED

record schedule_period =
  sp_start :: string
  sp_end :: string
  sp_type :: period_type
  sp_label :: "string option"

record curator_teacher =
  ct_id :: string
  ct_first_name :: string
  ct_last_name :: string
  ct_period_count :: "int option"

record curator_subject =
  cs_id :: string
  cs_name :: string
  cs_teachers :: "curator_teacher list"
  cs_weight :: "rat option"

record existing_period =
  ep_day :: curator_day
  ep_start :: string
  ep_end :: string
  ep_type :: "string option"
  ep_subject_id :: "string option"
  ep_subject_name :: "string option"
  ep_course_id :: "string option"
  ep_course_name :: "string option"
  ep_teacher_id :: "string option"
  ep_teacher_name :: "string option"

record generated_period =
  gp_day :: curator_day
  gp_start :: string
  gp_end :: string
  gp_type :: period_type
  gp_subject_id :: "string option"
  gp_subject_name :: "string option"
  gp_course_id :: "string option"
  gp_course_name :: "string option"
  gp_teacher_id :: "string option"
  gp_teacher_name :: "string option"
  gp_warning :: bool
  gp_message :: "string option"

record solve_input =
  si_school_type :: school_type
  si_subjects :: "curator_subject list"
  si_existing :: "existing_period list"
  si_schedule :: "schedule_period list"
  si_working_days :: "curator_day list"
  si_max_same :: "int option"
  si_free_per_day :: "int option"
  si_max_teacher :: "int option"
  si_class_teacher :: "curator_teacher option"

section \<open>Default schedules and bell templates\<close>

definition lesson_at :: "string \<Rightarrow> string \<Rightarrow> nat \<Rightarrow> schedule_period" where
  "lesson_at s e n =
     \<lparr>sp_start = s, sp_end = e, sp_type = LESSON, sp_label = Some (''Period '' @ show_nat n)\<rparr>"

definition pause_at :: "string \<Rightarrow> string \<Rightarrow> period_type \<Rightarrow> string \<Rightarrow> schedule_period" where
  "pause_at s e t l = \<lparr>sp_start = s, sp_end = e, sp_type = t, sp_label = Some l\<rparr>"

definition primary_schedule :: "schedule_period list" where
  "primary_schedule =
     [pause_at ''07:30'' ''07:45'' ASSEMBLY ''Assembly'', lesson_at ''07:45'' ''08:25'' 1,
      lesson_at ''08:25'' ''09:05'' 2, lesson_at ''09:05'' ''09:45'' 3,
      lesson_at ''09:45'' ''10:25'' 4, lesson_at ''10:25'' ''11:00'' 5,
      pause_at ''11:00'' ''11:40'' BREAK ''Break'', lesson_at ''11:40'' ''12:20'' 6,
      lesson_at ''12:20'' ''12:30'' 7, pause_at ''12:30'' ''13:00'' LUNCH ''Lunch'',
      lesson_at ''13:00'' ''13:40'' 8, lesson_at ''13:40'' ''14:10'' 9]"

definition secondary_schedule :: "schedule_period list" where
  "secondary_schedule =
     [pause_at ''08:00'' ''08:15'' ASSEMBLY ''Assembly'', lesson_at ''08:15'' ''09:00'' 1,
      lesson_at ''09:00'' ''09:45'' 2, lesson_at ''09:45'' ''10:30'' 3,
      pause_at ''10:30'' ''11:00'' BREAK ''Break'', lesson_at ''11:00'' ''11:45'' 4,
      lesson_at ''11:45'' ''12:30'' 5, pause_at ''12:30'' ''13:15'' LUNCH ''Lunch'',
      lesson_at ''13:15'' ''14:00'' 6, lesson_at ''14:00'' ''14:35'' 7]"

definition tertiary_schedule :: "schedule_period list" where
  "tertiary_schedule =
     [lesson_at ''08:00'' ''09:00'' 1, lesson_at ''09:00'' ''10:00'' 2,
      lesson_at ''10:00'' ''10:30'' 3, pause_at ''10:30'' ''11:00'' BREAK ''Break'',
      lesson_at ''11:00'' ''12:00'' 4, lesson_at ''12:00'' ''13:00'' 5,
      pause_at ''13:00'' ''14:00'' LUNCH ''Lunch'', lesson_at ''14:00'' ''15:00'' 6,
      lesson_at ''15:00'' ''16:00'' 7]"

definition default_schedule_for_school_type :: "school_type \<Rightarrow> schedule_period list" where
  "default_schedule_for_school_type t =
     (if t = PRIMARY then primary_schedule
      else if t = TERTIARY then tertiary_schedule else secondary_schedule)"

text \<open>
  One entry of a template's JSON \<open>periods\<close>; a field is None when the JSON value is not a
  string, an entry that is not an object has both times None.
\<close>

record json_period =
  jp_start :: "string option"
  jp_end :: "string option"
  jp_type :: "string option"
  jp_label :: "string option"

record bell_template =
  bt_school_type :: string
  bt_periods :: "json_period list option"
  bt_is_default :: "bool option"

definition is_schedule_period :: "json_period \<Rightarrow> bool" where
  "is_schedule_period p = (jp_start p \<noteq> None \<and> jp_end p \<noteq> None)"

definition period_type_of :: "string \<Rightarrow> period_type" where
  "period_type_of s =
     (if s = ''LESSON'' then LESSON else if s = ''BREAK'' then BREAK
      else if s = ''LUNCH'' then LUNCH else if s = ''ASSEMBLY'' then ASSEMBLY else RawType s)"

definition school_type_name :: "school_type \<Rightarrow> string" where
  "school_type_name t =
     (case t of PRIMARY \<Rightarrow> ''PRIMARY'' | SECONDARY \<Rightarrow> ''SECONDARY'' | TERTIARY \<Rightarrow> ''TERTIARY'')"

definition matching_template :: "school_type \<Rightarrow> bell_template list \<Rightarrow> bell_template option" where
  "matching_template t templates =
     (case find (\<lambda>b. bt_school_type b = school_type_name t \<and> bt_is_default b \<noteq> Some False) templates of
        Some b \<Rightarrow> Some b
      | None \<Rightarrow> find (\<lambda>b. bt_school_type b = school_type_name t) templates)"

definition schedule_from_bell_templates ::
  "school_type \<Rightarrow> bell_template list \<Rightarrow> schedule_period list" where
  "schedule_from_bell_templates t templates =
     (let periods = (case matching_template t templates of
            None \<Rightarrow> []
          | Some b \<Rightarrow> (case bt_periods b of None \<Rightarrow> [] | Some ps \<Rightarrow> filter is_schedule_period ps))
      in if periods \<noteq> [] then
           map (\<lambda>p. \<lparr>sp_start = the (jp_start p), sp_end = the (jp_end p),
             sp_type = (case or_undefined (jp_type p) of None \<Rightarrow> LESSON | Some s \<Rightarrow> period_type_of s),
             sp_label = jp_label p\<rparr>) periods
         else default_schedule_for_school_type t)"

section \<open>Helpers of the solver\<close>

definition workload_status :: "int \<Rightarrow> workload_status" where
  "workload_status n =
     (if n < 10 then LOW else if n \<le> 25 then NORMAL else if n \<le> 30 then HIGH else OVERLOADED)"

text \<open>\<open>tracker.get(k) || 0\<close> and the increment of a tracker.\<close>

definition load_of :: "(string \<rightharpoonup> int) \<Rightarrow> string \<Rightarrow> int" where
  "load_of m k = (case m k of None \<Rightarrow> 0 | Some n \<Rightarrow> n)"

definition bump :: "string \<Rightarrow> (string \<rightharpoonup> int) \<Rightarrow> (string \<rightharpoonup> int)" where
  "bump k m = m(k \<mapsto> load_of m k + 1)"

definition teacher_load :: "(string \<rightharpoonup> int) \<Rightarrow> curator_teacher \<Rightarrow> int" where
  "teacher_load tracker t = nullish (ct_period_count t) 0 + load_of tracker (ct_id t)"

definition select_least_loaded_teacher ::
  "curator_teacher list \<Rightarrow> (string \<rightharpoonup> int) \<Rightarrow> curator_teacher option" where
  "select_least_loaded_teacher teachers tracker =
     (case teachers of
        [] \<Rightarrow> None
      | t # _ \<Rightarrow> Some (fst (foldl (\<lambda>(best, least) t.
          if teacher_load tracker t < least then (t, teacher_load tracker t) else (best, least))
          (t, teacher_load tracker t) teachers)))"

definition teacher_display_name :: "curator_teacher \<Rightarrow> string" where
  "teacher_display_name t = trim (ct_first_name t @ '' '' @ ct_last_name t)"

definition as_period_type :: "string option \<Rightarrow> period_type" where
  "as_period_type t =
     (if t = Some ''BREAK'' then BREAK else if t = Some ''LUNCH'' then LUNCH
      else if t = Some ''ASSEMBLY'' then ASSEMBLY else LESSON)"

definition day_name :: "curator_day \<Rightarrow> string" where
  "day_name d = (case d of MONDAY \<Rightarrow> ''MONDAY'' | TUESDAY \<Rightarrow> ''TUESDAY'' | WEDNESDAY \<Rightarrow> ''WEDNESDAY''
     | THURSDAY \<Rightarrow> ''THURSDAY'' | FRIDAY \<Rightarrow> ''FRIDAY'' | SATURDAY \<Rightarrow> ''SATURDAY'' | SUNDAY \<Rightarrow> ''SUNDAY'')"

definition daily_key :: "string \<Rightarrow> curator_day \<Rightarrow> string" where
  "daily_key t d = t @ '':'' @ day_name d"

definition collation_weight :: "char \<Rightarrow> nat" where
  "collation_weight c =
     (if is_digit_char c then 256 + of_char c
      else if is_upper_char c \<or> is_lower_char c then 512 + of_char (to_lower_char c)
      else of_char c)"

definition collation_key :: "string \<Rightarrow> nat list" where
  "collation_key s = map collation_weight s"

section \<open>State of the solver\<close>

record solver_state =
  ss_result :: "generated_period list"
  ss_load :: "string \<rightharpoonup> int"
  ss_daily :: "string \<rightharpoonup> int"
  ss_free_added :: int
  ss_max_free :: int
  ss_pos :: nat

definition solver_days :: "solve_input \<Rightarrow> curator_day list" where
  "solver_days inp = (if si_working_days inp \<noteq> [] then si_working_days inp
     else [MONDAY, TUESDAY, WEDNESDAY, THURSDAY, FRIDAY])"

definition max_same_subject :: "solve_input \<Rightarrow> int" where
  "max_same_subject inp = nullish (si_max_same inp) 2"

definition free_periods_per_day :: "solve_input \<Rightarrow> int" where
  "free_periods_per_day inp = nullish (si_free_per_day inp) 1"

definition max_periods_per_teacher :: "solve_input \<Rightarrow> int" where
  "max_periods_per_teacher inp = nullish (si_max_teacher inp) 6"

definition subject_by_id :: "solve_input \<Rightarrow> string \<Rightarrow> curator_subject option" where
  "subject_by_id inp = map_of (rev (map (\<lambda>s. (cs_id s, s)) (si_subjects inp)))"

definition empty_period :: "curator_day \<Rightarrow> string \<Rightarrow> string \<Rightarrow> period_type \<Rightarrow> generated_period" where
  "empty_period d s e t =
     \<lparr>gp_day = d, gp_start = s, gp_end = e, gp_type = t, gp_subject_id = None, gp_subject_name = None,
      gp_course_id = None, gp_course_name = None, gp_teacher_id = None, gp_teacher_name = None,
      gp_warning = False, gp_message = None\<rparr>"

definition free_period :: "curator_day \<Rightarrow> string \<Rightarrow> string \<Rightarrow> generated_period" where
  "free_period d s e = (empty_period d s e LESSON)\<lparr>gp_subject_name := Some ''Free Period''\<rparr>"

definition generated_of :: "existing_period \<Rightarrow> generated_period" where
  "generated_of p =
     \<lparr>gp_day = ep_day p, gp_start = ep_start p, gp_end = ep_end p,
      gp_type = as_period_type (ep_type p),
      gp_subject_id = or_undefined (ep_subject_id p),
      gp_subject_name = or_undefined (ep_subject_name p),
      gp_course_id = or_undefined (ep_course_id p),
      gp_course_name = or_undefined (ep_course_name p),
      gp_teacher_id = or_undefined (ep_teacher_id p),
      gp_teacher_name = or_undefined (ep_teacher_name p),
      gp_warning = False, gp_message = None\<rparr>"

text \<open>\<open>existingPeriods.forEach\<close>: the row is copied and its teacher's loads are counted.\<close>

definition load_existing :: "existing_period \<Rightarrow> solver_state \<Rightarrow> solver_state" where
  "load_existing p st =
     (let st = st\<lparr>ss_result := ss_result st @ [generated_of p]\<rparr>
      in if truthy (ep_teacher_id p) then
           st\<lparr>ss_load := bump (the (ep_teacher_id p)) (ss_load st),
              ss_daily := bump (daily_key (the (ep_teacher_id p)) (ep_day p)) (ss_daily st)\<rparr>
         else st)"

definition at_slot :: "curator_day \<Rightarrow> string \<Rightarrow> string \<Rightarrow> generated_period \<Rightarrow> bool" where
  "at_slot d s e p = (gp_day p = d \<and> gp_start p = s \<and> gp_end p = e)"

definition is_assigned :: "generated_period \<Rightarrow> bool" where
  "is_assigned p = (truthy (gp_subject_id p) \<or> truthy (gp_course_id p))"

definition has_subject_assigned ::
  "generated_period list \<Rightarrow> curator_day \<Rightarrow> string \<Rightarrow> string \<Rightarrow> bool" where
  "has_subject_assigned rows d s e = list_ex (\<lambda>p. at_slot d s e p \<and> is_assigned p) rows"

definition has_period_at_time ::
  "generated_period list \<Rightarrow> curator_day \<Rightarrow> string \<Rightarrow> string \<Rightarrow> bool" where
  "has_period_at_time rows d s e = list_ex (at_slot d s e) rows"

definition count_subject_on_day :: "generated_period list \<Rightarrow> curator_day \<Rightarrow> string \<Rightarrow> int" where
  "count_subject_on_day rows d sid =
     int (count_where (\<lambda>p. gp_day p = d \<and> (gp_subject_id p = Some sid \<or> gp_course_id p = Some sid)) rows)"

definition get_previous_subject ::
  "generated_period list \<Rightarrow> curator_day \<Rightarrow> string \<Rightarrow> string option" where
  "get_previous_subject rows d s =
     (let sorted = sort_key (\<lambda>p. collation_key (gp_start p))
            (filter (\<lambda>p. gp_day p = d \<and> gp_type p = LESSON \<and> is_assigned p) rows);
          previous = filter (\<lambda>p. gp_start p < s) sorted
      in if previous = [] then None
         else or_else (gp_subject_id (last previous)) (gp_course_id (last previous)))"

section \<open>Steps of the solver\<close>

text \<open>
  \<open>Partial<CuratorGeneratedPeriod>\<close> as the solver fills it: type and the four subject and
  course keys are always present (possibly \<open>undefined\<close>), the teacher keys and the warning
  keys only when they were set.
\<close>

record period_data =
  pd_subject_id :: "string option"
  pd_subject_name :: "string option"
  pd_course_id :: "string option"
  pd_course_name :: "string option"
  pd_teacher :: "(string \<times> string) option"
  pd_warning :: "string option"

text \<open>The object spread \<open>{ ...row, ...updates }\<close>.\<close>

definition spread_period :: "generated_period \<Rightarrow> period_data \<Rightarrow> generated_period" where
  "spread_period p d =
     p\<lparr>gp_type := LESSON,
       gp_subject_id := pd_subject_id d, gp_subject_name := pd_subject_name d,
       gp_course_id := pd_course_id d, gp_course_name := pd_course_name d,
       gp_teacher_id := (case pd_teacher d of None \<Rightarrow> gp_teacher_id p | Some (i, n) \<Rightarrow> Some i),
       gp_teacher_name := (case pd_teacher d of None \<Rightarrow> gp_teacher_name p | Some (i, n) \<Rightarrow> Some n),
       gp_warning := (case pd_warning d of None \<Rightarrow> gp_warning p | Some m \<Rightarrow> True),
       gp_message := (case pd_warning d of None \<Rightarrow> gp_message p | Some m \<Rightarrow> Some m)\<rparr>"

definition update_period_in_result ::
  "curator_day \<Rightarrow> string \<Rightarrow> string \<Rightarrow> period_data \<Rightarrow> generated_period list \<Rightarrow> generated_period list" where
  "update_period_in_result d s e updates rows =
     update_first (at_slot d s e) (\<lambda>p. spread_period p updates) rows"

definition is_core_subject :: "string \<Rightarrow> bool" where
  "is_core_subject name = list_ex (str_includes (to_lower name))
     [''english'', ''mathematics'', ''math'', ''basic science'', ''science'']"

definition pool_weight :: "curator_subject \<Rightarrow> nat" where
  "pool_weight s =
     (let weight = (case cs_weight s of Some w \<Rightarrow> w
            | None \<Rightarrow> if is_core_subject (cs_name s) then 3 else 2)
      in nat (max 1 \<lfloor>weight + 1 / 2\<rfloor>))"

definition create_weighted_pool :: "solve_input \<Rightarrow> (string \<times> string) list" where
  "create_weighted_pool inp =
     concat (map (\<lambda>s. replicate (pool_weight s) (cs_id s, cs_name s)) (si_subjects inp))"

text \<open>\<open>for (i = length - 1; i > 0; i--)\<close>; the result also carries the stream position.\<close>

fun shuffle_from :: "(nat \<Rightarrow> rat) \<Rightarrow> nat \<Rightarrow> nat \<Rightarrow> 'a list \<Rightarrow> 'a list \<times> nat" where
  "shuffle_from rnd pos 0 xs = (xs, pos)"
| "shuffle_from rnd pos (Suc i) xs =
     shuffle_from rnd (Suc pos) i
       (swap_at (Suc i) (nat \<lfloor>rnd pos * (of_nat (Suc i) + 1)\<rfloor>) xs)"

definition shuffle_pool :: "(nat \<Rightarrow> rat) \<Rightarrow> nat \<Rightarrow> 'a list \<Rightarrow> 'a list \<times> nat" where
  "shuffle_pool rnd pos xs = shuffle_from rnd pos (length xs - 1) xs"

text \<open>The load of a chosen teacher, counted in both trackers.\<close>

definition count_teacher :: "string \<Rightarrow> curator_day \<Rightarrow> solver_state \<Rightarrow> solver_state" where
  "count_teacher t d st =
     st\<lparr>ss_load := bump t (ss_load st), ss_daily := bump (daily_key t d) (ss_daily st)\<rparr>"

definition available_teachers ::
  "solve_input \<Rightarrow> curator_day \<Rightarrow> solver_state \<Rightarrow> curator_teacher list \<Rightarrow> curator_teacher list" where
  "available_teachers inp d st =
     filter (\<lambda>t. load_of (ss_daily st) (daily_key (ct_id t) d) < max_periods_per_teacher inp)"

definition teacher_warning :: "solve_input \<Rightarrow> curator_day \<Rightarrow> curator_teacher \<Rightarrow> solver_state \<Rightarrow> string option" where
  "teacher_warning inp d t st =
     (let total_load = teacher_load (ss_load st) t;
          daily = load_of (ss_daily st) (daily_key (ct_id t) d)
      in if max_periods_per_teacher inp \<le> daily then
           Some (teacher_display_name t @ '' reached the daily period cap ('' @
             show_int (max_periods_per_teacher inp) @ '')'')
         else if 30 < total_load then
           Some (teacher_display_name t @ '' has '' @ show_int total_load @ '' periods (high load)'')
         else None)"

definition assign_teacher ::
  "solve_input \<Rightarrow> string \<times> string \<Rightarrow> curator_day \<Rightarrow> period_data \<Rightarrow> solver_state
    \<Rightarrow> period_data \<times> solver_state" where
  "assign_teacher inp selected d pd st =
     (case (si_school_type inp, si_class_teacher inp) of
        (PRIMARY, Some ct) \<Rightarrow>
          (pd\<lparr>pd_teacher := Some (ct_id ct, teacher_display_name ct)\<rparr>, count_teacher (ct_id ct) d st)
      | _ \<Rightarrow>
          if si_school_type inp \<noteq> SECONDARY then (pd, st)
          else
            let teachers = (case subject_by_id inp (fst selected) of
                  None \<Rightarrow> [] | Some s \<Rightarrow> cs_teachers s)
            in if teachers = [] then
                 (pd\<lparr>pd_warning := Some (''No teachers assigned to '' @ snd selected)\<rparr>, st)
               else
                 (case select_least_loaded_teacher (available_teachers inp d st teachers) (ss_load st) of
                    Some t \<Rightarrow>
                      let st' = count_teacher (ct_id t) d st
                      in (pd\<lparr>pd_teacher := Some (ct_id t, teacher_display_name t),
                             pd_warning := teacher_warning inp d t st'\<rparr>, st')
                  | None \<Rightarrow>
                      (pd\<lparr>pd_warning := Some (''All teachers for '' @ snd selected @
                         '' are at the daily period cap'')\<rparr>, st)))"

definition push_row :: "generated_period \<Rightarrow> solver_state \<Rightarrow> solver_state" where
  "push_row p st = st\<lparr>ss_result := ss_result st @ [p]\<rparr>"

definition push_free_if_missing :: "bool \<Rightarrow> curator_day \<Rightarrow> string \<Rightarrow> string \<Rightarrow> solver_state \<Rightarrow> solver_state" where
  "push_free_if_missing present d s e st = (if present then st else push_row (free_period d s e) st)"

text \<open>
  The candidate: first in the pool that differs from the previous subject of the day and is
  below the daily limit, else the head of the pool.
\<close>

definition pick_subject ::
  "solve_input \<Rightarrow> generated_period list \<Rightarrow> curator_day \<Rightarrow> string \<Rightarrow> (string \<times> string) list
    \<Rightarrow> string \<times> string" where
  "pick_subject inp rows d s pool =
     (let previous = get_previous_subject rows d s
      in case find (\<lambda>c. Some (fst c) \<noteq> previous \<and>
                count_subject_on_day rows d (fst c) < max_same_subject inp) pool of
           Some c \<Rightarrow> c | None \<Rightarrow> hd pool)"

definition subject_data :: "solve_input \<Rightarrow> string \<times> string \<Rightarrow> period_data" where
  "subject_data inp selected =
     (let tertiary = (si_school_type inp = TERTIARY)
      in \<lparr>pd_subject_id = (if tertiary then None else Some (fst selected)),
          pd_subject_name = (if tertiary then None else Some (snd selected)),
          pd_course_id = (if tertiary then Some (fst selected) else None),
          pd_course_name = (if tertiary then Some (snd selected) else None),
          pd_teacher = None, pd_warning = None\<rparr>)"

definition place_subject ::
  "solve_input \<Rightarrow> curator_day \<Rightarrow> string \<Rightarrow> string \<Rightarrow> bool \<Rightarrow> string \<times> string \<Rightarrow> solver_state
    \<Rightarrow> solver_state" where
  "place_subject inp d s e present selected st =
     (let (data, st') = assign_teacher inp selected d (subject_data inp selected) st
      in if present then
           st'\<lparr>ss_result := update_period_in_result d s e data (ss_result st')\<rparr>
         else push_row (spread_period (empty_period d s e LESSON) data) st')"

definition fill_slot ::
  "(nat \<Rightarrow> rat) \<Rightarrow> solve_input \<Rightarrow> nat \<Rightarrow> curator_day \<Rightarrow> nat \<times> string \<times> string \<Rightarrow> solver_state
    \<Rightarrow> solver_state" where
  "fill_slot rnd inp lessons_today d = (\<lambda>(i, s, e) st.
     if has_subject_assigned (ss_result st) d s e then st
     else
       let present = has_period_at_time (ss_result st) d s e;
           (pool, pos) = shuffle_pool rnd (ss_pos st) (create_weighted_pool inp);
           st = st\<lparr>ss_pos := pos\<rparr>
       in if pool = [] then push_free_if_missing present d s e st
          else
            let remaining = max 1 (int lessons_today - int i);
                draws = (ss_free_added st < ss_max_free st);
                be_free = (draws \<and> rnd pos < of_int (ss_max_free st) / of_int remaining);
                st = (if draws then st\<lparr>ss_pos := Suc pos\<rparr> else st)
            in if be_free then
                 push_free_if_missing present d s e (st\<lparr>ss_free_added := ss_free_added st + 1\<rparr>)
               else place_subject inp d s e present (pick_subject inp (ss_result st) d s pool) st)"

definition start_day :: "(nat \<Rightarrow> rat) \<Rightarrow> solve_input \<Rightarrow> solver_state \<Rightarrow> solver_state" where
  "start_day rnd inp st =
     st\<lparr>ss_free_added := 0,
        ss_max_free := free_periods_per_day inp + (if 1 / 2 < rnd (ss_pos st) then 1 else 0),
        ss_pos := Suc (ss_pos st)\<rparr>"

definition fill_day ::
  "(nat \<Rightarrow> rat) \<Rightarrow> solve_input \<Rightarrow> (string \<times> string) list \<Rightarrow> curator_day \<Rightarrow> solver_state
    \<Rightarrow> solver_state" where
  "fill_day rnd inp slots d st =
     fold (fill_slot rnd inp (length slots) d) (List.enumerate 0 slots) (start_day rnd inp st)"

section \<open>The solver\<close>

text \<open>\<open>existingLessonSlots\<close>: the distinct time slots of the existing lessons, in first-seen order.\<close>

definition existing_lesson_slots :: "existing_period list \<Rightarrow> (string \<times> string) list" where
  "existing_lesson_slots ps =
     map snd (foldl (\<lambda>m p. let key = ep_start p @ ''-'' @ ep_end p
         in if map_of m key = None then m @ [(key, (ep_start p, ep_end p))] else m) []
       (filter (\<lambda>p. ep_type p = Some ''LESSON'' \<or> \<not> truthy (ep_type p)) ps))"

definition lesson_slots :: "solve_input \<Rightarrow> (string \<times> string) list" where
  "lesson_slots inp =
     (if si_existing inp \<noteq> [] then
        sort_key (\<lambda>x. collation_key (fst x)) (existing_lesson_slots (si_existing inp))
      else map (\<lambda>p. (sp_start p, sp_end p)) (filter (\<lambda>p. sp_type p = LESSON) (si_schedule inp)))"

definition fixed_rows :: "solve_input \<Rightarrow> generated_period list" where
  "fixed_rows inp =
     concat (map (\<lambda>p. map (\<lambda>d. empty_period d (sp_start p) (sp_end p) (sp_type p)) (solver_days inp))
       (filter (\<lambda>p. sp_type p \<noteq> LESSON) (si_schedule inp)))"

definition initial_state :: "solve_input \<Rightarrow> solver_state" where
  "initial_state inp =
     (let st = fold load_existing (si_existing inp)
            \<lparr>ss_result = [], ss_load = Map.empty, ss_daily = Map.empty, ss_free_added = 0,
             ss_max_free = 0, ss_pos = 0\<rparr>
      in if si_existing inp = [] then st\<lparr>ss_result := ss_result st @ fixed_rows inp\<rparr> else st)"

text \<open>\<open>DAYS.indexOf(day)\<close>, -1 when it is not there.\<close>

fun index_of :: "'a \<Rightarrow> 'a list \<Rightarrow> int" where
  "index_of x [] = - 1"
| "index_of x (y # ys) = (if x = y then 0 else let i = index_of x ys in if i < 0 then - 1 else i + 1)"

definition row_order :: "solve_input \<Rightarrow> generated_period \<Rightarrow> int \<times> nat list" where
  "row_order inp p = (index_of (gp_day p) (solver_days inp), collation_key (gp_start p))"

definition final_state :: "(nat \<Rightarrow> rat) \<Rightarrow> solve_input \<Rightarrow> solver_state" where
  "final_state rnd inp = fold (fill_day rnd inp (lesson_slots inp)) (solver_days inp) (initial_state inp)"

definition solve_timetable :: "(nat \<Rightarrow> rat) \<Rightarrow> solve_input \<Rightarrow> generated_period list" where
  "solve_timetable rnd inp = sort_key (row_order inp) (ss_result (final_state rnd inp))"

section \<open>Analysis of a generated timetable\<close>

record teacher_entry =
  te_teacher_name :: string
  te_subjects :: "(string \<times> string \<times> int) list"
  te_total :: int

record teacher_assignment =
  ta_teacher_id :: string
  ta_teacher_name :: string
  ta_subject_id :: string
  ta_subject_name :: string
  ta_period_count :: int
  ta_total_load :: int
  ta_status :: workload_status

record missing_teacher =
  mt_id :: string
  mt_name :: string
  mt_period_count :: int

record curator_analysis =
  an_total_periods :: int
  an_assigned :: int
  an_unassigned :: int
  an_free_periods :: int
  an_subjects_used :: int
  an_teachers_involved :: int
  an_assignments :: "teacher_assignment list"
  an_without_teachers :: "missing_teacher list"
  an_warnings :: "string list"

record analysis_state =
  as_teachers :: "(string \<times> teacher_entry) list"
  as_missing :: "(string \<times> missing_teacher) list"
  as_used :: "string list"
  as_assigned :: int
  as_unassigned :: int

definition count_subject :: "string \<Rightarrow> string \<Rightarrow> (string \<times> string \<times> int) list \<Rightarrow> (string \<times> string \<times> int) list" where
  "count_subject sid name m =
     (case map_of m sid of
        None \<Rightarrow> AList.update sid (name, 1) m
      | Some (n, c) \<Rightarrow> AList.update sid (n, c + 1) m)"

text \<open>The body of \<open>lessonPeriods.forEach\<close>.\<close>

definition analyze_period :: "bool \<Rightarrow> generated_period \<Rightarrow> analysis_state \<Rightarrow> analysis_state" where
  "analyze_period required p st =
     (if \<not> truthy (gp_subject_id p) then st
      else
        let sid = the (gp_subject_id p);
            name = nullish (or_undefined (gp_subject_name p)) ''Unknown'';
            st = st\<lparr>as_used := List.insert sid (as_used st)\<rparr>
        in if truthy (gp_teacher_id p) \<and> truthy (gp_teacher_name p) then
             let tid = the (gp_teacher_id p);
                 entry = (case map_of (as_teachers st) tid of
                   None \<Rightarrow> \<lparr>te_teacher_name = the (gp_teacher_name p), te_subjects = [], te_total = 0\<rparr>
                 | Some en \<Rightarrow> en);
                 entry' = entry\<lparr>te_total := te_total entry + 1,
                   te_subjects := count_subject sid name (te_subjects entry)\<rparr>
             in st\<lparr>as_assigned := as_assigned st + 1,
                   as_teachers := AList.update tid entry' (as_teachers st)\<rparr>
           else if required then
             let entry = (case map_of (as_missing st) sid of
                   None \<Rightarrow> \<lparr>mt_id = sid, mt_name = name, mt_period_count = 0\<rparr>
                 | Some en \<Rightarrow> en)
             in st\<lparr>as_unassigned := as_unassigned st + 1,
                   as_missing := AList.update sid
                     (entry\<lparr>mt_period_count := mt_period_count entry + 1\<rparr>) (as_missing st)\<rparr>
           else st)"

definition analysis_of_lessons :: "bool \<Rightarrow> generated_period list \<Rightarrow> analysis_state" where
  "analysis_of_lessons required lessons = fold (analyze_period required) lessons
     \<lparr>as_teachers = [], as_missing = [], as_used = [], as_assigned = 0, as_unassigned = 0\<rparr>"

definition base_load :: "curator_subject list \<Rightarrow> string \<Rightarrow> string \<Rightarrow> int" where
  "base_load subjects sid tid =
     (case map_of (rev (map (\<lambda>s. (cs_id s, s)) subjects)) sid of
        None \<Rightarrow> 0
      | Some s \<Rightarrow> (case find (\<lambda>t. ct_id t = tid) (cs_teachers s) of
            None \<Rightarrow> 0 | Some t \<Rightarrow> nullish (ct_period_count t) 0))"

definition teacher_rows :: "curator_subject list \<Rightarrow> string \<times> teacher_entry \<Rightarrow> teacher_assignment list" where
  "teacher_rows subjects = (\<lambda>(tid, en).
     map (\<lambda>(sid, name, c). let load = base_load subjects sid tid + te_total en
       in \<lparr>ta_teacher_id = tid, ta_teacher_name = te_teacher_name en, ta_subject_id = sid,
           ta_subject_name = name, ta_period_count = c, ta_total_load = load,
           ta_status = workload_status load\<rparr>) (te_subjects en))"

definition workload_warning :: "teacher_assignment \<Rightarrow> string list" where
  "workload_warning ta =
     (if ta_status ta = OVERLOADED then
        [ta_teacher_name ta @ '' is overloaded with '' @ show_int (ta_total_load ta) @ '' periods'']
      else if ta_status ta = HIGH then
        [ta_teacher_name ta @ '' has high workload ('' @ show_int (ta_total_load ta) @ '' periods)'']
      else [])"

definition is_free_lesson :: "generated_period \<Rightarrow> bool" where
  "is_free_lesson p = (gp_subject_name p = Some ''Free Period'' \<or> \<not> is_assigned p)"

definition analyze_timetable_generation ::
  "generated_period list \<Rightarrow> bool \<Rightarrow> curator_subject list \<Rightarrow> curator_analysis" where
  "analyze_timetable_generation periods required subjects =
     (let lessons = filter (\<lambda>p. gp_type p = LESSON) periods;
          free = int (length (filter is_free_lesson lessons));
          st = analysis_of_lessons required lessons;
          assignments = sort_key (\<lambda>ta. - ta_total_load ta)
            (concat (map (teacher_rows subjects) (as_teachers st)));
          missing = map snd (as_missing st);
          warnings =
            (if 0 < as_unassigned st
             then [show_int (as_unassigned st) @ '' periods have no teacher assigned''] else []) @
            concat (map workload_warning assignments) @
            map (\<lambda>m. CHR 0x22 # mt_name m @ [CHR 0x22] @ '' has '' @
              show_int (mt_period_count m) @ '' periods without a teacher'') missing
      in \<lparr>an_total_periods = int (length lessons) - free, an_assigned = as_assigned st,
          an_unassigned = as_unassigned st, an_free_periods = free,
          an_subjects_used = int (length (as_used st)),
          an_teachers_involved = int (length (as_teachers st)),
          an_assignments = assignments, an_without_teachers = missing, an_warnings = warnings\<rparr>)"

end
