(* ===== verification/CuratorFacts.thy ===== *)
theory CuratorFacts
  imports CuratorSolver
begin

text \<open>
  Correctness of the timetable curator. What one slot does to the result array is
  \<open>fill_slot_result\<close>; the invariants of a slot are lifted to a day and to the whole solver
  through \<open>step_system\<close> (twice: the slots of a day are the inner run, the days the outer).
\<close>

section \<open>The shuffle\<close>

lemma shuffle_index:
  assumes "0 \<le> r" "r < (1::rat)"
  shows "nat \<lfloor>r * (of_nat (Suc i) + 1)\<rfloor> \<le> Suc i"
proof -
  have "r * (of_nat (Suc i) + 1) < 1 * (of_nat (Suc i) + 1)"
    by (rule mult_strict_right_mono [OF assms(2)]) simp
  then have "\<lfloor>r * (of_nat (Suc i) + 1)\<rfloor> < int (Suc i) + 1"
    by (simp add: floor_less_iff)
  then show ?thesis by linarith
qed

lemma mset_shuffle_from:
  assumes "\<And>n. 0 \<le> rnd n \<and> rnd n < 1" "i < length xs"
  shows "mset (fst (shuffle_from rnd pos i xs)) = mset xs"
  using assms(2)
proof (induction i arbitrary: pos xs)
  case 0
  then show ?case by simp
next
  case (Suc i)
  let ?j = "nat \<lfloor>rnd pos * (of_nat (Suc i) + 1)\<rfloor>"
  have j: "?j \<le> Suc i" using assms(1) [of pos] by (intro shuffle_index) auto
  have "mset (fst (shuffle_from rnd (Suc pos) i (swap_at (Suc i) ?j xs))) = mset (swap_at (Suc i) ?j xs)"
    using Suc.prems by (intro Suc.IH) simp
  also have "\<dots> = mset xs"
    using Suc.prems j by (intro mset_swap_at) simp_all
  finally show ?case by simp
qed

lemma mset_shuffle_pool:
  assumes "\<And>n. 0 \<le> rnd n \<and> rnd n < 1"
  shows "mset (fst (shuffle_pool rnd pos xs)) = mset xs"
proof (cases xs)
  case Nil
  then show ?thesis by (simp add: shuffle_pool_def)
next
  case (Cons x ys)
  then show ?thesis unfolding shuffle_pool_def by (intro mset_shuffle_from [OF assms]) simp
qed

section \<open>What a slot does to the result\<close>

lemma at_slot_spread [simp]: "at_slot d s e (spread_period p data) = at_slot d s e p"
  by (simp add: at_slot_def spread_period_def)

lemma at_slot_empty [simp]: "at_slot d s e (empty_period d' s' e' t) = (d' = d \<and> s' = s \<and> e' = e)"
  by (simp add: at_slot_def empty_period_def)

lemma at_slot_free [simp]: "at_slot d s e (free_period d' s' e') = (d' = d \<and> s' = s \<and> e' = e)"
  by (simp add: at_slot_def free_period_def empty_period_def)

lemma count_teacher_frame [simp]:
  "ss_result (count_teacher t d st) = ss_result st"
  "ss_daily (count_teacher t d st) = bump (daily_key t d) (ss_daily st)"
  by (simp_all add: count_teacher_def)

text \<open>The outcome of \<open>assignTeacher\<close>: at most one teacher is counted, and it is below the cap.\<close>

definition capped :: "solve_input \<Rightarrow> bool" where
  "capped inp = (\<not> (si_school_type inp = PRIMARY \<and> si_class_teacher inp \<noteq> None))"

definition keep_lighter ::
  "(string \<rightharpoonup> int) \<Rightarrow> curator_teacher \<times> int \<Rightarrow> curator_teacher \<Rightarrow> curator_teacher \<times> int" where
  "keep_lighter m = (\<lambda>(best, least) t.
     if teacher_load m t < least then (t, teacher_load m t) else (best, least))"

lemma keep_lighter_run:
  assumes "snd a = teacher_load m (fst a)"
  shows "fst (foldl (keep_lighter m) a xs) \<in> insert (fst a) (set xs)
    \<and> snd (foldl (keep_lighter m) a xs) = teacher_load m (fst (foldl (keep_lighter m) a xs))
    \<and> snd (foldl (keep_lighter m) a xs) \<le> snd a
    \<and> (\<forall>u\<in>set xs. snd (foldl (keep_lighter m) a xs) \<le> teacher_load m u)"
  using assms
proof (induction xs arbitrary: a)
  case Nil
  then show ?case by simp
next
  case (Cons x xs)
  let ?b = "keep_lighter m a x"
  have b: "snd ?b = teacher_load m (fst ?b)" "fst ?b = fst a \<or> fst ?b = x"
    "snd ?b \<le> snd a" "snd ?b \<le> teacher_load m x"
    using Cons.prems by (auto simp: keep_lighter_def case_prod_beta)
  show ?case using Cons.IH [OF b(1)] b by auto
qed

lemma select_least_loaded:
  "select_least_loaded_teacher (t # ts) m = Some (fst (foldl (keep_lighter m) (t, teacher_load m t) (t # ts)))"
  by (simp add: select_least_loaded_teacher_def keep_lighter_def)

lemma least_loaded_spec:
  assumes "select_least_loaded_teacher ts m = Some t"
  shows "t \<in> set ts" and "\<And>u. u \<in> set ts \<Longrightarrow> teacher_load m t \<le> teacher_load m u"
proof -
  obtain v vs where ts: "ts = v # vs"
    using assms by (cases ts) (simp_all add: select_least_loaded_teacher_def)
  have t: "t = fst (foldl (keep_lighter m) (v, teacher_load m v) ts)"
    using assms unfolding ts select_least_loaded by simp
  have "snd (v, teacher_load m v) = teacher_load m (fst (v, teacher_load m v))" by simp
  note run = keep_lighter_run [OF this, of ts]
  show "t \<in> set ts" using run by (auto simp: t ts)
  show "teacher_load m t \<le> teacher_load m u" if "u \<in> set ts" for u using run that by (auto simp: t)
qed

lemma assign_teacher_cases:
  obtains (none) data where "assign_teacher inp sel d pd st = (data, st)" "pd_teacher data = pd_teacher pd"
      "pd_subject_id data = pd_subject_id pd" "pd_course_id data = pd_course_id pd"
    | (counted) data t n where "assign_teacher inp sel d pd st = (data, count_teacher t d st)"
      "pd_teacher data = Some (t, n)"
      "capped inp \<Longrightarrow> load_of (ss_daily st) (daily_key t d) < max_periods_per_teacher inp"
      "pd_subject_id data = pd_subject_id pd" "pd_course_id data = pd_course_id pd"
proof -
  have "(\<exists>data. assign_teacher inp sel d pd st = (data, st) \<and> pd_teacher data = pd_teacher pd \<and>
        pd_subject_id data = pd_subject_id pd \<and> pd_course_id data = pd_course_id pd) \<or>
    (\<exists>data t n. assign_teacher inp sel d pd st = (data, count_teacher t d st) \<and>
        pd_teacher data = Some (t, n) \<and>
        (capped inp \<longrightarrow> load_of (ss_daily st) (daily_key t d) < max_periods_per_teacher inp) \<and>
        pd_subject_id data = pd_subject_id pd \<and> pd_course_id data = pd_course_id pd)"
    by (auto simp: assign_teacher_def available_teachers_def capped_def Let_def
        split: school_type.splits option.splits dest!: least_loaded_spec(1))
  then show thesis using none counted by blast
qed

lemma assign_teacher_result [simp]:
  "ss_result (snd (assign_teacher inp sel d pd st)) = ss_result st"
  by (cases rule: assign_teacher_cases [of inp sel d pd st]) simp_all

lemma fill_slot_result:
  defines "\<And>st. R st \<equiv> ss_result st"
  shows "(R (fill_slot rnd inp n d (i, s, e) st) = R st \<and> has_period_at_time (R st) d s e)
    \<or> (\<not> has_period_at_time (R st) d s e \<and>
        (\<exists>p. at_slot d s e p \<and> R (fill_slot rnd inp n d (i, s, e) st) = R st @ [p]))
    \<or> (has_period_at_time (R st) d s e \<and> \<not> has_subject_assigned (R st) d s e \<and>
        (\<exists>data. R (fill_slot rnd inp n d (i, s, e) st) = update_period_in_result d s e data (R st)))"
proof (cases "has_subject_assigned (R st) d s e")
  case True
  then have "has_period_at_time (R st) d s e"
    by (auto simp: has_subject_assigned_def has_period_at_time_def list_ex_iff)
  then show ?thesis using True by (simp add: fill_slot_def R_def)
next
  case False
  obtain pool pos where pool: "shuffle_pool rnd (ss_pos st) (create_weighted_pool inp) = (pool, pos)"
    by force
  show ?thesis
    using False
    by (auto simp: fill_slot_def R_def pool Let_def push_free_if_missing_def push_row_def
        place_subject_def case_prod_beta)
qed

lemma update_first_unique:
  assumes "\<And>r. r \<in> set rows \<Longrightarrow> p r \<Longrightarrow> \<not> q r"
  shows "mset (filter q rows) \<subseteq># mset (filter q (update_first p f rows))"
  using assms
proof (induction rows)
  case Nil
  then show ?case by simp
next
  case (Cons r rows)
  have "mset (filter q rows) \<subseteq># mset (filter q (update_first p f rows))"
    using Cons.prems by (intro Cons.IH) auto
  then show ?case using Cons.prems [of r] by (auto intro: subset_mset.order_trans)
qed

section \<open>Assigned rows are kept\<close>

definition keeps_assigned :: "generated_period list \<Rightarrow> solver_state \<Rightarrow> bool" where
  "keeps_assigned rows st \<longleftrightarrow> mset (filter is_assigned rows) \<subseteq># mset (filter is_assigned (ss_result st))"

lemma fill_slot_keeps:
  assumes "keeps_assigned rows st"
  shows "keeps_assigned rows (fill_slot rnd inp n d slot st)"
proof -
  obtain i s e where slot: "slot = (i, s, e)" by (cases slot) auto
  let ?R = "ss_result st" and ?R' = "ss_result (fill_slot rnd inp n d slot st)"
  consider "?R' = ?R" | p where "?R' = ?R @ [p]"
    | data where "\<not> has_subject_assigned ?R d s e" "?R' = update_period_in_result d s e data ?R"
    using fill_slot_result [where st = st and d = d and s = s and e = e and rnd = rnd and inp = inp and n = n and i = i] unfolding slot by blast
  then have "mset (filter is_assigned ?R) \<subseteq># mset (filter is_assigned ?R')"
  proof cases
    case (3 data)
    have "mset (filter is_assigned ?R) \<subseteq># mset (filter is_assigned (update_period_in_result d s e data ?R))"
      unfolding update_period_in_result_def
      by (rule update_first_unique) (use 3(1) in \<open>auto simp: has_subject_assigned_def list_ex_iff\<close>)
    then show ?thesis using 3(2) by simp
  qed simp_all
  then show ?thesis using assms unfolding keeps_assigned_def by (rule subset_mset.order_trans [rotated])
qed

lemma start_day_result [simp]:
  "ss_result (start_day rnd inp st) = ss_result st" "ss_daily (start_day rnd inp st) = ss_daily st"
  by (simp_all add: start_day_def)

interpretation keep_slots: step_system "fill_slot rnd inp n d" "keeps_assigned rows"
  for rnd inp n d rows
  by unfold_locales (rule fill_slot_keeps)

interpretation keep_days: step_system "fill_day rnd inp slots" "keeps_assigned rows"
  for rnd inp slots rows
proof unfold_locales
  fix st d assume "keeps_assigned rows st"
  then have "keeps_assigned rows (start_day rnd inp st)" by (simp add: keeps_assigned_def)
  then show "keeps_assigned rows (fill_day rnd inp slots d st)"
    unfolding fill_day_def by (rule keep_slots.all_runs)
qed

lemma load_existing_result: "ss_result (load_existing p st) = ss_result st @ [generated_of p]"
  by (simp add: load_existing_def Let_def)

lemma load_all_result:
  "ss_result (fold load_existing ps st) = ss_result st @ map generated_of ps"
  by (induction ps arbitrary: st) (simp_all add: load_existing_result)

lemma initial_result:
  "ss_result (initial_state inp) =
    (if si_existing inp = [] then fixed_rows inp else map generated_of (si_existing inp))"
  by (simp add: initial_state_def load_all_result Let_def)

lemma final_keeps: "keeps_assigned (ss_result (initial_state inp)) (final_state rnd inp)"
  unfolding final_state_def by (rule keep_days.all_runs) (simp add: keeps_assigned_def)

section \<open>One row per slot\<close>

definition rows_at :: "curator_day \<Rightarrow> string \<Rightarrow> string \<Rightarrow> generated_period list \<Rightarrow> nat" where
  "rows_at d s e rows = count_where (at_slot d s e) rows"

lemma rows_at_append [simp]: "rows_at d s e (xs @ ys) = rows_at d s e xs + rows_at d s e ys"
  by (simp add: rows_at_def)

lemma rows_at_update [simp]:
  "rows_at d s e (update_period_in_result d' s' e' data rows) = rows_at d s e rows"
  by (induction rows) (auto simp: rows_at_def update_period_in_result_def)

lemma has_period_rows: "has_period_at_time rows d s e \<longleftrightarrow> 0 < rows_at d s e rows"
  by (induction rows) (auto simp: has_period_at_time_def rows_at_def)

lemma at_slot_unique: "at_slot d s e p \<Longrightarrow> at_slot d' s' e' p \<longleftrightarrow> d' = d \<and> s' = s \<and> e' = e"
  by (auto simp: at_slot_def)

lemma fill_slot_rows:
  "rows_at d' s' e' (ss_result (fill_slot rnd inp n d (i, s, e) st)) =
    (if d' = d \<and> (s', e') = (s, e) then max 1 (rows_at d s e (ss_result st))
     else rows_at d' s' e' (ss_result st))"
proof -
  let ?R = "ss_result st" and ?R' = "ss_result (fill_slot rnd inp n d (i, s, e) st)"
  consider "?R' = ?R" "has_period_at_time ?R d s e"
    | p where "\<not> has_period_at_time ?R d s e" "at_slot d s e p" "?R' = ?R @ [p]"
    | data where "has_period_at_time ?R d s e" "?R' = update_period_in_result d s e data ?R"
    using fill_slot_result [where st = st and d = d and s = s and e = e and rnd = rnd and inp = inp and n = n and i = i] by blast
  then show ?thesis
  proof cases
    case (2 p)
    have "rows_at d' s' e' [p] = (if d' = d \<and> (s', e') = (s, e) then 1 else 0)"
      using at_slot_unique [OF 2(2)] by (simp add: rows_at_def)
    then show ?thesis using 2(1,3) by (simp add: has_period_rows)
  qed (auto simp: has_period_rows max_def)
qed

lemma fill_slots_rows:
  "rows_at d' s' e' (ss_result (fold (fill_slot rnd inp n d) (List.enumerate k slots) st)) =
    (if d' = d \<and> (s', e') \<in> set slots then max 1 (rows_at d' s' e' (ss_result st))
     else rows_at d' s' e' (ss_result st))"
proof (induction slots arbitrary: k st)
  case Nil
  then show ?case by simp
next
  case (Cons a slots)
  obtain s e where a: "a = (s, e)" by (cases a)
  show ?case unfolding a by (auto simp add: Cons.IH fill_slot_rows)
qed

lemma fill_day_rows:
  "rows_at d' s' e' (ss_result (fill_day rnd inp slots d st)) =
    (if d' = d \<and> (s', e') \<in> set slots then max 1 (rows_at d' s' e' (ss_result st))
     else rows_at d' s' e' (ss_result st))"
  by (simp add: fill_day_def fill_slots_rows)

lemma fill_days_rows:
  "rows_at d' s' e' (ss_result (fold (fill_day rnd inp slots) days st)) =
    (if d' \<in> set days \<and> (s', e') \<in> set slots then max 1 (rows_at d' s' e' (ss_result st))
     else rows_at d' s' e' (ss_result st))"
  by (induction days arbitrary: st) (auto simp: fill_day_rows)

lemma count_where_sort: "count_where p (sort_key k xs) = count_where p xs"
proof -
  have "count_where p ys = size (filter_mset p (mset ys))" for ys
    by (simp add: count_where_def flip: mset_filter)
  then show ?thesis by simp
qed


section \<open>The daily cap\<close>

lemma takeWhile_colon: "CHR '':'' \<notin> set xs \<Longrightarrow> takeWhile (\<lambda>c. c \<noteq> CHR '':'') (xs @ CHR '':'' # ys) = xs"
  by (induction xs) auto

lemma day_name_no_colon: "CHR '':'' \<notin> set (day_name d)"
  by (cases d) (simp_all add: day_name_def)

lemma day_name_inject: "day_name d = day_name d' \<Longrightarrow> d = d'"
  by (cases d; cases d') (simp_all add: day_name_def)

lemma daily_key_inject [simp]: "daily_key t d = daily_key t' d' \<longleftrightarrow> t = t' \<and> d = d'"
proof
  assume eq: "daily_key t d = daily_key t' d'"
  have "takeWhile (\<lambda>c. c \<noteq> CHR '':'') (rev (daily_key x y)) = rev (day_name y)" for x y
    using takeWhile_colon [of "rev (day_name y)" "rev x"] day_name_no_colon [of y]
    by (simp add: daily_key_def)
  from this [of t d] this [of t' d'] have "rev (day_name d) = rev (day_name d')" using eq by simp
  then have "d = d'" using day_name_inject by simp
  then show "t = t' \<and> d = d'" using eq by (simp add: daily_key_def)
qed simp

lemma load_of_bump [simp]: "load_of (bump k m) k' = load_of m k' + (if k' = k then 1 else 0)"
  by (simp add: load_of_def bump_def)

lemma load_of_empty [simp]: "load_of Map.empty k = 0"
  by (simp add: load_of_def)

definition teacher_count :: "generated_period list \<Rightarrow> string \<Rightarrow> curator_day \<Rightarrow> int" where
  "teacher_count rows t d = int (count_where (\<lambda>p. gp_teacher_id p = Some t \<and> gp_day p = d) rows)"

lemma teacher_count_append [simp]: "teacher_count (xs @ ys) t d = teacher_count xs t d + teacher_count ys t d"
  by (simp add: teacher_count_def)

lemma teacher_count_simps [simp]: "teacher_count [] t d = 0"
  "teacher_count (p # rows) t d =
     (if gp_teacher_id p = Some t \<and> gp_day p = d then 1 else 0) + teacher_count rows t d"
  by (simp_all add: teacher_count_def)

lemma spread_teacher:
  "gp_day (spread_period p data) = gp_day p"
  "pd_teacher data = None \<Longrightarrow> gp_teacher_id (spread_period p data) = gp_teacher_id p"
  "pd_teacher data = Some (t, n) \<Longrightarrow> gp_teacher_id (spread_period p data) = Some t"
  by (simp_all add: spread_period_def)

lemma update_teacher_none:
  "pd_teacher data = None \<Longrightarrow>
    teacher_count (update_period_in_result d s e data rows) t' d' = teacher_count rows t' d'"
  by (induction rows) (auto simp: update_period_in_result_def spread_teacher)

lemma update_teacher_some:
  "pd_teacher data = Some (t, n) \<Longrightarrow>
    teacher_count (update_period_in_result d s e data rows) t' d' \<le>
      teacher_count rows t' d' + (if t' = t \<and> d' = d then 1 else 0)"
  by (induction rows) (auto simp: update_period_in_result_def spread_teacher at_slot_def)

lemma empty_teacher [simp]: "gp_teacher_id (empty_period d s e t) = None"
  by (simp add: empty_period_def)

text \<open>
  \<open>base\<close> is the load each teacher brings from the existing timetable; the tracker is never
  below the rows and never above the cap or that load.
\<close>

definition tracked :: "solve_input \<Rightarrow> (string \<Rightarrow> curator_day \<Rightarrow> int) \<Rightarrow> solver_state \<Rightarrow> bool" where
  "tracked inp base st \<longleftrightarrow> capped inp \<and> (\<forall>t d.
     teacher_count (ss_result st) t d \<le> load_of (ss_daily st) (daily_key t d) \<and>
     load_of (ss_daily st) (daily_key t d) \<le> max (max_periods_per_teacher inp) (base t d))"

lemma subject_data_teacher [simp]: "pd_teacher (subject_data inp sel) = None"
  by (simp add: subject_data_def Let_def)

lemma place_subject_tracked:
  assumes "tracked inp base st"
  shows "tracked inp base (place_subject inp d s e present sel st)"
proof (cases rule: assign_teacher_cases [of inp sel d "subject_data inp sel" st])
  case (none data)
  then show ?thesis
    using assms by (auto simp: place_subject_def tracked_def push_row_def update_teacher_none spread_teacher)
next
  case (counted data t n)
  have below: "load_of (ss_daily st) (daily_key t d) < max_periods_per_teacher inp"
    using counted(3) assms by (simp add: tracked_def)
  let ?st = "place_subject inp d s e present sel st"
  have daily: "ss_daily ?st = bump (daily_key t d) (ss_daily st)"
    using counted(1) by (simp add: place_subject_def push_row_def)
  have rows: "teacher_count (ss_result ?st) t' d' \<le>
      teacher_count (ss_result st) t' d' + (if t' = t \<and> d' = d then 1 else 0)" for t' d'
    using counted(1) update_teacher_some [OF counted(2), of d s e "ss_result st" t' d']
      spread_teacher(3) [OF counted(2)]
    by (auto simp: place_subject_def push_row_def spread_teacher(1) empty_period_def)
  have "teacher_count (ss_result ?st) t' d' \<le> load_of (ss_daily ?st) (daily_key t' d') \<and>
      load_of (ss_daily ?st) (daily_key t' d') \<le> max (max_periods_per_teacher inp) (base t' d')" for t' d'
  proof -
    have "teacher_count (ss_result st) t' d' \<le> load_of (ss_daily st) (daily_key t' d')"
      "load_of (ss_daily st) (daily_key t' d') \<le> max (max_periods_per_teacher inp) (base t' d')"
      using assms by (simp_all add: tracked_def)
    then show ?thesis using rows [of t' d'] below unfolding daily by (auto split: if_splits)
  qed
  then show ?thesis using assms unfolding tracked_def by blast
qed

lemma tracked_frame:
  "ss_daily st' = ss_daily st \<Longrightarrow> (\<And>t d. teacher_count (ss_result st') t d = teacher_count (ss_result st) t d)
    \<Longrightarrow> tracked inp base st \<Longrightarrow> tracked inp base st'"
  by (simp add: tracked_def)

lemma tracked_fields [simp]:
  "tracked inp base (st\<lparr>ss_pos := k\<rparr>) = tracked inp base st"
  "tracked inp base (st\<lparr>ss_free_added := f\<rparr>) = tracked inp base st"
  "tracked inp base (st\<lparr>ss_pos := k, ss_free_added := f\<rparr>) = tracked inp base st"
  by (simp_all add: tracked_def)

lemma fill_slot_tracked:
  assumes "tracked inp base st"
  shows "tracked inp base (fill_slot rnd inp n d slot st)"
proof -
  obtain i s e where slot: "slot = (i, s, e)" by (cases slot) auto
  obtain pool pos where pool: "shuffle_pool rnd (ss_pos st) (create_weighted_pool inp) = (pool, pos)"
    by force
  have free: "tracked inp base st' \<Longrightarrow> tracked inp base (push_free_if_missing present d s e st')" for st' present
    by (rule tracked_frame [of _ st']) (simp_all add: push_free_if_missing_def push_row_def free_period_def empty_period_def)
  have place: "tracked inp base st' \<Longrightarrow> tracked inp base (place_subject inp d s e present sel st')"
    for st' present sel by (rule place_subject_tracked)
  have core: "tracked inp base st' \<Longrightarrow> tracked inp base
      (if be_free then push_free_if_missing present d s e (st'\<lparr>ss_free_added := f\<rparr>)
       else place_subject inp d s e present sel st')" for st' be_free present f sel
    by (simp add: free place)
  show ?thesis
  proof (cases "has_subject_assigned (ss_result st) d s e")
    case True
    then show ?thesis using assms by (simp add: slot fill_slot_def)
  next
    case False
    show ?thesis
    proof (cases "pool = []")
      case True
      then show ?thesis using assms False by (simp add: slot fill_slot_def pool Let_def free)
    next
      case ne: False
      show ?thesis
        unfolding slot fill_slot_def prod.case pool Let_def if_not_P [OF False] if_not_P [OF ne]
        by (rule core) (simp add: assms)
    qed
  qed
qed

interpretation track_slots: step_system "fill_slot rnd inp n d" "tracked inp base"
  for rnd inp n d base
  by unfold_locales (rule fill_slot_tracked)

interpretation track_days: step_system "fill_day rnd inp slots" "tracked inp base"
  for rnd inp slots base
proof unfold_locales
  fix st d assume "tracked inp base st"
  then have "tracked inp base (start_day rnd inp st)" by (simp add: tracked_def)
  then show "tracked inp base (fill_day rnd inp slots d st)"
    unfolding fill_day_def by (rule track_slots.all_runs)
qed

lemma load_one_daily:
  "load_of (ss_daily (load_existing p st)) (daily_key t d) =
    load_of (ss_daily st) (daily_key t d) + teacher_count [generated_of p] t d"
proof -
  have "gp_teacher_id (generated_of p) = or_undefined (ep_teacher_id p)" "gp_day (generated_of p) = ep_day p"
    by (simp_all add: generated_of_def)
  then show ?thesis
    by (cases "ep_teacher_id p") (auto simp: load_existing_def Let_def or_undefined_def)
qed

lemma load_existing_daily:
  "load_of (ss_daily (fold load_existing ps st)) (daily_key t d) =
    load_of (ss_daily st) (daily_key t d) + teacher_count (map generated_of ps) t d"
proof (induction ps arbitrary: st)
  case Nil
  then show ?case by simp
next
  case (Cons p ps)
  have "teacher_count (map generated_of (p # ps)) t d =
      teacher_count [generated_of p] t d + teacher_count (map generated_of ps) t d"
    by (simp del: teacher_count_append)
  then show ?case unfolding fold_Cons comp_apply Cons.IH load_one_daily by simp
qed

lemma initial_tracked:
  assumes "capped inp"
  shows "tracked inp (teacher_count (map generated_of (si_existing inp))) (initial_state inp)"
proof -
  have "teacher_count (fixed_rows inp) t d = 0" for t d
  proof -
    have "teacher_count rows t d = 0" if "\<And>p. p \<in> set rows \<Longrightarrow> gp_teacher_id p = None" for rows
      using that by (induction rows) auto
    moreover have "gp_teacher_id p = None" if "p \<in> set (fixed_rows inp)" for p
      using that by (auto simp: fixed_rows_def)
    ultimately show ?thesis by blast
  qed
  moreover have "load_of (ss_daily (initial_state inp)) (daily_key t d) =
      teacher_count (map generated_of (si_existing inp)) t d" for t d
    by (simp add: initial_state_def Let_def load_existing_daily load_of_empty)
  ultimately show ?thesis using assms by (simp add: tracked_def initial_result max_def)
qed

lemma final_tracked:
  "capped inp \<Longrightarrow> tracked inp (teacher_count (map generated_of (si_existing inp))) (final_state rnd inp)"
  unfolding final_state_def by (intro track_days.all_runs initial_tracked)

section \<open>The subject of a slot\<close>

lemma pool_elements: "set (create_weighted_pool inp) = (\<lambda>s. (cs_id s, cs_name s)) ` set (si_subjects inp)"
proof -
  have "pool_weight s \<noteq> 0" for s by (simp add: pool_weight_def Let_def)
  then show ?thesis by (force simp: create_weighted_pool_def)
qed

lemma pick_subject_in: "pool \<noteq> [] \<Longrightarrow> pick_subject inp rows d s pool \<in> set pool"
  by (auto simp: pick_subject_def Let_def split: option.splits dest!: find_Some_in)

lemma pick_subject_allowed:
  assumes "c \<in> set pool" "Some (fst c) \<noteq> get_previous_subject rows d s"
    "count_subject_on_day rows d (fst c) < max_same_subject inp"
  shows "Some (fst (pick_subject inp rows d s pool)) \<noteq> get_previous_subject rows d s \<and>
    count_subject_on_day rows d (fst (pick_subject inp rows d s pool)) < max_same_subject inp"
  using assms
  by (auto simp: pick_subject_def Let_def find_None_all split: option.splits dest!: find_Some_in)

section \<open>Sums over the analysis maps\<close>

definition sum_by :: "('v \<Rightarrow> int) \<Rightarrow> ('k \<times> 'v) list \<Rightarrow> int" where
  "sum_by f m = sum_list (map (f \<circ> snd) m)"

lemma sum_by_update:
  "sum_by f (AList.update k v m) =
    sum_by f m - (case map_of m k of None \<Rightarrow> 0 | Some u \<Rightarrow> f u) + f v"
  by (induction m) (auto simp: sum_by_def split: option.splits)

lemma sum_list_sort: "sum_list (map f (sort_key k xs)) = sum_list (map f xs)" for f :: "'a \<Rightarrow> int"
proof -
  have "sum_list (map f ys) = sum_mset (image_mset f (mset ys))" for ys
    by (simp flip: mset_map add: sum_mset_sum_list)
  then show ?thesis by simp
qed

lemma sum_list_concat: "sum_list (map f (concat xss)) = sum_list (map (\<lambda>xs. sum_list (map f xs)) xss)"
  for f :: "'a \<Rightarrow> int"
  by (induction xss) auto

definition subject_total :: "teacher_entry \<Rightarrow> int" where
  "subject_total en = sum_by snd (te_subjects en)"

lemma count_subject_total: "sum_by snd (count_subject sid name m) = sum_by snd m + 1"
  by (simp add: count_subject_def sum_by_update split: option.splits prod.splits)

definition with_teacher :: "generated_period \<Rightarrow> bool" where
  "with_teacher p = (truthy (gp_subject_id p) \<and> truthy (gp_teacher_id p) \<and> truthy (gp_teacher_name p))"

definition analysis_sums :: "bool \<Rightarrow> generated_period list \<Rightarrow> analysis_state \<Rightarrow> bool" where
  "analysis_sums required done st \<longleftrightarrow>
     as_assigned st = int (count_where with_teacher done) \<and>
     as_unassigned st = (if required then
       int (count_where (\<lambda>p. truthy (gp_subject_id p) \<and> \<not> with_teacher p) done) else 0) \<and>
     sum_by subject_total (as_teachers st) = as_assigned st \<and>
     sum_by te_total (as_teachers st) = as_assigned st \<and>
     sum_by mt_period_count (as_missing st) = as_unassigned st"

lemma analyze_period_sums:
  assumes "analysis_sums required done st"
  shows "analysis_sums required (done @ [p]) (analyze_period required p st)"
proof -
  consider "\<not> truthy (gp_subject_id p)" | "with_teacher p"
    | "truthy (gp_subject_id p)" "\<not> with_teacher p" "required"
    | "truthy (gp_subject_id p)" "\<not> with_teacher p" "\<not> required"
    by blast
  then show ?thesis
  proof cases
    case 1
    then show ?thesis
      using assms by (simp add: analysis_sums_def analyze_period_def with_teacher_def)
  next
    case 2
    then show ?thesis
      using assms
      by (auto simp: analysis_sums_def analyze_period_def with_teacher_def Let_def sum_by_update
          subject_total_def count_subject_total sum_by_def [of snd "[]"] split: option.splits)
  next
    case 3
    then show ?thesis
      using assms
      by (auto simp: analysis_sums_def analyze_period_def with_teacher_def Let_def sum_by_update
          split: option.splits)
  next
    case 4
    then show ?thesis
      using assms
      by (auto simp: analysis_sums_def analyze_period_def with_teacher_def Let_def)
  qed
qed

lemma analysis_sums_fold:
  "analysis_sums required done st \<Longrightarrow>
    analysis_sums required (done @ ps) (fold (analyze_period required) ps st)"
proof (induction ps arbitrary: "done" st)
  case Nil
  then show ?case by simp
next
  case (Cons p ps)
  from Cons.IH [OF analyze_period_sums [OF Cons.prems, of p]] show ?case by simp
qed

lemma analysis_of_lessons_sums: "analysis_sums required ps (analysis_of_lessons required ps)"
proof -
  have "analysis_sums required [] \<lparr>as_teachers = [], as_missing = [], as_used = [],
      as_assigned = 0, as_unassigned = 0\<rparr>"
    by (simp add: analysis_sums_def sum_by_def)
  from analysis_sums_fold [OF this] show ?thesis by (simp add: analysis_of_lessons_def)
qed

lemma teacher_rows_sum: "sum_list (map ta_period_count (teacher_rows subjects r)) = subject_total (snd r)"
  by (cases r) (simp add: teacher_rows_def subject_total_def sum_by_def Let_def comp_def case_prod_beta)

lemma split_count:
  "count_where with_teacher ps + count_where (\<lambda>p. truthy (gp_subject_id p) \<and> \<not> with_teacher p) ps =
    count_where (\<lambda>p. truthy (gp_subject_id p)) ps"
  by (induction ps) (auto simp: with_teacher_def)

section \<open>Properties\<close>

text \<open>
  C7: the curator never overwrites an assignment: every existing period with a subject or a
  course is in the generated timetable unchanged, as often as it was in the existing one.
\<close>

theorem solver_keeps_assigned:
  "mset (filter is_assigned (map generated_of (si_existing inp)))
    \<subseteq># mset (filter is_assigned (solve_timetable rnd inp))"
proof -
  have "mset (filter is_assigned (map generated_of (si_existing inp)))
      \<subseteq># mset (filter is_assigned (ss_result (initial_state inp)))"
    by (simp add: initial_result)
  also have "\<dots> \<subseteq># mset (filter is_assigned (ss_result (final_state rnd inp)))"
    using final_keeps by (simp add: keeps_assigned_def)
  finally show ?thesis by (simp add: solve_timetable_def mset_filter)
qed

text \<open>
  The grid is filled. Every working day has a row in every lesson slot, one when there was
  none; every other slot keeps the rows it had; and the rows come out ordered by day and time.
\<close>

theorem solver_fills_grid:
  "rows_at d s e (solve_timetable rnd inp) =
      (let given = rows_at d s e (if si_existing inp = [] then fixed_rows inp
         else map generated_of (si_existing inp))
       in if d \<in> set (solver_days inp) \<and> (s, e) \<in> set (lesson_slots inp) then max 1 given else given)
    \<and> sorted (map (row_order inp) (solve_timetable rnd inp))"
  by (simp add: solve_timetable_def rows_at_def count_where_sort)
    (simp add: rows_at_def [symmetric] final_state_def fill_days_rows initial_result Let_def)

text \<open>
  The daily cap. Outside the class-teacher mode of primary schools no teacher has more
  rows on a day than the cap, or than the existing timetable already gave them.
\<close>

theorem solver_respects_cap:
  assumes "capped inp"
  shows "teacher_count (solve_timetable rnd inp) t d \<le>
    max (max_periods_per_teacher inp) (teacher_count (map generated_of (si_existing inp)) t d)"
proof -
  have "teacher_count (ss_result (final_state rnd inp)) t d \<le>
      load_of (ss_daily (final_state rnd inp)) (daily_key t d)"
    "load_of (ss_daily (final_state rnd inp)) (daily_key t d) \<le>
      max (max_periods_per_teacher inp) (teacher_count (map generated_of (si_existing inp)) t d)"
    using final_tracked [OF assms, of rnd] unfolding tracked_def by blast+
  then show ?thesis by (simp add: solve_timetable_def teacher_count_def count_where_sort)
qed

definition sample_input :: solve_input where
  "sample_input = \<lparr>si_school_type = SECONDARY,
     si_subjects = [\<lparr>cs_id = ''m'', cs_name = ''Mathematics'', cs_teachers =
       [\<lparr>ct_id = ''t'', ct_first_name = ''Ada'', ct_last_name = ''Obi'', ct_period_count = Some 4\<rparr>],
       cs_weight = None\<rparr>],
     si_existing = [], si_schedule = secondary_schedule, si_working_days = [MONDAY],
     si_max_same = None, si_free_per_day = None, si_max_teacher = Some 2, si_class_teacher = None\<rparr>"

theorem solver_respects_cap_witness:
  "teacher_count (solve_timetable (\<lambda>n. 0) sample_input) ''t'' MONDAY \<le>
    max (max_periods_per_teacher sample_input)
      (teacher_count (map generated_of (si_existing sample_input)) ''t'' MONDAY)"
  by (rule solver_respects_cap) (simp add: capped_def sample_input_def)

text \<open>
  The choice of a subject. With random numbers in [0, 1) the shuffled pool offers exactly
  the subjects of the input, so the chosen one is a subject of the input, and it differs from
  the previous lesson and is below the daily limit whenever some subject of the input is.
\<close>

theorem solver_subject_choice:
  assumes "\<And>n. 0 \<le> rnd n \<and> rnd n < 1" and "si_subjects inp \<noteq> []"
  shows "let c = pick_subject inp rows d s (fst (shuffle_pool rnd pos (create_weighted_pool inp)));
             allowed = (\<lambda>i. Some i \<noteq> get_previous_subject rows d s \<and>
               count_subject_on_day rows d i < max_same_subject inp)
    in c \<in> (\<lambda>u. (cs_id u, cs_name u)) ` set (si_subjects inp)
      \<and> allowed (fst c) = list_ex (\<lambda>u. allowed (cs_id u)) (si_subjects inp)"
proof -
  let ?pool = "fst (shuffle_pool rnd pos (create_weighted_pool inp))"
  have pool: "set ?pool = (\<lambda>u. (cs_id u, cs_name u)) ` set (si_subjects inp)"
    unfolding pool_elements [symmetric] by (rule mset_eq_setD, rule mset_shuffle_pool, rule assms(1))
  then have "?pool \<noteq> []" using assms(2) by force
  note inn = pick_subject_in [OF this, of inp rows d s]
  show ?thesis
    unfolding Let_def
  proof (intro conjI iffI)
    show "pick_subject inp rows d s ?pool \<in> (\<lambda>u. (cs_id u, cs_name u)) ` set (si_subjects inp)"
      using inn pool by simp
  next
    assume "Some (fst (pick_subject inp rows d s ?pool)) \<noteq> get_previous_subject rows d s \<and>
      count_subject_on_day rows d (fst (pick_subject inp rows d s ?pool)) < max_same_subject inp"
    then show "list_ex (\<lambda>u. Some (cs_id u) \<noteq> get_previous_subject rows d s \<and>
        count_subject_on_day rows d (cs_id u) < max_same_subject inp) (si_subjects inp)"
      using inn unfolding pool list_ex_iff by auto
  next
    assume "list_ex (\<lambda>u. Some (cs_id u) \<noteq> get_previous_subject rows d s \<and>
        count_subject_on_day rows d (cs_id u) < max_same_subject inp) (si_subjects inp)"
    then obtain u where u: "u \<in> set (si_subjects inp)" "Some (cs_id u) \<noteq> get_previous_subject rows d s"
      "count_subject_on_day rows d (cs_id u) < max_same_subject inp"
      by (auto simp: list_ex_iff)
    have "(cs_id u, cs_name u) \<in> set ?pool" using u(1) unfolding pool by blast
    from pick_subject_allowed [OF this, unfolded fst_conv, OF u(2,3)]
    show "Some (fst (pick_subject inp rows d s ?pool)) \<noteq> get_previous_subject rows d s"
      "count_subject_on_day rows d (fst (pick_subject inp rows d s ?pool)) < max_same_subject inp"
      by blast+
  qed
qed

theorem solver_subject_choice_witness:
  "let c = pick_subject sample_input [] MONDAY ''08:15''
             (fst (shuffle_pool (\<lambda>n. 1 / 2) 0 (create_weighted_pool sample_input)));
       allowed = (\<lambda>i. Some i \<noteq> get_previous_subject [] MONDAY ''08:15'' \<and>
         count_subject_on_day [] MONDAY i < max_same_subject sample_input)
    in c \<in> (\<lambda>u. (cs_id u, cs_name u)) ` set (si_subjects sample_input)
      \<and> allowed (fst c) = list_ex (\<lambda>u. allowed (cs_id u)) (si_subjects sample_input)"
  by (rule solver_subject_choice) (simp_all add: sample_input_def)

text \<open>
  Teacher assignment in secondary schools. The teacher is one of the subject's teachers
  below the daily cap, and none of those carries a smaller load; when there is none the slot
  keeps no teacher and gets a warning.
\<close>

theorem assign_teacher_balances:
  assumes "si_school_type inp = SECONDARY" and "subject_by_id inp (fst sel) = Some sub"
  shows "let free = available_teachers inp d st (cs_teachers sub)
    in if free = [] then
         assign_teacher inp sel d pd st =
           (pd\<lparr>pd_warning := Some (if cs_teachers sub = [] then ''No teachers assigned to '' @ snd sel
              else ''All teachers for '' @ snd sel @ '' are at the daily period cap'')\<rparr>, st)
       else \<exists>t\<in>set free.
         list_all (\<lambda>u. teacher_load (ss_load st) t \<le> teacher_load (ss_load st) u) free \<and>
         assign_teacher inp sel d pd st =
           (pd\<lparr>pd_teacher := Some (ct_id t, teacher_display_name t),
               pd_warning := teacher_warning inp d t (count_teacher (ct_id t) d st)\<rparr>,
            count_teacher (ct_id t) d st)"
proof -
  let ?free = "available_teachers inp d st (cs_teachers sub)"
  show ?thesis
  proof (cases "?free = []")
    case True
    then show ?thesis
      using assms by (simp add: assign_teacher_def Let_def select_least_loaded_teacher_def)
  next
    case False
    then obtain u us where free: "?free = u # us" by (cases ?free) auto
    then obtain t where t: "select_least_loaded_teacher ?free (ss_load st) = Some t"
      by (simp add: select_least_loaded)
    have "cs_teachers sub \<noteq> []" using False by (auto simp: available_teachers_def)
    then have "assign_teacher inp sel d pd st =
        (pd\<lparr>pd_teacher := Some (ct_id t, teacher_display_name t),
            pd_warning := teacher_warning inp d t (count_teacher (ct_id t) d st)\<rparr>,
         count_teacher (ct_id t) d st)"
      using assms t by (simp add: assign_teacher_def Let_def)
    moreover have "t \<in> set ?free"
      "list_all (\<lambda>v. teacher_load (ss_load st) t \<le> teacher_load (ss_load st) v) ?free"
      using least_loaded_spec [OF t] by (auto simp: list_all_iff)
    ultimately show ?thesis using False unfolding Let_def by auto
  qed
qed

theorem assign_teacher_balances_witness:
  "let sub = hd (si_subjects sample_input);
             free = available_teachers sample_input MONDAY (initial_state sample_input) (cs_teachers sub);
             st = initial_state sample_input; sel = (''m'', ''Mathematics'');
             pd = subject_data sample_input sel
    in if free = [] then
         assign_teacher sample_input sel MONDAY pd st =
           (pd\<lparr>pd_warning := Some (if cs_teachers sub = [] then ''No teachers assigned to '' @ snd sel
              else ''All teachers for '' @ snd sel @ '' are at the daily period cap'')\<rparr>, st)
       else \<exists>t\<in>set free.
         list_all (\<lambda>u. teacher_load (ss_load st) t \<le> teacher_load (ss_load st) u) free \<and>
         assign_teacher sample_input sel MONDAY pd st =
           (pd\<lparr>pd_teacher := Some (ct_id t, teacher_display_name t),
               pd_warning := teacher_warning sample_input MONDAY t (count_teacher (ct_id t) MONDAY st)\<rparr>,
            count_teacher (ct_id t) MONDAY st)"
proof -
  have s: "si_school_type sample_input = SECONDARY" by (simp add: sample_input_def)
  have "subject_by_id sample_input (fst (''m'', ''Mathematics'')) = Some (hd (si_subjects sample_input))"
    by (simp add: sample_input_def subject_by_id_def)
  from assign_teacher_balances [OF s this, of MONDAY "initial_state sample_input"
      "subject_data sample_input (''m'', ''Mathematics'')"]
  show ?thesis unfolding Let_def .
qed

text \<open>
  The analysis adds up. Lessons split into free and taught ones; the rows with a teacher
  and, when teachers are required, the rows without one split the lessons with a subject; the
  per-teacher and per-subject breakdowns sum to those two counters.
\<close>

theorem analysis_totals:
  "let a = analyze_timetable_generation periods required subjects;
       lessons = filter (\<lambda>p. gp_type p = LESSON) periods
   in an_total_periods a + an_free_periods a = int (length lessons)
    \<and> an_assigned a = int (count_where with_teacher lessons)
    \<and> an_assigned a + an_unassigned a =
        (if required then int (count_where (\<lambda>p. truthy (gp_subject_id p)) lessons)
         else int (count_where with_teacher lessons))
    \<and> sum_list (map ta_period_count (an_assignments a)) = an_assigned a
    \<and> sum_list (map mt_period_count (an_without_teachers a)) = an_unassigned a
    \<and> sorted (map (\<lambda>ta. - ta_total_load ta) (an_assignments a))"
proof -
  define lessons where "lessons = filter (\<lambda>p. gp_type p = LESSON) periods"
  define st where "st = analysis_of_lessons required lessons"
  have sums: "analysis_sums required lessons st"
    unfolding st_def by (rule analysis_of_lessons_sums)
  have "sum_list (map ta_period_count (concat (map (teacher_rows subjects) (as_teachers st)))) =
      sum_by subject_total (as_teachers st)"
    unfolding sum_list_concat map_map comp_def teacher_rows_sum sum_by_def ..
  moreover have "sum_list (map mt_period_count (map snd (as_missing st))) =
      sum_by mt_period_count (as_missing st)"
    by (simp add: sum_by_def)
  ultimately have sums':
    "sum_list (map ta_period_count (concat (map (teacher_rows subjects) (as_teachers st)))) = as_assigned st"
    "sum_list (map mt_period_count (map snd (as_missing st))) = as_unassigned st"
    "as_assigned st = int (count_where with_teacher lessons)"
    using sums by (simp_all add: analysis_sums_def)
  have parts: "as_assigned st + as_unassigned st =
      (if required then int (count_where (\<lambda>p. truthy (gp_subject_id p)) lessons)
       else int (count_where with_teacher lessons))"
    using sums by (simp add: analysis_sums_def flip: split_count)
  show ?thesis
    unfolding analyze_timetable_generation_def Let_def lessons_def [symmetric] st_def [symmetric]
      curator_analysis.select_convs sum_list_sort sums'(1,2)
    by (intro conjI parts sums'(3) sorted_sort_key refl) simp
qed

end
