(* ===== verification/SubscriptionConfig.thy ===== *)
theory SubscriptionConfig
  imports JsDate
begin

text \<open>
  Subscription tiers, grace constants and the development shortcuts,
  \<open>src/src/subscriptions/subscription-dev.config.ts\<close> and
  \<open>subscription-billing.constants.ts\<close>. \<open>process.env\<close> is the parameter \<open>env\<close>, a map from
  variable names to values; \<open>tz\<close> is the offset of the server's zone.
\<close>

type_synonym env = "string \<rightharpoonup> string"

datatype subscription_tier = FREE | PRO | PRO_PLUS | CUSTOM

text \<open>The tiers in the order in which a school upgrades through them.\<close>

definition tier_rank :: "subscription_tier \<Rightarrow> nat" where
  "tier_rank t = (case t of FREE \<Rightarrow> 0 | PRO \<Rightarrow> 1 | PRO_PLUS \<Rightarrow> 2 | CUSTOM \<Rightarrow> 3)"

lemma tier_rank_inject: "tier_rank a = tier_rank b \<Longrightarrow> a = b"
  by (cases a; cases b) (simp_all add: tier_rank_def)

instantiation subscription_tier :: linorder
begin

definition less_eq_subscription_tier :: "subscription_tier \<Rightarrow> subscription_tier \<Rightarrow> bool" where
  "less_eq_subscription_tier a b = (tier_rank a \<le> tier_rank b)"

definition less_subscription_tier :: "subscription_tier \<Rightarrow> subscription_tier \<Rightarrow> bool" where
  "less_subscription_tier a b = (tier_rank a < tier_rank b)"

instance
  by standard (auto simp: less_eq_subscription_tier_def less_subscription_tier_def dest: tier_rank_inject)

end

definition tier_name :: "subscription_tier \<Rightarrow> string" where
  "tier_name t = (case t of FREE \<Rightarrow> ''FREE'' | PRO \<Rightarrow> ''PRO'' | PRO_PLUS \<Rightarrow> ''PRO_PLUS'' | CUSTOM \<Rightarrow> ''CUSTOM'')"

section \<open>Reading the environment\<close>

definition env_flag :: "env \<Rightarrow> string \<Rightarrow> bool" where
  "env_flag env name =
     (case env name of None \<Rightarrow> False
      | Some v \<Rightarrow> to_lower (trim v) \<in> {''1'', ''true'', ''yes'', ''on''})"

fun digits_value :: "nat \<Rightarrow> string \<Rightarrow> nat" where
  "digits_value acc [] = acc"
| "digits_value acc (c # s) = digits_value (10 * acc + (of_char c - 48)) s"

text \<open>\<open>Number.parseInt(raw, 10)\<close>: leading blanks, an optional sign, the digits that follow; None is NaN.\<close>

definition parse_int :: "string \<Rightarrow> int option" where
  "parse_int raw =
     (let s = dropWhile is_space_char raw;
          negative = (take 1 s = ''-'');
          body = (if take 1 s = ''-'' \<or> take 1 s = ''+'' then drop 1 s else s);
          digits = takeWhile is_digit_char body
      in if digits = [] then None
         else Some (if negative then - int (digits_value 0 digits) else int (digits_value 0 digits)))"

definition env_optional_positive_int :: "env \<Rightarrow> string \<Rightarrow> int option" where
  "env_optional_positive_int env name =
     (case env name of None \<Rightarrow> None
      | Some raw \<Rightarrow>
          if trim raw = [] then None
          else (case parse_int raw of None \<Rightarrow> None | Some n \<Rightarrow> if 1 \<le> n then Some n else None))"

definition env_positive_int :: "env \<Rightarrow> string \<Rightarrow> int \<Rightarrow> int" where
  "env_positive_int env name fallback = nullish (env_optional_positive_int env name) fallback"

definition parse_period_to_days :: "string \<Rightarrow> int option" where
  "parse_period_to_days raw =
     (let s = to_lower (trim raw);
          digits = takeWhile is_digit_char s;
          unit = dropWhile is_space_char (dropWhile is_digit_char s);
          n = int (digits_value 0 digits)
      in if digits = [] \<or> unit \<notin> {'''', ''d'', ''day'', ''days'', ''w'', ''wk'', ''week'', ''weeks''} then None
         else if n < 1 then None
         else if unit \<in> {''w'', ''wk'', ''week'', ''weeks''} then Some (n * 7)
         else Some n)"

section \<open>Fast mode\<close>

definition is_fast_subscription_mode :: "env \<Rightarrow> bool" where
  "is_fast_subscription_mode env =
     (if env ''NODE_ENV'' = Some ''production'' then False else env_flag env ''DEV_FAST_SUBSCRIPTION'')"

definition get_subscription_period_days :: "env \<Rightarrow> int" where
  "get_subscription_period_days env =
     (if \<not> is_fast_subscription_mode env then 0
      else
        let fallback = (case env_optional_positive_int env ''DEV_SUBSCRIPTION_PERIOD_WEEKS'' of
              Some weeks \<Rightarrow> weeks * 7
            | None \<Rightarrow> env_positive_int env ''DEV_SUBSCRIPTION_PERIOD_DAYS'' 1)
        in case map_option trim (env ''DEV_SUBSCRIPTION_PERIOD'') of
             None \<Rightarrow> fallback
           | Some shorthand \<Rightarrow>
               if shorthand = [] then fallback else nullish (parse_period_to_days shorthand) fallback)"

definition subscription_grace_days :: int where
  "subscription_grace_days = 14"

definition subscription_grace_reminder_days :: "int list" where
  "subscription_grace_reminder_days = [1, 3, 7, 10, 14]"

definition get_subscription_grace_days :: "env \<Rightarrow> int" where
  "get_subscription_grace_days env =
     (if \<not> is_fast_subscription_mode env then subscription_grace_days
      else env_positive_int env ''DEV_SUBSCRIPTION_GRACE_DAYS'' 1)"

definition get_subscription_grace_reminder_days :: "env \<Rightarrow> int list" where
  "get_subscription_grace_reminder_days env =
     (let grace = get_subscription_grace_days env
      in if \<not> is_fast_subscription_mode env then subscription_grace_reminder_days
         else filter (\<lambda>d. d \<le> grace) (uniq ([1] @ (if 1 < grace then [grace] else []))))"

definition get_dev_pro_max_students :: "env \<Rightarrow> int" where
  "get_dev_pro_max_students env =
     (if \<not> is_fast_subscription_mode env then 800 else env_positive_int env ''DEV_PRO_MAX_STUDENTS'' 5)"

definition get_dev_free_max_students :: "env \<Rightarrow> int" where
  "get_dev_free_max_students env =
     (if \<not> is_fast_subscription_mode env then 100 else env_positive_int env ''DEV_FREE_MAX_STUDENTS'' 2)"

definition get_dev_student_cap_for_tier :: "env \<Rightarrow> subscription_tier option \<Rightarrow> int option" where
  "get_dev_student_cap_for_tier env t =
     (if \<not> is_fast_subscription_mode env then None
      else if t = Some PRO then Some (get_dev_pro_max_students env)
      else if t = Some FREE then Some (get_dev_free_max_students env)
      else None)"

definition apply_dev_student_cap :: "env \<Rightarrow> subscription_tier option \<Rightarrow> int \<Rightarrow> int" where
  "apply_dev_student_cap env t max_students = nullish (get_dev_student_cap_for_tier env t) max_students"

definition add_paid_period :: "env \<Rightarrow> int \<Rightarrow> date \<Rightarrow> bool \<Rightarrow> date" where
  "add_paid_period env tz base is_yearly =
     (if is_fast_subscription_mode env then plus_days base (get_subscription_period_days env)
      else if is_yearly then plus_years tz base 1
      else plus_months tz base 1)"

text \<open>
  \<open>applyDevPlanOverrides\<close>: a plan's student cap, and the feature texts of the form
  "800 Students" rewritten to it; a feature without a text is None.
\<close>

record plan_view =
  pv_tier_code :: "subscription_tier option"
  pv_max_students :: int
  pv_features :: "string option list option"

definition is_student_feature :: "string \<Rightarrow> bool" where
  "is_student_feature text =
     (case to_lower (trim text) of
        [] \<Rightarrow> False
      | c # rest \<Rightarrow>
          let after = dropWhile (\<lambda>d. is_digit_char d \<or> d = CHR '','') rest
          in is_digit_char c \<and> takeWhile is_space_char after \<noteq> [] \<and>
             dropWhile is_space_char after = ''students'')"

definition apply_dev_plan_overrides :: "env \<Rightarrow> plan_view \<Rightarrow> plan_view" where
  "apply_dev_plan_overrides env p =
     (case get_dev_student_cap_for_tier env (pv_tier_code p) of
        None \<Rightarrow> p
      | Some n \<Rightarrow>
          p\<lparr>pv_max_students := n,
            pv_features := map_option (map (map_option (\<lambda>t.
              if is_student_feature t then show_int n @ '' Students'' else t))) (pv_features p)\<rparr>)"

definition describe_fast_subscription_mode :: "env \<Rightarrow> string" where
  "describe_fast_subscription_mode env =
     (let days = get_subscription_period_days env
      in ''DEV_FAST_SUBSCRIPTION is ON: paid period='' @ show_int days @ ''d'' @
         (if days mod 7 = 0 then '' ('' @ show_int (days div 7) @ ''w)'' else []) @
         '', grace='' @ show_int (get_subscription_grace_days env) @
         ''d, Pro max students='' @ show_int (get_dev_pro_max_students env) @
         '', Free max students='' @ show_int (get_dev_free_max_students env) @
         ''. Ignored when NODE_ENV=production.'')"

section \<open>Facts\<close>

lemma env_optional_positive: "env_optional_positive_int env name = Some n \<Longrightarrow> 1 \<le> n"
  by (auto simp: env_optional_positive_int_def split: option.splits if_splits)

lemma env_positive: "1 \<le> d \<Longrightarrow> 1 \<le> env_positive_int env name d"
  unfolding env_positive_int_def
  by (cases "env_optional_positive_int env name") (auto dest: env_optional_positive)

lemma parse_period_positive: "parse_period_to_days raw = Some n \<Longrightarrow> 1 \<le> n"
  by (auto simp: parse_period_to_days_def Let_def split: if_splits)

lemma period_days_positive:
  assumes "is_fast_subscription_mode env"
  shows "1 \<le> get_subscription_period_days env"
proof -
  have "1 \<le> (case env_optional_positive_int env ''DEV_SUBSCRIPTION_PERIOD_WEEKS'' of
      Some weeks \<Rightarrow> weeks * 7 | None \<Rightarrow> env_positive_int env ''DEV_SUBSCRIPTION_PERIOD_DAYS'' 1)"
    using env_positive [of 1] by (auto split: option.splits dest!: env_optional_positive)
  then show ?thesis
    using assms
    by (auto simp: get_subscription_period_days_def Let_def nullish_def split: option.splits
        dest!: parse_period_positive)
qed

lemma grace_days_positive: "1 \<le> get_subscription_grace_days env"
  using env_positive [of 1] by (simp add: get_subscription_grace_days_def subscription_grace_days_def)

lemma free_cap_positive: "1 \<le> get_dev_free_max_students env"
  using env_positive [of 2] by (simp add: get_dev_free_max_students_def)

text \<open>
  A payment always buys time: at least a day in fast mode, 28 days for a month and 364 days
  for a year otherwise.
\<close>

lemma paid_period_extends:
  "base + (if is_fast_subscription_mode env then 1 else if is_yearly then 364 else 28) * ms_per_day
    \<le> add_paid_period env tz base is_yearly"
  using period_days_positive [of env] plus_months_one [of tz base] plus_years_one [of tz base]
  by (auto simp: add_paid_period_def plus_days_def ms_per_day_def)

end
