(* ===== verification/AccessTier.thy ===== *)
theory AccessTier
  imports JsDate
begin

text \<open>
  The stored access tier of a school admin and the one authority check on it,
  \<open>hasPrincipalAccess\<close> of \<open>src/src/schools/dto/permission.dto.ts\<close>: billing, the school
  lifecycle and the permission system all decide with it. The title plays no part. Next to it
  stands the role of a user, the enum \<open>UserRole\<close> of the schema.
\<close>

datatype user_role = ROLE_SUPER_ADMIN | ROLE_SCHOOL_ADMIN | ROLE_TEACHER | ROLE_STUDENT

datatype admin_access_tier = PRINCIPAL_TIER | STAFF_TIER

definition has_principal_access :: "admin_access_tier option \<Rightarrow> bool" where
  "has_principal_access t = (t = Some PRINCIPAL_TIER)"

end
