(* ===== verification/Subscriptions.thy ===== *)
theory Subscriptions
  imports SubscriptionConfig AccessTier
begin

text \<open>
  The subscription service, \<open>src/src/subscriptions/subscriptions.service.ts\<close>, with the tool
  guard \<open>src/src/common/guards/tool-access.guard.ts\<close>. The tables of the billing subsystem
  are the fields of \<open>billing_db\<close>, in database order; the audit log, the usage log, the
  notifications and the revenue counter are append-only lists. An operation that reads the
  clock takes it as \<open>now\<close>; an operation that may throw returns \<open>http_error + _\<close>, and every
  throw of this service precedes its first write. The stored limits and credits are the
  database's integers, and \<open>-1\<close> means unlimited.
\<close>

section \<open>Tables\<close>

datatype billing_phase = PHASE_OK | GRACE_PERIOD | ADMIN_ACTION_REQUIRED

datatype tool_status = TOOL_ACTIVE | TOOL_TRIAL | TOOL_EXPIRED | TOOL_DISABLED

datatype payment_status = PAY_PENDING | PAY_SUCCESS | PAY_FAILED

record subscription =
  sub_id :: ident
  sub_school :: ident
  sub_tier :: subscription_tier
  sub_plan_id :: "ident option"
  sub_start :: date
  sub_end :: "date option"
  sub_active :: bool
  sub_max_students :: int
  sub_max_teachers :: int
  sub_max_admins :: int
  sub_credits :: int
  sub_credits_used :: int
  sub_last_reset :: "date option"
  sub_phase :: billing_phase
  sub_grace_ends :: "date option"
  sub_reminded_at :: "date option"
  sub_code :: "string option"
  sub_email_token :: "string option"
  sub_customer :: "string option"
  sub_recurring :: bool

record subscription_plan =
  pl_id :: ident
  pl_tier :: subscription_tier
  pl_public :: bool
  pl_max_students :: int
  pl_max_teachers :: int
  pl_max_admins :: int
  pl_credits :: int
  pl_monthly_code :: "string option"
  pl_yearly_code :: "string option"

record enrollment =
  en_id :: ident
  en_student :: ident
  en_school :: ident
  en_date :: date
  en_active :: bool
  en_locked :: bool

record staff_row =
  st_id :: ident
  st_school :: ident
  st_created :: date
  st_suspended :: bool
  st_access :: admin_access_tier

record tool =
  tl_id :: ident
  tl_slug :: string
  tl_name :: string
  tl_active :: bool
  tl_sort :: int
  tl_roles :: "string list"

record tool_access =
  ta_id :: ident
  ta_school :: ident
  ta_tool :: ident
  ta_subscription :: "ident option"
  ta_state :: tool_status
  ta_trial_ends :: "date option"
  ta_activated :: "date option"
  ta_expires :: "date option"

record payment_metadata =
  pm_tier :: subscription_tier
  pm_yearly :: bool
  pm_plan_code :: "string option"

record payment =
  py_subscription :: ident
  py_amount :: rat
  py_status :: payment_status
  py_reference :: string
  py_metadata :: "payment_metadata option"
  py_paid_at :: "date option"
  py_created :: date

record usage_log =
  ul_school :: ident
  ul_user :: ident
  ul_action :: string
  ul_credits :: int
  ul_created :: date

record audit_entry =
  au_school :: ident
  au_action :: string
  au_actor :: "ident option"
  au_previous_tier :: "subscription_tier option"
  au_new_tier :: "subscription_tier option"
  au_previous_end :: "date option"
  au_new_end :: "date option"

record reminder =
  rm_school :: ident
  rm_kind :: billing_phase
  rm_grace_ends :: date
  rm_grace_day :: int
  rm_at :: date

record school_row =
  sc_id :: ident
  sc_email :: "string option"

record billing_db =
  bd_subs :: "subscription list"
  bd_plans :: "subscription_plan list"
  bd_schools :: "school_row list"
  bd_enrollments :: "enrollment list"
  bd_teachers :: "staff_row list"
  bd_admins :: "staff_row list"
  bd_tools :: "tool list"
  bd_access :: "tool_access list"
  bd_payments :: "payment list"
  bd_processed :: "(string \<times> bool) list"
  bd_usage :: "usage_log list"
  bd_audit :: "audit_entry list"
  bd_reminders :: "reminder list"
  bd_revenue :: "(subscription_tier \<times> bool \<times> rat) list"

section \<open>Limits of a tier\<close>

record tier_caps =
  cap_students :: int
  cap_teachers :: int
  cap_admins :: int
  cap_credits :: int

definition tier_limits :: "subscription_tier \<Rightarrow> tier_caps" where
  "tier_limits t = (case t of
       FREE \<Rightarrow> \<lparr>cap_students = 100, cap_teachers = 10, cap_admins = 2, cap_credits = 0\<rparr>
     | PRO \<Rightarrow> \<lparr>cap_students = 800, cap_teachers = 80, cap_admins = 20, cap_credits = 10000\<rparr>
     | PRO_PLUS \<Rightarrow> \<lparr>cap_students = 2000, cap_teachers = 150, cap_admins = 35, cap_credits = 25000\<rparr>
     | CUSTOM \<Rightarrow> \<lparr>cap_students = - 1, cap_teachers = - 1, cap_admins = - 1, cap_credits = - 1\<rparr>)"

definition tier_tools :: "subscription_tier \<Rightarrow> string list" where
  "tier_tools t = (case t of FREE \<Rightarrow> [] | PRO \<Rightarrow> [''agora-ai''] | PRO_PLUS \<Rightarrow> [''agora-ai'']
     | CUSTOM \<Rightarrow> [''agora-ai''])"

definition get_tier_limit_caps :: "env \<Rightarrow> subscription_tier \<Rightarrow> tier_caps" where
  "get_tier_limit_caps env t =
     (let limits = tier_limits t
      in limits\<lparr>cap_students := apply_dev_student_cap env (Some t) (cap_students limits)\<rparr>)"

definition find_sub :: "ident \<Rightarrow> billing_db \<Rightarrow> subscription option" where
  "find_sub school db = find (\<lambda>s. sub_school s = school) (bd_subs db)"

text \<open>The school id is a unique key, so \<open>update\<close> rewrites one row.\<close>

definition update_sub :: "ident \<Rightarrow> (subscription \<Rightarrow> subscription) \<Rightarrow> billing_db \<Rightarrow> billing_db" where
  "update_sub school f db =
     db\<lparr>bd_subs := update_first (\<lambda>s. sub_school s = school) f (bd_subs db)\<rparr>"

definition is_ai_billing_period_active ::
  "date \<Rightarrow> subscription_tier \<Rightarrow> date option \<Rightarrow> int \<Rightarrow> bool" where
  "is_ai_billing_period_active now t end_date credits =
     (if t = FREE then False
      else if t = CUSTOM \<and> credits = - 1 then (case end_date of None \<Rightarrow> True | Some e \<Rightarrow> now < e)
      else if t = CUSTOM then (case end_date of None \<Rightarrow> False | Some e \<Rightarrow> now < e)
      else (case end_date of None \<Rightarrow> True | Some e \<Rightarrow> now < e))"

definition ai_active :: "date \<Rightarrow> subscription \<Rightarrow> bool" where
  "ai_active now s = is_ai_billing_period_active now (sub_tier s) (sub_end s) (sub_credits s)"

section \<open>AI credits\<close>

record credits_result =
  cr_success :: bool
  cr_used :: int
  cr_remaining :: int
  cr_message :: "string option"

definition top_up_ai_credit_pool ::
  "date \<Rightarrow> ident \<Rightarrow> int \<Rightarrow> billing_db \<Rightarrow> http_error + credits_result \<times> billing_db" where
  "top_up_ai_credit_pool now school credits db =
     (if credits < 1 then Inl (BadRequest ''Invalid credits amount'')
      else case find_sub school db of
        None \<Rightarrow> Inl (NotFound ''Subscription not found'')
      | Some s \<Rightarrow>
          if sub_credits s = - 1 then
            Inr (\<lparr>cr_success = True, cr_used = 0, cr_remaining = - 1,
                  cr_message = Some ''This plan has unlimited AI credits.''\<rparr>, db)
          else if \<not> ai_active now s then
            Inl (Forbidden ''Credits can only be topped up during an active billing period. Renew your subscription to use AI again; unused credits roll over into the new period.'')
          else
            Inr (\<lparr>cr_success = True, cr_used = 0,
                  cr_remaining = sub_credits s + credits - sub_credits_used s, cr_message = None\<rparr>,
                 update_sub school (\<lambda>s. s\<lparr>sub_credits := sub_credits s + credits\<rparr>) db))"

definition use_ai_credits ::
  "date \<Rightarrow> ident \<Rightarrow> int \<Rightarrow> ident \<Rightarrow> string option \<Rightarrow> billing_db
    \<Rightarrow> http_error + credits_result \<times> billing_db" where
  "use_ai_credits now school credits user action db =
     (case find_sub school db of
        None \<Rightarrow> Inl (NotFound ''Subscription not found'')
      | Some s \<Rightarrow>
          if \<not> ai_active now s then
            Inr (\<lparr>cr_success = False, cr_used = 0,
                  cr_remaining = (if sub_credits s = - 1 then - 1
                    else max 0 (sub_credits s - sub_credits_used s)),
                  cr_message = Some ''Your billing period has ended. AI is inactive until you renew; unused credits roll over when you resubscribe.''\<rparr>, db)
          else if sub_credits s = - 1 then
            Inr (\<lparr>cr_success = True, cr_used = credits, cr_remaining = - 1, cr_message = None\<rparr>, db)
          else
            let available = sub_credits s - sub_credits_used s
            in if available < credits then
                 Inr (\<lparr>cr_success = False, cr_used = 0, cr_remaining = available,
                       cr_message = Some (''Insufficient AI credits. Required: '' @ show_int credits @
                         '', Available: '' @ show_int available)\<rparr>, db)
               else
                 Inr (\<lparr>cr_success = True, cr_used = credits,
                       cr_remaining = sub_credits s - (sub_credits_used s + credits), cr_message = None\<rparr>,
                      (update_sub school (\<lambda>s. s\<lparr>sub_credits_used := sub_credits_used s + credits\<rparr>) db)
                        \<lparr>bd_usage := bd_usage db @
                          [\<lparr>ul_school = school, ul_user = user,
                            ul_action = nullish (or_undefined action) ''unknown'',
                            ul_credits = credits, ul_created = now\<rparr>]\<rparr>))"

definition refund_ai_credits ::
  "date \<Rightarrow> ident \<Rightarrow> int \<Rightarrow> ident \<Rightarrow> string option \<Rightarrow> billing_db
    \<Rightarrow> http_error + credits_result \<times> billing_db" where
  "refund_ai_credits now school credits user reason db =
     (case find_sub school db of
        None \<Rightarrow> Inl (NotFound ''Subscription not found'')
      | Some s \<Rightarrow>
          let back = min (sub_credits_used s) credits
          in Inr (\<lparr>cr_success = True, cr_used = - credits,
                   cr_remaining = sub_credits s - (sub_credits_used s - back), cr_message = None\<rparr>,
                  (update_sub school (\<lambda>s. s\<lparr>sub_credits_used := sub_credits_used s - back\<rparr>) db)
                    \<lparr>bd_usage := bd_usage db @
                      [\<lparr>ul_school = school, ul_user = user,
                        ul_action = ''REFUND: '' @ nullish (or_undefined reason) ''unknown'',
                        ul_credits = - credits, ul_created = now\<rparr>]\<rparr>))"

section \<open>Who may manage billing\<close>

record user_ctx =
  us_id :: ident
  us_role :: string
  us_profile :: "ident option"
  us_school :: "ident option"

definition admin_access :: "ident option \<Rightarrow> billing_db \<Rightarrow> admin_access_tier option" where
  "admin_access profile db =
     map_option st_access (find (\<lambda>a. Some (st_id a) = profile) (bd_admins db))"

definition validate_principal_access :: "user_ctx \<Rightarrow> billing_db \<Rightarrow> http_error + unit" where
  "validate_principal_access u db =
     (if us_role u \<noteq> ''SCHOOL_ADMIN'' \<or> \<not> truthy (us_profile u) then
        (if us_role u = ''SUPER_ADMIN'' then Inr ()
         else Inl (Forbidden ''Only school admins can access this resource''))
      else if \<not> has_principal_access (admin_access (us_profile u) db) then
        Inl (Forbidden ''Only school leaders (Owner, Principal, Head Teacher) can manage subscriptions'')
      else Inr ())"

definition is_school_admin_principal :: "user_ctx \<Rightarrow> billing_db \<Rightarrow> bool" where
  "is_school_admin_principal u db =
     (if us_role u \<noteq> ''SCHOOL_ADMIN'' \<or> \<not> truthy (us_profile u) then False
      else has_principal_access (admin_access (us_profile u) db))"

section \<open>Tool access of a tier\<close>

definition find_access :: "ident \<Rightarrow> ident \<Rightarrow> billing_db \<Rightarrow> tool_access option" where
  "find_access school tv db =
     find (\<lambda>a. ta_school a = school \<and> ta_tool a = tv) (bd_access db)"

definition update_access :: "ident \<Rightarrow> ident \<Rightarrow> (tool_access \<Rightarrow> tool_access) \<Rightarrow> billing_db \<Rightarrow> billing_db" where
  "update_access school tv f db = db\<lparr>bd_access :=
     update_where (\<lambda>a. ta_school a = school \<and> ta_tool a = tv) f (bd_access db)\<rparr>"

text \<open>The body of the loop over the active tools; \<open>new_id\<close> is the id of a created row.\<close>

definition sync_tool ::
  "date \<Rightarrow> (ident \<Rightarrow> ident) \<Rightarrow> ident \<Rightarrow> ident \<Rightarrow> subscription_tier \<Rightarrow> tool \<Rightarrow> billing_db \<Rightarrow> billing_db" where
  "sync_tool now new_id school subscription t tv db =
     (let allowed = (tl_slug tv \<in> set (tier_tools t));
          existing = find_access school (tl_id tv) db
      in if allowed then
           (case existing of
              Some a \<Rightarrow>
                if ta_state a \<noteq> TOOL_ACTIVE then
                  update_access school (tl_id tv) (\<lambda>a. a\<lparr>ta_state := TOOL_ACTIVE,
                    ta_subscription := Some subscription, ta_activated := Some now\<rparr>) db
                else db
            | None \<Rightarrow> db\<lparr>bd_access := bd_access db @
                [\<lparr>ta_id = new_id (tl_id tv), ta_school = school, ta_tool = tl_id tv,
                  ta_subscription = Some subscription, ta_state = TOOL_ACTIVE, ta_trial_ends = None,
                  ta_activated = Some now, ta_expires = None\<rparr>]\<rparr>)
         else
           (case existing of
              Some a \<Rightarrow>
                if ta_state a = TOOL_ACTIVE then
                  update_access school (tl_id tv) (\<lambda>a. a\<lparr>ta_state := TOOL_DISABLED\<rparr>) db
                else db
            | None \<Rightarrow> db))"

definition sync_tool_access_for_tier ::
  "date \<Rightarrow> (ident \<Rightarrow> ident) \<Rightarrow> ident \<Rightarrow> ident \<Rightarrow> subscription_tier \<Rightarrow> billing_db \<Rightarrow> billing_db" where
  "sync_tool_access_for_tier now new_id school subscription t db =
     fold (sync_tool now new_id school subscription t) (filter tl_active (bd_tools db)) db"

section \<open>The subscription of a school\<close>

record subscription_dto =
  sd_id :: ident
  sd_school :: ident
  sd_tier :: subscription_tier
  sd_start :: date
  sd_end :: "date option"
  sd_active :: bool
  sd_max_students :: int
  sd_max_teachers :: int
  sd_max_admins :: int
  sd_credits :: int
  sd_credits_used :: int
  sd_credits_remaining :: int
  sd_tools :: "tool_access list"

definition map_to_subscription_dto :: "env \<Rightarrow> billing_db \<Rightarrow> subscription \<Rightarrow> subscription_dto" where
  "map_to_subscription_dto env db s =
     \<lparr>sd_id = sub_id s, sd_school = sub_school s, sd_tier = sub_tier s, sd_start = sub_start s,
      sd_end = sub_end s, sd_active = sub_active s,
      sd_max_students = apply_dev_student_cap env (Some (sub_tier s)) (sub_max_students s),
      sd_max_teachers = sub_max_teachers s, sd_max_admins = sub_max_admins s,
      sd_credits = sub_credits s, sd_credits_used = sub_credits_used s,
      sd_credits_remaining = sub_credits s - sub_credits_used s,
      sd_tools = filter (\<lambda>a. ta_subscription a = Some (sub_id s)) (bd_access db)\<rparr>"

definition find_plan :: "subscription_tier \<Rightarrow> billing_db \<Rightarrow> subscription_plan option" where
  "find_plan t db = find (\<lambda>p. pl_tier p = t) (bd_plans db)"

definition create_free_subscription ::
  "date \<Rightarrow> ident \<Rightarrow> ident \<Rightarrow> billing_db \<Rightarrow> subscription" where
  "create_free_subscription now new_sub_id school db =
     (let plan = find_plan FREE db; free = tier_limits FREE
      in \<lparr>sub_id = new_sub_id, sub_school = school, sub_tier = FREE,
          sub_plan_id = map_option pl_id plan, sub_start = now, sub_end = None, sub_active = True,
          sub_max_students = nullish (map_option pl_max_students plan) (cap_students free),
          sub_max_teachers = nullish (map_option pl_max_teachers plan) (cap_teachers free),
          sub_max_admins = nullish (map_option pl_max_admins plan) (cap_admins free),
          sub_credits = nullish (map_option pl_credits plan) (cap_credits free),
          sub_credits_used = 0, sub_last_reset = None, sub_phase = PHASE_OK, sub_grace_ends = None,
          sub_reminded_at = None, sub_code = None, sub_email_token = None, sub_customer = None,
          sub_recurring = False\<rparr>)"

definition link_plan :: "subscription_plan \<Rightarrow> subscription \<Rightarrow> subscription" where
  "link_plan p s = s\<lparr>sub_plan_id := Some (pl_id p), sub_max_students := pl_max_students p,
     sub_max_teachers := pl_max_teachers p, sub_max_admins := pl_max_admins p,
     sub_credits := pl_credits p\<rparr>"

definition get_or_create_subscription ::
  "env \<Rightarrow> date \<Rightarrow> ident \<Rightarrow> (ident \<Rightarrow> ident) \<Rightarrow> ident \<Rightarrow> billing_db \<Rightarrow> subscription_dto \<times> billing_db" where
  "get_or_create_subscription env now new_sub_id new_access_id school db =
     (let db = (case find_sub school db of
            Some _ \<Rightarrow> db
          | None \<Rightarrow>
              sync_tool_access_for_tier now new_access_id school new_sub_id FREE
                (db\<lparr>bd_subs := bd_subs db @ [create_free_subscription now new_sub_id school db]\<rparr>));
          s = the (find_sub school db)
      in if \<not> truthy (sub_plan_id s) then
           (case find_plan (sub_tier s) db of
              Some p \<Rightarrow>
                let db' = update_sub school (link_plan p) db
                in (map_to_subscription_dto env db' (link_plan p s), db')
            | None \<Rightarrow> (map_to_subscription_dto env db s, db))
         else (map_to_subscription_dto env db s, db))"

section \<open>Limits\<close>

record limit_result =
  lr_can_add :: bool
  lr_current :: int
  lr_max :: int
  lr_message :: "string option"

text \<open>\<open>student.count\<close> over students with an operational enrollment at the school.\<close>

definition is_operational :: "ident \<Rightarrow> enrollment \<Rightarrow> bool" where
  "is_operational school e = (en_school e = school \<and> en_active e \<and> \<not> en_locked e)"

definition operational_students :: "ident \<Rightarrow> billing_db \<Rightarrow> int" where
  "operational_students school db =
     int (length (remdups (map en_student (filter (is_operational school) (bd_enrollments db)))))"

definition active_staff :: "ident \<Rightarrow> staff_row list \<Rightarrow> int" where
  "active_staff school rows = int (count_where (\<lambda>s. st_school s = school \<and> \<not> st_suspended s) rows)"

definition limit_message :: "subscription option \<Rightarrow> int \<Rightarrow> int \<Rightarrow> string \<Rightarrow> string" where
  "limit_message s max_n current noun =
     ''Your '' @ (case s of None \<Rightarrow> ''FREE'' | Some s \<Rightarrow> tier_name (sub_tier s)) @
     '' plan allows a maximum of '' @ show_int max_n @ '' '' @ noun @ ''. Current: '' @
     show_int current @ ''. Please upgrade your subscription to add more.''"

definition check_limit :: "subscription option \<Rightarrow> int \<Rightarrow> int \<Rightarrow> string \<Rightarrow> limit_result" where
  "check_limit s max_n current noun =
     (if max_n = - 1 then \<lparr>lr_can_add = True, lr_current = current, lr_max = - 1, lr_message = None\<rparr>
      else if max_n \<le> current then
        \<lparr>lr_can_add = False, lr_current = current, lr_max = max_n,
         lr_message = Some (limit_message s max_n current noun)\<rparr>
      else \<lparr>lr_can_add = True, lr_current = current, lr_max = max_n, lr_message = None\<rparr>)"

definition check_student_limit :: "env \<Rightarrow> ident \<Rightarrow> billing_db \<Rightarrow> limit_result" where
  "check_student_limit env school db =
     (let s = find_sub school db;
          stored = nullish (map_option sub_max_students s) (cap_students (tier_limits FREE));
          max_n = apply_dev_student_cap env (map_option sub_tier s) stored
      in check_limit s max_n (operational_students school db) ''students'')"

definition check_teacher_limit :: "ident \<Rightarrow> billing_db \<Rightarrow> limit_result" where
  "check_teacher_limit school db =
     (let s = find_sub school db
      in check_limit s (nullish (map_option sub_max_teachers s) (cap_teachers (tier_limits FREE)))
           (active_staff school (bd_teachers db)) ''teachers'')"

definition check_admin_limit :: "ident \<Rightarrow> billing_db \<Rightarrow> limit_result" where
  "check_admin_limit school db =
     (let s = find_sub school db
      in check_limit s (nullish (map_option sub_max_admins s) (cap_admins (tier_limits FREE)))
           (active_staff school (bd_admins db)) ''administrators'')"

section \<open>Access to a tool\<close>

datatype access_reason =
    TOOL_NOT_FOUND | NOT_SUBSCRIBED | REASON_EXPIRED | BILLING_PERIOD_ENDED | REASON_ACTIVE
  | TRIAL_EXPIRED | REASON_TRIAL | REASON_DISABLED

record tool_result =
  tr_access :: bool
  tr_status :: "tool_status option"
  tr_tool :: "tool option"
  tr_reason :: access_reason
  tr_trial_days :: "int option"

definition tool_answer :: "bool \<Rightarrow> tool_status option \<Rightarrow> tool option \<Rightarrow> access_reason \<Rightarrow> tool_result" where
  "tool_answer granted st tv why =
     \<lparr>tr_access = granted, tr_status = st, tr_tool = tv, tr_reason = why, tr_trial_days = None\<rparr>"

definition is_past :: "date option \<Rightarrow> date \<Rightarrow> bool" where
  "is_past d now = (case d of None \<Rightarrow> False | Some t \<Rightarrow> t < now)"

definition ai_period_open :: "date \<Rightarrow> ident \<Rightarrow> billing_db \<Rightarrow> bool" where
  "ai_period_open now school db =
     (case find_sub school db of None \<Rightarrow> False | Some s \<Rightarrow> ai_active now s)"

definition check_tool_access ::
  "date \<Rightarrow> ident \<Rightarrow> string \<Rightarrow> billing_db \<Rightarrow> tool_result \<times> billing_db" where
  "check_tool_access now school slug db =
     (case find (\<lambda>t. tl_slug t = slug) (bd_tools db) of
        None \<Rightarrow> (tool_answer False None None TOOL_NOT_FOUND, db)
      | Some tv \<Rightarrow>
          (case find_access school (tl_id tv) db of
             None \<Rightarrow> (tool_answer False None (Some tv) NOT_SUBSCRIBED, db)
           | Some a \<Rightarrow>
               let expire = update_access school (tl_id tv) (\<lambda>a. a\<lparr>ta_state := TOOL_EXPIRED\<rparr>) db
               in (case ta_state a of
                     TOOL_ACTIVE \<Rightarrow>
                       if is_past (ta_expires a) now then
                         (tool_answer False (Some TOOL_EXPIRED) (Some tv) REASON_EXPIRED, expire)
                       else if tl_slug tv = ''agora-ai'' \<and> \<not> ai_period_open now school db then
                         (tool_answer False (Some TOOL_ACTIVE) (Some tv) BILLING_PERIOD_ENDED, db)
                       else (tool_answer True (Some TOOL_ACTIVE) (Some tv) REASON_ACTIVE, db)
                   | TOOL_TRIAL \<Rightarrow>
                       if is_past (ta_trial_ends a) now then
                         (tool_answer False (Some TOOL_EXPIRED) (Some tv) TRIAL_EXPIRED, expire)
                       else
                         let days = (case ta_trial_ends a of None \<Rightarrow> 0
                               | Some e \<Rightarrow> - ((now - e) div (1000 * 60 * 60 * 24)))
                         in if tl_slug tv = ''agora-ai'' \<and> \<not> ai_period_open now school db then
                              ((tool_answer False (Some TOOL_TRIAL) (Some tv) BILLING_PERIOD_ENDED)
                                 \<lparr>tr_trial_days := Some days\<rparr>, db)
                            else
                              ((tool_answer True (Some TOOL_TRIAL) (Some tv) REASON_TRIAL)
                                 \<lparr>tr_trial_days := Some days\<rparr>, db)
                   | TOOL_EXPIRED \<Rightarrow> (tool_answer False (Some TOOL_EXPIRED) (Some tv) REASON_EXPIRED, db)
                   | TOOL_DISABLED \<Rightarrow> (tool_answer False (Some TOOL_DISABLED) (Some tv) REASON_DISABLED, db))))"

definition tool_access_guard ::
  "date \<Rightarrow> string option \<Rightarrow> user_ctx \<Rightarrow> billing_db \<Rightarrow> (http_error + unit) \<times> billing_db" where
  "tool_access_guard now required u db =
     (if \<not> truthy required then (Inr (), db)
      else if us_role u = ''SUPER_ADMIN'' then (Inr (), db)
      else if \<not> truthy (us_school u) then
        (Inl (Forbidden ''School context required to access this tool''), db)
      else
        let (r, db') = check_tool_access now (the (us_school u)) (the required) db;
            name = (case tr_tool r of None \<Rightarrow> the required
              | Some t \<Rightarrow> if tl_name t = [] then the required else tl_name t)
        in if tr_access r then (Inr (), db')
           else (Inl (Forbidden (case tr_reason r of
                NOT_SUBSCRIBED \<Rightarrow> ''Your school does not have access to '' @ name @
                  ''. Please upgrade your subscription.''
              | REASON_EXPIRED \<Rightarrow> ''Your school's access to '' @ name @
                  '' has expired. Please renew your subscription.''
              | TRIAL_EXPIRED \<Rightarrow> ''Your trial for '' @ name @
                  '' has ended. Please upgrade to continue using this tool.''
              | REASON_DISABLED \<Rightarrow> name @ '' is currently disabled for your school.''
              | _ \<Rightarrow> ''Access to '' @ name @ '' is not available.'')), db'))"

section \<open>Lists for the frontend\<close>

definition usage_period_ms :: "string option \<Rightarrow> int" where
  "usage_period_ms period =
     (if period = Some ''day'' then 24 * 60 * 60 * 1000
      else if period = Some ''month'' then 30 * 24 * 60 * 60 * 1000
      else 7 * 24 * 60 * 60 * 1000)"

definition get_ai_usage_logs :: "date \<Rightarrow> ident \<Rightarrow> string option \<Rightarrow> nat \<Rightarrow> billing_db \<Rightarrow> usage_log list" where
  "get_ai_usage_logs now school period limit db =
     take limit (sort_key (\<lambda>l. - ul_created l)
       (filter (\<lambda>l. ul_school l = school \<and> now - usage_period_ms period \<le> ul_created l) (bd_usage db)))"

definition get_all_tools :: "billing_db \<Rightarrow> tool list" where
  "get_all_tools db = sort_key tl_sort (filter tl_active (bd_tools db))"

definition get_tools_for_role :: "string \<Rightarrow> billing_db \<Rightarrow> tool list" where
  "get_tools_for_role role db =
     sort_key tl_sort (filter (\<lambda>t. tl_active t \<and> role \<in> set (tl_roles t)) (bd_tools db))"

text \<open>The counts and the tool list of \<open>getSubscriptionSummary\<close>.\<close>

record summary =
  sm_ai_active :: bool
  sm_max_students :: int
  sm_students :: int
  sm_teachers :: int
  sm_admins :: int
  sm_tools :: "(ident \<times> bool) list"
  sm_phase :: "billing_phase option"

definition get_subscription_summary ::
  "env \<Rightarrow> date \<Rightarrow> ident \<Rightarrow> (ident \<Rightarrow> ident) \<Rightarrow> ident \<Rightarrow> billing_db \<Rightarrow> summary \<times> billing_db" where
  "get_subscription_summary env now new_sub_id new_access_id school db =
     (let (dto, db') = get_or_create_subscription env now new_sub_id new_access_id school db;
          active = is_ai_billing_period_active now (sd_tier dto) (sd_end dto) (sd_credits dto)
      in (\<lparr>sm_ai_active = active,
           sm_max_students = apply_dev_student_cap env (Some (sd_tier dto)) (sd_max_students dto),
           sm_students = operational_students school db',
           sm_teachers = active_staff school (bd_teachers db'),
           sm_admins = active_staff school (bd_admins db'),
           sm_tools = map (\<lambda>a.
             let base = (ta_state a = TOOL_ACTIVE \<or> ta_state a = TOOL_TRIAL)
             in (ta_tool a,
                 if find (\<lambda>t. tl_id t = ta_tool a \<and> tl_slug t = ''agora-ai'') (bd_tools db') \<noteq> None
                 then base \<and> active else base)) (sd_tools dto),
           sm_phase = map_option sub_phase (find_sub school db')\<rparr>, db'))"

end
