(* ===== verification/Billing.thy ===== *)
theory Billing
  imports Subscriptions
begin

text \<open>
  The billing lifecycle, \<open>src/src/subscriptions/subscription-billing.service.ts\<close>, and its
  audit log, \<open>subscription-audit.service.ts\<close>. A subscription moves between the phases OK,
  grace period and admin action required: the daily job derives the phase from the paid
  period, a payment resets it, a failed renewal opens the grace period and a disabled
  subscription locks the school. A Prisma transaction is one state update; \<open>update\<close> on a
  missing row throws.
\<close>

section \<open>Calendar days in UTC\<close>

definition add_utc_days :: "date \<Rightarrow> int \<Rightarrow> date" where
  "add_utc_days d n = plus_days d n"

definition start_of_utc_day :: "date \<Rightarrow> date" where
  "start_of_utc_day d = local_midnight 0 d"

definition calendar_days_after :: "date \<Rightarrow> date \<Rightarrow> int" where
  "calendar_days_after frm until = (start_of_utc_day until - start_of_utc_day frm) div 86400000"

definition paid_tiers :: "subscription_tier list" where
  "paid_tiers = [PRO, PRO_PLUS, CUSTOM]"

section \<open>The audit log and the idempotency table\<close>

definition blank_audit :: "ident \<Rightarrow> string \<Rightarrow> audit_entry" where
  "blank_audit school action =
     \<lparr>au_school = school, au_action = action, au_actor = None, au_previous_tier = None,
      au_new_tier = None, au_previous_end = None, au_new_end = None\<rparr>"

definition log_change :: "audit_entry \<Rightarrow> billing_db \<Rightarrow> billing_db" where
  "log_change a db = db\<lparr>bd_audit := bd_audit db @ [a]\<rparr>"

definition append_audit_log :: "ident \<Rightarrow> string \<Rightarrow> ident option \<Rightarrow> billing_db \<Rightarrow> billing_db" where
  "append_audit_log school action actor db = log_change ((blank_audit school action)\<lparr>au_actor := actor\<rparr>) db"

text \<open>The table maps an event key to whether its status is PROCESSED.\<close>

definition record_idempotency :: "string \<Rightarrow> bool \<Rightarrow> billing_db \<Rightarrow> billing_db" where
  "record_idempotency key processed db =
     db\<lparr>bd_processed := (if key \<in> fst ` set (bd_processed db)
          then map (\<lambda>(k, p). if k = key then (k, processed) else (k, p)) (bd_processed db)
          else bd_processed db @ [(key, processed)])\<rparr>"

definition is_processed :: "string \<Rightarrow> billing_db \<Rightarrow> bool" where
  "is_processed key db = (map_of (bd_processed db) key = Some True)"

section \<open>Renewal\<close>

record renewal =
  rn_tier :: subscription_tier
  rn_end :: date
  rn_max_students :: int
  rn_max_teachers :: int
  rn_max_admins :: int
  rn_credits :: int
  rn_reset :: date
  rn_code :: "string option"
  rn_email_token :: "string option"
  rn_customer :: "string option"
  rn_recurring :: bool

text \<open>
  The spread of \<open>subscriptionUpdate\<close> into \<open>update\<close>'s data, as \<open>handleSuccessfulPayment\<close>
  fills it (\<open>isActive: true\<close>, \<open>aiCreditsUsed: 0\<close>); Prisma skips a field whose value is
  \<open>undefined\<close>, so the Paystack codes change only when they are given.
\<close>

definition apply_renewal :: "renewal \<Rightarrow> subscription \<Rightarrow> subscription" where
  "apply_renewal r s = s\<lparr>
     sub_tier := rn_tier r, sub_end := Some (rn_end r), sub_active := True,
     sub_max_students := rn_max_students r, sub_max_teachers := rn_max_teachers r,
     sub_max_admins := rn_max_admins r, sub_credits := rn_credits r, sub_credits_used := 0,
     sub_last_reset := Some (rn_reset r),
     sub_code := (case rn_code r of None \<Rightarrow> sub_code s | Some c \<Rightarrow> Some c),
     sub_email_token := (case rn_email_token r of None \<Rightarrow> sub_email_token s | Some c \<Rightarrow> Some c),
     sub_customer := (case rn_customer r of None \<Rightarrow> sub_customer s | Some c \<Rightarrow> Some c),
     sub_recurring := rn_recurring r\<rparr>"

definition reset_phase :: "subscription \<Rightarrow> subscription" where
  "reset_phase s = s\<lparr>sub_phase := PHASE_OK, sub_grace_ends := None, sub_reminded_at := None\<rparr>"

definition unlock_enrollments :: "ident \<Rightarrow> enrollment list \<Rightarrow> enrollment list" where
  "unlock_enrollments school = update_where (\<lambda>e. en_school e = school \<and> en_locked e)
     (\<lambda>e. e\<lparr>en_locked := False, en_active := True\<rparr>)"

definition unsuspend_staff :: "ident \<Rightarrow> staff_row list \<Rightarrow> staff_row list" where
  "unsuspend_staff school = update_where (\<lambda>s. st_school s = school \<and> st_suspended s)
     (\<lambda>s. s\<lparr>st_suspended := False\<rparr>)"

definition on_successful_paid_renewal ::
  "ident \<Rightarrow> renewal option \<Rightarrow> ident option \<Rightarrow> billing_db \<Rightarrow> http_error + billing_db" where
  "on_successful_paid_renewal school upd actor db =
     (case find_sub school db of
        None \<Rightarrow> Inl (JsError ''P2025'')
      | Some cur \<Rightarrow>
          let db' = (update_sub school (\<lambda>s. reset_phase
                (case upd of None \<Rightarrow> s | Some r \<Rightarrow> apply_renewal r s)) db)
              \<lparr>bd_enrollments := unlock_enrollments school (bd_enrollments db),
               bd_teachers := unsuspend_staff school (bd_teachers db),
               bd_admins := unsuspend_staff school (bd_admins db)\<rparr>
          in Inr (log_change ((blank_audit school ''RENEWAL_SUCCESS'')
               \<lparr>au_actor := actor, au_previous_tier := Some (sub_tier cur),
                au_new_tier := Some (case upd of None \<Rightarrow> sub_tier cur | Some r \<Rightarrow> rn_tier r),
                au_previous_end := sub_end cur,
                au_new_end := (case upd of None \<Rightarrow> sub_end cur | Some r \<Rightarrow> Some (rn_end r))\<rparr>) db'))"

section \<open>The daily lifecycle\<close>

text \<open>
  One iteration of the loop: the row after its updates (each is by the row's own id), the
  notifications and the audit entries it emits.
\<close>

definition lifecycle_step ::
  "env \<Rightarrow> date \<Rightarrow> subscription \<Rightarrow> subscription \<times> reminder list \<times> audit_entry list" where
  "lifecycle_step env now s =
     (case sub_end s of
        None \<Rightarrow> (s, [], [])
      | Some e \<Rightarrow>
          if sub_tier s \<notin> set paid_tiers then (s, [], [])
          else if now \<le> e then
            (if sub_phase s \<noteq> PHASE_OK then (s\<lparr>sub_phase := PHASE_OK, sub_grace_ends := None\<rparr>, [], [])
             else (s, [], []))
          else
            let grace_end = add_utc_days e (get_subscription_grace_days env)
            in if now \<le> grace_end then
                 let grace_day = calendar_days_after e now + 1;
                     s' = s\<lparr>sub_phase := GRACE_PERIOD, sub_grace_ends := Some grace_end\<rparr>;
                     remind = (grace_day \<in> set (get_subscription_grace_reminder_days env) \<and>
                       (case sub_reminded_at s of None \<Rightarrow> True
                        | Some r \<Rightarrow> start_of_utc_day r < start_of_utc_day now))
                 in if remind then
                      (s'\<lparr>sub_reminded_at := Some now\<rparr>,
                       [\<lparr>rm_school = sub_school s, rm_kind = GRACE_PERIOD, rm_grace_ends = grace_end,
                         rm_grace_day = grace_day, rm_at = now\<rparr>], [])
                    else (s', [], [])
               else if sub_phase s \<noteq> ADMIN_ACTION_REQUIRED then
                 (s\<lparr>sub_phase := ADMIN_ACTION_REQUIRED\<rparr>,
                  [\<lparr>rm_school = sub_school s, rm_kind = ADMIN_ACTION_REQUIRED, rm_grace_ends = grace_end,
                    rm_grace_day = get_subscription_grace_days env + 1, rm_at = now\<rparr>],
                  [blank_audit (sub_school s) ''billing_phase_admin_action_required''])
               else (s, [], []))"

definition run_daily_billing_lifecycle :: "env \<Rightarrow> date \<Rightarrow> billing_db \<Rightarrow> billing_db" where
  "run_daily_billing_lifecycle env now db =
     (let steps = map (lifecycle_step env now) (bd_subs db)
      in db\<lparr>bd_subs := map fst steps,
            bd_reminders := bd_reminders db @ concat (map (fst \<circ> snd) steps),
            bd_audit := bd_audit db @ concat (map (snd \<circ> snd) steps)\<rparr>)"

section \<open>Flags for the frontend\<close>

record admin_billing_state =
  ab_phase :: billing_phase
  ab_tier :: subscription_tier
  ab_paid_end :: "date option"
  ab_grace_ends :: "date option"
  ab_students :: int
  ab_free_cap :: int
  ab_grace_days :: int

definition get_admin_billing_state ::
  "env \<Rightarrow> date \<Rightarrow> ident \<Rightarrow> (ident \<Rightarrow> ident) \<Rightarrow> ident \<Rightarrow> billing_db \<Rightarrow> admin_billing_state \<times> billing_db" where
  "get_admin_billing_state env now new_sub_id new_access_id school db =
     (let (dto, db') = get_or_create_subscription env now new_sub_id new_access_id school db;
          row = find_sub school db'
      in (\<lparr>ab_phase = (case row of None \<Rightarrow> PHASE_OK | Some r \<Rightarrow> sub_phase r), ab_tier = sd_tier dto,
           ab_paid_end = (case row of None \<Rightarrow> None | Some r \<Rightarrow> sub_end r),
           ab_grace_ends = (case row of None \<Rightarrow> None | Some r \<Rightarrow> sub_grace_ends r),
           ab_students = operational_students school db',
           ab_free_cap = cap_students (get_tier_limit_caps env FREE),
           ab_grace_days = get_subscription_grace_days env\<rparr>, db'))"

record ui_flags =
  uf_grace_banner :: bool
  uf_block_admin :: bool
  uf_teacher_limited :: bool

definition no_flags :: ui_flags where
  "no_flags = \<lparr>uf_grace_banner = False, uf_block_admin = False, uf_teacher_limited = False\<rparr>"

definition find_staff :: "ident \<Rightarrow> ident \<Rightarrow> staff_row list \<Rightarrow> staff_row option" where
  "find_staff sid school rows = find (\<lambda>s. st_id s = sid \<and> st_school s = school) rows"

text \<open>The self-healing write is taken to succeed.\<close>

definition get_ui_billing_flags ::
  "date \<Rightarrow> ident \<Rightarrow> string \<Rightarrow> ident option \<Rightarrow> bool \<Rightarrow> billing_db \<Rightarrow> ui_flags \<times> billing_db" where
  "get_ui_billing_flags now school role profile is_principal db =
     (let row = find_sub school db;
          stored = (case row of None \<Rightarrow> PHASE_OK | Some r \<Rightarrow> sub_phase r);
          paid = (case row of None \<Rightarrow> False
            | Some r \<Rightarrow> (case sub_end r of None \<Rightarrow> False | Some e \<Rightarrow> now < e));
          heal = (stored \<noteq> PHASE_OK \<and> paid);
          phase = (if heal then PHASE_OK else stored);
          db' = (if heal then update_sub school reset_phase db else db)
      in if role = ''SCHOOL_ADMIN'' then
           (if \<not> is_principal then (no_flags, db')
            else (\<lparr>uf_grace_banner = (phase = GRACE_PERIOD),
                   uf_block_admin = (phase = ADMIN_ACTION_REQUIRED), uf_teacher_limited = False\<rparr>, db'))
         else if role = ''TEACHER'' \<and> truthy profile then
           (no_flags\<lparr>uf_teacher_limited := (case find_staff (the profile) school (bd_teachers db) of
               None \<Rightarrow> False | Some t \<Rightarrow> st_suspended t)\<rparr>, db')
         else (no_flags, db'))"

section \<open>Downgrade to the free tier\<close>

record downgrade_preview =
  dp_students :: int
  dp_free_students :: int
  dp_free_teachers :: int
  dp_free_admins :: int
  dp_to_lock :: int
  dp_teachers_to_suspend :: int
  dp_admins_to_suspend :: int
  dp_enrollments :: "enrollment list"
  dp_requires_pick :: bool
  dp_pick_exactly :: int

definition operational_enrollments :: "ident \<Rightarrow> billing_db \<Rightarrow> enrollment list" where
  "operational_enrollments school db = filter (is_operational school) (bd_enrollments db)"

definition get_downgrade_preview :: "env \<Rightarrow> ident \<Rightarrow> billing_db \<Rightarrow> http_error + downgrade_preview" where
  "get_downgrade_preview env school db =
     (if map_option sub_phase (find_sub school db) \<noteq> Some ADMIN_ACTION_REQUIRED then
        Inl (BadRequest ''Downgrade is only available after your grace period ends.'')
      else
        let free = get_tier_limit_caps env FREE;
            op = sort_key (\<lambda>e. - en_date e) (operational_enrollments school db);
            n = int (length op)
        in Inr \<lparr>dp_students = n, dp_free_students = cap_students free,
             dp_free_teachers = cap_teachers free, dp_free_admins = cap_admins free,
             dp_to_lock = (if cap_students free < n then n - cap_students free else 0),
             dp_teachers_to_suspend = max 0 (active_staff school (bd_teachers db) - cap_teachers free),
             dp_admins_to_suspend = max 0 (active_staff school (bd_admins db) - cap_admins free),
             dp_enrollments = op, dp_requires_pick = (cap_students free < n),
             dp_pick_exactly = cap_students free\<rparr>)"

text \<open>The newest staff rows beyond the cap are suspended; the update is by id.\<close>

definition suspend_excess :: "ident \<Rightarrow> int \<Rightarrow> staff_row list \<Rightarrow> staff_row list" where
  "suspend_excess school cap rows =
     (let active = sort_key (\<lambda>s. - st_created s)
            (filter (\<lambda>s. st_school s = school \<and> \<not> st_suspended s) rows)
      in if cap < int (length active) then
           let ids = map st_id (take (nat (int (length active) - cap)) active)
           in update_where (\<lambda>s. st_id s \<in> set ids) (\<lambda>s. s\<lparr>st_suspended := True\<rparr>) rows
         else rows)"

definition check_keep_selection :: "int \<Rightarrow> ident list \<Rightarrow> ident list \<Rightarrow> http_error + unit" where
  "check_keep_selection cap op_ids keep =
     (if cap < int (length op_ids) then
        (if int (length keep) \<noteq> cap then
           Inl (BadRequest (''Select exactly '' @ show_int cap @
             '' student enrollments to remain active. You provided '' @ show_int (int (length keep)) @ ''.''))
         else if list_ex (\<lambda>i. i \<notin> set op_ids) keep then Inl (BadRequest ''Invalid enrollment selection.'')
         else Inr ())
      else if keep \<noteq> [] then
        Inl (BadRequest ''Student selection is not required for your current headcount.'')
      else Inr ())"

definition free_row :: "date \<Rightarrow> tier_caps \<Rightarrow> ident option \<Rightarrow> subscription \<Rightarrow> subscription" where
  "free_row now free plan s = s\<lparr>
     sub_tier := FREE, sub_plan_id := (case plan of None \<Rightarrow> sub_plan_id s | Some p \<Rightarrow> Some p),
     sub_end := None, sub_phase := PHASE_OK, sub_grace_ends := None, sub_reminded_at := None,
     sub_max_students := cap_students free, sub_max_teachers := cap_teachers free,
     sub_max_admins := cap_admins free, sub_credits := cap_credits free, sub_credits_used := 0,
     sub_last_reset := Some now\<rparr>"

definition execute_downgrade_to_free ::
  "env \<Rightarrow> date \<Rightarrow> (ident \<Rightarrow> ident) \<Rightarrow> ident \<Rightarrow> ident list \<Rightarrow> ident \<Rightarrow> billing_db
    \<Rightarrow> http_error + billing_db" where
  "execute_downgrade_to_free env now new_access_id school keep actor db =
     (if map_option sub_phase (find_sub school db) \<noteq> Some ADMIN_ACTION_REQUIRED then
        Inl (BadRequest ''Downgrade is only available when billing requires admin action.'')
      else
        let free = get_tier_limit_caps env FREE;
            op_ids = map en_id (operational_enrollments school db)
        in case check_keep_selection (cap_students free) op_ids keep of
             Inl e \<Rightarrow> Inl e
           | Inr _ \<Rightarrow>
               let plan = find (\<lambda>p. pl_tier p = FREE \<and> pl_public p) (bd_plans db);
                   to_lock = (if cap_students free < int (length op_ids)
                     then filter (\<lambda>i. i \<notin> set keep) (remdups op_ids) else []);
                   db1 = (update_sub school (free_row now free (map_option pl_id plan)) db)
                     \<lparr>bd_enrollments := update_where (\<lambda>e. en_id e \<in> set to_lock)
                        (\<lambda>e. e\<lparr>en_locked := True, en_active := False\<rparr>) (bd_enrollments db),
                      bd_teachers := suspend_excess school (cap_teachers free) (bd_teachers db),
                      bd_admins := suspend_excess school (cap_admins free) (bd_admins db)\<rparr>;
                   db2 = (case find_sub school db1 of
                       None \<Rightarrow> db1
                     | Some s \<Rightarrow> sync_tool_access_for_tier now new_access_id school (sub_id s) FREE db1)
               in Inr (append_audit_log school ''downgrade_to_free'' (Some actor) db2))"

section \<open>Guards on limited accounts\<close>

definition limited_message :: string where
  "limited_message = ''Your staff access is limited until your school completes a subscription update. Please contact your administrator.''"

definition assert_teacher_may_write :: "ident \<Rightarrow> ident \<Rightarrow> billing_db \<Rightarrow> http_error + unit" where
  "assert_teacher_may_write school tid db =
     (case find_staff tid school (bd_teachers db) of
        Some t \<Rightarrow> if st_suspended t then Inl (Forbidden limited_message) else Inr ()
      | None \<Rightarrow> Inr ())"

definition assert_school_admin_not_billing_suspended :: "ident \<Rightarrow> ident \<Rightarrow> billing_db \<Rightarrow> http_error + unit" where
  "assert_school_admin_not_billing_suspended school aid db =
     (case find_staff aid school (bd_admins db) of
        Some t \<Rightarrow> if st_suspended t then Inl (Forbidden limited_message) else Inr ()
      | None \<Rightarrow> Inr ())"

definition assert_student_enrollment_operational :: "ident \<Rightarrow> ident \<Rightarrow> billing_db \<Rightarrow> http_error + unit" where
  "assert_student_enrollment_operational student school db =
     (if list_ex (\<lambda>e. en_student e = student \<and> is_operational school e) (bd_enrollments db) then Inr ()
      else if list_ex (\<lambda>e. en_student e = student \<and> en_school e = school \<and> en_locked e) (bd_enrollments db)
      then Inl (Forbidden ''Your account is temporarily unavailable. Please contact your school.'')
      else Inl (Forbidden ''No active enrollment for this school.''))"

section \<open>Failed renewals\<close>

definition handle_failed_renewal :: "env \<Rightarrow> date \<Rightarrow> ident \<Rightarrow> billing_db \<Rightarrow> billing_db" where
  "handle_failed_renewal env now school db =
     (case find_sub school db of
        None \<Rightarrow> db
      | Some s \<Rightarrow>
          if sub_phase s = ADMIN_ACTION_REQUIRED then db
          else
            let grace_end = add_utc_days now (get_subscription_grace_days env);
                db1 = update_sub school
                  (\<lambda>s. s\<lparr>sub_phase := GRACE_PERIOD, sub_grace_ends := Some grace_end\<rparr>) db;
                db2 = log_change (blank_audit school ''PAYMENT_FAILED_GRACE_PERIOD'') db1
            in db2\<lparr>bd_reminders := bd_reminders db2 @
                 [\<lparr>rm_school = school, rm_kind = GRACE_PERIOD, rm_grace_ends = grace_end,
                   rm_grace_day = 1, rm_at = now\<rparr>]\<rparr>)"

definition lock_school_due_to_payment :: "env \<Rightarrow> date \<Rightarrow> ident \<Rightarrow> billing_db \<Rightarrow> http_error + billing_db" where
  "lock_school_due_to_payment env now school db =
     (case find_sub school db of
        None \<Rightarrow> Inl (JsError ''P2025'')
      | Some _ \<Rightarrow>
          let db1 = update_sub school (\<lambda>s. s\<lparr>sub_phase := ADMIN_ACTION_REQUIRED, sub_active := False\<rparr>) db;
              db2 = log_change (blank_audit school ''SUBSCRIPTION_LOCKED'') db1
          in Inr (db2\<lparr>bd_reminders := bd_reminders db2 @
               [\<lparr>rm_school = school, rm_kind = ADMIN_ACTION_REQUIRED, rm_grace_ends = now,
                 rm_grace_day = get_subscription_grace_days env + 1, rm_at = now\<rparr>]\<rparr>))"

end
