(* ===== verification/Payments.thy ===== *)
theory Payments
  imports Billing
begin

text \<open>
  Payments, \<open>src/src/payments/payments.service.ts\<close>: prices, initialisation, proration, the
  success handler, the webhook and the Bud (student companion) purchases. Paystack is not
  part of the repository: its answers are arguments (\<open>paystack_init\<close>, \<open>paystack_tx\<close>), and a
  generated reference is an argument too. Amounts are rationals.
\<close>

section \<open>Prices\<close>

record tier_price =
  pr_monthly :: rat
  pr_yearly :: rat

definition pricing :: "subscription_tier \<Rightarrow> tier_price" where
  "pricing t = (case t of
       FREE \<Rightarrow> \<lparr>pr_monthly = 0, pr_yearly = 0\<rparr>
     | PRO \<Rightarrow> \<lparr>pr_monthly = 49999, pr_yearly = 499990\<rparr>
     | PRO_PLUS \<Rightarrow> \<lparr>pr_monthly = 99999, pr_yearly = 999990\<rparr>
     | CUSTOM \<Rightarrow> \<lparr>pr_monthly = 0, pr_yearly = 0\<rparr>)"

definition plan_price :: "subscription_tier \<Rightarrow> bool \<Rightarrow> rat" where
  "plan_price t yearly = (if yearly then pr_yearly (pricing t) else pr_monthly (pricing t))"

section \<open>Initialisation\<close>

text \<open>Paystack's answer to \<open>transaction/initialize\<close>: None when the request throws.\<close>

record paystack_init =
  pi_status :: bool
  pi_url :: string
  pi_access_code :: string

record payment_response =
  rsp_reference :: string
  rsp_url :: string
  rsp_access_code :: string

definition initialize_payment ::
  "string option \<Rightarrow> date \<Rightarrow> string \<Rightarrow> paystack_init option \<Rightarrow> rat \<Rightarrow> ident \<Rightarrow> ident
    \<Rightarrow> subscription_tier \<Rightarrow> bool \<Rightarrow> billing_db \<Rightarrow> http_error + payment_response \<times> billing_db" where
  "initialize_payment secret now reference answer amount school subscription t yearly db =
     (if \<not> truthy secret then Inl (BadRequest ''Payment service is not configured'')
      else
        let plan = find_plan t db;
            code = (case plan of None \<Rightarrow> None
              | Some p \<Rightarrow> if yearly then pl_yearly_code p else pl_monthly_code p)
        in case answer of
             None \<Rightarrow> Inl (BadRequest ''Failed to initialize payment. Please try again.'')
           | Some a \<Rightarrow>
               if \<not> pi_status a then Inl (BadRequest ''Failed to initialize payment. Please try again.'')
               else
                 Inr (\<lparr>rsp_reference = reference, rsp_url = pi_url a, rsp_access_code = pi_access_code a\<rparr>,
                   log_change (blank_audit school ''PAYMENT_INITIALIZED'')
                     (db\<lparr>bd_payments := bd_payments db @
                       [\<lparr>py_subscription = subscription, py_amount = amount, py_status = PAY_PENDING,
                         py_reference = reference,
                         py_metadata = Some \<lparr>pm_tier = t, pm_yearly = yearly, pm_plan_code = code\<rparr>,
                         py_paid_at = None, py_created = now\<rparr>]\<rparr>)))"

section \<open>Proration\<close>

definition last_successful_payment :: "ident \<Rightarrow> billing_db \<Rightarrow> payment option" where
  "last_successful_payment subscription db =
     (case sort_key (\<lambda>p. - py_created p)
         (filter (\<lambda>p. py_subscription p = subscription \<and> py_status p = PAY_SUCCESS) (bd_payments db)) of
        [] \<Rightarrow> None | p # _ \<Rightarrow> Some p)"

definition calculate_prorated_amount ::
  "date \<Rightarrow> ident \<Rightarrow> subscription_tier \<Rightarrow> bool \<Rightarrow> billing_db \<Rightarrow> http_error + rat" where
  "calculate_prorated_amount now school t yearly db =
     (let new_amount = plan_price t yearly
      in case find_sub school db of
           None \<Rightarrow> Inr new_amount
         | Some s \<Rightarrow>
             (case sub_end s of
                None \<Rightarrow> Inr new_amount
              | Some e \<Rightarrow>
                  if e \<le> now \<or> sub_tier s = FREE then Inr new_amount
                  else case last_successful_payment (sub_id s) db of
                    None \<Rightarrow> Inr new_amount
                  | Some p \<Rightarrow>
                      (case py_paid_at p of
                         None \<Rightarrow> Inl (JsError ''TypeError'')
                       | Some paid \<Rightarrow>
                           let total_ms = e - paid; remaining_ms = e - now
                           in if remaining_ms \<le> 0 \<or> total_ms \<le> 0 then Inr new_amount
                              else Inr (max 0 (of_int
                                \<lfloor>new_amount - py_amount p * of_int remaining_ms / of_int total_ms\<rfloor>)))))"

section \<open>Successful payments\<close>

text \<open>The fields of Paystack's transaction that the handler reads.\<close>

record paystack_tx =
  tx_subscription_code :: "string option"
  tx_plan_subscription_code :: "string option"
  tx_email_token :: "string option"
  tx_customer_code :: "string option"

definition no_tx :: paystack_tx where
  "no_tx = \<lparr>tx_subscription_code = None, tx_plan_subscription_code = None,
     tx_email_token = None, tx_customer_code = None\<rparr>"

definition find_payment :: "string \<Rightarrow> billing_db \<Rightarrow> payment option" where
  "find_payment reference db = find (\<lambda>p. py_reference p = reference) (bd_payments db)"

definition set_payment :: "string \<Rightarrow> (payment \<Rightarrow> payment) \<Rightarrow> billing_db \<Rightarrow> billing_db" where
  "set_payment reference f db =
     db\<lparr>bd_payments := update_where (\<lambda>p. py_reference p = reference) f (bd_payments db)\<rparr>"

definition sub_by_id :: "ident \<Rightarrow> billing_db \<Rightarrow> subscription option" where
  "sub_by_id i db = find (\<lambda>s. sub_id s = i) (bd_subs db)"

definition rollover_credits :: "tier_caps \<Rightarrow> subscription \<Rightarrow> int" where
  "rollover_credits limits s =
     (if cap_credits limits = - 1 then - 1
      else if 0 < cap_credits limits \<and> sub_credits s \<noteq> - 1 then
        cap_credits limits + max 0 (sub_credits s - sub_credits_used s)
      else cap_credits limits)"

definition renewal_of ::
  "env \<Rightarrow> int \<Rightarrow> date \<Rightarrow> payment_metadata \<Rightarrow> paystack_tx \<Rightarrow> subscription \<Rightarrow> renewal" where
  "renewal_of env tz now m tx s =
     (let base = (case sub_end s of None \<Rightarrow> now | Some e \<Rightarrow> if now < e then e else now);
          limits = get_tier_limit_caps env (pm_tier m)
      in \<lparr>rn_tier = pm_tier m, rn_end = add_paid_period env tz base (pm_yearly m),
          rn_max_students = cap_students limits, rn_max_teachers = cap_teachers limits,
          rn_max_admins = cap_admins limits, rn_credits = rollover_credits limits s, rn_reset = now,
          rn_code = or_undefined (or_else (tx_subscription_code tx) (tx_plan_subscription_code tx)),
          rn_email_token = or_undefined (tx_email_token tx),
          rn_customer = or_undefined (tx_customer_code tx),
          rn_recurring = truthy (pm_plan_code m)\<rparr>)"

text \<open>The payment row and the revenue metric are written before the renewal transaction.\<close>

definition mark_paid :: "date \<Rightarrow> string \<Rightarrow> payment \<Rightarrow> payment_metadata \<Rightarrow> billing_db \<Rightarrow> billing_db" where
  "mark_paid now reference p m db =
     (set_payment reference (\<lambda>p. p\<lparr>py_status := PAY_SUCCESS, py_paid_at := Some now\<rparr>) db)
       \<lparr>bd_revenue := bd_revenue db @ [(pm_tier m, pm_yearly m, py_amount p)]\<rparr>"

definition handle_successful_payment ::
  "env \<Rightarrow> int \<Rightarrow> date \<Rightarrow> (ident \<Rightarrow> ident) \<Rightarrow> string \<Rightarrow> paystack_tx \<Rightarrow> billing_db
    \<Rightarrow> (http_error + unit) \<times> billing_db" where
  "handle_successful_payment env tz now new_access_id reference tx db =
     (if is_processed reference db then (Inr (), db)
      else case find_payment reference db of
        None \<Rightarrow> (Inr (), db)
      | Some p \<Rightarrow>
          if py_status p = PAY_SUCCESS then (Inr (), record_idempotency reference True db)
          else case py_metadata p of
            None \<Rightarrow> (Inr (), db)
          | Some m \<Rightarrow>
              (case sub_by_id (py_subscription p) db of
                 None \<Rightarrow> (Inl (JsError ''TypeError''), mark_paid now reference p m db)
               | Some s \<Rightarrow>
                   let db1 = mark_paid now reference p m db
                   in case on_successful_paid_renewal (sub_school s)
                          (Some (renewal_of env tz now m tx s)) None db1 of
                        Inl e \<Rightarrow> (Inl e, db1)
                      | Inr db2 \<Rightarrow>
                          (Inr (), sync_tool_access_for_tier now new_access_id (sub_school s)
                             (py_subscription p) (pm_tier m) (record_idempotency reference True db2))))"

section \<open>Verification and the webhook\<close>

record verify_result =
  vr_success :: bool
  vr_reference :: string
  vr_amount :: rat
  vr_status :: string

record paystack_verify =
  pv_ok :: bool
  pv_tx_status :: string
  pv_reference :: string
  pv_amount :: rat
  pv_tx :: paystack_tx

definition verify_payment ::
  "string option \<Rightarrow> env \<Rightarrow> int \<Rightarrow> date \<Rightarrow> (ident \<Rightarrow> ident) \<Rightarrow> string \<Rightarrow> paystack_verify option \<Rightarrow> billing_db
    \<Rightarrow> (http_error + verify_result) \<times> billing_db" where
  "verify_payment secret env tz now new_access_id reference answer db =
     (if \<not> truthy secret then (Inl (BadRequest ''Payment service is not configured''), db)
      else case answer of
        None \<Rightarrow> (Inl (BadRequest ''Failed to verify payment''), db)
      | Some a \<Rightarrow>
          if \<not> pv_ok a then
            (Inr \<lparr>vr_success = False, vr_reference = reference, vr_amount = 0, vr_status = ''failed''\<rparr>, db)
          else
            let (r, db') = (if pv_tx_status a = ''success''
                  then handle_successful_payment env tz now new_access_id reference (pv_tx a) db
                  else (Inr (), db))
            in case r of
                 Inl e \<Rightarrow> (Inl (BadRequest ''Failed to verify payment''), db')
               | Inr _ \<Rightarrow>
                   (Inr \<lparr>vr_success = (pv_tx_status a = ''success''), vr_reference = pv_reference a,
                         vr_amount = pv_amount a / 100, vr_status = pv_tx_status a\<rparr>, db'))"

text \<open>The fields of a webhook's data that the dispatcher reads.\<close>

record webhook_data =
  wh_reference :: "string option"
  wh_product :: "string option"
  wh_code :: "string option"
  wh_sub_code :: "string option"
  wh_email :: "string option"
  wh_tx :: paystack_tx

definition is_bud_charge :: "webhook_data \<Rightarrow> bool" where
  "is_bud_charge d = (wh_product d = Some ''BUD'' \<or>
     starts_with (nullish (or_undefined (wh_reference d)) []) ''agora_bud_'')"

definition webhook_school :: "webhook_data \<Rightarrow> billing_db \<Rightarrow> ident option" where
  "webhook_school d db =
     (let code = or_else (wh_code d) (wh_sub_code d);
          by_code = (if truthy code
            then or_undefined (map_option sub_school (find (\<lambda>s. sub_code s = code) (bd_subs db))) else None)
      in if \<not> truthy by_code \<and> truthy (wh_email d)
         then or_undefined (map_option sc_id (find (\<lambda>s. sc_email s = wh_email d) (bd_schools db)))
         else by_code)"

definition process_school_event ::
  "env \<Rightarrow> date \<Rightarrow> string \<Rightarrow> webhook_data \<Rightarrow> ident \<Rightarrow> billing_db \<Rightarrow> (http_error + unit) \<times> billing_db" where
  "process_school_event env now event d school db =
     (if event = ''invoice.create'' then (Inr (), log_change (blank_audit school ''INVOICE_CREATED'') db)
      else if event = ''invoice.payment_failed'' then (Inr (), handle_failed_renewal env now school db)
      else if event = ''subscription.disable'' then
        (case lock_school_due_to_payment env now school db of
           Inl e \<Rightarrow> (Inl e, db) | Inr db' \<Rightarrow> (Inr (), db'))
      else if event = ''subscription.not_renew'' then
        (Inr (), log_change (blank_audit school ''SUBSCRIPTION_NON_RENEWAL_SET'') db)
      else if event = ''charge.failed'' then
        (Inr (), case wh_reference d of
             None \<Rightarrow> db\<lparr>bd_payments := map (\<lambda>p. p\<lparr>py_status := PAY_FAILED\<rparr>) (bd_payments db)\<rparr>
           | Some r \<Rightarrow> set_payment r (\<lambda>p. p\<lparr>py_status := PAY_FAILED\<rparr>) db)
      else (Inr (), db))"

section \<open>Bud purchases\<close>

datatype bud_interval = BUD_TRIAL | BUD_MONTHLY | BUD_TERMLY

datatype bud_status = BUD_ON_TRIAL | BUD_ACTIVE | BUD_PAST_DUE | BUD_CANCELLED | BUD_EXPIRED

record bud_plan =
  bp_id :: ident
  bp_interval :: bud_interval
  bp_price_kobo :: int
  bp_credits :: int
  bp_active :: bool

record bud_metadata =
  bm_user :: ident
  bm_student :: ident
  bm_plan :: ident
  bm_school :: "ident option"

record bud_payment =
  by_user :: ident
  by_reference :: string
  by_amount :: int
  by_status :: payment_status
  by_metadata :: "bud_metadata option"
  by_subscription :: "ident option"

record bud_subscription =
  bs_id :: ident
  bs_user :: ident
  bs_student :: ident
  bs_school :: "ident option"
  bs_plan :: ident
  bs_status :: bud_status
  bs_end :: "date option"
  bs_credits :: int
  bs_credits_used :: int

record bud_db =
  bb_plans :: "bud_plan list"
  bb_payments :: "bud_payment list"
  bb_subs :: "bud_subscription list"

definition initialize_bud_payment ::
  "string option \<Rightarrow> string \<Rightarrow> paystack_init option \<Rightarrow> bud_metadata \<Rightarrow> bud_db
    \<Rightarrow> http_error + (string \<times> string) \<times> bud_db" where
  "initialize_bud_payment secret reference answer m db =
     (if \<not> truthy secret then Inl (BadRequest ''Payment service is not configured'')
      else case find (\<lambda>p. bp_id p = bm_plan m) (bb_plans db) of
        None \<Rightarrow> Inl (BadRequest ''Bud plan not found'')
      | Some plan \<Rightarrow>
          if \<not> bp_active plan then Inl (BadRequest ''Bud plan not found'')
          else case answer of
            None \<Rightarrow> Inl (JsError ''fetch failed'')
          | Some a \<Rightarrow>
              if \<not> pi_status a then Inl (BadRequest ''Failed to initialize Bud payment'')
              else Inr ((pi_url a, reference),
                db\<lparr>bb_payments := bb_payments db @
                  [\<lparr>by_user = bm_user m, by_reference = reference, by_amount = bp_price_kobo plan,
                    by_status = PAY_PENDING, by_metadata = Some m, by_subscription = None\<rparr>]\<rparr>))"

definition bud_end_date :: "int \<Rightarrow> date \<Rightarrow> bud_interval \<Rightarrow> date" where
  "bud_end_date tz now i =
     (if i = BUD_TERMLY then plus_days now 120 else if i = BUD_TRIAL then plus_days now 7
      else plus_months tz now 1)"

definition upsert_bud_subscription ::
  "ident \<Rightarrow> bud_metadata \<Rightarrow> bud_plan \<Rightarrow> date \<Rightarrow> bud_subscription list \<Rightarrow> bud_subscription list" where
  "upsert_bud_subscription new_id m plan e rows =
     (if list_ex (\<lambda>s. bs_student s = bm_student m) rows then
        update_where (\<lambda>s. bs_student s = bm_student m)
          (\<lambda>s. s\<lparr>bs_plan := bp_id plan, bs_status := BUD_ACTIVE, bs_end := Some e,
            bs_credits := bp_credits plan, bs_credits_used := 0\<rparr>) rows
      else rows @ [\<lparr>bs_id = new_id, bs_user = bm_user m, bs_student = bm_student m,
        bs_school = or_undefined (bm_school m), bs_plan = bp_id plan, bs_status = BUD_ACTIVE,
        bs_end = Some e, bs_credits = bp_credits plan, bs_credits_used = 0\<rparr>])"

definition handle_bud_payment_success ::
  "int \<Rightarrow> date \<Rightarrow> ident \<Rightarrow> string \<Rightarrow> bud_metadata option \<Rightarrow> bud_db \<Rightarrow> bud_db" where
  "handle_bud_payment_success tz now new_id reference tx_metadata db =
     (case find (\<lambda>p. by_reference p = reference) (bb_payments db) of
        None \<Rightarrow> db
      | Some p \<Rightarrow>
          if by_status p = PAY_SUCCESS then db
          else case (case by_metadata p of Some m \<Rightarrow> Some m | None \<Rightarrow> tx_metadata) of
            None \<Rightarrow> db
          | Some m \<Rightarrow>
              (case find (\<lambda>q. bp_id q = bm_plan m) (bb_plans db) of
                 None \<Rightarrow> db
               | Some plan \<Rightarrow>
                   let subs = upsert_bud_subscription new_id m plan
                         (bud_end_date tz now (bp_interval plan)) (bb_subs db);
                       sid = map_option bs_id (find (\<lambda>s. bs_student s = bm_student m) subs)
                   in db\<lparr>bb_subs := subs,
                         bb_payments := update_where (\<lambda>q. by_reference q = reference)
                           (\<lambda>q. q\<lparr>by_status := PAY_SUCCESS, by_subscription := sid\<rparr>) (bb_payments db)\<rparr>))"

section \<open>The webhook dispatcher\<close>

text \<open>
  Prisma rejects a lookup by an undefined reference and ignores an undefined filter, which is
  why \<open>charge.failed\<close> without a reference rewrites every payment above.
\<close>

definition process_webhook ::
  "env \<Rightarrow> int \<Rightarrow> date \<Rightarrow> (ident \<Rightarrow> ident) \<Rightarrow> ident \<Rightarrow> string \<Rightarrow> webhook_data \<Rightarrow> bud_metadata option
    \<Rightarrow> billing_db \<times> bud_db \<Rightarrow> (http_error + unit) \<times> billing_db \<times> bud_db" where
  "process_webhook env tz now new_access_id new_bud_id event d bud_meta = (\<lambda>(db, bud).
     if event = ''charge.success'' then
       (case wh_reference d of
          None \<Rightarrow> (Inl (JsError ''PrismaClientValidationError''), db, bud)
        | Some ref \<Rightarrow>
            if is_bud_charge d then (Inr (), db, handle_bud_payment_success tz now new_bud_id ref bud_meta bud)
            else
              let (r, db') = handle_successful_payment env tz now new_access_id ref (wh_tx d) db
              in (r, db', bud))
     else case webhook_school d db of
       None \<Rightarrow> (Inr (), db, bud)
     | Some school \<Rightarrow>
         let (r, db') = process_school_event env now event d school db in (r, db', bud))"

end
