(* ===== verification/BillingFacts.thy ===== *)
theory BillingFacts
  imports Payments
begin

text \<open>
  Correctness of the billing subsystem: the daily lifecycle as a function of the paid period,
  the credit pool as an invariant of every run of billing events (through
  \<open>guarded_step_system\<close>), idempotence of payment handling, downgrade and renewal as inverse
  operations, tool access, and the bounds of proration.
\<close>

section \<open>Rows of a school\<close>

lemma find_update_sub:
  assumes "\<And>s. sub_school (f s) = sub_school s"
  shows "find_sub school (update_sub school f db) = map_option f (find_sub school db)"
proof -
  have "find (\<lambda>s. sub_school s = school) (update_first (\<lambda>s. sub_school s = school) f rows) =
      map_option f (find (\<lambda>s. sub_school s = school) rows)" for rows
    using assms by (induction rows) auto
  then show ?thesis by (simp add: find_sub_def update_sub_def)
qed

lemma update_sub_frame [simp]:
  "bd_plans (update_sub school f db) = bd_plans db"
  "bd_enrollments (update_sub school f db) = bd_enrollments db"
  "bd_teachers (update_sub school f db) = bd_teachers db"
  "bd_admins (update_sub school f db) = bd_admins db"
  "bd_access (update_sub school f db) = bd_access db"
  "bd_tools (update_sub school f db) = bd_tools db"
  "bd_payments (update_sub school f db) = bd_payments db"
  "bd_processed (update_sub school f db) = bd_processed db"
  "bd_usage (update_sub school f db) = bd_usage db"
  by (simp_all add: update_sub_def)

lemma log_change_frame [simp]:
  "bd_subs (log_change a db) = bd_subs db" "bd_enrollments (log_change a db) = bd_enrollments db"
  "bd_teachers (log_change a db) = bd_teachers db" "bd_admins (log_change a db) = bd_admins db"
  "bd_payments (log_change a db) = bd_payments db" "bd_processed (log_change a db) = bd_processed db"
  "bd_access (log_change a db) = bd_access db" "bd_tools (log_change a db) = bd_tools db"
  by (simp_all add: log_change_def)

lemma record_idempotency_frame [simp]:
  "bd_subs (record_idempotency k p db) = bd_subs db"
  "bd_enrollments (record_idempotency k p db) = bd_enrollments db"
  "bd_teachers (record_idempotency k p db) = bd_teachers db"
  "bd_admins (record_idempotency k p db) = bd_admins db"
  "bd_payments (record_idempotency k p db) = bd_payments db"
  by (simp_all add: record_idempotency_def)

lemma sync_tool_frame [simp]:
  "bd_subs (sync_tool now f school sub t tv db) = bd_subs db"
  "bd_enrollments (sync_tool now f school sub t tv db) = bd_enrollments db"
  "bd_teachers (sync_tool now f school sub t tv db) = bd_teachers db"
  "bd_admins (sync_tool now f school sub t tv db) = bd_admins db"
  "bd_payments (sync_tool now f school sub t tv db) = bd_payments db"
  "bd_processed (sync_tool now f school sub t tv db) = bd_processed db"
  "bd_tools (sync_tool now f school sub t tv db) = bd_tools db"
  by (simp_all add: sync_tool_def update_access_def Let_def split: option.splits)

lemma sync_frame [simp]:
  "bd_subs (sync_tool_access_for_tier now f school sub t db) = bd_subs db"
  "bd_enrollments (sync_tool_access_for_tier now f school sub t db) = bd_enrollments db"
  "bd_teachers (sync_tool_access_for_tier now f school sub t db) = bd_teachers db"
  "bd_admins (sync_tool_access_for_tier now f school sub t db) = bd_admins db"
  "bd_payments (sync_tool_access_for_tier now f school sub t db) = bd_payments db"
  "bd_processed (sync_tool_access_for_tier now f school sub t db) = bd_processed db"
proof -
  have "bd_subs (fold (sync_tool now f school sub t) ts db) = bd_subs db \<and>
      bd_enrollments (fold (sync_tool now f school sub t) ts db) = bd_enrollments db \<and>
      bd_teachers (fold (sync_tool now f school sub t) ts db) = bd_teachers db \<and>
      bd_admins (fold (sync_tool now f school sub t) ts db) = bd_admins db \<and>
      bd_payments (fold (sync_tool now f school sub t) ts db) = bd_payments db \<and>
      bd_processed (fold (sync_tool now f school sub t) ts db) = bd_processed db" for ts
    by (induction ts arbitrary: db) simp_all
  then show
    "bd_subs (sync_tool_access_for_tier now f school sub t db) = bd_subs db"
    "bd_enrollments (sync_tool_access_for_tier now f school sub t db) = bd_enrollments db"
    "bd_teachers (sync_tool_access_for_tier now f school sub t db) = bd_teachers db"
    "bd_admins (sync_tool_access_for_tier now f school sub t db) = bd_admins db"
    "bd_payments (sync_tool_access_for_tier now f school sub t db) = bd_payments db"
    "bd_processed (sync_tool_access_for_tier now f school sub t db) = bd_processed db"
    unfolding sync_tool_access_for_tier_def by blast+
qed

section \<open>The lifecycle\<close>

text \<open>The phase that the paid period prescribes at \<open>now\<close>; an unpaid row keeps its phase.\<close>

definition due_phase :: "env \<Rightarrow> date \<Rightarrow> subscription \<Rightarrow> billing_phase" where
  "due_phase env now s =
     (case sub_end s of
        None \<Rightarrow> sub_phase s
      | Some e \<Rightarrow>
          if sub_tier s = FREE then sub_phase s
          else if now \<le> e then PHASE_OK
          else if now \<le> e + get_subscription_grace_days env * ms_per_day then GRACE_PERIOD
          else ADMIN_ACTION_REQUIRED)"

lemma paid_tiers_iff: "t \<in> set paid_tiers \<longleftrightarrow> t \<noteq> FREE"
  by (cases t) (simp_all add: paid_tiers_def)

lemma lifecycle_step_phase: "sub_phase (fst (lifecycle_step env now s)) = due_phase env now s"
  by (auto simp: lifecycle_step_def due_phase_def paid_tiers_iff Let_def add_utc_days_def plus_days_def
      split: option.splits)

lemma lifecycle_step_keeps:
  "(fst (lifecycle_step env now s))\<lparr>sub_phase := p, sub_grace_ends := g, sub_reminded_at := r\<rparr> =
    s\<lparr>sub_phase := p, sub_grace_ends := g, sub_reminded_at := r\<rparr>"
  by (simp add: lifecycle_step_def Let_def split: option.split)

lemma lifecycle_step_idem:
  "lifecycle_step env now (fst (lifecycle_step env now s)) = (fst (lifecycle_step env now s), [], [])"
proof (cases "sub_end s")
  case None
  then show ?thesis by (simp add: lifecycle_step_def)
next
  case (Some e)
  define grace_end where "grace_end = add_utc_days e (get_subscription_grace_days env)"
  define day where "day = calendar_days_after e now + 1"
  define days where "days = set (get_subscription_grace_reminder_days env)"
  define paid where "paid = (sub_tier s \<in> set paid_tiers)"
  note frozen = lifecycle_step_def Let_def grace_end_def [symmetric] day_def [symmetric]
    days_def [symmetric]
  consider "\<not> paid" | "paid" "now \<le> e" | "paid" "\<not> now \<le> e" "now \<le> grace_end"
    | "paid" "\<not> now \<le> e" "\<not> now \<le> grace_end" by blast
  then show ?thesis
  proof cases
    case 1
    then show ?thesis by (simp add: frozen Some paid_def)
  next
    case 2
    then show ?thesis by (simp add: frozen Some paid_def)
  next
    case 3
    then show ?thesis
      by (cases "sub_reminded_at s") (simp_all add: frozen Some paid_def)
  next
    case 4
    then show ?thesis by (simp add: frozen Some paid_def)
  qed
qed

section \<open>The credit pool\<close>

definition pool_ok :: "subscription \<Rightarrow> bool" where
  "pool_ok s = (0 \<le> sub_credits_used s \<and> (sub_credits s = - 1 \<or> sub_credits_used s \<le> sub_credits s))"

definition pools_ok :: "billing_db \<Rightarrow> bool" where
  "pools_ok db = list_all pool_ok (bd_subs db)"

lemma pools_ok_update:
  assumes "pools_ok db" "\<And>s. find_sub school db = Some s \<Longrightarrow> pool_ok s \<Longrightarrow> pool_ok (f s)"
  shows "pools_ok (update_sub school f db)"
proof -
  have "list_all pool_ok rows \<Longrightarrow>
      (\<And>s. find (\<lambda>s. sub_school s = school) rows = Some s \<Longrightarrow> pool_ok s \<Longrightarrow> pool_ok (f s)) \<Longrightarrow>
      list_all pool_ok (update_first (\<lambda>s. sub_school s = school) f rows)" for rows
    by (induction rows) auto
  then show ?thesis using assms by (simp add: pools_ok_def update_sub_def find_sub_def)
qed

lemma pools_ok_subs: "bd_subs db' = bd_subs db \<Longrightarrow> pools_ok db' = pools_ok db"
  by (simp add: pools_ok_def)

datatype billing_event =
    Top_Up date ident int
  | Use_Credits date ident int ident "string option"
  | Refund date ident int ident "string option"
  | Paid date string paystack_tx
  | Daily date
  | Failed date ident
  | Disabled date ident
  | Downgrade date ident "ident list" ident

text \<open>An event that throws leaves the tables as they are.\<close>

definition after_ok :: "billing_db \<Rightarrow> http_error + 'a \<times> billing_db \<Rightarrow> billing_db" where
  "after_ok db r = (case r of Inl _ \<Rightarrow> db | Inr (_, db') \<Rightarrow> db')"

definition billing_step ::
  "env \<Rightarrow> int \<Rightarrow> (ident \<Rightarrow> ident) \<Rightarrow> billing_event \<Rightarrow> billing_db \<Rightarrow> billing_db" where
  "billing_step env tz new_id ev db = (case ev of
       Top_Up now school n \<Rightarrow> after_ok db (top_up_ai_credit_pool now school n db)
     | Use_Credits now school n user action \<Rightarrow> after_ok db (use_ai_credits now school n user action db)
     | Refund now school n user reason \<Rightarrow> after_ok db (refund_ai_credits now school n user reason db)
     | Paid now ref tx \<Rightarrow> snd (handle_successful_payment env tz now new_id ref tx db)
     | Daily now \<Rightarrow> run_daily_billing_lifecycle env now db
     | Failed now school \<Rightarrow> handle_failed_renewal env now school db
     | Disabled now school \<Rightarrow>
         (case lock_school_due_to_payment env now school db of Inl _ \<Rightarrow> db | Inr db' \<Rightarrow> db')
     | Downgrade now school keep actor \<Rightarrow>
         (case execute_downgrade_to_free env now new_id school keep actor db of Inl _ \<Rightarrow> db | Inr db' \<Rightarrow> db'))"

definition amounts_ok :: "billing_event \<Rightarrow> bool" where
  "amounts_ok ev = (case ev of Use_Credits now school n user action \<Rightarrow> 0 \<le> n
     | Refund now school n user reason \<Rightarrow> 0 \<le> n | _ \<Rightarrow> True)"

lemma find_sub_school: "find_sub school db = Some s \<Longrightarrow> sub_school s = school \<and> s \<in> set (bd_subs db)"
  unfolding find_sub_def by (auto dest!: find_Some_in)

lemma top_up_pools: "pools_ok db \<Longrightarrow> pools_ok (after_ok db (top_up_ai_credit_pool now school n db))"
  by (auto simp: top_up_ai_credit_pool_def after_ok_def pool_ok_def split: option.splits
      intro!: pools_ok_update)

lemma use_pools:
  assumes "pools_ok db" "0 \<le> n"
  shows "pools_ok (after_ok db (use_ai_credits now school n user action db))"
proof (cases "find_sub school db")
  case None
  then show ?thesis using assms by (simp add: use_ai_credits_def after_ok_def)
next
  case (Some s)
  have "pools_ok (update_sub school (\<lambda>s. s\<lparr>sub_credits_used := sub_credits_used s + n\<rparr>) db)"
    if "\<not> sub_credits s - sub_credits_used s < n" "sub_credits s \<noteq> - 1"
    using assms that Some by (intro pools_ok_update) (auto simp: pool_ok_def)
  then show ?thesis
    using assms(1) by (simp add: use_ai_credits_def after_ok_def Some Let_def pools_ok_def)
qed

lemma refund_pools:
  assumes "pools_ok db" "0 \<le> n"
  shows "pools_ok (after_ok db (refund_ai_credits now school n user reason db))"
proof (cases "find_sub school db")
  case None
  then show ?thesis using assms by (simp add: refund_ai_credits_def after_ok_def)
next
  case (Some s)
  have "pools_ok (update_sub school
      (\<lambda>r. r\<lparr>sub_credits_used := sub_credits_used r - min (sub_credits_used s) n\<rparr>) db)"
    using assms Some by (intro pools_ok_update) (auto simp: pool_ok_def)
  then show ?thesis by (simp add: refund_ai_credits_def after_ok_def Some Let_def pools_ok_def)
qed

lemma reset_phase_frame [simp]:
  "sub_credits (reset_phase s) = sub_credits s" "sub_credits_used (reset_phase s) = sub_credits_used s"
  "sub_school (reset_phase s) = sub_school s" "sub_tier (reset_phase s) = sub_tier s"
  "sub_end (reset_phase s) = sub_end s" "sub_phase (reset_phase s) = PHASE_OK"
  "sub_active (reset_phase s) = sub_active s" "sub_id (reset_phase s) = sub_id s"
  "sub_plan_id (reset_phase s) = sub_plan_id s"
  by (simp_all add: reset_phase_def)

lemma apply_renewal_frame [simp]:
  "sub_credits (apply_renewal r s) = rn_credits r" "sub_credits_used (apply_renewal r s) = 0"
  "sub_school (apply_renewal r s) = sub_school s" "sub_tier (apply_renewal r s) = rn_tier r"
  "sub_end (apply_renewal r s) = Some (rn_end r)" "sub_id (apply_renewal r s) = sub_id s"
  "sub_active (apply_renewal r s)"
  by (simp_all add: apply_renewal_def)

lemma cap_credits_cases: "cap_credits (get_tier_limit_caps env t) = - 1 \<or> 0 \<le> cap_credits (get_tier_limit_caps env t)"
  by (cases t) (simp_all add: get_tier_limit_caps_def tier_limits_def Let_def)

lemma renewal_pools:
  assumes "pools_ok db" "on_successful_paid_renewal school (Some (renewal_of env tz now m tx s)) actor db = Inr db'"
  shows "pools_ok db'"
proof -
  let ?r = "renewal_of env tz now m tx s"
  have "rn_credits ?r = - 1 \<or> 0 \<le> rn_credits ?r"
    using cap_credits_cases [of env "pm_tier m"]
    by (auto simp: renewal_of_def Let_def rollover_credits_def)
  then have "pools_ok (update_sub school (\<lambda>s. reset_phase (apply_renewal ?r s)) db)"
    using assms(1) by (intro pools_ok_update) (auto simp: pool_ok_def)
  then show ?thesis
    using assms(2) by (auto simp: on_successful_paid_renewal_def Let_def pools_ok_def split: option.splits)
qed

lemma mark_paid_subs [simp]: "bd_subs (mark_paid now ref p m db) = bd_subs db"
  by (simp add: mark_paid_def set_payment_def)

lemma paid_pools:
  assumes "pools_ok db"
  shows "pools_ok (snd (handle_successful_payment env tz now new_id ref tx db))"
proof -
  have mark: "pools_ok (mark_paid now ref p m db)" for p m
    using assms by (simp add: pools_ok_def)
  have "pools_ok db2" if "on_successful_paid_renewal school (Some (renewal_of env tz now m tx s)) None
      (mark_paid now ref p m db) = Inr db2" for school m s p db2
    using renewal_pools [OF mark that] .
  then show ?thesis
    using assms mark
    by (auto simp: handle_successful_payment_def Let_def pools_ok_def split: option.splits sum.splits)
qed

lemma daily_pools: "pools_ok db \<Longrightarrow> pools_ok (run_daily_billing_lifecycle env now db)"
proof -
  have "pool_ok (fst (lifecycle_step env now s)) = pool_ok s" for s
    using arg_cong [OF lifecycle_step_keeps [where env = env and now = now and s = s and p = PHASE_OK
        and g = None and r = None], of "\<lambda>s. (sub_credits_used s, sub_credits s)"]
    by (simp add: pool_ok_def)
  then show "pools_ok db \<Longrightarrow> pools_ok (run_daily_billing_lifecycle env now db)"
    by (simp add: pools_ok_def run_daily_billing_lifecycle_def Let_def list_all_iff)
qed

lemma failed_pools: "pools_ok db \<Longrightarrow> pools_ok (handle_failed_renewal env now school db)"
proof -
  assume db: "pools_ok db"
  have "pools_ok (update_sub school (\<lambda>s. s\<lparr>sub_phase := p, sub_grace_ends := g\<rparr>) db)" for p g
    using db by (intro pools_ok_update) (auto simp: pool_ok_def)
  then show ?thesis
    using db by (auto simp: handle_failed_renewal_def Let_def pools_ok_def split: option.splits)
qed

lemma lock_pools:
  "pools_ok db \<Longrightarrow> lock_school_due_to_payment env now school db = Inr db' \<Longrightarrow> pools_ok db'"
proof -
  assume db: "pools_ok db"
  have "pools_ok (update_sub school (\<lambda>s. s\<lparr>sub_phase := p, sub_active := False\<rparr>) db)" for p
    using db by (intro pools_ok_update) (auto simp: pool_ok_def)
  then show "lock_school_due_to_payment env now school db = Inr db' \<Longrightarrow> pools_ok db'"
    by (auto simp: lock_school_due_to_payment_def Let_def pools_ok_def split: option.splits)
qed

lemma append_audit_subs [simp]: "bd_subs (append_audit_log school act actor db) = bd_subs db"
  by (simp add: append_audit_log_def)

lemma downgrade_subs:
  "execute_downgrade_to_free env now new_id school keep actor db = Inr db' \<Longrightarrow>
    \<exists>plan. bd_subs db' = bd_subs (update_sub school
      (free_row now (get_tier_limit_caps env FREE) plan) db)"
  by (auto simp: execute_downgrade_to_free_def Let_def split: sum.splits if_splits option.splits)

lemma downgrade_pools:
  assumes "pools_ok db" "execute_downgrade_to_free env now new_id school keep actor db = Inr db'"
  shows "pools_ok db'"
proof -
  have "pools_ok (update_sub school (free_row now (get_tier_limit_caps env FREE) plan) db)" for plan
    using assms(1) by (intro pools_ok_update)
      (auto simp: pool_ok_def free_row_def get_tier_limit_caps_def tier_limits_def Let_def)
  then show ?thesis using downgrade_subs [OF assms(2)] by (auto simp: pools_ok_def)
qed

lemma billing_step_pools: "pools_ok db \<Longrightarrow> amounts_ok ev \<Longrightarrow> pools_ok (billing_step env tz new_id ev db)"
  by (cases ev)
    (auto simp: billing_step_def amounts_ok_def top_up_pools use_pools refund_pools paid_pools daily_pools
      failed_pools intro: lock_pools downgrade_pools split: sum.splits)

interpretation billing_run: guarded_step_system "billing_step env tz new_id" pools_ok amounts_ok
  for env tz new_id
  by unfold_locales (rule billing_step_pools)

section \<open>Payments\<close>

lemma is_processed_record [simp]: "is_processed key (record_idempotency key True db)"
proof -
  have "key \<in> fst ` set ps \<Longrightarrow> map_of (map (\<lambda>(k, p). if k = key then (k, True) else (k, p)) ps) key = Some True"
    for ps :: "(string \<times> bool) list"
    by (induction ps) auto
  moreover have "key \<notin> fst ` set ps \<Longrightarrow> map_of (ps @ [(key, True)]) key = Some True" for ps :: "(string \<times> bool) list"
    by (induction ps) auto
  ultimately show ?thesis by (simp add: is_processed_def record_idempotency_def)
qed

lemma is_processed_frame: "bd_processed db' = bd_processed db \<Longrightarrow> is_processed key db' = is_processed key db"
  by (simp add: is_processed_def)

lemma processed_returns:
  "is_processed ref db \<Longrightarrow> handle_successful_payment env tz now new_id ref tx db = (Inr (), db)"
  by (simp add: handle_successful_payment_def)

lemma find_paid: "find_payment ref db = Some p \<Longrightarrow>
    find_payment ref (mark_paid now ref p m db) = Some (p\<lparr>py_status := PAY_SUCCESS, py_paid_at := Some now\<rparr>)"
proof -
  have "find (\<lambda>p. py_reference p = ref) ps = Some p \<Longrightarrow>
      find (\<lambda>p. py_reference p = ref) (update_where (\<lambda>p. py_reference p = ref)
        (\<lambda>p. p\<lparr>py_status := PAY_SUCCESS, py_paid_at := Some now\<rparr>) ps) =
      Some (p\<lparr>py_status := PAY_SUCCESS, py_paid_at := Some now\<rparr>)" for ps
    by (induction ps) auto
  then show "find_payment ref db = Some p \<Longrightarrow>
    find_payment ref (mark_paid now ref p m db) = Some (p\<lparr>py_status := PAY_SUCCESS, py_paid_at := Some now\<rparr>)"
    by (simp add: find_payment_def mark_paid_def set_payment_def)
qed

text \<open>The outcome of a payment that is found pending and complete.\<close>

lemma handle_pending:
  assumes "\<not> is_processed ref db" "find_payment ref db = Some p" "py_status p \<noteq> PAY_SUCCESS"
    "py_metadata p = Some m" "sub_by_id (py_subscription p) db = Some s"
  obtains db2 where
    "on_successful_paid_renewal (sub_school s) (Some (renewal_of env tz now m tx s)) None
      (mark_paid now ref p m db) = Inr db2"
    "handle_successful_payment env tz now new_id ref tx db =
      (Inr (), sync_tool_access_for_tier now new_id (sub_school s) (py_subscription p) (pm_tier m)
        (record_idempotency ref True db2))"
proof -
  have "s \<in> set (bd_subs db)" using assms(5) by (auto simp: sub_by_id_def dest!: find_Some_in)
  then have "find_sub (sub_school s) (mark_paid now ref p m db) \<noteq> None"
    by (auto simp: find_sub_def find_None_iff)
  then obtain db2 where db2: "on_successful_paid_renewal (sub_school s)
      (Some (renewal_of env tz now m tx s)) None (mark_paid now ref p m db) = Inr db2"
    by (auto simp: on_successful_paid_renewal_def Let_def)
  then show thesis using that assms by (simp add: handle_successful_payment_def Let_def)
qed

section \<open>Staff suspension\<close>

lemma same_key: "distinct (map f xs) \<Longrightarrow> x \<in> set xs \<Longrightarrow> y \<in> set xs \<Longrightarrow> f x = f y \<Longrightarrow> x = y"
  by (simp add: distinct_map inj_on_def)

definition staff_active :: "ident \<Rightarrow> staff_row \<Rightarrow> bool" where
  "staff_active school s = (st_school s = school \<and> \<not> st_suspended s)"

lemma staff_active_eq: "(\<lambda>s. st_school s = school \<and> \<not> st_suspended s) = staff_active school"
  by (auto simp: staff_active_def)

lemma suspend_excess_bound:
  assumes "0 \<le> cap"
  shows "active_staff school (suspend_excess school cap rows) \<le> cap"
proof -
  define active where "active = sort_key (\<lambda>s. - st_created s) (filter (staff_active school) rows)"
  have count: "active_staff school rows = int (length active)"
    by (simp add: active_staff_def active_def count_where_def staff_active_eq)
  have unfolded: "suspend_excess school cap rows =
    (if cap < int (length active) then
       let ids = map st_id (take (nat (int (length active) - cap)) active)
       in update_where (\<lambda>s. st_id s \<in> set ids) (\<lambda>s. s\<lparr>st_suspended := True\<rparr>) rows
     else rows)"
    unfolding suspend_excess_def active_def staff_active_eq Let_def ..
  show ?thesis
  proof (cases "cap < int (length active)")
    case False
    then show ?thesis using count unfolding unfolded by simp
  next
    case True
    define n where "n = nat (int (length active) - cap)"
    define ids where "ids = set (map st_id (take n active))"
    have "count_where (staff_active school)
        (update_where (\<lambda>s. st_id s \<in> ids) (\<lambda>s. s\<lparr>st_suspended := True\<rparr>) xs) =
        length (filter (\<lambda>s. st_id s \<notin> ids) (filter (staff_active school) xs))" for xs
      by (induction xs) (auto simp: staff_active_def)
    then have "count_where (staff_active school) (suspend_excess school cap rows) =
        length (filter (\<lambda>s. st_id s \<notin> ids) (filter (staff_active school) rows))"
      using True unfolding unfolded by (simp add: Let_def ids_def n_def)
    also have "\<dots> = size (filter_mset (\<lambda>s. st_id s \<notin> ids) (mset active))"
      unfolding active_def by (simp flip: mset_filter)
    also have "\<dots> = length (filter (\<lambda>s. st_id s \<notin> ids) active)"
      by (simp flip: mset_filter)
    also have "\<dots> = length (filter (\<lambda>s. st_id s \<notin> ids) (take n active)) +
        length (filter (\<lambda>s. st_id s \<notin> ids) (drop n active))"
      by (metis append_take_drop_id filter_append length_append)
    also have "filter (\<lambda>s. st_id s \<notin> ids) (take n active) = []"
      by (simp add: ids_def filter_empty_conv)
    also have "length [] + length (filter (\<lambda>s. st_id s \<notin> ids) (drop n active)) \<le> length active - n"
      using length_filter_le [of "\<lambda>s. st_id s \<notin> ids" "drop n active"] by simp
    finally have "count_where (staff_active school) (suspend_excess school cap rows) \<le> length active - n"
      by simp
    then show ?thesis
      using True assms unfolding active_staff_def staff_active_eq n_def by linarith
  qed
qed

lemma unsuspend_suspend:
  assumes "distinct (map st_id rows)"
    "list_all (\<lambda>s. \<not> (st_school s = school \<and> st_suspended s)) rows"
  shows "unsuspend_staff school (suspend_excess school cap rows) = rows"
proof -
  define active where "active = sort_key (\<lambda>s. - st_created s)
    (filter (\<lambda>s. st_school s = school \<and> \<not> st_suspended s) rows)"
  have active: "set active \<subseteq> {s \<in> set rows. st_school s = school \<and> \<not> st_suspended s}"
    by (simp add: active_def)
  have "unsuspend_staff school (update_where (\<lambda>s. st_id s \<in> set (map st_id (take n active)))
      (\<lambda>s. s\<lparr>st_suspended := True\<rparr>) rows) = rows" for n
  proof -
    have row: "(let r = (if st_id s \<in> set (map st_id (take n active)) then s\<lparr>st_suspended := True\<rparr> else s)
        in if st_school r = school \<and> st_suspended r then r\<lparr>st_suspended := False\<rparr> else r) = s"
      if s: "s \<in> set rows" for s
    proof (cases "st_id s \<in> set (map st_id (take n active))")
      case True
      then obtain a where "a \<in> set active" "st_id a = st_id s" by (auto dest: in_set_takeD)
      then have "a = s" using same_key [OF assms(1), of a s] active s by auto
      then have "st_school s = school" "\<not> st_suspended s" using \<open>a \<in> set active\<close> active by auto
      then show ?thesis using True by (cases s) simp
    next
      case False
      then show ?thesis using assms(2) s by (auto simp: list_all_iff)
    qed
    show ?thesis
      unfolding unsuspend_staff_def update_where_def map_map comp_def
      by (rule map_idI) (rule row [unfolded Let_def])
  qed
  moreover have "unsuspend_staff school rows = rows"
    unfolding unsuspend_staff_def using assms(2) by (intro update_where_none) (auto simp: list_all_iff)
  ultimately show ?thesis
    unfolding suspend_excess_def Let_def active_def [symmetric] by simp
qed

end
