(* ===== verification/BillingProperties.thy ===== *)
theory BillingProperties
  imports BillingFacts
begin

text \<open>
  The properties of the billing subsystem, over the lemmas of \<open>BillingFacts\<close>.
\<close>

section \<open>Sample data\<close>

definition sample_sub :: subscription where
  "sample_sub = \<lparr>sub_id = ''s1'', sub_school = ''sch'', sub_tier = PRO, sub_plan_id = Some ''p'',
     sub_start = 0, sub_end = Some 1000, sub_active = True, sub_max_students = 800,
     sub_max_teachers = 80, sub_max_admins = 20, sub_credits = 10000, sub_credits_used = 4000,
     sub_last_reset = None, sub_phase = ADMIN_ACTION_REQUIRED, sub_grace_ends = None,
     sub_reminded_at = None, sub_code = None, sub_email_token = None, sub_customer = None,
     sub_recurring = False\<rparr>"

definition sample_payment :: payment where
  "sample_payment = \<lparr>py_subscription = ''s1'', py_amount = 49999, py_status = PAY_PENDING,
     py_reference = ''ref'', py_metadata = Some \<lparr>pm_tier = PRO, pm_yearly = False, pm_plan_code = None\<rparr>,
     py_paid_at = None, py_created = 0\<rparr>"

definition sample_db :: billing_db where
  "sample_db = \<lparr>bd_subs = [sample_sub], bd_plans = [], bd_schools = [],
     bd_enrollments = [\<lparr>en_id = ''e1'', en_student = ''st1'', en_school = ''sch'', en_date = 0,
       en_active = True, en_locked = False\<rparr>],
     bd_teachers = [], bd_admins = [],
     bd_tools = [\<lparr>tl_id = ''t1'', tl_slug = ''agora-ai'', tl_name = ''Agora'', tl_active = True,
       tl_sort = 0, tl_roles = []\<rparr>],
     bd_access = [], bd_payments = [sample_payment], bd_processed = [], bd_usage = [], bd_audit = [],
     bd_reminders = [], bd_revenue = []\<rparr>"

section \<open>Lifecycle\<close>


text \<open>
  Running the job again at the same time changes nothing: no second notification, no
  second audit entry, the same tables.
\<close>

theorem lifecycle_idempotent:
  "run_daily_billing_lifecycle env now (run_daily_billing_lifecycle env now db) =
    run_daily_billing_lifecycle env now db"
  by (simp add: run_daily_billing_lifecycle_def Let_def comp_def lifecycle_step_idem)

section \<open>Credits\<close>



text \<open>
  What a use of credits does. It succeeds exactly when the paid period is open and the
  pool covers it (or is unlimited); then the used credits grow by the amount and one usage
  entry is logged. Otherwise nothing is written.
\<close>

theorem use_credits_correct:
  assumes "find_sub school db = Some s" and "sub_credits s \<noteq> - 1"
    and "use_ai_credits now school n user action db = Inr (r, db')"
  shows "cr_success r = (ai_active now s \<and> n \<le> sub_credits s - sub_credits_used s)
    \<and> map_option sub_credits_used (find_sub school db') =
        Some (sub_credits_used s + (if cr_success r then n else 0))
    \<and> length (bd_usage db') = length (bd_usage db) + (if cr_success r then 1 else 0)
    \<and> cr_remaining r = (if cr_success r then sub_credits s - sub_credits_used s - n
        else if ai_active now s then sub_credits s - sub_credits_used s
        else max 0 (sub_credits s - sub_credits_used s))"
proof -
  have "find_sub school ((update_sub school f db)\<lparr>bd_usage := u\<rparr>) = map_option f (find_sub school db)"
    if "\<And>s. sub_school (f s) = sub_school s" for f u
    using find_update_sub [of f school db, OF that] by (simp add: find_sub_def)
  then show ?thesis
    using assms by (auto simp: use_ai_credits_def Let_def split: if_splits)
qed

theorem use_credits_correct_witness:
  "\<exists>r db'. use_ai_credits 500 ''sch'' 100 ''u'' None sample_db = Inr (r, db')
    \<and> cr_success r = (ai_active 500 sample_sub \<and> 100 \<le> sub_credits sample_sub - sub_credits_used sample_sub)
    \<and> map_option sub_credits_used (find_sub ''sch'' db') =
        Some (sub_credits_used sample_sub + (if cr_success r then 100 else 0))
    \<and> length (bd_usage db') = length (bd_usage sample_db) + (if cr_success r then 1 else 0)
    \<and> cr_remaining r = (if cr_success r then sub_credits sample_sub - sub_credits_used sample_sub - 100
        else if ai_active 500 sample_sub then sub_credits sample_sub - sub_credits_used sample_sub
        else max 0 (sub_credits sample_sub - sub_credits_used sample_sub))"
proof -
  have s: "find_sub ''sch'' sample_db = Some sample_sub" "sub_credits sample_sub \<noteq> - 1"
    by (simp_all add: find_sub_def sample_db_def sample_sub_def)
  obtain r db' where u: "use_ai_credits 500 ''sch'' 100 ''u'' None sample_db = Inr (r, db')"
  proof (cases "use_ai_credits 500 ''sch'' 100 ''u'' None sample_db")
    case (Inl e)
    then show thesis using s(1) by (simp add: use_ai_credits_def Let_def split: if_splits)
  next
    case (Inr x)
    then show thesis using that by (cases x) simp
  qed
  from use_credits_correct [OF s u] u show ?thesis by blast
qed

section \<open>Payments\<close>

text \<open>
  C36: handling a payment twice is handling it once: after a first call that did not throw, a
  second call with the same reference (a webhook retry, a verification after the webhook)
  changes nothing.
\<close>

theorem payment_idempotent:
  assumes "handle_successful_payment env tz now new_id ref tx db = (Inr (), db')"
  shows "handle_successful_payment env tz later new_id2 ref tx2 db' = (Inr (), db')"
proof (cases "is_processed ref db'")
  case True
  then show ?thesis by (rule processed_returns)
next
  case False
  have processed: "is_processed ref (sync_tool_access_for_tier now f school sub t (record_idempotency ref True d))"
    for f school sub t d
    by (subst is_processed_frame [of _ "record_idempotency ref True d"]) simp_all
  have "db' = db"
    using assms False processed
    by (auto simp: handle_successful_payment_def Let_def split: if_splits option.splits sum.splits)
  then show ?thesis
    using assms False processed
    by (auto simp: handle_successful_payment_def Let_def split: if_splits option.splits sum.splits)
qed

theorem payment_idempotent_witness:
  "\<exists>db'. handle_successful_payment Map.empty 0 500 (\<lambda>i. i) ''ref'' no_tx sample_db = (Inr (), db')
    \<and> handle_successful_payment Map.empty 0 900 (\<lambda>i. i) ''ref'' no_tx db' = (Inr (), db')"
proof -
  obtain db' where "handle_successful_payment Map.empty 0 500 (\<lambda>i. i) ''ref'' no_tx sample_db = (Inr (), db')"
    by (rule handle_pending [where ref = "''ref''" and db = sample_db and p = sample_payment and s = sample_sub
          and m = "\<lparr>pm_tier = PRO, pm_yearly = False, pm_plan_code = None\<rparr>"])
      (auto simp: is_processed_def find_payment_def sub_by_id_def sample_db_def sample_payment_def sample_sub_def)
  then show ?thesis using payment_idempotent by blast
qed



text \<open>
  C39: the payment row is marked before the renewal, outside its transaction, and the mark
  alone makes every later call return early. If the process stops between the two writes, a
  retry of the paid reference records it as processed and never renews the subscription.
\<close>

theorem interrupted_payment_is_lost:
  assumes "\<not> is_processed ref db" "find_payment ref db = Some p" "py_metadata p = Some m"
  shows "\<exists>db'. handle_successful_payment env tz later new_id ref tx (mark_paid now ref p m db) = (Inr (), db')
    \<and> bd_subs db' = bd_subs db \<and> bd_enrollments db' = bd_enrollments db \<and> is_processed ref db'"
proof -
  have "is_processed ref (mark_paid now ref p m db) = is_processed ref db"
    by (rule is_processed_frame) (simp add: mark_paid_def set_payment_def)
  then show ?thesis
    using assms find_paid [OF assms(2), of now m]
    by (simp add: handle_successful_payment_def) (simp add: mark_paid_def set_payment_def)
qed

theorem interrupted_payment_is_lost_witness:
  "\<exists>db'. handle_successful_payment Map.empty 0 900 (\<lambda>i. i) ''ref'' no_tx
      (mark_paid 500 ''ref'' sample_payment \<lparr>pm_tier = PRO, pm_yearly = False, pm_plan_code = None\<rparr> sample_db) = (Inr (), db')
    \<and> bd_subs db' = bd_subs sample_db \<and> bd_enrollments db' = bd_enrollments sample_db
    \<and> is_processed ''ref'' db'"
  by (rule interrupted_payment_is_lost)
    (simp_all add: is_processed_def find_payment_def sample_db_def sample_payment_def)

text \<open>
  An upgrade is never charged above its list price and never below zero, when the last
  payment was not negative.
\<close>

theorem proration_bounds:
  assumes "calculate_prorated_amount now school t yearly db = Inr amount"
    and "list_all (\<lambda>p. 0 \<le> py_amount p) (bd_payments db)"
  shows "0 \<le> amount \<and> amount \<le> plan_price t yearly"
proof -
  have price: "0 \<le> plan_price t yearly"
    by (cases t) (simp_all add: plan_price_def pricing_def)
  have pos: "0 \<le> py_amount p" if "last_successful_payment i db = Some p" for i p
  proof -
    define paid where "paid = sort_key (\<lambda>p. - py_created p)
        (filter (\<lambda>p. py_subscription p = i \<and> py_status p = PAY_SUCCESS) (bd_payments db))"
    have "p \<in> set paid"
      using that unfolding last_successful_payment_def paid_def [symmetric] by (cases paid) auto
    then show ?thesis using assms(2) by (auto simp: list_all_iff paid_def)
  qed
  have part: "of_int \<lfloor>x - y\<rfloor> \<le> x" if "0 \<le> y" for x y :: rat
    using of_int_floor_le [of "x - y"] that by linarith
  have discount: "of_int \<lfloor>plan_price t yearly - py_amount p * of_int (e - now) / of_int (e - paid)\<rfloor>
      \<le> plan_price t yearly" if "last_successful_payment i db = Some p" "\<not> e \<le> now" "\<not> e \<le> paid" for i p e paid
    using pos [OF that(1)] that(2,3)
    by (intro part) (auto intro!: divide_nonneg_pos mult_nonneg_nonneg simp del: of_int_diff)
  then show ?thesis
    using assms(1) price
    by (auto simp: calculate_prorated_amount_def Let_def simp del: of_int_diff
        split: option.splits if_splits)
qed

theorem proration_bounds_witness:
  "\<exists>amount. calculate_prorated_amount 500 ''sch'' PRO_PLUS False sample_db = Inr amount
    \<and> 0 \<le> amount \<and> amount \<le> plan_price PRO_PLUS False"
proof -
  have "calculate_prorated_amount 500 ''sch'' PRO_PLUS False sample_db = Inr (plan_price PRO_PLUS False)"
    by (simp add: calculate_prorated_amount_def Let_def find_sub_def last_successful_payment_def sample_db_def
        sample_sub_def sample_payment_def)
  from this proration_bounds [OF this] show ?thesis
    by (auto simp: sample_db_def sample_payment_def)
qed

section \<open>Downgrade\<close>

lemma downgrade_rows:
  assumes "execute_downgrade_to_free env now new_id school keep actor db = Inr db'"
  defines "free \<equiv> get_tier_limit_caps env FREE"
    and "op \<equiv> map en_id (operational_enrollments school db)"
  shows "bd_enrollments db' = update_where (\<lambda>e. en_id e \<in> set (if cap_students free < int (length op)
        then filter (\<lambda>i. i \<notin> set keep) op else []))
      (\<lambda>e. e\<lparr>en_locked := True, en_active := False\<rparr>) (bd_enrollments db)"
    and "bd_teachers db' = suspend_excess school (cap_teachers free) (bd_teachers db)"
    and "bd_admins db' = suspend_excess school (cap_admins free) (bd_admins db)"
    and "\<exists>s plan. find_sub school db = Some s \<and> find_sub school db' = Some (free_row now free plan s)"
    and "check_keep_selection (cap_students free) op keep = Inr ()"
proof -
  have school_free: "sub_school (free_row now free plan s) = sub_school s" for plan s
    by (simp add: free_row_def)
  have found: "find_sub school (update_sub school (free_row now free plan) db) =
      map_option (free_row now free plan) (find_sub school db)" for plan
    by (rule find_update_sub) (rule school_free)
  have cong: "find_sub school d = find_sub school d'" if "bd_subs d = bd_subs d'" for d d'
    using that by (simp add: find_sub_def)
  note open_def = execute_downgrade_to_free_def Let_def free_def [symmetric] op_def [symmetric]
  have append_frame [simp]: "bd_enrollments (append_audit_log a b c d) = bd_enrollments d"
    "bd_teachers (append_audit_log a b c d) = bd_teachers d"
    "bd_admins (append_audit_log a b c d) = bd_admins d" for a b c d
    by (simp_all add: append_audit_log_def)
  show "bd_enrollments db' = update_where (\<lambda>e. en_id e \<in> set (if cap_students free < int (length op)
        then filter (\<lambda>i. i \<notin> set keep) op else []))
      (\<lambda>e. e\<lparr>en_locked := True, en_active := False\<rparr>) (bd_enrollments db)"
    using assms(1) unfolding open_def
    by (auto split: if_splits sum.splits option.splits)
  show "bd_teachers db' = suspend_excess school (cap_teachers free) (bd_teachers db)"
    using assms(1) unfolding open_def by (auto split: if_splits sum.splits option.splits)
  show "bd_admins db' = suspend_excess school (cap_admins free) (bd_admins db)"
    using assms(1) unfolding open_def by (auto split: if_splits sum.splits option.splits)
  show "check_keep_selection (cap_students free) op keep = Inr ()"
    using assms(1) unfolding open_def by (auto split: if_splits sum.splits)
  obtain s where "find_sub school db = Some s"
    using assms(1) unfolding execute_downgrade_to_free_def by (cases "find_sub school db") auto
  moreover obtain plan where "bd_subs db' = bd_subs (update_sub school (free_row now free plan) db)"
    using downgrade_subs [OF assms(1)] by (auto simp: free_def)
  ultimately have "find_sub school db' = Some (free_row now free plan s)"
    using found [of plan] cong [of db' "update_sub school (free_row now free plan) db"] by simp
  then show "\<exists>s plan. find_sub school db = Some s \<and> find_sub school db' = Some (free_row now free plan s)"
    using \<open>find_sub school db = Some s\<close> by blast
qed

lemma free_caps:
  "1 \<le> cap_students (get_tier_limit_caps env FREE)" "cap_teachers (get_tier_limit_caps env FREE) = 10"
  "cap_admins (get_tier_limit_caps env FREE) = 2" "cap_credits (get_tier_limit_caps env FREE) = 0"
  using free_cap_positive [of env]
  by (simp_all add: get_tier_limit_caps_def tier_limits_def apply_dev_student_cap_def
      get_dev_student_cap_for_tier_def Let_def)

lemma operational_after_lock:
  assumes "distinct (map en_id rows)"
  shows "map en_id (filter (is_operational school)
      (update_where (\<lambda>e. en_id e \<in> L) (\<lambda>e. e\<lparr>en_locked := True, en_active := False\<rparr>) rows)) =
    filter (\<lambda>i. i \<notin> L) (map en_id (filter (is_operational school) rows))"
  by (induction rows) (auto simp: is_operational_def)

lemma length_kept:
  assumes "distinct xs" shows "length (filter (\<lambda>i. i \<in> set keep) xs) \<le> length keep"
proof -
  have "length (filter (\<lambda>i. i \<in> set keep) xs) = card (set (filter (\<lambda>i. i \<in> set keep) xs))"
    by (rule distinct_card [symmetric]) (simp add: assms)
  also have "\<dots> \<le> card (set keep)" by (intro card_mono) auto
  also have "\<dots> \<le> length keep" by (rule card_length)
  finally show ?thesis .
qed

text \<open>
  C3: a downgrade to the free tier leaves the school within the free limits. The enrollments
  that stay operational are exactly the selected ones when the headcount was above the cap and
  all of them otherwise, at most the cap in either case; teachers and administrators are
  within their caps; the subscription is FREE in phase OK without credits.
\<close>

theorem downgrade_within_limits:
  assumes "execute_downgrade_to_free env now new_id school keep actor db = Inr db'"
    and "distinct (map en_id (bd_enrollments db))"
  shows "let cap = cap_students (get_tier_limit_caps env FREE);
             before = map en_id (operational_enrollments school db);
             after = map en_id (operational_enrollments school db')
    in after = (if cap < int (length before) then filter (\<lambda>i. i \<in> set keep) before else before)
      \<and> set keep \<subseteq> set before \<and> int (length after) \<le> cap
      \<and> active_staff school (bd_teachers db') \<le> 10 \<and> active_staff school (bd_admins db') \<le> 2
      \<and> map_option (\<lambda>s. (sub_tier s, sub_phase s, sub_end s, sub_credits s, sub_credits_used s))
          (find_sub school db') = Some (FREE, PHASE_OK, None, 0, 0)"
proof -
  let ?cap = "cap_students (get_tier_limit_caps env FREE)"
  let ?before = "map en_id (operational_enrollments school db)"
  let ?after = "map en_id (operational_enrollments school db')"
  note rows = downgrade_rows [OF assms(1)]
  have after: "?after = filter (\<lambda>i. i \<notin> set (if ?cap < int (length ?before)
      then filter (\<lambda>i. i \<notin> set keep) ?before else [])) ?before"
    unfolding operational_enrollments_def rows(1) operational_after_lock [OF assms(2)] ..
  then have kept: "?after = (if ?cap < int (length ?before) then filter (\<lambda>i. i \<in> set keep) ?before else ?before)"
    by (auto intro: filter_cong)
  have sel: "set keep \<subseteq> set ?before \<and> (?cap < int (length ?before) \<longrightarrow> int (length keep) = ?cap)"
    using rows(5) unfolding check_keep_selection_def by (auto simp: list_ex_iff split: if_splits)
  have "distinct ?before"
    using assms(2) by (simp add: operational_enrollments_def distinct_map_filter)
  from length_kept [OF this, of keep] have "int (length ?after) \<le> ?cap"
    using sel unfolding kept by auto
  moreover have "active_staff school (bd_teachers db') \<le> 10" "active_staff school (bd_admins db') \<le> 2"
    using suspend_excess_bound [of 10 school] suspend_excess_bound [of 2 school] rows(2,3)
    by (simp_all add: free_caps)
  moreover obtain s plan where
    "find_sub school db' = Some (free_row now (get_tier_limit_caps env FREE) plan s)"
    using rows(4) by blast
  ultimately show ?thesis
    unfolding Let_def using kept sel by (simp add: free_row_def free_caps)
qed

theorem downgrade_within_limits_witness:
  "\<exists>db'. execute_downgrade_to_free Map.empty 5000 (\<lambda>i. i) ''sch'' [] ''u'' sample_db = Inr db'
    \<and> active_staff ''sch'' (bd_teachers db') \<le> 10
    \<and> map_option (\<lambda>s. (sub_tier s, sub_phase s, sub_end s, sub_credits s, sub_credits_used s))
        (find_sub ''sch'' db') = Some (FREE, PHASE_OK, None, 0, 0)"
proof -
  have cap: "cap_students (get_tier_limit_caps Map.empty FREE) = 100"
    by (simp add: get_tier_limit_caps_def tier_limits_def apply_dev_student_cap_def
        get_dev_student_cap_for_tier_def is_fast_subscription_mode_def env_flag_def)
  obtain db' where d: "execute_downgrade_to_free Map.empty 5000 (\<lambda>i. i) ''sch'' [] ''u'' sample_db = Inr db'"
    by (simp add: execute_downgrade_to_free_def Let_def cap check_keep_selection_def find_sub_def sample_db_def
        sample_sub_def operational_enrollments_def is_operational_def)
  from downgrade_within_limits [OF d] d show ?thesis
    by (simp add: Let_def sample_db_def)
qed

text \<open>
  C17: a paid renewal undoes a downgrade. If the school had no locked enrollment and no
  suspended staff before it, the renewal gives back exactly the enrollments and staff of before.
\<close>

theorem renewal_undoes_downgrade:
  assumes "execute_downgrade_to_free env now new_id school keep actor db = Inr db1"
    and "on_successful_paid_renewal school upd actor2 db1 = Inr db2"
    and "distinct (map en_id (bd_enrollments db))" "distinct (map st_id (bd_teachers db))"
      "distinct (map st_id (bd_admins db))"
    and "list_all (\<lambda>e. \<not> (en_school e = school \<and> en_locked e)) (bd_enrollments db)"
      "list_all (\<lambda>s. \<not> (st_school s = school \<and> st_suspended s)) (bd_teachers db)"
      "list_all (\<lambda>s. \<not> (st_school s = school \<and> st_suspended s)) (bd_admins db)"
  shows "bd_enrollments db2 = bd_enrollments db \<and> bd_teachers db2 = bd_teachers db
    \<and> bd_admins db2 = bd_admins db"
proof -
  note rows = downgrade_rows [OF assms(1)]
  have renewed: "bd_enrollments db2 = unlock_enrollments school (bd_enrollments db1)"
    "bd_teachers db2 = unsuspend_staff school (bd_teachers db1)"
    "bd_admins db2 = unsuspend_staff school (bd_admins db1)"
    using assms(2) by (auto simp: on_successful_paid_renewal_def Let_def split: option.splits)
  define L where "L = set (if cap_students (get_tier_limit_caps env FREE) <
      int (length (map en_id (operational_enrollments school db)))
    then filter (\<lambda>i. i \<notin> set keep) (map en_id (operational_enrollments school db)) else [])"
  have L: "L \<subseteq> en_id ` {e \<in> set (bd_enrollments db). is_operational school e}"
    by (auto simp: L_def operational_enrollments_def)
  have row: "(if en_school r = school \<and> en_locked r then r\<lparr>en_locked := False, en_active := True\<rparr> else r) = e"
    if e: "e \<in> set (bd_enrollments db)"
      and r: "r = (if en_id e \<in> L then e\<lparr>en_locked := True, en_active := False\<rparr> else e)" for e r
  proof (cases "en_id e \<in> L")
    case True
    then obtain x where "x \<in> set (bd_enrollments db)" "is_operational school x" "en_id x = en_id e"
      using L by (auto simp: image_iff)
    then have "x = e" using same_key [OF assms(3)] e by blast
    then have "is_operational school e" using \<open>is_operational school x\<close> by simp
    then show ?thesis using True by (cases e) (simp add: r is_operational_def)
  next
    case False
    then show ?thesis using assms(6) e by (auto simp: r list_all_iff)
  qed
  have "unlock_enrollments school (bd_enrollments db1) = bd_enrollments db"
    unfolding rows(1) L_def [symmetric] unlock_enrollments_def update_where_def map_map comp_def
    by (rule map_idI) (rule row [OF _ refl])
  then show ?thesis
    using unsuspend_suspend [OF assms(4,7)] unsuspend_suspend [OF assms(5,8)]
    by (simp add: renewed rows(2,3))
qed

theorem renewal_undoes_downgrade_witness:
  "\<exists>db1 db2. execute_downgrade_to_free Map.empty 5000 (\<lambda>i. i) ''sch'' [] ''u'' sample_db = Inr db1
    \<and> on_successful_paid_renewal ''sch'' None None db1 = Inr db2
    \<and> bd_enrollments db2 = bd_enrollments sample_db"
proof -
  have cap: "cap_students (get_tier_limit_caps Map.empty FREE) = 100"
    by (simp add: get_tier_limit_caps_def tier_limits_def apply_dev_student_cap_def
        get_dev_student_cap_for_tier_def is_fast_subscription_mode_def env_flag_def)
  obtain db1 where d: "execute_downgrade_to_free Map.empty 5000 (\<lambda>i. i) ''sch'' [] ''u'' sample_db = Inr db1"
    by (simp add: execute_downgrade_to_free_def Let_def cap check_keep_selection_def find_sub_def sample_db_def
        sample_sub_def operational_enrollments_def is_operational_def)
  have "find_sub ''sch'' db1 \<noteq> None" using downgrade_rows(4) [OF d] by auto
  then obtain db2 where r: "on_successful_paid_renewal ''sch'' None None db1 = Inr db2"
    by (auto simp: on_successful_paid_renewal_def Let_def)
  from renewal_undoes_downgrade [OF d r] d r show ?thesis
    by (auto simp: sample_db_def)
qed

section \<open>Tools\<close>

lemma find_access_update:
  "find_access s' t' (update_access school tv f db) =
    (if s' = school \<and> t' = tv then map_option f (find_access s' t' db) else find_access s' t' db)"
  if "\<And>a. ta_school (f a) = ta_school a \<and> ta_tool (f a) = ta_tool a"
proof -
  have "find (\<lambda>a. ta_school a = s' \<and> ta_tool a = t')
      (update_where (\<lambda>a. ta_school a = school \<and> ta_tool a = tv) f rows) =
    (if s' = school \<and> t' = tv then map_option f (find (\<lambda>a. ta_school a = s' \<and> ta_tool a = t') rows)
     else find (\<lambda>a. ta_school a = s' \<and> ta_tool a = t') rows)" for rows
    using that by (induction rows) auto
  then show ?thesis by (simp add: find_access_def update_access_def)
qed

definition tool_matches :: "ident \<Rightarrow> subscription_tier \<Rightarrow> billing_db \<Rightarrow> tool \<Rightarrow> bool" where
  "tool_matches school t db tv =
     (case find_access school (tl_id tv) db of
        None \<Rightarrow> tl_slug tv \<notin> set (tier_tools t)
      | Some a \<Rightarrow> (ta_state a = TOOL_ACTIVE) = (tl_slug tv \<in> set (tier_tools t)))"

lemma sync_tool_access:
  "find_access s' t' (sync_tool now f school sub t tv db) =
    (if s' = school \<and> t' = tl_id tv then
       find_access school (tl_id tv) (sync_tool now f school sub t tv db)
     else find_access s' t' db)"
  "tool_matches school t (sync_tool now f school sub t tv db) tv"
proof -
  have other: "find_access s' t' (db\<lparr>bd_access := bd_access db @ [a]\<rparr>) = find_access s' t' db"
    if "\<not> (s' = ta_school a \<and> t' = ta_tool a)" for a
    using that by (auto simp: find_access_def find_append split: option.splits)
  show "find_access s' t' (sync_tool now f school sub t tv db) =
    (if s' = school \<and> t' = tl_id tv then
       find_access school (tl_id tv) (sync_tool now f school sub t tv db)
     else find_access s' t' db)"
    by (auto simp: sync_tool_def Let_def find_access_update other split: option.splits)
  have new: "find_access school (tl_id tv) (db\<lparr>bd_access := bd_access db @ [a]\<rparr>) = Some a"
    if "find_access school (tl_id tv) db = None" "ta_school a = school" "ta_tool a = tl_id tv" for a
    using that by (simp add: find_access_def find_append)
  show "tool_matches school t (sync_tool now f school sub t tv db) tv"
    by (cases "find_access school (tl_id tv) db")
      (auto simp: tool_matches_def sync_tool_def Let_def find_access_update new)
qed

lemma sync_fold:
  "tv' \<notin> tl_id ` set ts \<Longrightarrow>
    find_access school tv' (fold (sync_tool now f school sub t) ts db) = find_access school tv' db"
  by (induction ts arbitrary: db) (auto simp: sync_tool_access(1))

lemma sync_all_match:
  "distinct (map tl_id ts) \<Longrightarrow> list_all (tool_matches school t (fold (sync_tool now f school sub t) ts db)) ts"
proof (induction ts arbitrary: db)
  case Nil
  then show ?case by simp
next
  case (Cons tv ts)
  let ?db = "sync_tool now f school sub t tv db"
  have "find_access school (tl_id tv) (fold (sync_tool now f school sub t) ts ?db) = find_access school (tl_id tv) ?db"
    using Cons.prems by (intro sync_fold) simp
  then have "tool_matches school t (fold (sync_tool now f school sub t) ts ?db) tv"
    using sync_tool_access(2) [of school t now f sub tv db] by (simp add: tool_matches_def)
  then show ?case using Cons by simp
qed

text \<open>
  After a synchronisation every active tool of the catalogue is switched on for the
  school exactly when its tier includes it, and the rows of other schools are untouched.
\<close>

theorem tool_sync_correct:
  assumes "distinct (map tl_id (filter tl_active (bd_tools db)))"
  shows "list_all (tool_matches school t (sync_tool_access_for_tier now new_id school sub t db))
      (filter tl_active (bd_tools db))
    \<and> filter (\<lambda>a. ta_school a \<noteq> school) (bd_access (sync_tool_access_for_tier now new_id school sub t db)) =
      filter (\<lambda>a. ta_school a \<noteq> school) (bd_access db)"
proof -
  have upd: "filter (\<lambda>a. ta_school a \<noteq> school) (update_where (\<lambda>a. ta_school a = school \<and> ta_tool a = tv) g rows) =
      filter (\<lambda>a. ta_school a \<noteq> school) rows" if "\<And>a. ta_school (g a) = ta_school a" for g tv rows
    using that by (induction rows) auto
  have "filter (\<lambda>a. ta_school a \<noteq> school) (bd_access (sync_tool now new_id school sub t tv d)) =
      filter (\<lambda>a. ta_school a \<noteq> school) (bd_access d)" for tv d
    by (auto simp: sync_tool_def Let_def update_access_def upd split: option.splits)
  then have "filter (\<lambda>a. ta_school a \<noteq> school) (bd_access (fold (sync_tool now new_id school sub t) ts d)) =
      filter (\<lambda>a. ta_school a \<noteq> school) (bd_access d)" for ts d
    by (induction ts arbitrary: d) simp_all
  then show ?thesis
    unfolding sync_tool_access_for_tier_def using sync_all_match [OF assms] by blast
qed

theorem tool_sync_correct_witness:
  "list_all (tool_matches ''sch'' PRO (sync_tool_access_for_tier 5 (\<lambda>i. i) ''sch'' ''s1'' PRO sample_db))
      (filter tl_active (bd_tools sample_db))
    \<and> filter (\<lambda>a. ta_school a \<noteq> ''sch'')
        (bd_access (sync_tool_access_for_tier 5 (\<lambda>i. i) ''sch'' ''s1'' PRO sample_db)) =
      filter (\<lambda>a. ta_school a \<noteq> ''sch'') (bd_access sample_db)"
  by (rule tool_sync_correct) (simp add: sample_db_def)

text \<open>
  Nobody but a super admin reaches the AI tool outside a paid period: when the guard lets
  a request through, the caller's school has a subscription of a paid tier whose end date, if
  it has one, is still ahead.
\<close>

theorem ai_needs_paid_period:
  assumes "fst (tool_access_guard now (Some ''agora-ai'') u db) = Inr ()" and "us_role u \<noteq> ''SUPER_ADMIN''"
  shows "\<exists>school s. us_school u = Some school \<and> find_sub school db = Some s \<and> FREE < sub_tier s
    \<and> (case sub_end s of None \<Rightarrow> True | Some e \<Rightarrow> now < e)"
proof -
  obtain school where school: "us_school u = Some school"
    using assms by (cases "us_school u") (auto simp: tool_access_guard_def)
  have granted: "tr_access (fst (check_tool_access now school ''agora-ai'' db))"
    using assms school
    by (auto simp: tool_access_guard_def Let_def case_prod_beta split: if_splits)
  have "ai_period_open now school db"
  proof -
    have slug: "tl_slug tv = ''agora-ai''"
      if "find (\<lambda>t. tl_slug t = ''agora-ai'') (bd_tools db) = Some tv" for tv
      using find_Some_in [OF that] by simp
    then show ?thesis
      using granted
      by (auto simp: check_tool_access_def tool_answer_def Let_def split: option.splits tool_status.splits if_splits)
  qed
  then obtain s where s: "find_sub school db = Some s" "ai_active now s"
    by (auto simp: ai_period_open_def split: option.splits)
  then have "FREE < sub_tier s \<and> (case sub_end s of None \<Rightarrow> True | Some e \<Rightarrow> now < e)"
    by (cases "sub_tier s"; cases "sub_end s")
      (auto simp: ai_active_def is_ai_billing_period_active_def less_subscription_tier_def tier_rank_def
        split: if_splits)
  then show ?thesis using school s by blast
qed

definition sample_user :: user_ctx where
  "sample_user = \<lparr>us_id = ''u'', us_role = ''TEACHER'', us_profile = Some ''t'', us_school = Some ''sch''\<rparr>"

definition sample_ai_db :: billing_db where
  "sample_ai_db = sample_db\<lparr>bd_access := [\<lparr>ta_id = ''a'', ta_school = ''sch'', ta_tool = ''t1'',
     ta_subscription = Some ''s1'', ta_state = TOOL_ACTIVE, ta_trial_ends = None, ta_activated = None,
     ta_expires = None\<rparr>]\<rparr>"

theorem ai_needs_paid_period_witness:
  "\<exists>school s. us_school sample_user = Some school \<and> find_sub school sample_ai_db = Some s \<and> FREE < sub_tier s
    \<and> (case sub_end s of None \<Rightarrow> True | Some e \<Rightarrow> 500 < e)"
  by (rule ai_needs_paid_period [where now = 500])
    (simp_all add: tool_access_guard_def check_tool_access_def tool_answer_def sample_user_def sample_ai_db_def
      sample_db_def sample_sub_def find_access_def find_sub_def ai_period_open_def ai_active_def
      is_ai_billing_period_active_def is_past_def Let_def)

end
