(* ===== verification/Transfers.thy ===== *)
theory Transfers
  imports JsDate
begin

text \<open>
  Student transfers between schools, \<open>src/src/transfers/transfers.service.ts\<close>. A transfer row
  is a state machine: PENDING (a transfer access code was issued), APPROVED (a school
  presented the code), COMPLETED, REJECTED or CANCELLED. The tables it reads and writes are
  the fields of \<open>transfer_db\<close>. An operation returns its result or exception together with
  the tables, since \<open>initiateTransfer\<close> may throw after its first write. The random bytes of a
  code are a stream indexed by the attempt; ids of created rows are arguments; e-mails and
  notifications, which never affect the outcome, are left out.
\<close>

section \<open>Tables\<close>

datatype transfer_status = TR_PENDING | TR_APPROVED | TR_REJECTED | TR_CANCELLED | TR_COMPLETED

datatype transfer_kind = KIND_NORMAL | KIND_SCHOOL_CLOSURE

datatype transfer_policy = TRANSFERS_DISABLED | MANUAL_REVIEW | AUTO_ACCEPT

record admission_policy =
  ap_transfer :: transfer_policy
  ap_expiry_days :: "int option"

record transfer_row =
  tf_id :: ident
  tf_student :: ident
  tf_from :: ident
  tf_to :: "ident option"
  tf_status :: transfer_status
  tf_kind :: transfer_kind
  tf_tac :: "string option"
  tf_generated :: "date option"
  tf_expires :: "date option"
  tf_used_at :: "date option"
  tf_used_by :: "ident option"
  tf_reason :: "string option"
  tf_requested_by :: "ident option"
  tf_approved_at :: "date option"
  tf_rejected_at :: "date option"
  tf_rejection :: "string option"
  tf_completed_at :: "date option"
  tf_created :: date

record health_info =
  hi_blood :: "string option"
  hi_allergies :: "string option"
  hi_medications :: "string option"
  hi_contact :: "string option"
  hi_contact_phone :: "string option"
  hi_notes :: "string option"

record student_row =
  su_id :: ident
  su_health :: health_info

record enrolment =
  em_id :: ident
  em_student :: ident
  em_school :: ident
  em_class :: "ident option"
  em_arm :: "ident option"
  em_level :: string
  em_year :: string
  em_date :: date
  em_active :: bool
  em_term :: "ident option"
  em_updated :: date

record grade_row =
  gw_id :: ident
  gw_enrolment :: ident
  gw_teacher :: ident
  gw_subject :: "string option"
  gw_type :: "string option"
  gw_assessment :: "string option"
  gw_sequence :: "int option"
  gw_date :: "date option"
  gw_score :: rat
  gw_max :: rat
  gw_term :: "string option"
  gw_year :: "string option"
  gw_remarks :: "string option"
  gw_signed :: "date option"
  gw_created :: date

record class_arm =
  ar_id :: ident
  ar_school :: ident
  ar_level :: string
  ar_name :: string
  ar_capacity :: "int option"

record class_row =
  cl_id :: ident
  cl_school :: ident
  cl_name :: string
  cl_level :: string
  cl_type :: string
  cl_active :: bool

record term_row =
  tm_id :: ident
  tm_school :: ident
  tm_number :: int
  tm_active :: bool
  tm_session_active :: bool

record transfer_db =
  td_students :: "student_row list"
  td_enrolments :: "enrolment list"
  td_grades :: "grade_row list"
  td_transfers :: "transfer_row list"
  td_arms :: "class_arm list"
  td_classes :: "class_row list"
  td_terms :: "term_row list"
  td_teachers :: "(ident \<times> ident) list"
  td_closed :: "ident list"

text \<open>\<open>td_teachers\<close> pairs a teacher's id with the school; \<open>td_closed\<close> lists the deactivated schools.\<close>

definition find_transfer :: "ident \<Rightarrow> transfer_db \<Rightarrow> transfer_row option" where
  "find_transfer i db = find (\<lambda>t. tf_id t = i) (td_transfers db)"

definition find_by_tac :: "string \<Rightarrow> transfer_db \<Rightarrow> transfer_row option" where
  "find_by_tac tac db = find (\<lambda>t. tf_tac t = Some tac) (td_transfers db)"

definition update_transfer :: "ident \<Rightarrow> (transfer_row \<Rightarrow> transfer_row) \<Rightarrow> transfer_db \<Rightarrow> transfer_db" where
  "update_transfer i f db = db\<lparr>td_transfers := update_first (\<lambda>t. tf_id t = i) f (td_transfers db)\<rparr>"

section \<open>Transfer access codes\<close>

definition hex_digit :: "nat \<Rightarrow> char" where
  "hex_digit n = (if n < 10 then char_of (48 + n) else char_of (55 + n))"

definition hex_upper :: "nat list \<Rightarrow> string" where
  "hex_upper bytes = concat (map (\<lambda>b. [hex_digit (b div 16 mod 16), hex_digit (b mod 16)]) bytes)"

definition tac_of_bytes :: "nat list \<times> nat list \<Rightarrow> string" where
  "tac_of_bytes = (\<lambda>(a, b). ''TAC-'' @ take 8 (hex_upper a) @ ''-'' @ take 4 (hex_upper b))"

text \<open>The retry loop: at most \<open>n\<close> attempts, the first code that no transfer has.\<close>

fun try_tac :: "(nat \<Rightarrow> nat list \<times> nat list) \<Rightarrow> transfer_db \<Rightarrow> nat \<Rightarrow> nat \<Rightarrow> string option" where
  "try_tac bytes db i 0 = None"
| "try_tac bytes db i (Suc n) =
     (if find_by_tac (tac_of_bytes (bytes i)) db = None then Some (tac_of_bytes (bytes i))
      else try_tac bytes db (Suc i) n)"

definition generate_unique_tac :: "(nat \<Rightarrow> nat list \<times> nat list) \<Rightarrow> transfer_db \<Rightarrow> http_error + string" where
  "generate_unique_tac bytes db =
     (case try_tac bytes db 0 10 of
        None \<Rightarrow> Inl (BadRequest ''Failed to generate unique TAC. Please try again.'')
      | Some t \<Rightarrow> Inr t)"

record tac_response =
  rs_transfer :: ident
  rs_tac :: string
  rs_expires :: "date option"
  rs_message :: string

definition has_active_enrolment :: "ident \<Rightarrow> ident \<Rightarrow> transfer_db \<Rightarrow> bool" where
  "has_active_enrolment student school db =
     list_ex (\<lambda>e. em_student e = student \<and> em_school e = school \<and> em_active e) (td_enrolments db)"

definition active_tac_row :: "date \<Rightarrow> ident \<Rightarrow> ident \<Rightarrow> transfer_row \<Rightarrow> bool" where
  "active_tac_row now student school t =
     (tf_student t = student \<and> tf_from t = school \<and>
      (tf_status t = TR_PENDING \<or> tf_status t = TR_APPROVED) \<and> tf_tac t \<noteq> None \<and>
      ((case tf_expires t of None \<Rightarrow> False | Some e \<Rightarrow> now < e) \<or> tf_used_at t = None))"

definition new_transfer :: "ident \<Rightarrow> ident \<Rightarrow> ident \<Rightarrow> transfer_kind \<Rightarrow> string \<Rightarrow> date \<Rightarrow> date option \<Rightarrow> transfer_row" where
  "new_transfer new_id student school kind tac now expires =
     \<lparr>tf_id = new_id, tf_student = student, tf_from = school, tf_to = None, tf_status = TR_PENDING,
      tf_kind = kind, tf_tac = Some tac, tf_generated = Some now, tf_expires = expires,
      tf_used_at = None, tf_used_by = None, tf_reason = None, tf_requested_by = None,
      tf_approved_at = None, tf_rejected_at = None, tf_rejection = None, tf_completed_at = None,
      tf_created = now\<rparr>"

text \<open>
  \<open>transfer.create\<close>: the primary key and the unique index on \<open>tac\<close>
  (\<open>prisma/schema\<close>) make the database refuse a taken id or a taken code.
\<close>

definition unique_violation :: http_error where
  "unique_violation = JsError ''Unique constraint failed''"

definition insert_transfer :: "transfer_row \<Rightarrow> transfer_db \<Rightarrow> http_error + transfer_db" where
  "insert_transfer t db =
     (if find_transfer (tf_id t) db \<noteq> None \<or>
         (case tf_tac t of None \<Rightarrow> False | Some tac \<Rightarrow> find_by_tac tac db \<noteq> None) then
        Inl unique_violation
      else Inr (db\<lparr>td_transfers := td_transfers db @ [t]\<rparr>))"

definition share_message :: string where
  "share_message = ''Share this TAC with the receiving school''"

text \<open>The tail of \<open>generateTac\<close>: a new code and its row, expiring after the policy's days.\<close>

definition create_tac ::
  "admission_policy \<Rightarrow> date \<Rightarrow> (nat \<Rightarrow> nat list \<times> nat list) \<Rightarrow> ident \<Rightarrow> ident \<Rightarrow> ident \<Rightarrow> ident
    \<Rightarrow> string option \<Rightarrow> transfer_db \<Rightarrow> (http_error + tac_response) \<times> transfer_db" where
  "create_tac policy now bytes new_id school user student reason db =
     (case generate_unique_tac bytes db of
        Inl e \<Rightarrow> (Inl e, db)
      | Inr tac \<Rightarrow>
          let expires = plus_days now (nullish (ap_expiry_days policy) 30);
              row = (new_transfer new_id student school KIND_NORMAL tac now (Some expires))
                \<lparr>tf_reason := reason, tf_requested_by := Some user\<rparr>
          in (case insert_transfer row db of
                Inl e \<Rightarrow> (Inl e, db)
              | Inr db' \<Rightarrow> (Inr \<lparr>rs_transfer = new_id, rs_tac = tac, rs_expires = Some expires,
                  rs_message = share_message\<rparr>, db')))"

definition generate_tac ::
  "admission_policy \<Rightarrow> date \<Rightarrow> (nat \<Rightarrow> nat list \<times> nat list) \<Rightarrow> ident \<Rightarrow> ident \<Rightarrow> ident \<Rightarrow> ident
    \<Rightarrow> string option \<Rightarrow> transfer_db \<Rightarrow> (http_error + tac_response) \<times> transfer_db" where
  "generate_tac policy now bytes new_id school user student reason db =
     (if ap_transfer policy = TRANSFERS_DISABLED then
        (Inl (BadRequest ''Transfers are disabled for this school.''), db)
      else if find (\<lambda>s. su_id s = student) (td_students db) = None
           \<or> \<not> has_active_enrolment student school db then
        (Inl (NotFound ''Student not found or not enrolled in this school''), db)
      else case find (active_tac_row now student school) (td_transfers db) of
        Some t \<Rightarrow>
          if truthy (tf_tac t) \<and> tf_used_at t = None then
            (Inr \<lparr>rs_transfer = tf_id t, rs_tac = the (tf_tac t), rs_expires = tf_expires t,
               rs_message = (if tf_kind t = KIND_SCHOOL_CLOSURE
                 then ''This transfer code does not expire'' else share_message)\<rparr>, db)
          else create_tac policy now bytes new_id school user student reason db
      | None \<Rightarrow> create_tac policy now bytes new_id school user student reason db)"

section \<open>Codes of a closing school\<close>

definition closure_row :: "ident \<Rightarrow> ident \<Rightarrow> transfer_row \<Rightarrow> bool" where
  "closure_row student school t =
     (tf_student t = student \<and> tf_from t = school \<and> tf_kind t = KIND_SCHOOL_CLOSURE \<and>
      tf_used_at t = None \<and> (tf_status t = TR_PENDING \<or> tf_status t = TR_APPROVED))"

definition ensure_closure_tac ::
  "date \<Rightarrow> (nat \<Rightarrow> nat list \<times> nat list) \<Rightarrow> ident \<Rightarrow> ident \<Rightarrow> ident \<Rightarrow> transfer_db
    \<Rightarrow> (http_error + transfer_row) \<times> transfer_db" where
  "ensure_closure_tac now bytes new_id student school db =
     (case sort_key (\<lambda>t. - tf_created t) (filter (closure_row student school) (td_transfers db)) of
        t # _ \<Rightarrow> (Inr t, db)
      | [] \<Rightarrow>
          (case generate_unique_tac bytes db of
             Inl e \<Rightarrow> (Inl e, db)
           | Inr tac \<Rightarrow>
               let row = new_transfer new_id student school KIND_SCHOOL_CLOSURE tac now None
               in (case insert_transfer row db of
                     Inl e \<Rightarrow> (Inl e, db)
                   | Inr db' \<Rightarrow> (Inr row, db'))))"

definition ensure_closure_tac_for_student ::
  "date \<Rightarrow> (nat \<Rightarrow> nat list \<times> nat list) \<Rightarrow> ident \<Rightarrow> ident \<Rightarrow> ident \<Rightarrow> transfer_db
    \<Rightarrow> (http_error + transfer_row) \<times> transfer_db" where
  "ensure_closure_tac_for_student now bytes new_id student school db =
     (if school \<notin> set (td_closed db) then
        (Inl (BadRequest ''Closure transfer codes are only available after a school is deactivated.''), db)
      else if \<not> has_active_enrolment student school db then
        (Inl (NotFound ''No active enrollment at this school.''), db)
      else ensure_closure_tac now bytes new_id student school db)"

text \<open>A failure for one student is logged and the loop goes on.\<close>

definition issue_closure_tacs_for_school ::
  "date \<Rightarrow> (ident \<Rightarrow> nat \<Rightarrow> nat list \<times> nat list) \<Rightarrow> (ident \<Rightarrow> ident) \<Rightarrow> ident \<Rightarrow> transfer_db \<Rightarrow> transfer_db" where
  "issue_closure_tacs_for_school now bytes new_id school db =
     fold (\<lambda>e d. snd (ensure_closure_tac now (bytes (em_id e)) (new_id (em_id e)) (em_student e) school d))
       (filter (\<lambda>e. em_school e = school \<and> em_active e) (td_enrolments db)) db"

section \<open>Student data by code\<close>

definition get_letter_grade :: "rat \<Rightarrow> string" where
  "get_letter_grade p =
     (if 70 \<le> p then ''A'' else if 60 \<le> p then ''B'' else if 50 \<le> p then ''C''
      else if 40 \<le> p then ''D'' else ''F'')"

record grade_view =
  gv_id :: ident
  gv_subject :: string
  gv_type :: "string option"
  gv_assessment :: "string option"
  gv_sequence :: "int option"
  gv_date :: "date option"
  gv_score :: rat
  gv_max :: rat
  gv_letter :: string
  gv_term :: "string option"
  gv_year :: "string option"
  gv_remarks :: "string option"
  gv_signed :: "date option"
  gv_created :: date

definition grade_view_of :: "grade_row \<Rightarrow> grade_view" where
  "grade_view_of g =
     (let percentage = (if 0 < gw_max g then gw_score g / gw_max g * 100 else 0)
      in \<lparr>gv_id = gw_id g, gv_subject = nullish (or_undefined (gw_subject g)) ''N/A'',
          gv_type = gw_type g, gv_assessment = gw_assessment g, gv_sequence = gw_sequence g,
          gv_date = gw_date g, gv_score = gw_score g, gv_max = gw_max g,
          gv_letter = get_letter_grade percentage, gv_term = gw_term g, gv_year = gw_year g,
          gv_remarks = gw_remarks g, gv_signed = gw_signed g, gv_created = gw_created g\<rparr>)"

text \<open>\<open>orderBy: [academicYear desc, term desc, createdAt desc]\<close>; a null sorts first.\<close>

definition grade_order :: "grade_row list \<Rightarrow> grade_row list" where
  "grade_order gs =
     rev (sort_key (\<lambda>g. (gw_year g = None, nullish (gw_year g) []))
       (sort_key (\<lambda>g. (gw_term g = None, nullish (gw_term g) []))
         (sort_key gw_created (rev gs))))"

definition grades_of :: "ident \<Rightarrow> transfer_db \<Rightarrow> grade_row list" where
  "grades_of eid db = grade_order (filter (\<lambda>g. gw_enrolment g = eid) (td_grades db))"

record transfer_data =
  dt_student :: student_row
  dt_active :: enrolment
  dt_enrolments :: "(enrolment \<times> grade_view list) list"
  dt_grades :: "grade_view list"
  dt_from :: ident

definition get_student_data_by_tac :: "string \<Rightarrow> ident \<Rightarrow> transfer_db \<Rightarrow> http_error + transfer_data" where
  "get_student_data_by_tac tac student db =
     (case find_by_tac tac db of
        None \<Rightarrow> Inl (NotFound ''Invalid TAC'')
      | Some t \<Rightarrow>
          if tf_student t \<noteq> student then Inl (BadRequest ''Student ID does not match TAC'')
          else case find (\<lambda>s. su_id s = student) (td_students db) of
            None \<Rightarrow> Inl (NotFound ''Student not found'')
          | Some s \<Rightarrow>
              (case sort_key (\<lambda>e. - em_date e) (filter (\<lambda>e. em_student e = student \<and>
                     em_school e = tf_from t) (td_enrolments db)) of
                 [] \<Rightarrow> Inl (NotFound ''Student has no enrollment in source school'')
               | e # es \<Rightarrow>
                   let active = (case find em_active (e # es) of Some a \<Rightarrow> a | None \<Rightarrow> e)
                   in Inr \<lparr>dt_student = s, dt_active = active,
                        dt_enrolments = map (\<lambda>e. (e, map grade_view_of (grades_of (em_id e) db))) (e # es),
                        dt_grades = map grade_view_of (grades_of (em_id active) db),
                        dt_from = tf_from t\<rparr>))"

section \<open>Completion\<close>

record complete_dto =
  cd_level :: string
  cd_year :: string
  cd_class :: "ident option"
  cd_arm :: "ident option"

text \<open>The class level, class and class arm of the new enrollment.\<close>

definition resolve_class ::
  "ident \<Rightarrow> complete_dto \<Rightarrow> transfer_db \<Rightarrow> http_error + string \<times> ident option \<times> ident option" where
  "resolve_class school dto db =
     (if truthy (cd_arm dto) then
        (case find (\<lambda>a. Some (ar_id a) = cd_arm dto) (td_arms db) of
           None \<Rightarrow> Inl (BadRequest ''ClassArm not found or does not belong to destination school'')
         | Some a \<Rightarrow>
             if ar_school a \<noteq> school then
               Inl (BadRequest ''ClassArm not found or does not belong to destination school'')
             else
               let current = int (count_where (\<lambda>e. em_arm e = Some (ar_id a) \<and> em_active e \<and>
                     em_year e = cd_year dto) (td_enrolments db))
               in (case ar_capacity a of
                     None \<Rightarrow> Inr (ar_level a, None, Some (ar_id a))
                   | Some c \<Rightarrow>
                       if c \<le> current then
                         Inl (BadRequest (''ClassArm '' @ [CHR 0x22] @ ar_name a @ [CHR 0x22] @ '' is at full capacity (''
                           @ show_int c @ '' students)''))
                       else Inr (ar_level a, None, Some (ar_id a))))
      else
        Inr (cd_level dto,
          map_option cl_id (find (\<lambda>c. cl_school c = school \<and>
            (cl_name c = cd_level dto \<or> cl_level c = cd_level dto) \<and> cl_active c) (td_classes db)), None))"

definition active_term :: "ident \<Rightarrow> transfer_db \<Rightarrow> ident option" where
  "active_term school db =
     (case sort_key (\<lambda>t. - tm_number t) (filter (\<lambda>t. tm_school t = school \<and> tm_active t \<and>
         tm_session_active t) (td_terms db)) of
        [] \<Rightarrow> None | t # _ \<Rightarrow> Some (tm_id t))"

definition copy_grade :: "ident \<Rightarrow> ident \<Rightarrow> ident \<Rightarrow> grade_view \<Rightarrow> grade_row" where
  "copy_grade new_id enrolment teacher g =
     \<lparr>gw_id = new_id, gw_enrolment = enrolment, gw_teacher = teacher, gw_subject = Some (gv_subject g),
      gw_type = Some (nullish (or_undefined (gv_type g)) ''CA''), gw_assessment = gv_assessment g,
      gw_sequence = gv_sequence g, gw_date = gv_date g, gw_score = gv_score g, gw_max = gv_max g,
      gw_term = gv_term g, gw_year = gv_year g, gw_remarks = gv_remarks g, gw_signed = gv_signed g,
      gw_created = gv_created g\<rparr>"

definition merge_health :: "health_info \<Rightarrow> health_info \<Rightarrow> health_info" where
  "merge_health cur new =
     \<lparr>hi_blood = or_else (hi_blood new) (hi_blood cur),
      hi_allergies = or_else (hi_allergies new) (hi_allergies cur),
      hi_medications = or_else (hi_medications new) (hi_medications cur),
      hi_contact = or_else (hi_contact new) (hi_contact cur),
      hi_contact_phone = or_else (hi_contact_phone new) (hi_contact_phone cur),
      hi_notes = or_else (hi_notes new) (hi_notes cur)\<rparr>"

definition has_health :: "health_info \<Rightarrow> bool" where
  "has_health h = (truthy (hi_blood h) \<or> truthy (hi_allergies h) \<or> truthy (hi_medications h) \<or>
     truthy (hi_contact h) \<or> truthy (hi_contact_phone h) \<or> truthy (hi_notes h))"

definition deactivate_enrolment :: "date \<Rightarrow> enrolment \<Rightarrow> enrolment" where
  "deactivate_enrolment now e = e\<lparr>em_active := False, em_updated := now\<rparr>"

text \<open>The transaction: enrollment, grades, health record, source enrollment, transfer row.\<close>

definition migrate ::
  "date \<Rightarrow> ident \<Rightarrow> (nat \<Rightarrow> ident) \<Rightarrow> ident \<Rightarrow> ident \<Rightarrow> complete_dto \<Rightarrow> string \<times> ident option \<times> ident option
    \<Rightarrow> ident \<Rightarrow> transfer_data \<Rightarrow> transfer_db \<Rightarrow> http_error + transfer_db" where
  "migrate now new_id new_grade_id school tid dto place teacher dat db =
     (let (level, class_id, arm_id) = place;
          enrolment = \<lparr>em_id = new_id, em_student = su_id (dt_student dat), em_school = school,
            em_class = or_else class_id (or_undefined (cd_class dto)), em_arm = arm_id,
            em_level = level, em_year = cd_year dto, em_date = now, em_active = True,
            em_term = active_term school db, em_updated = now\<rparr>;
          grades = map (\<lambda>(i, g). copy_grade (new_grade_id i) new_id teacher g)
            (List.enumerate 0 (dt_grades dat));
          enrolments = update_first (\<lambda>e. em_id e = em_id (dt_active dat)) (deactivate_enrolment now)
            (td_enrolments db @ [enrolment]);
          students = (if has_health (su_health (dt_student dat))
            then update_first (\<lambda>s. su_id s = su_id (dt_student dat))
              (\<lambda>s. s\<lparr>su_health := merge_health (su_health s) (su_health (dt_student dat))\<rparr>) (td_students db)
            else td_students db)
      in if map_option em_active (find (\<lambda>e. em_id e = new_id) enrolments) \<noteq> Some True then
           Inl (BadRequest ''Transfer could not create an active enrollment.'')
         else
           Inr (update_transfer tid (\<lambda>t. t\<lparr>tf_status := TR_COMPLETED, tf_completed_at := Some now,
                  tf_used_at := Some now, tf_used_by := Some school\<rparr>)
             (db\<lparr>td_enrolments := enrolments, td_grades := td_grades db @ grades,
                 td_students := students\<rparr>)))"

definition complete_transfer ::
  "date \<Rightarrow> ident \<Rightarrow> (nat \<Rightarrow> ident) \<Rightarrow> ident \<Rightarrow> ident \<Rightarrow> complete_dto \<Rightarrow> transfer_db
    \<Rightarrow> (http_error + ident) \<times> transfer_db" where
  "complete_transfer now new_id new_grade_id school tid dto db =
     (case find_transfer tid db of
        None \<Rightarrow> (Inl (NotFound ''Transfer not found''), db)
      | Some t \<Rightarrow>
          if tf_to t \<noteq> Some school then
            (Inl (Forbidden ''You can only complete transfers to your school''), db)
          else if tf_status t = TR_COMPLETED then
            (Inl (Conflict ''Transfer has already been completed''), db)
          else if tf_status t = TR_REJECTED then
            (Inl (BadRequest ''Cannot complete a rejected transfer''), db)
          else if \<not> truthy (tf_tac t) \<or> tf_student t = [] then
            (Inl (BadRequest ''Transfer TAC or student ID is missing''), db)
          else case get_student_data_by_tac (the (tf_tac t)) (tf_student t) db of
            Inl e \<Rightarrow> (Inl e, db)
          | Inr dat \<Rightarrow>
              (case resolve_class school dto db of
                 Inl e \<Rightarrow> (Inl e, db)
               | Inr place \<Rightarrow>
                   (case find (\<lambda>(i, s). s = school) (td_teachers db) of
                      None \<Rightarrow>
                        (Inl (BadRequest ''No teacher found in destination school. Cannot transfer grades.''), db)
                    | Some (teacher, _) \<Rightarrow>
                        (case migrate now new_id new_grade_id school tid dto place teacher dat db of
                           Inl e \<Rightarrow> (Inl e, db)
                         | Inr db' \<Rightarrow> (Inr new_id, db')))))"

section \<open>Initiation by the receiving school\<close>

text \<open>The checks on the presented code, in the order of the service.\<close>

definition check_tac :: "date \<Rightarrow> ident \<Rightarrow> ident \<Rightarrow> transfer_row \<Rightarrow> http_error + unit" where
  "check_tac now school student t =
     (if tf_used_at t \<noteq> None then Inl (Conflict ''This TAC has already been used'')
      else if tf_to t \<noteq> None \<and> tf_to t \<noteq> Some school \<and> tf_status t = TR_COMPLETED then
        Inl (Conflict ''This TAC has already been used'')
      else if (case tf_expires t of None \<Rightarrow> False | Some e \<Rightarrow> e < now) then
        Inl (BadRequest ''This TAC has expired. Please request a new one from the source school.'')
      else if tf_student t \<noteq> student then Inl (BadRequest ''Student ID does not match the TAC.'')
      else if tf_from t = school then Inl (BadRequest ''Cannot transfer within the same school.'')
      else if \<not> truthy (tf_tac t) \<or> tf_student t = [] then
        Inl (BadRequest ''Transfer TAC or student ID is missing'')
      else Inr ())"

definition initiate_transfer ::
  "admission_policy \<Rightarrow> date \<Rightarrow> ident \<Rightarrow> (nat \<Rightarrow> ident) \<Rightarrow> ident \<Rightarrow> string \<Rightarrow> ident \<Rightarrow> transfer_db
    \<Rightarrow> (http_error + ident \<times> string) \<times> transfer_db" where
  "initiate_transfer policy now new_id new_grade_id school tac student db =
     (if ap_transfer policy = TRANSFERS_DISABLED then
        (Inl (BadRequest ''This school is not accepting incoming transfers.''), db)
      else case find_by_tac tac db of
        None \<Rightarrow> (Inl (NotFound ''Invalid TAC. Please verify the code and try again.''), db)
      | Some t \<Rightarrow>
          (case check_tac now school student t of
             Inl e \<Rightarrow> (Inl e, db)
           | Inr _ \<Rightarrow>
               (case get_student_data_by_tac (the (tf_tac t)) (tf_student t) db of
                  Inl e \<Rightarrow> (Inl e, db)
                | Inr dat \<Rightarrow>
                    let db' = update_transfer (tf_id t) (\<lambda>t. t\<lparr>tf_to := Some school,
                          tf_status := TR_APPROVED, tf_approved_at := Some now\<rparr>) db
                    in if ap_transfer policy = AUTO_ACCEPT then
                         (if em_level (dt_active dat) \<noteq> [] \<and> em_year (dt_active dat) \<noteq> [] then
                            (case complete_transfer now new_id new_grade_id school (tf_id t)
                                \<lparr>cd_level = em_level (dt_active dat), cd_year = em_year (dt_active dat),
                                 cd_class = None, cd_arm = None\<rparr> db' of
                               (Inl e, db'') \<Rightarrow> (Inl e, db'')
                             | (Inr _, db'') \<Rightarrow> (Inr (tf_id t, ''Transfer auto-accepted and completed''), db''))
                          else (Inr (tf_id t, ''Transfer auto-accepted. Assign a class to complete enrollment.''), db'))
                       else (Inr (tf_id t, ''Review student data and complete transfer''), db'))))"

section \<open>Rejection and revocation\<close>

definition reject_transfer ::
  "date \<Rightarrow> ident \<Rightarrow> ident \<Rightarrow> string \<Rightarrow> transfer_db \<Rightarrow> (http_error + string) \<times> transfer_db" where
  "reject_transfer now school tid reason db =
     (case find_transfer tid db of
        None \<Rightarrow> (Inl (NotFound ''Transfer not found''), db)
      | Some t \<Rightarrow>
          if tf_to t \<noteq> Some school then
            (Inl (Forbidden ''You can only reject transfers to your school''), db)
          else if tf_status t = TR_COMPLETED then
            (Inl (Conflict ''Cannot reject a completed transfer''), db)
          else if tf_kind t = KIND_SCHOOL_CLOSURE then
            (Inr ''Incoming transfer released. The student can use this code at another school.'',
             update_transfer tid (\<lambda>t. t\<lparr>tf_status := TR_PENDING, tf_to := None, tf_approved_at := None,
               tf_rejected_at := None, tf_rejection := None\<rparr>) db)
          else
            (Inr ''Transfer rejected successfully'',
             update_transfer tid (\<lambda>t. t\<lparr>tf_status := TR_REJECTED, tf_rejected_at := Some now,
               tf_rejection := Some reason\<rparr>) db))"

definition revoke_tac :: "ident \<Rightarrow> ident \<Rightarrow> transfer_db \<Rightarrow> (http_error + string) \<times> transfer_db" where
  "revoke_tac school tid db =
     (case find_transfer tid db of
        None \<Rightarrow> (Inl (NotFound ''Transfer not found''), db)
      | Some t \<Rightarrow>
          if tf_from t \<noteq> school then (Inl (Forbidden ''You can only revoke TACs from your school''), db)
          else if tf_used_at t \<noteq> None then
            (Inl (Conflict ''Cannot revoke a TAC that has already been used''), db)
          else
            (Inr ''TAC revoked successfully'',
             update_transfer tid (\<lambda>t. t\<lparr>tf_tac := None, tf_generated := None, tf_expires := None,
               tf_status := TR_CANCELLED\<rparr>) db))"

section \<open>Listings\<close>

definition get_transfer_historical_grades ::
  "ident \<Rightarrow> ident \<Rightarrow> transfer_db \<Rightarrow> http_error + (enrolment \<times> grade_view list) list" where
  "get_transfer_historical_grades school tid db =
     (case find_transfer tid db of
        None \<Rightarrow> Inl (NotFound ''Transfer not found'')
      | Some t \<Rightarrow>
          if tf_from t \<noteq> school then
            Inl (Forbidden ''You can only view historical grades for transfers from your school'')
          else if tf_status t \<noteq> TR_COMPLETED then
            Inl (BadRequest ''Historical grades are only available for completed transfers'')
          else
            Inr (map (\<lambda>e. (e, map grade_view_of (grades_of (em_id e) db)))
              (sort_key (\<lambda>e. - em_date e) (filter (\<lambda>e. em_student e = tf_student t \<and> em_school e = school)
                (td_enrolments db)))))"

record page_meta =
  mt_total :: int
  mt_page :: int
  mt_total_pages :: int
  mt_has_next :: bool
  mt_has_prev :: bool

definition ceil_div :: "int \<Rightarrow> int \<Rightarrow> int" where
  "ceil_div a b = - ((- a) div b)"

definition page_info :: "int \<Rightarrow> nat \<Rightarrow> nat \<Rightarrow> page_meta" where
  "page_info n_rows page limit =
     \<lparr>mt_total = n_rows, mt_page = int page, mt_total_pages = ceil_div n_rows (int limit),
      mt_has_next = (int page * int limit < n_rows), mt_has_prev = (1 < page)\<rparr>"

definition by_created :: "transfer_row list \<Rightarrow> transfer_row list" where
  "by_created = sort_key (\<lambda>t. - tf_created t)"

text \<open>The active enrollments the query includes for a student, narrowed to the school type.\<close>

definition typed_enrolments :: "ident \<Rightarrow> string option \<Rightarrow> transfer_db \<Rightarrow> transfer_row \<Rightarrow> enrolment list" where
  "typed_enrolments school school_type db t =
     (let classes = filter (\<lambda>c. cl_school c = school \<and> Some (cl_type c) = school_type \<and> cl_active c) (td_classes db)
      in filter (\<lambda>e. em_student e = tf_student t \<and> em_school e = school \<and> em_active e \<and>
           (if truthy school_type \<and> classes \<noteq> [] then
              (\<exists>c \<in> set classes. em_class e = Some (cl_id c) \<or> em_level e = cl_name c) else True))
           (td_enrolments db))"

definition get_outgoing_transfers ::
  "ident \<Rightarrow> transfer_status option \<Rightarrow> nat \<Rightarrow> nat \<Rightarrow> string option \<Rightarrow> transfer_db
    \<Rightarrow> transfer_row list \<times> page_meta" where
  "get_outgoing_transfers school status page limit school_type db =
     (let rows = filter (\<lambda>t. tf_from t = school \<and> (status = None \<or> Some (tf_status t) = status)) (td_transfers db);
          transfers = take limit (drop ((page - 1) * limit) (by_created rows));
          filtered = (if truthy school_type
            then filter (\<lambda>t. typed_enrolments school school_type db t \<noteq> []) transfers else transfers)
      in (transfers, page_info (int (length rows)) page limit))"

definition get_incoming_transfers ::
  "ident \<Rightarrow> transfer_status option \<Rightarrow> nat \<Rightarrow> nat \<Rightarrow> string option \<Rightarrow> transfer_db
    \<Rightarrow> transfer_row list \<times> page_meta" where
  "get_incoming_transfers school status page limit school_type db =
     (let skip = (page - 1) * limit;
          rows = filter (\<lambda>t. tf_to t = Some school \<and> (status = None \<or> Some (tf_status t) = status)) (td_transfers db);
          transfers = take (limit * 2) (drop skip (by_created rows));
          filtered = (if truthy school_type
            then filter (\<lambda>t. typed_enrolments school school_type db t \<noteq> []) transfers else transfers)
      in (take limit (drop skip filtered), page_info (int (length filtered)) page limit))"

record accepted_item =
  ac_transfer :: ident
  ac_completed :: "date option"
  ac_student :: ident
  ac_from :: ident
  ac_target :: "enrolment option"
  ac_source :: "enrolment option"
  ac_grade_count :: int
  ac_average :: "int option"

definition average_percentage :: "grade_row list \<Rightarrow> int option" where
  "average_percentage gs =
     (let sum_score = sum_list (map gw_score gs); total_max = sum_list (map gw_max gs)
      in if 0 < total_max then Some \<lfloor>sum_score / total_max * 100 + 1 / 2\<rfloor> else None)"

text \<open>
  The target enrollment of a student is the last active one in table order (\<open>new Map\<close>), the
  source one the most recently updated inactive one at the source school. Names and other
  columns of the student and the schools are left out of an item.
\<close>

definition get_recently_accepted_transfers ::
  "ident \<Rightarrow> nat \<Rightarrow> nat \<Rightarrow> transfer_db \<Rightarrow> accepted_item list \<times> page_meta" where
  "get_recently_accepted_transfers school page limit db =
     (let rows = filter (\<lambda>t. tf_to t = Some school \<and> tf_status t = TR_COMPLETED \<and> tf_completed_at t \<noteq> None)
            (td_transfers db);
          transfers = take limit (drop ((page - 1) * limit)
            (sort_key (\<lambda>t. - nullish (tf_completed_at t) 0) rows));
          target = (\<lambda>t. find (\<lambda>e. em_student e = tf_student t \<and> em_school e = school \<and> em_active e)
            (rev (td_enrolments db)));
          source = (\<lambda>t. find (\<lambda>e. em_student e = tf_student t \<and> em_school e = tf_from t)
            (sort_key (\<lambda>e. - em_updated e) (filter (\<lambda>e. \<not> em_active e) (td_enrolments db))))
      in if transfers = [] then
           ([], \<lparr>mt_total = 0, mt_page = int page, mt_total_pages = 0, mt_has_next = False, mt_has_prev = False\<rparr>)
         else
           (map (\<lambda>t. let gs = (case target t of None \<Rightarrow> []
                   | Some e \<Rightarrow> filter (\<lambda>g. gw_enrolment g = em_id e) (td_grades db))
               in \<lparr>ac_transfer = tf_id t, ac_completed = tf_completed_at t, ac_student = tf_student t,
                   ac_from = tf_from t, ac_target = target t, ac_source = source t,
                   ac_grade_count = int (length gs), ac_average = average_percentage gs\<rparr>) transfers,
            page_info (int (length rows)) page limit))"

end
