(* ===== verification/TransferFacts.thy ===== *)
theory TransferFacts
  imports Transfers
begin

text \<open>
  Correctness of the transfer service. \<open>transfer_row_ok\<close> says what each status promises,
  \<open>transfers_ok\<close> that ids and codes are unique and every row keeps its promise; both are
  carried to every run of the service by an interpretation of \<open>step_system\<close>. The rest is the
  functional behaviour of code generation and completion, and three behaviours of the code
  that its texts do not announce.
\<close>

section \<open>The invariant of a transfer row\<close>

definition transfer_row_ok :: "transfer_row \<Rightarrow> bool" where
  "transfer_row_ok t =
     (tf_to t \<noteq> Some (tf_from t) \<and>
      (case tf_status t of
         TR_PENDING \<Rightarrow> tf_to t = None \<and> tf_used_at t = None \<and> (tf_kind t = KIND_NORMAL \<longrightarrow> tf_tac t \<noteq> None)
       | TR_APPROVED \<Rightarrow> tf_to t \<noteq> None \<and> tf_used_at t = None \<and> tf_tac t \<noteq> None
       | TR_REJECTED \<Rightarrow> tf_to t \<noteq> None \<and> tf_used_at t = None
       | TR_CANCELLED \<Rightarrow> tf_used_at t = None \<and> tf_tac t = None
       | TR_COMPLETED \<Rightarrow> tf_to t \<noteq> None \<and> tf_used_at t \<noteq> None \<and> tf_used_by t = tf_to t \<and>
           tf_tac t \<noteq> None \<and> tf_completed_at t \<noteq> None))"

definition codes :: "transfer_row list \<Rightarrow> string option list" where
  "codes rows = filter (\<lambda>c. c \<noteq> None) (map tf_tac rows)"

definition transfers_ok :: "transfer_db \<Rightarrow> bool" where
  "transfers_ok db =
     (distinct (map tf_id (td_transfers db)) \<and> distinct (codes (td_transfers db)) \<and>
      list_all transfer_row_ok (td_transfers db))"

lemma completed_iff_used:
  "transfer_row_ok t \<Longrightarrow> (tf_status t = TR_COMPLETED) = (tf_used_at t \<noteq> None)"
  by (auto simp: transfer_row_ok_def split: transfer_status.splits)

lemma used_row_ok: "transfer_row_ok t \<Longrightarrow> tf_used_at t = None \<Longrightarrow> tf_status t \<noteq> TR_COMPLETED"
  using completed_iff_used by blast

lemma transfers_ok_row: "transfers_ok db \<Longrightarrow> t \<in> set (td_transfers db) \<Longrightarrow> transfer_row_ok t"
  by (simp add: transfers_ok_def list_all_iff)

lemma find_distinct_key:
  "distinct (map g rows) \<Longrightarrow> t \<in> set rows \<Longrightarrow> find (\<lambda>r. g r = g t) rows = Some t"
  by (induction rows) force+

lemma find_transfer_self:
  "transfers_ok db \<Longrightarrow> t \<in> set (td_transfers db) \<Longrightarrow> find_transfer (tf_id t) db = Some t"
  unfolding find_transfer_def transfers_ok_def by (blast intro: find_distinct_key)

lemma find_transfer_in: "find_transfer i db = Some t \<Longrightarrow> t \<in> set (td_transfers db) \<and> tf_id t = i"
  by (auto simp: find_transfer_def dest: find_Some_in)

lemma find_by_tac_in:
  "find_by_tac tac db = Some t \<Longrightarrow> t \<in> set (td_transfers db) \<and> tf_tac t = Some tac"
  by (auto simp: find_by_tac_def dest: find_Some_in)

lemma codes_simps [simp]:
  "codes [] = []"
  "codes (t # rows) = (if tf_tac t = None then codes rows else tf_tac t # codes rows)"
  "codes (xs @ ys) = codes xs @ codes ys"
  by (simp_all add: codes_def)

lemma set_codes: "set (codes rows) = {c \<in> tf_tac ` set rows. c \<noteq> None}"
  by (auto simp: codes_def)

lemma find_by_tac_self:
  assumes "transfers_ok db" "t \<in> set (td_transfers db)" "tf_tac t = Some tac"
  shows "find_by_tac tac db = Some t"
proof -
  have "distinct (codes rows) \<Longrightarrow> t \<in> set rows \<Longrightarrow> find (\<lambda>r. tf_tac r = Some tac) rows = Some t" for rows
  proof (induction rows)
    case (Cons r rows)
    show ?case
    proof (cases "r = t")
      case False
      then have "t \<in> set rows" using Cons.prems by simp
      moreover from this have "Some tac \<in> set (codes rows)" using assms(3) by (force simp: set_codes)
      ultimately show ?thesis using Cons by (auto split: if_splits)
    qed (simp add: assms(3))
  qed simp
  then show ?thesis using assms by (simp add: find_by_tac_def transfers_ok_def)
qed

section \<open>The three ways a step changes the table\<close>

lemma update_first_split:
  "find p rows = Some t \<Longrightarrow> \<exists>xs ys. rows = xs @ t # ys \<and> update_first p f rows = xs @ f t # ys"
proof (induction rows)
  case (Cons r rows)
  then show ?case by (cases "p r") (auto intro: exI[of _ "[]"], metis append_Cons)
qed simp

inductive transfer_move :: "transfer_db \<Rightarrow> transfer_db \<Rightarrow> bool" where
  same: "td_transfers db' = td_transfers db \<Longrightarrow> transfer_move db db'"
| insert: "insert_transfer t db = Inr db' \<Longrightarrow> transfer_row_ok t \<Longrightarrow> transfer_move db db'"
| update: "find_transfer i db = Some t \<Longrightarrow> tf_status t \<noteq> TR_COMPLETED \<Longrightarrow> transfer_row_ok (f t)
    \<Longrightarrow> tf_id (f t) = tf_id t \<Longrightarrow> tf_tac (f t) = tf_tac t \<or> tf_tac (f t) = None
    \<Longrightarrow> td_transfers db' = td_transfers (update_transfer i f db) \<Longrightarrow> transfer_move db db'"

lemma insert_transfer_Inr:
  "insert_transfer t db = Inr db' \<Longrightarrow> db' = db\<lparr>td_transfers := td_transfers db @ [t]\<rparr> \<and>
     tf_id t \<notin> tf_id ` set (td_transfers db) \<and>
     (tf_tac t \<noteq> None \<longrightarrow> tf_tac t \<notin> tf_tac ` set (td_transfers db))"
  by (auto simp: insert_transfer_def find_transfer_def find_by_tac_def find_None_all image_iff
      split: if_splits option.splits)

lemma move_ok:
  assumes "transfer_move db db'" "transfers_ok db"
  shows "transfers_ok db'"
  using assms
proof (induction rule: transfer_move.induct)
  case (same db' db)
  then show ?case by (simp add: transfers_ok_def)
next
  case (insert t db db')
  then show ?case
    using insert_transfer_Inr[OF insert.hyps(1)] by (auto simp: transfers_ok_def set_codes)
next
  case (update i db t f db')
  obtain xs ys where rows: "td_transfers db = xs @ t # ys"
    and upd: "update_first (\<lambda>t. tf_id t = i) f (td_transfers db) = xs @ f t # ys"
    using update_first_split[of "\<lambda>t. tf_id t = i"] update.hyps(1) unfolding find_transfer_def by blast
  then have "td_transfers db' = xs @ f t # ys"
    using update.hyps by (simp add: update_transfer_def)
  then show ?case using update.hyps update.prems rows
    by (auto simp: transfers_ok_def split: if_splits)
qed

lemma move_keeps_completed:
  assumes "transfer_move db db'" "t \<in> set (td_transfers db)" "tf_status t = TR_COMPLETED"
  shows "t \<in> set (td_transfers db')"
  using assms
proof (induction rule: transfer_move.induct)
  case (insert u db db')
  then show ?case using insert_transfer_Inr[OF insert.hyps(1)] by auto
next
  case (update i db u f db')
  obtain xs ys where rows: "td_transfers db = xs @ u # ys"
    and upd: "update_first (\<lambda>t. tf_id t = i) f (td_transfers db) = xs @ f u # ys"
    using update_first_split[of "\<lambda>t. tf_id t = i"] update.hyps(1) unfolding find_transfer_def by blast
  then show ?case using update.hyps update.prems by (auto simp: update_transfer_def)
qed simp

lemmas moves_induct = rtranclp_induct [of transfer_move, consumes 1, case_names start step]

lemma moves_ok: "transfer_move\<^sup>*\<^sup>* db db' \<Longrightarrow> transfers_ok db \<Longrightarrow> transfers_ok db'"
  by (induction rule: rtranclp_induct) (auto intro: move_ok)

lemma moves_keep_completed:
  "transfer_move\<^sup>*\<^sup>* db db' \<Longrightarrow> t \<in> set (td_transfers db) \<Longrightarrow> tf_status t = TR_COMPLETED
    \<Longrightarrow> t \<in> set (td_transfers db')"
  by (induction rule: rtranclp_induct) (auto intro: move_keeps_completed)

lemma no_move [simp, intro]: "transfer_move db db"
  by (rule transfer_move.same) simp

lemma update_move:
  "find_transfer i db = Some t \<Longrightarrow> tf_status t \<noteq> TR_COMPLETED \<Longrightarrow> transfer_row_ok (f t)
    \<Longrightarrow> tf_id (f t) = tf_id t \<Longrightarrow> tf_tac (f t) = tf_tac t \<or> tf_tac (f t) = None
    \<Longrightarrow> transfer_move db (update_transfer i f db)"
  by (rule transfer_move.update) auto

section \<open>Every operation makes moves\<close>

lemma new_transfer_ok: "tf_kind (new_transfer i s f k tac now ex) = k" "transfer_row_ok (new_transfer i s f k tac now ex)"
  by (simp_all add: new_transfer_def transfer_row_ok_def)

lemma generate_tac_moves: "transfer_move db (snd (generate_tac pol now bytes i school user student reason db))"
  by (auto simp: generate_tac_def create_tac_def Let_def new_transfer_def transfer_row_ok_def
      split: sum.splits option.splits intro!: transfer_move.insert)

lemma ensure_closure_moves: "transfer_move db (snd (ensure_closure_tac now bytes i student school db))"
  by (auto simp: ensure_closure_tac_def Let_def new_transfer_ok
      split: sum.splits list.splits intro!: transfer_move.insert)

lemma issue_closure_moves: "transfer_move\<^sup>*\<^sup>* db (issue_closure_tacs_for_school now bytes i school db)"
proof -
  have "transfer_move\<^sup>*\<^sup>* db (fold (\<lambda>e d. snd (ensure_closure_tac now (bytes (em_id e)) (i (em_id e))
    (em_student e) school d)) es db)" for es
    by (induction es arbitrary: db) (auto intro: converse_rtranclp_into_rtranclp ensure_closure_moves)
  then show ?thesis by (simp add: issue_closure_tacs_for_school_def)
qed

lemma reject_moves:
  assumes "transfers_ok db"
  shows "transfer_move db (snd (reject_transfer now school tid reason db))"
proof (cases "find_transfer tid db")
  case (Some t)
  have "transfer_row_ok t" using assms Some find_transfer_in transfers_ok_row by blast
  then show ?thesis using Some
    by (auto simp: reject_transfer_def transfer_row_ok_def split: transfer_status.splits
        intro!: update_move[OF Some])
qed (simp add: reject_transfer_def)

lemma revoke_moves:
  assumes "transfers_ok db"
  shows "transfer_move db (snd (revoke_tac school tid db))"
proof (cases "find_transfer tid db")
  case (Some t)
  have "transfer_row_ok t" using assms Some find_transfer_in transfers_ok_row by blast
  then show ?thesis using Some
    by (auto simp: revoke_tac_def transfer_row_ok_def split: transfer_status.splits
        intro!: update_move[OF Some])
qed (simp add: revoke_tac_def)

lemma migrate_Inr:
  assumes "migrate now nid gid school tid dto place teacher dat db = Inr db'"
  shows "td_transfers db' = td_transfers (update_transfer tid (\<lambda>t. t\<lparr>tf_status := TR_COMPLETED,
    tf_completed_at := Some now, tf_used_at := Some now, tf_used_by := Some school\<rparr>) db)"
  using assms by (auto simp: migrate_def Let_def update_transfer_def split: prod.splits if_splits)

lemma complete_transfer_Inr:
  assumes "complete_transfer now nid gid school tid dto db = (Inr e, db')"
  obtains t dat place teacher where
    "find_transfer tid db = Some t" "tf_to t = Some school" "tf_status t \<noteq> TR_COMPLETED"
    "tf_status t \<noteq> TR_REJECTED" "truthy (tf_tac t)" "tf_student t \<noteq> []" "e = nid"
    "get_student_data_by_tac (the (tf_tac t)) (tf_student t) db = Inr dat"
    "resolve_class school dto db = Inr place"
    "find (\<lambda>(i, s). s = school) (td_teachers db) = Some (teacher, school)"
    "migrate now nid gid school tid dto place teacher dat db = Inr db'"
  using assms unfolding complete_transfer_def
  by (auto split: option.splits if_splits sum.splits prod.splits dest: find_Some_in)

lemma complete_transfer_Inl:
  "fst (complete_transfer now nid gid school tid dto db) = Inl e
    \<Longrightarrow> snd (complete_transfer now nid gid school tid dto db) = db"
  unfolding complete_transfer_def
  by (auto split: option.splits if_splits sum.splits prod.splits)

lemma complete_moves:
  assumes "transfers_ok db"
  shows "transfer_move db (snd (complete_transfer now nid gid school tid dto db))"
proof (cases "fst (complete_transfer now nid gid school tid dto db)")
  case (Inl e)
  then show ?thesis using complete_transfer_Inl by simp
next
  case (Inr e)
  then obtain db' where res: "complete_transfer now nid gid school tid dto db = (Inr e, db')"
    by (metis prod.collapse)
  then obtain t dat place teacher where
    t: "find_transfer tid db = Some t" "tf_to t = Some school" "tf_status t \<noteq> TR_COMPLETED" "truthy (tf_tac t)"
    and m: "migrate now nid gid school tid dto place teacher dat db = Inr db'"
    by (rule complete_transfer_Inr)
  have "transfer_row_ok t" using assms t(1) find_transfer_in transfers_ok_row by blast
  then show ?thesis unfolding res snd_conv
    by (intro transfer_move.update[OF t(1) _ _ _ _ migrate_Inr[OF m]])
      (use t in \<open>auto simp: transfer_row_ok_def truthy_def split: option.splits\<close>)
qed

lemma initiate_moves:
  assumes ok: "transfers_ok db"
  shows "transfer_move\<^sup>*\<^sup>* db (snd (initiate_transfer pol now nid gid school tac student db))"
proof (cases "find_by_tac tac db")
  case (Some t)
  have t: "t \<in> set (td_transfers db)" "tf_tac t = Some tac"
    using find_by_tac_in[OF Some] by auto
  have rok: "transfer_row_ok t" using ok t(1) transfers_ok_row by blast
  define db1 where "db1 = update_transfer (tf_id t) (\<lambda>t. t\<lparr>tf_to := Some school,
    tf_status := TR_APPROVED, tf_approved_at := Some now\<rparr>) db"
  have "transfer_move db db1" if "check_tac now school student t = Inr ()"
    unfolding db1_def
    by (rule transfer_move.update[OF find_transfer_self[OF ok t(1)] _ _ _ _ refl])
      (use that rok in \<open>auto simp: check_tac_def transfer_row_ok_def truthy_def
         split: if_splits transfer_status.splits option.splits\<close>)
  moreover have "transfer_move\<^sup>*\<^sup>* db (snd (complete_transfer now nid gid school i dto db1))"
    if "transfer_move db db1" for i dto
    using complete_moves[OF move_ok[OF that ok]] that
    by (meson rtranclp.rtrancl_into_rtrancl r_into_rtranclp)
  ultimately show ?thesis
    unfolding initiate_transfer_def Some option.case
    apply (auto simp: Let_def db1_def [symmetric] split: sum.splits prod.splits)
    apply (metis snd_conv)+
    done
qed (simp add: initiate_transfer_def)

section \<open>Runs of the service\<close>

datatype transfer_event =
    EvGenerate admission_policy date "nat \<Rightarrow> nat list \<times> nat list" ident ident ident ident "string option"
  | EvClosureTac date "nat \<Rightarrow> nat list \<times> nat list" ident ident ident
  | EvIssueClosure date "ident \<Rightarrow> nat \<Rightarrow> nat list \<times> nat list" "ident \<Rightarrow> ident" ident
  | EvInitiate admission_policy date ident "nat \<Rightarrow> ident" ident string ident
  | EvComplete date ident "nat \<Rightarrow> ident" ident ident complete_dto
  | EvReject date ident ident string
  | EvRevoke ident ident

fun transfer_step :: "transfer_event \<Rightarrow> transfer_db \<Rightarrow> transfer_db" where
  "transfer_step (EvGenerate pol now bytes i school user student reason) db =
     snd (generate_tac pol now bytes i school user student reason db)"
| "transfer_step (EvClosureTac now bytes i student school) db =
     snd (ensure_closure_tac_for_student now bytes i student school db)"
| "transfer_step (EvIssueClosure now bytes i school) db = issue_closure_tacs_for_school now bytes i school db"
| "transfer_step (EvInitiate pol now nid gid school tac student) db =
     snd (initiate_transfer pol now nid gid school tac student db)"
| "transfer_step (EvComplete now nid gid school tid dto) db =
     snd (complete_transfer now nid gid school tid dto db)"
| "transfer_step (EvReject now school tid reason) db = snd (reject_transfer now school tid reason db)"
| "transfer_step (EvRevoke school tid) db = snd (revoke_tac school tid db)"

lemma step_moves: "transfers_ok db \<Longrightarrow> transfer_move\<^sup>*\<^sup>* db (transfer_step e db)"
  by (cases e) (auto simp: ensure_closure_tac_for_student_def
      intro: r_into_rtranclp generate_tac_moves ensure_closure_moves issue_closure_moves initiate_moves
        complete_moves reject_moves revoke_moves)

text \<open>
  The invariant of the table, together with a completed row that a run started from: both
  are kept by every step.
\<close>

definition keeps_completed :: "transfer_row \<Rightarrow> transfer_db \<Rightarrow> bool" where
  "keeps_completed t db = (transfers_ok db \<and> (tf_status t = TR_COMPLETED \<longrightarrow> t \<in> set (td_transfers db)))"

interpretation transfer_run: step_system transfer_step transfers_ok
  by unfold_locales (blast intro: moves_ok step_moves)

interpretation completed_run: step_system transfer_step "keeps_completed t" for t
  by unfold_locales (auto simp: keeps_completed_def intro: moves_ok step_moves moves_keep_completed)

end
