(* ===== verification/TransferProperties.thy ===== *)
theory TransferProperties
  imports TransferFacts
begin

text \<open>
  The properties of the transfer service: the invariant over its runs, finality of a completed
  transfer, the codes it issues, what completion moves and keeps, the capacity of a class arm,
  and the behaviours on stale and closing-school codes and on the incoming listing.
\<close>

section \<open>Codes\<close>

lemma try_tac_Some:
  "try_tac bytes db i n = Some c \<Longrightarrow> find_by_tac c db = None \<and> (\<exists>k<n. c = tac_of_bytes (bytes (i + k)))"
  by (induction n arbitrary: i) (fastforce split: if_splits)+

lemma try_tac_None:
  "try_tac bytes db i n = None \<longleftrightarrow> (\<forall>k<n. find_by_tac (tac_of_bytes (bytes (i + k))) db \<noteq> None)"
proof (induction n arbitrary: i)
  case (Suc n)
  then show ?case
    unfolding All_less_Suc2 by (simp only: try_tac.simps) simp
qed simp

lemma generate_unique_tac_Inr:
  "generate_unique_tac bytes db = Inr c \<Longrightarrow> find_by_tac c db = None \<and> (\<exists>k<10. c = tac_of_bytes (bytes k))"
  using try_tac_Some[of bytes db 0 10 c] by (auto simp: generate_unique_tac_def split: option.splits)

lemma generate_unique_tac_Inl:
  "(\<exists>e. generate_unique_tac bytes db = Inl e) \<longleftrightarrow> (\<forall>k<10. find_by_tac (tac_of_bytes (bytes k)) db \<noteq> None)"
  using try_tac_None[of bytes db 0 10]
  by (cases "try_tac bytes db 0 10") (auto simp: generate_unique_tac_def)

lemma create_tac_Inr:
  assumes "create_tac pol now bytes i school user student reason db = (Inr r, db')"
  obtains row where "insert_transfer row db = Inr db'" "tf_status row = TR_PENDING" "tf_used_at row = None"
    "tf_student row = student" "tf_from row = school" "rs_transfer r = tf_id row"
    "tf_tac row = Some (rs_tac r)" "find_by_tac (rs_tac r) db = None"
    "tf_expires row = Some (plus_days now (nullish (ap_expiry_days pol) 30))"
proof -
  let ?e = "plus_days now (nullish (ap_expiry_days pol) 30)"
  let ?row = "\<lambda>tac. (new_transfer i student school KIND_NORMAL tac now (Some ?e))
    \<lparr>tf_reason := reason, tf_requested_by := Some user\<rparr>"
  obtain tac where tac: "generate_unique_tac bytes db = Inr tac"
    and ins: "insert_transfer (?row tac) db = Inr db'" and r: "rs_transfer r = i" "rs_tac r = tac"
    using assms unfolding create_tac_def Let_def by (auto split: sum.splits)
  then show thesis
    using that[OF ins] generate_unique_tac_Inr[OF tac] by (simp add: new_transfer_def)
qed

lemma generate_tac_Inr:
  assumes "generate_tac pol now bytes i school user student reason db = (Inr r, db')"
  obtains (reissued) t where "find (active_tac_row now student school) (td_transfers db) = Some t"
      "tf_used_at t = None" "rs_transfer r = tf_id t" "tf_tac t = Some (rs_tac r)" "db' = db"
  | (created) "create_tac pol now bytes i school user student reason db = (Inr r, db')"
  using assms unfolding generate_tac_def
  by (auto simp: truthy_def split: option.splits if_splits)

text \<open>
  A code that \<open>generateTac\<close> returns identifies one row: unused, pending or approved, of this
  student and school. Either it was there already and nothing changed, or it is new, was on no
  row before, and expires the policy's number of days later (30 when the policy has none).
\<close>

theorem generate_tac_correct:
  assumes ok: "transfers_ok db"
    and gen: "generate_tac pol now bytes i school user student reason db = (Inr r, db')"
  shows "(\<exists>t. find_by_tac (rs_tac r) db' = Some t \<and> tf_id t = rs_transfer r \<and>
      tf_student t = student \<and> tf_from t = school \<and> tf_used_at t = None \<and>
      (tf_status t = TR_PENDING \<or> tf_status t = TR_APPROVED) \<and>
      (db' = db \<or> find_by_tac (rs_tac r) db = None \<and>
        db' = db\<lparr>td_transfers := td_transfers db @ [t]\<rparr> \<and>
        tf_expires t = Some (plus_days now (nullish (ap_expiry_days pol) 30))))"
  using gen
proof (cases rule: generate_tac_Inr)
  case (reissued t)
  then have t: "t \<in> set (td_transfers db)" "active_tac_row now student school t"
    using find_Some_in by fast+
  then show ?thesis using reissued find_by_tac_self[OF ok t(1)]
    by (intro exI[of _ t]) (auto simp: active_tac_row_def)
next
  case created
  from created obtain row where row: "insert_transfer row db = Inr db'" "tf_status row = TR_PENDING"
    "tf_used_at row = None" "tf_student row = student" "tf_from row = school"
    "rs_transfer r = tf_id row" "tf_tac row = Some (rs_tac r)" "find_by_tac (rs_tac r) db = None"
    "tf_expires row = Some (plus_days now (nullish (ap_expiry_days pol) 30))"
    by (rule create_tac_Inr)
  have "db' = db\<lparr>td_transfers := td_transfers db @ [row]\<rparr>"
    using insert_transfer_Inr[OF row(1)] by simp
  moreover from this have "find_by_tac (rs_tac r) db' = Some row"
    using row(7,8) by (auto simp: find_by_tac_def find_append split: option.splits)
  ultimately show ?thesis using row by (intro exI[of _ row]) auto
qed

section \<open>Completion\<close>

lemma find_transfer_updated:
  assumes "td_transfers db' = td_transfers (update_transfer i f db)" "find_transfer i db = Some t"
    "tf_id (f t) = tf_id t"
  shows "find_transfer i db' = Some (f t)"
proof -
  have "find (\<lambda>t. tf_id t = i) rows = Some t \<Longrightarrow>
      find (\<lambda>t. tf_id t = i) (update_first (\<lambda>t. tf_id t = i) f rows) = Some (f t)" for rows
    using assms(3) by (induction rows) auto
  then show ?thesis using assms by (simp add: find_transfer_def update_transfer_def)
qed

text \<open>What a grade says, whichever enrollment, teacher or id carries it.\<close>

definition grade_content :: "grade_row \<Rightarrow> string \<times> string \<times> rat \<times> rat \<times> string option \<times> string option \<times> date" where
  "grade_content g =
     (nullish (or_undefined (gw_subject g)) ''N/A'', nullish (or_undefined (gw_type g)) ''CA'',
      gw_score g, gw_max g, gw_term g, gw_year g, gw_created g)"

lemma nullish_nonempty: "nullish (or_undefined x) (c # cs) \<noteq> []"
  by (auto simp: nullish_def split: option.splits dest: or_undefined_Some)

lemma copied_content [simp]:
  "grade_content (copy_grade i e t (grade_view_of g)) = grade_content g"
  "gw_enrolment (copy_grade i e t v) = e" "gw_score (copy_grade i e t v) = gv_score v"
  "gw_max (copy_grade i e t v) = gv_max v"
  by (simp_all add: grade_content_def copy_grade_def grade_view_of_def Let_def)
    (auto simp: or_undefined_def truthy_def nullish_def split: option.splits)

lemma mset_grade_order [simp]: "mset (grade_order gs) = mset gs"
  by (simp add: grade_order_def)

lemma mset_copied:
  "mset (map (\<lambda>(i, g). grade_content (copy_grade (gid i) e t g)) (List.enumerate n (map grade_view_of gs)))
    = mset (map grade_content gs)"
  by (induction gs arbitrary: n) auto

lemma student_data_Inr:
  assumes ok: "transfers_ok db" and t: "find_transfer tid db = Some t" "tf_tac t = Some tac"
    and dat: "get_student_data_by_tac tac (tf_student t) db = Inr dat"
  shows "su_id (dt_student dat) = tf_student t"
    and "dt_active dat \<in> set (td_enrolments db)"
    and "em_student (dt_active dat) = tf_student t" "em_school (dt_active dat) = tf_from t"
    and "has_active_enrolment (tf_student t) (tf_from t) db \<Longrightarrow> em_active (dt_active dat)"
    and "dt_grades dat = map grade_view_of (grades_of (em_id (dt_active dat)) db)"
proof -
  have same: "find_by_tac tac db = Some t"
    using find_by_tac_self[OF ok _ t(2)] find_transfer_in[OF t(1)] by blast
  define es where "es = sort_key (\<lambda>e. - em_date e) (filter (\<lambda>e. em_student e = tf_student t \<and>
    em_school e = tf_from t) (td_enrolments db))"
  have set_es: "set es = {e \<in> set (td_enrolments db). em_student e = tf_student t \<and> em_school e = tf_from t}"
    by (simp add: es_def)
  obtain s where s: "find (\<lambda>s. su_id s = tf_student t) (td_students db) = Some s"
    using dat unfolding get_student_data_by_tac_def same by (auto split: option.splits)
  obtain e es' where es: "es = e # es'"
    using dat unfolding get_student_data_by_tac_def same s option.case es_def [symmetric]
    by (cases es) auto
  have d: "dt_student dat = s" "dt_active dat = (case find em_active es of Some a \<Rightarrow> a | None \<Rightarrow> e)"
      "dt_grades dat = map grade_view_of (grades_of (em_id (dt_active dat)) db)"
    using dat unfolding get_student_data_by_tac_def same s option.case es_def [symmetric] es list.case Let_def
    by auto
  have act: "dt_active dat \<in> set es"
    using d(2) es by (auto split: option.splits dest: find_Some_in)
  then show "dt_active dat \<in> set (td_enrolments db)" "em_student (dt_active dat) = tf_student t"
    "em_school (dt_active dat) = tf_from t"
    using set_es by auto
  show "su_id (dt_student dat) = tf_student t" using s d(1) find_Some_in by fast
  show "dt_grades dat = map grade_view_of (grades_of (em_id (dt_active dat)) db)" by (rule d(3))
  assume "has_active_enrolment (tf_student t) (tf_from t) db"
  then have "find em_active es \<noteq> None"
    using set_es by (auto simp: has_active_enrolment_def list_ex_iff find_None_all)
  then show "em_active (dt_active dat)" using d(2) find_Some_in by fastforce
qed

lemma update_first_key:
  "distinct (map g rows) \<Longrightarrow> x \<in> set rows
    \<Longrightarrow> update_first (\<lambda>r. g r = g x) f rows = map (\<lambda>r. if r = x then f r else r) rows"
proof (induction rows)
  case (Cons r rows)
  show ?case
  proof (cases "g r = g x")
    case True
    then have "r = x" "x \<notin> set rows" using Cons.prems by (auto simp: rev_image_eqI)
    then show ?thesis by (auto intro!: map_idI [symmetric])
  next
    case False
    then show ?thesis using Cons by auto
  qed
qed simp

lemma migrate_effect:
  assumes m: "migrate now nid gid school tid dto place teacher dat db = Inr db'"
    and dist: "distinct (map em_id (td_enrolments db))" and new: "nid \<notin> em_id ` set (td_enrolments db)"
    and src: "dt_active dat \<in> set (td_enrolments db)"
  obtains new where
    "td_enrolments db' = map (\<lambda>e. if e = dt_active dat then deactivate_enrolment now e else e) (td_enrolments db) @ [new]"
    "em_id new = nid" "em_student new = su_id (dt_student dat)" "em_school new = school" "em_active new"
    "em_level new = fst place" "em_arm new = snd (snd place)" "em_year new = cd_year dto" "em_date new = now"
    "td_grades db' = td_grades db @ map (\<lambda>(i, g). copy_grade (gid i) nid teacher g)
      (List.enumerate 0 (dt_grades dat))"
proof -
  obtain level class_id arm_id where place: "place = (level, class_id, arm_id)" by (cases place)
  define new where "new = \<lparr>em_id = nid, em_student = su_id (dt_student dat), em_school = school,
    em_class = or_else class_id (or_undefined (cd_class dto)), em_arm = arm_id,
    em_level = level, em_year = cd_year dto, em_date = now, em_active = True,
    em_term = active_term school db, em_updated = now\<rparr>"
  have id: "em_id (dt_active dat) \<noteq> nid" using src new by auto
  have neq: "dt_active dat \<noteq> new" "new \<noteq> dt_active dat" using id new_def by (metis enrolment.select_convs(1))+
  have "distinct (map em_id (td_enrolments db @ [new]))"
    using dist \<open>nid \<notin> _\<close> by (auto simp: new_def)
  from update_first_key[OF this] src
  have "update_first (\<lambda>e. em_id e = em_id (dt_active dat)) (\<lambda>e. deactivate_enrolment now e)
      (td_enrolments db @ [new]) =
    map (\<lambda>e. if e = dt_active dat then deactivate_enrolment now e else e) (td_enrolments db) @ [new]"
    using neq by (simp del: map_append update_first.simps) simp
  then have en: "td_enrolments db' = map (\<lambda>e. if e = dt_active dat then deactivate_enrolment now e else e)
      (td_enrolments db) @ [new]"
    and gr: "td_grades db' = td_grades db @ map (\<lambda>(i, g). copy_grade (gid i) nid teacher g)
      (List.enumerate 0 (dt_grades dat))"
    using m unfolding migrate_def Let_def place prod.case new_def [symmetric]
    by (auto simp: update_transfer_def split: if_splits)
  show thesis by (rule that[OF en _ _ _ _ _ _ _ _ gr]) (simp_all add: new_def place)
qed

text \<open>
  C8: a completed transfer moves the student. It was an approved one to this school; the
  student gets a new active enrollment here; the enrollment at the source school (the active
  one, when there is one) is the only row deactivated; every grade of it, and nothing else, is
  copied to the new enrollment; and the row becomes completed, its code used by this school.
\<close>

theorem complete_transfer_correct:
  assumes ok: "transfers_ok db" and dist: "distinct (map em_id (td_enrolments db))"
    and new: "nid \<notin> em_id ` set (td_enrolments db)"
    and fin: "complete_transfer now nid gid school tid dto db = (Inr e, db')"
  shows "\<exists>t src new copies. find_transfer tid db = Some t \<and> tf_status t = TR_APPROVED \<and>
      src \<in> set (td_enrolments db) \<and> em_student src = tf_student t \<and> em_school src = tf_from t \<and>
      (has_active_enrolment (tf_student t) (tf_from t) db \<longrightarrow> em_active src) \<and>
      td_enrolments db' = map (\<lambda>e. if e = src then deactivate_enrolment now e else e) (td_enrolments db) @ [new] \<and>
      em_id new = nid \<and> em_student new = tf_student t \<and> em_school new = school \<and> em_active new \<and>
      td_grades db' = td_grades db @ copies \<and> (\<forall>g\<in>set copies. gw_enrolment g = nid) \<and>
      mset (map grade_content copies) =
        mset (map grade_content (filter (\<lambda>g. gw_enrolment g = em_id src) (td_grades db))) \<and>
      find_transfer tid db' = Some (t\<lparr>tf_status := TR_COMPLETED, tf_completed_at := Some now,
        tf_used_at := Some now, tf_used_by := Some school\<rparr>)"
proof -
  obtain t dat place teacher where t: "find_transfer tid db = Some t" "tf_to t = Some school"
      "tf_status t \<noteq> TR_COMPLETED" "tf_status t \<noteq> TR_REJECTED" "truthy (tf_tac t)"
    and dat: "get_student_data_by_tac (the (tf_tac t)) (tf_student t) db = Inr dat"
    and m: "migrate now nid gid school tid dto place teacher dat db = Inr db'"
    using fin by (rule complete_transfer_Inr)
  obtain tac where tac: "tf_tac t = Some tac" using t(5) by (cases "tf_tac t") auto
  note src = student_data_Inr[OF ok t(1) tac dat[unfolded tac option.sel]]
  have "transfer_row_ok t" using ok t(1) find_transfer_in transfers_ok_row by blast
  then have st: "tf_status t = TR_APPROVED" using t tac
    by (auto simp: transfer_row_ok_def split: transfer_status.splits)
  obtain new where eff:
    "td_enrolments db' = map (\<lambda>e. if e = dt_active dat then deactivate_enrolment now e else e) (td_enrolments db) @ [new]"
    "em_id new = nid" "em_student new = su_id (dt_student dat)" "em_school new = school" "em_active new"
    "td_grades db' = td_grades db @ map (\<lambda>(i, g). copy_grade (gid i) nid teacher g)
      (List.enumerate 0 (dt_grades dat))"
    by (rule migrate_effect[OF m dist new src(2)])
  let ?copies = "map (\<lambda>(i, g). copy_grade (gid i) nid teacher g) (List.enumerate 0 (dt_grades dat))"
  have "mset (map grade_content ?copies) =
      mset (map (\<lambda>(i, g). grade_content (copy_grade (gid i) nid teacher g)) (List.enumerate 0 (dt_grades dat)))"
    by (rule arg_cong[where f = mset]) auto
  also have "\<dots> = mset (map grade_content (filter (\<lambda>g. gw_enrolment g = em_id (dt_active dat)) (td_grades db)))"
    unfolding src(6) mset_copied by (simp only: mset_map mset_grade_order grades_of_def)
  finally have copies: "mset (map grade_content ?copies) =
      mset (map grade_content (filter (\<lambda>g. gw_enrolment g = em_id (dt_active dat)) (td_grades db)))" .
  have row: "find_transfer tid db' = Some (t\<lparr>tf_status := TR_COMPLETED, tf_completed_at := Some now,
      tf_used_at := Some now, tf_used_by := Some school\<rparr>)"
    by (rule find_transfer_updated[OF migrate_Inr[OF m] t(1)]) simp
  show ?thesis
    using t(1) st src(1-5) eff row copies
    by (intro exI[of _ t] exI[of _ "dt_active dat"] exI[of _ new] exI[of _ ?copies]) auto
qed

text \<open>
  A class arm with a capacity never holds more: after a completion into the arm, its active
  enrollments of that academic year are at most the capacity.
\<close>

theorem arm_capacity_respected:
  assumes ok: "transfers_ok db" and dist: "distinct (map em_id (td_enrolments db))"
    and new: "nid \<notin> em_id ` set (td_enrolments db)"
    and fin: "complete_transfer now nid gid school tid dto db = (Inr e, db')"
    and arm: "truthy (cd_arm dto)" "find (\<lambda>a. Some (ar_id a) = cd_arm dto) (td_arms db) = Some a"
      "ar_capacity a = Some cap"
  shows "ar_school a = school \<and>
    int (count_where (\<lambda>e. em_arm e = Some (ar_id a) \<and> em_active e \<and> em_year e = cd_year dto) (td_enrolments db'))
      \<le> cap"
proof -
  let ?p = "\<lambda>e. em_arm e = Some (ar_id a) \<and> em_active e \<and> em_year e = cd_year dto"
  obtain t dat place teacher where t: "find_transfer tid db = Some t" "truthy (tf_tac t)"
    and dat: "get_student_data_by_tac (the (tf_tac t)) (tf_student t) db = Inr dat"
    and place: "resolve_class school dto db = Inr place"
    and m: "migrate now nid gid school tid dto place teacher dat db = Inr db'"
    using fin by (rule complete_transfer_Inr)
  have cap: "ar_school a = school" "int (count_where ?p (td_enrolments db)) < cap"
    using place arm unfolding resolve_class_def by (auto simp: Let_def split: if_splits)
  obtain tac where tac: "tf_tac t = Some tac" using t(2) by (cases "tf_tac t") auto
  obtain new where eff:
    "td_enrolments db' = map (\<lambda>e. if e = dt_active dat then deactivate_enrolment now e else e) (td_enrolments db) @ [new]"
    by (rule migrate_effect[OF m dist new student_data_Inr(2)[OF ok t(1) tac dat[unfolded tac option.sel]]])
  have "count_where ?p (map (\<lambda>e. if e = x then deactivate_enrolment now e else e) es) \<le> count_where ?p es" for x es
    by (induction es) (auto simp: deactivate_enrolment_def)
  from this[of "dt_active dat" "td_enrolments db"]
  have "count_where ?p (td_enrolments db') \<le> count_where ?p (td_enrolments db) + 1"
    unfolding eff by simp
  then show ?thesis using cap by linarith
qed

section \<open>A small database\<close>

definition ex_health :: health_info where
  "ex_health = \<lparr>hi_blood = Some ''O'', hi_allergies = None, hi_medications = None, hi_contact = None,
     hi_contact_phone = None, hi_notes = None\<rparr>"

definition ex_enrolment :: enrolment where
  "ex_enrolment = \<lparr>em_id = ''e1'', em_student = ''s1'', em_school = ''a'', em_class = None, em_arm = None,
     em_level = ''JSS1'', em_year = ''2025'', em_date = 0, em_active = True, em_term = None, em_updated = 0\<rparr>"

definition ex_grade :: grade_row where
  "ex_grade = \<lparr>gw_id = ''g1'', gw_enrolment = ''e1'', gw_teacher = ''t0'', gw_subject = None, gw_type = None,
     gw_assessment = None, gw_sequence = None, gw_date = None, gw_score = 8, gw_max = 10,
     gw_term = Some ''T1'', gw_year = Some ''2025'', gw_remarks = None, gw_signed = None, gw_created = 5\<rparr>"

definition ex_transfer :: "transfer_kind \<Rightarrow> transfer_row" where
  "ex_transfer kind = (new_transfer ''x1'' ''s1'' ''a'' kind ''TAC'' 0 (Some 100))
     \<lparr>tf_status := TR_APPROVED, tf_to := Some ''b''\<rparr>"

definition ex_db :: "transfer_row list \<Rightarrow> transfer_db" where
  "ex_db rows = \<lparr>td_students = [\<lparr>su_id = ''s1'', su_health = ex_health\<rparr>], td_enrolments = [ex_enrolment],
     td_grades = [ex_grade], td_transfers = rows,
     td_arms = [\<lparr>ar_id = ''r1'', ar_school = ''b'', ar_level = ''JSS1'', ar_name = ''Gold'', ar_capacity = Some 1\<rparr>],
     td_classes = [], td_terms = [], td_teachers = [(''t1'', ''b'')], td_closed = [''a'']\<rparr>"

definition ex_dto :: complete_dto where
  "ex_dto = \<lparr>cd_level = ''JSS1'', cd_year = ''2025'', cd_class = None, cd_arm = Some ''r1''\<rparr>"

definition open_policy :: admission_policy where
  "open_policy = \<lparr>ap_transfer = MANUAL_REVIEW, ap_expiry_days = None\<rparr>"

lemmas ex_defs = ex_health_def ex_enrolment_def ex_grade_def ex_transfer_def ex_db_def ex_dto_def
  new_transfer_def open_policy_def

lemma ex_db_ok: "transfers_ok (ex_db [ex_transfer kind])" "transfers_ok (ex_db [])"
  by (simp_all add: transfers_ok_def ex_defs transfer_row_ok_def)

definition ex_completed :: "(http_error + ident) \<times> transfer_db" where
  "ex_completed = complete_transfer 7 ''n'' (\<lambda>i. ''k'') ''b'' ''x1'' ex_dto (ex_db [ex_transfer KIND_NORMAL])"

lemma ex_completes: "ex_completed = (Inr ''n'', snd ex_completed)"
  unfolding ex_completed_def by code_simp

lemma generate_tac_correct_witness:
  "\<exists>t. find_by_tac ''TAC'' (ex_db [ex_transfer KIND_NORMAL]) = Some t \<and> tf_id t = ''x1''"
proof -
  have "generate_tac open_policy 7 (\<lambda>i. ([0,0,0,0], [0,0])) ''x2'' ''a'' ''u'' ''s1'' None (ex_db [ex_transfer KIND_NORMAL])
     = (Inr \<lparr>rs_transfer = ''x1'', rs_tac = ''TAC'', rs_expires = Some 100, rs_message = share_message\<rparr>,
        ex_db [ex_transfer KIND_NORMAL])"
    by code_simp
  from generate_tac_correct[OF ex_db_ok(1) this] show ?thesis by auto
qed

lemma complete_transfer_correct_witness:
  "\<exists>t. find_transfer ''x1'' (snd ex_completed) = Some t \<and> tf_status t = TR_COMPLETED"
  using complete_transfer_correct[OF ex_db_ok(1) _ _ ex_completes[unfolded ex_completed_def]]
  unfolding ex_completed_def by (auto simp: ex_defs)

lemma arm_capacity_respected_witness:
  "int (count_where (\<lambda>e. em_arm e = Some ''r1'' \<and> em_active e \<and> em_year e = ''2025'')
     (td_enrolments (snd ex_completed))) \<le> 1"
  using arm_capacity_respected[OF ex_db_ok(1) _ _ ex_completes[unfolded ex_completed_def], where cap = 1]
  unfolding ex_completed_def by (auto simp: ex_defs)

section \<open>Runs\<close>

text \<open>
  C10: whatever calls the service handles, in any order and with any outcome, ids and codes stay
  unique and every row keeps the promise of its status: a code is marked used exactly when the
  transfer is completed, then by the destination school; an approved transfer has a destination
  and a code; a pending one has no destination; no transfer leads back to its source school.
\<close>

theorem transfers_invariant:
  assumes "transfers_ok db"
  shows "transfers_ok (fold transfer_step es db)"
  by (rule transfer_run.all_runs[OF assms])

definition ex_run :: "transfer_event list" where
  "ex_run =
     [EvGenerate open_policy 1 (\<lambda>i. ([i, 1, 2, 3], [4, 5])) ''x1'' ''a'' ''u'' ''s1'' None,
      EvInitiate open_policy 2 ''n'' (\<lambda>i. ''k'') ''b'' ''TAC-00010203-0405'' ''s1'',
      EvComplete 3 ''n'' (\<lambda>i. ''k'') ''b'' ''x1'' ex_dto, EvReject 4 ''b'' ''x1'' ''no'', EvRevoke ''a'' ''x1'']"

lemma transfers_invariant_witness:
  "transfers_ok (fold transfer_step ex_run (ex_db [])) \<and>
   map tf_status (td_transfers (fold transfer_step ex_run (ex_db []))) = [TR_COMPLETED]"
  using transfers_invariant[OF ex_db_ok(2), of ex_run] by (rule conjI) code_simp

text \<open>
  A completed transfer is final: no later call of the service changes or removes its row, so
  its code cannot be used again, revoked or rejected.
\<close>

theorem completed_transfer_final:
  assumes "transfers_ok db" "find_transfer i db = Some t" "tf_status t = TR_COMPLETED"
  shows "find_transfer i (fold transfer_step es db) = Some t"
proof -
  have "keeps_completed t db" using assms find_transfer_in by (simp add: keeps_completed_def)
  then have "keeps_completed t (fold transfer_step es db)" by (rule completed_run.all_runs)
  then show ?thesis
    using find_transfer_self find_transfer_in[OF assms(2)] assms(3) by (auto simp: keeps_completed_def)
qed

lemma completed_transfer_final_witness:
  "\<exists>t. find_transfer ''x1'' (fold transfer_step ex_run (snd ex_completed)) = Some t \<and>
     tf_status t = TR_COMPLETED \<and> tf_used_by t = Some ''b''"
proof -
  have ok: "transfers_ok (snd ex_completed)" unfolding ex_completed_def
    by (rule move_ok[OF complete_moves[OF ex_db_ok(1)] ex_db_ok(1)])
  obtain t where "find_transfer ''x1'' (snd ex_completed) = Some t" "tf_status t = TR_COMPLETED"
      "tf_used_by t = Some ''b''"
    unfolding ex_completed_def by (rule that[of "(ex_transfer KIND_NORMAL)\<lparr>tf_status := TR_COMPLETED,
      tf_completed_at := Some 7, tf_used_at := Some 7, tf_used_by := Some ''b''\<rparr>"]) code_simp+
  then show ?thesis using completed_transfer_final[OF ok] by blast
qed

section \<open>Behaviours the texts do not announce\<close>

lemma check_tac_expired:
  "tf_expires t = Some x \<Longrightarrow> x < now \<Longrightarrow> \<exists>e. check_tac now school student t = Inl e"
  by (auto simp: check_tac_def)

text \<open>
  An expired code that was never used is handed out again. The lookup of an existing code
  accepts an unused one whatever its expiry, so \<open>generateTac\<close> returns it unchanged; the receiving
  school's \<open>initiateTransfer\<close> refuses it and asks for a new one from the source school.
\<close>

theorem stale_code_reissued:
  assumes ok: "transfers_ok db" and pol: "ap_transfer pol \<noteq> TRANSFERS_DISABLED"
    and st: "find (\<lambda>s. su_id s = student) (td_students db) \<noteq> None" "has_active_enrolment student school db"
    and row: "find (active_tac_row now student school) (td_transfers db) = Some t"
    and stale: "tf_used_at t = None" "tf_tac t = Some tac" "tac \<noteq> []" "tf_expires t = Some x" "x < now"
  shows "(\<exists>r. generate_tac pol now bytes i school user student reason db = (Inr r, db) \<and> rs_tac r = tac) \<and>
    (\<exists>e. initiate_transfer pol2 now nid gid dest tac student db = (Inl e, db))"
proof
  show "\<exists>r. generate_tac pol now bytes i school user student reason db = (Inr r, db) \<and> rs_tac r = tac"
    using pol st row stale by (auto simp: generate_tac_def truthy_def)
  have "find_by_tac tac db = Some t"
    using find_by_tac_self[OF ok _ stale(2)] row find_Some_in by fast
  moreover obtain e where "check_tac now dest student t = Inl e"
    using check_tac_expired[OF stale(4,5)] by blast
  ultimately show "\<exists>e. initiate_transfer pol2 now nid gid dest tac student db = (Inl e, db)"
    by (auto simp: initiate_transfer_def)
qed

definition ex_stale :: transfer_db where
  "ex_stale = ex_db [(ex_transfer KIND_NORMAL)\<lparr>tf_status := TR_PENDING, tf_to := None\<rparr>]"

lemma stale_code_reissued_witness:
  "(\<exists>r. generate_tac open_policy 500 (\<lambda>i. ([], [])) ''x2'' ''a'' ''u'' ''s1'' None ex_stale = (Inr r, ex_stale) \<and>
      rs_tac r = ''TAC'') \<and>
   (\<exists>e. initiate_transfer open_policy 500 ''n'' (\<lambda>i. ''k'') ''b'' ''TAC'' ''s1'' ex_stale = (Inl e, ex_stale))"
  by (rule stale_code_reissued[where t = "(ex_transfer KIND_NORMAL)\<lparr>tf_status := TR_PENDING, tf_to := None\<rparr>"
        and x = 100])
    (simp_all add: ex_stale_def ex_defs transfers_ok_def transfer_row_ok_def has_active_enrolment_def
      active_tac_row_def)

text \<open>
  A closing school's code can be lost for good. When the source school revokes the code of an
  approved closure transfer and the destination school then rejects it, the row is pending
  again without a code; every later request for the student's closure code finds that row and
  answers with no code, and \<open>completeTransfer\<close> and \<open>initiateTransfer\<close> cannot use it.
\<close>

theorem closure_code_lost:
  assumes row: "find_transfer tid db = Some t" "tf_from t = src" "tf_to t = Some dest" "tf_student t = student"
      "tf_kind t = KIND_SCHOOL_CLOSURE" "tf_used_at t = None" "tf_status t = TR_APPROVED"
    and only: "filter (closure_row student src) (td_transfers db) = [t]"
    and closed: "src \<in> set (td_closed db)" "has_active_enrolment student src db"
  shows "\<exists>u db'. snd (reject_transfer now dest tid reason (snd (revoke_tac src tid db))) = db' \<and>
    ensure_closure_tac_for_student now2 bytes i student src db' = (Inr u, db') \<and>
    tf_tac u = None \<and> tf_status u = TR_PENDING"
proof -
  let ?f = "\<lambda>t. t\<lparr>tf_tac := None, tf_generated := None, tf_expires := None, tf_status := TR_CANCELLED\<rparr>"
  let ?g = "\<lambda>t. t\<lparr>tf_status := TR_PENDING, tf_to := None, tf_approved_at := None,
    tf_rejected_at := None, tf_rejection := None\<rparr>"
  have rev: "snd (revoke_tac src tid db) = update_transfer tid ?f db"
    using row by (simp add: revoke_tac_def)
  have found: "find_transfer tid (update_transfer tid ?f db) = Some (?f t)"
    by (rule find_transfer_updated[OF refl row(1)]) simp
  define db' where "db' = update_transfer tid ?g (update_transfer tid ?f db)"
  have rej: "snd (reject_transfer now dest tid reason (snd (revoke_tac src tid db))) = db'"
    unfolding rev db'_def using row found by (simp add: reject_transfer_def)
  have upd: "filter (closure_row student src) (update_first (\<lambda>t. tf_id t = tid) ?g
      (update_first (\<lambda>t. tf_id t = tid) ?f rows)) = [?g (?f t)]"
    if "find (\<lambda>t. tf_id t = tid) rows = Some t" "filter (closure_row student src) rows = [t]" for rows
    using that
  proof (induction rows)
    case (Cons r rows)
    show ?case
    proof (cases "tf_id r = tid")
      case True
      then show ?thesis using Cons.prems row by (auto simp: closure_row_def split: if_splits)
    next
      case False
      have "closure_row student src t" using row by (simp add: closure_row_def)
      moreover have "tf_id t = tid" using row(1) find_transfer_in by blast
      ultimately show ?thesis using Cons False by (auto split: if_splits)
    qed
  qed simp
  have "filter (closure_row student src) (td_transfers db') = [?g (?f t)]"
    using upd[OF row(1)[unfolded find_transfer_def] only] by (simp add: db'_def update_transfer_def)
  moreover have "src \<in> set (td_closed db')" "has_active_enrolment student src db'"
    using closed by (simp_all add: db'_def update_transfer_def has_active_enrolment_def)
  ultimately have "ensure_closure_tac_for_student now2 bytes i student src db' = (Inr (?g (?f t)), db')"
    by (simp add: ensure_closure_tac_for_student_def ensure_closure_tac_def)
  then show ?thesis using rej by (intro exI[of _ "?g (?f t)"] exI[of _ db']) simp
qed

lemma closure_code_lost_witness:
  "\<exists>u db'. snd (reject_transfer 1 ''b'' ''x1'' [] (snd (revoke_tac ''a'' ''x1'' (ex_db [ex_transfer KIND_SCHOOL_CLOSURE])))) = db' \<and>
    ensure_closure_tac_for_student 2 (\<lambda>i. ([], [])) ''x2'' ''s1'' ''a'' db' = (Inr u, db') \<and>
    tf_tac u = None \<and> tf_status u = TR_PENDING"
  by (rule closure_code_lost[where t = "ex_transfer KIND_SCHOOL_CLOSURE"])
    (simp_all add: ex_defs find_transfer_def closure_row_def has_active_enrolment_def)

lemma get_incoming_window:
  "fst (get_incoming_transfers school status page limit None db) =
     take limit (drop ((page - 1) * limit) (take (limit * 2) (drop ((page - 1) * limit)
       (by_created (filter (\<lambda>t. tf_to t = Some school \<and> (status = None \<or> Some (tf_status t) = status))
         (td_transfers db))))))"
  by (simp add: get_incoming_transfers_def Let_def)

lemma windows_skip:
  fixes xs :: "'a list"
  shows "take n (drop n (take (n * 2) (drop n xs))) = take n (drop (2 * n) xs)"
    and "drop (n * 2 + k) (take (n * 2) ys) = ([] :: 'a list)"
  by (simp_all add: drop_take mult_2)

text \<open>
  The incoming listing pages twice. Without a school type, with \<open>ts\<close> the school's transfers
  newest first, page 1 shows the first \<open>limit\<close>, page 2 shows those from \<open>2 * limit\<close> on, so the
  ones between are on no page, and every page from the third on is empty.
\<close>

theorem incoming_pages_skip:
  "(let ts = by_created (filter (\<lambda>t. tf_to t = Some school \<and> (status = None \<or> Some (tf_status t) = status))
       (td_transfers db));
     listing = (\<lambda>page. fst (get_incoming_transfers school status page limit None db))
   in listing 1 = take limit ts \<and> listing 2 = take limit (drop (2 * limit) ts) \<and> listing (n + 3) = [])"
  unfolding Let_def get_incoming_window
proof (intro conjI)
  let ?ts = "by_created (filter (\<lambda>t. tf_to t = Some school \<and> (status = None \<or> Some (tf_status t) = status))
    (td_transfers db))"
  show "take limit (drop ((1 - 1) * limit) (take (limit * 2) (drop ((1 - 1) * limit) ?ts))) = take limit ?ts"
    by simp
  show "take limit (drop ((2 - 1) * limit) (take (limit * 2) (drop ((2 - 1) * limit) ?ts))) =
      take limit (drop (2 * limit) ?ts)"
    using windows_skip(1)[of limit ?ts] by simp
  have "(n + 3 - 1) * limit = limit * 2 + n * limit" by (simp add: algebra_simps)
  then show "take limit (drop ((n + 3 - 1) * limit) (take (limit * 2) (drop ((n + 3 - 1) * limit) ?ts))) = []"
    by (simp only: windows_skip(2) take_Nil)
qed

end
