(* ===== verification/SchoolLifecycle.thy ===== *)
theory SchoolLifecycle
  imports AccessTier
begin

text \<open>
  The closing of a school, \<open>src/src/schools/lifecycle/\<close>: ACTIVE, CLOSING for seven days,
  DEACTIVATED, and back. The school and admin tables are the state; the job queue is not under
  the repository, so an operation returns the commands it gives the queue and a job may be
  delivered at any time. \<open>Date.now()\<close> is one value per call. E-mails are left out.
\<close>

section \<open>State\<close>

datatype registration = REG_UNAPPROVED | REG_VERIFIED | REG_REJECTED

datatype school_status = SCHOOL_ACTIVE | SCHOOL_CLOSING | SCHOOL_DEACTIVATED

datatype close_actor = ACTOR_SCHOOL_OWNER | ACTOR_SUPER_ADMIN

record school_record =
  sl_id :: ident
  sl_registration :: registration
  sl_status :: school_status
  sl_active :: bool
  sl_reason :: "string option"
  sl_requested_at :: "date option"
  sl_deactivates_at :: "date option"
  sl_requested_by :: "ident option"
  sl_requested_role :: "close_actor option"
  sl_deactivated_at :: "date option"

record admin_seat =
  as_user :: ident
  as_school :: ident
  as_tier :: admin_access_tier

datatype queue_command =
    AddApplyDeactivation ident int
  | AddIssueClosureTacs ident date
  | RemoveApplyDeactivation ident

definition CLOSE_DELAY_MS :: int where
  "CLOSE_DELAY_MS = 7 * 24 * 60 * 60 * 1000"

definition find_school :: "ident \<Rightarrow> school_record list \<Rightarrow> school_record option" where
  "find_school i schools = find (\<lambda>s. sl_id s = i) schools"

definition update_school :: "ident \<Rightarrow> (school_record \<Rightarrow> school_record) \<Rightarrow> school_record list \<Rightarrow> school_record list" where
  "update_school i f schools = update_first (\<lambda>s. sl_id s = i) f schools"

section \<open>Operations\<close>

definition close_row :: "date \<Rightarrow> string \<Rightarrow> ident \<Rightarrow> close_actor \<Rightarrow> school_record \<Rightarrow> school_record" where
  "close_row now reason user role s =
     s\<lparr>sl_status := SCHOOL_CLOSING, sl_active := True, sl_reason := Some reason,
       sl_requested_at := Some now, sl_deactivates_at := Some (now + CLOSE_DELAY_MS),
       sl_requested_by := Some user, sl_requested_role := Some role, sl_deactivated_at := None\<rparr>"

definition schedule_close ::
  "date \<Rightarrow> ident \<Rightarrow> string \<Rightarrow> ident \<Rightarrow> close_actor \<Rightarrow> school_record list
    \<Rightarrow> http_error + school_record list \<times> queue_command list" where
  "schedule_close now i reason user role schools =
     (let trimmed = trim reason
      in if length trimmed < 8 then
           Inl (BadRequest ''Please provide a reason (at least 8 characters).'')
         else case find_school i schools of
           None \<Rightarrow> Inl (BadRequest ''School not found'')
         | Some s \<Rightarrow>
             if sl_registration s \<noteq> REG_VERIFIED then
               Inl (BadRequest ''Only verified schools can be scheduled for close.'')
             else if sl_status s = SCHOOL_DEACTIVATED \<or> \<not> sl_active s then
               Inl (BadRequest ''This school is already deactivated.'')
             else if sl_status s = SCHOOL_CLOSING then
               Inl (BadRequest ''A close is already scheduled for this school.'')
             else Inr (update_school i (close_row now trimmed user role) schools,
               [AddApplyDeactivation i (max CLOSE_DELAY_MS 1000)]))"

definition cancel_row :: "school_record \<Rightarrow> school_record" where
  "cancel_row s =
     s\<lparr>sl_status := SCHOOL_ACTIVE, sl_active := True, sl_reason := None, sl_requested_at := None,
       sl_deactivates_at := None, sl_requested_by := None, sl_requested_role := None\<rparr>"

definition cancel_close ::
  "ident \<Rightarrow> school_record list \<Rightarrow> http_error + school_record list \<times> queue_command list" where
  "cancel_close i schools =
     (case find_school i schools of
        None \<Rightarrow> Inl (BadRequest ''School not found'')
      | Some s \<Rightarrow>
          if sl_status s \<noteq> SCHOOL_CLOSING then
            Inl (BadRequest ''This school is not scheduled to close.'')
          else Inr (update_school i cancel_row schools, [RemoveApplyDeactivation i]))"

definition deactivate_row :: "date \<Rightarrow> school_record \<Rightarrow> school_record" where
  "deactivate_row now s =
     s\<lparr>sl_status := SCHOOL_DEACTIVATED, sl_active := False, sl_deactivated_at := Some now\<rparr>"

definition apply_deactivation ::
  "date \<Rightarrow> ident \<Rightarrow> school_record list \<Rightarrow> school_record list \<times> queue_command list" where
  "apply_deactivation now i schools =
     (case find_school i schools of
        None \<Rightarrow> (schools, [])
      | Some s \<Rightarrow>
          if sl_status s \<noteq> SCHOOL_CLOSING then (schools, [])
          else (update_school i (deactivate_row now) schools, [AddIssueClosureTacs i now]))"

definition close_due :: "date \<Rightarrow> school_record \<Rightarrow> bool" where
  "close_due now s =
     (sl_status s = SCHOOL_CLOSING \<and> (case sl_deactivates_at s of None \<Rightarrow> False | Some d \<Rightarrow> d \<le> now))"

fun apply_each :: "date \<Rightarrow> ident list \<Rightarrow> school_record list \<Rightarrow> school_record list \<times> queue_command list" where
  "apply_each now [] schools = (schools, [])"
| "apply_each now (i # is) schools =
     (let applied = apply_deactivation now i schools; rest = apply_each now is (fst applied)
      in (fst rest, snd applied @ snd rest))"

definition apply_overdue_closes ::
  "date \<Rightarrow> school_record list \<Rightarrow> school_record list \<times> queue_command list" where
  "apply_overdue_closes now schools = apply_each now (map sl_id (filter (close_due now) schools)) schools"

definition reactivate_row :: "school_record \<Rightarrow> school_record" where
  "reactivate_row s = (cancel_row s)\<lparr>sl_deactivated_at := None\<rparr>"

definition reactivate ::
  "ident \<Rightarrow> school_record list \<Rightarrow> http_error + school_record list \<times> queue_command list" where
  "reactivate i schools =
     (case find_school i schools of
        None \<Rightarrow> Inl (BadRequest ''School not found'')
      | Some s \<Rightarrow>
          if sl_status s \<noteq> SCHOOL_DEACTIVATED \<and> sl_active s then
            Inl (BadRequest ''This school is already active.'')
          else Inr (update_school i reactivate_row schools, [RemoveApplyDeactivation i]))"

definition assert_owner_or_principal :: "ident \<Rightarrow> ident \<Rightarrow> admin_seat list \<Rightarrow> http_error + unit" where
  "assert_owner_or_principal user school admins =
     (if has_principal_access (map_option as_tier (find (\<lambda>a. as_user a = user \<and> as_school a = school) admins))
      then Inr ()
      else Inl (Forbidden ''Only the school owner or a principal can do this.''))"

definition validate_school_active :: "ident \<Rightarrow> school_record list \<Rightarrow> http_error + unit" where
  "validate_school_active i schools =
     (case find_school i schools of
        None \<Rightarrow> Inl (BadRequest ''School not found'')
      | Some s \<Rightarrow>
          if \<not> sl_active s \<or> sl_status s = SCHOOL_DEACTIVATED then
            Inl (Forbidden ''This school is deactivated. An administrator can reactivate it.'')
          else if sl_registration s = REG_UNAPPROVED then
            Inl (Forbidden ''School registration is pending approval.'')
          else Inr ())"

text \<open>The routes of the school admin: the check of the caller, then the operation.\<close>

definition school_close ::
  "date \<Rightarrow> admin_seat list \<Rightarrow> ident \<Rightarrow> ident \<Rightarrow> string \<Rightarrow> school_record list
    \<Rightarrow> http_error + school_record list \<times> queue_command list" where
  "school_close now admins user school reason schools =
     (case assert_owner_or_principal user school admins of
        Inl e \<Rightarrow> Inl e
      | Inr _ \<Rightarrow> schedule_close now school reason user ACTOR_SCHOOL_OWNER schools)"

definition school_cancel ::
  "admin_seat list \<Rightarrow> ident \<Rightarrow> ident \<Rightarrow> school_record list \<Rightarrow> http_error + school_record list \<times> queue_command list" where
  "school_cancel admins user school schools =
     (case assert_owner_or_principal user school admins of
        Inl e \<Rightarrow> Inl e | Inr _ \<Rightarrow> cancel_close school schools)"

definition school_reactivate ::
  "admin_seat list \<Rightarrow> ident \<Rightarrow> ident \<Rightarrow> school_record list \<Rightarrow> http_error + school_record list \<times> queue_command list" where
  "school_reactivate admins user school schools =
     (case assert_owner_or_principal user school admins of
        Inl e \<Rightarrow> Inl e | Inr _ \<Rightarrow> reactivate school schools)"

section \<open>Events\<close>

datatype school_event =
    SchedBySuper date ident string ident
  | SchedBySchool date "admin_seat list" ident ident string
  | CancelBySuper ident
  | CancelBySchool "admin_seat list" ident ident
  | DeactivationJob date ident
  | HourlySweep date
  | ReactivateBySuper ident
  | ReactivateBySchool "admin_seat list" ident ident

definition keep_on_error ::
  "http_error + school_record list \<times> queue_command list \<Rightarrow> school_record list \<Rightarrow> school_record list" where
  "keep_on_error r schools = (case r of Inl _ \<Rightarrow> schools | Inr (schools', _) \<Rightarrow> schools')"

fun school_step :: "school_event \<Rightarrow> school_record list \<Rightarrow> school_record list" where
  "school_step (SchedBySuper now i reason user) ss =
     keep_on_error (schedule_close now i reason user ACTOR_SUPER_ADMIN ss) ss"
| "school_step (SchedBySchool now admins user i reason) ss =
     keep_on_error (school_close now admins user i reason ss) ss"
| "school_step (CancelBySuper i) ss = keep_on_error (cancel_close i ss) ss"
| "school_step (CancelBySchool admins user i) ss = keep_on_error (school_cancel admins user i ss) ss"
| "school_step (DeactivationJob now i) ss = fst (apply_deactivation now i ss)"
| "school_step (HourlySweep now) ss = fst (apply_overdue_closes now ss)"
| "school_step (ReactivateBySuper i) ss = keep_on_error (reactivate i ss) ss"
| "school_step (ReactivateBySchool admins user i) ss = keep_on_error (school_reactivate admins user i ss) ss"

section \<open>Invariant\<close>

definition school_row_ok :: "school_record \<Rightarrow> bool" where
  "school_row_ok s =
     (case sl_status s of
        SCHOOL_ACTIVE \<Rightarrow> sl_deactivates_at s = None \<and> sl_requested_at s = None \<and> sl_deactivated_at s = None \<and>
          sl_reason s = None \<and> sl_requested_by s = None \<and> sl_requested_role s = None
      | SCHOOL_CLOSING \<Rightarrow> sl_active s \<and> sl_registration s = REG_VERIFIED \<and> sl_deactivated_at s = None \<and>
          (\<exists>r. sl_requested_at s = Some r \<and> sl_deactivates_at s = Some (r + CLOSE_DELAY_MS)) \<and>
          (\<exists>t. sl_reason s = Some t \<and> 8 \<le> length t)
      | SCHOOL_DEACTIVATED \<Rightarrow> \<not> sl_active s \<and> sl_deactivated_at s \<noteq> None)"

lemma row_ok_frames:
  "sl_registration s = REG_VERIFIED \<Longrightarrow> 8 \<le> length t \<Longrightarrow> school_row_ok (close_row now t u r s)"
  "school_row_ok (deactivate_row now s)" "school_row_ok (reactivate_row s)"
  "school_row_ok s \<Longrightarrow> sl_status s = SCHOOL_CLOSING \<Longrightarrow> school_row_ok (cancel_row s)"
  by (auto simp: school_row_ok_def close_row_def deactivate_row_def reactivate_row_def cancel_row_def)

lemma update_school_all:
  assumes "find_school i ss = Some s" "list_all school_row_ok ss" "school_row_ok (f s)"
  shows "list_all school_row_ok (update_school i f ss)"
proof -
  have "find (\<lambda>s. sl_id s = i) rows = Some s \<Longrightarrow> list_all school_row_ok rows
      \<Longrightarrow> list_all school_row_ok (update_first (\<lambda>s. sl_id s = i) f rows)" for rows
    using assms(3) by (induction rows) (auto split: if_splits)
  then show ?thesis using assms by (simp add: find_school_def update_school_def)
qed

lemma find_school_ok: "find_school i ss = Some s \<Longrightarrow> list_all school_row_ok ss \<Longrightarrow> school_row_ok s"
  by (auto simp: find_school_def list_all_iff dest: find_Some_in)

lemma keep_on_error_simps [simp]:
  "keep_on_error (Inl e) ss = ss" "keep_on_error (Inr (ss', cs)) ss = ss'"
  by (simp_all add: keep_on_error_def)

lemma schedule_ok:
  "list_all school_row_ok ss \<Longrightarrow> list_all school_row_ok (keep_on_error (schedule_close now i r u a ss) ss)"
  by (auto simp: schedule_close_def Let_def not_less intro: update_school_all row_ok_frames split: option.splits)

lemma cancel_ok: "list_all school_row_ok ss \<Longrightarrow> list_all school_row_ok (keep_on_error (cancel_close i ss) ss)"
  by (auto simp: cancel_close_def intro: update_school_all row_ok_frames find_school_ok split: option.splits)

lemma reactivate_ok: "list_all school_row_ok ss \<Longrightarrow> list_all school_row_ok (keep_on_error (reactivate i ss) ss)"
  by (auto simp: reactivate_def intro: update_school_all row_ok_frames split: option.splits)

lemma apply_ok: "list_all school_row_ok ss \<Longrightarrow> list_all school_row_ok (fst (apply_deactivation now i ss))"
  by (auto simp: apply_deactivation_def intro: update_school_all row_ok_frames split: option.splits)

lemma apply_each_ok: "list_all school_row_ok ss \<Longrightarrow> list_all school_row_ok (fst (apply_each now is ss))"
proof (induction "is" arbitrary: ss)
  case (Cons i "is")
  show ?case using Cons.IH[OF apply_ok[OF Cons.prems, of now i]] by (simp add: Let_def)
qed simp

interpretation school_run: step_system school_step "list_all school_row_ok"
proof unfold_locales
  fix ss e
  assume "list_all school_row_ok ss"
  then show "list_all school_row_ok (school_step e ss)"
    by (cases e) (auto simp: school_close_def school_cancel_def school_reactivate_def apply_overdue_closes_def
        intro: schedule_ok cancel_ok reactivate_ok apply_ok apply_each_ok split: sum.splits)
qed

section \<open>Properties\<close>


definition ex_school :: school_record where
  "ex_school = \<lparr>sl_id = ''s'', sl_registration = REG_VERIFIED, sl_status = SCHOOL_ACTIVE, sl_active = True,
     sl_reason = None, sl_requested_at = None, sl_deactivates_at = None, sl_requested_by = None,
     sl_requested_role = None, sl_deactivated_at = None\<rparr>"

lemma ex_school_ok: "list_all school_row_ok [ex_school]"
  by (simp add: ex_school_def school_row_ok_def)


lemma update_school_twice:
  assumes "find_school i ss = Some s" "\<And>s. sl_id (f s) = sl_id s" "g (f s) = s"
  shows "update_school i g (update_school i f ss) = ss"
proof -
  have "find (\<lambda>s. sl_id s = i) rows = Some s \<Longrightarrow>
      update_first (\<lambda>s. sl_id s = i) g (update_first (\<lambda>s. sl_id s = i) f rows) = rows" for rows
    using assms(2,3) by (induction rows) auto
  then show ?thesis using assms(1) by (simp add: find_school_def update_school_def)
qed

lemma find_update_school:
  assumes "find_school i ss = Some s" "\<And>s. sl_id (f s) = sl_id s"
  shows "find_school i (update_school i f ss) = Some (f s)"
proof -
  have "find (\<lambda>s. sl_id s = i) rows = Some s \<Longrightarrow>
      find (\<lambda>s. sl_id s = i) (update_first (\<lambda>s. sl_id s = i) f rows) = Some (f s)" for rows
    using assms(2) by (induction rows) auto
  then show ?thesis using assms(1) by (simp add: find_school_def update_school_def)
qed

lemma row_ids [simp]:
  "sl_id (close_row now t u a s) = sl_id s" "sl_id (cancel_row s) = sl_id s"
  "sl_id (deactivate_row now s) = sl_id s" "sl_id (reactivate_row s) = sl_id s"
  by (simp_all add: close_row_def cancel_row_def deactivate_row_def reactivate_row_def)

lemma cancel_close_row:
  "school_row_ok s \<Longrightarrow> sl_status s = SCHOOL_ACTIVE \<Longrightarrow> sl_active s \<Longrightarrow> cancel_row (close_row now t u a s) = s"
  by (simp add: school_row_ok_def cancel_row_def close_row_def)

text \<open>
  Cancelling undoes scheduling: from any table that keeps the invariant, an accepted close
  request followed by its cancellation gives back the same table.
\<close>

theorem cancel_undoes_schedule:
  assumes ok: "list_all school_row_ok schools"
    and sched: "schedule_close now i reason user actor schools = Inr (schools', cs)"
  shows "cancel_close i schools' = Inr (schools, [RemoveApplyDeactivation i])"
proof -
  obtain s where s: "find_school i schools = Some s" "sl_status s = SCHOOL_ACTIVE" "sl_active s"
    and upd: "schools' = update_school i (close_row now (trim reason) user actor) schools"
    using sched unfolding schedule_close_def Let_def
    by (auto split: option.splits if_splits) (metis school_status.exhaust)
  have "find_school i schools' = Some (close_row now (trim reason) user actor s)"
    unfolding upd by (rule find_update_school[OF s(1)]) simp
  moreover have "update_school i cancel_row schools' = schools"
    unfolding upd by (rule update_school_twice[OF s(1)]) (simp_all add: cancel_close_row[OF find_school_ok[OF s(1) ok] s(2,3)])
  ultimately show ?thesis by (simp add: cancel_close_def close_row_def)
qed

lemma cancel_undoes_schedule_witness:
  "cancel_close ''s'' (fst (projr (schedule_close 5 ''s'' ''no more pupils'' ''u'' ACTOR_SUPER_ADMIN [ex_school])))
     = Inr ([ex_school], [RemoveApplyDeactivation ''s''])"
  by (rule cancel_undoes_schedule[OF ex_school_ok, of 5 _ "''no more pupils''" "''u''" ACTOR_SUPER_ADMIN _
        "snd (projr (schedule_close 5 ''s'' ''no more pupils'' ''u'' ACTOR_SUPER_ADMIN [ex_school]))"]) code_simp

lemma apply_each_not_due:
  "i \<notin> set is \<Longrightarrow> sl_id s = i \<Longrightarrow> apply_each now is (s # ss) =
     (s # fst (apply_each now is ss), snd (apply_each now is ss))"
proof (induction "is" arbitrary: ss)
  case (Cons j "is")
  have "apply_deactivation now j (s # ss) = (s # fst (apply_deactivation now j ss), snd (apply_deactivation now j ss))"
    using Cons.prems by (auto simp: apply_deactivation_def find_school_def update_school_def split: option.splits)
  then show ?case using Cons by (simp add: Let_def)
qed simp

text \<open>
  The hourly sweep deactivates exactly the schools that are due, leaves the others as they
  are, and asks for the closure codes of each deactivated school once, in table order.
\<close>

theorem overdue_sweep_correct:
  assumes "distinct (map sl_id schools)"
  shows "apply_overdue_closes now schools =
    (map (\<lambda>s. if close_due now s then deactivate_row now s else s) schools,
     map (\<lambda>s. AddIssueClosureTacs (sl_id s) now) (filter (close_due now) schools))"
  using assms unfolding apply_overdue_closes_def
proof (induction schools)
  case (Cons s ss)
  have new: "sl_id s \<notin> set (map sl_id (filter (close_due now) ss))" using Cons.prems by auto
  show ?case
  proof (cases "close_due now s")
    case True
    then have "apply_deactivation now (sl_id s) (s # ss) = (deactivate_row now s # ss, [AddIssueClosureTacs (sl_id s) now])"
      by (simp add: apply_deactivation_def find_school_def update_school_def close_due_def)
    then show ?thesis
      using True Cons apply_each_not_due[OF new, of "deactivate_row now s"] by (simp add: Let_def)
  next
    case False
    then show ?thesis using Cons apply_each_not_due[OF new refl] by simp
  qed
qed simp

lemma overdue_sweep_correct_witness:
  "apply_overdue_closes 700000000 [close_row 5 ''no more pupils'' ''u'' ACTOR_SUPER_ADMIN ex_school] =
    ([deactivate_row 700000000 (close_row 5 ''no more pupils'' ''u'' ACTOR_SUPER_ADMIN ex_school)],
     [AddIssueClosureTacs ''s'' 700000000])"
proof -
  have "close_due 700000000 (close_row 5 ''no more pupils'' ''u'' ACTOR_SUPER_ADMIN ex_school)" by code_simp
  then show ?thesis
    using overdue_sweep_correct[of "[close_row 5 ''no more pupils'' ''u'' ACTOR_SUPER_ADMIN ex_school]" 700000000]
    by (simp add: ex_school_def)
qed

end
