(* ===== verification/Permissions.thy ===== *)
theory Permissions
  imports AccessTier
begin

text \<open>
  Who may do what in a school: the guards \<open>src/src/common/guards/permission.guard.ts\<close> and
  \<open>roles.guard.ts\<close>, the titles and tiers of \<open>src/src/schools/dto/permission.dto.ts\<close> with the
  checks of \<open>schools/shared/staff-validator.service.ts\<close>, and the services that write grants,
  \<open>schools/staff/permissions/permission.service.ts\<close> and \<open>role-template.service.ts\<close> with its
  built-in bundles. The tables are the fields of \<open>perm_db\<close>; a row of \<open>pd_grants\<close> pairs an admin
  with a permission. Ids of created rows are arguments; audit lines and e-mails are left out.
\<close>

section \<open>Data\<close>

datatype permission_resource =
    RES_OVERVIEW | RES_ANALYTICS | RES_SUBSCRIPTIONS | RES_STUDENTS | RES_STAFF | RES_CLASSES
  | RES_SUBJECTS | RES_TIMETABLES | RES_CALENDAR | RES_ADMISSIONS | RES_SESSIONS | RES_EVENTS
  | RES_GRADES | RES_CURRICULUM | RES_SCHEME_OF_WORK | RES_RESOURCES | RES_TRANSFERS
  | RES_INTEGRATIONS | RES_SETTINGS

definition all_resources :: "permission_resource list" where
  "all_resources = [RES_OVERVIEW, RES_ANALYTICS, RES_SUBSCRIPTIONS, RES_STUDENTS, RES_STAFF, RES_CLASSES,
     RES_SUBJECTS, RES_TIMETABLES, RES_CALENDAR, RES_ADMISSIONS, RES_SESSIONS, RES_EVENTS,
     RES_GRADES, RES_CURRICULUM, RES_SCHEME_OF_WORK, RES_RESOURCES, RES_TRANSFERS,
     RES_INTEGRATIONS, RES_SETTINGS]"

datatype permission_type = PERM_READ | PERM_WRITE | PERM_ADMIN

definition all_types :: "permission_type list" where
  "all_types = [PERM_READ, PERM_WRITE, PERM_ADMIN]"

record perm_row =
  pr_id :: ident
  pr_resource :: permission_resource
  pr_type :: permission_type

record perm_admin =
  pa_id :: ident
  pa_user :: ident
  pa_school :: ident
  pa_title :: string
  pa_tier :: admin_access_tier
  pa_template :: "ident option"
  pa_customised :: bool

record role_template =
  rt_id :: ident
  rt_school :: "ident option"
  rt_name :: string
  rt_slug :: "string option"
  rt_description :: "string option"
  rt_suggested :: "string option"
  rt_permissions :: "ident list"
  rt_system :: bool

record perm_db =
  pd_catalog :: "perm_row list"
  pd_admins :: "perm_admin list"
  pd_grants :: "(ident \<times> ident) list"
  pd_templates :: "role_template list"

text \<open>Levels of a permission, in the order the guard reads them.\<close>

fun perm_level :: "permission_type \<Rightarrow> nat" where
  "perm_level PERM_READ = 0"
| "perm_level PERM_WRITE = 1"
| "perm_level PERM_ADMIN = 2"

instantiation permission_type :: linorder
begin

definition less_eq_permission_type :: "permission_type \<Rightarrow> permission_type \<Rightarrow> bool" where
  "less_eq_permission_type a b = (perm_level a \<le> perm_level b)"

definition less_permission_type :: "permission_type \<Rightarrow> permission_type \<Rightarrow> bool" where
  "less_permission_type a b = (perm_level a < perm_level b)"

instance
proof
  fix a b :: permission_type
  show "a \<le> b \<Longrightarrow> b \<le> a \<Longrightarrow> a = b"
    by (cases a; cases b) (simp_all add: less_eq_permission_type_def)
qed (auto simp: less_eq_permission_type_def less_permission_type_def)

end

section \<open>Titles\<close>

definition PRINCIPAL_ROLES :: "string list" where
  "PRINCIPAL_ROLES = [''principal'', ''school_principal'', ''head_teacher'', ''headmaster'', ''headmistress'',
     ''school_owner'']"

definition UNIQUE_ADMIN_TITLES :: "string list" where
  "UNIQUE_ADMIN_TITLES = [''school_owner'', ''principal'', ''head_teacher'', ''headmaster'', ''headmistress'']"

text \<open>\<open>replace(/\s+/g, '_')\<close>: every run of white space becomes one underscore.\<close>

fun join_spaces :: "string \<Rightarrow> string" where
  "join_spaces [] = []"
| "join_spaces [c] = (if is_space_char c then ''_'' else [c])"
| "join_spaces (c # d # s) =
     (if is_space_char c then (if is_space_char d then join_spaces (d # s) else CHR 0x5F # join_spaces (d # s))
      else c # join_spaces (d # s))"

definition normalize_role_key :: "string \<Rightarrow> string" where
  "normalize_role_key role = join_spaces (trim (to_lower role))"

definition canonicalize_unique_title :: "string \<Rightarrow> string" where
  "canonicalize_unique_title role =
     (let key = normalize_role_key role in if key = ''school_principal'' then ''principal'' else key)"

definition is_unique_admin_title :: "string option \<Rightarrow> bool" where
  "is_unique_admin_title role =
     (truthy role \<and> canonicalize_unique_title (the role) \<in> set UNIQUE_ADMIN_TITLES)"

definition unique_title_display_name :: "string \<Rightarrow> string" where
  "unique_title_display_name role =
     (let key = canonicalize_unique_title role
      in if key = ''school_owner'' then ''School Owner'' else if key = ''principal'' then ''Principal''
         else if key = ''head_teacher'' then ''Head Teacher'' else if key = ''headmaster'' then ''Headmaster''
         else if key = ''headmistress'' then ''Headmistress'' else trim role)"

definition is_school_owner_role :: "string option \<Rightarrow> bool" where
  "is_school_owner_role role = (truthy role \<and> canonicalize_unique_title (the role) = ''school_owner'')"

definition is_principal_role :: "string option \<Rightarrow> bool" where
  "is_principal_role role = (truthy role \<and> normalize_role_key (the role) \<in> set PRINCIPAL_ROLES)"

definition PRINCIPALISH_COMPACT :: "string list" where
  "PRINCIPALISH_COMPACT = [''principal'', ''schoolprincipal'', ''headteacher'', ''headmaster'', ''headmistress'',
     ''schoolowner'', ''proprietor'', ''proprietress'', ''hm'']"

definition looks_like_principal_title :: "string option \<Rightarrow> bool" where
  "looks_like_principal_title role =
     (truthy role \<and> filter (\<lambda>c. is_lower_char c \<or> is_digit_char c) (to_lower (the role)) \<in> set PRINCIPALISH_COMPACT)"

definition validate_unique_canonical_title ::
  "ident \<Rightarrow> string \<Rightarrow> ident option \<Rightarrow> perm_db \<Rightarrow> http_error + unit" where
  "validate_unique_canonical_title school role exclude db =
     (if \<not> is_unique_admin_title (Some role) then Inr ()
      else if list_ex (\<lambda>a. pa_school a = school \<and> Some (pa_id a) \<noteq> exclude \<and>
          canonicalize_unique_title (pa_title a) = canonicalize_unique_title role) (pd_admins db)
      then Inl (Conflict (''This school already has a '' @ unique_title_display_name role @ ''.''))
      else Inr ())"

definition assert_can_grant_principal_tier :: "string option \<Rightarrow> user_role option \<Rightarrow> http_error + unit" where
  "assert_can_grant_principal_tier admin_title role =
     (if role = Some ROLE_SUPER_ADMIN then Inr ()
      else if \<not> is_school_owner_role admin_title then
        Inl (Forbidden ''Only the School Owner can grant principal-level access'')
      else Inr ())"

definition assert_can_assign_principal_title ::
  "string option \<Rightarrow> string \<Rightarrow> user_role option \<Rightarrow> http_error + unit" where
  "assert_can_assign_principal_title admin_title target role =
     (if \<not> is_principal_role (Some target) then Inr ()
      else if canonicalize_unique_title target = ''school_owner'' then
        Inl (Forbidden ''Nobody else may be given the School Owner title.'')
      else if role = Some ROLE_SUPER_ADMIN then Inr ()
      else if \<not> is_school_owner_role admin_title then
        Inl (Forbidden ''Only the School Owner can assign principal-level titles'')
      else Inr ())"

section \<open>Guards\<close>

definition roles_guard :: "user_role list \<Rightarrow> user_role option \<Rightarrow> http_error + unit" where
  "roles_guard required role =
     (if required = [] then Inr ()
      else case role of
        None \<Rightarrow> Inl (Forbidden ''Authentication required'')
      | Some r \<Rightarrow> if r \<in> set required then Inr () else Inl (Forbidden ''Access denied.''))"

definition find_perm :: "ident \<Rightarrow> perm_db \<Rightarrow> perm_row option" where
  "find_perm p db = find (\<lambda>r. pr_id r = p) (pd_catalog db)"

definition has_grant :: "ident \<Rightarrow> permission_resource \<Rightarrow> permission_type list \<Rightarrow> perm_db \<Rightarrow> bool" where
  "has_grant admin res types db =
     list_ex (\<lambda>(a, p). a = admin \<and> (case find_perm p db of None \<Rightarrow> False
       | Some r \<Rightarrow> pr_resource r = res \<and> pr_type r \<in> set types)) (pd_grants db)"

definition seat_of :: "ident \<Rightarrow> ident \<Rightarrow> perm_db \<Rightarrow> perm_admin option" where
  "seat_of user school db = find (\<lambda>a. pa_user a = user \<and> pa_school a = school) (pd_admins db)"

definition allowed_types :: "permission_type \<Rightarrow> permission_type list" where
  "allowed_types required =
     (case required of
        PERM_WRITE \<Rightarrow> [PERM_ADMIN, PERM_WRITE]
      | PERM_READ \<Rightarrow> [PERM_ADMIN, PERM_WRITE, PERM_READ]
      | PERM_ADMIN \<Rightarrow> [PERM_ADMIN])"

text \<open>\<open>school\<close> is \<open>request.schoolId || user.currentSchoolId\<close>.\<close>

definition permission_guard ::
  "(permission_resource \<times> permission_type) option \<Rightarrow> user_role \<Rightarrow> ident \<Rightarrow> ident option \<Rightarrow> perm_db
    \<Rightarrow> http_error + unit" where
  "permission_guard required role user school db =
     (case required of
        None \<Rightarrow> Inr ()
      | Some (res, ty) \<Rightarrow>
          (case role of
             ROLE_SUPER_ADMIN \<Rightarrow> Inr ()
           | ROLE_SCHOOL_ADMIN \<Rightarrow>
               if \<not> truthy school then Inl (Forbidden ''School context required'')
               else (case seat_of user (the school) db of
                 None \<Rightarrow> Inl (Forbidden ''Admin profile not found'')
               | Some a \<Rightarrow>
                   if has_principal_access (Some (pa_tier a)) then Inr ()
                   else if has_grant (pa_id a) res [PERM_ADMIN] db then Inr ()
                   else if \<not> has_grant (pa_id a) res (allowed_types ty) db then
                     Inl (Forbidden ''You do not have that permission'')
                   else Inr ())
           | ROLE_TEACHER \<Rightarrow> Inr ()
           | ROLE_STUDENT \<Rightarrow> Inr ()))"

definition has_permission :: "ident \<Rightarrow> permission_resource \<Rightarrow> permission_type \<Rightarrow> perm_db \<Rightarrow> bool" where
  "has_permission admin res ty db = (has_grant admin res [PERM_ADMIN] db \<or> has_grant admin res [ty] db)"

section \<open>Assigning permissions\<close>

definition clear_grants :: "ident \<Rightarrow> (ident \<times> ident) list \<Rightarrow> (ident \<times> ident) list" where
  "clear_grants admin grants = filter (\<lambda>(a, p). a \<noteq> admin) grants"

definition update_admin :: "ident \<Rightarrow> (perm_admin \<Rightarrow> perm_admin) \<Rightarrow> perm_admin list \<Rightarrow> perm_admin list" where
  "update_admin i f admins = update_first (\<lambda>a. pa_id a = i) f admins"

text \<open>The caller, when given, is the user's role and id.\<close>

definition assign_permissions ::
  "ident \<Rightarrow> ident \<Rightarrow> ident list \<Rightarrow> (user_role \<times> ident) option \<Rightarrow> perm_db \<Rightarrow> http_error + perm_db" where
  "assign_permissions school admin ids caller db =
     (case find (\<lambda>a. pa_id a = admin \<and> pa_school a = school) (pd_admins db) of
        None \<Rightarrow> Inl (NotFound ''Admin not found'')
      | Some target \<Rightarrow>
          if has_principal_access (Some (pa_tier target)) then
            Inl (BadRequest ''Principal permissions cannot be modified. Principals have permanent full access to all school resources.'')
          else
            let write = (if length (filter (\<lambda>r. pr_id r \<in> set ids) (pd_catalog db)) \<noteq> length ids then
                  Inl (BadRequest ''One or more permissions not found'')
                else Inr (db\<lparr>
                  pd_grants := clear_grants admin (pd_grants db) @ map (\<lambda>p. (admin, p)) ids,
                  pd_admins := (if truthy (pa_template target)
                    then update_admin admin (\<lambda>a. a\<lparr>pa_customised := True\<rparr>) (pd_admins db)
                    else pd_admins db)\<rparr>))
            in (case caller of
                  Some (ROLE_SCHOOL_ADMIN, user) \<Rightarrow>
                    (case seat_of user school db of
                       None \<Rightarrow> Inl (Forbidden ''You do not have access to this school'')
                     | Some c \<Rightarrow>
                         if \<not> has_principal_access (Some (pa_tier c)) then
                           Inl (Forbidden ''Only Principal-level administrators can assign or modify permissions.'')
                         else write)
                | _ \<Rightarrow> write))"

text \<open>\<open>createMany\<close> with \<open>skipDuplicates\<close>.\<close>

definition add_grants :: "ident \<Rightarrow> ident list \<Rightarrow> (ident \<times> ident) list \<Rightarrow> (ident \<times> ident) list" where
  "add_grants admin ids grants =
     fold (\<lambda>p gs. if (admin, p) \<in> set gs then gs else gs @ [(admin, p)]) ids grants"

definition migrate_existing_admins :: "ident \<Rightarrow> perm_db \<Rightarrow> http_error + (nat \<times> nat) \<times> perm_db" where
  "migrate_existing_admins school db =
     (let reads = map pr_id (filter (\<lambda>r. pr_type r = PERM_READ) (pd_catalog db));
          admins = filter (\<lambda>a. pa_school a = school) (pd_admins db);
          todo = filter (\<lambda>a. \<not> has_principal_access (Some (pa_tier a)) \<and>
            \<not> list_ex (\<lambda>(b, p). b = pa_id a) (pd_grants db)) admins
      in if reads = [] then
           Inl (BadRequest ''No READ permissions found. Please initialize permissions first.'')
         else Inr ((length todo, length admins - length todo),
           db\<lparr>pd_grants := fold (\<lambda>a gs. add_grants (pa_id a) reads gs) todo (pd_grants db)\<rparr>))"

section \<open>The catalog and the built-in bundles\<close>

text \<open>\<open>upsert\<close> on (resource, type) for every pair; \<open>new_id\<close> gives the ids of created rows.\<close>

definition initialize_default_permissions ::
  "(permission_resource \<Rightarrow> permission_type \<Rightarrow> ident) \<Rightarrow> perm_db \<Rightarrow> perm_db" where
  "initialize_default_permissions new_id db =
     (if length all_resources * length all_types \<le> length (pd_catalog db) then db
      else db\<lparr>pd_catalog :=
        fold (\<lambda>(res, ty) cat. if list_ex (\<lambda>r. pr_resource r = res \<and> pr_type r = ty) cat then cat
            else cat @ [\<lparr>pr_id = new_id res ty, pr_resource = res, pr_type = ty\<rparr>])
          (List.product all_resources all_types) (pd_catalog db)\<rparr>)"

record builtin_template =
  bt_slug :: string
  bt_name :: string
  bt_description :: string
  bt_suggested :: string
  bt_permissions :: "(permission_resource \<times> permission_type) list"

text \<open>The dashes of the descriptions are written as hyphens.\<close>

definition BUILT_IN_ROLE_TEMPLATES :: "builtin_template list" where
  "BUILT_IN_ROLE_TEMPLATES = [
    \<lparr>bt_slug = ''bursar'', bt_name = ''Bursar'',
      bt_description = ''Fees, admissions paperwork and the student register - no academics.'',
      bt_suggested = ''Bursar'', bt_permissions =
       [(RES_OVERVIEW, PERM_READ), (RES_STUDENTS, PERM_READ), (RES_ADMISSIONS, PERM_READ),
        (RES_ADMISSIONS, PERM_WRITE), (RES_TRANSFERS, PERM_READ), (RES_SETTINGS, PERM_READ)]\<rparr>,
    \<lparr>bt_slug = ''academic-head'', bt_name = ''Academic Head'',
      bt_description = ''Runs teaching and learning: classes, subjects, curriculum, grades.'',
      bt_suggested = ''Head of Academics'', bt_permissions =
       [(RES_OVERVIEW, PERM_READ), (RES_CLASSES, PERM_READ), (RES_CLASSES, PERM_WRITE),
        (RES_SUBJECTS, PERM_READ), (RES_SUBJECTS, PERM_WRITE), (RES_CURRICULUM, PERM_READ),
        (RES_CURRICULUM, PERM_WRITE), (RES_SCHEME_OF_WORK, PERM_READ),
        (RES_SCHEME_OF_WORK, PERM_WRITE), (RES_GRADES, PERM_READ), (RES_GRADES, PERM_WRITE),
        (RES_TIMETABLES, PERM_READ), (RES_STUDENTS, PERM_READ), (RES_STAFF, PERM_READ)]\<rparr>,
    \<lparr>bt_slug = ''exams-officer'', bt_name = ''Exams Officer'',
      bt_description = ''Timetables, exam scheduling and results entry.'',
      bt_suggested = ''Exams Officer'', bt_permissions =
       [(RES_OVERVIEW, PERM_READ), (RES_TIMETABLES, PERM_READ), (RES_TIMETABLES, PERM_WRITE),
        (RES_GRADES, PERM_READ), (RES_GRADES, PERM_WRITE), (RES_CALENDAR, PERM_READ),
        (RES_CLASSES, PERM_READ), (RES_SUBJECTS, PERM_READ), (RES_STUDENTS, PERM_READ)]\<rparr>,
    \<lparr>bt_slug = ''registrar'', bt_name = ''Registrar'',
      bt_description = ''Admissions, enrolment and transfers, end to end.'',
      bt_suggested = ''Registrar'', bt_permissions =
       [(RES_OVERVIEW, PERM_READ), (RES_STUDENTS, PERM_READ), (RES_STUDENTS, PERM_WRITE),
        (RES_ADMISSIONS, PERM_READ), (RES_ADMISSIONS, PERM_WRITE), (RES_TRANSFERS, PERM_READ),
        (RES_TRANSFERS, PERM_WRITE), (RES_CLASSES, PERM_READ), (RES_SESSIONS, PERM_READ)]\<rparr>,
    \<lparr>bt_slug = ''front-desk'', bt_name = ''Front Desk'',
      bt_description = ''Look-up only: who is enrolled, who teaches what, what is on today.'',
      bt_suggested = ''Administrator'', bt_permissions =
       [(RES_OVERVIEW, PERM_READ), (RES_STUDENTS, PERM_READ), (RES_STAFF, PERM_READ),
        (RES_CLASSES, PERM_READ), (RES_CALENDAR, PERM_READ), (RES_EVENTS, PERM_READ),
        (RES_TIMETABLES, PERM_READ)]\<rparr>,
    \<lparr>bt_slug = ''deputy-head'', bt_name = ''Deputy Head'',
      bt_description = ''Broad oversight across the school, including inviting and removing staff. Stops short of billing.'',
      bt_suggested = ''Vice Principal'', bt_permissions =
       [(RES_OVERVIEW, PERM_READ), (RES_ANALYTICS, PERM_READ), (RES_STUDENTS, PERM_READ),
        (RES_STUDENTS, PERM_WRITE), (RES_STAFF, PERM_READ), (RES_STAFF, PERM_WRITE),
        (RES_STAFF, PERM_ADMIN), (RES_CLASSES, PERM_READ), (RES_CLASSES, PERM_WRITE),
        (RES_SUBJECTS, PERM_READ), (RES_SUBJECTS, PERM_WRITE), (RES_CURRICULUM, PERM_READ),
        (RES_SCHEME_OF_WORK, PERM_READ), (RES_GRADES, PERM_READ), (RES_GRADES, PERM_WRITE),
        (RES_TIMETABLES, PERM_READ), (RES_TIMETABLES, PERM_WRITE), (RES_CALENDAR, PERM_READ),
        (RES_CALENDAR, PERM_WRITE), (RES_ADMISSIONS, PERM_READ), (RES_EVENTS, PERM_READ),
        (RES_SETTINGS, PERM_READ)]\<rparr>]"

text \<open>\<open>idFor\<close>: the last row of a pair wins, as in the \<open>Map\<close> constructor.\<close>

definition id_for :: "perm_row list \<Rightarrow> permission_resource \<times> permission_type \<Rightarrow> ident option" where
  "id_for catalog = (\<lambda>(res, ty). map_option pr_id
     (find (\<lambda>r. pr_resource r = res \<and> pr_type r = ty) (rev catalog)))"

definition builtin_row :: "perm_row list \<Rightarrow> ident \<Rightarrow> builtin_template \<Rightarrow> role_template" where
  "builtin_row catalog new_id b =
     \<lparr>rt_id = new_id, rt_school = None, rt_name = bt_name b, rt_slug = Some (bt_slug b),
      rt_description = Some (bt_description b), rt_suggested = Some (bt_suggested b),
      rt_permissions = List.map_filter (\<lambda>w. or_undefined (id_for catalog w)) (bt_permissions b), rt_system = True\<rparr>"

definition seed_template ::
  "perm_row list \<Rightarrow> (string \<Rightarrow> ident) \<Rightarrow> builtin_template \<Rightarrow> role_template list \<Rightarrow> role_template list" where
  "seed_template catalog new_id b templates =
     (let mine = (\<lambda>t. rt_school t = None \<and> rt_slug t = Some (bt_slug b))
      in case find mine templates of
           Some e \<Rightarrow> update_first (\<lambda>t. rt_id t = rt_id e)
             (\<lambda>t. t\<lparr>rt_name := bt_name b, rt_description := Some (bt_description b),
               rt_suggested := Some (bt_suggested b),
               rt_permissions := rt_permissions (builtin_row catalog [] b), rt_system := True\<rparr>) templates
         | None \<Rightarrow> templates @ [builtin_row catalog (new_id (bt_slug b)) b])"

definition initialize_built_in_role_templates :: "(string \<Rightarrow> ident) \<Rightarrow> perm_db \<Rightarrow> perm_db" where
  "initialize_built_in_role_templates new_id db =
     (if pd_catalog db = [] then db
      else db\<lparr>pd_templates := fold (seed_template (pd_catalog db) new_id) BUILT_IN_ROLE_TEMPLATES (pd_templates db)\<rparr>)"

section \<open>Role templates of a school\<close>

definition visible_template :: "ident \<Rightarrow> role_template \<Rightarrow> bool" where
  "visible_template school t = (rt_school t = Some school \<or> rt_school t = None)"

record template_view =
  tv_id :: ident
  tv_built_in :: bool
  tv_permissions :: "perm_row list"
  tv_holders :: nat
  tv_customised :: nat

text \<open>\<open>orderBy: [schoolId asc, name asc]\<close>; the database sorts a null last.\<close>

definition list_templates :: "ident \<Rightarrow> perm_db \<Rightarrow> template_view list" where
  "list_templates school db =
     (let holders = filter (\<lambda>a. pa_school a = school \<and> pa_template a \<noteq> None) (pd_admins db)
      in map (\<lambda>t. let mine = filter (\<lambda>a. pa_template a = Some (rt_id t)) holders
             in \<lparr>tv_id = rt_id t, tv_built_in = (rt_school t = None),
                 tv_permissions = List.map_filter (\<lambda>p. find (\<lambda>r. pr_id r = p) (rev (pd_catalog db))) (rt_permissions t),
                 tv_holders = length mine, tv_customised = length (filter pa_customised mine)\<rparr>)
           (sort_key (\<lambda>t. (rt_school t = None, rt_name t)) (filter (visible_template school) (pd_templates db))))"

definition resolve_permission_ids ::
  "(permission_resource \<times> permission_type) list \<Rightarrow> perm_db \<Rightarrow> http_error + ident list" where
  "resolve_permission_ids wanted db =
     (let rows = filter (\<lambda>r. (pr_resource r, pr_type r) \<in> set wanted) (pd_catalog db)
      in if rows = [] then Inl (BadRequest ''None of those permissions exist'') else Inr (map pr_id rows))"

definition assert_name_free :: "ident \<Rightarrow> string \<Rightarrow> perm_db \<Rightarrow> http_error + unit" where
  "assert_name_free school name db =
     (case find (\<lambda>t. to_lower (rt_name t) = to_lower name \<and> visible_template school t) (pd_templates db) of
        None \<Rightarrow> Inr ()
      | Some t \<Rightarrow> Inl (Conflict (if rt_school t = None then [CHR 0x22] @ name @ [CHR 0x22] @ '' is a built-in role. Pick a different name.''
          else ''You already have a role called '' @ [CHR 0x22] @ name @ [CHR 0x22] @ ''.'')))"

record template_dto =
  td_name :: "string option"
  td_description :: "string option option"
  td_suggested :: "string option option"
  td_wanted :: "(permission_resource \<times> permission_type) list option"

text \<open>
  A field of the request that is absent is None; \<open>td_description\<close> and \<open>td_suggested\<close> tell an
  absent field from an explicit null.
\<close>

definition trimmed_or_null :: "string option \<Rightarrow> string option" where
  "trimmed_or_null s = or_undefined (map_option trim s)"

definition create_template :: "ident \<Rightarrow> ident \<Rightarrow> template_dto \<Rightarrow> perm_db \<Rightarrow> http_error + perm_db" where
  "create_template new_id school dto db =
     (case resolve_permission_ids (nullish (td_wanted dto) []) db of
        Inl e \<Rightarrow> Inl e
      | Inr ids \<Rightarrow>
          let name = trim (nullish (td_name dto) [])
          in (case assert_name_free school name db of
                Inl e \<Rightarrow> Inl e
              | Inr _ \<Rightarrow> Inr (db\<lparr>pd_templates := pd_templates db @
                  [\<lparr>rt_id = new_id, rt_school = Some school, rt_name = name, rt_slug = None,
                    rt_description = trimmed_or_null (nullish (td_description dto) None),
                    rt_suggested = trimmed_or_null (nullish (td_suggested dto) None),
                    rt_permissions = ids, rt_system = False\<rparr>]\<rparr>)))"

definition own_template :: "ident \<Rightarrow> ident \<Rightarrow> perm_db \<Rightarrow> http_error + role_template" where
  "own_template school i db =
     (case find (\<lambda>t. rt_id t = i) (pd_templates db) of
        None \<Rightarrow> Inl (NotFound ''Role template not found'')
      | Some t \<Rightarrow>
          if rt_school t \<noteq> Some school \<and> rt_school t \<noteq> None then Inl (NotFound ''Role template not found'')
          else if rt_school t = None then
            Inl (BadRequest ''Built-in roles cannot be edited. Create your own version of it instead.'')
          else Inr t)"

definition update_template :: "ident \<Rightarrow> ident \<Rightarrow> template_dto \<Rightarrow> perm_db \<Rightarrow> http_error + perm_db" where
  "update_template school i dto db =
     (case own_template school i db of
        Inl e \<Rightarrow> Inl e
      | Inr t \<Rightarrow>
          let name = map_option trim (td_name dto);
              write = (\<lambda>ids. Inr (db\<lparr>pd_templates := update_first (\<lambda>u. rt_id u = rt_id t)
                (\<lambda>u. u\<lparr>rt_name := (if truthy name then the name else rt_name u),
                  rt_description := (case td_description dto of None \<Rightarrow> rt_description u | Some d \<Rightarrow> trimmed_or_null d),
                  rt_suggested := (case td_suggested dto of None \<Rightarrow> rt_suggested u | Some d \<Rightarrow> trimmed_or_null d),
                  rt_permissions := nullish ids (rt_permissions u)\<rparr>) (pd_templates db)\<rparr>));
              store = (case td_wanted dto of
                  None \<Rightarrow> write None
                | Some w \<Rightarrow> (case resolve_permission_ids w db of Inl e \<Rightarrow> Inl e | Inr ids \<Rightarrow> write (Some ids)))
          in if truthy name \<and> name \<noteq> Some (rt_name t) then
               (case assert_name_free school (the name) db of Inl e \<Rightarrow> Inl e | Inr _ \<Rightarrow> store)
             else store)"

text \<open>Deleting a template: the foreign key of its holders becomes null (\<open>onDelete: SetNull\<close>).\<close>

definition remove_template :: "ident \<Rightarrow> ident \<Rightarrow> perm_db \<Rightarrow> http_error + perm_db" where
  "remove_template school i db =
     (case own_template school i db of
        Inl e \<Rightarrow> Inl e
      | Inr t \<Rightarrow> Inr (db\<lparr>pd_templates := filter (\<lambda>u. rt_id u \<noteq> rt_id t) (pd_templates db),
          pd_admins := map (\<lambda>a. if pa_template a = Some (rt_id t) then a\<lparr>pa_template := None\<rparr> else a) (pd_admins db)\<rparr>))"

record reapply_counts =
  rc_updated :: nat
  rc_customised :: nat
  rc_principals :: nat

definition reapply_to :: "role_template \<Rightarrow> perm_admin \<Rightarrow> perm_db \<Rightarrow> perm_db" where
  "reapply_to t h db =
     db\<lparr>pd_grants := add_grants (pa_id h) (rt_permissions t) (clear_grants (pa_id h) (pd_grants db)),
        pd_admins := update_admin (pa_id h) (\<lambda>a. a\<lparr>pa_customised := False\<rparr>) (pd_admins db)\<rparr>"

definition reapply_eligible :: "bool \<Rightarrow> perm_admin \<Rightarrow> bool" where
  "reapply_eligible include_customised h =
     (\<not> has_principal_access (Some (pa_tier h)) \<and> (include_customised \<or> \<not> pa_customised h))"

definition template_holders :: "ident \<Rightarrow> ident \<Rightarrow> perm_db \<Rightarrow> perm_admin list" where
  "template_holders school t db = filter (\<lambda>a. pa_school a = school \<and> pa_template a = Some t) (pd_admins db)"

definition reapply :: "ident \<Rightarrow> ident \<Rightarrow> bool \<Rightarrow> perm_db \<Rightarrow> http_error + reapply_counts \<times> perm_db" where
  "reapply school i include_customised db =
     (case find (\<lambda>t. rt_id t = i \<and> visible_template school t) (pd_templates db) of
        None \<Rightarrow> Inl (NotFound ''Role template not found'')
      | Some t \<Rightarrow>
          let holders = template_holders school (rt_id t) db
          in Inr (\<lparr>rc_updated = length (filter (reapply_eligible include_customised) holders),
                 rc_customised = length (filter (\<lambda>h. \<not> has_principal_access (Some (pa_tier h)) \<and>
                   pa_customised h \<and> \<not> include_customised) holders),
                 rc_principals = length (filter (\<lambda>h. has_principal_access (Some (pa_tier h))) holders)\<rparr>,
               fold (reapply_to t) (filter (reapply_eligible include_customised) holders) db))"

definition permission_ids_for_template :: "ident \<Rightarrow> ident \<Rightarrow> perm_db \<Rightarrow> http_error + ident list" where
  "permission_ids_for_template school i db =
     (case find (\<lambda>t. rt_id t = i \<and> visible_template school t) (pd_templates db) of
        None \<Rightarrow> Inl (BadRequest ''That access template does not exist for this school'')
      | Some t \<Rightarrow> Inr (rt_permissions t))"

end
