(* ===== verification/PermissionFacts.thy ===== *)
theory PermissionFacts
  imports Permissions
begin

text \<open>
  Correctness of the permission system: what the guard decides, what assigning permissions and
  re-applying a role template do to the grants, that no operation ever changes the grants or
  the tier of a principal (over all runs, by an interpretation of \<open>step_system\<close>), and what the
  built-in bundles grant.
\<close>

section \<open>Grants of one admin\<close>

definition grants_of :: "ident \<Rightarrow> perm_db \<Rightarrow> ident set" where
  "grants_of admin db = {p. (admin, p) \<in> set (pd_grants db)}"

lemma has_grant_iff:
  "has_grant admin res types db \<longleftrightarrow>
    (\<exists>p r. p \<in> grants_of admin db \<and> find_perm p db = Some r \<and> pr_resource r = res \<and> pr_type r \<in> set types)"
  by (auto simp: has_grant_def grants_of_def list_ex_iff split: option.splits) force+

lemma allowed_types_above: "ty' \<in> set (allowed_types ty) \<longleftrightarrow> ty \<le> ty'"
  by (cases ty; cases ty') (simp_all add: allowed_types_def less_eq_permission_type_def)

lemma clear_grants_set [simp]: "set (clear_grants admin gs) = {(a, p) \<in> set gs. a \<noteq> admin}"
  by (auto simp: clear_grants_def)

lemma add_grants_set [simp]: "set (add_grants admin ids gs) = Pair admin ` set ids \<union> set gs"
  unfolding add_grants_def by (induction ids arbitrary: gs) auto

lemma add_grants_distinct: "distinct gs \<Longrightarrow> distinct (add_grants admin ids gs)"
  unfolding add_grants_def by (induction ids arbitrary: gs) auto

lemma find_admin_update:
  "(\<And>a. pa_id (f a) = pa_id a) \<Longrightarrow> find (\<lambda>a. pa_id a = i) (update_admin j f admins) =
    map_option (\<lambda>a. if i = j then f a else a) (find (\<lambda>a. pa_id a = i) admins)"
  unfolding update_admin_def by (induction admins) (auto simp: option.map_ident)

section \<open>The guard\<close>

text \<open>
  C12: the guard lets a school admin through exactly when the request has a school, the user has a
  seat there, and the seat is principal tier or holds a permission on the resource at the
  required level or above (READ below WRITE below ADMIN); it never restricts the other roles.
\<close>

theorem permission_guard_correct:
  "permission_guard (Some (res, ty)) role user school db = Inr () \<longleftrightarrow>
    (role = ROLE_SCHOOL_ADMIN \<longrightarrow> (\<exists>s a. school = Some s \<and> s \<noteq> [] \<and> seat_of user s db = Some a \<and>
      (pa_tier a = PRINCIPAL_TIER \<or>
       (\<exists>p r. p \<in> grants_of (pa_id a) db \<and> find_perm p db = Some r \<and> pr_resource r = res \<and> ty \<le> pr_type r))))"
proof (cases "role = ROLE_SCHOOL_ADMIN \<and> truthy school")
  case True
  then obtain s where s: "school = Some s" "s \<noteq> []" by (auto simp: truthy_def split: option.splits)
  have "has_grant i res [PERM_ADMIN] db \<Longrightarrow> has_grant i res (allowed_types ty) db" for i
    by (auto simp: has_grant_iff allowed_types_def split: permission_type.splits)
  then show ?thesis
    using True s unfolding permission_guard_def
    by (auto simp: has_principal_access_def has_grant_iff allowed_types_above split: option.splits)
next
  case False
  then show ?thesis
    by (cases role) (auto simp: permission_guard_def truthy_def split: option.splits)
qed

section \<open>Assigning\<close>

lemma assign_permissions_Inr:
  assumes "assign_permissions school admin ids caller db = Inr db'"
  obtains target where "find (\<lambda>a. pa_id a = admin \<and> pa_school a = school) (pd_admins db) = Some target"
    "pa_tier target \<noteq> PRINCIPAL_TIER"
    "\<And>user. caller = Some (ROLE_SCHOOL_ADMIN, user) \<Longrightarrow>
       \<exists>c. seat_of user school db = Some c \<and> pa_tier c = PRINCIPAL_TIER"
    "length (filter (\<lambda>r. pr_id r \<in> set ids) (pd_catalog db)) = length ids"
    "db' = db\<lparr>pd_grants := clear_grants admin (pd_grants db) @ map (\<lambda>p. (admin, p)) ids,
       pd_admins := (if truthy (pa_template target)
         then update_admin admin (\<lambda>a. a\<lparr>pa_customised := True\<rparr>) (pd_admins db) else pd_admins db)\<rparr>"
proof -
  obtain target where t: "find (\<lambda>a. pa_id a = admin \<and> pa_school a = school) (pd_admins db) = Some target"
    using assms by (auto simp: assign_permissions_def split: option.splits)
  note res = assms[unfolded assign_permissions_def t option.case Let_def has_principal_access_def option.inject]
  show thesis
    by (rule that[OF t]; use res in \<open>auto split: if_splits option.splits user_role.splits prod.splits\<close>)
qed

text \<open>
  When an assignment is accepted, the target is a staff-tier admin of that school, a school
  admin who asked for it is a principal there, the target's grants become exactly the
  requested ones (all in the catalog), and nobody else's grants change.
\<close>

theorem assign_permissions_correct:
  assumes cat: "distinct (map pr_id (pd_catalog db))" and ok: "assign_permissions school admin ids caller db = Inr db'"
  shows "(\<exists>a\<in>set (pd_admins db). pa_id a = admin \<and> pa_school a = school \<and> pa_tier a = STAFF_TIER) \<and>
    (\<forall>user. caller = Some (ROLE_SCHOOL_ADMIN, user) \<longrightarrow>
      (\<exists>c. seat_of user school db = Some c \<and> pa_tier c = PRINCIPAL_TIER)) \<and>
    distinct ids \<and> set ids \<subseteq> pr_id ` set (pd_catalog db) \<and>
    grants_of admin db' = set ids \<and> (\<forall>b. b \<noteq> admin \<longrightarrow> grants_of b db' = grants_of b db)"
proof -
  obtain target where t: "find (\<lambda>a. pa_id a = admin \<and> pa_school a = school) (pd_admins db) = Some target"
      "pa_tier target \<noteq> PRINCIPAL_TIER"
    and c: "\<And>user. caller = Some (ROLE_SCHOOL_ADMIN, user) \<Longrightarrow>
       \<exists>c. seat_of user school db = Some c \<and> pa_tier c = PRINCIPAL_TIER"
    and len: "length (filter (\<lambda>r. pr_id r \<in> set ids) (pd_catalog db)) = length ids"
    and db': "db' = db\<lparr>pd_grants := clear_grants admin (pd_grants db) @ map (\<lambda>p. (admin, p)) ids,
       pd_admins := (if truthy (pa_template target)
         then update_admin admin (\<lambda>a. a\<lparr>pa_customised := True\<rparr>) (pd_admins db) else pd_admins db)\<rparr>"
    using assign_permissions_Inr[OF ok] by blast
  let ?found = "filter (\<lambda>p. p \<in> set ids) (map pr_id (pd_catalog db))"
  have "length ?found = length ids" using len by (simp add: filter_map comp_def)
  moreover have dist: "distinct ?found" using cat by (rule distinct_filter)
  moreover have sub: "set ?found \<subseteq> set ids" by auto
  ultimately have "length ids \<le> card (set ids)"
    by (metis List.finite_set card_mono distinct_card)
  then have d: "distinct ids" using card_length[of ids] by (intro card_distinct) simp
  have "set ?found = set ids"
    by (rule card_subset_eq[OF _ sub])
      (simp, metis \<open>length ?found = length ids\<close> d dist distinct_card)
  then have s: "set ids \<subseteq> pr_id ` set (pd_catalog db)" by auto
  have g: "grants_of admin db' = set ids" "\<forall>b. b \<noteq> admin \<longrightarrow> grants_of b db' = grants_of b db"
    by (auto simp: db' grants_of_def)
  have "pa_tier target = STAFF_TIER" using t(2) by (cases "pa_tier target") auto
  then have "\<exists>a\<in>set (pd_admins db). pa_id a = admin \<and> pa_school a = school \<and> pa_tier a = STAFF_TIER"
    using find_Some_in[OF t(1)] by blast
  then show ?thesis using c d s g by blast
qed

section \<open>Re-applying a template\<close>

lemma grants_reapply_to:
  "grants_of b (reapply_to t h db) = (if b = pa_id h then set (rt_permissions t) else grants_of b db)"
  by (auto simp: reapply_to_def grants_of_def)

lemma grants_reapply_fold:
  "grants_of b (fold (reapply_to t) hs db) =
     (if b \<in> pa_id ` set hs then set (rt_permissions t) else grants_of b db)"
  by (induction hs arbitrary: db) (auto simp: grants_reapply_to)

lemma admin_reapply_fold:
  "find (\<lambda>a. pa_id a = b) (pd_admins (fold (reapply_to t) hs db)) =
     map_option (\<lambda>a. if b \<in> pa_id ` set hs then a\<lparr>pa_customised := False\<rparr> else a)
       (find (\<lambda>a. pa_id a = b) (pd_admins db))"
proof (induction hs arbitrary: db)
  case (Cons h hs)
  have "find (\<lambda>a. pa_id a = b) (pd_admins (reapply_to t h db)) =
      map_option (\<lambda>a. if b = pa_id h then a\<lparr>pa_customised := False\<rparr> else a) (find (\<lambda>a. pa_id a = b) (pd_admins db))"
    by (simp add: reapply_to_def find_admin_update)
  then show ?case
    by (cases "find (\<lambda>a. pa_id a = b) (pd_admins db)") (auto simp: Cons.IH)
qed (simp add: option.map_ident)

lemma holder_found:
  "distinct (map pa_id admins) \<Longrightarrow> a \<in> set admins \<Longrightarrow> find (\<lambda>x. pa_id x = pa_id a) admins = Some a"
  by (induction admins) force+

text \<open>
  Re-applying a template gives every eligible holder exactly the template's permissions and
  clears the mark of a hand edit; principals and, unless asked for, hand-edited holders keep
  what they had, as does everybody who does not hold it; the three counts add up to the holders.
\<close>

theorem reapply_correct:
  assumes ids: "distinct (map pa_id (pd_admins db))"
    and t: "find (\<lambda>t. rt_id t = i \<and> visible_template school t) (pd_templates db) = Some t"
  shows "\<exists>n db'. reapply school i force db = Inr (n, db') \<and>
    rc_updated n + rc_customised n + rc_principals n = length (template_holders school i db) \<and>
    (\<forall>h\<in>set (template_holders school i db). reapply_eligible force h \<longrightarrow>
       grants_of (pa_id h) db' = set (rt_permissions t) \<and>
       find (\<lambda>a. pa_id a = pa_id h) (pd_admins db') = Some (h\<lparr>pa_customised := False\<rparr>)) \<and>
    (\<forall>a\<in>set (pd_admins db). \<not> (a \<in> set (template_holders school i db) \<and> reapply_eligible force a) \<longrightarrow>
       grants_of (pa_id a) db' = grants_of (pa_id a) db \<and>
       find (\<lambda>b. pa_id b = pa_id a) (pd_admins db') = Some a)"
proof -
  have i: "rt_id t = i" using find_Some_in[OF t] by simp
  let ?hs = "filter (reapply_eligible force) (template_holders school i db)"
  have counts: "length (filter (reapply_eligible force) hs) +
      length (filter (\<lambda>h. \<not> has_principal_access (Some (pa_tier h)) \<and> pa_customised h \<and> \<not> force) hs) +
      length (filter (\<lambda>h. has_principal_access (Some (pa_tier h))) hs) = length hs" for hs
    by (induction hs) (auto simp: reapply_eligible_def)
  have mem: "a \<in> set (pd_admins db)" if "a \<in> set (template_holders school i db)" for a
    using that by (simp add: template_holders_def)
  have elig: "pa_id a \<in> pa_id ` set ?hs \<longleftrightarrow> a \<in> set ?hs" if "a \<in> set (pd_admins db)" for a
    using that mem ids by (auto simp: distinct_map inj_on_def)
  define n where "n = \<lparr>rc_updated = length ?hs,
    rc_customised = length (filter (\<lambda>h. \<not> has_principal_access (Some (pa_tier h)) \<and> pa_customised h \<and> \<not> force)
      (template_holders school i db)),
    rc_principals = length (filter (\<lambda>h. has_principal_access (Some (pa_tier h))) (template_holders school i db))\<rparr>"
  have "reapply school i force db = Inr (n, fold (reapply_to t) ?hs db)"
    unfolding reapply_def t option.case Let_def i n_def ..
  then show ?thesis
    by (intro exI[of _ n] exI[of _ "fold (reapply_to t) ?hs db"] conjI ballI impI)
      (use mem elig in \<open>auto simp: n_def counts grants_reapply_fold admin_reapply_fold holder_found[OF ids]\<close>)
qed

section \<open>Principals are never touched\<close>

datatype permission_event =
    PeAssign ident ident "ident list" "(user_role \<times> ident) option"
  | PeMigrate ident
  | PeInitCatalog "permission_resource \<Rightarrow> permission_type \<Rightarrow> ident"
  | PeInitTemplates "string \<Rightarrow> ident"
  | PeCreateTemplate ident ident template_dto
  | PeUpdateTemplate ident ident template_dto
  | PeRemoveTemplate ident ident
  | PeReapply ident ident bool

fun permission_step :: "permission_event \<Rightarrow> perm_db \<Rightarrow> perm_db" where
  "permission_step (PeAssign school admin ids caller) db =
     (case assign_permissions school admin ids caller db of Inl _ \<Rightarrow> db | Inr db' \<Rightarrow> db')"
| "permission_step (PeMigrate school) db =
     (case migrate_existing_admins school db of Inl _ \<Rightarrow> db | Inr (_, db') \<Rightarrow> db')"
| "permission_step (PeInitCatalog new_id) db = initialize_default_permissions new_id db"
| "permission_step (PeInitTemplates new_id) db = initialize_built_in_role_templates new_id db"
| "permission_step (PeCreateTemplate i school dto) db =
     (case create_template i school dto db of Inl _ \<Rightarrow> db | Inr db' \<Rightarrow> db')"
| "permission_step (PeUpdateTemplate school i dto) db =
     (case update_template school i dto db of Inl _ \<Rightarrow> db | Inr db' \<Rightarrow> db')"
| "permission_step (PeRemoveTemplate school i) db =
     (case remove_template school i db of Inl _ \<Rightarrow> db | Inr db' \<Rightarrow> db')"
| "permission_step (PeReapply school i force) db =
     (case reapply school i force db of Inl _ \<Rightarrow> db | Inr (_, db') \<Rightarrow> db')"

definition principal_holds :: "ident \<Rightarrow> ident set \<Rightarrow> perm_db \<Rightarrow> bool" where
  "principal_holds p gs db =
     (distinct (map pa_id (pd_admins db)) \<and> (p, PRINCIPAL_TIER) \<in> (\<lambda>a. (pa_id a, pa_tier a)) ` set (pd_admins db) \<and>
      grants_of p db = gs)"

lemma principal_unique:
  "principal_holds p gs db \<Longrightarrow> a \<in> set (pd_admins db) \<Longrightarrow> pa_tier a \<noteq> PRINCIPAL_TIER \<Longrightarrow> pa_id a \<noteq> p"
  by (auto simp: principal_holds_def distinct_map inj_on_def)

lemma principal_holds_frame:
  "principal_holds p gs db \<Longrightarrow> map (\<lambda>a. (pa_id a, pa_tier a)) (pd_admins db') = map (\<lambda>a. (pa_id a, pa_tier a)) (pd_admins db)
    \<Longrightarrow> grants_of p db' = grants_of p db \<Longrightarrow> principal_holds p gs db'"
  unfolding principal_holds_def
  by (metis (no_types, lifting) fst_conv list.map_comp list.set_map map_eq_conv comp_apply)

lemma admin_keys [simp]:
  "(\<And>a. pa_id (f a) = pa_id a) \<Longrightarrow> (\<And>a. pa_tier (f a) = pa_tier a) \<Longrightarrow>
    map (\<lambda>a. (pa_id a, pa_tier a)) (update_admin i f admins) = map (\<lambda>a. (pa_id a, pa_tier a)) admins"
  unfolding update_admin_def by (rule map_update_first_frame) simp

lemma reapply_keys:
  "map (\<lambda>a. (pa_id a, pa_tier a)) (pd_admins (fold (reapply_to t) hs db)) =
    map (\<lambda>a. (pa_id a, pa_tier a)) (pd_admins db)"
  by (induction hs arbitrary: db) (simp_all add: reapply_to_def)

lemma migrate_grants:
  "p \<notin> pa_id ` set as \<Longrightarrow> (p, g) \<in> set (fold (\<lambda>a gs. add_grants (pa_id a) ids gs) as gs) \<longleftrightarrow> (p, g) \<in> set gs"
  by (induction as arbitrary: gs) auto

lemma assign_keeps:
  assumes "principal_holds p gs db" "assign_permissions school admin ids caller db = Inr db'"
  shows "principal_holds p gs db'"
proof (rule assign_permissions_Inr[OF assms(2)])
  fix target
  assume t: "find (\<lambda>a. pa_id a = admin \<and> pa_school a = school) (pd_admins db) = Some target"
    "pa_tier target \<noteq> PRINCIPAL_TIER"
    and db': "db' = db\<lparr>pd_grants := clear_grants admin (pd_grants db) @ map (\<lambda>p. (admin, p)) ids,
       pd_admins := (if truthy (pa_template target)
         then update_admin admin (\<lambda>a. a\<lparr>pa_customised := True\<rparr>) (pd_admins db) else pd_admins db)\<rparr>"
  have "p \<noteq> admin" using principal_unique[OF assms(1) _ t(2)] find_Some_in[OF t(1)] by auto
  then show ?thesis by (intro principal_holds_frame[OF assms(1)]) (auto simp: db' grants_of_def)
qed

lemma migrate_keeps:
  assumes "principal_holds p gs db" "migrate_existing_admins school db = Inr (n, db')"
  shows "principal_holds p gs db'"
proof -
  let ?todo = "filter (\<lambda>a. \<not> has_principal_access (Some (pa_tier a)) \<and> \<not> list_ex (\<lambda>(b, p). b = pa_id a) (pd_grants db))
    (filter (\<lambda>a. pa_school a = school) (pd_admins db))"
  have "p \<notin> pa_id ` set ?todo"
    using principal_unique[OF assms(1)] by (auto simp: has_principal_access_def)
  then show ?thesis using assms(2) migrate_grants[of p ?todo]
    by (intro principal_holds_frame[OF assms(1)])
      (auto simp: migrate_existing_admins_def Let_def grants_of_def split: if_splits)
qed

lemma reapply_keeps:
  assumes "principal_holds p gs db" "reapply school i force db = Inr (n, db')"
  shows "principal_holds p gs db'"
proof -
  obtain t where db': "db' = fold (reapply_to t) (filter (reapply_eligible force) (template_holders school (rt_id t) db)) db"
    using assms(2) by (auto simp: reapply_def Let_def split: option.splits)
  have "p \<notin> pa_id ` set (filter (reapply_eligible force) (template_holders school (rt_id t) db))"
    using principal_unique[OF assms(1)]
    by (auto simp: reapply_eligible_def template_holders_def has_principal_access_def)
  then show ?thesis
    by (intro principal_holds_frame[OF assms(1)]) (auto simp: db' reapply_keys grants_reapply_fold)
qed

lemma template_ops_keep:
  assumes "principal_holds p gs db"
  shows "principal_holds p gs (initialize_default_permissions f db)"
    and "principal_holds p gs (initialize_built_in_role_templates g db)"
    and "create_template i school dto db = Inr db' \<Longrightarrow> principal_holds p gs db'"
    and "update_template school i dto db = Inr db' \<Longrightarrow> principal_holds p gs db'"
    and "remove_template school i db = Inr db' \<Longrightarrow> principal_holds p gs db'"
proof -
  have same: "principal_holds p gs d" if "pd_grants d = pd_grants db"
    "map (\<lambda>a. (pa_id a, pa_tier a)) (pd_admins d) = map (\<lambda>a. (pa_id a, pa_tier a)) (pd_admins db)" for d
    by (rule principal_holds_frame[OF assms that(2)]) (simp add: grants_of_def that(1))
  show "principal_holds p gs (initialize_default_permissions f db)"
    by (rule same) (simp_all add: initialize_default_permissions_def)
  show "principal_holds p gs (initialize_built_in_role_templates g db)"
    by (rule same) (simp_all add: initialize_built_in_role_templates_def)
  show "principal_holds p gs db'" if "create_template i school dto db = Inr db'"
    by (rule same) (use that in \<open>auto simp: create_template_def Let_def split: sum.splits\<close>)
  show "principal_holds p gs db'" if "update_template school i dto db = Inr db'"
    by (rule same) (use that in \<open>auto simp: update_template_def Let_def split: sum.splits option.splits if_splits\<close>)
  show "principal_holds p gs db'" if "remove_template school i db = Inr db'"
    by (rule same) (use that in \<open>auto simp: remove_template_def split: sum.splits\<close>)
qed

interpretation principal_run: step_system permission_step "principal_holds p gs" for p gs
proof unfold_locales
  fix db e
  assume "principal_holds p gs db"
  then show "principal_holds p gs (permission_step e db)"
    by (cases e) (auto simp: template_ops_keep(1,2) intro: assign_keeps migrate_keeps reapply_keeps template_ops_keep(3-)
        split: sum.splits prod.splits)
qed

text \<open>
  C37: whatever sequence of assignments, migrations, template edits and re-applications runs, a
  principal stays a principal with the very grants it had.
\<close>

theorem principals_untouched:
  assumes ids: "distinct (map pa_id (pd_admins db))" and p: "a \<in> set (pd_admins db)" "pa_tier a = PRINCIPAL_TIER"
  shows "grants_of (pa_id a) (fold permission_step es db) = grants_of (pa_id a) db \<and>
    (\<exists>b\<in>set (pd_admins (fold permission_step es db)). pa_id b = pa_id a \<and> pa_tier b = PRINCIPAL_TIER)"
proof -
  have "principal_holds (pa_id a) (grants_of (pa_id a) db) db"
    unfolding principal_holds_def using assms by force
  then have "principal_holds (pa_id a) (grants_of (pa_id a) db) (fold permission_step es db)"
    by (rule principal_run.all_runs)
  then show ?thesis by (force simp: principal_holds_def)
qed

section \<open>The built-in bundles\<close>

lemma id_for_row:
  "distinct (map pr_id catalog) \<Longrightarrow> id_for catalog w = Some p
    \<Longrightarrow> \<exists>r. find (\<lambda>r. pr_id r = p) catalog = Some r \<and> (pr_resource r, pr_type r) = w"
proof -
  assume d: "distinct (map pr_id catalog)" and "id_for catalog w = Some p"
  then obtain r where "r \<in> set catalog" "(pr_resource r, pr_type r) = w" "pr_id r = p"
    unfolding id_for_def by (cases w) (auto dest: find_Some_in)
  moreover have "find (\<lambda>x. pr_id x = pr_id r) catalog = Some r" if "r \<in> set catalog"
    using d that by (induction catalog) force+
  ultimately show ?thesis by blast
qed

lemma builtin_perms:
  assumes "distinct (map pr_id catalog)" "p \<in> set (rt_permissions (builtin_row catalog i b))"
  obtains r where "find (\<lambda>r. pr_id r = p) catalog = Some r" "(pr_resource r, pr_type r) \<in> set (bt_permissions b)"
proof -
  obtain w where "w \<in> set (bt_permissions b)" "or_undefined (id_for catalog w) = Some p"
    using assms(2) by (auto simp: builtin_row_def List.map_filter_def)
  then show thesis using id_for_row[OF assms(1)] or_undefined_Some that by metis
qed

lemma builtin_constants:
  "list_all (\<lambda>b. list_all (\<lambda>w. fst w \<noteq> RES_SUBSCRIPTIONS \<and>
     (snd w = PERM_ADMIN \<longrightarrow> fst w = RES_STAFF \<and> bt_slug b = ''deputy-head'')) (bt_permissions b)) BUILT_IN_ROLE_TEMPLATES"
  by code_simp

text \<open>
  A staff-tier admin whose grants are exactly those of a built-in bundle, as seeded from the
  catalog, is refused everything on subscriptions and every ADMIN permission, except that a
  Deputy Head holds ADMIN on staff.
\<close>

theorem builtin_holder_access:
  assumes cat: "distinct (map pr_id (pd_catalog db))" and b: "b \<in> set BUILT_IN_ROLE_TEMPLATES"
    and seat: "seat_of user school db = Some a" "pa_tier a = STAFF_TIER" "school \<noteq> []"
    and gs: "grants_of (pa_id a) db = set (rt_permissions (builtin_row (pd_catalog db) i b))"
  shows "permission_guard (Some (RES_SUBSCRIPTIONS, ty)) ROLE_SCHOOL_ADMIN user (Some school) db \<noteq> Inr () \<and>
    (permission_guard (Some (res, PERM_ADMIN)) ROLE_SCHOOL_ADMIN user (Some school) db = Inr ()
      \<longrightarrow> res = RES_STAFF \<and> bt_slug b = ''deputy-head'')"
proof -
  have guard: "\<exists>w\<in>set (bt_permissions b). fst w = res \<and> ty \<le> snd w"
    if allowed: "permission_guard (Some (res, ty)) ROLE_SCHOOL_ADMIN user (Some school) db = Inr ()" for res ty
  proof -
    obtain p r where p: "p \<in> set (rt_permissions (builtin_row (pd_catalog db) i b))"
        "find_perm p db = Some r" "pr_resource r = res" "ty \<le> pr_type r"
      using allowed seat gs unfolding permission_guard_correct by auto
    show ?thesis
      by (rule builtin_perms[OF cat p(1)]) (use p in \<open>auto simp: find_perm_def intro: bexI[where x = "(pr_resource r, pr_type r)"]\<close>)
  qed
  have top: "PERM_ADMIN \<le> ty \<longleftrightarrow> ty = PERM_ADMIN" for ty
    by (cases ty) (simp_all add: less_eq_permission_type_def)
  have "\<forall>w\<in>set (bt_permissions b). fst w \<noteq> RES_SUBSCRIPTIONS \<and>
      (snd w = PERM_ADMIN \<longrightarrow> fst w = RES_STAFF \<and> bt_slug b = ''deputy-head'')"
    using builtin_constants b by (auto simp only: list_all_iff)
  then show ?thesis using guard top by metis
qed

section \<open>Renaming a role\<close>

text \<open>
  A school cannot change only the letter case of its own role's name: the check for a free
  name ignores case and does not leave out the role being renamed, so it reports a clash with
  the role itself.
\<close>

theorem rename_case_conflict:
  assumes own: "own_template school i db = Inr t" and mem: "t \<in> set (pd_templates db)"
    and name: "td_name dto = Some n" "trim n = m" "m \<noteq> []" "m \<noteq> rt_name t" "to_lower m = to_lower (rt_name t)"
  shows "\<exists>msg. update_template school i dto db = Inl (Conflict msg)"
proof -
  have "visible_template school t"
    using own by (auto simp: own_template_def visible_template_def split: option.splits if_splits)
  then have "find (\<lambda>t. to_lower (rt_name t) = to_lower m \<and> visible_template school t) (pd_templates db) \<noteq> None"
    using mem name by (auto simp: find_None_all)
  then have "\<exists>msg. assert_name_free school m db = Inl (Conflict msg)"
    by (auto simp: assert_name_free_def)
  then show ?thesis using own name by (auto simp: update_template_def truthy_def)
qed

section \<open>A small school\<close>

definition ex_perm_db :: perm_db where
  "ex_perm_db = initialize_built_in_role_templates (\<lambda>s. s) (initialize_default_permissions
     (\<lambda>r t. show_nat (3 * length (takeWhile (\<lambda>q. q \<noteq> r) all_resources) + perm_level t))
     \<lparr>pd_catalog = [],
       pd_admins = [\<lparr>pa_id = ''o'', pa_user = ''uo'', pa_school = ''s'', pa_title = ''school_owner'',
           pa_tier = PRINCIPAL_TIER, pa_template = None, pa_customised = False\<rparr>,
         \<lparr>pa_id = ''b'', pa_user = ''ub'', pa_school = ''s'', pa_title = ''Bursar'',
           pa_tier = STAFF_TIER, pa_template = Some ''bursar'', pa_customised = False\<rparr>],
       pd_grants = [],
       pd_templates = [\<lparr>rt_id = ''mine'', rt_school = Some ''s'', rt_name = ''clerk'', rt_slug = None,
         rt_description = None, rt_suggested = None, rt_permissions = [''0''], rt_system = False\<rparr>]\<rparr>)"

definition ex_reapplied :: perm_db where
  "ex_reapplied = snd (projr (reapply ''s'' ''bursar'' False ex_perm_db))"

lemma grants_of_list:
  "map snd (filter (\<lambda>g. fst g = a) (pd_grants db)) = ps \<Longrightarrow> grants_of a db = set ps"
  unfolding grants_of_def by force

lemma permission_guard_correct_witness:
  "permission_guard (Some (RES_STAFF, PERM_WRITE)) ROLE_SCHOOL_ADMIN ''uo'' (Some ''s'') ex_perm_db = Inr ()"
proof -
  have "seat_of ''uo'' ''s'' ex_perm_db = Some (hd (pd_admins ex_perm_db))"
    "pa_tier (hd (pd_admins ex_perm_db)) = PRINCIPAL_TIER" by code_simp+
  then show ?thesis unfolding permission_guard_correct by auto
qed

lemma assign_permissions_correct_witness:
  "grants_of ''b'' (projr (assign_permissions ''s'' ''b'' [''3'', ''5''] (Some (ROLE_SCHOOL_ADMIN, ''uo'')) ex_perm_db))
    = {''3'', ''5''}"
proof -
  have "distinct (map pr_id (pd_catalog ex_perm_db))" by code_simp
  moreover have "assign_permissions ''s'' ''b'' [''3'', ''5''] (Some (ROLE_SCHOOL_ADMIN, ''uo'')) ex_perm_db =
      Inr (projr (assign_permissions ''s'' ''b'' [''3'', ''5''] (Some (ROLE_SCHOOL_ADMIN, ''uo'')) ex_perm_db))"
    by code_simp
  ultimately show ?thesis using assign_permissions_correct by fastforce
qed

lemma reapply_correct_witness:
  "\<exists>n db'. reapply ''s'' ''bursar'' False ex_perm_db = Inr (n, db') \<and>
    rc_updated n + rc_customised n + rc_principals n = 1"
proof -
  have "distinct (map pa_id (pd_admins ex_perm_db))" by code_simp
  moreover have "find (\<lambda>t. rt_id t = ''bursar'' \<and> visible_template ''s'' t) (pd_templates ex_perm_db) =
      Some (builtin_row (pd_catalog ex_perm_db) ''bursar'' (hd BUILT_IN_ROLE_TEMPLATES))" by code_simp
  ultimately have "\<exists>n db'. reapply ''s'' ''bursar'' False ex_perm_db = Inr (n, db') \<and>
      rc_updated n + rc_customised n + rc_principals n = length (template_holders ''s'' ''bursar'' ex_perm_db)"
    using reapply_correct by blast
  moreover have "length (template_holders ''s'' ''bursar'' ex_perm_db) = 1" by code_simp
  ultimately show ?thesis by simp
qed

lemma principals_untouched_witness:
  "grants_of ''o'' (fold permission_step [PeReapply ''s'' ''bursar'' True, PeMigrate ''s'',
      PeAssign ''s'' ''o'' [''0''] None] ex_perm_db) = {}"
proof -
  have "distinct (map pa_id (pd_admins ex_perm_db))" by code_simp
  moreover have "hd (pd_admins ex_perm_db) \<in> set (pd_admins ex_perm_db)"
      "pa_tier (hd (pd_admins ex_perm_db)) = PRINCIPAL_TIER" by code_simp+
  ultimately have "grants_of (pa_id (hd (pd_admins ex_perm_db))) (fold permission_step [PeReapply ''s'' ''bursar'' True,
      PeMigrate ''s'', PeAssign ''s'' ''o'' [''0''] None] ex_perm_db) = grants_of (pa_id (hd (pd_admins ex_perm_db))) ex_perm_db"
    using principals_untouched by blast
  moreover have "pa_id (hd (pd_admins ex_perm_db)) = ''o''" "pd_grants ex_perm_db = []" by code_simp+
  ultimately show ?thesis by (simp add: grants_of_def)
qed

lemma builtin_holder_access_witness:
  "permission_guard (Some (RES_SUBSCRIPTIONS, PERM_READ)) ROLE_SCHOOL_ADMIN ''ub'' (Some ''s'') ex_reapplied \<noteq> Inr () \<and>
   permission_guard (Some (RES_ADMISSIONS, PERM_READ)) ROLE_SCHOOL_ADMIN ''ub'' (Some ''s'') ex_reapplied = Inr ()"
proof -
  let ?b = "hd BUILT_IN_ROLE_TEMPLATES" and ?a = "hd (tl (pd_admins ex_perm_db))"
  have cat: "distinct (map pr_id (pd_catalog ex_reapplied))" by code_simp
  have b: "?b \<in> set BUILT_IN_ROLE_TEMPLATES" by (simp add: BUILT_IN_ROLE_TEMPLATES_def)
  have seat: "seat_of ''ub'' ''s'' ex_reapplied = Some ?a" by code_simp
  have tier: "pa_tier ?a = STAFF_TIER" by code_simp
  have "map snd (filter (\<lambda>g. fst g = pa_id ?a) (pd_grants ex_reapplied)) =
      rt_permissions (builtin_row (pd_catalog ex_reapplied) ''bursar'' ?b)" by code_simp
  then have gs: "grants_of (pa_id ?a) ex_reapplied = set (rt_permissions (builtin_row (pd_catalog ex_reapplied) ''bursar'' ?b))"
    by (rule grants_of_list)
  have "permission_guard (Some (RES_ADMISSIONS, PERM_READ)) ROLE_SCHOOL_ADMIN ''ub'' (Some ''s'') ex_reapplied = Inr ()"
    by code_simp
  then show ?thesis using builtin_holder_access[OF cat b seat tier _ gs] by blast
qed

lemma rename_case_conflict_witness:
  "\<exists>msg. update_template ''s'' ''mine'' \<lparr>td_name = Some ''Clerk'', td_description = None, td_suggested = None,
     td_wanted = None\<rparr> ex_perm_db = Inl (Conflict msg)"
proof -
  let ?t = "hd (pd_templates ex_perm_db)"
  have "own_template ''s'' ''mine'' ex_perm_db = Inr ?t" by code_simp
  moreover have "?t \<in> set (pd_templates ex_perm_db)" by (rule hd_in_set) code_simp
  moreover have "''Clerk'' \<noteq> rt_name ?t" by code_simp
  moreover have "to_lower ''Clerk'' = to_lower (rt_name ?t)" by code_simp
  moreover have "trim ''Clerk'' = ''Clerk''" by code_simp
  ultimately show ?thesis
    by (intro rename_case_conflict[where t = ?t and n = "''Clerk''" and m = "''Clerk''"]) simp_all
qed

end
