(* ===== verification/OpMonad.thy ===== *)
theory OpMonad
  imports Prelude
begin

text \<open>
  Service methods that may throw after they have written: an operation takes the tables and
  returns its result or exception together with the tables as they then are. The combinators
  are the \<open>await\<close> sequence, the \<open>throw\<close>, the guard that throws, and the loop over a list; their
  laws carry an invariant of the tables through any composition of them.
\<close>

type_synonym ('s, 'a) op = "'s \<Rightarrow> (http_error + 'a) \<times> 's"

definition op_ret :: "'a \<Rightarrow> ('s, 'a) op" where
  "op_ret x = (\<lambda>s. (Inr x, s))"

definition op_throw :: "http_error \<Rightarrow> ('s, 'a) op" where
  "op_throw e = (\<lambda>s. (Inl e, s))"

definition op_bind :: "('s, 'a) op \<Rightarrow> ('a \<Rightarrow> ('s, 'b) op) \<Rightarrow> ('s, 'b) op" where
  "op_bind m f = (\<lambda>s. case m s of (Inl e, s') \<Rightarrow> (Inl e, s') | (Inr x, s') \<Rightarrow> f x s')"

definition op_get :: "('s \<Rightarrow> 'a) \<Rightarrow> ('s, 'a) op" where
  "op_get f = (\<lambda>s. (Inr (f s), s))"

definition op_modify :: "('s \<Rightarrow> 's) \<Rightarrow> ('s, unit) op" where
  "op_modify f = (\<lambda>s. (Inr (), f s))"

text \<open>\<open>op_require b e\<close> is \<open>if (!b) throw e\<close>.\<close>

definition op_require :: "bool \<Rightarrow> http_error \<Rightarrow> ('s, unit) op" where
  "op_require b e = (\<lambda>s. (if b then Inr () else Inl e, s))"

definition op_then :: "('s, unit) op \<Rightarrow> ('s, 'b) op \<Rightarrow> ('s, 'b) op" where
  "op_then m k = op_bind m (\<lambda>_. k)"

text \<open>
  A row of checks \<open>if (b) throw e\<close> that only read: the first that holds throws.
\<close>

fun first_thrown :: "(bool \<times> http_error) list \<Rightarrow> http_error option" where
  "first_thrown [] = None"
| "first_thrown ((b, e) # cs) = (if b then Some e else first_thrown cs)"

definition op_guard :: "('s \<Rightarrow> (bool \<times> http_error) list) \<Rightarrow> ('s, unit) op" where
  "op_guard g = (\<lambda>s. (case first_thrown (g s) of None \<Rightarrow> Inr () | Some e \<Rightarrow> Inl e, s))"

text \<open>A result that throws, without a write.\<close>

definition op_lift :: "('s \<Rightarrow> http_error + 'a) \<Rightarrow> ('s, 'a) op" where
  "op_lift f = (\<lambda>s. (f s, s))"

text \<open>\<open>$transaction\<close>: a failure takes back what was written.\<close>

definition op_transaction :: "('s, 'a) op \<Rightarrow> ('s, 'a) op" where
  "op_transaction m = (\<lambda>s. case m s of (Inl e, _) \<Rightarrow> (Inl e, s) | (Inr x, s') \<Rightarrow> (Inr x, s'))"

text \<open>\<open>for (const x of xs) acc = await body(x, acc)\<close>.\<close>

fun op_for :: "('a \<Rightarrow> 'b \<Rightarrow> ('s, 'b) op) \<Rightarrow> 'a list \<Rightarrow> 'b \<Rightarrow> ('s, 'b) op" where
  "op_for body [] acc = op_ret acc"
| "op_for body (x # xs) acc = op_bind (body x acc) (op_for body xs)"

named_theorems op_simps "evaluation of operations"

lemma op_evals [simp, op_simps]:
  "op_ret x s = (Inr x, s)" "op_throw e s = (Inl e, s)" "op_get f s = (Inr (f s), s)"
  "op_modify g s = (Inr (), g s)" "op_lift h s = (h s, s)"
  "op_require True e s = (Inr (), s)" "op_require False e s = (Inl e, s)"
  by (simp_all add: op_ret_def op_throw_def op_get_def op_modify_def op_lift_def op_require_def)

lemma op_require_eval: "op_require b e s = (if b then Inr () else Inl e, s)"
  by (simp add: op_require_def)

lemma op_bind_evals [simp, op_simps]:
  "op_bind (op_ret x) f s = f x s" "op_bind (op_throw e) f s = (Inl e, s)"
  "op_bind (op_get g) f s = f (g s) s" "op_then (op_modify h) k s = k (h s)"
  "op_then (op_require True e) k s = k s" "op_then (op_require False e) k s = (Inl e, s)"
  by (simp_all add: op_bind_def op_then_def)

lemma op_bind_Inr:
  "op_bind m f s = (Inr y, s'') \<longleftrightarrow> (\<exists>x s'. m s = (Inr x, s') \<and> f x s' = (Inr y, s''))"
  by (auto simp: op_bind_def split: prod.splits sum.splits)

lemma op_Inr_iffs:
  "op_ret x s = (Inr y, s') \<longleftrightarrow> y = x \<and> s' = s"
  "op_throw e s = (Inr z, s') \<longleftrightarrow> False"
  "op_get g s = (Inr v, s') \<longleftrightarrow> v = g s \<and> s' = s"
  "op_modify h s = (Inr u, s') \<longleftrightarrow> s' = h s"
  "op_lift f s = (Inr w, s') \<longleftrightarrow> f s = Inr w \<and> s' = s"
  by auto

lemma op_bind_step: "m s = (Inr x, s') \<Longrightarrow> op_bind m f s = f x s'"
  by (simp add: op_bind_def)

lemma op_then_step: "m s = (Inr (), s') \<Longrightarrow> op_then m k s = k s'"
  by (simp add: op_then_def op_bind_def)

lemma op_then_Inr: "op_then m k s = (Inr y, s'') \<longleftrightarrow> (\<exists>s'. m s = (Inr (), s') \<and> k s' = (Inr y, s''))"
  by (simp add: op_then_def op_bind_Inr)

lemma op_require_Inr: "op_require b e s = (Inr u, s') \<longleftrightarrow> b \<and> s' = s"
  by (auto simp: op_require_def)

declare first_thrown.simps(2) [simp del]

lemma first_thrown_consts [simp]: "first_thrown ((False, e) # cs) = first_thrown cs" "first_thrown ((True, e) # cs) = Some e"
  by (simp_all add: first_thrown.simps)

lemma first_thrown_None [simp]:
  "first_thrown ((b, e) # cs) = None \<longleftrightarrow> \<not> b \<and> first_thrown cs = None"
  "first_thrown (x # cs) = None \<longleftrightarrow> \<not> fst x \<and> first_thrown cs = None"
  "first_thrown (cs @ ds) = None \<longleftrightarrow> first_thrown cs = None \<and> first_thrown ds = None"
  "first_thrown (if p then cs else ds) = None \<longleftrightarrow> (if p then first_thrown cs = None else first_thrown ds = None)"
proof -
  have cons: "first_thrown (x # cs) = None \<longleftrightarrow> \<not> fst x \<and> first_thrown cs = None" for x cs
    by (cases x) (simp add: first_thrown.simps)
  show "first_thrown ((b, e) # cs) = None \<longleftrightarrow> \<not> b \<and> first_thrown cs = None"
    "first_thrown (x # cs) = None \<longleftrightarrow> \<not> fst x \<and> first_thrown cs = None" using cons by simp_all
  show "first_thrown (cs @ ds) = None \<longleftrightarrow> first_thrown cs = None \<and> first_thrown ds = None"
    by (induction cs) (simp_all add: cons)
qed simp

lemma op_guard_Inr: "op_guard g s = (Inr u, s') \<longleftrightarrow> first_thrown (g s) = None \<and> s' = s"
  by (auto simp: op_guard_def split: option.splits)

lemma op_guard_then: "first_thrown (g s) = None \<Longrightarrow> op_then (op_guard g) k s = k s"
  by (simp add: op_guard_def op_then_def op_bind_def)

lemma op_transaction_Inr: "op_transaction m s = (Inr x, s') \<longleftrightarrow> m s = (Inr x, s')"
  by (auto simp: op_transaction_def split: prod.splits sum.splits)

lemma op_require_Inl: "op_require b e s = (Inl e', s') \<longleftrightarrow> \<not> b \<and> e' = e \<and> s' = s"
  by (auto simp: op_require_def)

section \<open>Invariants through the combinators\<close>

definition op_keeps :: "('s \<Rightarrow> bool) \<Rightarrow> ('s, 'a) op \<Rightarrow> bool" where
  "op_keeps P m = (\<forall>s. P s \<longrightarrow> P (snd (m s)))"

named_theorems op_keeps_intros "composition of invariant-keeping operations"

lemma op_keepsD: "op_keeps P m \<Longrightarrow> P s \<Longrightarrow> P (snd (m s))"
  by (simp add: op_keeps_def)

lemma op_keeps_result: "op_keeps P m \<Longrightarrow> P s \<Longrightarrow> m s = (r, s') \<Longrightarrow> P s'"
  by (metis op_keepsD snd_conv)

lemma op_keeps_pure [op_keeps_intros, intro]:
  "op_keeps P (op_ret x)" "op_keeps P (op_throw e)" "op_keeps P (op_get f)" "op_keeps P (op_require b e)"
  "op_keeps P (op_lift g)" "op_keeps P (op_guard c)"
  by (simp_all add: op_keeps_def op_ret_def op_throw_def op_get_def op_require_def op_lift_def op_guard_def)

lemma op_keeps_bind [op_keeps_intros]:
  "op_keeps P m \<Longrightarrow> (\<And>x. op_keeps P (f x)) \<Longrightarrow> op_keeps P (op_bind m f)"
  by (force simp: op_keeps_def op_bind_def split: prod.splits sum.splits)

lemma op_keeps_then [op_keeps_intros]: "op_keeps P m \<Longrightarrow> op_keeps P k \<Longrightarrow> op_keeps P (op_then m k)"
  by (simp add: op_then_def op_keeps_bind)

lemma op_keeps_modify: "(\<And>s. P s \<Longrightarrow> P (f s)) \<Longrightarrow> op_keeps P (op_modify f)"
  by (simp add: op_keeps_def)

lemma op_keeps_if [op_keeps_intros]:
  "(b \<Longrightarrow> op_keeps P m) \<Longrightarrow> (\<not> b \<Longrightarrow> op_keeps P k) \<Longrightarrow> op_keeps P (if b then m else k)"
  by simp

lemma op_keeps_option [op_keeps_intros]:
  "(x = None \<Longrightarrow> op_keeps P m) \<Longrightarrow> (\<And>y. x = Some y \<Longrightarrow> op_keeps P (k y))
    \<Longrightarrow> op_keeps P (case x of None \<Rightarrow> m | Some y \<Rightarrow> k y)"
  by (cases x) simp_all

lemma op_keeps_list [op_keeps_intros]:
  "(x = [] \<Longrightarrow> op_keeps P m) \<Longrightarrow> (\<And>y ys. x = y # ys \<Longrightarrow> op_keeps P (k y ys))
    \<Longrightarrow> op_keeps P (case x of [] \<Rightarrow> m | y # ys \<Rightarrow> k y ys)"
  by (cases x) simp_all

lemma op_keeps_for [op_keeps_intros]:
  "(\<And>x acc. x \<in> set xs \<Longrightarrow> op_keeps P (body x acc)) \<Longrightarrow> op_keeps P (op_for body xs acc)"
  by (induction xs arbitrary: acc) (auto intro: op_keeps_bind)

text \<open>The steps that only read, evaluated at the head of an operation.\<close>

lemma op_heads:
  "op_then (op_guard g) k s = (case first_thrown (g s) of None \<Rightarrow> k s | Some e \<Rightarrow> (Inl e, s))"
  "op_bind (op_lift f) h s = (case f s of Inl e \<Rightarrow> (Inl e, s) | Inr x \<Rightarrow> h x s)"
  "op_then (op_require b e) k s = (if b then k s else (Inl e, s))"
  by (simp_all add: op_then_def op_bind_def op_guard_def op_require_def split: option.split sum.split)

lemma op_then_ends:
  assumes "\<And>e s'. m s = (Inl e, s') \<Longrightarrow> P s'" "\<And>s'. m s = (Inr (), s') \<Longrightarrow> P (snd (k s'))"
  shows "P (snd (op_then m k s))"
  using assms by (cases "m s"; cases "fst (m s)") (auto simp: op_then_def op_bind_def)

lemma op_keeps_guarded:
  "(\<And>s. P s \<Longrightarrow> first_thrown (g s) = None \<Longrightarrow> P (snd (k s))) \<Longrightarrow> op_keeps P (op_then (op_guard g) k)"
  by (auto simp: op_keeps_def op_then_def op_bind_def op_guard_def split: option.splits)

lemma op_transaction_keeps: "P (snd (m s)) \<Longrightarrow> P s \<Longrightarrow> P (snd (op_transaction m s))"
  by (auto simp: op_transaction_def split: prod.splits sum.splits)

lemma op_keeps_transaction [op_keeps_intros]: "op_keeps P m \<Longrightarrow> op_keeps P (op_transaction m)"
  by (auto simp: op_keeps_def op_transaction_def split: prod.splits sum.splits)

section \<open>Requests that fail without a trace\<close>

text \<open>A request whose only write is its last step leaves the tables unchanged when it fails.\<close>

definition reads_only :: "('s, 'a) op \<Rightarrow> bool" where
  "reads_only m = (\<forall>s. snd (m s) = s)"

definition fails_clean :: "('s, 'a) op \<Rightarrow> bool" where
  "fails_clean m = (\<forall>s e s'. m s = (Inl e, s') \<longrightarrow> s' = s)"

named_theorems fails_clean_intros "composition of requests that fail without a trace"

lemma fails_cleanD: "fails_clean m \<Longrightarrow> m s = (Inl e, s') \<Longrightarrow> s' = s"
  by (simp add: fails_clean_def)

lemma reads_only_pure [fails_clean_intros]:
  "reads_only (op_ret x)" "reads_only (op_throw e)" "reads_only (op_get f)" "reads_only (op_require b e)" "reads_only (op_lift g)"
  "reads_only (op_guard c)"
  by (simp_all add: reads_only_def op_require_eval op_guard_def)

lemma fails_clean_pure [fails_clean_intros]:
  "fails_clean (op_ret x)" "fails_clean (op_throw e)" "fails_clean (op_modify h)"
  by (simp_all add: fails_clean_def)

lemma fails_clean_bind [fails_clean_intros]: "reads_only m \<Longrightarrow> (\<And>x. fails_clean (f x)) \<Longrightarrow> fails_clean (op_bind m f)"
  unfolding fails_clean_def
proof (intro allI impI)
  fix s e s'
  assume m: "reads_only m" and f: "\<And>x. \<forall>s e s'. f x s = (Inl e, s') \<longrightarrow> s' = s" and run: "op_bind m f s = (Inl e, s')"
  have "snd (m s) = s" using m by (simp add: reads_only_def)
  then show "s' = s" using f run by (cases "m s"; cases "fst (m s)") (auto simp: op_bind_def)
qed

lemma fails_clean_then [fails_clean_intros]: "reads_only m \<Longrightarrow> fails_clean k \<Longrightarrow> fails_clean (op_then m k)"
  by (simp add: op_then_def fails_clean_bind)

lemma fails_clean_write: "fails_clean m \<Longrightarrow> fails_clean (op_then m (op_ret x))"
  by (auto simp: fails_clean_def op_then_def op_bind_def split: prod.splits sum.splits)

lemma fails_clean_option [fails_clean_intros]:
  "fails_clean m \<Longrightarrow> (\<And>y. fails_clean (k y)) \<Longrightarrow> fails_clean (case x of None \<Rightarrow> m | Some y \<Rightarrow> k y)"
  by (cases x) simp_all

lemma fails_clean_prod [fails_clean_intros]: "(\<And>a b. fails_clean (k a b)) \<Longrightarrow> fails_clean (case x of (a, b) \<Rightarrow> k a b)"
  by (cases x) simp

lemma fails_clean_let [fails_clean_intros]: "(\<And>y. fails_clean (k y)) \<Longrightarrow> fails_clean (let y = x in k y)"
  by simp

lemma fails_clean_if [fails_clean_intros]: "fails_clean m \<Longrightarrow> fails_clean k \<Longrightarrow> fails_clean (if b then m else k)"
  by simp

lemma fails_clean_transaction [fails_clean_intros]: "fails_clean (op_transaction m)"
  by (auto simp: fails_clean_def op_transaction_def split: prod.splits sum.splits)

lemma fails_clean_reads: "reads_only m \<Longrightarrow> fails_clean m"
  by (simp add: reads_only_def fails_clean_def) (metis snd_conv)

text \<open>What holds before such a request and after its success holds after it.\<close>

lemma step_failed:
  assumes "fails_clean m" "\<And>v. m s = (Inr v, snd (m s)) \<Longrightarrow> P (snd (m s))" "P s"
  shows "P (snd (m s))"
  using assms fails_cleanD[OF assms(1), of s] by (cases "m s"; cases "fst (m s)") auto

end
