(* ===== verification/Sessions.thy ===== *)
theory Sessions
  imports OpMonad SchoolLifecycle InstructionalDays SubscriptionConfig
begin

text \<open>
  Academic sessions and terms, \<open>src/src/sessions/session.service.ts\<close>, with the holiday calendar
  \<open>src/src/common/utils/nigerian-holidays.util.ts\<close>. The tables are the fields of \<open>session_db\<close>;
  the unique indexes of \<open>prisma/schema\<close> make a create throw. An operation is not a transaction:
  what it wrote before an exception stays. Dates of a request are given parsed; ids of created
  rows come from a record of functions; e-mails and notifications, which run in the
  background and never affect the outcome, are left out.
\<close>

section \<open>Tables\<close>

datatype session_status = SESSION_ACTIVE | SESSION_COMPLETED

datatype term_status = TERM_DRAFT | TERM_ACTIVE | TERM_COMPLETED | TERM_ARCHIVED

record academic_session =
  sn_id :: ident
  sn_name :: string
  sn_start :: date
  sn_end :: date
  sn_status :: session_status
  sn_school :: ident
  sn_type :: "string option"

record academic_term =
  tr_id :: ident
  tr_name :: string
  tr_number :: int
  tr_start :: date
  tr_end :: date
  tr_half_start :: "date option"
  tr_half_end :: "date option"
  tr_mid_start :: "date option"
  tr_mid_end :: "date option"
  tr_exam_start :: "date option"
  tr_exam_end :: "date option"
  tr_published :: "date option"
  tr_published_by :: "ident option"
  tr_status :: term_status
  tr_session :: ident

record term_enrolment =
  en_id :: ident
  en_student :: ident
  en_school :: ident
  en_class :: "ident option"
  en_arm :: "ident option"
  en_term :: "ident option"
  en_level :: string
  en_year :: string
  en_active :: bool
  en_debt :: rat

record class_level_row =
  lv_id :: ident
  lv_school :: ident
  lv_name :: string
  lv_code :: "string option"
  lv_level :: int
  lv_type :: string
  lv_next :: "ident option"

record level_arm =
  la_id :: ident
  la_level :: ident
  la_name :: string
  la_year :: string
  la_active :: bool

record school_class =
  sc_id :: ident
  sc_school :: ident
  sc_name :: string
  sc_level :: string
  sc_type :: string
  sc_year :: string
  sc_active :: bool

record timetable_row =
  tt_id :: ident
  tt_term :: ident
  tt_class :: "ident option"
  tt_arm :: "ident option"
  tt_day :: string
  tt_start :: string
  tt_end :: string
  tt_kind :: string
  tt_subject :: "ident option"
  tt_course :: "ident option"
  tt_teacher :: "ident option"
  tt_room :: "ident option"

record holiday_event =
  ho_title :: string
  ho_start :: date
  ho_end :: date
  ho_school :: ident
  ho_type :: "string option"

record session_db =
  sd_schools :: "school_record list"
  sd_sessions :: "academic_session list"
  sd_terms :: "academic_term list"
  sd_enrolments :: "term_enrolment list"
  sd_levels :: "class_level_row list"
  sd_arms :: "level_arm list"
  sd_classes :: "school_class list"
  sd_periods :: "timetable_row list"
  sd_holidays :: "holiday_event list"

record id_supply =
  is_session :: ident
  is_term :: "int \<Rightarrow> ident"
  is_enrolment :: "ident \<Rightarrow> ident"
  is_period :: "ident \<Rightarrow> ident"

text \<open>Created ids are functions of the term number, the old enrollment and the old period.\<close>

type_synonym 'a session_op = "(session_db, 'a) op"

definition unique_error :: http_error where
  "unique_error = JsError ''Unique constraint failed''"

definition update_session :: "ident \<Rightarrow> (academic_session \<Rightarrow> academic_session) \<Rightarrow> session_db \<Rightarrow> session_db" where
  "update_session i f db = db\<lparr>sd_sessions := update_first (\<lambda>s. sn_id s = i) f (sd_sessions db)\<rparr>"

definition update_term :: "ident \<Rightarrow> (academic_term \<Rightarrow> academic_term) \<Rightarrow> session_db \<Rightarrow> session_db" where
  "update_term i f db = db\<lparr>sd_terms := update_first (\<lambda>t. tr_id t = i) f (sd_terms db)\<rparr>"

definition update_terms :: "(academic_term \<Rightarrow> bool) \<Rightarrow> (academic_term \<Rightarrow> academic_term) \<Rightarrow> session_db \<Rightarrow> session_db" where
  "update_terms p f db = db\<lparr>sd_terms := update_where p f (sd_terms db)\<rparr>"

definition find_session :: "ident \<Rightarrow> session_db \<Rightarrow> academic_session option" where
  "find_session i db = find (\<lambda>s. sn_id s = i) (sd_sessions db)"

definition find_term :: "ident \<Rightarrow> session_db \<Rightarrow> academic_term option" where
  "find_term i db = find (\<lambda>t. tr_id t = i) (sd_terms db)"

text \<open>The session of a term, and a condition on it.\<close>

definition session_where :: "(academic_session \<Rightarrow> bool) \<Rightarrow> academic_term \<Rightarrow> session_db \<Rightarrow> bool" where
  "session_where p t db = (case find_session (tr_session t) db of None \<Rightarrow> False | Some s \<Rightarrow> p s)"

section \<open>Active session\<close>

definition find_active_session :: "ident \<Rightarrow> string option \<Rightarrow> session_db \<Rightarrow> academic_session option" where
  "find_active_session school ty db =
     (case find (\<lambda>s. sn_school s = school \<and> sn_status s = SESSION_ACTIVE \<and> sn_type s = ty) (sd_sessions db) of
        Some s \<Rightarrow> Some s
      | None \<Rightarrow>
          if \<not> truthy ty then None
          else find (\<lambda>s. sn_school s = school \<and> sn_status s = SESSION_ACTIVE \<and> sn_type s = None) (sd_sessions db))"

definition active_term_of :: "ident \<Rightarrow> academic_term \<Rightarrow> bool" where
  "active_term_of sid t = (tr_session t = sid \<and> tr_status t = TERM_ACTIVE)"

definition complete_session :: "academic_session \<Rightarrow> academic_session" where
  "complete_session s = s\<lparr>sn_status := SESSION_COMPLETED\<rparr>"

definition complete_term :: "academic_term \<Rightarrow> academic_term" where
  "complete_term t = t\<lparr>tr_status := TERM_COMPLETED\<rparr>"

definition activate_term :: "academic_term \<Rightarrow> academic_term" where
  "activate_term t = t\<lparr>tr_status := TERM_ACTIVE\<rparr>"

definition complete_session_if_no_active_terms :: "ident \<Rightarrow> bool session_op" where
  "complete_session_if_no_active_terms sid =
     op_bind (op_get (\<lambda>db. count_where (active_term_of sid) (sd_terms db))) (\<lambda>n.
       if 0 < n then op_ret False
       else op_then (op_modify (update_session sid complete_session)) (op_ret True))"

definition get_active_session :: "ident \<Rightarrow> string option \<Rightarrow> session_db
    \<Rightarrow> http_error + academic_session option \<times> academic_term option" where
  "get_active_session school ty db =
     (if find_school school (sd_schools db) = None then Inl (BadRequest ''School not found'')
      else case find_active_session school ty db of
        None \<Rightarrow> Inr (None, None)
      | Some s \<Rightarrow>
          (case sort_key (\<lambda>t. - tr_number t) (filter (active_term_of (sn_id s)) (sd_terms db)) of
             [] \<Rightarrow> Inr (Some s, None)
           | t # _ \<Rightarrow> Inr (Some s, Some t)))"

section \<open>Creating terms\<close>

record create_term_dto =
  cm_name :: string
  cm_number :: string
  cm_start :: date
  cm_end :: date
  cm_half_start :: "date option"
  cm_half_end :: "date option"
  cm_mid_start :: "date option"
  cm_mid_end :: "date option"
  cm_exam_start :: "date option"
  cm_exam_end :: "date option"

text \<open>\<open>term.create\<close>; (session, number) is unique.\<close>

definition insert_term :: "academic_term \<Rightarrow> unit session_op" where
  "insert_term t =
     op_bind (op_get (\<lambda>db. list_ex (\<lambda>u. tr_id u = tr_id t \<or>
       (tr_session u = tr_session t \<and> tr_number u = tr_number t)) (sd_terms db))) (\<lambda>taken.
       op_then (op_require (\<not> taken) unique_error)
         (op_modify (\<lambda>db. db\<lparr>sd_terms := sd_terms db @ [t]\<rparr>)))"

definition blank_term :: "ident \<Rightarrow> string \<Rightarrow> int \<Rightarrow> date \<Rightarrow> date \<Rightarrow> term_status \<Rightarrow> ident \<Rightarrow> academic_term" where
  "blank_term i name n start stop status sid =
     \<lparr>tr_id = i, tr_name = name, tr_number = n, tr_start = start, tr_end = stop,
      tr_half_start = None, tr_half_end = None, tr_mid_start = None, tr_mid_end = None,
      tr_exam_start = None, tr_exam_end = None, tr_published = None, tr_published_by = None,
      tr_status = status, tr_session = sid\<rparr>"

text \<open>A number that does not parse (NaN) passes both comparisons and fails in the query.\<close>

definition create_term :: "ident \<Rightarrow> ident \<Rightarrow> ident \<Rightarrow> create_term_dto \<Rightarrow> academic_term session_op" where
  "create_term new_id school sid dto =
     op_bind (op_lift (\<lambda>db. validate_school_active school (sd_schools db))) (\<lambda>_.
     op_bind (op_get (\<lambda>db. find (\<lambda>s. sn_id s = sid \<and> sn_school s = school) (sd_sessions db))) (\<lambda>found.
     case found of
       None \<Rightarrow> op_throw (NotFound ''Academic session not found'')
     | Some s \<Rightarrow>
         (case parse_int (cm_number dto) of
            None \<Rightarrow> op_throw (JsError ''Argument number is invalid'')
          | Some n \<Rightarrow>
              op_then (op_require (1 \<le> n \<and> n \<le> 3) (BadRequest ''Term number must be between 1 and 3'')) (
              op_bind (op_get (\<lambda>db. list_ex (\<lambda>t. tr_session t = sid \<and> tr_number t = n) (sd_terms db))) (\<lambda>taken.
              op_then (op_require (\<not> taken)
                (Conflict (''Term '' @ show_int n @ '' already exists for this session''))) (
              op_then (op_require (\<not> (cm_start dto < sn_start s \<or> sn_end s < cm_end dto))
                (BadRequest ''Term dates must be within session dates'')) (
              let t = (blank_term new_id (cm_name dto) n (cm_start dto) (cm_end dto) TERM_DRAFT sid)
                \<lparr>tr_half_start := cm_half_start dto, tr_half_end := cm_half_end dto,
                  tr_mid_start := cm_mid_start dto, tr_mid_end := cm_mid_end dto,
                  tr_exam_start := cm_exam_start dto, tr_exam_end := cm_exam_end dto\<rparr>
              in op_then (insert_term t) (op_ret t))))))))"

section \<open>Date ranges of the terms\<close>

record term_dates =
  td_number :: int
  td_start :: date
  td_end :: date

text \<open>\<open>new Date(x)\<close> of a fractional time value drops the fraction (\<open>TimeClip\<close>).\<close>

definition time_clip :: "rat \<Rightarrow> date" where
  "time_clip r = (if 0 \<le> r then \<lfloor>r\<rfloor> else \<lceil>r\<rceil>)"

definition check_term_dates :: "date \<Rightarrow> date \<Rightarrow> term_dates \<Rightarrow> http_error + unit" where
  "check_term_dates session_start session_end td =
     (if td_end td \<le> td_start td then
        Inl (BadRequest (''Term '' @ show_int (td_number td) @ '': start date must be before end date.''))
      else if td_start td < session_start \<or> session_end < td_end td then
        Inl (BadRequest (''Term '' @ show_int (td_number td) @ '': dates must be within the session period.''))
      else Inr ())"

fun first_error :: "('a \<Rightarrow> http_error + unit) \<Rightarrow> 'a list \<Rightarrow> http_error option" where
  "first_error f [] = None"
| "first_error f (x # xs) = (case f x of Inl e \<Rightarrow> Some e | Inr _ \<Rightarrow> first_error f xs)"

definition auto_range :: "date \<Rightarrow> date \<Rightarrow> nat \<Rightarrow> nat \<Rightarrow> term_dates" where
  "auto_range session_start session_end n_terms i =
     (let duration = of_int (session_end - session_start) / of_nat n_terms;
          term_start = (if i = 0 then session_start
            else time_clip (of_int session_start + duration * of_nat i + 1));
          term_end = (if i = n_terms - 1 then session_end
            else time_clip (of_int session_start + duration * of_nat (i + 1)))
      in \<lparr>td_number = int i + 1, td_start = term_start, td_end = term_end\<rparr>)"

definition build_term_date_ranges ::
  "date \<Rightarrow> date \<Rightarrow> nat \<Rightarrow> term_dates list \<Rightarrow> http_error + term_dates list" where
  "build_term_date_ranges session_start session_end n_terms custom =
     (if custom \<noteq> [] then
        (if length custom \<noteq> n_terms then
           Inl (BadRequest (''Expected '' @ show_nat n_terms @ '' term date entries but received ''
             @ show_nat (length custom) @ ''.''))
         else case first_error (check_term_dates session_start session_end) (sort_key td_number custom) of
           Some e \<Rightarrow> Inl e
         | None \<Rightarrow> Inr (sort_key td_number custom))
      else Inr (map (auto_range session_start session_end n_terms) [0..<n_terms]))"

section \<open>Public holidays\<close>

definition NIGERIAN_FIXED_HOLIDAYS :: "(string \<times> int \<times> int) list" where
  "NIGERIAN_FIXED_HOLIDAYS =
     [(''New Year'' @ [CHR 0x27] @ ''s Day'', 1, 1), (''Workers'' @ [CHR 0x27] @ '' Day'', 5, 1), (''Democracy Day'', 6, 12),
      (''Independence Day'', 10, 1), (''Christmas Day'', 12, 25), (''Boxing Day'', 12, 26)]"

definition utc_date :: "int \<Rightarrow> int \<Rightarrow> int \<Rightarrow> date" where
  "utc_date year month d = make_day year (month - 1) d * ms_per_day"

text \<open>Every holiday of the table lasts one day (\<open>durationDays\<close> is absent).\<close>

definition holidays_of_year :: "date \<Rightarrow> date \<Rightarrow> int \<Rightarrow> (string \<times> date \<times> date) list" where
  "holidays_of_year from to year =
     filter (\<lambda>(_, s, e). \<not> (e < from \<or> to < s))
       (map (\<lambda>(title, m, d). (title, utc_date year m d, utc_date year m d + (ms_per_day - 1))) NIGERIAN_FIXED_HOLIDAYS)"

definition build_nigerian_holiday_events :: "date \<Rightarrow> date \<Rightarrow> (string \<times> date \<times> date) list" where
  "build_nigerian_holiday_events from to =
     concat (map (holidays_of_year from to)
       [year_from_day (day_number from)..year_from_day (day_number to)])"

text \<open>The key of an event is its title and its UTC day; a failure here is logged only.\<close>

definition holiday_key :: "string \<Rightarrow> date \<Rightarrow> string \<times> int" where
  "holiday_key title start = (title, day_number start)"

definition seed_holidays :: "ident \<Rightarrow> date \<Rightarrow> date \<Rightarrow> string option \<Rightarrow> session_db \<Rightarrow> session_db" where
  "seed_holidays school from to ty db =
     (let known = map (\<lambda>h. holiday_key (ho_title h) (ho_start h))
            (filter (\<lambda>h. ho_school h = school \<and> from \<le> ho_start h \<and> ho_start h \<le> to) (sd_holidays db));
          add = (\<lambda>(title, s, e) (keys, rows).
            if holiday_key title s \<in> set keys then (keys, rows)
            else (keys @ [holiday_key title s],
              rows @ [\<lparr>ho_title = title, ho_start = s, ho_end = e, ho_school = school, ho_type = or_undefined ty\<rparr>]))
      in db\<lparr>sd_holidays := snd (fold add (build_nigerian_holiday_events from to) (known, sd_holidays db))\<rparr>)"

end
