(* ===== verification/SessionTerms.thy ===== *)
theory SessionTerms
  imports Sessions
begin

text \<open>
  The "start term" wizard and what follows it, \<open>src/src/sessions/session.service.ts\<close>: moving the
  students (promotion, carry-over), cloning timetables, starting, ending and reactivating
  terms and sessions. The model types and the tables are those of \<open>Sessions\<close>.
\<close>

section \<open>Enrollments of a school type\<close>

fun has_number_level :: "string \<Rightarrow> bool" where
  "has_number_level (c # d # s) = ((is_digit_char c \<and> d = CHR ''L'') \<or> has_number_level (d # s))"
| "has_number_level _ = False"

text \<open>\<open>/^P[1-6]$/\<close>.\<close>

definition primary_short :: "string \<Rightarrow> bool" where
  "primary_short level = (level \<in> set (map (\<lambda>d. [CHR ''P'', d]) ''123456''))"

definition level_matches :: "string \<Rightarrow> string \<Rightarrow> bool" where
  "level_matches ty level =
     (if ty = ''PRIMARY'' then str_includes level ''CLASS'' \<or> str_includes level ''PRIMARY'' \<or> primary_short level
      else if ty = ''SECONDARY'' then str_includes level ''JSS'' \<or> str_includes level ''SS'' \<or> str_includes level ''SECONDARY''
      else if ty = ''TERTIARY'' then has_number_level level \<or> str_includes level ''LEVEL''
      else True)"

definition in_school_type :: "session_db \<Rightarrow> string option \<Rightarrow> term_enrolment \<Rightarrow> bool" where
  "in_school_type db ty e =
     (if \<not> truthy ty then True
      else let class_type = map_option sc_type (find (\<lambda>c. Some (sc_id c) = en_class e) (sd_classes db))
        in if truthy class_type then class_type = ty
           else level_matches (the ty) (to_upper (en_level e)))"

definition movable :: "ident \<Rightarrow> ident option \<Rightarrow> term_enrolment \<Rightarrow> bool" where
  "movable school prev e =
     (en_school e = school \<and> en_active e \<and> ((prev \<noteq> None \<and> en_term e = prev) \<or> en_term e = None))"

definition enrolments_to_move :: "ident \<Rightarrow> ident option \<Rightarrow> string option \<Rightarrow> session_db \<Rightarrow> term_enrolment list" where
  "enrolments_to_move school prev ty db =
     filter (in_school_type db ty) (filter (movable school prev) (sd_enrolments db))"

text \<open>\<open>enrollment.create\<close>; (student, school, term) is unique when the term is present.\<close>

definition enrolment_clash :: "term_enrolment \<Rightarrow> term_enrolment \<Rightarrow> bool" where
  "enrolment_clash e u = (en_id u = en_id e \<or>
     (en_term e \<noteq> None \<and> en_student u = en_student e \<and> en_school u = en_school e \<and> en_term u = en_term e))"

definition insert_enrolment :: "term_enrolment \<Rightarrow> unit session_op" where
  "insert_enrolment e =
     op_bind (op_get (\<lambda>db. list_ex (enrolment_clash e) (sd_enrolments db))) (\<lambda>taken.
       op_then (op_require (\<not> taken) unique_error)
         (op_modify (\<lambda>db. db\<lparr>sd_enrolments := sd_enrolments db @ [e]\<rparr>)))"

definition deactivate_enrolment_row :: "ident \<Rightarrow> session_db \<Rightarrow> session_db" where
  "deactivate_enrolment_row i db =
     db\<lparr>sd_enrolments := update_first (\<lambda>e. en_id e = i) (\<lambda>e. e\<lparr>en_active := False\<rparr>) (sd_enrolments db)\<rparr>"

section \<open>Promotion\<close>

text \<open>A missing successor of a level becomes the next level in order.\<close>

definition levels_of :: "ident \<Rightarrow> string option \<Rightarrow> session_db \<Rightarrow> class_level_row list" where
  "levels_of school ty db =
     sort_key lv_level (filter (\<lambda>l. lv_school l = school \<and> (truthy ty \<longrightarrow> Some (lv_type l) = ty)) (sd_levels db))"

definition link_level :: "class_level_row \<times> class_level_row \<Rightarrow> class_level_row list \<Rightarrow> class_level_row list" where
  "link_level = (\<lambda>(l, n) rows. if truthy (lv_next l) then rows
     else update_first (\<lambda>r. lv_id r = lv_id l) (\<lambda>r. r\<lparr>lv_next := Some (lv_id n)\<rparr>) rows)"

definition ensure_class_level_progression :: "ident \<Rightarrow> string option \<Rightarrow> session_db \<Rightarrow> session_db" where
  "ensure_class_level_progression school ty db =
     (let levels = levels_of school ty db
      in db\<lparr>sd_levels := fold link_level (zip levels (tl levels)) (sd_levels db)\<rparr>)"

definition previous_term :: "ident \<Rightarrow> string option \<Rightarrow> ident \<Rightarrow> session_db \<Rightarrow> academic_term option" where
  "previous_term school ty term_id db =
     (case sort_key (\<lambda>t. (- (case find_session (tr_session t) db of None \<Rightarrow> 0 | Some s \<Rightarrow> sn_start s), - tr_number t))
         (filter (\<lambda>t. session_where (\<lambda>s. sn_school s = school \<and> sn_type s = or_undefined ty) t db \<and>
            tr_id t \<noteq> term_id \<and> tr_status t \<in> {TERM_ACTIVE, TERM_COMPLETED}) (sd_terms db)) of
        [] \<Rightarrow> None | t # _ \<Rightarrow> Some t)"

definition current_level :: "ident \<Rightarrow> term_enrolment \<Rightarrow> session_db \<Rightarrow> class_level_row option" where
  "current_level school e db =
     (case find (\<lambda>a. Some (la_id a) = en_arm e) (sd_arms db) of
        Some a \<Rightarrow> find (\<lambda>l. lv_id l = la_level a) (sd_levels db)
      | None \<Rightarrow>
          if en_level e = [] then None
          else find (\<lambda>l. lv_school l = school \<and> (lv_name l = en_level e \<or> lv_code l = Some (en_level e))) (sd_levels db))"

definition next_level :: "class_level_row \<Rightarrow> session_db \<Rightarrow> class_level_row option" where
  "next_level l db = (if truthy (lv_next l) then find (\<lambda>n. Some (lv_id n) = lv_next l) (sd_levels db) else None)"

text \<open>
  The two promotions differ in the class the student gets: the first arm of the next level, or
  the arms of the current academic year in turn, else a class of that name.
\<close>

definition first_arm :: "nat \<Rightarrow> class_level_row \<Rightarrow> session_db \<Rightarrow> ident option \<times> ident option" where
  "first_arm promoted n db = (map_option la_id (find (\<lambda>a. la_level a = lv_id n \<and> la_active a) (sd_arms db)), None)"

definition academic_year_of :: "int \<Rightarrow> date \<Rightarrow> string" where
  "academic_year_of tz now =
     (let d = local_day tz now; y = year_from_day d
      in if 8 \<le> month_from_day d then show_int y @ ''/'' @ show_int (y + 1)
         else show_int (y - 1) @ ''/'' @ show_int y)"

definition round_robin_arm ::
  "int \<Rightarrow> date \<Rightarrow> ident \<Rightarrow> nat \<Rightarrow> class_level_row \<Rightarrow> session_db \<Rightarrow> ident option \<times> ident option" where
  "round_robin_arm tz now school promoted n db =
     (let arms = sort_key la_name (filter (\<lambda>a. la_level a = lv_id n \<and> la_year a = academic_year_of tz now \<and> la_active a)
            (sd_arms db))
      in if arms \<noteq> [] then (Some (la_id (arms ! (promoted mod length arms))), None)
         else (None, map_option sc_id (find (\<lambda>c. sc_school c = school \<and> (sc_name c = lv_name n \<or> sc_level c = lv_name n) \<and>
           sc_active c) (sd_classes db))))"

definition promote_one ::
  "(nat \<Rightarrow> class_level_row \<Rightarrow> session_db \<Rightarrow> ident option \<times> ident option) \<Rightarrow> id_supply \<Rightarrow> ident \<Rightarrow> ident
    \<Rightarrow> term_enrolment \<Rightarrow> nat \<Rightarrow> nat session_op" where
  "promote_one place ids school term_id e promoted =
     op_bind (op_get (current_level school e)) (\<lambda>cur.
     case cur of
       None \<Rightarrow> op_ret promoted
     | Some l \<Rightarrow>
         op_bind (op_get (next_level l)) (\<lambda>nxt.
         case nxt of
           None \<Rightarrow> op_then (op_modify (deactivate_enrolment_row (en_id e))) (op_ret (promoted + 1))
         | Some n \<Rightarrow>
             op_bind (op_get (place promoted n)) (\<lambda>seat.
             op_then (insert_enrolment \<lparr>en_id = is_enrolment ids (en_id e), en_student = en_student e,
               en_school = school, en_class = snd seat, en_arm = fst seat, en_term = Some term_id,
               en_level = lv_name n, en_year = en_year e, en_active = True, en_debt = 0\<rparr>) (
             op_then (op_modify (deactivate_enrolment_row (en_id e))) (op_ret (promoted + 1))))))"

definition promote_with ::
  "(nat \<Rightarrow> class_level_row \<Rightarrow> session_db \<Rightarrow> ident option \<times> ident option) \<Rightarrow> id_supply \<Rightarrow> ident \<Rightarrow> ident
    \<Rightarrow> string option \<Rightarrow> nat session_op" where
  "promote_with place ids school term_id ty =
     op_then (op_modify (ensure_class_level_progression school ty)) (
     op_bind (op_get (\<lambda>db. enrolments_to_move school (map_option tr_id (previous_term school ty term_id db)) ty db))
       (\<lambda>es. op_for (promote_one place ids school term_id) es 0))"

definition promote_students :: "id_supply \<Rightarrow> ident \<Rightarrow> ident \<Rightarrow> string option \<Rightarrow> nat session_op" where
  "promote_students = promote_with first_arm"

definition promote_students_with_tracking ::
  "int \<Rightarrow> date \<Rightarrow> id_supply \<Rightarrow> ident \<Rightarrow> ident \<Rightarrow> string option \<Rightarrow> nat session_op" where
  "promote_students_with_tracking tz now ids school = promote_with (round_robin_arm tz now school) ids school"

section \<open>Carry-over\<close>

definition carry_one :: "id_supply \<Rightarrow> ident \<Rightarrow> ident \<Rightarrow> term_enrolment \<Rightarrow> nat \<Rightarrow> nat session_op" where
  "carry_one ids school term_id e carried =
     op_bind (op_get (\<lambda>db. list_ex (\<lambda>u. en_student u = en_student e \<and> en_school u = school \<and>
       en_term u = Some term_id) (sd_enrolments db))) (\<lambda>existing.
     if existing then op_ret carried
     else op_then (insert_enrolment (e\<lparr>en_id := is_enrolment ids (en_id e), en_school := school,
       en_term := Some term_id, en_active := True\<rparr>)) (op_ret (carried + 1)))"

definition carry_over_students ::
  "id_supply \<Rightarrow> ident \<Rightarrow> ident \<Rightarrow> ident option \<Rightarrow> string option \<Rightarrow> nat session_op" where
  "carry_over_students ids school term_id prev ty =
     op_bind (op_get (enrolments_to_move school (or_undefined prev) ty)) (\<lambda>es.
       op_for (carry_one ids school term_id) es 0)"

definition migrate_students :: "id_supply \<Rightarrow> ident \<Rightarrow> ident \<Rightarrow> bool \<Rightarrow> nat session_op" where
  "migrate_students ids school term_id carry =
     op_bind (op_get (\<lambda>db. find_school school (sd_schools db))) (\<lambda>sch.
     op_then (op_require (sch \<noteq> None) (BadRequest ''School not found'')) (
     op_bind (op_get (find_term term_id)) (\<lambda>found.
     case found of
       None \<Rightarrow> op_throw (NotFound ''Term not found'')
     | Some t \<Rightarrow>
         op_bind (op_get (session_where (\<lambda>s. sn_school s = school) t)) (\<lambda>mine.
         op_then (op_require mine (NotFound ''Term not found'')) (
         if carry then
           op_bind (op_get (\<lambda>db. sort_key (\<lambda>u. - tr_number u) (filter (\<lambda>u. tr_session u = tr_session t \<and>
             tr_number u < tr_number t) (sd_terms db)))) (\<lambda>earlier.
           case earlier of
             [] \<Rightarrow> op_throw (BadRequest ''No previous term found for carry over'')
           | u # _ \<Rightarrow> carry_over_students ids school term_id (Some (tr_id u)) None)
         else promote_students ids school term_id None)))))"

section \<open>Timetables\<close>

definition period_clash :: "timetable_row \<Rightarrow> timetable_row \<Rightarrow> bool" where
  "period_clash r u = (tt_id u = tt_id r \<or>
     (tt_term u = tt_term r \<and> tt_day u = tt_day r \<and> tt_start u = tt_start r \<and>
      ((tt_class r \<noteq> None \<and> tt_class u = tt_class r) \<or> (tt_arm r \<noteq> None \<and> tt_arm u = tt_arm r))))"

definition same_slot :: "ident \<Rightarrow> timetable_row \<Rightarrow> timetable_row \<Rightarrow> bool" where
  "same_slot term_id p u = (tt_term u = term_id \<and> tt_class u = tt_class p \<and> tt_arm u = tt_arm p \<and>
     tt_day u = tt_day p \<and> tt_start u = tt_start p)"

definition clone_period :: "id_supply \<Rightarrow> ident \<Rightarrow> timetable_row \<Rightarrow> nat \<Rightarrow> nat session_op" where
  "clone_period ids to p cloned =
     op_bind (op_get (\<lambda>db. list_ex (same_slot to p) (sd_periods db))) (\<lambda>present.
     if present then op_ret cloned
     else let r = p\<lparr>tt_id := is_period ids (tt_id p), tt_term := to\<rparr>
       in op_bind (op_get (\<lambda>db. list_ex (period_clash r) (sd_periods db))) (\<lambda>taken.
          op_then (op_require (\<not> taken) unique_error) (
          op_then (op_modify (\<lambda>db. db\<lparr>sd_periods := sd_periods db @ [r]\<rparr>)) (op_ret (cloned + 1)))))"

definition clone_timetables :: "id_supply \<Rightarrow> ident \<Rightarrow> ident \<Rightarrow> nat session_op" where
  "clone_timetables ids from to =
     op_bind (op_get (\<lambda>db. filter (\<lambda>p. tt_term p = from) (sd_periods db))) (\<lambda>ps.
       op_for (clone_period ids to) ps 0)"

section \<open>Starting a session or a term\<close>

record new_session_dto =
  nd_name :: string
  nd_start :: date
  nd_end :: date
  nd_type :: "string option"
  nd_starting :: "nat option"
  nd_dates :: "term_dates list"
  nd_carry :: bool

definition months_between :: "int \<Rightarrow> date \<Rightarrow> date \<Rightarrow> int" where
  "months_between tz a b =
     (let m = local_day tz a; n = local_day tz b
      in (year_from_day n - year_from_day m) * 12 + (month_from_day n - month_from_day m))"

definition session_span_error :: "int \<Rightarrow> date \<Rightarrow> date \<Rightarrow> http_error option" where
  "session_span_error tz start stop =
     (let months = months_between tz start stop; days = (stop - start) div ms_per_day
      in if months < 10 \<or> days < 300 then
           Some (BadRequest ''An academic session must span at least 10 months (approximately one year).'')
         else if 12 < months \<or> 370 < days then
           Some (BadRequest ''An academic session cannot exceed 12 months.'')
         else None)"

definition op_check :: "http_error option \<Rightarrow> (session_db, unit) op" where
  "op_check e = (case e of None \<Rightarrow> op_ret () | Some x \<Rightarrow> op_throw x)"

definition term_count :: "string option \<Rightarrow> nat" where
  "term_count ty = (if ty = Some ''TERTIARY'' then 2 else 3)"

definition term_label :: "string option \<Rightarrow> string" where
  "term_label ty = (if ty = Some ''TERTIARY'' then ''Semester'' else ''Term'')"

definition ordinal :: "int \<Rightarrow> string" where
  "ordinal n = (if n = 1 then ''1st'' else if n = 2 then ''2nd'' else ''3rd'')"

text \<open>One term per range; the result is the starting term, if a range has its number.\<close>

definition create_range_term ::
  "id_supply \<Rightarrow> string option \<Rightarrow> nat \<Rightarrow> term_dates \<Rightarrow> academic_term option \<Rightarrow> academic_term option session_op" where
  "create_range_term ids ty starting r current =
     (let starts = td_number r = int starting;
          t = blank_term (is_term ids (td_number r)) (ordinal (td_number r) @ '' '' @ term_label ty) (td_number r)
            (td_start r) (td_end r)
            (if starts then TERM_ACTIVE else if td_number r < int starting then TERM_COMPLETED else TERM_DRAFT)
            (is_session ids)
      in op_then (insert_term t) (op_ret (if starts then Some t else current)))"

definition start_new_session ::
  "int \<Rightarrow> date \<Rightarrow> id_supply \<Rightarrow> ident \<Rightarrow> new_session_dto \<Rightarrow> (ident \<times> ident \<times> nat) session_op" where
  "start_new_session tz now ids school dto =
     (let ty = or_undefined (nd_type dto); start = nd_start dto; stop = nd_end dto; n_terms = term_count ty;
          starting = (case nd_starting dto of None \<Rightarrow> 1 | Some n \<Rightarrow> if n = 0 then 1 else n)
      in
     op_bind (op_lift (\<lambda>db. validate_school_active school (sd_schools db))) (\<lambda>_.
     op_bind (op_get (find_active_session school ty)) (\<lambda>active.
     op_bind (case active of None \<Rightarrow> op_ret True | Some a \<Rightarrow> complete_session_if_no_active_terms (sn_id a)) (\<lambda>free.
     op_then (op_require free (Conflict ''Cannot start a new session while another is active. Please end the current session first.'')) (
     op_then (op_check (session_span_error tz start stop)) (
     op_bind (op_get (\<lambda>db. list_ex (\<lambda>s. sn_school s = school \<and> sn_name s = nd_name dto \<and> sn_type s = ty) (sd_sessions db))) (\<lambda>taken.
     op_then (op_require (\<not> taken) (Conflict ''A session of that name already exists. Each academic year needs a unique session name.'')) (
     op_then (op_modify (\<lambda>db. db\<lparr>sd_sessions := sd_sessions db @
       [\<lparr>sn_id = is_session ids, sn_name = nd_name dto, sn_start = start, sn_end = stop,
         sn_status = SESSION_ACTIVE, sn_school = school, sn_type = ty\<rparr>]\<rparr>)) (
     op_then (op_modify (\<lambda>db. db\<lparr>sd_sessions := update_where (\<lambda>s. sn_school s = school \<and> sn_status s = SESSION_ACTIVE \<and>
       sn_type s = ty \<and> sn_id s \<noteq> is_session ids) complete_session (sd_sessions db)\<rparr>)) (
     op_then (op_require (starting \<le> n_terms) (BadRequest ''Starting number exceeds the number of terms.'')) (
     op_bind (op_lift (\<lambda>_. build_term_date_ranges start stop n_terms (nd_dates dto))) (\<lambda>ranges.
     op_bind (op_for (create_range_term ids ty starting) ranges None) (\<lambda>current.
     op_then (op_modify (seed_holidays school start stop ty)) (
     case current of
       None \<Rightarrow> op_throw (JsError ''Cannot read properties of undefined (reading id)'')
     | Some t \<Rightarrow>
         op_bind (op_get id) (\<lambda>d.
         op_then (op_modify (update_terms (\<lambda>u. session_where (\<lambda>s. sn_school s = school \<and> sn_type s = ty) u d \<and>
           tr_status u = TERM_ACTIVE \<and> tr_id u \<noteq> tr_id t) complete_term)) (
         op_bind (if nd_carry dto then
             op_bind (op_get (previous_term school ty (tr_id t))) (\<lambda>prev.
               carry_over_students ids school (tr_id t) (map_option tr_id prev) ty)
           else promote_students_with_tracking tz now ids school (tr_id t) ty) (\<lambda>moved.
         op_ret (is_session ids, tr_id t, moved))))))))))))))))))"

definition start_next_term :: "id_supply \<Rightarrow> ident \<Rightarrow> ident option \<Rightarrow> (ident \<times> ident \<times> nat) session_op" where
  "start_next_term ids school term_id =
     op_bind (op_lift (\<lambda>db. validate_school_active school (sd_schools db))) (\<lambda>_.
     op_then (op_require (truthy term_id) (BadRequest ''termId is required for NEW_TERM type'')) (
     op_bind (op_get (find_term (the term_id))) (\<lambda>found.
     case found of
       None \<Rightarrow> op_throw (NotFound ''Term not found'')
     | Some t \<Rightarrow>
         op_bind (op_get (session_where (\<lambda>s. sn_school s = school) t)) (\<lambda>mine.
         op_then (op_require mine (NotFound ''Term not found'')) (
         op_bind (op_get (\<lambda>db. sort_key (\<lambda>u. - tr_number u) (filter (\<lambda>u. active_term_of (tr_session t) u \<and>
           tr_id u \<noteq> tr_id t) (sd_terms db)))) (\<lambda>others.
         let prev = (case others of [] \<Rightarrow> None | u # _ \<Rightarrow> Some (tr_id u)) in
         op_then (op_modify (update_term (tr_id t) activate_term)) (
         op_then (case prev of None \<Rightarrow> op_ret () | Some p \<Rightarrow> op_modify (update_term p complete_term)) (
         op_bind (case prev of None \<Rightarrow> op_ret 0 | Some p \<Rightarrow> clone_timetables ids p (tr_id t)) (\<lambda>_.
         op_bind (op_get (find_session (tr_session t))) (\<lambda>s.
         op_bind (carry_over_students ids school (tr_id t) prev (case s of None \<Rightarrow> None | Some x \<Rightarrow> or_undefined (sn_type x))) (\<lambda>moved.
         op_ret (tr_session t, tr_id t, moved))))))))))))"

section \<open>Ending and reactivating\<close>

definition end_term :: "ident \<Rightarrow> string option \<Rightarrow> ident session_op" where
  "end_term school ty =
     op_bind (op_get (\<lambda>db. find_school school (sd_schools db))) (\<lambda>sch.
     op_then (op_require (sch \<noteq> None) (BadRequest ''School not found'')) (
     op_bind (op_get (\<lambda>db. find (\<lambda>t. session_where (\<lambda>s. sn_school s = school \<and> sn_type s = or_undefined ty) t db \<and>
       tr_status t = TERM_ACTIVE) (sd_terms db))) (\<lambda>found.
     case found of
       None \<Rightarrow> op_throw (NotFound ''No active term found'')
     | Some t \<Rightarrow>
         op_then (op_modify (update_term (tr_id t) complete_term)) (
         op_bind (complete_session_if_no_active_terms (tr_session t)) (\<lambda>_. op_ret (tr_id t))))))"

definition end_session :: "ident \<Rightarrow> string option \<Rightarrow> ident session_op" where
  "end_session school ty =
     op_bind (op_get (\<lambda>db. find_school school (sd_schools db))) (\<lambda>sch.
     op_then (op_require (sch \<noteq> None) (BadRequest ''School not found'')) (
     op_bind (op_get (find_active_session school ty)) (\<lambda>active.
     case active of
       None \<Rightarrow> op_throw (NotFound ''No active session found'')
     | Some s \<Rightarrow>
         op_then (op_modify (update_terms (\<lambda>t. tr_session t = sn_id s) complete_term)) (
         op_then (op_modify (update_session (sn_id s) complete_session)) (op_ret (sn_id s))))))"

definition activate_session :: "academic_session \<Rightarrow> academic_session" where
  "activate_session s = s\<lparr>sn_status := SESSION_ACTIVE\<rparr>"

definition reactivate_term :: "date \<Rightarrow> ident \<Rightarrow> ident \<Rightarrow> string option \<Rightarrow> ident session_op" where
  "reactivate_term now school term_id ty =
     op_bind (op_get (\<lambda>db. find_school school (sd_schools db))) (\<lambda>sch.
     op_then (op_require (sch \<noteq> None) (BadRequest ''School not found'')) (
     op_bind (op_get (find_term term_id)) (\<lambda>found.
     case found of
       None \<Rightarrow> op_throw (NotFound ''Term not found'')
     | Some t \<Rightarrow>
         op_bind (op_get (session_where (\<lambda>s. sn_school s = school) t)) (\<lambda>mine.
         op_then (op_require mine (BadRequest ''Term does not belong to this school'')) (
         op_bind (op_get (session_where (\<lambda>s. truthy ty \<longrightarrow> sn_type s = ty) t)) (\<lambda>typed.
         op_then (op_require typed (BadRequest ''Term does not match the specified school type'')) (
         op_then (op_require (tr_status t = TERM_COMPLETED) (BadRequest ''Only completed terms can be reactivated'')) (
         op_then (op_require (\<not> tr_end t < now) (BadRequest ''Cannot reactivate this term - its end date has already passed'')) (
         op_then (op_modify (update_terms (active_term_of (tr_session t)) complete_term)) (
         op_then (op_modify (update_term term_id activate_term)) (
         op_then (op_modify (update_session (tr_session t) activate_session)) (op_ret term_id))))))))))))"

end
