(* ===== verification/SessionDates.thy ===== *)
theory SessionDates
  imports SessionTerms
begin

text \<open>
  The edits of session and term dates and the views of sessions and terms,
  \<open>src/src/sessions/session.service.ts\<close>. An absent field of a request is None; the optional
  windows of a term tell an absent field from an explicit null.
\<close>

section \<open>Session dates\<close>

definition SESSION_START_GRACE_DAYS :: int where
  "SESSION_START_GRACE_DAYS = 7"

record session_dates_dto =
  sx_start :: "date option"
  sx_end :: "date option"
  sx_recalibrate :: bool

definition outside :: "date \<Rightarrow> date \<Rightarrow> academic_term \<Rightarrow> bool" where
  "outside start stop t = (tr_start t < start \<or> stop < tr_end t)"

definition start_locked :: "date \<Rightarrow> date \<Rightarrow> date \<Rightarrow> date option \<Rightarrow> bool" where
  "start_locked now original new_start requested =
     (requested \<noteq> None \<and> new_start \<noteq> original \<and> plus_days original SESSION_START_GRACE_DAYS < now)"

definition terms_of :: "ident \<Rightarrow> session_db \<Rightarrow> academic_term list" where
  "terms_of sid db = sort_key tr_number (filter (\<lambda>t. tr_session t = sid) (sd_terms db))"

definition recalibrated :: "term_dates \<Rightarrow> academic_term \<Rightarrow> academic_term" where
  "recalibrated r t =
     t\<lparr>tr_start := td_start r, tr_end := td_end r, tr_half_start := None, tr_half_end := None,
       tr_mid_start := None, tr_mid_end := None, tr_exam_start := None, tr_exam_end := None,
       tr_published := None, tr_published_by := None\<rparr>"

definition recalibrate_range :: "academic_term list \<Rightarrow> term_dates \<Rightarrow> session_db \<Rightarrow> session_db" where
  "recalibrate_range terms r db =
     (case find (\<lambda>t. tr_number t = td_number r) terms of
        None \<Rightarrow> db
      | Some t \<Rightarrow> if tr_status t \<noteq> TERM_DRAFT then db else update_term (tr_id t) (recalibrated r) db)"

definition update_session_dates ::
  "int \<Rightarrow> date \<Rightarrow> ident \<Rightarrow> ident \<Rightarrow> session_dates_dto \<Rightarrow> ident session_op" where
  "update_session_dates tz now school sid dto =
     op_bind (op_lift (\<lambda>db. validate_school_active school (sd_schools db))) (\<lambda>_.
     op_bind (op_get (\<lambda>db. find (\<lambda>s. sn_id s = sid \<and> sn_school s = school) (sd_sessions db))) (\<lambda>found.
     case found of
       None \<Rightarrow> op_throw (NotFound ''Academic session not found'')
     | Some s \<Rightarrow>
         let new_start = nullish (sx_start dto) (sn_start s); new_end = nullish (sx_end dto) (sn_end s) in
         op_bind (op_get (terms_of sid)) (\<lambda>terms.
         op_then (op_require (sn_status s = SESSION_ACTIVE) (BadRequest ''Only active sessions can have their dates adjusted'')) (
         op_then (op_require (new_start < new_end) (BadRequest ''Start date must be before end date'')) (
         op_then (op_check (session_span_error tz new_start new_end)) (
         op_then (op_require (\<not> start_locked now (sn_start s) new_start (sx_start dto))
           (BadRequest ''Session start date can only be adjusted before the session starts or within the first week of the session.'')) (
         op_then (op_require (\<not> list_ex (\<lambda>t. tr_status t \<in> {TERM_COMPLETED, TERM_ARCHIVED} \<and> outside new_start new_end t) terms)
           (BadRequest ''Cannot change session dates: a completed term would fall outside the new session period.'')) (
         op_then (op_require (\<not> list_ex (\<lambda>t. tr_status t = TERM_ACTIVE \<and> outside new_start new_end t) terms)
           (BadRequest ''Cannot change session dates: the active term would fall outside the new session period.'')) (
         op_then (op_require (sx_recalibrate dto \<or> \<not> list_ex (\<lambda>t. tr_status t = TERM_DRAFT \<and> outside new_start new_end t) terms)
           (BadRequest ''Cannot change session dates: a draft term would fall outside the new session period.'')) (
         op_then (op_modify (update_session sid (\<lambda>s. s\<lparr>sn_start := nullish (sx_start dto) (sn_start s),
           sn_end := nullish (sx_end dto) (sn_end s)\<rparr>))) (
         op_then (op_modify (\<lambda>db. if sx_recalibrate dto
           then fold (recalibrate_range terms) (map (auto_range new_start new_end (term_count (sn_type s))) [0..<term_count (sn_type s)]) db
           else db)) (
         op_then (op_modify (\<lambda>db. if sx_start dto \<noteq> None \<or> sx_end dto \<noteq> None
           then seed_holidays school new_start new_end (sn_type s) db else db)) (
         op_ret sid)))))))))))))"

section \<open>Term dates\<close>

record term_dates_dto =
  tx_start :: "date option"
  tx_end :: "date option"
  tx_half_start :: "date option option"
  tx_half_end :: "date option option"
  tx_mid_start :: "date option option"
  tx_mid_end :: "date option option"
  tx_exam_start :: "date option option"
  tx_exam_end :: "date option option"

definition edited_term :: "term_dates_dto \<Rightarrow> academic_term \<Rightarrow> academic_term" where
  "edited_term dto t =
     (let unpublish = (tr_published t \<noteq> None \<and> (tx_exam_start dto \<noteq> None \<or> tx_exam_end dto \<noteq> None))
      in t\<lparr>tr_start := nullish (tx_start dto) (tr_start t), tr_end := nullish (tx_end dto) (tr_end t),
           tr_half_start := nullish (tx_half_start dto) (tr_half_start t),
           tr_half_end := nullish (tx_half_end dto) (tr_half_end t),
           tr_mid_start := nullish (tx_mid_start dto) (tr_mid_start t),
           tr_mid_end := nullish (tx_mid_end dto) (tr_mid_end t),
           tr_exam_start := nullish (tx_exam_start dto) (tr_exam_start t),
           tr_exam_end := nullish (tx_exam_end dto) (tr_exam_end t),
           tr_published := (if unpublish then None else tr_published t),
           tr_published_by := (if unpublish then None else tr_published_by t)\<rparr>)"

definition update_term_dates ::
  "date \<Rightarrow> ident \<Rightarrow> ident \<Rightarrow> ident \<Rightarrow> term_dates_dto \<Rightarrow> ident session_op" where
  "update_term_dates now school sid term_id dto =
     op_bind (op_get (\<lambda>db. find_school school (sd_schools db))) (\<lambda>sch.
     op_then (op_require (sch \<noteq> None) (BadRequest ''School not found'')) (
     op_bind (op_get (\<lambda>db. find (\<lambda>t. tr_id t = term_id \<and> tr_session t = sid \<and>
       session_where (\<lambda>s. sn_school s = school) t db) (sd_terms db))) (\<lambda>found.
     case found of
       None \<Rightarrow> op_throw (NotFound ''Term not found'')
     | Some t \<Rightarrow>
         let new_start = nullish (tx_start dto) (tr_start t); new_end = nullish (tx_end dto) (tr_end t) in
         op_then (op_require (tr_status t \<notin> {TERM_COMPLETED, TERM_ARCHIVED})
           (BadRequest ''Cannot modify dates of a completed or archived term.'')) (
         op_then (op_require (new_start < new_end) (BadRequest ''Start date must be before end date'')) (
         op_bind (op_get (session_where (\<lambda>s. sn_start s \<le> new_start \<and> new_end \<le> sn_end s) t)) (\<lambda>inside.
         op_then (op_require inside (BadRequest ''Term dates must be within session dates'')) (
         op_then (op_require (\<not> start_locked now (tr_start t) new_start (tx_start dto))
           (BadRequest ''Term start date can only be adjusted before the term starts or within the first week of the term.'')) (
         op_then (op_modify (update_term term_id (edited_term dto))) (op_ret term_id)))))))))"

section \<open>Views\<close>

definition term_status_name :: "term_status \<Rightarrow> string" where
  "term_status_name st = (case st of TERM_DRAFT \<Rightarrow> ''DRAFT'' | TERM_ACTIVE \<Rightarrow> ''ACTIVE''
     | TERM_COMPLETED \<Rightarrow> ''COMPLETED'' | TERM_ARCHIVED \<Rightarrow> ''ARCHIVED'')"

definition phase_input_of :: "academic_term \<Rightarrow> term_phase_input" where
  "phase_input_of t = \<lparr>tp_start = tr_start t, tp_end = tr_end t, tp_status = Some (term_status_name (tr_status t)),
     tp_exam_start = tr_exam_start t, tp_exam_end = tr_exam_end t, tp_exam_published_at = tr_published t\<rparr>"

record term_view =
  vw_term :: academic_term
  vw_current_week :: "int option"
  vw_total_weeks :: int
  vw_current_teaching :: "int option"
  vw_total_teaching :: int
  vw_days_remaining :: int
  vw_past_end :: bool
  vw_operational :: bool
  vw_exam_period :: bool
  vw_lessons_active :: bool
  vw_phase :: term_phase

definition ms_per_week :: int where
  "ms_per_week = 7 * 24 * 60 * 60 * 1000"

definition ceiling_div :: "int \<Rightarrow> int \<Rightarrow> int" where
  "ceiling_div a b = - ((- a) div b)"

definition map_to_term_dto :: "int \<Rightarrow> date \<Rightarrow> working_day list \<Rightarrow> bool \<Rightarrow> academic_term \<Rightarrow> term_view" where
  "map_to_term_dto tz now working blackout t =
     (let weeks = max 1 (ceiling_div (tr_end t - tr_start t) ms_per_week);
          half = build_half_term_range tz (tr_half_start t) (tr_half_end t);
          teaching = get_teaching_week_info tz (tr_start t) (tr_end t) now
            (if working \<noteq> [] then working else default_working_days) (case half of None \<Rightarrow> [] | Some r \<Rightarrow> [Some r]);
          today = local_midnight tz now; last = local_midnight tz (tr_end t); first = local_midnight tz (tr_start t);
          days = ceiling_div (last - today) ms_per_day;
          past = days < 0;
          in_session = (first \<le> today \<and> today \<le> last);
          active = (tr_status t = TERM_ACTIVE);
          inp = phase_input_of t
      in \<lparr>vw_term = t,
          vw_current_week = (if active \<and> tr_start t \<le> now \<and> in_session
              then Some (min (max 1 ((now - tr_start t) div ms_per_week + 1)) weeks)
            else if active \<and> past then Some weeks else None),
          vw_total_weeks = weeks,
          vw_current_teaching = (if active \<and> tr_start t \<le> now \<and> in_session then current_teaching_week teaching
            else if active \<and> past then Some (total_teaching_weeks teaching) else None),
          vw_total_teaching = total_teaching_weeks teaching,
          vw_days_remaining = days, vw_past_end = past,
          vw_operational = (active \<and> in_session),
          vw_exam_period = is_exam_schedule_active tz inp now,
          vw_lessons_active = is_lesson_schedule_active tz inp now blackout,
          vw_phase = get_term_phase tz inp now\<rparr>)"

definition get_sessions ::
  "int \<Rightarrow> date \<Rightarrow> working_day list \<Rightarrow> bool \<Rightarrow> ident \<Rightarrow> string option \<Rightarrow> session_db
    \<Rightarrow> http_error + (academic_session \<times> term_view list) list" where
  "get_sessions tz now working blackout school ty db =
     (if find_school school (sd_schools db) = None then Inl (BadRequest ''School not found'')
      else Inr (map (\<lambda>s. (s, map (map_to_term_dto tz now working blackout) (terms_of (sn_id s) db)))
        (sort_key (\<lambda>s. - sn_start s) (filter (\<lambda>s. sn_school s = school \<and> sn_type s = or_undefined ty) (sd_sessions db)))))"

text \<open>The daily reminder: the active terms that end within seven days and the days left.\<close>

definition check_term_ending_reminders :: "date \<Rightarrow> session_db \<Rightarrow> (ident \<times> int) list" where
  "check_term_ending_reminders now db =
     map (\<lambda>t. (tr_id t, ceiling_div (tr_end t - now) ms_per_day))
       (filter (\<lambda>t. tr_status t = TERM_ACTIVE \<and> now \<le> tr_end t \<and> tr_end t \<le> plus_days now 7) (sd_terms db))"

end
