(* ===== verification/SessionFacts.thy ===== *)
theory SessionFacts
  imports SessionDates
begin

text \<open>
  The invariant of the session tables through every operation, and the runs of the service as an
  inductive reachability relation.
\<close>

section \<open>The tables\<close>

text \<open>
  Terms have unique ids and unique (session, number), a session has at most one ACTIVE term,
  enrollments have unique ids and a student has at most one enrollment of a school and term.
\<close>

definition one_active_term :: "academic_term list \<Rightarrow> bool" where
  "one_active_term ts \<longleftrightarrow> (\<forall>t\<in>set ts. \<forall>u\<in>set ts. tr_status t = TERM_ACTIVE \<longrightarrow> tr_status u = TERM_ACTIVE \<longrightarrow>
     tr_session t = tr_session u \<longrightarrow> tr_id t = tr_id u)"

definition terms_ok :: "academic_term list \<Rightarrow> bool" where
  "terms_ok ts \<longleftrightarrow> distinct (map tr_id ts) \<and> distinct (map (\<lambda>t. (tr_session t, tr_number t)) ts) \<and> one_active_term ts"

definition enrolment_key :: "term_enrolment \<Rightarrow> ident \<times> ident \<times> ident option" where
  "enrolment_key e = (en_student e, en_school e, en_term e)"

definition enrolments_ok :: "term_enrolment list \<Rightarrow> bool" where
  "enrolments_ok es \<longleftrightarrow> distinct (map en_id es) \<and> distinct (map enrolment_key (filter (\<lambda>e. en_term e \<noteq> None) es))"

definition session_inv :: "session_db \<Rightarrow> bool" where
  "session_inv db \<longleftrightarrow> terms_ok (sd_terms db) \<and> enrolments_ok (sd_enrolments db)"

text \<open>In the tables of a session being created, its ACTIVE terms have the starting number.\<close>

definition starting_only :: "ident \<Rightarrow> int \<Rightarrow> academic_term list \<Rightarrow> bool" where
  "starting_only sid n ts \<longleftrightarrow> (\<forall>t\<in>set ts. active_term_of sid t \<longrightarrow> tr_number t = n)"

definition inv_and :: "(academic_term list \<Rightarrow> bool) \<Rightarrow> session_db \<Rightarrow> bool" where
  "inv_and Q db \<longleftrightarrow> session_inv db \<and> Q (sd_terms db)"

abbreviation creating_inv :: "ident \<Rightarrow> int \<Rightarrow> session_db \<Rightarrow> bool" where
  "creating_inv sid n \<equiv> inv_and (starting_only sid n)"

lemma inv_and_True: "inv_and (\<lambda>_. True) = session_inv"
  by (simp add: inv_and_def fun_eq_iff)

named_theorems session_frames "updates that keep the keys of rows"

lemma term_updates_frame [session_frames, simp]:
  "tr_id (complete_term t) = tr_id t" "tr_session (complete_term t) = tr_session t"
  "tr_number (complete_term t) = tr_number t" "tr_status (complete_term t) = TERM_COMPLETED"
  "tr_id (activate_term t) = tr_id t" "tr_session (activate_term t) = tr_session t"
  "tr_number (activate_term t) = tr_number t" "tr_status (activate_term t) = TERM_ACTIVE"
  "tr_id (edited_term dto t) = tr_id t" "tr_session (edited_term dto t) = tr_session t"
  "tr_number (edited_term dto t) = tr_number t" "tr_status (edited_term dto t) = tr_status t"
  "tr_id (recalibrated r t) = tr_id t" "tr_session (recalibrated r t) = tr_session t"
  "tr_number (recalibrated r t) = tr_number t" "tr_status (recalibrated r t) = tr_status t"
  by (simp_all add: complete_term_def activate_term_def edited_term_def recalibrated_def Let_def)

lemma terms_ok_step:
  assumes ok: "terms_ok ts" and len: "map tr_id ts' = map tr_id ts"
    and key: "map (\<lambda>t. (tr_session t, tr_number t)) ts' = map (\<lambda>t. (tr_session t, tr_number t)) ts"
    and act: "one_active_term ts'"
  shows "terms_ok ts'"
  using ok act unfolding terms_ok_def len key by simp

lemma update_where_terms_ok:
  assumes "terms_ok ts" "\<And>t. tr_id (f t) = tr_id t" "\<And>t. tr_session (f t) = tr_session t"
    "\<And>t. tr_number (f t) = tr_number t" "\<And>t. tr_status (f t) = TERM_ACTIVE \<Longrightarrow> tr_status t = TERM_ACTIVE"
  shows "terms_ok (update_where p f ts)"
proof (rule terms_ok_step[OF assms(1)])
  have one: "one_active_term ts" using assms(1) by (simp add: terms_ok_def)
  have origin: "\<exists>r\<in>set ts. tr_id x = tr_id r \<and> tr_session x = tr_session r \<and> tr_status r = TERM_ACTIVE"
    if "x \<in> set (update_where p f ts)" "tr_status x = TERM_ACTIVE" for x
    using that assms(2-5) by (fastforce simp: set_update_where split: if_splits)
  show "one_active_term (update_where p f ts)"
    unfolding one_active_term_def by (metis origin one one_active_term_def)
qed (use assms(2-4) in \<open>auto intro: map_update_where_frame\<close>)

lemma update_first_terms_ok:
  assumes "terms_ok ts" "\<And>t. tr_id (f t) = tr_id t" "\<And>t. tr_session (f t) = tr_session t"
    "\<And>t. tr_number (f t) = tr_number t" "\<And>t. tr_status (f t) = TERM_ACTIVE \<Longrightarrow> tr_status t = TERM_ACTIVE"
  shows "terms_ok (update_first (\<lambda>t. tr_id t = i) f ts)"
  using update_where_terms_ok[OF assms] assms(1) by (simp add: distinct_update_first terms_ok_def)

text \<open>The only writes that activate a term: the others of its session are not ACTIVE afterwards.\<close>

lemma activate_terms_ok:
  assumes ok: "terms_ok ts"
    and rest: "\<And>t u. t \<in> set ts \<Longrightarrow> tr_id t = i \<Longrightarrow> u \<in> set ts \<Longrightarrow> active_term_of (tr_session t) u \<Longrightarrow> tr_id u = i"
  shows "terms_ok (update_where (\<lambda>t. tr_id t = i) activate_term ts)"
proof (rule terms_ok_step[OF ok])
  have one: "one_active_term ts" using ok by (simp add: terms_ok_def)
  show "one_active_term (update_where (\<lambda>t. tr_id t = i) activate_term ts)"
    unfolding one_active_term_def set_update_where
  proof (intro ballI impI)
    fix x y assume xy: "x \<in> (\<lambda>t. if tr_id t = i then activate_term t else t) ` set ts"
      "y \<in> (\<lambda>t. if tr_id t = i then activate_term t else t) ` set ts"
      and active: "tr_status x = TERM_ACTIVE" "tr_status y = TERM_ACTIVE" and same: "tr_session x = tr_session y"
    from xy obtain a b where ab: "a \<in> set ts" "b \<in> set ts"
      "x = (if tr_id a = i then activate_term a else a)" "y = (if tr_id b = i then activate_term b else b)" by auto
    show "tr_id x = tr_id y"
    proof (cases "tr_id a = i \<or> tr_id b = i")
      case True
      have ids: "tr_id x = tr_id a" "tr_id y = tr_id b" and sess: "tr_session x = tr_session a" "tr_session y = tr_session b"
        using ab(3,4) by simp_all
      have key: "tr_id d = i" if "tr_id c = i" "c \<in> set ts" "d \<in> set ts" "tr_id d = i \<or> tr_status d = TERM_ACTIVE"
        "tr_session d = tr_session c" for c d
        using rest[OF that(2,1,3)] that(4,5) by (auto simp: active_term_of_def)
      have stat: "tr_id a = i \<or> tr_status a = TERM_ACTIVE" "tr_id b = i \<or> tr_status b = TERM_ACTIVE"
        using ab(3,4) active by (auto split: if_splits)
      have "tr_id a = i \<and> tr_id b = i"
        using True key[OF _ ab(1,2) stat(2)] key[OF _ ab(2,1) stat(1)] same sess by auto
      then show ?thesis by (simp add: ids)
    next
      case False
      then have "x = a" "y = b" using ab(3,4) by simp_all
      then show ?thesis using one ab(1,2) active same unfolding one_active_term_def by blast
    qed
  qed
qed (auto intro: map_update_where_frame)

lemma append_term_ok:
  assumes ok: "terms_ok ts" and new: "\<And>u. u \<in> set ts \<Longrightarrow> tr_id u \<noteq> tr_id t \<and>
      \<not> (tr_session u = tr_session t \<and> tr_number u = tr_number t)"
    and act: "\<And>u. u \<in> set ts \<Longrightarrow> tr_status t = TERM_ACTIVE \<Longrightarrow> tr_status u = TERM_ACTIVE \<Longrightarrow> tr_session u \<noteq> tr_session t"
  shows "terms_ok (ts @ [t])"
proof -
  have "one_active_term (ts @ [t])"
    using ok act unfolding terms_ok_def one_active_term_def
    by (metis Un_iff empty_iff empty_set set_ConsD set_append)
  moreover have "tr_id t \<notin> tr_id ` set ts" "(tr_session t, tr_number t) \<notin> (\<lambda>t. (tr_session t, tr_number t)) ` set ts"
    using new by fastforce+
  ultimately show ?thesis using ok by (simp add: terms_ok_def)
qed

lemma insert_term_keeps:
  assumes starts: "tr_status t = TERM_ACTIVE \<Longrightarrow> tr_number t = n \<and> tr_session t = sid"
  shows "op_keeps (creating_inv sid n) (insert_term t)"
proof -
  have "creating_inv sid n (db\<lparr>sd_terms := sd_terms db @ [t]\<rparr>)"
    if inv: "creating_inv sid n db" and fresh: "\<not> list_ex (\<lambda>u. tr_id u = tr_id t \<or>
       (tr_session u = tr_session t \<and> tr_number u = tr_number t)) (sd_terms db)" for db
  proof -
    have new: "tr_id u \<noteq> tr_id t \<and> \<not> (tr_session u = tr_session t \<and> tr_number u = tr_number t)" if "u \<in> set (sd_terms db)" for u
      using fresh that by (auto simp: list_ex_iff)
    have only: "starting_only sid n (sd_terms db)" and ok: "terms_ok (sd_terms db)"
      using inv by (simp_all add: inv_and_def session_inv_def)
    have "terms_ok (sd_terms db @ [t])"
      using ok new starts only unfolding starting_only_def active_term_of_def by (intro append_term_ok) metis+
    moreover have "starting_only sid n (sd_terms db @ [t])"
      using only starts by (auto simp: starting_only_def active_term_of_def)
    ultimately show ?thesis using inv by (simp add: inv_and_def session_inv_def)
  qed
  then show ?thesis
    by (auto simp: op_keeps_def insert_term_def op_require_eval op_then_def op_bind_def)
qed

section \<open>Moving students keeps the tables\<close>

lemma insert_enrolment_keeps [op_keeps_intros]: "op_keeps (inv_and Q) (insert_enrolment e)"
proof -
  have "enrolments_ok (es @ [e])" if ok: "enrolments_ok es" and new: "\<not> list_ex (enrolment_clash e) es" for es
  proof -
    have "en_id e \<notin> set (map en_id es)" "en_term e \<noteq> None \<Longrightarrow> enrolment_key e \<notin> set (map enrolment_key es)"
      using new by (auto simp: list_ex_iff enrolment_clash_def enrolment_key_def)
    then show ?thesis using ok by (auto simp: enrolments_ok_def)
  qed
  then show ?thesis
    by (auto simp: op_keeps_def insert_enrolment_def op_require_eval op_then_def op_bind_def inv_and_def session_inv_def)
qed

lemma deactivate_row_keeps [op_keeps_intros]: "op_keeps (inv_and Q) (op_modify (deactivate_enrolment_row i))"
proof -
  have "map enrolment_key (filter (\<lambda>e. en_term e \<noteq> None) (update_first p (\<lambda>e. e\<lparr>en_active := False\<rparr>) es))
      = map enrolment_key (filter (\<lambda>e. en_term e \<noteq> None) es)" for p es
    by (induction es) (auto simp: enrolment_key_def)
  moreover have "map en_id (update_first p (\<lambda>e. e\<lparr>en_active := False\<rparr>) es) = map en_id es" for p and es :: "term_enrolment list"
    by (rule map_update_first_frame) simp
  ultimately show ?thesis
    by (simp add: op_keeps_def deactivate_enrolment_row_def inv_and_def session_inv_def enrolments_ok_def)
qed

lemma ensure_progression_keeps [op_keeps_intros]: "op_keeps (inv_and Q) (op_modify (ensure_class_level_progression school ty))"
  by (simp add: op_keeps_def ensure_class_level_progression_def inv_and_def session_inv_def Let_def)

lemma seed_holidays_keeps [op_keeps_intros]: "op_keeps (inv_and Q) (op_modify (seed_holidays school a b ty))"
  by (simp add: op_keeps_def seed_holidays_def inv_and_def session_inv_def Let_def)

lemma sessions_write_keeps [op_keeps_intros]:
  "op_keeps (inv_and Q) (op_modify (\<lambda>db. db\<lparr>sd_sessions := f db\<rparr>))"
  "op_keeps (inv_and Q) (op_modify (\<lambda>db. db\<lparr>sd_periods := g db\<rparr>))"
  "op_keeps (inv_and Q) (op_modify (update_session sid h))"
  by (simp_all add: op_keeps_def inv_and_def session_inv_def update_session_def)

lemma promote_keeps: "op_keeps (inv_and Q) (promote_with place ids school term_id ty)"
  unfolding promote_with_def promote_one_def by (intro op_keeps_intros)

lemma promotions_keep [op_keeps_intros]:
  "op_keeps (inv_and Q) (promote_students ids school term_id ty)"
  "op_keeps (inv_and Q) (promote_students_with_tracking tz now ids school term_id ty)"
  unfolding promote_students_def promote_students_with_tracking_def by (rule promote_keeps)+

lemma carry_over_keeps [op_keeps_intros]: "op_keeps (inv_and Q) (carry_over_students ids school term_id prev ty)"
  unfolding carry_over_students_def carry_one_def by (intro op_keeps_intros)

lemma clone_timetables_keeps [op_keeps_intros]: "op_keeps (inv_and Q) (clone_timetables ids from to)"
  unfolding clone_timetables_def clone_period_def Let_def by (intro op_keeps_intros)

section \<open>Operations keep the tables\<close>

lemma complete_terms_keeps:
  assumes "\<And>ts. Q ts \<Longrightarrow> Q (update_where p complete_term ts)"
  shows "op_keeps (inv_and Q) (op_modify (update_terms p complete_term))"
  using assms by (auto simp: op_keeps_def inv_and_def session_inv_def update_terms_def intro: update_where_terms_ok)

lemma edit_term_keeps:
  assumes "\<And>t. tr_id (f t) = tr_id t" "\<And>t. tr_session (f t) = tr_session t"
    "\<And>t. tr_number (f t) = tr_number t" "\<And>t. tr_status (f t) = TERM_ACTIVE \<Longrightarrow> tr_status t = TERM_ACTIVE"
    "session_inv db"
  shows "session_inv (update_term i f db)"
  using assms by (auto simp: session_inv_def update_term_def intro: update_first_terms_ok)

lemma starting_only_complete: "starting_only sid n ts \<Longrightarrow> starting_only sid n (update_where p complete_term ts)"
  by (auto simp: starting_only_def set_update_where active_term_of_def complete_term_def split: if_splits)

lemma complete_if_idle_keeps [op_keeps_intros]: "op_keeps (inv_and Q) (complete_session_if_no_active_terms sid)"
  unfolding complete_session_if_no_active_terms_def by (intro op_keeps_intros)

lemma op_check_keeps [op_keeps_intros]: "op_keeps P (op_check e)"
  by (cases e) (simp_all add: op_check_def op_keeps_def)

lemma create_range_term_keeps:
  "op_keeps (creating_inv (is_session ids) (int starting)) (create_range_term ids ty starting r current)"
  unfolding create_range_term_def Let_def
  by (intro op_keeps_intros insert_term_keeps) (auto simp: blank_term_def split: if_splits)

lemma start_new_session_creating:
  "\<exists>n. op_keeps (creating_inv (is_session ids) n) (start_new_session tz now ids school dto)"
proof -
  define starting where "starting = (case nd_starting dto of None \<Rightarrow> 1 | Some n \<Rightarrow> if n = 0 then 1 else n)"
  have "op_keeps (creating_inv (is_session ids) (int starting)) (start_new_session tz now ids school dto)"
    unfolding start_new_session_def Let_def starting_def [symmetric]
    by (intro op_keeps_intros create_range_term_keeps complete_terms_keeps starting_only_complete)
  then show ?thesis by blast
qed

lemma start_new_session_keeps:
  assumes "session_inv db" "\<And>t. t \<in> set (sd_terms db) \<Longrightarrow> tr_session t \<noteq> is_session ids"
  shows "session_inv (snd (start_new_session tz now ids school dto db))"
proof -
  obtain n where "op_keeps (creating_inv (is_session ids) n) (start_new_session tz now ids school dto)"
    using start_new_session_creating by blast
  moreover have "creating_inv (is_session ids) n db"
    using assms by (auto simp: inv_and_def starting_only_def active_term_of_def)
  ultimately show ?thesis by (auto dest: op_keepsD simp: inv_and_def)
qed

text \<open>Activating a term and completing the ACTIVE one of its session, in either order.\<close>

lemma update_where_commute:
  assumes "i \<noteq> j"
  shows "update_where (\<lambda>t. tr_id t = j) complete_term (update_where (\<lambda>t. tr_id t = i) activate_term ts)
    = update_where (\<lambda>t. tr_id t = i) activate_term (update_where (\<lambda>t. tr_id t = j) complete_term ts)"
  using assms by (induction ts) auto

lemma switch_active_ok:
  assumes ok: "terms_ok ts" and t: "t \<in> set ts" and p: "p \<in> set ts" "active_term_of (tr_session t) p" "tr_id p \<noteq> tr_id t"
  shows "terms_ok (update_where (\<lambda>u. tr_id u = tr_id p) complete_term (update_where (\<lambda>u. tr_id u = tr_id t) activate_term ts))"
proof -
  let ?ts = "update_where (\<lambda>u. tr_id u = tr_id p) complete_term ts"
  have done_ok: "terms_ok ?ts" by (rule update_where_terms_ok[OF ok]) simp_all
  have "terms_ok (update_where (\<lambda>u. tr_id u = tr_id t) activate_term ?ts)"
  proof (rule activate_terms_ok[OF done_ok])
    fix v u assume v: "v \<in> set ?ts" "tr_id v = tr_id t" and u: "u \<in> set ?ts" "active_term_of (tr_session v) u"
    from u obtain w where w: "w \<in> set ts" "tr_id w \<noteq> tr_id p" "u = w"
      by (auto simp: set_update_where active_term_of_def split: if_splits)
    from v p(3) have "v \<in> set ts" by (auto simp: set_update_where split: if_splits)
    then have "v = t" using ok t v(2) by (auto simp: terms_ok_def intro: distinct_key_eq)
    then have "tr_id w = tr_id p"
      using ok p w u(2) unfolding terms_ok_def one_active_term_def active_term_of_def by metis
    then show "tr_id u = tr_id t" using w by simp
  qed
  then show ?thesis by (simp add: update_where_commute[OF p(3)[symmetric]])
qed

lemma activate_alone_ok:
  assumes ok: "terms_ok ts" and t: "t \<in> set ts"
    and rest: "\<And>u. u \<in> set ts \<Longrightarrow> active_term_of (tr_session t) u \<Longrightarrow> tr_id u = tr_id t"
  shows "terms_ok (update_where (\<lambda>u. tr_id u = tr_id t) activate_term ts)"
proof (rule activate_terms_ok[OF ok])
  fix v u assume "v \<in> set ts" "tr_id v = tr_id t" and u: "u \<in> set ts" "active_term_of (tr_session v) u"
  then have "v = t" using ok t by (auto simp: terms_ok_def intro: distinct_key_eq)
  then show "tr_id u = tr_id t" using rest u by simp
qed

lemma op_then_seq [simp]: "op_then (op_ret ()) k = k"
  by (simp add: op_then_def op_bind_def op_ret_def fun_eq_iff)

lemma op_keeps_get: "(\<And>s. P s \<Longrightarrow> P (snd (f (g s) s))) \<Longrightarrow> op_keeps P (op_bind (op_get g) f)"
  by (simp add: op_keeps_def)

text \<open>The switch of \<open>start_next_term\<close>: activate the term, complete the last ACTIVE other of its session.\<close>

definition switch_term :: "academic_term \<Rightarrow> academic_term list \<Rightarrow> session_db \<Rightarrow> session_db" where
  "switch_term t others db = (case others of
     [] \<Rightarrow> update_term (tr_id t) activate_term db
   | u # _ \<Rightarrow> update_term (tr_id u) complete_term (update_term (tr_id t) activate_term db))"

definition other_active :: "academic_term \<Rightarrow> session_db \<Rightarrow> academic_term list" where
  "other_active t db = sort_key (\<lambda>u. - tr_number u)
     (filter (\<lambda>u. active_term_of (tr_session t) u \<and> tr_id u \<noteq> tr_id t) (sd_terms db))"

lemma map_id_activate: "map tr_id (update_where p activate_term ts) = map tr_id ts"
  by (rule map_update_where_frame) simp

lemma switch_term_keeps:
  assumes inv: "session_inv db" and t: "t \<in> set (sd_terms db)"
  shows "session_inv (switch_term t (other_active t db) db)"
proof -
  have ok: "terms_ok (sd_terms db)" and d: "distinct (map tr_id (sd_terms db))"
    using inv by (simp_all add: session_inv_def terms_ok_def)
  have mem: "set (other_active t db) = {u \<in> set (sd_terms db). active_term_of (tr_session t) u \<and> tr_id u \<noteq> tr_id t}"
    by (auto simp: other_active_def)
  show ?thesis
  proof (cases "other_active t db")
    case Nil
    then have "terms_ok (update_where (\<lambda>u. tr_id u = tr_id t) activate_term (sd_terms db))"
      using mem by (intro activate_alone_ok[OF ok t]) auto
    then show ?thesis
      using inv Nil d by (simp add: switch_term_def session_inv_def update_term_def distinct_update_first)
  next
    case (Cons p ps)
    then have "p \<in> set (sd_terms db)" "active_term_of (tr_session t) p" "tr_id p \<noteq> tr_id t" using mem by auto
    then have "terms_ok (update_where (\<lambda>u. tr_id u = tr_id p) complete_term (update_where (\<lambda>u. tr_id u = tr_id t) activate_term (sd_terms db)))"
      by (rule switch_active_ok[OF ok t])
    then show ?thesis
      using inv Cons d by (simp add: switch_term_def session_inv_def update_term_def distinct_update_first map_id_activate)
  qed
qed

text \<open>What follows the guards: the switch, then steps that leave terms and sessions alone.\<close>

definition next_term_rest :: "id_supply \<Rightarrow> ident \<Rightarrow> academic_term \<Rightarrow> ident option \<Rightarrow> (ident \<times> ident \<times> nat) session_op" where
  "next_term_rest ids school t prev =
     op_bind (case prev of None \<Rightarrow> op_ret 0 | Some p \<Rightarrow> clone_timetables ids p (tr_id t)) (\<lambda>_.
     op_bind (op_get (find_session (tr_session t))) (\<lambda>s.
     op_bind (carry_over_students ids school (tr_id t) prev (case s of None \<Rightarrow> None | Some x \<Rightarrow> or_undefined (sn_type x))) (\<lambda>moved.
     op_ret (tr_session t, tr_id t, moved))))"

definition head_id :: "academic_term list \<Rightarrow> ident option" where
  "head_id ts = (case ts of [] \<Rightarrow> None | u # _ \<Rightarrow> Some (tr_id u))"

lemma start_next_term_unfold:
  "start_next_term ids school term_id db =
    (case validate_school_active school (sd_schools db) of Inl e \<Rightarrow> (Inl e, db) | Inr _ \<Rightarrow>
     if \<not> truthy term_id then (Inl (BadRequest ''termId is required for NEW_TERM type''), db)
     else case find_term (the term_id) db of
       None \<Rightarrow> (Inl (NotFound ''Term not found''), db)
     | Some t \<Rightarrow>
         if \<not> session_where (\<lambda>s. sn_school s = school) t db then (Inl (NotFound ''Term not found''), db)
         else next_term_rest ids school t (head_id (other_active t db)) (switch_term t (other_active t db) db))"
  unfolding start_next_term_def next_term_rest_def switch_term_def other_active_def head_id_def
  by (auto simp: op_bind_def op_then_def op_require_eval Let_def split: sum.splits option.splits list.splits)

lemma next_term_rest_keeps: "op_keeps (inv_and Q) (next_term_rest ids school t prev)"
  unfolding next_term_rest_def by (intro op_keeps_intros)

lemma find_term_in: "find_term i db = Some t \<Longrightarrow> t \<in> set (sd_terms db) \<and> tr_id t = i"
  by (auto simp: find_term_def dest: find_Some_in)

lemma start_next_term_keeps: "session_inv db \<Longrightarrow> session_inv (snd (start_next_term ids school term_id db))"
  unfolding start_next_term_unfold
  by (auto simp: inv_and_True [symmetric] dest: find_term_in split: sum.splits option.splits
      intro!: op_keepsD[OF next_term_rest_keeps] switch_term_keeps[folded inv_and_True])

lemma update_term_writes_keep [op_keeps_intros]:
  "op_keeps session_inv (op_modify (update_term i complete_term))"
  "op_keeps session_inv (op_modify (update_term i (edited_term dto)))"
  by (auto simp: op_keeps_def intro: edit_term_keeps)

lemmas session_writes_keep [op_keeps_intros] =
  complete_terms_keeps[where Q = "\<lambda>_. True", unfolded inv_and_True, OF TrueI]
  sessions_write_keeps[where Q = "\<lambda>_. True", unfolded inv_and_True]
  complete_if_idle_keeps[where Q = "\<lambda>_. True", unfolded inv_and_True]
  seed_holidays_keeps[where Q = "\<lambda>_. True", unfolded inv_and_True]
  promotions_keep[where Q = "\<lambda>_. True", unfolded inv_and_True]
  carry_over_keeps[where Q = "\<lambda>_. True", unfolded inv_and_True]

lemma draft_insert_keeps [op_keeps_intros]:
  "tr_status t \<noteq> TERM_ACTIVE \<Longrightarrow> op_keeps session_inv (insert_term t)"
proof -
  assume draft: "tr_status t \<noteq> TERM_ACTIVE"
  have "terms_ok (ts @ [t])" if "terms_ok ts" "\<not> list_ex (\<lambda>u. tr_id u = tr_id t \<or>
       (tr_session u = tr_session t \<and> tr_number u = tr_number t)) ts" for ts
    using that draft by (intro append_term_ok) (auto simp: list_ex_iff)
  then show ?thesis
    by (auto simp: op_keeps_def insert_term_def op_require_eval op_then_def op_bind_def session_inv_def)
qed

lemma create_term_keeps: "op_keeps session_inv (create_term i school sid dto)"
  unfolding create_term_def Let_def by (intro op_keeps_intros) (simp add: blank_term_def)

lemma end_term_keeps: "op_keeps session_inv (end_term school ty)"
  unfolding end_term_def by (intro op_keeps_intros)

lemma end_session_keeps: "op_keeps session_inv (end_session school ty)"
  unfolding end_session_def by (intro op_keeps_intros)

lemma migrate_students_keeps: "op_keeps session_inv (migrate_students ids school term_id carry)"
  unfolding migrate_students_def by (intro op_keeps_intros op_keeps_list)

lemma update_term_dates_keeps: "op_keeps session_inv (update_term_dates now school sid term_id dto)"
  unfolding update_term_dates_def Let_def by (intro op_keeps_intros)

lemma recalibrate_range_keeps: "session_inv db \<Longrightarrow> session_inv (recalibrate_range terms r db)"
  by (auto simp: recalibrate_range_def intro!: edit_term_keeps split: option.splits)

lemma recalibrate_keeps: "session_inv db \<Longrightarrow> session_inv (fold (recalibrate_range terms) rs db)"
  by (induction rs arbitrary: db) (simp_all add: recalibrate_range_keeps)

lemma session_inv_frames [simp]:
  "session_inv (seed_holidays school a b ty db) = session_inv db"
  "session_inv (update_session sid f db) = session_inv db"
  by (simp_all add: seed_holidays_def update_session_def session_inv_def Let_def)

lemma update_session_dates_keeps: "op_keeps session_inv (update_session_dates tz now school sid dto)"
  unfolding update_session_dates_def Let_def
  by (intro op_keeps_intros) (auto simp: op_keeps_def recalibrate_keeps)

text \<open>Reactivation completes the ACTIVE terms of the session, then activates one of its terms.\<close>

lemma reactivate_writes_keep:
  assumes inv: "session_inv db" and t: "find_term i db = Some t"
  shows "session_inv (update_term i activate_term (update_terms (active_term_of (tr_session t)) complete_term db))"
proof -
  let ?ts = "update_where (active_term_of (tr_session t)) complete_term (sd_terms db)"
  have ok: "terms_ok ?ts"
    using inv by (intro update_where_terms_ok) (simp_all add: session_inv_def)
  have ids: "map tr_id ?ts = map tr_id (sd_terms db)" by (rule map_update_where_frame) simp
  obtain r where r: "r \<in> set ?ts" "tr_id r = i" "tr_session r = tr_session t"
  proof (cases "active_term_of (tr_session t) t")
    case True
    then have "complete_term t \<in> set ?ts" using find_term_in[OF t] by (force simp: set_update_where)
    then show ?thesis using that[of "complete_term t"] find_term_in[OF t] by simp
  next
    case False
    then have "t \<in> set ?ts" using find_term_in[OF t] by (force simp: set_update_where)
    then show ?thesis using that[of t] find_term_in[OF t] by simp
  qed
  have "terms_ok (update_where (\<lambda>u. tr_id u = tr_id r) activate_term ?ts)"
  proof (rule activate_alone_ok[OF ok r(1)])
    fix u assume "u \<in> set ?ts" "active_term_of (tr_session r) u"
    then show "tr_id u = tr_id r"
      by (auto simp: set_update_where r(3) active_term_of_def split: if_splits)
  qed
  then show ?thesis
    using inv r(2) ids by (simp add: session_inv_def update_term_def update_terms_def distinct_update_first terms_ok_def)
qed

lemma reactivate_term_keeps: "session_inv db \<Longrightarrow> session_inv (snd (reactivate_term now school i ty db))"
  unfolding reactivate_term_def
  by (auto simp: op_then_def op_bind_def op_require_eval op_modify_def op_ret_def op_get_def op_throw_def
      intro: reactivate_writes_keep
      split: option.splits prod.splits if_splits)

section \<open>Runs\<close>

datatype session_event =
    StartSession int date id_supply ident new_session_dto
  | StartTerm id_supply ident "ident option"
  | CreateTerm ident ident ident create_term_dto
  | EndTerm ident "string option"
  | EndSession ident "string option"
  | ReactivateTerm date ident ident "string option"
  | MigrateStudents id_supply ident ident bool
  | EditSessionDates int date ident ident session_dates_dto
  | EditTermDates date ident ident ident term_dates_dto

fun session_step :: "session_event \<Rightarrow> session_db \<Rightarrow> session_db" where
  "session_step (StartSession tz now ids school dto) db = snd (start_new_session tz now ids school dto db)"
| "session_step (StartTerm ids school i) db = snd (start_next_term ids school i db)"
| "session_step (CreateTerm i school sid dto) db = snd (create_term i school sid dto db)"
| "session_step (EndTerm school ty) db = snd (end_term school ty db)"
| "session_step (EndSession school ty) db = snd (end_session school ty db)"
| "session_step (ReactivateTerm now school i ty) db = snd (reactivate_term now school i ty db)"
| "session_step (MigrateStudents ids school i carry) db = snd (migrate_students ids school i carry db)"
| "session_step (EditSessionDates tz now school sid dto) db = snd (update_session_dates tz now school sid dto db)"
| "session_step (EditTermDates now school sid i dto) db = snd (update_term_dates now school sid i dto db)"

text \<open>The database gives a new session an id that no term refers to.\<close>

definition fresh_event :: "session_event \<Rightarrow> session_db \<Rightarrow> bool" where
  "fresh_event e db = (case e of
     StartSession _ _ ids _ _ \<Rightarrow> list_all (\<lambda>t. tr_session t \<noteq> is_session ids) (sd_terms db) | _ \<Rightarrow> True)"

inductive session_reach :: "session_db \<Rightarrow> session_db \<Rightarrow> bool" where
  reach_refl: "session_reach db db"
| reach_step: "session_reach db db' \<Longrightarrow> fresh_event e db' \<Longrightarrow> session_reach db (session_step e db')"

inductive_cases session_reachE: "session_reach db db'"

lemma session_step_keeps: "session_inv db \<Longrightarrow> fresh_event e db \<Longrightarrow> session_inv (session_step e db)"
  by (cases e) (auto simp: fresh_event_def list_all_iff
    intro: start_new_session_keeps start_next_term_keeps reactivate_term_keeps
      op_keepsD[OF create_term_keeps] op_keepsD[OF end_term_keeps] op_keepsD[OF end_session_keeps] op_keepsD[OF migrate_students_keeps]
      op_keepsD[OF update_session_dates_keeps] op_keepsD[OF update_term_dates_keeps])

lemma session_reach_inv: "session_reach db db' \<Longrightarrow> session_inv db \<Longrightarrow> session_inv db'"
  by (induction rule: session_reach.induct) (auto intro: session_step_keeps)

end
