(* ===== verification/SessionMoves.thy ===== *)
theory SessionMoves
  imports SessionFacts
begin

text \<open>
  The loops of \<open>session.service.ts\<close> that move students from term to term and clone timetables:
  their result as a function of the tables before them.
\<close>

section \<open>The loop of a promotion\<close>

abbreviation with_enrolments :: "session_db \<Rightarrow> term_enrolment list \<Rightarrow> session_db" where
  "with_enrolments db es \<equiv> db\<lparr>sd_enrolments := es\<rparr>"

abbreviation switch_off :: "term_enrolment \<Rightarrow> term_enrolment" where
  "switch_off e \<equiv> e\<lparr>en_active := False\<rparr>"

definition promoted_row ::
  "id_supply \<Rightarrow> ident \<Rightarrow> ident \<Rightarrow> ident option \<times> ident option \<Rightarrow> class_level_row \<Rightarrow> term_enrolment \<Rightarrow> term_enrolment" where
  "promoted_row ids school term_id seat n e =
     \<lparr>en_id = is_enrolment ids (en_id e), en_student = en_student e,
      en_school = school, en_class = snd seat, en_arm = fst seat, en_term = Some term_id,
      en_level = lv_name n, en_year = en_year e, en_active = True, en_debt = 0\<rparr>"

text \<open>The rows a promotion adds and the enrollments it closes, as functions of the tables before it.\<close>

fun promotions ::
  "(nat \<Rightarrow> class_level_row \<Rightarrow> session_db \<Rightarrow> ident option \<times> ident option) \<Rightarrow> id_supply \<Rightarrow> ident \<Rightarrow> ident \<Rightarrow> session_db
    \<Rightarrow> term_enrolment list \<Rightarrow> nat \<Rightarrow> term_enrolment list" where
  "promotions place ids school term_id db [] k = []"
| "promotions place ids school term_id db (e # es) k =
     (case current_level school e db of
        None \<Rightarrow> promotions place ids school term_id db es k
      | Some l \<Rightarrow>
          (case next_level l db of
             None \<Rightarrow> promotions place ids school term_id db es (k + 1)
           | Some n \<Rightarrow> promoted_row ids school term_id (place k n db) n e # promotions place ids school term_id db es (k + 1)))"

definition placed :: "ident \<Rightarrow> session_db \<Rightarrow> term_enrolment list \<Rightarrow> term_enrolment list" where
  "placed school db es = filter (\<lambda>e. current_level school e db \<noteq> None) es"

definition seat_stable :: "(nat \<Rightarrow> class_level_row \<Rightarrow> session_db \<Rightarrow> ident option \<times> ident option) \<Rightarrow> bool" where
  "seat_stable place \<longleftrightarrow> (\<forall>k n db es. place k n (with_enrolments db es) = place k n db)"

lemma seats_stable: "seat_stable first_arm" "seat_stable (round_robin_arm tz now school)"
  by (simp_all add: seat_stable_def first_arm_def round_robin_arm_def Let_def fun_eq_iff)

lemma levels_frame [simp]:
  "current_level school e (with_enrolments db es) = current_level school e db"
  "next_level l (with_enrolments db es) = next_level l db"
  by (simp_all add: current_level_def next_level_def split: option.splits)

lemma update_where_update_where_off:
  "update_where p switch_off (update_where q switch_off es) = update_where (\<lambda>e. q e \<or> p e) switch_off es"
  if "\<And>e. p (switch_off e) = p e"
  using that by (induction es) auto

lemma deactivate_row_eq:
  assumes "distinct (map en_id E)"
  shows "deactivate_enrolment_row i (with_enrolments db E) = with_enrolments db (update_where (\<lambda>x. en_id x = i) switch_off E)"
  using distinct_update_first[OF assms] by (simp add: deactivate_enrolment_row_def)

lemma insert_enrolment_Inr:
  "insert_enrolment e (with_enrolments db E) = (Inr u, d) \<longleftrightarrow> \<not> list_ex (enrolment_clash e) E \<and> d = with_enrolments db (E @ [e])"
  by (auto simp: insert_enrolment_def op_bind_def op_then_def op_require_eval split: if_splits)

lemma promote_one_evals:
  "current_level school e db = None \<Longrightarrow> promote_one place ids school term_id e k db = (Inr k, db)"
  "current_level school e db = Some l \<Longrightarrow> next_level l db = None \<Longrightarrow>
    promote_one place ids school term_id e k db = (Inr (k + 1), deactivate_enrolment_row (en_id e) db)"
  "current_level school e db = Some l \<Longrightarrow> next_level l db = Some n \<Longrightarrow>
    promote_one place ids school term_id e k db =
      op_then (insert_enrolment (promoted_row ids school term_id (place k n db) n e))
        (op_then (op_modify (deactivate_enrolment_row (en_id e))) (op_ret (k + 1))) db"
  by (simp_all add: promote_one_def promoted_row_def op_bind_def op_then_def)

lemma promote_loop:
  assumes stable: "seat_stable place"
    and run: "op_for (promote_one place ids school term_id) es k (with_enrolments db E) = (Inr n, d)"
    and dist: "distinct (map en_id E)" and sub: "set (map en_id es) \<subseteq> set (map en_id E)"
  shows "d = with_enrolments db (update_where (\<lambda>x. en_id x \<in> en_id ` set (placed school db es)) switch_off E
      @ promotions place ids school term_id db es k) \<and> n = k + length (placed school db es)"
  using run dist sub
proof (induction es arbitrary: E k)
  case Nil
  then show ?case by (simp add: placed_def update_where_none)
next
  case (Cons e es)
  let ?off = "\<lambda>E. update_where (\<lambda>x. en_id x = en_id e) switch_off E"
  have ids_off: "map en_id (?off E) = map en_id E" for E :: "term_enrolment list"
    by (rule map_update_where_frame) simp
  show ?case
  proof (cases "current_level school e db")
    case None
    then have "op_for (promote_one place ids school term_id) es k (with_enrolments db E) = (Inr n, d)"
      using Cons.prems(1) by (simp add: op_bind_def promote_one_evals)
    then show ?thesis using Cons.IH[of k E] Cons.prems None by (simp add: placed_def)
  next
    case (Some l)
    show ?thesis
    proof (cases "next_level l db")
      case None
      have "op_for (promote_one place ids school term_id) es (k + 1) (with_enrolments db (?off E)) = (Inr n, d)"
        using Cons.prems(1) Some None by (simp add: op_bind_def promote_one_evals deactivate_row_eq[OF Cons.prems(2)])
      from Cons.IH[OF this] Cons.prems(2,3) have
        "d = with_enrolments db (update_where (\<lambda>x. en_id x \<in> en_id ` set (placed school db es)) switch_off (?off E)
          @ promotions place ids school term_id db es (k + 1)) \<and> n = k + 1 + length (placed school db es)"
        by (simp add: ids_off)
      then show ?thesis
        using Some None by (simp add: placed_def update_where_update_where_off)
    next
      case (Some nx)
      let ?row = "promoted_row ids school term_id (place k nx db) nx e"
      have new: "\<not> list_ex (enrolment_clash ?row) E" and rest:
        "op_for (promote_one place ids school term_id) es (k + 1) (deactivate_enrolment_row (en_id e) (with_enrolments db (E @ [?row]))) = (Inr n, d)"
        using Cons.prems(1) \<open>current_level school e db = Some l\<close> Some stable
        by (auto simp: op_bind_Inr promote_one_evals op_then_Inr insert_enrolment_Inr seat_stable_def)
      have fresh: "en_id ?row \<notin> set (map en_id E)" using new by (auto simp: list_ex_iff enrolment_clash_def)
      have d1: "distinct (map en_id (E @ [?row]))" using Cons.prems(2) fresh by simp
      have ne: "en_id ?row \<noteq> en_id e" using fresh Cons.prems(3) by auto
      then have E1: "deactivate_enrolment_row (en_id e) (with_enrolments db (E @ [?row])) = with_enrolments db (?off E @ [?row])"
        using deactivate_row_eq[OF d1] by (simp add: update_where_def)
      have "distinct (map en_id (?off E @ [?row]))" using d1 by (simp add: ids_off)
      moreover have "set (map en_id es) \<subseteq> set (map en_id (?off E @ [?row]))"
        using Cons.prems(3) by (auto simp: ids_off)
      ultimately have
        "d = with_enrolments db (update_where (\<lambda>x. en_id x \<in> en_id ` set (placed school db es)) switch_off (?off E @ [?row])
          @ promotions place ids school term_id db es (k + 1)) \<and> n = k + 1 + length (placed school db es)"
        using Cons.IH[OF rest[unfolded E1]] by simp
      moreover have "en_id ?row \<notin> en_id ` set (placed school db es)" using fresh Cons.prems(3) by (auto simp: placed_def)
      ultimately show ?thesis
        using \<open>current_level school e db = Some l\<close> Some
        by (simp add: placed_def update_where_update_where_off) (simp add: update_where_def)
    qed
  qed
qed

lemma promote_one_error: "fst (promote_one place ids school term_id e k db) = Inl x \<Longrightarrow> x = unique_error"
  by (auto simp: promote_one_def insert_enrolment_def op_bind_def op_then_def op_require_eval split: option.splits if_splits)

lemma op_for_error:
  assumes "\<And>x acc s err. fst (body x acc s) = Inl err \<Longrightarrow> err = e0"
  shows "fst (op_for body xs acc s) = Inl err \<Longrightarrow> err = e0"
proof (induction xs arbitrary: acc s)
  case (Cons x xs)
  then show ?case using assms[of x acc s] by (auto simp: op_bind_def split: prod.splits sum.splits)
qed simp

lemma promote_loop_error: "fst (op_for (promote_one place ids school term_id) es k db) = Inl x \<Longrightarrow> x = unique_error"
  by (rule op_for_error) (rule promote_one_error)

section \<open>The loop of a carry-over\<close>

definition in_term :: "ident \<Rightarrow> ident \<Rightarrow> ident \<Rightarrow> term_enrolment \<Rightarrow> bool" where
  "in_term student school term_id u \<longleftrightarrow> en_student u = student \<and> en_school u = school \<and> en_term u = Some term_id"

definition carried_row :: "id_supply \<Rightarrow> ident \<Rightarrow> ident \<Rightarrow> term_enrolment \<Rightarrow> term_enrolment" where
  "carried_row ids school term_id e = e\<lparr>en_id := is_enrolment ids (en_id e), en_school := school,
     en_term := Some term_id, en_active := True\<rparr>"

text \<open>One copy for the first movable enrollment of each student who has none in the term yet.\<close>

fun carried :: "id_supply \<Rightarrow> ident \<Rightarrow> ident \<Rightarrow> term_enrolment list \<Rightarrow> term_enrolment list \<Rightarrow> term_enrolment list" where
  "carried ids school term_id E [] = []"
| "carried ids school term_id E (e # es) =
     (if list_ex (in_term (en_student e) school term_id) E then carried ids school term_id E es
      else carried_row ids school term_id e # carried ids school term_id (E @ [carried_row ids school term_id e]) es)"

lemma carry_one_evals:
  "list_ex (in_term (en_student e) school term_id) (sd_enrolments db) \<Longrightarrow> carry_one ids school term_id e k db = (Inr k, db)"
  "\<not> list_ex (in_term (en_student e) school term_id) (sd_enrolments db) \<Longrightarrow> carry_one ids school term_id e k db =
    op_then (insert_enrolment (carried_row ids school term_id e)) (op_ret (k + 1)) db"
  by (simp_all add: carry_one_def in_term_def [abs_def] carried_row_def)

lemma carry_loop:
  "op_for (carry_one ids school term_id) es k (with_enrolments db E) = (Inr n, d) \<Longrightarrow>
    d = with_enrolments db (E @ carried ids school term_id E es) \<and> n = k + length (carried ids school term_id E es)"
proof (induction es arbitrary: E k)
  case (Cons e es)
  show ?case
  proof (cases "list_ex (in_term (en_student e) school term_id) E")
    case True
    then have "op_for (carry_one ids school term_id) es k (with_enrolments db E) = (Inr n, d)"
      using Cons.prems by (simp add: op_bind_def carry_one_evals)
    from Cons.IH[OF this] show ?thesis using True by simp
  next
    case False
    then have "op_for (carry_one ids school term_id) es (k + 1) (with_enrolments db (E @ [carried_row ids school term_id e])) = (Inr n, d)"
      using Cons.prems by (auto simp: op_bind_Inr carry_one_evals op_then_Inr insert_enrolment_Inr)
    from Cons.IH[OF this] show ?thesis using False by simp
  qed
qed simp

lemma carried_in_term [simp]: "in_term (en_student e) school term_id (carried_row ids school term_id e)"
  by (simp add: in_term_def carried_row_def)

lemma carried_fields:
  "en_level (carried_row ids school term_id e) = en_level e" "en_arm (carried_row ids school term_id e) = en_arm e"
  "en_term (carried_row ids school term_id e) = Some term_id"
  "en_student (carried_row ids school term_id e) = en_student e"
  by (simp_all add: carried_row_def)

lemma carried_level [simp]: "current_level school' (carried_row ids school term_id e) db = current_level school' e db"
  by (simp only: current_level_def carried_fields)

lemma carried_type [simp]: "in_school_type db ty (carried_row ids school term_id e) = in_school_type db ty e"
  by (simp add: in_school_type_def carried_row_def)

lemma carried_covers:
  "e \<in> set es \<Longrightarrow> list_ex (in_term (en_student e) school term_id) (E @ carried ids school term_id E es)"
proof (induction es arbitrary: E)
  case (Cons f es)
  show ?case
  proof (cases "e = f")
    case True
    then show ?thesis by simp
  next
    case False
    then show ?thesis
      using Cons.IH[of E] Cons.IH[of "E @ [carried_row ids school term_id f]"] Cons.prems by auto
  qed
qed simp

lemma carried_rows: "u \<in> set (carried ids school term_id E es) \<Longrightarrow> \<exists>e\<in>set es. u = carried_row ids school term_id e"
  by (induction es arbitrary: E) (auto split: if_splits)

lemma carried_none: "(\<And>e. e \<in> set es \<Longrightarrow> list_ex (in_term (en_student e) school term_id) E) \<Longrightarrow> carried ids school term_id E es = []"
  by (induction es) auto

lemma carry_loop_none:
  "(\<And>e. e \<in> set es \<Longrightarrow> list_ex (in_term (en_student e) school term_id) (sd_enrolments db)) \<Longrightarrow>
    op_for (carry_one ids school term_id) es k db = (Inr k, db)"
  by (induction es) (auto simp: op_bind_def carry_one_evals)

section \<open>The loop of cloning\<close>

definition cloned_row :: "id_supply \<Rightarrow> ident \<Rightarrow> timetable_row \<Rightarrow> timetable_row" where
  "cloned_row ids to p = p\<lparr>tt_id := is_period ids (tt_id p), tt_term := to\<rparr>"

fun clones :: "id_supply \<Rightarrow> ident \<Rightarrow> timetable_row list \<Rightarrow> timetable_row list \<Rightarrow> timetable_row list" where
  "clones ids to R [] = []"
| "clones ids to R (p # ps) =
     (if list_ex (same_slot to p) R then clones ids to R ps
      else cloned_row ids to p # clones ids to (R @ [cloned_row ids to p]) ps)"

abbreviation with_periods :: "session_db \<Rightarrow> timetable_row list \<Rightarrow> session_db" where
  "with_periods db ps \<equiv> db\<lparr>sd_periods := ps\<rparr>"

lemma clone_period_evals:
  "list_ex (same_slot to p) (sd_periods db) \<Longrightarrow> clone_period ids to p k db = (Inr k, db)"
  "\<not> list_ex (same_slot to p) (sd_periods db) \<Longrightarrow> clone_period ids to p k db = (Inr n, d) \<Longrightarrow>
     n = k + 1 \<and> d = with_periods db (sd_periods db @ [cloned_row ids to p])"
  by (auto simp: clone_period_def Let_def cloned_row_def op_then_def op_bind_def op_require_eval split: if_splits)

lemma clone_loop:
  "op_for (clone_period ids to) ps k (with_periods db R) = (Inr n, d) \<Longrightarrow>
    d = with_periods db (R @ clones ids to R ps) \<and> n = k + length (clones ids to R ps)"
proof (induction ps arbitrary: R k)
  case (Cons p ps)
  show ?case
  proof (cases "list_ex (same_slot to p) R")
    case True
    then have "op_for (clone_period ids to) ps k (with_periods db R) = (Inr n, d)"
      using Cons.prems by (simp add: op_bind_def clone_period_evals)
    from Cons.IH[OF this] show ?thesis using True by simp
  next
    case False
    then have "op_for (clone_period ids to) ps (k + 1) (with_periods db (R @ [cloned_row ids to p])) = (Inr n, d)"
      using Cons.prems by (auto simp: op_bind_Inr dest!: clone_period_evals(2)[rotated])
    from Cons.IH[OF this] show ?thesis using False by simp
  qed
qed simp

lemma clone_same_slot [simp]: "same_slot to p (cloned_row ids to p)"
  by (simp add: same_slot_def cloned_row_def)

lemma clones_cover: "p \<in> set ps \<Longrightarrow> list_ex (same_slot to p) (R @ clones ids to R ps)"
proof (induction ps arbitrary: R)
  case (Cons q ps)
  show ?case
  proof (cases "p = q")
    case True
    then show ?thesis by simp
  next
    case False
    then show ?thesis using Cons.IH[of R] Cons.IH[of "R @ [cloned_row ids to q]"] Cons.prems by auto
  qed
qed simp

lemma clones_rows: "r \<in> set (clones ids to R ps) \<Longrightarrow> \<exists>p\<in>set ps. r = cloned_row ids to p"
  by (induction ps arbitrary: R) (auto split: if_splits)

lemma clone_loop_none:
  "(\<And>p. p \<in> set ps \<Longrightarrow> list_ex (same_slot to p) (sd_periods db)) \<Longrightarrow> op_for (clone_period ids to) ps k db = (Inr k, db)"
  by (induction ps) (auto simp: op_bind_def clone_period_evals)

end
