(* ===== verification/SchoolExample.thy ===== *)
theory SchoolExample
  imports SessionTerms
begin

text \<open>
  A small school with two class levels, on which the witnesses of several properties are evaluated.
\<close>

definition ex_session_school :: school_record where
  "ex_session_school = \<lparr>sl_id = ''s'', sl_registration = REG_VERIFIED, sl_status = SCHOOL_ACTIVE, sl_active = True,
     sl_reason = None, sl_requested_at = None, sl_deactivates_at = None, sl_requested_by = None,
     sl_requested_role = None, sl_deactivated_at = None\<rparr>"

definition ex_level :: "string \<Rightarrow> int \<Rightarrow> class_level_row" where
  "ex_level i n = \<lparr>lv_id = i, lv_school = ''s'', lv_name = i, lv_code = None, lv_level = n, lv_type = ''SECONDARY'', lv_next = None\<rparr>"

definition ex_term_enrolment :: "string \<Rightarrow> string \<Rightarrow> ident option \<Rightarrow> term_enrolment" where
  "ex_term_enrolment i st tm = \<lparr>en_id = i, en_student = st, en_school = ''s'', en_class = None, en_arm = None, en_term = tm,
     en_level = ''JSS1'', en_year = ''2024/2025'', en_active = True, en_debt = 0\<rparr>"

definition ex_session_db :: "term_enrolment list \<Rightarrow> session_db" where
  "ex_session_db es = \<lparr>sd_schools = [ex_session_school], sd_sessions = [], sd_terms = [], sd_enrolments = es,
     sd_levels = [ex_level ''JSS1'' 1, ex_level ''JSS2'' 2], sd_arms = [], sd_classes = [], sd_periods = [], sd_holidays = []\<rparr>"

end
