(* ===== verification/SessionProperties.thy ===== *)
theory SessionProperties
  imports SessionMoves SchoolExample
begin

text \<open>
  The properties of the session service, with their witnesses on a small school.
\<close>

section \<open>Examples\<close>

definition ex_ids :: "string \<Rightarrow> id_supply" where
  "ex_ids p = \<lparr>is_session = p, is_term = (\<lambda>n. p @ ''-t'' @ show_int n), is_enrolment = (\<lambda>i. p @ i), is_period = (\<lambda>i. p @ i)\<rparr>"

text \<open>1 September 2025 to 31 July 2026, at midnight UTC.\<close>

definition ex_new_session :: "nat option \<Rightarrow> new_session_dto" where
  "ex_new_session starting = \<lparr>nd_name = ''2025/2026'', nd_start = utc_date 2025 9 1, nd_end = utc_date 2026 7 31,
     nd_type = Some ''SECONDARY'', nd_starting = starting, nd_dates = [], nd_carry = False\<rparr>"

definition ex_started :: session_db where
  "ex_started = snd (start_new_session 0 (utc_date 2025 9 2) (ex_ids ''A'') ''s'' (ex_new_session None) (ex_session_db []))"

section \<open>The tables\<close>

text \<open>
  C9: through every run of requests that start, create, end, reactivate, edit or migrate, failed
  ones included, term ids and (session, number) stay unique, a session never has two ACTIVE
  terms, and a student never has two enrollments of one school and term.
\<close>

theorem session_tables_invariant:
  assumes "session_reach db db'" "session_inv db"
  shows "session_inv db'"
  using assms by (rule session_reach_inv)

lemma ex_reach: "session_reach (ex_session_db []) (session_step (StartTerm (ex_ids ''B'') ''s'' (Some ''A-t2'')) ex_started)"
proof -
  have "session_reach (ex_session_db []) ex_started"
    using reach_step[OF reach_refl, of "StartSession 0 (utc_date 2025 9 2) (ex_ids ''A'') ''s'' (ex_new_session None)" "ex_session_db []"]
    by (simp add: fresh_event_def ex_session_db_def ex_started_def)
  then show ?thesis by (rule reach_step) (simp add: fresh_event_def)
qed

lemma session_tables_invariant_witness:
  "session_inv (session_step (StartTerm (ex_ids ''B'') ''s'' (Some ''A-t2'')) ex_started)"
  by (rule session_tables_invariant[OF ex_reach])
    (simp add: ex_session_db_def session_inv_def terms_ok_def one_active_term_def enrolments_ok_def)

section \<open>Term dates\<close>

lemma time_clip_floor: "0 \<le> r \<Longrightarrow> time_clip r = \<lfloor>r\<rfloor>"
  by (simp add: time_clip_def)

definition edge :: "date \<Rightarrow> date \<Rightarrow> nat \<Rightarrow> nat \<Rightarrow> rat" where
  "edge a b n i = of_int a + of_int (b - a) / of_nat n * of_nat i"

lemma edge_bounds:
  assumes "0 \<le> a" "a \<le> b" "0 < n"
  shows "of_int a \<le> edge a b n i" "0 \<le> edge a b n i" "i \<le> n \<Longrightarrow> edge a b n i \<le> of_int b"
proof -
  have d: "0 \<le> (of_int (b - a) / of_nat n :: rat)" using assms(2) by simp
  then have "0 \<le> (of_int (b - a) / of_nat n :: rat) * of_nat i" by (intro mult_nonneg_nonneg) simp_all
  then show low: "of_int a \<le> edge a b n i" unfolding edge_def by simp
  then show "0 \<le> edge a b n i" using assms(1) by (meson of_int_0_le_iff order_trans)
  assume "i \<le> n"
  then have "(of_int (b - a) / of_nat n :: rat) * of_nat i \<le> of_int (b - a) / of_nat n * of_nat n"
    by (intro mult_left_mono d) simp
  then show "edge a b n i \<le> of_int b" using assms(3) by (simp add: edge_def)
qed

lemma auto_range_parts:
  assumes "0 \<le> a" "a \<le> b" "0 < n"
  shows "td_number (auto_range a b n i) = int i + 1"
    "td_start (auto_range a b n i) = (if i = 0 then a else \<lfloor>edge a b n i\<rfloor> + 1)"
    "td_end (auto_range a b n i) = (if i = n - 1 then b else \<lfloor>edge a b n (Suc i)\<rfloor>)"
proof -
  have "time_clip (edge a b n i + 1) = \<lfloor>edge a b n i\<rfloor> + 1" for i
    using edge_bounds(2)[OF assms, of i] by (simp add: time_clip_floor)
  then show "td_start (auto_range a b n i) = (if i = 0 then a else \<lfloor>edge a b n i\<rfloor> + 1)"
    by (simp add: auto_range_def edge_def Let_def)
  have "time_clip (edge a b n (Suc i)) = \<lfloor>edge a b n (Suc i)\<rfloor>"
    using edge_bounds(2)[OF assms, of "Suc i"] by (simp add: time_clip_floor)
  then show "td_end (auto_range a b n i) = (if i = n - 1 then b else \<lfloor>edge a b n (Suc i)\<rfloor>)"
    by (simp add: auto_range_def edge_def Let_def)
qed (simp add: auto_range_def Let_def)

lemma edge_gap:
  assumes "2 * int n \<le> b - a" "0 < n"
  shows "\<lfloor>edge a b n i\<rfloor> + 2 \<le> \<lfloor>edge a b n (Suc i)\<rfloor>"
proof -
  have "of_int (2 * int n) \<le> (of_int (b - a) :: rat)" using assms(1) by (simp only: of_int_le_iff)
  then have "2 \<le> (of_int (b - a) / of_nat n :: rat)" using assms(2) by (simp add: pos_le_divide_eq)
  moreover have "edge a b n (Suc i) = edge a b n i + of_int (b - a) / of_nat n"
    by (simp add: edge_def distrib_left)
  ultimately have "edge a b n i + 2 \<le> edge a b n (Suc i)" by simp
  then have "\<lfloor>edge a b n i + 2\<rfloor> \<le> \<lfloor>edge a b n (Suc i)\<rfloor>" by (rule floor_mono)
  then show ?thesis by simp
qed

lemma auto_range_valid:
  assumes a: "0 \<le> a" "2 * int n \<le> b - a" "0 < n" and i: "i < n"
  shows "check_term_dates a b (auto_range a b n i) = Inr ()"
proof -
  have ab: "a \<le> b" using a by linarith
  note p = auto_range_parts[OF a(1) ab a(3)] and e = edge_bounds[OF a(1) ab a(3)]
  have low: "a \<le> \<lfloor>edge a b n i\<rfloor>" using e(1)[of i] by (simp add: le_floor_iff)
  have up: "\<lfloor>edge a b n (Suc i)\<rfloor> \<le> b" using e(3)[of "Suc i"] i by (simp add: floor_le_iff)
  have first: "edge a b n 0 = of_int a" and last: "i = n - 1 \<Longrightarrow> edge a b n (Suc i) = of_int b"
    using i by (simp_all add: edge_def)
  have "td_start (auto_range a b n i) < td_end (auto_range a b n i)"
    using edge_gap[OF a(2,3), of i] first last low by (auto simp: p)
  moreover have "a \<le> td_start (auto_range a b n i)" using low by (simp add: p)
  moreover have "td_end (auto_range a b n i) \<le> b" using up by (simp add: p)
  ultimately show ?thesis by (simp add: check_term_dates_def)
qed

text \<open>
  Without dates of its own a new session is cut into its terms exactly: they are numbered from
  1, the first starts and the last ends with the session, each next one starts a millisecond
  after the one before ends, and every term passes the check made on dates given by hand.
\<close>

theorem term_ranges_partition:
  assumes "0 \<le> start" "2 * int n \<le> stop - start" "0 < n"
  shows "\<exists>rs. build_term_date_ranges start stop n [] = Inr rs \<and> map td_number rs = map (\<lambda>i. int i + 1) [0..<n] \<and>
    td_start (hd rs) = start \<and> td_end (last rs) = stop \<and>
    (\<forall>i. Suc i < n \<longrightarrow> td_start (rs ! Suc i) = td_end (rs ! i) + 1) \<and>
    (\<forall>r\<in>set rs. check_term_dates start stop r = Inr ())"
proof -
  have le: "start \<le> stop" using assms by linarith
  note p = auto_range_parts[OF assms(1) le assms(3)]
  let ?rs = "map (auto_range start stop n) [0..<n]"
  have "td_start (hd ?rs) = start" "td_end (last ?rs) = stop"
    using assms(3) by (simp_all add: p hd_map last_map)
  moreover have "\<forall>i. Suc i < n \<longrightarrow> td_start (?rs ! Suc i) = td_end (?rs ! i) + 1"
    by (auto simp: p)
  moreover have "\<forall>r\<in>set ?rs. check_term_dates start stop r = Inr ()"
    using auto_range_valid[OF assms] by auto
  moreover have "build_term_date_ranges start stop n [] = Inr ?rs"
    by (simp add: build_term_date_ranges_def)
  ultimately show ?thesis by (intro exI[of _ ?rs]) (simp add: p)
qed

lemma term_ranges_partition_witness:
  "\<exists>rs. build_term_date_ranges (utc_date 2025 9 1) (utc_date 2026 7 31) 3 [] = Inr rs \<and>
    map td_number rs = map (\<lambda>i. int i + 1) [0..<3] \<and>
    td_start (hd rs) = utc_date 2025 9 1 \<and> td_end (last rs) = utc_date 2026 7 31 \<and>
    (\<forall>i. Suc i < 3 \<longrightarrow> td_start (rs ! Suc i) = td_end (rs ! i) + 1) \<and>
    (\<forall>r\<in>set rs. check_term_dates (utc_date 2025 9 1) (utc_date 2026 7 31) r = Inr ())"
proof (rule term_ranges_partition)
  show "0 \<le> utc_date 2025 9 1" by code_simp
  show "2 * int 3 \<le> utc_date 2026 7 31 - utc_date 2025 9 1" by code_simp
qed simp

section \<open>Promotion\<close>

definition moved_enrolments :: "ident \<Rightarrow> ident \<Rightarrow> string option \<Rightarrow> session_db \<Rightarrow> term_enrolment list" where
  "moved_enrolments school term_id ty db =
     enrolments_to_move school (map_option tr_id (previous_term school ty term_id db)) ty db"

lemma moved_in: "set (enrolments_to_move school prev ty db) \<subseteq> set (sd_enrolments db)"
  by (auto simp: enrolments_to_move_def)

lemma ensure_frame [simp]: "sd_enrolments (ensure_class_level_progression school ty db) = sd_enrolments db"
  by (simp add: ensure_class_level_progression_def Let_def)

lemma promote_with_unfold:
  "promote_with place ids school term_id ty db =
    (let linked = ensure_class_level_progression school ty db
     in op_for (promote_one place ids school term_id) (moved_enrolments school term_id ty linked) 0 linked)"
  by (simp add: promote_with_def moved_enrolments_def Let_def)

lemma promote_with_correct:
  assumes stable: "seat_stable place" and inv: "session_inv db"
    and run: "promote_with place ids school term_id ty db = (Inr n, db')"
    and linked: "linked = ensure_class_level_progression school ty db"
    and moved: "moved = moved_enrolments school term_id ty linked"
  shows "db' = linked\<lparr>sd_enrolments := update_where (\<lambda>e. e \<in> set (placed school linked moved)) switch_off (sd_enrolments db)
      @ promotions place ids school term_id linked moved 0\<rparr> \<and> n = length (placed school linked moved)"
proof -
  have d: "distinct (map en_id (sd_enrolments db))" using inv by (simp add: session_inv_def enrolments_ok_def)
  have same: "with_enrolments linked (sd_enrolments db) = linked" by (simp add: linked)
  have sub: "set moved \<subseteq> set (sd_enrolments db)" using moved_in by (force simp: moved moved_enrolments_def linked)
  have "op_for (promote_one place ids school term_id) moved 0 (with_enrolments linked (sd_enrolments db)) = (Inr n, db')"
    using run unfolding same by (simp add: promote_with_unfold linked moved Let_def)
  from promote_loop[OF stable this d] sub have
    r: "db' = linked\<lparr>sd_enrolments := update_where (\<lambda>x. en_id x \<in> en_id ` set (placed school linked moved)) switch_off (sd_enrolments db)
      @ promotions place ids school term_id linked moved 0\<rparr>" "n = length (placed school linked moved)" by auto
  have "en_id x \<in> en_id ` set (placed school linked moved) \<longleftrightarrow> x \<in> set (placed school linked moved)" if "x \<in> set (sd_enrolments db)" for x
    using distinct_key_eq[OF d that] sub by (auto simp: placed_def)
  then have "update_where (\<lambda>x. en_id x \<in> en_id ` set (placed school linked moved)) switch_off (sd_enrolments db)
      = update_where (\<lambda>e. e \<in> set (placed school linked moved)) switch_off (sd_enrolments db)"
    by (simp add: update_where_def)
  then show ?thesis using r by simp
qed

text \<open>
  C13: a promotion that succeeds closes exactly the enrollments of the previous term (and those
  without a term) whose class level is known, adds one row of the new term for each of them that
  has a next level, at that level and in the arm whose turn it is, leaves every other row alone,
  and returns the number of the closed ones.
\<close>

theorem promotion_correct:
  assumes "session_inv db"
    and "promote_students_with_tracking tz now ids school term_id ty db = (Inr n, db')"
    and "linked = ensure_class_level_progression school ty db"
    and "moved = moved_enrolments school term_id ty linked"
  shows "db' = linked\<lparr>sd_enrolments := update_where (\<lambda>e. e \<in> set (placed school linked moved)) switch_off (sd_enrolments db)
      @ promotions (round_robin_arm tz now school) ids school term_id linked moved 0\<rparr> \<and> n = length (placed school linked moved)"
  using promote_with_correct[OF seats_stable(2) assms(1) _ assms(3,4)] assms(2)
  unfolding promote_students_with_tracking_def by simp

definition ex_pupils :: session_db where
  "ex_pupils = ex_session_db [ex_term_enrolment ''e1'' ''ada'' None, ex_term_enrolment ''e2'' ''obi'' None]"

lemma ex_pupils_inv: "session_inv ex_pupils"
  by (simp add: ex_pupils_def ex_session_db_def ex_term_enrolment_def session_inv_def terms_ok_def one_active_term_def enrolments_ok_def)

lemma promotion_correct_witness:
  "\<exists>db'. promote_students_with_tracking 0 0 (ex_ids ''N'') ''s'' ''t1'' None ex_pupils = (Inr 2, db') \<and>
    db' = (ensure_class_level_progression ''s'' None ex_pupils)\<lparr>sd_enrolments :=
      update_where (\<lambda>e. e \<in> set (placed ''s'' (ensure_class_level_progression ''s'' None ex_pupils)
          (moved_enrolments ''s'' ''t1'' None (ensure_class_level_progression ''s'' None ex_pupils)))) switch_off (sd_enrolments ex_pupils)
      @ promotions (round_robin_arm 0 0 ''s'') (ex_ids ''N'') ''s'' ''t1'' (ensure_class_level_progression ''s'' None ex_pupils)
          (moved_enrolments ''s'' ''t1'' None (ensure_class_level_progression ''s'' None ex_pupils)) 0\<rparr>"
proof -
  have "fst (promote_students_with_tracking 0 0 (ex_ids ''N'') ''s'' ''t1'' None ex_pupils) = Inr 2" by code_simp
  then obtain db' where run: "promote_students_with_tracking 0 0 (ex_ids ''N'') ''s'' ''t1'' None ex_pupils = (Inr 2, db')"
    by (metis prod.collapse)
  from promotion_correct[OF ex_pupils_inv run refl refl] run show ?thesis by blast
qed

section \<open>Two enrollments of one student\<close>

definition has_next :: "ident \<Rightarrow> session_db \<Rightarrow> term_enrolment \<Rightarrow> bool" where
  "has_next school db e = (case current_level school e db of None \<Rightarrow> False | Some l \<Rightarrow> next_level l db \<noteq> None)"

lemma promotions_keys:
  "map enrolment_key (promotions place ids school term_id db es k)
    = map (\<lambda>e. (en_student e, school, Some term_id)) (filter (has_next school db) es)"
  by (induction es arbitrary: k) (auto simp: has_next_def promoted_row_def enrolment_key_def split: option.splits)

lemma promotion_clash:
  assumes stable: "seat_stable place" and inv: "session_inv db"
    and linked: "linked = ensure_class_level_progression school ty db"
    and e: "e \<in> set (moved_enrolments school term_id ty linked)" "has_next school linked e"
    and f: "f \<in> set (moved_enrolments school term_id ty linked)" "has_next school linked f"
    and two: "e \<noteq> f" "en_student e = en_student f"
  shows "fst (promote_with place ids school term_id ty db) = Inl unique_error"
proof (cases "promote_with place ids school term_id ty db")
  case (Pair r db')
  show ?thesis
  proof (cases r)
    case (Inl x)
    then have "fst (op_for (promote_one place ids school term_id) (moved_enrolments school term_id ty linked) 0 linked) = Inl x"
      using Pair by (simp add: promote_with_unfold linked Let_def)
    from promote_loop_error[OF this] show ?thesis using Pair Inl by simp
  next
    case (Inr n)
    let ?m = "moved_enrolments school term_id ty linked"
    have run: "promote_with place ids school term_id ty db = (Inr n, db')" using Pair Inr by simp
    have "inv_and (\<lambda>_. True) db'"
      using op_keeps_result[OF promote_keeps _ run, of "\<lambda>_. True"] inv by (simp add: inv_and_True)
    then have "enrolments_ok (sd_enrolments db')" by (simp add: inv_and_def session_inv_def)
    then have "distinct (map enrolment_key (filter (\<lambda>e. en_term e \<noteq> None) (promotions place ids school term_id linked ?m 0)))"
      using promote_with_correct[OF stable inv run linked refl] by (simp add: enrolments_ok_def)
    moreover have "filter (\<lambda>e. en_term e \<noteq> None) (promotions place ids school term_id linked es k) = promotions place ids school term_id linked es k" for es k
      by (induction es arbitrary: k) (auto simp: promoted_row_def split: option.splits)
    ultimately have "distinct (map (\<lambda>e. (en_student e, school, Some term_id)) (filter (has_next school linked) ?m))"
      by (simp only: promotions_keys)
    then show ?thesis using e f two by (auto simp: distinct_map inj_on_def)
  qed
qed

lemma carry_over_unfold:
  "carry_over_students ids school term_id prev ty db =
    op_for (carry_one ids school term_id) (enrolments_to_move school (or_undefined prev) ty db) 0 db"
  by (simp add: carry_over_students_def)

lemma carry_over_result:
  assumes "carry_over_students ids school term_id prev ty db = (Inr n, db')"
    and "moved = enrolments_to_move school (or_undefined prev) ty db"
  shows "db' = with_enrolments db (sd_enrolments db @ carried ids school term_id (sd_enrolments db) moved)"
    "n = length (carried ids school term_id (sd_enrolments db) moved)"
  using carry_loop[where E = "sd_enrolments db" and db = db and k = 0 and n = n and d = db'] assms
  by (simp_all add: carry_over_unfold)

lemma movable_prefix:
  "enrolments_to_move school prev ty (with_enrolments db (E @ new)) =
    enrolments_to_move school prev ty (with_enrolments db E) @ filter (in_school_type db ty) (filter (movable school prev) new)"
  by (simp add: enrolments_to_move_def in_school_type_def Let_def)

text \<open>
  A carry-over that succeeds keeps every row as it was and only adds rows, one active copy in
  the new term for each student without one: every student to move then has exactly the class,
  level and debt he had. A second carry-over from the same term finds nobody left.
\<close>

theorem carry_over_correct:
  assumes run: "carry_over_students ids school term_id prev ty db = (Inr n, db')"
    and moved: "moved = enrolments_to_move school (or_undefined prev) ty db"
    and other: "or_undefined prev \<noteq> Some term_id"
  shows "\<exists>new. db' = with_enrolments db (sd_enrolments db @ new) \<and> length new = n \<and>
    (\<forall>e\<in>set moved. list_ex (in_term (en_student e) school term_id) (sd_enrolments db')) \<and>
    (\<forall>u\<in>set new. \<exists>e\<in>set moved. u = carried_row ids school term_id e) \<and>
    carry_over_students ids' school term_id prev ty db' = (Inr 0, db')"
proof -
  let ?new = "carried ids school term_id (sd_enrolments db) moved"
  note res = carry_over_result[OF run moved]
  have cover: "\<forall>e\<in>set moved. list_ex (in_term (en_student e) school term_id) (sd_enrolments db')"
    using carried_covers by (force simp: res(1))
  have rows: "\<forall>u\<in>set ?new. \<exists>e\<in>set moved. u = carried_row ids school term_id e"
    using carried_rows by blast
  have "en_term u = Some term_id" if "u \<in> set ?new" for u
    using carried_rows[OF that] by (auto simp: carried_row_def)
  then have "\<not> movable school (or_undefined prev) u" if "u \<in> set ?new" for u
    using that other by (auto simp: movable_def)
  then have off: "filter (in_school_type db ty) (filter (movable school (or_undefined prev)) ?new) = []"
    by (auto simp: filter_empty_conv)
  then have same: "enrolments_to_move school (or_undefined prev) ty db' = moved"
    unfolding res(1) movable_prefix off by (simp add: moved)
  have "carry_over_students ids' school term_id prev ty db' = (Inr 0, db')"
    using cover unfolding carry_over_unfold same by (intro carry_loop_none) blast
  then show ?thesis using res cover rows by blast
qed

lemma carry_over_correct_witness:
  "\<exists>db' new. carry_over_students (ex_ids ''N'') ''s'' ''t1'' None None ex_pupils = (Inr 2, db') \<and>
    db' = with_enrolments ex_pupils (sd_enrolments ex_pupils @ new) \<and> length new = 2 \<and>
    carry_over_students (ex_ids ''M'') ''s'' ''t1'' None None db' = (Inr 0, db')"
proof -
  have "fst (carry_over_students (ex_ids ''N'') ''s'' ''t1'' None None ex_pupils) = Inr 2" by code_simp
  then obtain db' where run: "carry_over_students (ex_ids ''N'') ''s'' ''t1'' None None ex_pupils = (Inr 2, db')"
    by (metis prod.collapse)
  from carry_over_correct[OF run refl, of "ex_ids ''M''"] run show ?thesis by auto
qed

text \<open>
  A student without a term on the enrollment is carried over once and never promoted: the copy
  is added, the old row stays active, and the next promotion of the school, from the term the
  copies are in, meets both rows, breaks the unique index with the second and stops with that error.
\<close>

theorem carry_over_then_promotion_fails:
  assumes inv: "session_inv db"
    and run: "carry_over_students ids school term_id prev ty db = (Inr n, db')"
    and moved: "moved = enrolments_to_move school (or_undefined prev) ty db"
    and e: "e \<in> set moved" "en_term e = None" "\<forall>f\<in>set moved. en_student f = en_student e \<longrightarrow> f = e"
    and none: "\<not> list_ex (in_term (en_student e) school term_id) (sd_enrolments db)"
    and linked: "linked = ensure_class_level_progression school ty db'"
    and prev: "map_option tr_id (previous_term school ty next_id linked) = Some term_id"
    and lvl: "has_next school linked e"
  shows "fst (promote_students_with_tracking tz now ids' school next_id ty db') = Inl unique_error"
proof -
  let ?new = "carried ids school term_id (sd_enrolments db) moved"
  let ?u = "carried_row ids school term_id e"
  note res = carry_over_result[OF run moved]
  have "list_ex (in_term (en_student e) school term_id) (sd_enrolments db @ ?new)" by (rule carried_covers[OF e(1)])
  then obtain u where u: "u \<in> set ?new" "en_student u = en_student e" using none by (auto simp: list_ex_iff in_term_def)
  then obtain f where "f \<in> set moved" "u = carried_row ids school term_id f" using carried_rows by blast
  then have ue: "u = ?u" using u(2) e(3) by (auto simp: carried_row_def)
  have in_db: "e \<in> set (sd_enrolments db')" "?u \<in> set (sd_enrolments db')"
    using e(1) u(1) by (auto simp: res(1) moved ue enrolments_to_move_def)
  have type_e: "in_school_type db ty e" and mov: "en_school e = school" "en_active e"
    using e(1) by (simp_all add: moved enrolments_to_move_def movable_def)
  have "in_school_type linked ty x = in_school_type db ty x" for x
    by (simp add: in_school_type_def linked res(1) ensure_class_level_progression_def Let_def)
  then have type: "in_school_type linked ty e" "in_school_type linked ty ?u"
    using type_e by simp_all
  have "e \<in> set (moved_enrolments school next_id ty linked)" "?u \<in> set (moved_enrolments school next_id ty linked)"
    using in_db type mov e(2) unfolding moved_enrolments_def prev enrolments_to_move_def
    by (simp_all add: movable_def) (simp_all add: linked carried_row_def)
  moreover have "has_next school linked ?u"
    using lvl by (simp add: has_next_def)
  moreover have "e \<noteq> ?u" using e(2) carried_fields(3) by (metis option.distinct(1))
  moreover have "session_inv db'"
    using op_keeps_result[OF carry_over_keeps[of "\<lambda>_. True", unfolded inv_and_True] inv run] .
  ultimately show ?thesis
    using lvl unfolding promote_students_with_tracking_def
    by (intro promotion_clash[OF seats_stable(2) _ linked, where e = e and f = ?u]) (simp_all add: carried_fields)
qed

text \<open>A term of the school to carry over from and to, and the session promoted into.\<close>

definition ex_run_db :: session_db where
  "ex_run_db = (ex_session_db [ex_term_enrolment ''e1'' ''ada'' None])\<lparr>
     sd_sessions := [\<lparr>sn_id = ''A'', sn_name = ''2024/2025'', sn_start = 0, sn_end = 9, sn_status = SESSION_ACTIVE,
       sn_school = ''s'', sn_type = None\<rparr>],
     sd_terms := [blank_term ''t3'' ''3rd Term'' 3 0 9 TERM_ACTIVE ''A'']\<rparr>"

lemma ex_run_inv: "session_inv ex_run_db"
  by (simp add: ex_run_db_def ex_session_db_def ex_term_enrolment_def session_inv_def terms_ok_def one_active_term_def enrolments_ok_def)

lemma carry_over_then_promotion_fails_witness:
  "fst (promote_students_with_tracking 0 0 (ex_ids ''P'') ''s'' ''new'' None
     (snd (carry_over_students (ex_ids ''N'') ''s'' ''t3'' None None ex_run_db))) = Inl unique_error"
proof -
  let ?db' = "snd (carry_over_students (ex_ids ''N'') ''s'' ''t3'' None None ex_run_db)"
  let ?e = "ex_term_enrolment ''e1'' ''ada'' None"
  have "fst (carry_over_students (ex_ids ''N'') ''s'' ''t3'' None None ex_run_db) = Inr 1" by code_simp
  then have run: "carry_over_students (ex_ids ''N'') ''s'' ''t3'' None None ex_run_db = (Inr 1, ?db')"
    by (metis prod.collapse)
  have m: "enrolments_to_move ''s'' (or_undefined None) None ex_run_db = [?e]" by code_simp
  have "\<not> list_ex (in_term (en_student ?e) ''s'' ''t3'') (sd_enrolments ex_run_db)" by code_simp
  moreover have "map_option tr_id (previous_term ''s'' None ''new'' (ensure_class_level_progression ''s'' None ?db')) = Some ''t3''"
    by code_simp
  moreover have "has_next ''s'' (ensure_class_level_progression ''s'' None ?db') ?e" by code_simp
  moreover have "en_term ?e = None" by (simp add: ex_term_enrolment_def)
  ultimately show ?thesis
    by (intro carry_over_then_promotion_fails[OF ex_run_inv run m[symmetric], of ?e]) simp_all
qed

section \<open>Timetables\<close>

lemma clone_timetables_unfold:
  "clone_timetables ids a b db = op_for (clone_period ids b) (filter (\<lambda>p. tt_term p = a) (sd_periods db)) 0 db"
  by (simp add: clone_timetables_def)

text \<open>
  Cloning the timetable of a term adds to the other term one copy of each of its periods whose
  slot (class, arm, day, start) was free there, and touches nothing else; afterwards every slot
  of the first is taken in the second, so that cloning again does nothing.
\<close>

theorem clone_timetables_correct:
  assumes run: "clone_timetables ids a b db = (Inr n, db')" and ne: "a \<noteq> b"
  shows "\<exists>new. db' = with_periods db (sd_periods db @ new) \<and> length new = n \<and>
    (\<forall>p\<in>set (sd_periods db). tt_term p = a \<longrightarrow> list_ex (same_slot b p) (sd_periods db')) \<and>
    (\<forall>r\<in>set new. \<exists>p\<in>set (sd_periods db). tt_term p = a \<and> r = cloned_row ids b p) \<and>
    clone_timetables ids' a b db' = (Inr 0, db')"
proof -
  let ?ps = "filter (\<lambda>p. tt_term p = a) (sd_periods db)"
  let ?new = "clones ids b (sd_periods db) ?ps"
  have res: "db' = with_periods db (sd_periods db @ ?new)" "n = length ?new"
    using clone_loop[where R = "sd_periods db" and db = db and k = 0 and n = n and d = db'] run
    by (simp_all add: clone_timetables_unfold)
  have cover: "list_ex (same_slot b p) (sd_periods db')" if "p \<in> set ?ps" for p
    using clones_cover[OF that] by (simp add: res(1))
  have rows: "\<forall>r\<in>set ?new. \<exists>p\<in>set (sd_periods db). tt_term p = a \<and> r = cloned_row ids b p"
    using clones_rows by fastforce
  have "tt_term r = b" if "r \<in> set ?new" for r
  proof -
    from clones_rows[OF that] obtain p where "r = cloned_row ids b p" by blast
    then show ?thesis by (simp add: cloned_row_def)
  qed
  then have "\<forall>r\<in>set ?new. tt_term r \<noteq> a" using ne by metis
  then have "filter (\<lambda>p. tt_term p = a) ?new = []" unfolding filter_empty_conv .
  then have same: "filter (\<lambda>p. tt_term p = a) (sd_periods db') = ?ps" by (simp add: res(1))
  have "clone_timetables ids' a b db' = (Inr 0, db')"
    using cover unfolding clone_timetables_unfold same by (intro clone_loop_none) blast
  moreover have "\<forall>p\<in>set (sd_periods db). tt_term p = a \<longrightarrow> list_ex (same_slot b p) (sd_periods db')"
    using cover by simp
  ultimately show ?thesis using res rows by blast
qed

definition ex_period :: "string \<Rightarrow> string \<Rightarrow> timetable_row" where
  "ex_period i start = \<lparr>tt_id = i, tt_term = ''t1'', tt_class = None, tt_arm = Some ''A'', tt_day = ''MONDAY'', tt_start = start,
     tt_end = ''09:00'', tt_kind = ''LESSON'', tt_subject = None, tt_course = None, tt_teacher = None, tt_room = None\<rparr>"

lemma clone_timetables_correct_witness:
  "\<exists>db'. clone_timetables (ex_ids ''N'') ''t1'' ''t2'' ((ex_session_db [])\<lparr>sd_periods := [ex_period ''p'' ''08:00'', ex_period ''q'' ''08:30'']\<rparr>) = (Inr 2, db') \<and>
    clone_timetables (ex_ids ''M'') ''t1'' ''t2'' db' = (Inr 0, db')"
proof -
  let ?db = "(ex_session_db [])\<lparr>sd_periods := [ex_period ''p'' ''08:00'', ex_period ''q'' ''08:30'']\<rparr>"
  have "fst (clone_timetables (ex_ids ''N'') ''t1'' ''t2'' ?db) = Inr 2" by code_simp
  then obtain db' where run: "clone_timetables (ex_ids ''N'') ''t1'' ''t2'' ?db = (Inr 2, db')" by (metis prod.collapse)
  from clone_timetables_correct[OF run, of "ex_ids ''M''"] run show ?thesis by auto
qed

end
