(* ===== verification/SessionBehaviour.thy ===== *)
theory SessionBehaviour
  imports SessionProperties
begin

text \<open>
  What requests of the session service achieve and what they leave behind: a started session, a
  start that fails half-way, and a term started after the last one was ended.
\<close>

section \<open>Steps that leave schools, sessions and terms alone\<close>

definition calendar :: "session_db \<Rightarrow> school_record list \<times> academic_session list \<times> academic_term list" where
  "calendar db = (sd_schools db, sd_sessions db, sd_terms db)"

definition same_calendar :: "session_db \<Rightarrow> session_db \<Rightarrow> bool" where
  "same_calendar db0 db \<longleftrightarrow> calendar db = calendar db0"

lemma calendar_writes [op_keeps_intros]:
  "op_keeps (same_calendar c) (op_modify (deactivate_enrolment_row i))"
  "op_keeps (same_calendar c) (op_modify (ensure_class_level_progression school ty))"
  "op_keeps (same_calendar c) (op_modify (seed_holidays school a b ty))"
  "op_keeps (same_calendar c) (op_modify (\<lambda>db. db\<lparr>sd_periods := f db\<rparr>))"
  "op_keeps (same_calendar c) (op_modify (\<lambda>db. db\<lparr>sd_enrolments := g db\<rparr>))"
  by (simp_all add: op_keeps_def same_calendar_def calendar_def deactivate_enrolment_row_def ensure_class_level_progression_def
      seed_holidays_def Let_def)

lemma calendar_insert [op_keeps_intros]: "op_keeps (same_calendar c) (insert_enrolment e)"
  unfolding insert_enrolment_def by (intro op_keeps_intros)

lemma calendar_moves [op_keeps_intros]:
  "op_keeps (same_calendar c) (promote_with place ids school term_id ty)"
  "op_keeps (same_calendar c) (carry_over_students ids school term_id prev ty)"
  "op_keeps (same_calendar c) (clone_timetables ids a b)"
  unfolding promote_with_def promote_one_def carry_over_students_def carry_one_def clone_timetables_def clone_period_def Let_def
  by (intro op_keeps_intros)+

lemma calendar_kept:
  assumes "\<And>c. op_keeps (same_calendar c) m" "m db = (r, db')"
  shows "sd_schools db' = sd_schools db" "sd_sessions db' = sd_sessions db" "sd_terms db' = sd_terms db"
  using op_keeps_result[OF assms(1)[of db] _ assms(2)] by (simp_all add: same_calendar_def calendar_def)

section \<open>A started session\<close>

definition range_term :: "id_supply \<Rightarrow> string option \<Rightarrow> nat \<Rightarrow> term_dates \<Rightarrow> academic_term" where
  "range_term ids ty k r = blank_term (is_term ids (td_number r)) (ordinal (td_number r) @ '' '' @ term_label ty) (td_number r)
     (td_start r) (td_end r)
     (if td_number r = int k then TERM_ACTIVE else if td_number r < int k then TERM_COMPLETED else TERM_DRAFT) (is_session ids)"

lemma range_term_fields [simp]:
  "tr_session (range_term ids ty k r) = is_session ids" "tr_number (range_term ids ty k r) = td_number r"
  "tr_status (range_term ids ty k r) =
    (if td_number r = int k then TERM_ACTIVE else if td_number r < int k then TERM_COMPLETED else TERM_DRAFT)"
  by (simp_all add: range_term_def blank_term_def)

lemma create_range_term_Inr:
  "create_range_term ids ty k r cur db = (Inr c, d) \<Longrightarrow>
    d = db\<lparr>sd_terms := sd_terms db @ [range_term ids ty k r]\<rparr> \<and>
    c = (if td_number r = int k then Some (range_term ids ty k r) else cur)"
  by (auto simp: create_range_term_def insert_term_def op_bind_def op_then_def op_require_eval range_term_def Let_def
      split: if_splits)

lemma create_ranges_loop:
  "op_for (create_range_term ids ty k) rs cur db = (Inr c, d) \<Longrightarrow>
    d = db\<lparr>sd_terms := sd_terms db @ map (range_term ids ty k) rs\<rparr> \<and>
    (\<forall>t. c = Some t \<longrightarrow> cur = Some t \<or> (\<exists>r\<in>set rs. td_number r = int k \<and> t = range_term ids ty k r))"
proof (induction rs arbitrary: cur db)
  case (Cons r rs)
  from Cons.prems obtain c1 d1 where 1: "create_range_term ids ty k r cur db = (Inr c1, d1)"
    and 2: "op_for (create_range_term ids ty k) rs c1 d1 = (Inr c, d)"
    by (auto simp: op_bind_Inr)
  from create_range_term_Inr[OF 1] Cons.IH[OF 2] show ?case by (auto split: if_splits)
qed simp

lemma complete_if_idle_frame:
  assumes "complete_session_if_no_active_terms sid db = (Inr b, db')"
  shows "sd_terms db' = sd_terms db" "sd_schools db' = sd_schools db" "map sn_id (sd_sessions db') = map sn_id (sd_sessions db)"
  using assms
  by (auto simp: complete_session_if_no_active_terms_def op_bind_def op_then_def update_session_def complete_session_def
      intro!: map_update_first_frame split: if_splits)

text \<open>The stages of a start, up to the migration of the students.\<close>

definition starting_number :: "new_session_dto \<Rightarrow> nat" where
  "starting_number dto = (case nd_starting dto of None \<Rightarrow> 1 | Some n \<Rightarrow> if n = 0 then 1 else n)"

definition new_session_row :: "id_supply \<Rightarrow> ident \<Rightarrow> new_session_dto \<Rightarrow> academic_session" where
  "new_session_row ids school dto = \<lparr>sn_id = is_session ids, sn_name = nd_name dto, sn_start = nd_start dto, sn_end = nd_end dto,
     sn_status = SESSION_ACTIVE, sn_school = school, sn_type = or_undefined (nd_type dto)\<rparr>"

definition rival :: "ident \<Rightarrow> string option \<Rightarrow> ident \<Rightarrow> academic_session \<Rightarrow> bool" where
  "rival school ty sid s \<longleftrightarrow> sn_school s = school \<and> sn_status s = SESSION_ACTIVE \<and> sn_type s = ty \<and> sn_id s \<noteq> sid"

definition opened_sessions :: "id_supply \<Rightarrow> ident \<Rightarrow> new_session_dto \<Rightarrow> session_db \<Rightarrow> academic_session list" where
  "opened_sessions ids school dto db =
     update_where (rival school (or_undefined (nd_type dto)) (is_session ids)) complete_session
       (sd_sessions db @ [new_session_row ids school dto])"

definition superseded :: "ident \<Rightarrow> string option \<Rightarrow> ident \<Rightarrow> session_db \<Rightarrow> academic_term \<Rightarrow> bool" where
  "superseded school ty tid d u \<longleftrightarrow> session_where (\<lambda>s. sn_school s = school \<and> sn_type s = ty) u d \<and>
     tr_status u = TERM_ACTIVE \<and> tr_id u \<noteq> tid"

text \<open>What follows the creation of the terms.\<close>

definition migrate_into :: "int \<Rightarrow> date \<Rightarrow> id_supply \<Rightarrow> ident \<Rightarrow> new_session_dto \<Rightarrow> academic_term \<Rightarrow> (ident \<times> ident \<times> nat) session_op" where
  "migrate_into tz now ids school dto t =
     op_bind (if nd_carry dto then
         op_bind (op_get (previous_term school (or_undefined (nd_type dto)) (tr_id t))) (\<lambda>prev.
           carry_over_students ids school (tr_id t) (map_option tr_id prev) (or_undefined (nd_type dto)))
       else promote_students_with_tracking tz now ids school (tr_id t) (or_undefined (nd_type dto)))
     (\<lambda>moved. op_ret (is_session ids, tr_id t, moved))"

lemma migrate_into_calendar: "op_keeps (same_calendar c) (migrate_into tz now ids school dto t)"
  unfolding migrate_into_def promote_students_with_tracking_def by (intro op_keeps_intros)

lemma migrate_into_Inr: "migrate_into tz now ids school dto t db = (Inr (sid, tid, n), db') \<Longrightarrow> sid = is_session ids \<and> tid = tr_id t"
  by (auto simp: migrate_into_def op_bind_Inr op_Inr_iffs)

lemma op_check_Inr: "op_check e s = (Inr u, s') \<longleftrightarrow> e = None \<and> s' = s"
  by (cases e) (auto simp: op_check_def)

definition finish_start ::
  "int \<Rightarrow> date \<Rightarrow> id_supply \<Rightarrow> ident \<Rightarrow> new_session_dto \<Rightarrow> academic_term option \<Rightarrow> (ident \<times> ident \<times> nat) session_op" where
  "finish_start tz now ids school dto current = (case current of
     None \<Rightarrow> op_throw (JsError ''Cannot read properties of undefined (reading id)'')
   | Some t \<Rightarrow>
       op_bind (op_get id) (\<lambda>d.
       op_then (op_modify (update_terms (superseded school (or_undefined (nd_type dto)) (tr_id t) d) complete_term))
         (migrate_into tz now ids school dto t)))"

lemma start_new_session_alt:
  "start_new_session tz now ids school dto =
     op_bind (op_lift (\<lambda>db. validate_school_active school (sd_schools db))) (\<lambda>_.
     op_bind (op_get (find_active_session school (or_undefined (nd_type dto)))) (\<lambda>active.
     op_bind (case active of None \<Rightarrow> op_ret True | Some a \<Rightarrow> complete_session_if_no_active_terms (sn_id a)) (\<lambda>free.
     op_then (op_require free (Conflict ''Cannot start a new session while another is active. Please end the current session first.'')) (
     op_then (op_check (session_span_error tz (nd_start dto) (nd_end dto))) (
     op_bind (op_get (\<lambda>db. list_ex (\<lambda>s. sn_school s = school \<and> sn_name s = nd_name dto \<and> sn_type s = or_undefined (nd_type dto)) (sd_sessions db))) (\<lambda>taken.
     op_then (op_require (\<not> taken) (Conflict ''A session of that name already exists. Each academic year needs a unique session name.'')) (
     op_then (op_modify (\<lambda>db. db\<lparr>sd_sessions := opened_sessions ids school dto db\<rparr>)) (
     op_then (op_require (starting_number dto \<le> term_count (or_undefined (nd_type dto))) (BadRequest ''Starting number exceeds the number of terms.'')) (
     op_bind (op_lift (\<lambda>_. build_term_date_ranges (nd_start dto) (nd_end dto) (term_count (or_undefined (nd_type dto))) (nd_dates dto))) (\<lambda>ranges.
     op_bind (op_for (create_range_term ids (or_undefined (nd_type dto)) (starting_number dto)) ranges None) (\<lambda>current.
     op_then (op_modify (seed_holidays school (nd_start dto) (nd_end dto) (or_undefined (nd_type dto))))
       (finish_start tz now ids school dto current))))))))))))"
  unfolding start_new_session_def Let_def starting_number_def [symmetric] finish_start_def migrate_into_def
    superseded_def [abs_def] opened_sessions_def rival_def [abs_def] new_session_row_def
  by (simp add: op_then_def op_bind_def op_modify_def fun_eq_iff cong: option.case_cong split: prod.splits sum.splits option.splits)

lemma start_new_session_chain:
  assumes run: "start_new_session tz now ids school dto db = (Inr r, db')"
  shows "\<exists>db0 ranges current d3. validate_school_active school (sd_schools db) = Inr () \<and>
    (case find_active_session school (or_undefined (nd_type dto)) db of None \<Rightarrow> op_ret True
       | Some a \<Rightarrow> complete_session_if_no_active_terms (sn_id a)) db = (Inr True, db0) \<and>
    session_span_error tz (nd_start dto) (nd_end dto) = None \<and>
    build_term_date_ranges (nd_start dto) (nd_end dto) (term_count (or_undefined (nd_type dto))) (nd_dates dto) = Inr ranges \<and>
    op_for (create_range_term ids (or_undefined (nd_type dto)) (starting_number dto)) ranges None
       (db0\<lparr>sd_sessions := opened_sessions ids school dto db0\<rparr>) = (Inr current, d3) \<and>
    finish_start tz now ids school dto current
       (seed_holidays school (nd_start dto) (nd_end dto) (or_undefined (nd_type dto)) d3) = (Inr r, db')"
  using run unfolding start_new_session_alt op_bind_Inr op_then_Inr op_Inr_iffs op_require_Inr op_check_Inr
  by (clarsimp simp: op_Inr_iffs)

lemma finish_start_Inr:
  assumes "finish_start tz now ids school dto current d = (Inr (sid, tid, n), db')"
  shows "\<exists>t. current = Some t \<and> sid = is_session ids \<and> tid = tr_id t \<and> sd_schools db' = sd_schools d \<and>
    sd_sessions db' = sd_sessions d \<and>
    sd_terms db' = update_where (superseded school (or_undefined (nd_type dto)) tid d) complete_term (sd_terms d)"
proof -
  from assms obtain t where t: "current = Some t"
    and m: "migrate_into tz now ids school dto t (update_terms (superseded school (or_undefined (nd_type dto)) (tr_id t) d) complete_term d)
      = (Inr (sid, tid, n), db')"
    by (auto simp: finish_start_def split: option.splits)
  from calendar_kept[OF migrate_into_calendar m] migrate_into_Inr[OF m] t show ?thesis
    by (simp add: update_terms_def)
qed

lemma seed_holidays_calendar [simp]:
  "sd_schools (seed_holidays school a b ty d) = sd_schools d" "sd_sessions (seed_holidays school a b ty d) = sd_sessions d"
  "sd_terms (seed_holidays school a b ty d) = sd_terms d"
  by (simp_all add: seed_holidays_def Let_def)

lemma start_new_session_stages:
  assumes run: "start_new_session tz now ids school dto db = (Inr (sid, tid, n), db')"
  shows "\<exists>S ranges t d. map sn_id S = map sn_id (sd_sessions db) \<and>
    validate_school_active school (sd_schools db) = Inr () \<and> sid = is_session ids \<and> tid = tr_id t \<and>
    sd_schools db' = sd_schools db \<and>
    sd_sessions db' = opened_sessions ids school dto (db\<lparr>sd_sessions := S\<rparr>) \<and>
    (\<exists>r\<in>set ranges. td_number r = int (starting_number dto) \<and> t = range_term ids (or_undefined (nd_type dto)) (starting_number dto) r) \<and>
    sd_terms db' = update_where (superseded school (or_undefined (nd_type dto)) tid d) complete_term
       (sd_terms db @ map (range_term ids (or_undefined (nd_type dto)) (starting_number dto)) ranges)"
proof -
  let ?ty = "or_undefined (nd_type dto)"
  obtain db0 ranges current d3 where valid: "validate_school_active school (sd_schools db) = Inr ()"
    and idle: "(case find_active_session school ?ty db of None \<Rightarrow> op_ret True
       | Some a \<Rightarrow> complete_session_if_no_active_terms (sn_id a)) db = (Inr True, db0)"
    and made: "op_for (create_range_term ids ?ty (starting_number dto)) ranges None
       (db0\<lparr>sd_sessions := opened_sessions ids school dto db0\<rparr>) = (Inr current, d3)"
    and fin: "finish_start tz now ids school dto current (seed_holidays school (nd_start dto) (nd_end dto) ?ty d3) = (Inr (sid, tid, n), db')"
    using start_new_session_chain[OF run] by blast
  have db0: "sd_terms db0 = sd_terms db" "sd_schools db0 = sd_schools db" "map sn_id (sd_sessions db0) = map sn_id (sd_sessions db)"
    using idle complete_if_idle_frame by (auto split: option.splits)
  obtain t where t: "current = Some t" "sid = is_session ids" "tid = tr_id t" "sd_schools db' = sd_schools d3"
    "sd_sessions db' = sd_sessions d3"
    and terms: "sd_terms db' = update_where (superseded school ?ty tid (seed_holidays school (nd_start dto) (nd_end dto) ?ty d3)) complete_term (sd_terms d3)"
    using finish_start_Inr[OF fin] by auto
  note loop = create_ranges_loop[OF made]
  have "\<exists>r\<in>set ranges. td_number r = int (starting_number dto) \<and> t = range_term ids ?ty (starting_number dto) r"
    using loop t(1) by simp
  moreover have "opened_sessions ids school dto (db\<lparr>sd_sessions := sd_sessions db0\<rparr>) = opened_sessions ids school dto db0"
    by (simp add: opened_sessions_def)
  ultimately show ?thesis
    using valid db0 t terms loop
    by (intro exI[of _ "sd_sessions db0"] exI[of _ ranges] exI[of _ t]
        exI[of _ "seed_holidays school (nd_start dto) (nd_end dto) ?ty d3"]) simp
qed

lemma find_opened:
  assumes fresh: "is_session ids \<notin> set (map sn_id S)" and ty: "ty = or_undefined (nd_type dto)"
  shows "find_active_session school ty (db\<lparr>sd_sessions := opened_sessions ids school dto (db\<lparr>sd_sessions := S\<rparr>)\<rparr>)
    = Some (new_session_row ids school dto)"
proof -
  have row: "\<not> rival school ty (is_session ids) (new_session_row ids school dto)"
    by (simp add: rival_def new_session_row_def)
  have "find (\<lambda>s. sn_school s = school \<and> sn_status s = SESSION_ACTIVE \<and> sn_type s = ty)
      (update_where (rival school ty (is_session ids)) complete_session S @ [new_session_row ids school dto])
      = Some (new_session_row ids school dto)"
    using fresh by (induction S) (auto simp: rival_def complete_session_def new_session_row_def ty)
  then show ?thesis
    using row by (simp add: find_active_session_def opened_sessions_def ty update_where_def)
qed

lemma find_active_session_cong: "sd_sessions a = sd_sessions b \<Longrightarrow> find_active_session school ty a = find_active_session school ty b"
  by (simp only: find_active_session_def)

lemma singleton_list: "distinct xs \<Longrightarrow> set xs = {x} \<Longrightarrow> xs = [x]"
  by (cases xs) (auto simp: insert_eq_iff subset_singleton_iff)

lemma only_active:
  assumes ok: "terms_ok ts" and t: "t \<in> set ts" "active_term_of sid t"
  shows "filter (active_term_of sid) ts = [t]"
proof (rule singleton_list)
  have d: "distinct (map tr_id ts)" and one: "one_active_term ts" using ok by (simp_all add: terms_ok_def)
  then show "distinct (filter (active_term_of sid) ts)" by (simp add: distinct_map)
  have "u = t" if "u \<in> set ts" "active_term_of sid u" for u
  proof (rule distinct_key_eq[OF d that(1) t(1)])
    show "tr_id u = tr_id t"
      using one[unfolded one_active_term_def, rule_format, OF that(1) t(1)] that(2) t(2) by (simp add: active_term_of_def)
  qed
  then show "set (filter (active_term_of sid) ts) = {t}" unfolding set_filter using t by blast
qed

text \<open>
  C5: after a session has been started its school and type have it as their active session, with
  the starting term as the active term; its earlier terms are completed and its later ones drafts.
\<close>

theorem start_new_session_correct:
  assumes inv: "session_inv db"
    and fresh: "is_session ids \<notin> set (map sn_id (sd_sessions db))" "is_session ids \<notin> tr_session ` set (sd_terms db)"
    and run: "start_new_session tz now ids school dto db = (Inr (sid, tid, n), db')"
  shows "\<exists>t. get_active_session school (or_undefined (nd_type dto)) db' = Inr (Some (new_session_row ids school dto), Some t) \<and>
    sid = is_session ids \<and> tid = tr_id t \<and> tr_number t = int (starting_number dto) \<and>
    (\<forall>u\<in>set (sd_terms db'). tr_session u = sid \<longrightarrow> tr_status u =
      (if tr_number u < int (starting_number dto) then TERM_COMPLETED
       else if tr_number u = int (starting_number dto) then TERM_ACTIVE else TERM_DRAFT))"
proof -
  let ?ty = "or_undefined (nd_type dto)" and ?k = "starting_number dto"
  obtain S ranges t d r where ids: "map sn_id S = map sn_id (sd_sessions db)"
    and valid: "validate_school_active school (sd_schools db) = Inr ()"
    and st: "sid = is_session ids" "tid = tr_id t" and schools: "sd_schools db' = sd_schools db"
    and sess: "sd_sessions db' = opened_sessions ids school dto (db\<lparr>sd_sessions := S\<rparr>)"
    and r: "r \<in> set ranges" "td_number r = int ?k" "t = range_term ids ?ty ?k r"
    and terms: "sd_terms db' = update_where (superseded school ?ty tid d) complete_term (sd_terms db @ map (range_term ids ?ty ?k) ranges)"
    using start_new_session_stages[OF run] by blast
  have active: "find_active_session school ?ty db' = Some (new_session_row ids school dto)"
    using find_opened[of ids S ?ty dto school db] fresh(1) ids sess
      find_active_session_cong[of db' "db\<lparr>sd_sessions := opened_sessions ids school dto (db\<lparr>sd_sessions := S\<rparr>)\<rparr>"] by simp
  have "session_inv (snd (start_new_session tz now ids school dto db))"
    by (rule start_new_session_keeps[OF inv]) (use fresh(2) in force)
  then have ok: "terms_ok (sd_terms db')" using run by (simp add: session_inv_def)
  have t_active: "active_term_of (is_session ids) t" by (simp add: active_term_of_def r)
  have "\<not> superseded school ?ty tid d t" by (simp add: superseded_def st)
  then have t_in: "t \<in> set (sd_terms db')" using r by (force simp: terms set_update_where)
  have "get_active_session school ?ty db' = Inr (Some (new_session_row ids school dto), Some t)"
    using valid active only_active[OF ok t_in t_active]
    by (auto simp: get_active_session_def schools validate_school_active_def new_session_row_def split: option.splits)
  moreover have "tr_status u = (if tr_number u < int ?k then TERM_COMPLETED else if tr_number u = int ?k then TERM_ACTIVE else TERM_DRAFT)"
    if u: "u \<in> set (sd_terms db')" "tr_session u = sid" for u
  proof -
    from u fresh(2) obtain q where q: "q \<in> set ranges" "u = (if superseded school ?ty tid d (range_term ids ?ty ?k q)
        then complete_term (range_term ids ?ty ?k q) else range_term ids ?ty ?k q)"
      by (auto simp: terms set_update_where st image_iff split: if_splits)
    show ?thesis
    proof (cases "td_number q = int ?k")
      case True
      have "tr_id (range_term ids ?ty ?k q) = tid" by (simp add: st r range_term_def blank_term_def True)
      then have "\<not> superseded school ?ty tid d (range_term ids ?ty ?k q)" by (simp add: superseded_def)
      then show ?thesis using q True by simp
    next
      case False
      then have "\<not> superseded school ?ty tid d (range_term ids ?ty ?k q)" by (simp add: superseded_def)
      then show ?thesis using q False by simp
    qed
  qed
  moreover have "tr_number t = int ?k" using r by simp
  ultimately show ?thesis using st by blast
qed

definition ex_open_dto :: "string \<Rightarrow> nat option \<Rightarrow> new_session_dto" where
  "ex_open_dto ty starting = \<lparr>nd_name = ''2025/2026'', nd_start = utc_date 2025 9 1, nd_end = utc_date 2026 7 31,
     nd_type = Some ty, nd_starting = starting, nd_dates = [], nd_carry = True\<rparr>"

lemma ex_open_fields [simp]:
  "nd_name (ex_open_dto ty k) = ''2025/2026''" "nd_start (ex_open_dto ty k) = utc_date 2025 9 1"
  "nd_end (ex_open_dto ty k) = utc_date 2026 7 31" "nd_type (ex_open_dto ty k) = Some ty"
  "nd_starting (ex_open_dto ty k) = k" "nd_dates (ex_open_dto ty k) = []" "nd_carry (ex_open_dto ty k)"
  by (simp_all add: ex_open_dto_def)

lemma ex_db_fields [simp]:
  "sd_schools (ex_session_db es) = [ex_session_school]" "sd_sessions (ex_session_db es) = []" "sd_terms (ex_session_db es) = []" "sd_enrolments (ex_session_db es) = es"
  by (simp_all add: ex_session_db_def)

lemma ex_valid: "validate_school_active ''s'' [ex_session_school] = Inr ()"
  by code_simp

lemma ex_span: "session_span_error 0 (utc_date 2025 9 1) (utc_date 2026 7 31) = None"
  by code_simp

lemma no_active: "sd_sessions db = [] \<Longrightarrow> find_active_session school ty db = None"
  by (simp add: find_active_session_def)

lemma ex_open_runs:
  "fst (start_new_session 0 0 (ex_ids ''A'') ''s'' (ex_open_dto ''SECONDARY'' (Some 2)) (ex_session_db [])) = Inr (''A'', ''A-t2'', 0)"
proof -
  have three: "[0..<3] = [0, 1, 2::nat]" by (simp add: upt_rec)
  have number: "td_number (auto_range a b n i) = int i + 1" for a b n i by (simp add: auto_range_def Let_def)
  have digits: "show_nat (Suc 0) = ''1''" "show_nat 2 = ''2''" "show_nat 3 = ''3''" by code_simp+
  show ?thesis
    by (simp add: digits start_new_session_alt ex_valid ex_span no_active op_check_def build_term_date_ranges_def term_count_def
        starting_number_def three number op_bind_def op_then_def op_require_eval create_range_term_def insert_term_def
        finish_start_def migrate_into_def carry_over_students_def enrolments_to_move_def blank_term_def ex_ids_def
        seed_holidays_def update_terms_def Let_def show_int_def split: option.splits)
qed

lemma start_new_session_correct_witness:
  "\<exists>db' t. start_new_session 0 0 (ex_ids ''A'') ''s'' (ex_open_dto ''SECONDARY'' (Some 2)) (ex_session_db []) = (Inr (''A'', ''A-t2'', 0), db') \<and>
    get_active_session ''s'' (Some ''SECONDARY'') db' =
      Inr (Some (new_session_row (ex_ids ''A'') ''s'' (ex_open_dto ''SECONDARY'' (Some 2))), Some t) \<and> tr_number t = 2"
proof -
  obtain db' where run: "start_new_session 0 0 (ex_ids ''A'') ''s'' (ex_open_dto ''SECONDARY'' (Some 2)) (ex_session_db []) = (Inr (''A'', ''A-t2'', 0), db')"
    using ex_open_runs by (metis prod.collapse)
  have "session_inv (ex_session_db [])" by (simp add: session_inv_def terms_ok_def one_active_term_def enrolments_ok_def)
  from start_new_session_correct[OF this _ _ run] run show ?thesis by (auto simp: starting_number_def)
qed

section \<open>A start that fails half-way\<close>

lemma opened_has_row: "new_session_row ids school dto \<in> set (opened_sessions ids school dto db)"
  by (auto simp: opened_sessions_def set_update_where rival_def new_session_row_def image_iff)

lemma find_in_opened:
  assumes "find_active_session school (or_undefined (nd_type dto)) db = None" "is_session ids \<notin> set (map sn_id (sd_sessions db))"
  shows "find_active_session school (or_undefined (nd_type dto)) (db\<lparr>sd_sessions := opened_sessions ids school dto db\<rparr>)
    = Some (new_session_row ids school dto)"
  using find_opened[OF assms(2) refl, where school = school and db = db] by simp

text \<open>
  A start that is refused for its starting number or its term dates is refused after the
  session row was written: the table keeps an active session without terms, and every later start
  of that name and type fails because the name is taken.
\<close>

theorem failed_start_blocks_retry:
  assumes valid: "validate_school_active school (sd_schools db) = Inr ()"
    and idle: "find_active_session school (or_undefined (nd_type dto)) db = None"
    and span: "session_span_error tz (nd_start dto) (nd_end dto) = None"
    and name: "\<not> list_ex (\<lambda>s. sn_school s = school \<and> sn_name s = nd_name dto \<and> sn_type s = or_undefined (nd_type dto)) (sd_sessions db)"
    and fresh: "is_session ids \<notin> set (map sn_id (sd_sessions db))" "is_session ids \<notin> tr_session ` set (sd_terms db)"
    and bad: "term_count (or_undefined (nd_type dto)) < starting_number dto \<or>
      build_term_date_ranges (nd_start dto) (nd_end dto) (term_count (or_undefined (nd_type dto))) (nd_dates dto) = Inl e"
  shows "\<exists>err db'. start_new_session tz now ids school dto db = (Inl err, db') \<and>
    get_active_session school (or_undefined (nd_type dto)) db' = Inr (Some (new_session_row ids school dto), None) \<and>
    (\<forall>tz' now' ids' dto'. nd_name dto' = nd_name dto \<and> nd_type dto' = nd_type dto \<and>
        session_span_error tz' (nd_start dto') (nd_end dto') = None \<longrightarrow>
      fst (start_new_session tz' now' ids' school dto' db') =
        Inl (Conflict ''A session of that name already exists. Each academic year needs a unique session name.''))"
proof -
  let ?db' = "db\<lparr>sd_sessions := opened_sessions ids school dto db\<rparr>"
  let ?row = "new_session_row ids school dto"
  have run: "\<exists>err. start_new_session tz now ids school dto db = (Inl err, ?db')"
    using valid idle span name bad
    by (auto simp: start_new_session_alt op_bind_def op_then_def op_require_eval op_check_def split: prod.splits sum.splits)
  note found = find_in_opened[OF idle fresh(1)]
  have none: "filter (active_term_of (sn_id ?row)) (sd_terms db) = []"
    using fresh(2) by (auto simp: filter_empty_conv active_term_of_def new_session_row_def image_iff)
  have active: "get_active_session school (or_undefined (nd_type dto)) ?db' = Inr (Some ?row, None)"
    using valid found none by (auto simp: get_active_session_def validate_school_active_def split: option.splits)
  have "fst (start_new_session tz' now' ids' school dto' ?db') =
      Inl (Conflict ''A session of that name already exists. Each academic year needs a unique session name.'')"
    if again: "nd_name dto' = nd_name dto" "nd_type dto' = nd_type dto" "session_span_error tz' (nd_start dto') (nd_end dto') = None"
    for tz' now' ids' dto'
  proof -
    have idle': "complete_session_if_no_active_terms (sn_id ?row) ?db' = (Inr True, update_session (sn_id ?row) complete_session ?db')"
      using none by (simp add: complete_session_if_no_active_terms_def op_then_def op_bind_def count_where_def)
    have "list_ex (\<lambda>s. sn_school s = school \<and> sn_name s = nd_name dto \<and> sn_type s = or_undefined (nd_type dto))
        (update_first (\<lambda>s. sn_id s = sn_id ?row) complete_session (opened_sessions ids school dto db))"
    proof -
      have "list_ex P (update_first Q complete_session S)" if "list_ex P S" "\<And>s. P (complete_session s) = P s" for P Q S
        using that by (induction S) auto
      moreover have "list_ex (\<lambda>s. sn_school s = school \<and> sn_name s = nd_name dto \<and> sn_type s = or_undefined (nd_type dto)) (opened_sessions ids school dto db)"
        using opened_has_row[of ids school dto db] by (auto simp: list_ex_iff new_session_row_def intro!: bexI)
      ultimately show ?thesis by (simp add: complete_session_def)
    qed
    then show ?thesis
      using valid found again idle'
      by (simp add: start_new_session_alt op_bind_def op_then_def op_require_eval op_check_def update_session_def)
  qed
  then show ?thesis using run active by blast
qed

lemma failed_start_blocks_retry_witness:
  "\<exists>err db'. start_new_session 0 0 (ex_ids ''A'') ''s'' (ex_open_dto ''TERTIARY'' (Some 3)) (ex_session_db []) = (Inl err, db') \<and>
    fst (start_new_session 0 0 (ex_ids ''B'') ''s'' (ex_open_dto ''TERTIARY'' (Some 1)) db') =
      Inl (Conflict ''A session of that name already exists. Each academic year needs a unique session name.'')"
proof -
  from failed_start_blocks_retry[where school = "''s''" and db = "ex_session_db []" and dto = "ex_open_dto ''TERTIARY'' (Some 3)"
      and tz = 0 and now = 0 and ids = "ex_ids ''A''"]
  obtain err db' where r: "start_new_session 0 0 (ex_ids ''A'') ''s'' (ex_open_dto ''TERTIARY'' (Some 3)) (ex_session_db []) = (Inl err, db')"
    and again: "\<forall>tz' now' ids' dto'. nd_name dto' = ''2025/2026'' \<and> nd_type dto' = Some ''TERTIARY'' \<and>
        session_span_error tz' (nd_start dto') (nd_end dto') = None \<longrightarrow>
      fst (start_new_session tz' now' ids' ''s'' dto' db') =
        Inl (Conflict ''A session of that name already exists. Each academic year needs a unique session name.'')"
    by (auto simp: ex_valid ex_span no_active starting_number_def term_count_def)
  show ?thesis using r again[rule_format, of "ex_open_dto ''TERTIARY'' (Some 1)" 0 0 "ex_ids ''B''"] ex_span by auto
qed

section \<open>A term started after the last one was ended\<close>

lemma find_session_update:
  assumes "find_session sid db = Some s" "\<And>s. sn_id (f s) = sn_id s"
  shows "find_session sid (update_session sid f db) = Some (f s)"
proof -
  have "find (\<lambda>s. sn_id s = sid) rows = Some s \<Longrightarrow> find (\<lambda>s. sn_id s = sid) (update_first (\<lambda>s. sn_id s = sid) f rows) = Some (f s)" for rows
    using assms(2) by (induction rows) auto
  then show ?thesis using assms(1) by (simp add: find_session_def update_session_def)
qed

lemma end_term_Inr:
  assumes inv: "session_inv db" and run: "end_term school ty db = (Inr i, db')"
  shows "\<exists>t s. find_term i db = Some t \<and> find_session (tr_session t) db = Some s \<and>
    find_session (tr_session t) db' = Some (complete_session s) \<and>
    sd_terms db' = sd_terms (update_term i complete_term db)"
proof -
  from run obtain t where f: "find (\<lambda>t. session_where (\<lambda>s. sn_school s = school \<and> sn_type s = or_undefined ty) t db \<and> tr_status t = TERM_ACTIVE) (sd_terms db) = Some t"
    and i: "i = tr_id t"
    and db': "snd (complete_session_if_no_active_terms (tr_session t) (update_term i complete_term db)) = db'"
    by (auto simp: end_term_def op_bind_def op_then_def op_require_eval split: if_splits option.splits prod.splits sum.splits)
  have ok: "terms_ok (sd_terms db)" using inv by (simp add: session_inv_def)
  have t: "t \<in> set (sd_terms db)" "active_term_of (tr_session t) t" and s: "session_where (\<lambda>s. sn_school s = school \<and> sn_type s = or_undefined ty) t db"
    using find_Some_in[OF f] by (auto simp: active_term_of_def)
  obtain s where s: "find_session (tr_session t) db = Some s" using s by (auto simp: session_where_def split: option.splits)
  have d: "distinct (map tr_id (sd_terms db))" using ok by (simp add: terms_ok_def)
  have "find_term i db = Some t"
    unfolding find_term_def i by (rule find_by_key[OF d t(1)])
  moreover have "count_where (active_term_of (tr_session t)) (sd_terms (update_term i complete_term db)) = 0"
  proof (rule count_where_zero)
    fix u assume "u \<in> set (sd_terms (update_term i complete_term db))"
    then obtain v where v: "v \<in> set (sd_terms db)" "u = (if tr_id v = i then complete_term v else v)"
      using d by (auto simp: update_term_def distinct_update_first set_update_where)
    show "\<not> active_term_of (tr_session t) u"
    proof
      assume u: "active_term_of (tr_session t) u"
      then have "tr_id v \<noteq> i" "active_term_of (tr_session t) v" using v(2) by (auto simp: active_term_of_def split: if_splits)
      moreover from this have "v \<in> set (filter (active_term_of (tr_session t)) (sd_terms db))" using v(1) by simp
      ultimately show False using only_active[OF ok t] i by simp
    qed
  qed
  then have db'': "db' = update_session (tr_session t) complete_session (update_term i complete_term db)"
    using db' by (simp add: complete_session_if_no_active_terms_def op_bind_def op_then_def)
  have "find_session (tr_session t) (update_term i complete_term db) = Some s"
    using s by (simp add: find_session_def update_term_def)
  from find_session_update[OF this, of complete_session] have "find_session (tr_session t) db' = Some (complete_session s)"
    by (simp add: db'' complete_session_def)
  ultimately show ?thesis using s by (auto simp: db'' update_session_def)
qed

lemma next_term_rest_calendar: "op_keeps (same_calendar c) (next_term_rest ids school t prev)"
  unfolding next_term_rest_def by (intro op_keeps_intros)

lemma start_next_term_Inr:
  assumes run: "start_next_term ids school (Some j) db = (Inr (sid, j', n), db')"
  shows "\<exists>t. find_term j db = Some t \<and> sid = tr_session t \<and> j' = tr_id t \<and> sd_sessions db' = sd_sessions db \<and>
    sd_terms db' = sd_terms (switch_term t (other_active t db) db)"
proof -
  from run obtain t where t: "find_term j db = Some t"
    and rest: "next_term_rest ids school t (head_id (other_active t db)) (switch_term t (other_active t db) db) = (Inr (sid, j', n), db')"
    by (auto simp: start_next_term_unfold split: sum.splits option.splits if_splits)
  have "sd_sessions (switch_term t (other_active t db) db) = sd_sessions db"
    by (simp add: switch_term_def update_term_def split: list.splits)
  moreover have "sid = tr_session t \<and> j' = tr_id t"
    using rest by (auto simp: next_term_rest_def op_bind_Inr op_Inr_iffs)
  ultimately show ?thesis using calendar_kept[OF next_term_rest_calendar rest] t by auto
qed

lemma switched_active:
  assumes inv: "session_inv db" and t: "t \<in> set (sd_terms db)"
  shows "activate_term t \<in> set (sd_terms (switch_term t (other_active t db) db))"
proof -
  have d: "distinct (map tr_id (sd_terms db))" using inv by (simp add: session_inv_def terms_ok_def)
  have on: "activate_term t \<in> set (update_where (\<lambda>u. tr_id u = tr_id t) activate_term (sd_terms db))"
    using t by (force simp: set_update_where)
  have "tr_id p \<noteq> tr_id t" if "other_active t db = p # ps" for p ps
  proof -
    have "p \<in> set (other_active t db)" by (simp add: that)
    then show ?thesis by (simp add: other_active_def)
  qed
  then have off: "activate_term t \<in> set (update_where (\<lambda>u. tr_id u = tr_id p) complete_term
      (update_where (\<lambda>u. tr_id u = tr_id t) activate_term (sd_terms db)))" if "other_active t db = p # ps" for p ps
    using on that by (force simp: set_update_where)
  show ?thesis
    using on off d by (auto simp: switch_term_def update_term_def distinct_update_first map_id_activate split: list.splits)
qed

text \<open>
  C40: starting a term of a session whose last active term was ended activates the term but leaves
  the session completed, as ending the term made it: no look-up of the active session ever shows
  the running term.
\<close>

theorem ended_term_hides_next_term:
  assumes inv: "session_inv db"
    and ended: "end_term school ty db = (Inr i, db1)"
    and started: "start_next_term ids school' (Some j) db1 = (Inr (sid, j', n), db2)"
    and same: "\<exists>t. find_term i db = Some t \<and> tr_session t = sid"
    and ids: "distinct (map sn_id (sd_sessions db2))"
  shows "(\<exists>u\<in>set (sd_terms db2). tr_id u = j \<and> active_term_of sid u) \<and>
    (\<exists>s. find_session sid db2 = Some s \<and> sn_status s = SESSION_COMPLETED) \<and>
    (\<forall>school ty s u. get_active_session school ty db2 = Inr (s, Some u) \<longrightarrow> tr_session u \<noteq> sid)"
proof -
  obtain s where s: "find_session sid db1 = Some (complete_session s)"
    using end_term_Inr[OF inv ended] same by auto
  obtain t where t: "find_term j db1 = Some t" "sid = tr_session t"
    and sess: "sd_sessions db2 = sd_sessions db1" and terms: "sd_terms db2 = sd_terms (switch_term t (other_active t db1) db1)"
    using start_next_term_Inr[OF started] by blast
  have inv1: "session_inv db1" using op_keeps_result[OF end_term_keeps inv ended] .
  have "activate_term t \<in> set (sd_terms db2)" "tr_id t = j"
    using switched_active[OF inv1] find_term_in[OF t(1)] by (simp_all add: terms)
  then have "\<exists>u\<in>set (sd_terms db2). tr_id u = j \<and> active_term_of sid u"
    using t(2) by (intro bexI[of _ "activate_term t"]) (simp_all add: active_term_of_def)
  moreover have done2: "find_session sid db2 = Some (complete_session s)" using s by (simp add: find_session_def sess)
  moreover have "tr_session u \<noteq> sid" if g: "get_active_session sc tp db2 = Inr (v, Some u)" for sc tp v u
  proof
    assume u: "tr_session u = sid"
    from g obtain a ts where a: "find_active_session sc tp db2 = Some a"
      and "sort_key (\<lambda>t. - tr_number t) (filter (active_term_of (sn_id a)) (sd_terms db2)) = u # ts"
      by (auto simp: get_active_session_def split: if_splits option.splits list.splits)
    then have "u \<in> set (sort_key (\<lambda>t. - tr_number t) (filter (active_term_of (sn_id a)) (sd_terms db2)))" by simp
    then have "sn_id a = sid" using u by (simp add: active_term_of_def)
    moreover have "a \<in> set (sd_sessions db2)" "sn_status a = SESSION_ACTIVE"
      using a by (auto simp: find_active_session_def split: option.splits if_splits dest: find_Some_in)
    moreover have "complete_session s \<in> set (sd_sessions db2)" "sn_id (complete_session s) = sid"
      using done2 by (auto simp: find_session_def dest: find_Some_in)
    ultimately have "a = complete_session s" using distinct_key_eq[OF ids] by metis
    then show False using \<open>sn_status a = SESSION_ACTIVE\<close> by (simp add: complete_session_def)
  qed
  ultimately show ?thesis by (auto simp: complete_session_def)
qed

definition ex_two_terms :: session_db where
  "ex_two_terms = (ex_session_db [])\<lparr>
     sd_sessions := [\<lparr>sn_id = ''A'', sn_name = ''2025/2026'', sn_start = 0, sn_end = 9, sn_status = SESSION_ACTIVE,
       sn_school = ''s'', sn_type = Some ''SECONDARY''\<rparr>],
     sd_terms := [blank_term ''t1'' ''1st Term'' 1 0 4 TERM_ACTIVE ''A'', blank_term ''t2'' ''2nd Term'' 2 5 9 TERM_DRAFT ''A'']\<rparr>"

lemma ended_term_hides_next_term_witness:
  "\<exists>db1 db2. end_term ''s'' (Some ''SECONDARY'') ex_two_terms = (Inr ''t1'', db1) \<and>
    start_next_term (ex_ids ''N'') ''s'' (Some ''t2'') db1 = (Inr (''A'', ''t2'', 0), db2) \<and>
    (\<exists>u\<in>set (sd_terms db2). tr_id u = ''t2'' \<and> active_term_of ''A'' u) \<and>
    (\<forall>school ty s u. get_active_session school ty db2 = Inr (s, Some u) \<longrightarrow> tr_session u \<noteq> ''A'')"
proof -
  let ?db1 = "snd (end_term ''s'' (Some ''SECONDARY'') ex_two_terms)"
  let ?db2 = "snd (start_next_term (ex_ids ''N'') ''s'' (Some ''t2'') ?db1)"
  have inv: "session_inv ex_two_terms"
    by (simp add: ex_two_terms_def session_inv_def terms_ok_def one_active_term_def enrolments_ok_def blank_term_def)
  have "fst (end_term ''s'' (Some ''SECONDARY'') ex_two_terms) = Inr ''t1''" by code_simp
  then have 1: "end_term ''s'' (Some ''SECONDARY'') ex_two_terms = (Inr ''t1'', ?db1)" by (metis prod.collapse)
  have "fst (start_next_term (ex_ids ''N'') ''s'' (Some ''t2'') ?db1) = Inr (''A'', ''t2'', 0)" by code_simp
  then have 2: "start_next_term (ex_ids ''N'') ''s'' (Some ''t2'') ?db1 = (Inr (''A'', ''t2'', 0), ?db2)" by (metis prod.collapse)
  have same: "\<exists>t. find_term ''t1'' ex_two_terms = Some t \<and> tr_session t = ''A''"
    by (simp add: find_term_def ex_two_terms_def blank_term_def)
  have ids: "distinct (map sn_id (sd_sessions ?db2))" by code_simp
  from ended_term_hides_next_term[OF inv 1 2 same ids] 1 2 show ?thesis by blast
qed

end
