(* ===== verification/SessionEdits.thy ===== *)
theory SessionEdits
  imports SessionBehaviour
begin

text \<open>
  Edits of the session calendar: a reactivated term and the guards of the date edits.
\<close>

section \<open>Reactivation\<close>

text \<open>
  Reactivating a term makes its session active and completes no other session: a session of
  the same school and type that was active before stays active next to it.
\<close>

theorem reactivation_second_active_session:
  assumes run: "reactivate_term now school i ty db = (Inr j, db')"
    and t: "find_term i db = Some t"
    and other: "s \<in> set (sd_sessions db)" "sn_status s = SESSION_ACTIVE" "sn_id s \<noteq> tr_session t"
  shows "s \<in> set (sd_sessions db') \<and> (\<exists>r. find_session (tr_session t) db' = Some r \<and> sn_status r = SESSION_ACTIVE \<and> sn_school r = school)"
proof -
  let ?db1 = "update_term i activate_term (update_terms (active_term_of (tr_session t)) complete_term db)"
  have own: "session_where (\<lambda>s. sn_school s = school) t db" and db': "db' = update_session (tr_session t) activate_session ?db1"
    using run t
    by (auto simp: reactivate_term_def op_bind_def op_then_def op_require_eval split: option.splits if_splits)
  have same: "sd_sessions ?db1 = sd_sessions db" by (simp add: update_term_def update_terms_def)
  from own obtain r where r: "find_session (tr_session t) db = Some r" "sn_school r = school"
    by (auto simp: session_where_def split: option.splits)
  have "s \<in> set (sd_sessions db')"
    using other same by (auto simp: db' update_session_def intro!: update_first_in)
  moreover have "find_session (tr_session t) ?db1 = Some r" using r(1) same by (simp add: find_session_def)
  then have "find_session (tr_session t) db' = Some (activate_session r)"
    unfolding db' by (rule find_session_update) (simp add: activate_session_def)
  ultimately show ?thesis using r(2) by (simp add: activate_session_def)
qed

definition ex_two_sessions :: session_db where
  "ex_two_sessions = (ex_session_db [])\<lparr>
     sd_sessions := [
       \<lparr>sn_id = ''A'', sn_name = ''2024/2025'', sn_start = 0, sn_end = 9, sn_status = SESSION_COMPLETED, sn_school = ''s'', sn_type = None\<rparr>,
       \<lparr>sn_id = ''B'', sn_name = ''2025/2026'', sn_start = 0, sn_end = 9, sn_status = SESSION_ACTIVE, sn_school = ''s'', sn_type = None\<rparr>],
     sd_terms := [blank_term ''t1'' ''3rd Term'' 3 0 9 TERM_COMPLETED ''A'']\<rparr>"

lemma reactivation_second_active_session_witness:
  "\<exists>db'. reactivate_term 5 ''s'' ''t1'' None ex_two_sessions = (Inr ''t1'', db') \<and>
    (\<exists>r. find_session ''A'' db' = Some r \<and> sn_status r = SESSION_ACTIVE) \<and>
    (\<exists>s\<in>set (sd_sessions db'). sn_id s = ''B'' \<and> sn_status s = SESSION_ACTIVE)"
proof -
  let ?s = "sd_sessions ex_two_sessions ! 1" and ?t = "sd_terms ex_two_sessions ! 0"
  have "fst (reactivate_term 5 ''s'' ''t1'' None ex_two_sessions) = Inr ''t1''" by code_simp
  then obtain db' where run: "reactivate_term 5 ''s'' ''t1'' None ex_two_sessions = (Inr ''t1'', db')" by (metis prod.collapse)
  have t: "find_term ''t1'' ex_two_sessions = Some ?t" "tr_session ?t = ''A''"
    by (simp_all add: find_term_def ex_two_sessions_def blank_term_def)
  have s: "?s \<in> set (sd_sessions ex_two_sessions)" "sn_status ?s = SESSION_ACTIVE" "sn_id ?s = ''B''"
    by (simp_all add: ex_two_sessions_def)
  from reactivation_second_active_session[OF run t(1) s(1,2)] t(2) s run show ?thesis by auto
qed

section \<open>Dates of a session\<close>

definition dates_window :: "session_dates_dto \<Rightarrow> academic_session \<Rightarrow> academic_session" where
  "dates_window dto s = s\<lparr>sn_start := nullish (sx_start dto) (sn_start s), sn_end := nullish (sx_end dto) (sn_end s)\<rparr>"

definition blocking :: "date \<Rightarrow> date \<Rightarrow> bool \<Rightarrow> academic_term \<Rightarrow> bool" where
  "blocking start stop recalibrate t \<longleftrightarrow> outside start stop t \<and> (tr_status t = TERM_DRAFT \<longrightarrow> \<not> recalibrate)"

lemma blocking_cases:
  "list_ex (blocking a b r) ts \<longleftrightarrow>
    list_ex (\<lambda>t. tr_status t \<in> {TERM_COMPLETED, TERM_ARCHIVED} \<and> outside a b t) ts \<or>
    list_ex (\<lambda>t. tr_status t = TERM_ACTIVE \<and> outside a b t) ts \<or>
    \<not> (r \<or> \<not> list_ex (\<lambda>t. tr_status t = TERM_DRAFT \<and> outside a b t) ts)"
  unfolding blocking_def list_ex_iff by (auto split: term_status.splits) (metis term_status.exhaust)+

lemma recalibrate_frame [simp]: "sd_sessions (fold (recalibrate_range terms) rs db) = sd_sessions db"
  by (induction rs arbitrary: db) (simp_all add: recalibrate_range_def update_term_def split: option.splits)

lemma update_session_dates_eval:
  "update_session_dates tz now school sid dto db = (r, db') \<Longrightarrow>
    (\<exists>e. r = Inl e \<and> db' = db) \<or>
    (\<exists>s. r = Inr sid \<and> find (\<lambda>s. sn_id s = sid \<and> sn_school s = school) (sd_sessions db) = Some s \<and> sn_status s = SESSION_ACTIVE \<and>
      \<not> list_ex (blocking (nullish (sx_start dto) (sn_start s)) (nullish (sx_end dto) (sn_end s)) (sx_recalibrate dto)) (terms_of sid db) \<and>
      session_span_error tz (nullish (sx_start dto) (sn_start s)) (nullish (sx_end dto) (sn_end s)) = None \<and>
      \<not> start_locked now (sn_start s) (nullish (sx_start dto) (sn_start s)) (sx_start dto) \<and>
      sd_sessions db' = sd_sessions (update_session sid (dates_window dto) db) \<and>
      sd_terms db' = sd_terms (if sx_recalibrate dto then fold (recalibrate_range (terms_of sid db))
        (map (auto_range (nullish (sx_start dto) (sn_start s)) (nullish (sx_end dto) (sn_end s)) (term_count (sn_type s))) [0..<term_count (sn_type s)])
        (update_session sid (dates_window dto) db) else db))"
  unfolding update_session_dates_def Let_def blocking_cases dates_window_def [abs_def]
  by (auto simp: op_bind_def op_then_def op_require_eval op_check_def update_session_def
      split: sum.splits option.splits if_splits)

lemma recalibrate_nondraft:
  assumes "\<forall>v\<in>set (sd_terms db). \<forall>t\<in>set terms. tr_id v = tr_id t \<longrightarrow> tr_status v = tr_status t"
    and "u \<in> set (sd_terms (fold (recalibrate_range terms) rs db))" "tr_status u \<noteq> TERM_DRAFT"
  shows "u \<in> set (sd_terms db)"
  using assms
proof (induction rs arbitrary: db)
  case (Cons r rs)
  let ?db1 = "recalibrate_range terms r db"
  have step: "\<exists>w\<in>set (sd_terms db). tr_id v = tr_id w \<and> tr_status v = tr_status w \<and> (v = w \<or> tr_status w = TERM_DRAFT)"
    if "v \<in> set (sd_terms ?db1)" for v
  proof (cases "find (\<lambda>t. tr_number t = td_number r) terms")
    case None
    then show ?thesis using that by (auto simp: recalibrate_range_def)
  next
    case (Some t)
    then have t: "t \<in> set terms" by (auto dest: find_Some_in)
    show ?thesis
    proof (cases "tr_status t = TERM_DRAFT")
      case True
      then have "v \<in> set (update_first (\<lambda>x. tr_id x = tr_id t) (recalibrated r) (sd_terms db))"
        using that Some by (simp add: recalibrate_range_def update_term_def)
      from set_update_firstD[OF this] obtain w where w: "w \<in> set (sd_terms db)" "v = w \<or> (tr_id w = tr_id t \<and> v = recalibrated r w)"
        by blast
      then show ?thesis using Cons.prems(1) t True by (intro bexI[OF _ w(1)]) (metis term_updates_frame)
    qed (use that Some in \<open>auto simp: recalibrate_range_def\<close>)
  qed
  have "\<forall>v\<in>set (sd_terms ?db1). \<forall>t\<in>set terms. tr_id v = tr_id t \<longrightarrow> tr_status v = tr_status t"
  proof (intro ballI impI)
    fix v t assume v: "v \<in> set (sd_terms ?db1)" "t \<in> set terms" "tr_id v = tr_id t"
    from step[OF v(1)] obtain w where "w \<in> set (sd_terms db)" "tr_id v = tr_id w" "tr_status v = tr_status w" by blast
    then show "tr_status v = tr_status t" using Cons.prems(1) v(2,3) by simp
  qed
  from Cons.IH[OF this] Cons.prems(2,3) have "u \<in> set (sd_terms ?db1)" by simp
  from step[OF this] show ?case using Cons.prems(3) by auto
qed simp

text \<open>
  An edit of a session's dates either changes nothing or leaves a session of an allowed
  length in which every active, completed or archived term still lies, unchanged, and, unless the
  drafts are cut anew, every draft as well.
\<close>

theorem session_dates_edit_safe:
  assumes inv: "session_inv db" and ids: "distinct (map sn_id (sd_sessions db))"
    and run: "update_session_dates tz now school sid dto db = (r, db')"
  shows "(\<exists>e. r = Inl e \<and> db' = db) \<or>
    (\<exists>s. r = Inr sid \<and> find_session sid db' = Some s \<and> session_span_error tz (sn_start s) (sn_end s) = None \<and>
      (\<forall>u\<in>set (sd_terms db'). tr_session u = sid \<and> (tr_status u = TERM_DRAFT \<longrightarrow> \<not> sx_recalibrate dto) \<longrightarrow>
        u \<in> set (sd_terms db) \<and> sn_start s \<le> tr_start u \<and> tr_end u \<le> sn_end s))"
  using update_session_dates_eval[OF run]
proof (elim disjE exE conjE)
  fix s :: academic_session
  let ?a = "nullish (sx_start dto) (sn_start s)" and ?b = "nullish (sx_end dto) (sn_end s)"
  assume r: "r = Inr sid" and f: "find (\<lambda>s. sn_id s = sid \<and> sn_school s = school) (sd_sessions db) = Some s"
    and free: "\<not> list_ex (blocking ?a ?b (sx_recalibrate dto)) (terms_of sid db)" and span: "session_span_error tz ?a ?b = None"
    and sess: "sd_sessions db' = sd_sessions (update_session sid (dates_window dto) db)"
    and terms: "sd_terms db' = sd_terms (if sx_recalibrate dto then fold (recalibrate_range (terms_of sid db))
        (map (auto_range ?a ?b (term_count (sn_type s))) [0..<term_count (sn_type s)]) (update_session sid (dates_window dto) db) else db)"
  have s: "s \<in> set (sd_sessions db)" "sn_id s = sid" using find_Some_in[OF f] by auto
  have "find_session sid db = Some s" using find_by_key[OF ids s(1)] by (simp add: find_session_def s(2))
  then have "find_session sid (update_session sid (dates_window dto) db) = Some (dates_window dto s)"
    by (rule find_session_update) (simp add: dates_window_def)
  then have found: "find_session sid db' = Some (dates_window dto s)" by (simp add: find_session_def sess)
  have d: "distinct (map tr_id (sd_terms db))" using inv by (simp add: session_inv_def terms_ok_def)
  have old: "u \<in> set (sd_terms db)" if u: "u \<in> set (sd_terms db')" "tr_status u = TERM_DRAFT \<longrightarrow> \<not> sx_recalibrate dto" for u
  proof (cases "sx_recalibrate dto")
    case True
    have same: "\<forall>v\<in>set (sd_terms (update_session sid (dates_window dto) db)). \<forall>t\<in>set (terms_of sid db). tr_id v = tr_id t \<longrightarrow> tr_status v = tr_status t"
    proof (intro ballI impI)
      fix v t assume "v \<in> set (sd_terms (update_session sid (dates_window dto) db))" "t \<in> set (terms_of sid db)" "tr_id v = tr_id t"
      then have "v = t" by (intro distinct_key_eq[OF d]) (simp_all add: update_session_def terms_of_def)
      then show "tr_status v = tr_status t" by simp
    qed
    show ?thesis
      using recalibrate_nondraft[OF same] u True by (auto simp: terms update_session_def)
  next
    case False
    then show ?thesis using u(1) by (simp add: terms)
  qed
  have "sn_start (dates_window dto s) = ?a" "sn_end (dates_window dto s) = ?b" by (simp_all add: dates_window_def)
  moreover have "?a \<le> tr_start u \<and> tr_end u \<le> ?b"
    if u: "u \<in> set (sd_terms db')" "tr_session u = sid" "tr_status u = TERM_DRAFT \<longrightarrow> \<not> sx_recalibrate dto" for u
  proof -
    have "u \<in> set (terms_of sid db)" using old[OF u(1,3)] u(2) by (simp add: terms_of_def)
    then have "\<not> blocking ?a ?b (sx_recalibrate dto) u" using free by (auto simp: list_ex_iff)
    then show ?thesis using u(3) by (auto simp: blocking_def outside_def)
  qed
  ultimately show ?thesis using r found span old by auto
qed blast

definition ex_calendar :: session_db where
  "ex_calendar = (ex_session_db [])\<lparr>
     sd_sessions := [\<lparr>sn_id = ''A'', sn_name = ''2025/2026'', sn_start = utc_date 2025 9 1, sn_end = utc_date 2026 7 20,
       sn_status = SESSION_ACTIVE, sn_school = ''s'', sn_type = None\<rparr>],
     sd_terms := [blank_term ''t1'' ''1st Term'' 1 (utc_date 2025 9 1) (utc_date 2025 12 1) TERM_ACTIVE ''A'']\<rparr>"

definition ex_dates :: session_dates_dto where
  "ex_dates = \<lparr>sx_start = None, sx_end = Some (utc_date 2026 7 31), sx_recalibrate = False\<rparr>"

lemma session_dates_edit_safe_witness:
  "\<exists>db' s. update_session_dates 0 0 ''s'' ''A'' ex_dates ex_calendar = (Inr ''A'', db') \<and>
    find_session ''A'' db' = Some s \<and> session_span_error 0 (sn_start s) (sn_end s) = None \<and>
    (\<forall>u\<in>set (sd_terms db'). tr_session u = ''A'' \<longrightarrow> sn_start s \<le> tr_start u \<and> tr_end u \<le> sn_end s)"
proof -
  have order: "utc_date 2025 9 1 < utc_date 2026 7 31" "utc_date 2025 12 1 \<le> utc_date 2026 7 31" by code_simp+
  have "fst (update_session_dates 0 0 ''s'' ''A'' ex_dates ex_calendar) = Inr ''A''"
    using order by (simp add: update_session_dates_def ex_calendar_def ex_dates_def ex_valid ex_span op_check_def Let_def
        op_bind_def op_then_def op_require_eval terms_of_def blank_term_def outside_def start_locked_def)
  then obtain db' where run: "update_session_dates 0 0 ''s'' ''A'' ex_dates ex_calendar = (Inr ''A'', db')" by (metis prod.collapse)
  have "session_inv ex_calendar" "distinct (map sn_id (sd_sessions ex_calendar))"
    by (simp_all add: ex_calendar_def session_inv_def terms_ok_def one_active_term_def enrolments_ok_def)
  from session_dates_edit_safe[OF this run] run show ?thesis by (auto simp: ex_dates_def)
qed

end
