(* ===== verification/OneTimeCodes.thy ===== *)
theory OneTimeCodes
  imports OpMonad JsDate
begin

text \<open>
  The one-time codes of the sign-in: the e-mailed login code of \<open>src/src/auth/otp.service.ts\<close>, the
  password codes of \<open>src/src/auth/password-otp.service.ts\<close> and the portal transfer codes of
  \<open>src/src/portals/portals.service.ts\<close>. A table is the list of its rows; random values (code,
  session id, row id) are arguments, the SHA-256 digest is a parameter, and whether the e-mail
  could be sent is an argument. \<open>new Date()\<close> is one value per call. The locale \<open>one_time_key\<close>
  states once what the three share: a key is accepted at most once.
\<close>

section \<open>Login codes\<close>

record login_session =
  ls_id :: ident
  ls_user :: ident
  ls_session :: string
  ls_code :: string
  ls_email :: string
  ls_expires :: date
  ls_used :: "date option"
  ls_attempts :: int
  ls_created :: date

definition OTP_EXPIRY_MS :: int where
  "OTP_EXPIRY_MS = 10 * 60 * 1000"

definition MAX_OTP_ATTEMPTS :: int where
  "MAX_OTP_ATTEMPTS = 5"

definition MAX_OTP_REQUESTS_PER_HOUR :: nat where
  "MAX_OTP_REQUESTS_PER_HOUR = 3"

type_synonym 'a login_op = "(login_session list, 'a) op"

text \<open>The random part of a request: row id, session id and six-digit code.\<close>

record otp_draw =
  od_id :: ident
  od_session :: string
  od_code :: string

definition check_rate_limit :: "date \<Rightarrow> ident \<Rightarrow> string \<Rightarrow> unit login_op" where
  "check_rate_limit now user email =
     op_bind (op_get (count_where (\<lambda>s. (ls_user s = user \<or> ls_email s = email) \<and> now - 60 * 60 * 1000 \<le> ls_created s \<and> ls_used s = None)))
       (\<lambda>recent. op_require (recent < MAX_OTP_REQUESTS_PER_HOUR) (TooManyRequests ''Too many OTP requests. Please try again later.''))"

definition new_login_session :: "date \<Rightarrow> otp_draw \<Rightarrow> ident \<Rightarrow> string \<Rightarrow> login_session" where
  "new_login_session now draw user email =
     \<lparr>ls_id = od_id draw, ls_user = user, ls_session = od_session draw, ls_code = od_code draw, ls_email = email,
      ls_expires = now + OTP_EXPIRY_MS, ls_used = None, ls_attempts = 0, ls_created = now\<rparr>"

text \<open>A create that meets the unique index fails with a message that names the model.\<close>

definition create_login_session :: "date \<Rightarrow> otp_draw \<Rightarrow> bool \<Rightarrow> ident \<Rightarrow> string \<Rightarrow> string login_op" where
  "create_login_session now draw mail_ok user email =
     op_then (check_rate_limit now user email) (
     op_then (op_modify (update_where (\<lambda>s. ls_user s = user \<and> ls_used s = None) (\<lambda>s. s\<lparr>ls_used := Some now\<rparr>))) (
     op_bind (op_get (list_ex (\<lambda>s. ls_id s = od_id draw \<or> ls_session s = od_session draw))) (\<lambda>taken.
     op_then (op_require (\<not> taken) (BadRequest ''Database schema not up to date. Please run: npx prisma generate'')) (
     op_then (op_modify (\<lambda>ss. ss @ [new_login_session now draw user email])) (
     if mail_ok then op_ret (od_session draw)
     else op_then (op_modify (delete_where (\<lambda>s. ls_id s = od_id draw)))
       (op_throw (BadRequest ''Failed to send OTP email. Please check your email configuration and try again.'')))))))"

definition verify_otp :: "date \<Rightarrow> string \<Rightarrow> string \<Rightarrow> ident login_op" where
  "verify_otp now session code =
     op_bind (op_get (find (\<lambda>s. ls_session s = session))) (\<lambda>found.
     case found of
       None \<Rightarrow> op_throw (BadRequest ''Invalid session'')
     | Some s \<Rightarrow>
         op_then (op_require (ls_used s = None) (BadRequest ''This OTP has already been used'')) (
         op_then (op_require (\<not> ls_expires s < now) (BadRequest ''OTP has expired. Please request a new one.'')) (
         op_then (op_require (ls_attempts s < MAX_OTP_ATTEMPTS) (BadRequest ''Too many failed attempts. Please request a new OTP.'')) (
         if ls_code s \<noteq> code then
           op_then (op_modify (update_first (\<lambda>r. ls_id r = ls_id s) (\<lambda>r. r\<lparr>ls_attempts := ls_attempts r + 1\<rparr>)))
             (op_throw (BadRequest (''Invalid OTP code. '' @
               (if 0 < MAX_OTP_ATTEMPTS - ls_attempts s - 1 then show_int (MAX_OTP_ATTEMPTS - ls_attempts s - 1) @ '' attempts remaining.''
                else ''Please request a new OTP.''))))
         else op_then (op_modify (update_first (\<lambda>r. ls_id r = ls_id s) (\<lambda>r. r\<lparr>ls_used := Some now\<rparr>)))
           (op_ret (ls_user s))))))"

definition cleanup_expired_sessions :: "date \<Rightarrow> nat login_op" where
  "cleanup_expired_sessions now =
     op_bind (op_get (count_where (\<lambda>s. ls_expires s < now \<and> ls_used s = None))) (\<lambda>n.
       op_then (op_modify (delete_where (\<lambda>s. ls_expires s < now \<and> ls_used s = None))) (op_ret n))"

section \<open>Password codes\<close>

datatype password_otp_type = CHANGE_PASSWORD | RESET_PASSWORD

record password_otp =
  po_id :: ident
  po_session :: string
  po_type :: password_otp_type
  po_user :: "ident option"
  po_email :: string
  po_code :: string
  po_expires :: date
  po_used :: "date option"
  po_attempts :: int
  po_created :: date

definition normalized_email :: "string \<Rightarrow> string" where
  "normalized_email email = to_lower (trim email)"

definition new_password_otp :: "date \<Rightarrow> otp_draw \<Rightarrow> password_otp_type \<Rightarrow> string \<Rightarrow> ident option \<Rightarrow> password_otp" where
  "new_password_otp now draw ty email user =
     \<lparr>po_id = od_id draw, po_session = od_session draw, po_type = ty, po_user = user, po_email = normalized_email email,
      po_code = od_code draw, po_expires = now + OTP_EXPIRY_MS, po_used = None, po_attempts = 0, po_created = now\<rparr>"

definition create_password_otp ::
  "date \<Rightarrow> otp_draw \<Rightarrow> password_otp_type \<Rightarrow> string \<Rightarrow> ident option \<Rightarrow> (password_otp list, string \<times> string) op" where
  "create_password_otp now draw ty email user =
     op_then (op_modify (update_where (\<lambda>p. po_email p = normalized_email email \<and> po_type p = ty \<and> po_used p = None)
       (\<lambda>p. p\<lparr>po_used := Some now\<rparr>))) (
     op_bind (op_get (list_ex (\<lambda>p. po_id p = od_id draw \<or> po_session p = od_session draw))) (\<lambda>taken.
     op_then (op_require (\<not> taken) (JsError ''Unique constraint failed'')) (
     op_then (op_modify (\<lambda>ps. ps @ [new_password_otp now draw ty email user]))
       (op_ret (od_session draw, od_code draw)))))"

definition miss_password_otp :: "ident \<Rightarrow> int \<Rightarrow> (password_otp list, 'a) op" where
  "miss_password_otp i attempts =
     op_then (op_modify (update_first (\<lambda>p. po_id p = i) (\<lambda>p. p\<lparr>po_attempts := attempts + 1\<rparr>)))
       (op_throw (BadRequest ''Invalid verification code.''))"

definition use_password_otp :: "date \<Rightarrow> ident \<Rightarrow> password_otp list \<Rightarrow> password_otp list" where
  "use_password_otp now i = update_first (\<lambda>p. po_id p = i) (\<lambda>p. p\<lparr>po_used := Some now\<rparr>)"

definition verify_change_password :: "date \<Rightarrow> string \<Rightarrow> string \<Rightarrow> (password_otp list, ident \<times> string) op" where
  "verify_change_password now session code =
     op_bind (op_get (find (\<lambda>p. po_session p = session \<and> po_type p = CHANGE_PASSWORD))) (\<lambda>found.
     case found of
       None \<Rightarrow> op_throw (BadRequest ''Invalid or expired verification. Please request a new code.'')
     | Some p \<Rightarrow>
         op_then (op_require (po_used p = None) (BadRequest ''This code has already been used. Please request a new code.'')) (
         op_then (op_require (\<not> po_expires p < now) (BadRequest ''Verification code has expired. Please request a new code.'')) (
         op_then (op_require (po_attempts p < MAX_OTP_ATTEMPTS) (BadRequest ''Too many failed attempts. Please request a new code.'')) (
         if po_code p \<noteq> code then miss_password_otp (po_id p) (po_attempts p)
         else if \<not> truthy (po_user p) then op_throw (BadRequest ''Invalid session.'')
         else op_then (op_modify (use_password_otp now (po_id p))) (op_ret (the (po_user p), po_email p))))))"

text \<open>\<open>user_of_email\<close> is the look-up of the user table by the stored e-mail.\<close>

definition verify_reset_password ::
  "date \<Rightarrow> (string \<Rightarrow> ident option) \<Rightarrow> string \<Rightarrow> string \<Rightarrow> (password_otp list, ident \<times> string) op" where
  "verify_reset_password now user_of_email email code =
     op_bind (op_get (\<lambda>ps. sort_key (\<lambda>p. - po_created p) (filter (\<lambda>p. po_email p = normalized_email email \<and>
       po_type p = RESET_PASSWORD \<and> po_used p = None \<and> now < po_expires p) ps))) (\<lambda>found.
     case found of
       [] \<Rightarrow> op_throw (BadRequest ''Invalid or expired verification. Please request a new code.'')
     | p # _ \<Rightarrow>
         op_then (op_require (po_attempts p < MAX_OTP_ATTEMPTS) (BadRequest ''Too many failed attempts. Please request a new code.'')) (
         if po_code p \<noteq> code then miss_password_otp (po_id p) (po_attempts p)
         else case user_of_email (po_email p) of
           None \<Rightarrow> op_throw (BadRequest ''User not found.'')
         | Some u \<Rightarrow> op_then (op_modify (use_password_otp now (po_id p))) (op_ret (u, po_email p))))"

section \<open>Transfer codes of the portals\<close>

record transfer_code =
  tc_id :: ident
  tc_hash :: string
  tc_user :: ident
  tc_school :: ident
  tc_expires :: date
  tc_used :: "date option"
  tc_agent :: "string option"

definition TRANSFER_TTL_MS :: int where
  "TRANSFER_TTL_MS = 60 * 1000"

text \<open>\<open>sha\<close> is the SHA-256 digest in hexadecimal.\<close>

definition create_transfer_code ::
  "(string \<Rightarrow> string) \<Rightarrow> date \<Rightarrow> ident \<Rightarrow> string \<Rightarrow> ident \<Rightarrow> ident \<Rightarrow> string option \<Rightarrow> (transfer_code list, string) op" where
  "create_transfer_code sha now i raw user school agent =
     op_bind (op_get (list_ex (\<lambda>c. tc_id c = i \<or> tc_hash c = sha raw))) (\<lambda>taken.
     op_then (op_require (\<not> taken) (JsError ''Unique constraint failed'')) (
     op_then (op_modify (\<lambda>cs. cs @ [\<lparr>tc_id = i, tc_hash = sha raw, tc_user = user, tc_school = school,
       tc_expires = now + TRANSFER_TTL_MS, tc_used = None, tc_agent = map_option sha (or_undefined agent)\<rparr>]))
       (op_ret raw)))"

definition consume_transfer_code ::
  "(string \<Rightarrow> string) \<Rightarrow> date \<Rightarrow> string \<Rightarrow> string option \<Rightarrow> (transfer_code list, ident \<times> ident) op" where
  "consume_transfer_code sha now raw agent =
     op_bind (op_get (find (\<lambda>c. tc_hash c = sha raw))) (\<lambda>found.
     case found of
       None \<Rightarrow> op_throw (BadRequest ''This sign-in link has expired. Please log in again.'')
     | Some c \<Rightarrow>
         op_then (op_require (tc_used c = None \<and> \<not> tc_expires c < now)
           (BadRequest ''This sign-in link has expired. Please log in again.'')) (
         op_then (op_require (\<not> (truthy (tc_agent c) \<and> truthy agent \<and> Some (sha (the agent)) \<noteq> tc_agent c))
           (BadRequest ''This sign-in link has expired. Please log in again.'')) (
         op_then (op_modify (update_first (\<lambda>r. tc_id r = tc_id c) (\<lambda>r. r\<lparr>tc_used := Some now\<rparr>)))
           (op_ret (tc_user c, tc_school c)))))"

section \<open>Keys accepted once\<close>

text \<open>
  \<open>hits e s\<close>: the event redeems the key in the state; \<open>live s\<close>: the key can still be redeemed;
  \<open>mints e\<close>: the event asks for a row of that key. The states of interest satisfy \<open>inv\<close>.
\<close>

fun redemptions :: "('e \<Rightarrow> 's \<Rightarrow> 's) \<Rightarrow> ('e \<Rightarrow> 's \<Rightarrow> bool) \<Rightarrow> 'e list \<Rightarrow> 's \<Rightarrow> nat" where
  "redemptions step hits [] s = 0"
| "redemptions step hits (e # es) s = (if hits e s then 1 else 0) + redemptions step hits es (step e s)"

locale one_time_key = step_system step inv
  for step :: "'e \<Rightarrow> 's \<Rightarrow> 's" and inv :: "'s \<Rightarrow> bool" +
  fixes hits :: "'e \<Rightarrow> 's \<Rightarrow> bool" and mints :: "'e \<Rightarrow> bool" and live :: "'s \<Rightarrow> bool"
  assumes hit_live: "inv s \<Longrightarrow> hits e s \<Longrightarrow> live s"
    and hit_ends: "inv s \<Longrightarrow> hits e s \<Longrightarrow> \<not> live (step e s)"
    and stays_ended: "inv s \<Longrightarrow> \<not> live s \<Longrightarrow> \<not> mints e \<Longrightarrow> \<not> live (step e s)"
begin

lemma ended_never: "inv s \<Longrightarrow> \<not> live s \<Longrightarrow> \<forall>e\<in>set es. \<not> mints e \<Longrightarrow> redemptions step hits es s = 0"
  by (induction es arbitrary: s) (auto dest: hit_live stays_ended intro: step_keeps)

lemma at_most_once: "inv s \<Longrightarrow> \<forall>e\<in>set es. \<not> mints e \<Longrightarrow> redemptions step hits es s \<le> 1"
proof (induction es arbitrary: s)
  case (Cons e es)
  then show ?case using ended_never[of "step e s" es] hit_ends[of s e] by (auto intro: step_keeps)
qed simp

end

end
