(* ===== verification/OneTimeFacts.thy ===== *)
theory OneTimeFacts
  imports OneTimeCodes
begin

text \<open>
  The one-time codes as keys accepted once: the interpretations of \<open>one_time_key\<close> on the login
  codes, the password codes and the portal transfer codes, and what the service promises of a
  fresh code.
\<close>

section \<open>Rows with a key and a time of use\<close>

definition open_key :: "('r \<Rightarrow> 'k) \<Rightarrow> ('r \<Rightarrow> date option) \<Rightarrow> 'k \<Rightarrow> 'r list \<Rightarrow> bool" where
  "open_key k u x rows = list_ex (\<lambda>r. k r = x \<and> u r = None) rows"

lemma open_key_simps [simp]:
  "\<not> open_key k u x []" "open_key k u x (r # rows) \<longleftrightarrow> (k r = x \<and> u r = None) \<or> open_key k u x rows"
  "open_key k u x (rows @ rows') \<longleftrightarrow> open_key k u x rows \<or> open_key k u x rows'"
  by (auto simp: open_key_def)

lemma open_key_in: "r \<in> set rows \<Longrightarrow> k r = x \<Longrightarrow> u r = None \<Longrightarrow> open_key k u x rows"
  by (auto simp: open_key_def list_ex_iff)

lemma open_mark:
  "distinct (map i rows) \<Longrightarrow> distinct (map k rows) \<Longrightarrow> r \<in> set rows \<Longrightarrow> k r = x \<Longrightarrow> (\<And>r. k (f r) = k r) \<Longrightarrow> u (f r) \<noteq> None \<Longrightarrow>
    \<not> open_key k u x (update_first (\<lambda>q. i q = i r) f rows)"
proof (induction rows)
  case (Cons q rows)
  show ?case
  proof (cases "i q = i r")
    case True
    then have "q = r" using Cons.prems(1,3) by (auto simp: image_iff)
    moreover have "k r \<notin> set (map k rows)" using Cons.prems(2) \<open>q = r\<close> by simp
    then have "\<not> open_key k u x rows" using Cons.prems(4) unfolding open_key_def list_ex_iff by (metis image_eqI list.set_map)
    ultimately show ?thesis using Cons.prems(6) by simp
  next
    case False
    then have "r \<in> set rows" using Cons.prems(3) by auto
    moreover have "k q \<noteq> x" using Cons.prems(2,4) \<open>r \<in> set rows\<close> by auto
    ultimately show ?thesis using Cons False by simp
  qed
qed simp

lemma open_updateD:
  assumes k: "\<And>r. k (f r) = k r" and used: "\<And>r. u r \<noteq> None \<Longrightarrow> u (f r) \<noteq> None"
  shows "open_key k u x (update_first p f rows) \<Longrightarrow> open_key k u x rows"
    "open_key k u x (update_where p f rows) \<Longrightarrow> open_key k u x rows"
proof -
  have still: "u (f r) = None \<Longrightarrow> u r = None" for r using used by blast
  show "open_key k u x (update_first p f rows) \<Longrightarrow> open_key k u x rows"
    "open_key k u x (update_where p f rows) \<Longrightarrow> open_key k u x rows"
    by (induction rows) (auto simp: k dest: still split: if_splits)
qed

lemma open_deleteD: "open_key k u x (delete_where p rows) \<Longrightarrow> open_key k u x rows"
  by (auto simp: open_key_def list_ex_iff delete_where_def)

section \<open>Login codes\<close>

datatype login_event =
    IssueLogin date otp_draw bool ident string
  | VerifyLogin date string string
  | CleanupLogin date

fun login_step :: "login_event \<Rightarrow> login_session list \<Rightarrow> login_session list" where
  "login_step (IssueLogin now draw mail_ok user email) ss = snd (create_login_session now draw mail_ok user email ss)"
| "login_step (VerifyLogin now session code) ss = snd (verify_otp now session code ss)"
| "login_step (CleanupLogin now) ss = snd (cleanup_expired_sessions now ss)"

definition login_hits :: "string \<Rightarrow> login_event \<Rightarrow> login_session list \<Rightarrow> bool" where
  "login_hits k e ss = (case e of VerifyLogin now session code \<Rightarrow> session = k \<and> \<not> isl (fst (verify_otp now session code ss)) | _ \<Rightarrow> False)"

definition login_mints :: "string \<Rightarrow> login_event \<Rightarrow> bool" where
  "login_mints k e = (case e of IssueLogin _ draw _ _ _ \<Rightarrow> od_session draw = k | _ \<Rightarrow> False)"

abbreviation login_live :: "string \<Rightarrow> login_session list \<Rightarrow> bool" where
  "login_live \<equiv> open_key ls_session ls_used"

definition login_ok :: "login_session list \<Rightarrow> bool" where
  "login_ok ss \<longleftrightarrow> distinct (map ls_id ss) \<and> distinct (map ls_session ss)"

lemma update_rows_ok:
  "(\<And>s. ls_id (f s) = ls_id s) \<Longrightarrow> (\<And>s. ls_session (f s) = ls_session s) \<Longrightarrow> login_ok (update_where p f ss) = login_ok ss"
  "(\<And>s. ls_id (f s) = ls_id s) \<Longrightarrow> (\<And>s. ls_session (f s) = ls_session s) \<Longrightarrow> login_ok (update_first p f ss) = login_ok ss"
  by (simp_all add: login_ok_def map_update_where_frame map_update_first_frame)

lemma delete_where_ok: "login_ok ss \<Longrightarrow> login_ok (delete_where p ss)"
  by (simp add: login_ok_def delete_where_def distinct_map_filter)

lemma append_login_ok:
  "login_ok ss \<Longrightarrow> \<not> list_ex (\<lambda>s. ls_id s = ls_id r \<or> ls_session s = ls_session r) ss \<Longrightarrow> login_ok (ss @ [r])"
  by (auto simp: login_ok_def list_ex_iff)

lemma login_step_ok: "login_ok ss \<Longrightarrow> login_ok (login_step e ss)"
proof (induction e ss rule: login_step.induct)
  case (1 now draw mail_ok user email ss)
  show ?case
    using 1 by (auto simp: create_login_session_def check_rate_limit_def op_then_def op_bind_def op_require_eval new_login_session_def
        update_rows_ok intro!: append_login_ok delete_where_ok split: if_splits)
next
  case (2 now session code ss)
  then show ?case
    by (auto simp: verify_otp_def op_then_def op_bind_def op_require_eval update_rows_ok split: option.splits)
next
  case (3 now ss)
  then show ?case by (simp add: cleanup_expired_sessions_def op_then_def op_bind_def delete_where_ok)
qed

text \<open>The outcomes of an attempt.\<close>

lemma verify_otp_cases:
  obtains (refused) err where "verify_otp now session code ss = (Inl err, ss)"
  | (missed) s err where "find (\<lambda>s. ls_session s = session) ss = Some s" "ls_used s = None" "\<not> ls_expires s < now"
      "ls_attempts s < MAX_OTP_ATTEMPTS" "ls_code s \<noteq> code"
      "verify_otp now session code ss = (Inl err, update_first (\<lambda>r. ls_id r = ls_id s) (\<lambda>r. r\<lparr>ls_attempts := ls_attempts r + 1\<rparr>) ss)"
  | (accepted) s where "find (\<lambda>s. ls_session s = session) ss = Some s" "ls_used s = None" "\<not> ls_expires s < now"
      "ls_attempts s < MAX_OTP_ATTEMPTS" "ls_code s = code"
      "verify_otp now session code ss = (Inr (ls_user s), update_first (\<lambda>r. ls_id r = ls_id s) (\<lambda>r. r\<lparr>ls_used := Some now\<rparr>) ss)"
proof (cases "find (\<lambda>s. ls_session s = session) ss")
  case None
  then show ?thesis using refused by (simp add: verify_otp_def)
next
  case (Some s)
  show ?thesis
  proof (cases "ls_used s = None \<and> \<not> ls_expires s < now \<and> ls_attempts s < MAX_OTP_ATTEMPTS")
    case True
    then show ?thesis using Some missed accepted by (cases "ls_code s = code") (simp_all add: verify_otp_def)
  next
    case False
    then have "\<exists>err. verify_otp now session code ss = (Inl err, ss)"
      using Some by (auto simp: verify_otp_def op_then_def op_bind_def op_require_eval)
    then show ?thesis using refused by blast
  qed
qed

lemma login_stays_ended:
  "\<not> login_live k ss \<Longrightarrow> \<not> login_mints k e \<Longrightarrow> \<not> login_live k (login_step e ss)"
proof (induction e ss rule: login_step.induct)
  case (1 now draw mail_ok user email ss)
  let ?ss = "update_where (\<lambda>s. ls_user s = user \<and> ls_used s = None) (\<lambda>s. s\<lparr>ls_used := Some now\<rparr>) ss"
  have old: "\<not> login_live k ?ss" using 1(1) open_updateD(2)[of ls_session "\<lambda>s. s\<lparr>ls_used := Some now\<rparr>" ls_used] by auto
  moreover have "\<not> login_live k (?ss @ [new_login_session now draw user email])"
    using old 1(2) by (simp add: login_mints_def new_login_session_def)
  ultimately show ?case
    using 1(1) by (auto simp: create_login_session_def check_rate_limit_def op_then_def op_bind_def op_require_eval
        simp del: open_key_simps(3) dest: open_deleteD)
next
  case (2 now session code ss)
  show ?case
  proof (cases rule: verify_otp_cases[of now session code ss])
    case (missed s err)
    then show ?thesis using 2(1) by (auto dest!: open_updateD(1)[rotated 2])
  next
    case (accepted s)
    then show ?thesis using 2(1) by (auto dest!: open_updateD(1)[rotated 2])
  qed (use 2(1) in simp)
next
  case (3 now ss)
  then show ?case by (auto simp: cleanup_expired_sessions_def op_then_def op_bind_def dest: open_deleteD)
qed

interpretation login: one_time_key login_step login_ok "login_hits k" "login_mints k" "login_live k" for k
proof unfold_locales
  show "login_ok ss \<Longrightarrow> login_ok (login_step e ss)" for ss e by (rule login_step_ok)
  show "login_live k ss" if "login_ok ss" "login_hits k e ss" for ss e
  proof -
    from that(2) obtain now code where e: "e = VerifyLogin now k code" "\<not> isl (fst (verify_otp now k code ss))"
      by (auto simp: login_hits_def split: login_event.splits)
    show ?thesis
      using e(2) by (cases rule: verify_otp_cases[of now k code ss]) (auto dest!: find_Some_in intro: open_key_in)
  qed
  show "\<not> login_live k (login_step e ss)" if "login_ok ss" "login_hits k e ss" for ss e
  proof -
    from that(2) obtain now code where e: "e = VerifyLogin now k code" "\<not> isl (fst (verify_otp now k code ss))"
      by (auto simp: login_hits_def split: login_event.splits)
    show ?thesis
      using e(2)
    proof (cases rule: verify_otp_cases[of now k code ss])
      case (accepted s)
      then have "\<not> login_live k (update_first (\<lambda>r. ls_id r = ls_id s) (\<lambda>r. r\<lparr>ls_used := Some now\<rparr>) ss)"
        using that(1) by (intro open_mark) (auto simp: login_ok_def dest: find_Some_in)
      then show ?thesis using accepted(6) by (simp add: e(1))
    qed simp_all
  qed
  show "\<not> login_live k (login_step e ss)" if "login_ok ss" "\<not> login_live k ss" "\<not> login_mints k e" for ss e
    by (rule login_stays_ended[OF that(2,3)])
qed

section \<open>Password codes\<close>

datatype password_event =
    IssuePassword date otp_draw password_otp_type string "ident option"
  | VerifyChange date string string
  | VerifyReset date "string \<Rightarrow> ident option" string string

fun password_step :: "password_event \<Rightarrow> password_otp list \<Rightarrow> password_otp list" where
  "password_step (IssuePassword now draw ty email user) ps = snd (create_password_otp now draw ty email user ps)"
| "password_step (VerifyChange now session code) ps = snd (verify_change_password now session code ps)"
| "password_step (VerifyReset now users email code) ps = snd (verify_reset_password now users email code ps)"

text \<open>The row a reset reads: the newest open code of the e-mail that has not expired.\<close>

definition reset_candidates :: "date \<Rightarrow> string \<Rightarrow> password_otp list \<Rightarrow> password_otp list" where
  "reset_candidates now email ps = sort_key (\<lambda>p. - po_created p) (filter (\<lambda>p. po_email p = normalized_email email \<and>
     po_type p = RESET_PASSWORD \<and> po_used p = None \<and> now < po_expires p) ps)"

definition password_hits :: "string \<Rightarrow> password_event \<Rightarrow> password_otp list \<Rightarrow> bool" where
  "password_hits k e ps = (case e of
     IssuePassword _ _ _ _ _ \<Rightarrow> False
   | VerifyChange now session code \<Rightarrow> session = k \<and> \<not> isl (fst (verify_change_password now session code ps))
   | VerifyReset now users email code \<Rightarrow> \<not> isl (fst (verify_reset_password now users email code ps)) \<and>
       po_session (hd (reset_candidates now email ps)) = k)"

definition password_mints :: "string \<Rightarrow> password_event \<Rightarrow> bool" where
  "password_mints k e = (case e of IssuePassword _ draw _ _ _ \<Rightarrow> od_session draw = k | _ \<Rightarrow> False)"

abbreviation password_live :: "string \<Rightarrow> password_otp list \<Rightarrow> bool" where
  "password_live \<equiv> open_key po_session po_used"

definition password_ok :: "password_otp list \<Rightarrow> bool" where
  "password_ok ps \<longleftrightarrow> distinct (map po_id ps) \<and> distinct (map po_session ps)"

lemma update_password_ok:
  "(\<And>p. po_id (f p) = po_id p) \<Longrightarrow> (\<And>p. po_session (f p) = po_session p) \<Longrightarrow> password_ok (update_where q f ps) = password_ok ps"
  "(\<And>p. po_id (f p) = po_id p) \<Longrightarrow> (\<And>p. po_session (f p) = po_session p) \<Longrightarrow> password_ok (update_first q f ps) = password_ok ps"
  by (simp_all add: password_ok_def map_update_where_frame map_update_first_frame)

lemma verify_change_cases:
  obtains (refused) err where "verify_change_password now session code ps = (Inl err, ps)"
  | (missed) i n err where "verify_change_password now session code ps = (Inl err, update_first (\<lambda>r. po_id r = i) (\<lambda>r. r\<lparr>po_attempts := n\<rparr>) ps)"
  | (accepted) p u where "p \<in> set ps" "po_session p = session" "po_used p = None" "po_code p = code" "\<not> po_expires p < now"
      "verify_change_password now session code ps = (Inr u, use_password_otp now (po_id p) ps)"
proof (cases "find (\<lambda>p. po_session p = session \<and> po_type p = CHANGE_PASSWORD) ps")
  case None
  then show ?thesis using refused by (simp add: verify_change_password_def)
next
  case (Some p)
  show ?thesis
  proof (cases "po_used p = None \<and> \<not> po_expires p < now \<and> po_attempts p < MAX_OTP_ATTEMPTS")
    case True
    then have "verify_change_password now session code ps = (
        if po_code p \<noteq> code then miss_password_otp (po_id p) (po_attempts p)
        else if \<not> truthy (po_user p) then op_throw (BadRequest ''Invalid session.'')
        else op_then (op_modify (use_password_otp now (po_id p))) (op_ret (the (po_user p), po_email p))) ps"
      using Some by (simp add: verify_change_password_def)
    then show ?thesis
      using find_Some_in[OF Some] True refused missed accepted[of p]
      by (simp add: miss_password_otp_def split: if_splits)
  next
    case False
    then have "\<exists>err. verify_change_password now session code ps = (Inl err, ps)"
      using Some by (auto simp: verify_change_password_def op_then_def op_bind_def op_require_eval)
    then show ?thesis using refused by blast
  qed
qed

lemma verify_reset_unfold:
  "verify_reset_password now users email code ps = (case reset_candidates now email ps of
     [] \<Rightarrow> (Inl (BadRequest ''Invalid or expired verification. Please request a new code.''), ps)
   | p # _ \<Rightarrow>
       op_then (op_require (po_attempts p < MAX_OTP_ATTEMPTS) (BadRequest ''Too many failed attempts. Please request a new code.'')) (
         if po_code p \<noteq> code then miss_password_otp (po_id p) (po_attempts p)
         else case users (po_email p) of
           None \<Rightarrow> op_throw (BadRequest ''User not found.'')
         | Some u \<Rightarrow> op_then (op_modify (use_password_otp now (po_id p))) (op_ret (u, po_email p))) ps)"
  by (simp add: verify_reset_password_def reset_candidates_def split: list.split)

lemma verify_reset_cases:
  obtains (refused) err where "verify_reset_password now users email code ps = (Inl err, ps)"
  | (missed) i n err where "verify_reset_password now users email code ps = (Inl err, update_first (\<lambda>r. po_id r = i) (\<lambda>r. r\<lparr>po_attempts := n\<rparr>) ps)"
  | (accepted) p rest u where "reset_candidates now email ps = p # rest" "p \<in> set ps" "po_used p = None" "po_code p = code"
      "verify_reset_password now users email code ps = (Inr u, use_password_otp now (po_id p) ps)"
proof (cases "reset_candidates now email ps")
  case Nil
  then show ?thesis using refused by (simp add: verify_reset_unfold)
next
  case (Cons p rest)
  then have "p \<in> set (reset_candidates now email ps)" by simp
  then have p: "p \<in> set ps" "po_used p = None" by (simp_all add: reset_candidates_def)
  show ?thesis
  proof (cases "po_attempts p < MAX_OTP_ATTEMPTS")
    case True
    then have "verify_reset_password now users email code ps = (
        if po_code p \<noteq> code then miss_password_otp (po_id p) (po_attempts p)
        else case users (po_email p) of
           None \<Rightarrow> op_throw (BadRequest ''User not found.'')
         | Some u \<Rightarrow> op_then (op_modify (use_password_otp now (po_id p))) (op_ret (u, po_email p))) ps"
      using Cons by (simp add: verify_reset_unfold)
    then show ?thesis
      using Cons p refused missed accepted[of p] by (simp add: miss_password_otp_def split: if_splits option.splits)
  next
    case False
    then show ?thesis using Cons refused by (simp add: verify_reset_unfold)
  qed
qed

lemma password_step_ok: "password_ok ps \<Longrightarrow> password_ok (password_step e ps)"
proof (induction e ps rule: password_step.induct)
  case (1 now draw ty email user ps)
  have "password_ok (ps @ [r])" if "password_ok ps" "\<not> list_ex (\<lambda>p. po_id p = po_id r \<or> po_session p = po_session r) ps" for ps r
    using that by (auto simp: password_ok_def list_ex_iff)
  from this[of _ "new_password_otp now draw ty email user"] 1 show ?case
    by (auto simp: create_password_otp_def op_then_def op_bind_def op_require_eval update_password_ok new_password_otp_def)
next
  case (2 now session code ps)
  then show ?case
    by (cases rule: verify_change_cases[of now session code ps]) (simp_all add: update_password_ok use_password_otp_def)
next
  case (3 now users email code ps)
  then show ?case
    by (cases rule: verify_reset_cases[of now users email code ps]) (simp_all add: update_password_ok use_password_otp_def)
qed

lemma use_password_ends:
  "password_ok ps \<Longrightarrow> p \<in> set ps \<Longrightarrow> \<not> password_live (po_session p) (use_password_otp now (po_id p) ps)"
  unfolding use_password_otp_def by (intro open_mark) (auto simp: password_ok_def)

lemma use_password_liveD: "password_live k (use_password_otp now i ps) \<Longrightarrow> password_live k ps"
  unfolding use_password_otp_def by (erule open_updateD(1)[rotated 2]) simp_all

lemma miss_password_liveD:
  "password_live k (update_first (\<lambda>r. po_id r = i) (\<lambda>r. r\<lparr>po_attempts := n\<rparr>) ps) \<Longrightarrow> password_live k ps"
  by (erule open_updateD(1)[rotated 2]) simp_all

lemma password_stays_ended: "\<not> password_live k ps \<Longrightarrow> \<not> password_mints k e \<Longrightarrow> \<not> password_live k (password_step e ps)"
proof (induction e ps rule: password_step.induct)
  case (1 now draw ty email user ps)
  let ?ps = "update_where (\<lambda>p. po_email p = normalized_email email \<and> po_type p = ty \<and> po_used p = None) (\<lambda>p. p\<lparr>po_used := Some now\<rparr>) ps"
  have old: "\<not> password_live k ?ps" using 1(1) open_updateD(2)[of po_session "\<lambda>p. p\<lparr>po_used := Some now\<rparr>" po_used] by auto
  then have "\<not> password_live k (?ps @ [new_password_otp now draw ty email user])"
    using 1(2) by (simp add: password_mints_def new_password_otp_def)
  then show ?case
    using old by (simp add: create_password_otp_def op_then_def op_bind_def op_require_eval del: open_key_simps(3))
next
  case (2 now session code ps)
  then show ?case
    by (cases rule: verify_change_cases[of now session code ps]) (auto dest: use_password_liveD miss_password_liveD)
next
  case (3 now users email code ps)
  then show ?case
    by (cases rule: verify_reset_cases[of now users email code ps]) (auto dest: use_password_liveD miss_password_liveD)
qed

lemma password_hit_row:
  assumes "password_hits k e ps"
  obtains p now where "p \<in> set ps" "po_session p = k" "po_used p = None" "password_step e ps = use_password_otp now (po_id p) ps"
proof (cases e)
  case (VerifyChange now session code)
  have "session = k \<and> \<not> isl (fst (verify_change_password now session code ps))"
    using assms unfolding VerifyChange password_hits_def password_event.case .
  then have h: "session = k" "\<not> isl (fst (verify_change_password now session code ps))" by blast+
  from h(2) show ?thesis
    by (cases rule: verify_change_cases[of now session code ps]) (use that h(1) VerifyChange in auto)
next
  case (VerifyReset now users email code)
  with assms have h: "\<not> isl (fst (verify_reset_password now users email code ps))" "po_session (hd (reset_candidates now email ps)) = k"
    by (simp_all add: password_hits_def)
  from h(1) show ?thesis
    by (cases rule: verify_reset_cases[of now users email code ps]) (use that h(2) VerifyReset in auto)
qed (use assms in \<open>simp add: password_hits_def\<close>)

interpretation password: one_time_key password_step password_ok "password_hits k" "password_mints k" "password_live k" for k
proof unfold_locales
  show "password_ok ps \<Longrightarrow> password_ok (password_step e ps)" for ps e by (rule password_step_ok)
  show "password_live k ps" if "password_hits k e ps" for ps e
    by (rule password_hit_row[OF that]) (blast intro: open_key_in)
  show "\<not> password_live k (password_step e ps)" if ok: "password_ok ps" and hit: "password_hits k e ps" for ps e
    by (rule password_hit_row[OF hit]) (use use_password_ends[OF ok] in auto)
  show "\<not> password_live k (password_step e ps)" if "\<not> password_live k ps" "\<not> password_mints k e" for ps e
    by (rule password_stays_ended[OF that])
qed

section \<open>Transfer codes\<close>

datatype transfer_code_event =
    IssueTransferCode date ident string ident ident "string option"
  | ConsumeTransferCode date string "string option"

fun transfer_code_step :: "(string \<Rightarrow> string) \<Rightarrow> transfer_code_event \<Rightarrow> transfer_code list \<Rightarrow> transfer_code list" where
  "transfer_code_step sha (IssueTransferCode now i raw user school agent) cs = snd (create_transfer_code sha now i raw user school agent cs)"
| "transfer_code_step sha (ConsumeTransferCode now raw agent) cs = snd (consume_transfer_code sha now raw agent cs)"

definition transfer_code_hits :: "(string \<Rightarrow> string) \<Rightarrow> string \<Rightarrow> transfer_code_event \<Rightarrow> transfer_code list \<Rightarrow> bool" where
  "transfer_code_hits sha k e cs = (case e of ConsumeTransferCode now raw agent \<Rightarrow>
     sha raw = k \<and> \<not> isl (fst (consume_transfer_code sha now raw agent cs)) | _ \<Rightarrow> False)"

definition transfer_code_mints :: "(string \<Rightarrow> string) \<Rightarrow> string \<Rightarrow> transfer_code_event \<Rightarrow> bool" where
  "transfer_code_mints sha k e = (case e of IssueTransferCode _ _ raw _ _ _ \<Rightarrow> sha raw = k | _ \<Rightarrow> False)"

abbreviation transfer_code_live :: "string \<Rightarrow> transfer_code list \<Rightarrow> bool" where
  "transfer_code_live \<equiv> open_key tc_hash tc_used"

definition transfer_codes_ok :: "transfer_code list \<Rightarrow> bool" where
  "transfer_codes_ok cs \<longleftrightarrow> distinct (map tc_id cs) \<and> distinct (map tc_hash cs)"

lemma consume_cases:
  obtains (refused) err where "consume_transfer_code sha now raw agent cs = (Inl err, cs)"
  | (accepted) c where "c \<in> set cs" "tc_hash c = sha raw" "tc_used c = None"
      "consume_transfer_code sha now raw agent cs =
        (Inr (tc_user c, tc_school c), update_first (\<lambda>r. tc_id r = tc_id c) (\<lambda>r. r\<lparr>tc_used := Some now\<rparr>) cs)"
proof (cases "find (\<lambda>c. tc_hash c = sha raw) cs")
  case None
  then show ?thesis using refused by (simp add: consume_transfer_code_def)
next
  case (Some c)
  show ?thesis
  proof (cases "tc_used c = None \<and> \<not> tc_expires c < now \<and> \<not> (truthy (tc_agent c) \<and> truthy agent \<and> Some (sha (the agent)) \<noteq> tc_agent c)")
    case True
    then show ?thesis
      using Some find_Some_in[OF Some] accepted[of c]
      by (auto simp: consume_transfer_code_def op_then_def op_bind_def op_require_eval)
  next
    case False
    then have "\<exists>err. consume_transfer_code sha now raw agent cs = (Inl err, cs)"
      using Some by (auto simp: consume_transfer_code_def op_then_def op_bind_def op_require_eval)
    then show ?thesis using refused by blast
  qed
qed

lemma consume_hit:
  assumes "transfer_code_hits sha k e cs"
  obtains c now where "c \<in> set cs" "tc_hash c = k" "tc_used c = None"
    "transfer_code_step sha e cs = update_first (\<lambda>r. tc_id r = tc_id c) (\<lambda>r. r\<lparr>tc_used := Some now\<rparr>) cs"
proof (cases e)
  case (ConsumeTransferCode now raw agent)
  have "sha raw = k \<and> \<not> isl (fst (consume_transfer_code sha now raw agent cs))"
    using assms unfolding ConsumeTransferCode transfer_code_hits_def transfer_code_event.case .
  then have h: "sha raw = k" "\<not> isl (fst (consume_transfer_code sha now raw agent cs))" by blast+
  from h(2) show ?thesis
    by (cases rule: consume_cases[of sha now raw agent cs]) (use that h(1) ConsumeTransferCode in auto)
qed (use assms in \<open>simp add: transfer_code_hits_def\<close>)

interpretation transfer_code: one_time_key "transfer_code_step sha" transfer_codes_ok "transfer_code_hits sha k" "transfer_code_mints sha k" "transfer_code_live k"
  for sha k
proof unfold_locales
  show "transfer_codes_ok (transfer_code_step sha e cs)" if ok: "transfer_codes_ok cs" for cs e
  proof (cases e)
    case (IssueTransferCode now i raw user school agent)
    have "transfer_codes_ok (cs @ [r])" if "\<not> list_ex (\<lambda>c. tc_id c = tc_id r \<or> tc_hash c = tc_hash r) cs" for r
      using that ok by (auto simp: transfer_codes_ok_def list_ex_iff)
    then show ?thesis
      using ok by (simp add: IssueTransferCode create_transfer_code_def op_then_def op_bind_def op_require_eval)
  next
    case (ConsumeTransferCode now raw agent)
    then show ?thesis
      using ok by (cases rule: consume_cases[of sha now raw agent cs]) (simp_all add: transfer_codes_ok_def map_update_first_frame)
  qed
  show "transfer_code_live k cs" if "transfer_code_hits sha k e cs" for cs e
    by (rule consume_hit[OF that]) (blast intro: open_key_in)
  show "\<not> transfer_code_live k (transfer_code_step sha e cs)" if ok: "transfer_codes_ok cs" and hit: "transfer_code_hits sha k e cs" for cs e
  proof -
    obtain c now where c: "c \<in> set cs" "tc_hash c = k" and
      step: "transfer_code_step sha e cs = update_first (\<lambda>r. tc_id r = tc_id c) (\<lambda>r. r\<lparr>tc_used := Some now\<rparr>) cs"
      by (rule consume_hit[OF hit])
    show ?thesis unfolding step using c ok by (intro open_mark) (auto simp: transfer_codes_ok_def)
  qed
  show "\<not> transfer_code_live k (transfer_code_step sha e cs)" if dead: "\<not> transfer_code_live k cs" and no: "\<not> transfer_code_mints sha k e" for cs e
  proof (cases e)
    case (IssueTransferCode now i raw user school agent)
    then show ?thesis
      using dead no by (simp add: create_transfer_code_def op_then_def op_bind_def op_require_eval transfer_code_mints_def)
  next
    case (ConsumeTransferCode now raw agent)
    show ?thesis
    proof (cases rule: consume_cases[of sha now raw agent cs])
      case (accepted c)
      have "\<not> transfer_code_live k (update_first (\<lambda>r. tc_id r = tc_id c) (\<lambda>r. r\<lparr>tc_used := Some now\<rparr>) cs)"
        using dead by (auto dest!: open_updateD(1)[rotated 2])
      then show ?thesis using accepted(4) by (simp add: ConsumeTransferCode)
    qed (use dead ConsumeTransferCode in simp)
  qed
qed

section \<open>Properties\<close>

text \<open>
  C6: the login code of a session id, the password code of a session id and the transfer code of a
  digest are each accepted at most once in any run of requests that does not draw the key again.
\<close>

theorem codes_accepted_at_most_once:
  assumes "login_ok ss" "\<forall>e\<in>set les. \<not> login_mints k e"
    and "password_ok ps" "\<forall>e\<in>set pes. \<not> password_mints k e"
    and "transfer_codes_ok cs" "\<forall>e\<in>set ces. \<not> transfer_code_mints sha k e"
  shows "redemptions login_step (login_hits k) les ss \<le> 1 \<and>
    redemptions password_step (password_hits k) pes ps \<le> 1 \<and>
    redemptions (transfer_code_step sha) (transfer_code_hits sha k) ces cs \<le> 1"
  using login.at_most_once[OF assms(1,2)] password.at_most_once[OF assms(3,4)] transfer_code.at_most_once[OF assms(5,6)]
  by blast

definition ex_draw :: otp_draw where
  "ex_draw = \<lparr>od_id = ''r1'', od_session = ''k'', od_code = ''123456''\<rparr>"

lemma codes_accepted_at_most_once_witness:
  "redemptions login_step (login_hits ''k'') [VerifyLogin 5 ''k'' ''123456'', VerifyLogin 6 ''k'' ''123456''] [new_login_session 0 ex_draw ''u'' ''e''] \<le> 1 \<and>
   redemptions password_step (password_hits ''k'') [VerifyChange 5 ''k'' ''123456'', VerifyChange 6 ''k'' ''123456'']
     [new_password_otp 0 ex_draw CHANGE_PASSWORD ''e'' (Some ''u'')] \<le> 1 \<and>
   redemptions (transfer_code_step id) (transfer_code_hits id ''k'') [ConsumeTransferCode 5 ''k'' None, ConsumeTransferCode 6 ''k'' None]
     [\<lparr>tc_id = ''c'', tc_hash = ''k'', tc_user = ''u'', tc_school = ''s'', tc_expires = 9, tc_used = None, tc_agent = None\<rparr>] \<le> 1"
  by (rule codes_accepted_at_most_once)
    (simp_all add: login_ok_def password_ok_def transfer_codes_ok_def login_mints_def password_mints_def transfer_code_mints_def)

lemma find_after_update:
  "distinct (map ls_id ss) \<Longrightarrow> find (\<lambda>r. ls_session r = k) ss = Some s \<Longrightarrow> (\<And>r. ls_session (f r) = ls_session r) \<Longrightarrow>
    find (\<lambda>r. ls_session r = k) (update_first (\<lambda>r. ls_id r = ls_id s) f ss) = Some (f s)"
proof (induction ss)
  case (Cons r ss)
  show ?case
  proof (cases "ls_session r = k")
    case True
    then show ?thesis using Cons.prems by simp
  next
    case False
    then have f: "find (\<lambda>r. ls_session r = k) ss = Some s" using Cons.prems(2) by simp
    then have "ls_id r \<noteq> ls_id s" using find_Some_in[OF f] Cons.prems(1) by auto
    then show ?thesis using Cons f False by simp
  qed
qed simp

definition awaiting :: "string \<Rightarrow> otp_draw \<Rightarrow> date \<Rightarrow> ident \<Rightarrow> nat \<Rightarrow> login_session list \<Rightarrow> bool" where
  "awaiting k draw e user n ss \<longleftrightarrow> login_ok ss \<and> (\<exists>s. find (\<lambda>r. ls_session r = k) ss = Some s \<and> ls_code s = od_code draw \<and>
     ls_user s = user \<and> ls_used s = None \<and> ls_expires s = e \<and> ls_attempts s = int (min 5 n))"

lemma wrong_guess:
  assumes "awaiting k draw e user n ss" "t \<le> e" "g \<noteq> od_code draw"
  shows "awaiting k draw e user (Suc n) (login_step (VerifyLogin t k g) ss)"
proof -
  obtain s where s: "find (\<lambda>r. ls_session r = k) ss = Some s" "ls_code s = od_code draw" "ls_user s = user" "ls_used s = None"
    "ls_expires s = e" "ls_attempts s = int (min 5 n)" and ok: "login_ok ss" using assms(1) by (auto simp: awaiting_def)
  note ok' = login_step_ok[OF ok, of "VerifyLogin t k g"]
  show ?thesis
  proof (cases "n < 5")
    case True
    then have "login_step (VerifyLogin t k g) ss = update_first (\<lambda>r. ls_id r = ls_id s) (\<lambda>r. r\<lparr>ls_attempts := ls_attempts r + 1\<rparr>) ss"
      using s assms(2,3) by (simp add: verify_otp_def MAX_OTP_ATTEMPTS_def)
    then show ?thesis
      using find_after_update[OF _ s(1), of "\<lambda>r. r\<lparr>ls_attempts := ls_attempts r + 1\<rparr>"] ok ok' s True
      by (simp add: awaiting_def login_ok_def)
  next
    case False
    then have "login_step (VerifyLogin t k g) ss = ss"
      using s assms(2) by (simp add: verify_otp_def MAX_OTP_ATTEMPTS_def op_then_def op_bind_def op_require_eval)
    then show ?thesis using s ok False by (simp add: awaiting_def)
  qed
qed

lemma wrong_guesses:
  assumes "awaiting k draw e user n ss" "\<forall>(t, g)\<in>set gs. t \<le> e \<and> g \<noteq> od_code draw"
  shows "awaiting k draw e user (n + length gs) (fold (\<lambda>(t, g). login_step (VerifyLogin t k g)) gs ss)"
  using assms
proof (induction gs arbitrary: n ss)
  case (Cons a gs)
  obtain t g where a: "a = (t, g)" by (cases a)
  have "awaiting k draw e user (Suc n) (login_step (VerifyLogin t k g) ss)"
    using wrong_guess[OF Cons.prems(1)] Cons.prems(2) a by simp
  from Cons.IH[OF this] Cons.prems(2) show ?case by (simp add: a)
qed simp

lemma created_awaiting:
  assumes "login_ok ss" "create_login_session t0 draw True user email ss = (Inr k, ss')"
  shows "k = od_session draw \<and> awaiting k draw (t0 + OTP_EXPIRY_MS) user 0 ss'"
proof -
  let ?ss = "update_where (\<lambda>s. ls_user s = user \<and> ls_used s = None) (\<lambda>s. s\<lparr>ls_used := Some t0\<rparr>) ss"
  have k: "k = od_session draw" and new: "\<not> list_ex (\<lambda>s. ls_id s = od_id draw \<or> ls_session s = od_session draw) ?ss"
    and ss': "ss' = ?ss @ [new_login_session t0 draw user email]"
    using assms(2) by (auto simp: create_login_session_def check_rate_limit_def op_then_def op_bind_def op_require_eval split: if_splits)
  have "find (\<lambda>r. ls_session r = k) ?ss = None" using new by (auto simp: find_None_iff list_ex_iff k)
  moreover have "login_ok ss'" using login_step_ok[OF assms(1), of "IssueLogin t0 draw True user email"] assms(2) by simp
  ultimately show ?thesis
    by (simp add: k awaiting_def ss' find_append new_login_session_def)
qed



section \<open>The limit of requests\<close>

definition mail_event :: "(ident \<Rightarrow> string) \<Rightarrow> login_event \<Rightarrow> bool" where
  "mail_event mail e = (case e of IssueLogin _ _ _ user email \<Rightarrow> email = mail user | _ \<Rightarrow> True)"

definition one_open_session :: "(ident \<Rightarrow> string) \<Rightarrow> login_session list \<Rightarrow> bool" where
  "one_open_session mail ss \<longleftrightarrow> (\<forall>s\<in>set ss. ls_email s = mail (ls_user s)) \<and>
     (\<forall>u. count_where (\<lambda>s. ls_user s = u \<and> ls_used s = None) ss \<le> 1)"

lemma count_update_le:
  "(\<And>r. p (f r) \<Longrightarrow> p r) \<Longrightarrow> count_where p (update_where q f rows) \<le> count_where p rows"
  "(\<And>r. p (f r) \<Longrightarrow> p r) \<Longrightarrow> count_where p (update_first q f rows) \<le> count_where p rows"
  by (induction rows) auto

lemma count_delete_le: "count_where p (delete_where q rows) \<le> count_where p rows"
  by (induction rows) (auto simp: delete_where_def)

lemma one_open_update:
  assumes "one_open_session mail ss" "\<And>s. ls_user (f s) = ls_user s" "\<And>s. ls_email (f s) = ls_email s"
    "\<And>s. ls_used s \<noteq> None \<Longrightarrow> ls_used (f s) \<noteq> None"
  shows "one_open_session mail (update_first q f ss)"
proof -
  have "count_where (\<lambda>s. ls_user s = u \<and> ls_used s = None) (update_first q f ss) \<le> 1" for u
    using assms count_update_le(2)[of "\<lambda>s. ls_user s = u \<and> ls_used s = None" f q ss]
    by (metis (mono_tags, lifting) one_open_session_def order_trans)
  moreover have "\<forall>s\<in>set (update_first q f ss). ls_email s = mail (ls_user s)"
    using assms(1-3) by (auto simp: one_open_session_def dest!: set_update_firstD)
  ultimately show ?thesis by (simp add: one_open_session_def)
qed

lemma one_open_delete: "one_open_session mail ss \<Longrightarrow> one_open_session mail (delete_where q ss)"
  using count_delete_le by (fastforce simp: one_open_session_def delete_where_def intro: order_trans)

lemma one_open_issue:
  assumes "one_open_session mail ss" "email = mail user"
  shows "one_open_session mail (update_where (\<lambda>s. ls_user s = user \<and> ls_used s = None) (\<lambda>s. s\<lparr>ls_used := Some now\<rparr>) ss
    @ [new_login_session now draw user email])"
    "one_open_session mail (update_where (\<lambda>s. ls_user s = user \<and> ls_used s = None) (\<lambda>s. s\<lparr>ls_used := Some now\<rparr>) ss)"
proof -
  let ?ss = "update_where (\<lambda>s. ls_user s = user \<and> ls_used s = None) (\<lambda>s. s\<lparr>ls_used := Some now\<rparr>) ss"
  have none: "count_where (\<lambda>s. ls_user s = user \<and> ls_used s = None) ?ss = 0"
    by (induction ss) auto
  have le: "count_where (\<lambda>s. ls_user s = u \<and> ls_used s = None) ?ss \<le> 1" for u
  proof -
    have "count_where (\<lambda>s. ls_user s = u \<and> ls_used s = None) ?ss \<le> count_where (\<lambda>s. ls_user s = u \<and> ls_used s = None) ss"
      by (rule count_update_le) simp
    also have "\<dots> \<le> 1" using assms(1) by (simp add: one_open_session_def)
    finally show ?thesis .
  qed
  have mail: "\<forall>s\<in>set ?ss. ls_email s = mail (ls_user s)" using assms(1) by (auto simp: one_open_session_def set_update_where)
  show "one_open_session mail ?ss" using le mail by (simp add: one_open_session_def)
  show "one_open_session mail (?ss @ [new_login_session now draw user email])"
    using le mail none assms(2) by (auto simp: one_open_session_def new_login_session_def)
qed

interpretation login_mail: guarded_step_system login_step "one_open_session mail" "mail_event mail" for mail
proof unfold_locales
  fix ss e assume inv: "one_open_session mail ss" and ev: "mail_event mail e"
  show "one_open_session mail (login_step e ss)"
  proof (cases e)
    case (IssueLogin now draw mail_ok user email)
    then have "email = mail user" using ev by (simp add: mail_event_def)
    from one_open_issue[OF inv this] IssueLogin inv show ?thesis
      by (auto simp: create_login_session_def check_rate_limit_def op_then_def op_bind_def op_require_eval intro: one_open_delete)
  next
    case (VerifyLogin now session code)
    then show ?thesis
      by (cases rule: verify_otp_cases[of now session code ss]) (simp_all add: inv one_open_update)
  next
    case (CleanupLogin now)
    then show ?thesis using inv by (simp add: cleanup_expired_sessions_def op_then_def op_bind_def one_open_delete)
  qed
qed

text \<open>
  The limit of three login codes an hour never refuses anyone: it counts the codes that are
  still open, and each new code closes the ones before it. So wrong guesses are not limited either:
  after five of them a new code is always to be had.
\<close>

theorem login_rate_limit_never_fires:
  assumes distinct_mail: "inj mail" and events: "\<forall>e\<in>set es. mail_event mail e"
  shows "fst (create_login_session now draw mail_ok user (mail user) (fold login_step es []))
    \<noteq> Inl (TooManyRequests ''Too many OTP requests. Please try again later.'')"
proof -
  let ?ss = "fold login_step es []"
  have "one_open_session mail []" by (simp add: one_open_session_def)
  then have inv: "one_open_session mail ?ss" using events by (intro login_mail.run_inv) auto
  have "count_where (\<lambda>s. (ls_user s = user \<or> ls_email s = mail user) \<and> now - 60 * 60 * 1000 \<le> ls_created s \<and> ls_used s = None) ?ss
      \<le> count_where (\<lambda>s. ls_user s = user \<and> ls_used s = None) ?ss"
    using inv distinct_mail by (intro count_where_mono) (auto simp: one_open_session_def inj_def)
  also have "\<dots> \<le> 1" using inv by (simp add: one_open_session_def)
  finally show ?thesis
    by (auto simp: create_login_session_def check_rate_limit_def MAX_OTP_REQUESTS_PER_HOUR_def op_then_def op_bind_def op_require_eval)
qed

lemma login_rate_limit_never_fires_witness:
  "fst (create_login_session 4 ex_draw True ''u'' (id ''u'')
     (fold login_step (map (\<lambda>n. IssueLogin 0 \<lparr>od_id = replicate n CHR ''i'', od_session = replicate n CHR ''s'', od_code = ''1''\<rparr> True ''u'' ''u'') [0..<4]) []))
    \<noteq> Inl (TooManyRequests ''Too many OTP requests. Please try again later.'')"
  by (rule login_rate_limit_never_fires[where mail = id]) (auto simp: mail_event_def)

end
