(* ===== verification/Auth.thy ===== *)
theory Auth
  imports OneTimeCodes SchoolLifecycle
begin

text \<open>
  Sign-in, tokens and the change of school, \<open>src/src/auth/auth.service.ts\<close> and \<open>strategies/jwt.strategy.ts\<close>.
  bcrypt is a parameter (\<open>compare\<close>, \<open>hash\<close>), a signed token is its payload, a token that does not
  verify is None. Rate counters, logs, portal addresses and e-mails are left out; where a failing
  e-mail fails the request, whether it was sent is an argument.
\<close>

section \<open>Tables\<close>

datatype account_status = ACCOUNT_SHADOW | ACCOUNT_ACTIVE | ACCOUNT_SUSPENDED | ACCOUNT_ARCHIVED

text \<open>A profile of an admin or a teacher at a school; a teacher has no role and tier.\<close>

record staff_profile =
  pf_id :: ident
  pf_school :: ident
  pf_public :: string
  pf_role :: "string option"
  pf_tier :: "admin_access_tier option"

record student_seat =
  se_school :: ident
  se_active :: bool
  se_date :: date

record student_card =
  sk_public :: "string option"
  sk_seats :: "student_seat list"

record auth_user =
  au_id :: ident
  au_email :: "string option"
  au_role :: user_role
  au_status :: account_status
  au_hash :: "string option"
  au_changed :: "date option"
  au_login :: "date option"
  au_admins :: "staff_profile list"
  au_teachers :: "staff_profile list"
  au_student :: "student_card option"

record reset_token =
  rt_token :: string
  rt_user :: ident
  rt_expires :: date
  rt_used :: "date option"
  rt_created :: date

record auth_db =
  ad_users :: "auth_user list"
  ad_schools :: "school_record list"
  ad_logins :: "login_session list"
  ad_codes :: "password_otp list"
  ad_tokens :: "reset_token list"
  ad_transfers :: "transfer_code list"

type_synonym 'a auth_op = "(auth_db, 'a) op"

text \<open>An operation of one table.\<close>

definition op_zoom :: "('d \<Rightarrow> 's) \<Rightarrow> ('s \<Rightarrow> 'd \<Rightarrow> 'd) \<Rightarrow> ('s, 'a) op \<Rightarrow> ('d, 'a) op" where
  "op_zoom get put m = (\<lambda>d. case m (get d) of (r, s) \<Rightarrow> (r, put s d))"

definition on_logins :: "(login_session list, 'a) op \<Rightarrow> 'a auth_op" where
  "on_logins = op_zoom ad_logins (\<lambda>s d. d\<lparr>ad_logins := s\<rparr>)"

definition on_codes :: "(password_otp list, 'a) op \<Rightarrow> 'a auth_op" where
  "on_codes = op_zoom ad_codes (\<lambda>s d. d\<lparr>ad_codes := s\<rparr>)"

definition on_transfers :: "(transfer_code list, 'a) op \<Rightarrow> 'a auth_op" where
  "on_transfers = op_zoom ad_transfers (\<lambda>s d. d\<lparr>ad_transfers := s\<rparr>)"

definition find_user :: "ident \<Rightarrow> auth_db \<Rightarrow> auth_user option" where
  "find_user i db = find (\<lambda>u. au_id u = i) (ad_users db)"

definition user_by_email :: "string \<Rightarrow> auth_db \<Rightarrow> auth_user option" where
  "user_by_email email db = find (\<lambda>u. au_email u = Some email) (ad_users db)"

definition update_user :: "ident \<Rightarrow> (auth_user \<Rightarrow> auth_user) \<Rightarrow> auth_db \<Rightarrow> auth_db" where
  "update_user i f db = db\<lparr>ad_users := update_first (\<lambda>u. au_id u = i) f (ad_users db)\<rparr>"

text \<open>The active enrollments of a student, the newest first.\<close>

definition active_seats :: "auth_user \<Rightarrow> student_seat list" where
  "active_seats u = (case au_student u of None \<Rightarrow> []
     | Some c \<Rightarrow> sort_key (\<lambda>s. - se_date s) (filter se_active (sk_seats c)))"

definition student_public :: "auth_user \<Rightarrow> string option" where
  "student_public u = (case au_student u of None \<Rightarrow> None | Some c \<Rightarrow> or_undefined (sk_public c))"

section \<open>School context\<close>

record school_context =
  cx_school :: "ident option"
  cx_public :: "string option"
  cx_profile :: "ident option"

definition no_context :: school_context where
  "no_context = \<lparr>cx_school = None, cx_public = None, cx_profile = None\<rparr>"

definition profile_context :: "staff_profile \<Rightarrow> school_context" where
  "profile_context p = \<lparr>cx_school = Some (pf_school p), cx_public = Some (pf_public p), cx_profile = Some (pf_id p)\<rparr>"

definition seat_context :: "auth_user \<Rightarrow> student_seat list \<Rightarrow> school_context" where
  "seat_context u seats = (case seats of [] \<Rightarrow> no_context
     | s # _ \<Rightarrow> \<lparr>cx_school = Some (se_school s), cx_public = student_public u, cx_profile = None\<rparr>)"

text \<open>The context by the role alone: the first profile, or the newest active enrollment.\<close>

definition role_context :: "auth_user \<Rightarrow> school_context" where
  "role_context u = (case au_role u of
     ROLE_STUDENT \<Rightarrow> seat_context u (active_seats u)
   | ROLE_SCHOOL_ADMIN \<Rightarrow> (case au_admins u of [] \<Rightarrow> no_context | p # _ \<Rightarrow> profile_context p)
   | ROLE_TEACHER \<Rightarrow> (case au_teachers u of [] \<Rightarrow> no_context | p # _ \<Rightarrow> profile_context p)
   | ROLE_SUPER_ADMIN \<Rightarrow> no_context)"

text \<open>The school of the portal must be one of the user's; \<open>seats\<close> are the enrollments the caller loaded.\<close>

definition apply_portal_school_hint ::
  "auth_user \<Rightarrow> student_seat list \<Rightarrow> school_context \<Rightarrow> ident option \<Rightarrow> http_error + school_context" where
  "apply_portal_school_hint u seats current portal =
     (if \<not> truthy portal then Inr current
      else case au_role u of
        ROLE_SUPER_ADMIN \<Rightarrow> Inl (BadRequest ''Use the main Myschoolbud login for this account.'')
      | ROLE_SCHOOL_ADMIN \<Rightarrow>
          (case find (\<lambda>p. Some (pf_school p) = portal) (au_admins u) of
             None \<Rightarrow> Inl (Unauthorized ''This account belongs to another school.'')
           | Some p \<Rightarrow> Inr (profile_context p))
      | ROLE_TEACHER \<Rightarrow>
          (case find (\<lambda>p. Some (pf_school p) = portal) (au_teachers u) of
             None \<Rightarrow> Inl (Unauthorized ''This account belongs to another school.'')
           | Some p \<Rightarrow> Inr (profile_context p))
      | ROLE_STUDENT \<Rightarrow>
          (case find (\<lambda>s. Some (se_school s) = portal) seats of
             None \<Rightarrow> Inl (Unauthorized ''This account belongs to another school.'')
           | Some s \<Rightarrow> Inr \<lparr>cx_school = Some (se_school s), cx_public = student_public u, cx_profile = cx_profile current\<rparr>))"

section \<open>Credentials\<close>

definition is_email :: "string \<Rightarrow> bool" where
  "is_email s = (CHR ''@'' \<in> set s)"

definition admin_with_public :: "string \<Rightarrow> auth_db \<Rightarrow> (auth_user \<times> staff_profile) option" where
  "admin_with_public i db = find (\<lambda>(u, p). pf_public p = i) (concat (map (\<lambda>u. map (Pair u) (au_admins u)) (ad_users db)))"

definition teacher_with_public :: "string \<Rightarrow> auth_db \<Rightarrow> (auth_user \<times> staff_profile) option" where
  "teacher_with_public i db = find (\<lambda>(u, p). pf_public p = i) (concat (map (\<lambda>u. map (Pair u) (au_teachers u)) (ad_users db)))"

definition student_with_public :: "string \<Rightarrow> auth_db \<Rightarrow> auth_user option" where
  "student_with_public i db = find (\<lambda>u. case au_student u of None \<Rightarrow> False | Some c \<Rightarrow> sk_public c = Some i) (ad_users db)"

text \<open>The user of an identifier, the context of it, and the enrollments loaded with the user.\<close>

definition lookup_login :: "string \<Rightarrow> auth_db \<Rightarrow> (auth_user \<times> school_context \<times> student_seat list) option" where
  "lookup_login i db =
     (if is_email i then map_option (\<lambda>u. (u, role_context u, active_seats u)) (user_by_email i db)
      else
        let admin = admin_with_public i db; teacher = teacher_with_public i db;
            user = (case student_with_public i db of Some u \<Rightarrow> Some u
              | None \<Rightarrow> (case admin of Some (u, _) \<Rightarrow> Some u | None \<Rightarrow> map_option fst teacher))
        in map_option (\<lambda>u. (u,
             (case admin of Some (_, p) \<Rightarrow> profile_context p
              | None \<Rightarrow> (case teacher of Some (_, p) \<Rightarrow> profile_context p
                | None \<Rightarrow> if au_role u = ROLE_STUDENT then seat_context u (take 1 (active_seats u)) else no_context)),
             take 1 (active_seats u))) user)"

definition school_admits :: "ident option \<Rightarrow> auth_db \<Rightarrow> http_error + unit" where
  "school_admits school db =
     (if \<not> truthy school then Inr ()
      else case find_school (the school) (ad_schools db) of
        None \<Rightarrow> Inr ()
      | Some s \<Rightarrow>
          (case sl_registration s of
             REG_UNAPPROVED \<Rightarrow> Inl (Unauthorized ''Your school registration is unapproved and under review. Please wait for verification.'')
           | REG_REJECTED \<Rightarrow> Inl (Unauthorized ''Your school registration was rejected. Please contact support for more information.'')
           | REG_VERIFIED \<Rightarrow> Inr ()))"

definition validate_credentials ::
  "(string \<Rightarrow> string \<Rightarrow> bool) \<Rightarrow> string \<Rightarrow> string \<Rightarrow> ident option \<Rightarrow> auth_db \<Rightarrow> http_error + auth_user \<times> school_context" where
  "validate_credentials compare i password portal db =
     (case lookup_login i db of
        None \<Rightarrow> Inl (Unauthorized ''Invalid credentials'')
      | Some (u, current, seats) \<Rightarrow>
          if \<not> truthy (au_hash u) then Inl (Unauthorized ''Invalid credentials'')
          else (case apply_portal_school_hint u seats current portal of
            Inl e \<Rightarrow> Inl e
          | Inr cx \<Rightarrow>
              (case school_admits (cx_school cx) db of
                 Inl e \<Rightarrow> Inl e
               | Inr _ \<Rightarrow>
                   if au_status u = ACCOUNT_SHADOW then
                     Inl (Unauthorized ''Account not activated. Please verify your OTP to claim your account.'')
                   else if \<not> compare password (the (au_hash u)) then Inl (Unauthorized ''Invalid credentials'')
                   else Inr (u, cx))))"

section \<open>Login\<close>

text \<open>Everything but a BadRequest of the code service becomes one.\<close>

definition otp_failure :: "http_error \<Rightarrow> http_error" where
  "otp_failure e = (let text = (\<lambda>m. ''Failed to send OTP: '' @ m @
       ''. Please ensure the database is properly migrated and email service is configured.'')
     in case e of BadRequest m \<Rightarrow> e | NotFound m \<Rightarrow> BadRequest (text m) | Forbidden m \<Rightarrow> BadRequest (text m)
        | Conflict m \<Rightarrow> BadRequest (text m) | Unauthorized m \<Rightarrow> BadRequest (text m)
        | TooManyRequests m \<Rightarrow> BadRequest (text m) | JsError m \<Rightarrow> BadRequest (text m))"

definition op_catch :: "(http_error \<Rightarrow> http_error) \<Rightarrow> ('s, 'a) op \<Rightarrow> ('s, 'a) op" where
  "op_catch f m = (\<lambda>s. case m s of (Inl e, s') \<Rightarrow> (Inl (f e), s') | (Inr x, s') \<Rightarrow> (Inr x, s'))"

definition login ::
  "(string \<Rightarrow> string \<Rightarrow> bool) \<Rightarrow> date \<Rightarrow> otp_draw \<Rightarrow> bool \<Rightarrow> string \<Rightarrow> string \<Rightarrow> ident option \<Rightarrow> (string \<times> string) auth_op" where
  "login compare now draw mail_ok i password portal =
     op_bind (op_lift (validate_credentials compare i password portal)) (\<lambda>(u, _).
     op_then (op_require (truthy (au_email u)) (BadRequest ''Email address is required for login. Please contact support.'')) (
     op_bind (op_catch otp_failure (on_logins (create_login_session now draw mail_ok (au_id u) (the (au_email u))))) (\<lambda>session.
     op_ret (session, the (au_email u)))))"

section \<open>Tokens\<close>

record jwt_payload =
  jp_sub :: ident
  jp_role :: user_role
  jp_school :: "ident option"
  jp_public :: "string option"
  jp_profile :: "ident option"
  jp_context :: "string option"
  jp_changed :: "int option"

definition seconds :: "date \<Rightarrow> int" where
  "seconds d = d div 1000"

definition generate_tokens :: "auth_user \<Rightarrow> school_context \<Rightarrow> string option \<Rightarrow> auth_db \<Rightarrow> jwt_payload" where
  "generate_tokens u cx context_role db =
     \<lparr>jp_sub = au_id u, jp_role = au_role u, jp_school = or_undefined (cx_school cx), jp_public = or_undefined (cx_public cx),
      jp_profile = or_undefined (cx_profile cx), jp_context = or_undefined context_role,
      jp_changed = (case find_user (au_id u) db of None \<Rightarrow> None | Some v \<Rightarrow> map_option seconds (au_changed v))\<rparr>"

definition session_expired :: "auth_user \<Rightarrow> jwt_payload \<Rightarrow> bool" where
  "session_expired u p = (case (au_changed u, jp_changed p) of (Some c, Some i) \<Rightarrow> i < seconds c | _ \<Rightarrow> False)"

text \<open>\<open>JwtStrategy.validate\<close>: every authenticated request.\<close>

definition jwt_validate :: "jwt_payload \<Rightarrow> auth_db \<Rightarrow> http_error + auth_user \<times> school_context" where
  "jwt_validate p db =
     (case find_user (jp_sub p) db of
        None \<Rightarrow> Inl (Unauthorized ''Unauthorized'')
      | Some u \<Rightarrow>
          if session_expired u p then Inl (Unauthorized ''Session expired. Please log in again.'')
          else Inr (u, \<lparr>cx_school = jp_school p, cx_public = jp_public p, cx_profile = jp_profile p\<rparr>))"

definition refresh_token :: "jwt_payload option \<Rightarrow> auth_db \<Rightarrow> http_error + jwt_payload" where
  "refresh_token verified db =
     (case verified of
        None \<Rightarrow> Inl (Unauthorized ''Invalid or expired refresh token'')
      | Some p \<Rightarrow>
          (case find_user (jp_sub p) db of
             None \<Rightarrow> Inl (Unauthorized ''User not found'')
           | Some u \<Rightarrow>
               if session_expired u p then Inl (Unauthorized ''Session expired. Please log in again.'')
               else if au_status u \<noteq> ACCOUNT_ACTIVE \<and> au_status u \<noteq> ACCOUNT_SHADOW then
                 Inl (Unauthorized ''Account is not active'')
               else Inr \<lparr>jp_sub = au_id u, jp_role = au_role u, jp_school = or_undefined (jp_school p),
                 jp_public = or_undefined (jp_public p), jp_profile = or_undefined (jp_profile p),
                 jp_context = or_undefined (jp_context p), jp_changed = map_option seconds (au_changed u)\<rparr>))"

definition admin_role_of :: "auth_user \<Rightarrow> ident option \<Rightarrow> string option" where
  "admin_role_of u profile =
     (if au_role u = ROLE_SCHOOL_ADMIN \<and> truthy profile then
        (case find (\<lambda>p. Some (pf_id p) = profile) (au_admins u) of None \<Rightarrow> None | Some p \<Rightarrow> or_undefined (pf_role p))
      else None)"

text \<open>
  The second step of a login, up to the token. Without a profile in the context the role of an admin
  is the one of his first profile, which is then the context's, so \<open>admin_role_of\<close> gives it too.
\<close>

definition verify_login_otp :: "date \<Rightarrow> string \<Rightarrow> string \<Rightarrow> ident option \<Rightarrow> jwt_payload auth_op" where
  "verify_login_otp now session code portal =
     op_bind (on_logins (verify_otp now session code)) (\<lambda>user.
     op_bind (op_get (find_user user)) (\<lambda>found.
     case found of
       None \<Rightarrow> op_throw (Unauthorized ''User not found'')
     | Some u \<Rightarrow>
         op_then (op_modify (update_user (au_id u) (\<lambda>v. v\<lparr>au_login := Some now\<rparr>))) (
         op_bind (op_lift (\<lambda>_. apply_portal_school_hint u (active_seats u) (role_context u) portal)) (\<lambda>cx.
         op_get (generate_tokens u cx (admin_role_of u (cx_profile cx)))))))"

definition exchange_portal_code ::
  "(string \<Rightarrow> string) \<Rightarrow> date \<Rightarrow> string \<Rightarrow> string option \<Rightarrow> jwt_payload auth_op" where
  "exchange_portal_code sha now raw agent =
     op_bind (on_transfers (consume_transfer_code sha now raw agent)) (\<lambda>(user, school).
     op_bind (op_get (find_user user)) (\<lambda>found.
     case found of
       None \<Rightarrow> op_throw (Unauthorized ''User not found'')
     | Some u \<Rightarrow>
         op_bind (op_lift (\<lambda>_. apply_portal_school_hint u (active_seats u) \<lparr>cx_school = Some school, cx_public = None, cx_profile = None\<rparr> (Some school))) (\<lambda>cx.
         op_get (generate_tokens u cx (admin_role_of u (cx_profile cx))))))"

definition all_seats :: "auth_user \<Rightarrow> student_seat list" where
  "all_seats u = (case au_student u of None \<Rightarrow> [] | Some c \<Rightarrow> sk_seats c)"

definition may_switch_to :: "auth_user \<Rightarrow> ident \<Rightarrow> auth_db \<Rightarrow> http_error + unit" where
  "may_switch_to u target db = (case au_role u of
     ROLE_STUDENT \<Rightarrow>
       if \<not> list_ex (\<lambda>s. se_school s = target \<and> se_active s) (all_seats u) then Inl (Forbidden ''You are not enrolled at that school.'')
       else (case find_school target (ad_schools db) of
         None \<Rightarrow> Inl (Forbidden ''That school is not available.'')
       | Some s \<Rightarrow> if \<not> sl_active s \<or> sl_status s = SCHOOL_DEACTIVATED then Inl (Forbidden ''That school is not available.'') else Inr ())
   | ROLE_TEACHER \<Rightarrow> if list_ex (\<lambda>p. pf_school p = target) (au_teachers u) then Inr () else Inl (Forbidden ''You do not belong to that school.'')
   | ROLE_SCHOOL_ADMIN \<Rightarrow> if list_ex (\<lambda>p. pf_school p = target) (au_admins u) then Inr () else Inl (Forbidden ''You do not belong to that school.'')
   | ROLE_SUPER_ADMIN \<Rightarrow> Inl (Forbidden ''Cannot switch school for this account.''))"

definition switch_school_context :: "ident \<Rightarrow> ident \<Rightarrow> auth_db \<Rightarrow> http_error + jwt_payload" where
  "switch_school_context user target db =
     (case find_user user db of
        None \<Rightarrow> Inl (Unauthorized ''User not found'')
      | Some u \<Rightarrow>
          (case may_switch_to u target db of
             Inl e \<Rightarrow> Inl e
           | Inr _ \<Rightarrow>
               (case apply_portal_school_hint u (all_seats u) \<lparr>cx_school = Some target, cx_public = None, cx_profile = None\<rparr> (Some target) of
                  Inl e \<Rightarrow> Inl e
                | Inr cx \<Rightarrow> Inr (generate_tokens u cx (admin_role_of u (cx_profile cx)) db))))"

end
