(* ===== verification/Passwords.thy ===== *)
theory Passwords
  imports Auth "HOL-Library.Word"
begin

text \<open>
  Passwords of \<open>src/src/auth/auth.service.ts\<close>: the policy of the schools, change and reset by an
  e-mailed code, set-up and reset links, and the check of an uploaded image, with the generator of
  \<open>src/src/common/utils/password.utils.ts\<close>. The policy of a school is read through a function that
  gives None when reading it throws.
\<close>

section \<open>Policy\<close>

text \<open>The schools of a user, as a set; the order in which policies are read does not matter.\<close>

definition schools_of_user :: "auth_user \<Rightarrow> ident list" where
  "schools_of_user u = uniq (map pf_school (au_admins u) @ map pf_school (au_teachers u)
     @ map se_school (filter se_active (all_seats u)))"

definition is_alphanumeric :: "char \<Rightarrow> bool" where
  "is_alphanumeric c = (is_upper_char c \<or> is_lower_char c \<or> is_digit_char c)"

definition read_policy :: "(ident \<Rightarrow> (int \<times> bool) option) \<Rightarrow> ident \<Rightarrow> int \<times> bool \<Rightarrow> int \<times> bool" where
  "read_policy policy school = (\<lambda>(len, special). case policy school of
     None \<Rightarrow> (len, special) | Some (l, s) \<Rightarrow> (max len l, special \<or> s))"

definition assert_password_policy ::
  "(ident \<Rightarrow> (int \<times> bool) option) \<Rightarrow> ident \<Rightarrow> string \<Rightarrow> auth_db \<Rightarrow> http_error + unit" where
  "assert_password_policy policy user password db =
     (let schools = (case find_user user db of None \<Rightarrow> [] | Some u \<Rightarrow> schools_of_user u)
      in if schools = [] then Inr ()
         else let (min_length, special) = fold (read_policy policy) schools (8, False)
           in if int (length password) < min_length then
                Inl (BadRequest (''Password must be at least '' @ show_int min_length @ '' characters long.''))
              else if special \<and> list_all is_alphanumeric password then
                Inl (BadRequest ''Password must contain at least one special character.'')
              else Inr ())"

section \<open>Setting a password\<close>

datatype password_kind = BY_CHANGE | BY_RESET

definition set_password :: "date \<Rightarrow> string \<Rightarrow> password_kind \<Rightarrow> auth_user \<Rightarrow> auth_user" where
  "set_password now h kind u = u\<lparr>au_hash := Some h, au_changed := Some now,
     au_status := (case kind of BY_RESET \<Rightarrow> ACCOUNT_ACTIVE | BY_CHANGE \<Rightarrow> au_status u)\<rparr>"

text \<open>An update of a row that is gone throws.\<close>

definition apply_password_update :: "date \<Rightarrow> ident \<Rightarrow> string \<Rightarrow> password_kind \<Rightarrow> unit auth_op" where
  "apply_password_update now user h kind =
     op_bind (op_get (find_user user)) (\<lambda>found.
     op_then (op_require (found \<noteq> None) (JsError ''Record to update not found.''))
       (op_modify (update_user user (set_password now h kind))))"

definition request_change_password ::
  "(string \<Rightarrow> string \<Rightarrow> bool) \<Rightarrow> date \<Rightarrow> otp_draw \<Rightarrow> bool \<Rightarrow> ident \<Rightarrow> string \<Rightarrow> string auth_op" where
  "request_change_password compare now draw mail_ok user current =
     op_bind (op_get (find_user user)) (\<lambda>found.
     case found of
       None \<Rightarrow> op_throw (NotFound ''User not found'')
     | Some u \<Rightarrow>
         op_then (op_require (truthy (au_email u)) (BadRequest ''User has no email address'')) (
         op_then (op_require (truthy (au_hash u)) (BadRequest ''User does not have a password set. Use password reset instead.'')) (
         op_then (op_require (compare (trim current) (the (au_hash u))) (Unauthorized ''Current password is incorrect'')) (
         op_bind (on_codes (create_password_otp now draw CHANGE_PASSWORD (the (au_email u)) (Some user))) (\<lambda>(session, code).
         if mail_ok then op_ret session else op_throw (JsError ''mail''))))))"

definition confirm_change_password ::
  "(string \<Rightarrow> string) \<Rightarrow> (ident \<Rightarrow> (int \<times> bool) option) \<Rightarrow> date \<Rightarrow> string \<Rightarrow> string \<Rightarrow> string \<Rightarrow> unit auth_op" where
  "confirm_change_password hash policy now session code password =
     op_bind (on_codes (verify_change_password now session code)) (\<lambda>(user, email).
     op_bind (op_lift (assert_password_policy policy user (trim password))) (\<lambda>_.
     apply_password_update now user (hash (trim password)) BY_CHANGE))"

text \<open>The identifier of a reset: an e-mail in lower case, or the public id of a profile.\<close>

definition find_user_for_reset :: "string \<Rightarrow> auth_db \<Rightarrow> auth_user option" where
  "find_user_for_reset i db =
     (if is_email i then user_by_email (to_lower i) db
      else case admin_with_public i db of
        Some (u, _) \<Rightarrow> Some u
      | None \<Rightarrow> (case teacher_with_public i db of Some (u, _) \<Rightarrow> Some u | None \<Rightarrow> student_with_public i db))"

definition reset_identifier :: "string option \<Rightarrow> string option \<Rightarrow> string" where
  "reset_identifier i email = trim (nullish (or_undefined i) (nullish email []))"

definition reset_school :: "auth_user \<Rightarrow> ident option" where
  "reset_school u = cx_school (role_context u)"

text \<open>Silent when nobody is found, the school is not verified, or the e-mail fails.\<close>

definition request_password_reset :: "date \<Rightarrow> otp_draw \<Rightarrow> string option \<Rightarrow> string option \<Rightarrow> unit auth_op" where
  "request_password_reset now draw i email =
     op_bind (op_get (find_user_for_reset (reset_identifier i email))) (\<lambda>found.
     case found of
       None \<Rightarrow> op_ret ()
     | Some u \<Rightarrow>
         if reset_identifier i email = [] \<or> \<not> truthy (au_email u) then op_ret ()
         else op_bind (op_get (school_admits (reset_school u))) (\<lambda>admitted.
           if isl admitted then op_ret ()
           else op_bind (on_codes (create_password_otp now draw RESET_PASSWORD (the (au_email u)) (Some (au_id u)))) (\<lambda>_. op_ret ())))"

definition verify_reset_password_with_otp ::
  "(string \<Rightarrow> string) \<Rightarrow> (ident \<Rightarrow> (int \<times> bool) option) \<Rightarrow> date \<Rightarrow> string option \<Rightarrow> string option \<Rightarrow> string \<Rightarrow> string \<Rightarrow> unit auth_op" where
  "verify_reset_password_with_otp hash policy now i email code password =
     op_then (op_require (reset_identifier i email \<noteq> []) (BadRequest ''Invalid or expired verification. Please request a new code.'')) (
     op_bind (op_get (find_user_for_reset (reset_identifier i email))) (\<lambda>found.
     op_then (op_require (truthy (Option.bind found au_email)) (BadRequest ''Invalid or expired verification. Please request a new code.'')) (
     op_bind (op_get (\<lambda>db e. map_option au_id (user_by_email e db))) (\<lambda>users.
     op_bind (on_codes (verify_reset_password now users (the (Option.bind found au_email)) code)) (\<lambda>(user, mail).
     op_bind (op_lift (assert_password_policy policy user (trim password))) (\<lambda>_.
     apply_password_update now user (hash (trim password)) BY_RESET))))))"

definition change_password ::
  "(string \<Rightarrow> string \<Rightarrow> bool) \<Rightarrow> (string \<Rightarrow> string) \<Rightarrow> (ident \<Rightarrow> (int \<times> bool) option) \<Rightarrow> date \<Rightarrow> ident \<Rightarrow> string \<Rightarrow> string \<Rightarrow> unit auth_op" where
  "change_password compare hash policy now user current new =
     op_then (op_require (trim current \<noteq> trim new) (BadRequest ''New password must be different from current password'')) (
     op_bind (op_lift (assert_password_policy policy user (trim new))) (\<lambda>_.
     op_bind (op_get (find_user user)) (\<lambda>found.
     case found of
       None \<Rightarrow> op_throw (NotFound ''User not found'')
     | Some u \<Rightarrow>
         op_then (op_require (truthy (au_hash u)) (BadRequest ''User does not have a password set. Use password reset instead.'')) (
         op_then (op_require (compare (trim current) (the (au_hash u))) (Unauthorized ''Current password is incorrect''))
           (apply_password_update now user (hash (trim new)) BY_CHANGE)))))"

section \<open>Set-up and reset links\<close>

definition CLOCK_SKEW_MS :: int where
  "CLOCK_SKEW_MS = 2 * 60 * 1000"

datatype token_verdict = TOKEN_VALID | TOKEN_INVALID | TOKEN_USED | TOKEN_EXPIRED

definition find_token :: "string \<Rightarrow> auth_db \<Rightarrow> reset_token option" where
  "find_token token db = find (\<lambda>t. rt_token t = token) (ad_tokens db)"

definition validate_reset_token :: "date \<Rightarrow> string \<Rightarrow> auth_db \<Rightarrow> token_verdict" where
  "validate_reset_token now token db =
     (if trim token = [] then TOKEN_INVALID
      else case find_token (trim token) db of
        None \<Rightarrow> TOKEN_INVALID
      | Some t \<Rightarrow> if rt_used t \<noteq> None then TOKEN_USED
          else if rt_expires t < now - CLOCK_SKEW_MS then TOKEN_EXPIRED else TOKEN_VALID)"

text \<open>The last two writes are one transaction.\<close>

definition reset_password ::
  "(string \<Rightarrow> string) \<Rightarrow> (ident \<Rightarrow> (int \<times> bool) option) \<Rightarrow> date \<Rightarrow> string \<Rightarrow> string \<Rightarrow> unit auth_op" where
  "reset_password hash policy now token password =
     op_bind (op_get (find_token token)) (\<lambda>found.
     case found of
       None \<Rightarrow> op_throw (BadRequest ''Invalid or expired reset token'')
     | Some t \<Rightarrow>
         op_then (op_require (rt_used t = None) (BadRequest ''Reset token has already been used'')) (
         op_then (op_require (\<not> rt_expires t < now - CLOCK_SKEW_MS)
           (BadRequest ''Reset token has expired. Please request a new password reset link.'')) (
         op_bind (op_lift (assert_password_policy policy (rt_user t) password)) (\<lambda>_.
         op_then (apply_password_update now (rt_user t) (hash password) BY_RESET)
           (op_modify (\<lambda>db. db\<lparr>ad_tokens := update_first (\<lambda>r. rt_token r = token) (\<lambda>r. r\<lparr>rt_used := Some now\<rparr>) (ad_tokens db)\<rparr>))))))"

definition TOKEN_TTL_MS :: int where
  "TOKEN_TTL_MS = 24 * 60 * 60 * 1000"

text \<open>The unused tokens of the user are spent, then one is added; \<open>token\<close> is 32 random bytes.\<close>

definition issue_reset_token :: "date \<Rightarrow> string \<Rightarrow> ident \<Rightarrow> unit auth_op" where
  "issue_reset_token now token user =
     op_then (op_modify (\<lambda>db. db\<lparr>ad_tokens := update_where (\<lambda>t. rt_user t = user \<and> rt_used t = None) (\<lambda>t. t\<lparr>rt_used := Some now\<rparr>) (ad_tokens db)\<rparr>)) (
     op_bind (op_get (\<lambda>db. list_ex (\<lambda>t. rt_token t = token) (ad_tokens db))) (\<lambda>taken.
     op_then (op_require (\<not> taken) (JsError ''Unique constraint failed''))
       (op_modify (\<lambda>db. db\<lparr>ad_tokens := ad_tokens db @
         [\<lparr>rt_token = token, rt_user = user, rt_expires = now + TOKEN_TTL_MS, rt_used = None, rt_created = now\<rparr>]\<rparr>))))"

definition send_password_reset_for_new_user :: "date \<Rightarrow> string \<Rightarrow> ident \<Rightarrow> unit auth_op" where
  "send_password_reset_for_new_user = issue_reset_token"

definition resend_password_reset_email :: "date \<Rightarrow> string \<Rightarrow> bool \<Rightarrow> ident \<Rightarrow> unit auth_op" where
  "resend_password_reset_email now token mail_ok user =
     op_bind (op_get (find_user user)) (\<lambda>found.
     case found of
       None \<Rightarrow> op_throw (NotFound ''User not found'')
     | Some u \<Rightarrow>
         op_then (op_require (truthy (au_email u)) (BadRequest ''User does not have an email address'')) (
         op_then (issue_reset_token now token user)
           (if mail_ok then op_ret () else op_throw (JsError ''mail''))))"

definition resend_password_reset_by_token :: "date \<Rightarrow> string \<Rightarrow> bool \<Rightarrow> string \<Rightarrow> unit auth_op" where
  "resend_password_reset_by_token now new_token mail_ok token =
     op_bind (op_get (find_token token)) (\<lambda>found.
     case found of
       None \<Rightarrow> op_ret ()
     | Some t \<Rightarrow>
         if rt_created t < now - 7 * 24 * 60 * 60 * 1000 then op_ret ()
         else resend_password_reset_email now new_token mail_ok (rt_user t))"

section \<open>Uploaded images\<close>

type_synonym byte = "8 word"

definition image_signatures :: "string \<Rightarrow> byte list list" where
  "image_signatures mime =
     (if mime = ''image/jpeg'' \<or> mime = ''image/jpg'' then [[0xff, 0xd8, 0xff]]
      else if mime = ''image/png'' then [[0x89, 0x50, 0x4e, 0x47, 0x0d, 0x0a, 0x1a, 0x0a]]
      else if mime = ''image/gif'' then [[0x47, 0x49, 0x46, 0x38, 0x37, 0x61], [0x47, 0x49, 0x46, 0x38, 0x39, 0x61]]
      else if mime = ''image/webp'' then [[0x52, 0x49, 0x46, 0x46]]
      else [])"

text \<open>A byte beyond the buffer is undefined and differs from every byte of a signature.\<close>

fun matches_signature :: "byte list \<Rightarrow> byte list \<Rightarrow> bool" where
  "matches_signature [] buffer = True"
| "matches_signature (b # bs) [] = False"
| "matches_signature (b # bs) (c # cs) = (c = b \<and> matches_signature bs cs)"

text \<open>\<open>toString('ascii')\<close> drops the top bit of each byte.\<close>

definition webp_tag :: "byte list" where
  "webp_tag = [0x57, 0x45, 0x42, 0x50]"

definition validate_image_file :: "byte list \<Rightarrow> string \<Rightarrow> bool" where
  "validate_image_file buffer mime =
     (if length buffer < 4 then False
      else if image_signatures mime = [] then False
      else if list_ex (\<lambda>s. matches_signature s buffer) (image_signatures mime) then True
      else if mime = ''image/webp'' then
        12 \<le> length buffer \<and> map (\<lambda>b. and b 0x7f) (take 4 (drop 8 buffer)) = webp_tag
      else False)"

definition upload_guard :: "ident \<Rightarrow> (string \<times> int \<times> byte list) option \<Rightarrow> auth_db \<Rightarrow> http_error + unit" where
  "upload_guard user file db =
     (case find_user user db of
        None \<Rightarrow> Inl (NotFound ''User not found'')
      | Some u \<Rightarrow>
          if au_role u \<noteq> ROLE_SUPER_ADMIN then Inl (Forbidden ''Access denied. SUPER_ADMIN role required.'')
          else case file of
            None \<Rightarrow> Inl (BadRequest ''No file provided'')
          | Some (mime, octets, buffer) \<Rightarrow>
              if mime \<notin> {''image/jpeg'', ''image/jpg'', ''image/png'', ''image/gif'', ''image/webp''} then
                Inl (BadRequest ''Invalid file type. Only JPEG, PNG, GIF, and WebP images are allowed'')
              else if 5 * 1024 * 1024 < octets then Inl (BadRequest ''File size exceeds maximum limit of 5MB'')
              else if \<not> validate_image_file buffer mime then
                Inl (BadRequest ''File is not a valid image. Malicious files are not allowed.'')
              else Inr ())"

section \<open>Generated passwords\<close>

definition pw_uppercase :: string where "pw_uppercase = ''ABCDEFGHJKLMNPQRSTUVWXYZ''"
definition pw_lowercase :: string where "pw_lowercase = ''abcdefghjkmnpqrstuvwxyz''"
definition pw_numbers :: string where "pw_numbers = ''23456789''"
definition pw_special :: string where "pw_special = ''!@#$%^&*''"

definition pick :: "string \<Rightarrow> byte \<Rightarrow> char" where
  "pick chars b = chars ! (unat b mod length chars)"

text \<open>The Fisher-Yates loop, from the last index down to 1.\<close>

fun shuffle_bytes :: "byte list \<Rightarrow> nat \<Rightarrow> 'a list \<Rightarrow> 'a list" where
  "shuffle_bytes bytes 0 xs = xs"
| "shuffle_bytes bytes (Suc i) xs =
     shuffle_bytes bytes i (swap_at (Suc i) (unat (bytes ! (Suc i mod length bytes)) mod (Suc i + 1)) xs)"

text \<open>\<open>bytes\<close> are the random bytes, one per character; no caller asks for fewer than four (None).\<close>

definition generate_secure_password :: "byte list \<Rightarrow> string option" where
  "generate_secure_password bytes =
     (if length bytes < 4 then None
      else let all_chars = pw_uppercase @ pw_lowercase @ pw_numbers @ pw_special;
             password = [pick pw_uppercase (bytes ! 0), pick pw_lowercase (bytes ! 1), pick pw_numbers (bytes ! 2),
               pick pw_special (bytes ! 3)] @ map (pick all_chars) (drop 4 bytes)
           in Some (shuffle_bytes bytes (length password - 1) password))"

end
