(* ===== verification/AuthProperties.thy ===== *)
theory AuthProperties
  imports OneTimeFacts Passwords
begin

text \<open>
  What the sign-in promises: the school a token is for, when tokens end, who can sign in, and who
  can reset a password by code.
\<close>

section \<open>Operations on one table\<close>

lemma op_zoom_Inr: "op_zoom get put m d = (Inr x, d') \<longleftrightarrow> (\<exists>s. m (get d) = (Inr x, s) \<and> d' = put s d)"
  by (auto simp: op_zoom_def split: prod.splits)

lemma op_catch_Inr: "op_catch f m s = (Inr x, s') \<longleftrightarrow> m s = (Inr x, s')"
  by (auto simp: op_catch_def split: prod.splits sum.splits)

lemma find_user_update:
  assumes "find_user i db = Some u" "\<And>u. au_id (f u) = au_id u"
  shows "find_user i (update_user i f db) = Some (f u)"
proof -
  have "find (\<lambda>u. au_id u = i) rows = Some u \<Longrightarrow> find (\<lambda>u. au_id u = i) (update_first (\<lambda>u. au_id u = i) f rows) = Some (f u)" for rows
    using assms(2) by (induction rows) auto
  then show ?thesis using assms(1) by (simp add: find_user_def update_user_def)
qed

lemma find_user_id: "find_user i db = Some u \<Longrightarrow> au_id u = i"
  by (auto simp: find_user_def dest: find_Some_in)

section \<open>Tokens and a changed password\<close>


definition ex_profile :: "string \<Rightarrow> staff_profile" where
  "ex_profile s = \<lparr>pf_id = ''p'' @ s, pf_school = s, pf_public = ''pub-'' @ s, pf_role = None, pf_tier = None\<rparr>"

definition ex_teacher :: "account_status \<Rightarrow> string \<Rightarrow> auth_user" where
  "ex_teacher st mail = \<lparr>au_id = ''u'', au_email = Some mail, au_role = ROLE_TEACHER, au_status = st, au_hash = Some ''h'',
     au_changed = None, au_login = None, au_admins = [], au_teachers = [ex_profile ''A'', ex_profile ''B''], au_student = None\<rparr>"

definition ex_auth :: "auth_user \<Rightarrow> auth_db" where
  "ex_auth u = \<lparr>ad_users = [u], ad_schools = [], ad_logins = [], ad_codes = [], ad_tokens = [], ad_transfers = []\<rparr>"


section \<open>The school of a token\<close>

definition belongs_to :: "auth_user \<Rightarrow> ident \<Rightarrow> bool" where
  "belongs_to u school = (case au_role u of
     ROLE_SCHOOL_ADMIN \<Rightarrow> list_ex (\<lambda>p. pf_school p = school) (au_admins u)
   | ROLE_TEACHER \<Rightarrow> list_ex (\<lambda>p. pf_school p = school) (au_teachers u)
   | ROLE_STUDENT \<Rightarrow> list_ex (\<lambda>s. se_school s = school) (all_seats u)
   | ROLE_SUPER_ADMIN \<Rightarrow> False)"

lemma hint_school:
  assumes "apply_portal_school_hint u seats cur (Some school) = Inr cx" "school \<noteq> []" "set seats \<subseteq> set (all_seats u)"
  shows "cx_school cx = Some school \<and> belongs_to u school"
  using assms
  by (auto simp: apply_portal_school_hint_def belongs_to_def profile_context_def truthy_def list_ex_iff
      split: user_role.splits option.splits dest!: find_Some_in)

lemma active_seats_sub: "set (active_seats u) \<subseteq> set (all_seats u)"
  by (auto simp: active_seats_def all_seats_def split: option.splits)

lemma token_school: "jp_school (generate_tokens u cx r db) = or_undefined (cx_school cx)" "jp_sub (generate_tokens u cx r db) = au_id u"
  by (simp_all add: generate_tokens_def)

lemma find_user_frame [simp]:
  "find_user i (db\<lparr>ad_logins := s\<rparr>) = find_user i db" "find_user i (db\<lparr>ad_transfers := t\<rparr>) = find_user i db"
  "find_user i (db\<lparr>ad_codes := c\<rparr>) = find_user i db" "find_user i (db\<lparr>ad_tokens := r\<rparr>) = find_user i db"
  by (simp_all add: find_user_def)

lemma verify_login_otp_Inr:
  assumes "verify_login_otp now session code portal db = (Inr tok, db')"
  obtains user u cx ls d where "verify_otp now session code (ad_logins db) = (Inr user, ls)" "find_user user db = Some u"
    "apply_portal_school_hint u (active_seats u) (role_context u) portal = Inr cx"
    "tok = generate_tokens u cx (admin_role_of u (cx_profile cx)) d"
  using assms
  by (auto simp: verify_login_otp_def on_logins_def op_bind_Inr op_then_Inr op_zoom_Inr op_Inr_iffs split: option.splits)

lemma exchange_portal_code_Inr:
  assumes "exchange_portal_code sha now raw agent db = (Inr tok, db')"
  obtains user school u cx cs d where "consume_transfer_code sha now raw agent (ad_transfers db) = (Inr (user, school), cs)"
    "find_user user db = Some u" "apply_portal_school_hint u (active_seats u) \<lparr>cx_school = Some school, cx_public = None, cx_profile = None\<rparr> (Some school) = Inr cx"
    "tok = generate_tokens u cx (admin_role_of u (cx_profile cx)) d"
  using assms
  by (auto simp: exchange_portal_code_def on_transfers_def op_bind_Inr op_zoom_Inr op_Inr_iffs split: option.splits prod.splits)

lemma switch_Inr:
  assumes "switch_school_context user school db = Inr tok"
  obtains u cx where "find_user user db = Some u"
    "apply_portal_school_hint u (all_seats u) \<lparr>cx_school = Some school, cx_public = None, cx_profile = None\<rparr> (Some school) = Inr cx"
    "tok = generate_tokens u cx (admin_role_of u (cx_profile cx)) db"
  using assms by (auto simp: switch_school_context_def split: option.splits sum.splits)

lemma hinted_token:
  assumes "apply_portal_school_hint u seats cur (Some school) = Inr cx" "school \<noteq> []" "set seats \<subseteq> set (all_seats u)"
  shows "jp_school (generate_tokens u cx r d) = Some school \<and> belongs_to u school"
  using hint_school[OF assms] assms(2) by (simp add: token_school or_undefined_def truthy_def)



section \<open>The profile of a login by public id\<close>

lemma login_Inr:
  assumes "login compare now draw mail_ok i pw portal db = (Inr (session, mail), db')"
  obtains u cx ls where "validate_credentials compare i pw portal db = Inr (u, cx)"
    "create_login_session now draw mail_ok (au_id u) mail (ad_logins db) = (Inr session, ls)" "db' = db\<lparr>ad_logins := ls\<rparr>"
proof -
  from assms obtain u cx where v: "validate_credentials compare i pw portal db = Inr (u, cx)"
    and rest: "op_then (op_require (truthy (au_email u)) (BadRequest ''Email address is required for login. Please contact support.'')) (
     op_bind (op_catch otp_failure (on_logins (create_login_session now draw mail_ok (au_id u) (the (au_email u))))) (\<lambda>session.
     op_ret (session, the (au_email u)))) db = (Inr (session, mail), db')"
    by (auto simp: login_def op_bind_Inr op_Inr_iffs)
  from rest that[OF v] show ?thesis
    by (auto simp: op_then_Inr op_bind_Inr op_Inr_iffs op_catch_Inr on_logins_def op_zoom_Inr op_require_Inr)
qed

lemma create_login_session_mail:
  "create_login_session now draw mail_ok user email ss = (Inr k, ss') \<Longrightarrow> create_login_session now draw True user email ss = (Inr k, ss')"
  by (cases mail_ok) (auto simp: create_login_session_def op_bind_Inr op_then_Inr op_Inr_iffs)

text \<open>
  A teacher with profiles at two schools who signs in with the public id of the second one is
  checked against the second school but gets a token for the first: the second step of the login
  knows only the user.
\<close>

theorem public_id_context_dropped:
  assumes ok: "login_ok (ad_logins db)" and ids: "distinct (map au_id (ad_users db))"
    and owner: "teacher_with_public i db = Some (u, p)" "admin_with_public i db = None" "student_with_public i db = None"
    and mail_free: "\<not> is_email i"
    and teacher: "au_role u = ROLE_TEACHER" "au_teachers u = first # others" "pf_school first \<noteq> []"
    and step1: "login compare now draw mail_ok i pw None db = (Inr (session, mail), db1)"
    and step2: "verify_login_otp now' session code None db1 = (Inr tok, db2)"
  shows "(\<exists>cx. validate_credentials compare i pw None db = Inr (u, cx) \<and> cx_school cx = Some (pf_school p)) \<and>
    jp_sub tok = au_id u \<and> jp_school tok = Some (pf_school first)"
proof -
  obtain v cx ls where v: "validate_credentials compare i pw None db = Inr (v, cx)"
    and made: "create_login_session now draw mail_ok (au_id v) mail (ad_logins db) = (Inr session, ls)" and db1: "db1 = db\<lparr>ad_logins := ls\<rparr>"
    by (rule login_Inr[OF step1])
  have look: "lookup_login i db = Some (u, profile_context p, take 1 (active_seats u))"
    using owner mail_free by (simp add: lookup_login_def)
  have vu: "v = u" "cx = profile_context p"
    using v by (auto simp: validate_credentials_def look apply_portal_school_hint_def truthy_def split: if_splits sum.splits)
  have "u \<in> set (ad_users db)"
    using owner(1) by (auto simp: teacher_with_public_def dest!: find_Some_in)
  then have found: "find_user (au_id u) db = Some u" unfolding find_user_def by (rule find_by_key[OF ids])
  obtain w x wcx lv d where w: "verify_otp now' session code (ad_logins db1) = (Inr w, lv)" "find_user w db1 = Some x"
    "apply_portal_school_hint x (active_seats x) (role_context x) None = Inr wcx" "tok = generate_tokens x wcx (admin_role_of x (cx_profile wcx)) d"
    by (rule verify_login_otp_Inr[OF step2])
  have "w = au_id u"
    using created_awaiting[OF ok create_login_session_mail[OF made]] w(1) vu
    by (cases rule: verify_otp_cases[of now' session code "ad_logins db1"]) (auto simp: awaiting_def db1)
  then have "x = u" using w(2) found by (simp add: db1)
  then have "wcx = profile_context first"
    using w(3) teacher by (simp add: apply_portal_school_hint_def role_context_def)
  then have "jp_school tok = Some (pf_school first)" "jp_sub tok = au_id u"
    using w(4) teacher(3) \<open>x = u\<close> by (simp_all add: token_school profile_context_def or_undefined_def truthy_def split: list.splits)
  then show ?thesis using v vu by (simp add: profile_context_def)
qed

lemma public_id_context_dropped_witness:
  "\<exists>session mail db1 tok db2.
    login (\<lambda>_ _. True) 0 ex_draw True ''pub-B'' ''pw'' None (ex_auth (ex_teacher ACCOUNT_ACTIVE ''a@b'')) = (Inr (session, mail), db1) \<and>
    verify_login_otp 5 session ''123456'' None db1 = (Inr tok, db2) \<and> jp_school tok = Some ''A''"
proof -
  let ?db = "ex_auth (ex_teacher ACCOUNT_ACTIVE ''a@b'')"
  let ?r1 = "login (\<lambda>_ _. True) 0 ex_draw True ''pub-B'' ''pw'' None ?db"
  let ?r2 = "verify_login_otp 5 ''k'' ''123456'' None (snd ?r1)"
  have "fst ?r1 = Inr (''k'', ''a@b'')" by code_simp
  then have 1: "?r1 = (Inr (''k'', ''a@b''), snd ?r1)" by (metis prod.collapse)
  have "\<not> isl (fst ?r2)" by code_simp
  then obtain tok where 2: "?r2 = (Inr tok, snd ?r2)" by (metis prod.collapse sum.collapse(2))
  let ?u = "ex_teacher ACCOUNT_ACTIVE ''a@b''"
  have "login_ok (ad_logins ?db)" "distinct (map au_id (ad_users ?db))" by (simp_all add: ex_auth_def login_ok_def)
  moreover have "teacher_with_public ''pub-B'' ?db = Some (?u, ex_profile ''B'')"
    by (simp add: teacher_with_public_def ex_auth_def ex_teacher_def ex_profile_def)
  moreover have "admin_with_public ''pub-B'' ?db = None" "student_with_public ''pub-B'' ?db = None"
    by (simp_all add: admin_with_public_def student_with_public_def ex_auth_def ex_teacher_def)
  moreover have "\<not> is_email ''pub-B''" by code_simp
  moreover have "au_role ?u = ROLE_TEACHER" "au_teachers ?u = ex_profile ''A'' # [ex_profile ''B'']" "pf_school (ex_profile ''A'') \<noteq> []"
    by (simp_all add: ex_teacher_def ex_profile_def)
  ultimately have "jp_school tok = Some (pf_school (ex_profile ''A''))"
    using public_id_context_dropped[OF _ _ _ _ _ _ _ _ _ 1 2] by blast
  then have "jp_school tok = Some ''A''" by (simp add: ex_profile_def)
  with 1 2 show ?thesis by blast
qed

section \<open>Suspended accounts\<close>

text \<open>
  A suspended or archived account passes the first step of a login like an active one, and its
  tokens are accepted by every request; only the refresh of a token looks at the status.
\<close>

theorem suspended_account_signs_in:
  assumes found: "lookup_login i db = Some (u, cx, seats)" and status: "au_status u \<in> {ACCOUNT_SUSPENDED, ACCOUNT_ARCHIVED}"
    and hash: "truthy (au_hash u)" "compare pw (the (au_hash u))" and school: "school_admits (cx_school cx) db = Inr ()"
    and user: "find_user (au_id u) db = Some u"
  shows "validate_credentials compare i pw None db = Inr (u, cx) \<and>
    \<not> isl (jwt_validate (generate_tokens u cx role db) db) \<and>
    refresh_token (Some (generate_tokens u cx role db)) db = Inl (Unauthorized ''Account is not active'')"
proof -
  have "\<not> session_expired u (generate_tokens u cx role db)"
    using user by (simp add: session_expired_def generate_tokens_def split: option.splits)
  moreover have "validate_credentials compare i pw None db = Inr (u, cx)"
    using found status hash school by (auto simp: validate_credentials_def apply_portal_school_hint_def)
  ultimately show ?thesis
    using user status by (auto simp: jwt_validate_def refresh_token_def token_school)
qed

lemma suspended_account_signs_in_witness:
  "validate_credentials (\<lambda>_ _. True) ''a@b'' ''pw'' None (ex_auth (ex_teacher ACCOUNT_SUSPENDED ''a@b''))
    = Inr (ex_teacher ACCOUNT_SUSPENDED ''a@b'', profile_context (ex_profile ''A''))"
proof -
  have "lookup_login ''a@b'' (ex_auth (ex_teacher ACCOUNT_SUSPENDED ''a@b'')) =
      Some (ex_teacher ACCOUNT_SUSPENDED ''a@b'', profile_context (ex_profile ''A''), [])"
    by (simp add: lookup_login_def is_email_def user_by_email_def ex_auth_def ex_teacher_def role_context_def active_seats_def)
  moreover have "school_admits (cx_school (profile_context (ex_profile ''A''))) (ex_auth (ex_teacher ACCOUNT_SUSPENDED ''a@b'')) = Inr ()"
    by (simp add: school_admits_def profile_context_def ex_profile_def ex_auth_def find_school_def)
  moreover have "find_user (au_id (ex_teacher ACCOUNT_SUSPENDED ''a@b'')) (ex_auth (ex_teacher ACCOUNT_SUSPENDED ''a@b''))
      = Some (ex_teacher ACCOUNT_SUSPENDED ''a@b'')"
    by (simp add: find_user_def ex_auth_def)
  moreover have "au_status (ex_teacher ACCOUNT_SUSPENDED ''a@b'') = ACCOUNT_SUSPENDED" "au_hash (ex_teacher ACCOUNT_SUSPENDED ''a@b'') = Some ''h''"
    by (simp_all add: ex_teacher_def)
  ultimately show ?thesis by (intro conjunct1[OF suspended_account_signs_in[where role = None]]) simp_all
qed

section \<open>Resets by code\<close>

text \<open>
  A user whose stored address is not in lower case can never reset the password by code: the
  code is kept under the address in lower case, and the last look-up of the user by it finds nobody.
\<close>

theorem mixed_case_email_cannot_reset:
  assumes u: "find_user_for_reset (reset_identifier i email) db = Some u" "au_email u = Some e"
    and nobody: "user_by_email (normalized_email e) db = None"
  shows "isl (fst (verify_reset_password_with_otp hash policy now i email code pw db))"
proof -
  let ?users = "\<lambda>e. map_option au_id (user_by_email e db)"
  have "isl (fst (verify_reset_password now ?users e code (ad_codes db)))"
  proof (cases rule: verify_reset_cases[of now ?users e code "ad_codes db"])
    case (accepted p rest v)
    then have "p \<in> set (reset_candidates now e (ad_codes db))" by simp
    then have "po_email p = normalized_email e" by (simp add: reset_candidates_def)
    then show ?thesis
      using accepted(1,4) nobody by (simp add: verify_reset_unfold op_then_def op_bind_def op_require_eval)
  qed simp_all
  then obtain err cs where "verify_reset_password now ?users e code (ad_codes db) = (Inl err, cs)"
    by (metis isl_def prod.collapse)
  then have "on_codes (verify_reset_password now ?users e code) db = (Inl err, db\<lparr>ad_codes := cs\<rparr>)"
    by (simp add: on_codes_def op_zoom_def)
  then show ?thesis
    using u by (simp add: verify_reset_password_with_otp_def op_then_def op_bind_def op_require_eval op_get_def)
qed

lemma mixed_case_email_cannot_reset_witness:
  "isl (fst (verify_reset_password_with_otp id (\<lambda>_. None) 5 (Some ''pub-A'') None ''123456'' ''longenough''
    ((ex_auth (ex_teacher ACCOUNT_ACTIVE ''Ada@b''))\<lparr>ad_codes := [new_password_otp 0 ex_draw RESET_PASSWORD ''Ada@b'' (Some ''u'')]\<rparr>)))"
proof (rule mixed_case_email_cannot_reset)
  let ?db = "(ex_auth (ex_teacher ACCOUNT_ACTIVE ''Ada@b''))\<lparr>ad_codes := [new_password_otp 0 ex_draw RESET_PASSWORD ''Ada@b'' (Some ''u'')]\<rparr>"
  have "reset_identifier (Some ''pub-A'') None = ''pub-A''" by code_simp
  then show "find_user_for_reset (reset_identifier (Some ''pub-A'') None) ?db = Some (ex_teacher ACCOUNT_ACTIVE ''Ada@b'')"
    by (simp add: find_user_for_reset_def is_email_def admin_with_public_def teacher_with_public_def ex_auth_def ex_teacher_def ex_profile_def)
  show "au_email (ex_teacher ACCOUNT_ACTIVE ''Ada@b'') = Some ''Ada@b''" by (simp add: ex_teacher_def)
  have "normalized_email ''Ada@b'' = ''ada@b''" by code_simp
  then show "user_by_email (normalized_email ''Ada@b'') ?db = None" by (simp add: user_by_email_def ex_auth_def ex_teacher_def)
qed

text \<open>
  A new password that the schools' policy refuses spends the code of the change: the request
  fails, and a second one with the same code fails whatever the password.
\<close>

theorem weak_password_spends_code:
  assumes ok: "password_ok (ad_codes db)"
    and code_ok: "verify_change_password now session code (ad_codes db) = (Inr (user, mail), cs)"
    and weak: "isl (assert_password_policy policy user (trim pw) (db\<lparr>ad_codes := cs\<rparr>))"
  shows "\<exists>e db'. confirm_change_password hash policy now session code pw db = (Inl e, db') \<and> find_user i db' = find_user i db \<and>
    isl (fst (confirm_change_password hash policy now' session code pw' db'))"
proof -
  let ?db = "db\<lparr>ad_codes := cs\<rparr>"
  from weak obtain e where e: "assert_password_policy policy user (trim pw) ?db = Inl e" by (auto simp: isl_def)
  have 1: "confirm_change_password hash policy now session code pw db = (Inl e, ?db)"
    using code_ok e by (simp add: confirm_change_password_def on_codes_def op_zoom_def op_bind_def)
  obtain p where p: "p \<in> set (ad_codes db)" "po_session p = session" "cs = use_password_otp now (po_id p) (ad_codes db)"
    using code_ok by (cases rule: verify_change_cases[of now session code "ad_codes db"]) auto
  have dead: "\<not> password_live session cs" using use_password_ends[OF ok p(1)] p(2,3) by simp
  have "isl (fst (verify_change_password now' session code cs))"
  proof (cases rule: verify_change_cases[of now' session code cs])
    case (accepted q v)
    then have "password_live session cs" by (intro open_key_in) auto
    then show ?thesis using dead by simp
  qed simp_all
  then have "isl (fst (confirm_change_password hash policy now' session code pw' ?db))"
    by (auto simp: confirm_change_password_def on_codes_def op_zoom_def op_bind_def split: prod.splits sum.splits)
  then show ?thesis using 1 by auto
qed

lemma weak_password_spends_code_witness:
  "\<exists>e db'. confirm_change_password id (\<lambda>_. Some (10, True)) 5 ''k'' ''123456'' ''Short1!''
      ((ex_auth (ex_teacher ACCOUNT_ACTIVE ''a@b''))\<lparr>ad_codes := [new_password_otp 0 ex_draw CHANGE_PASSWORD ''a@b'' (Some ''u'')]\<rparr>) = (Inl e, db') \<and>
    isl (fst (confirm_change_password id (\<lambda>_. Some (10, True)) 6 ''k'' ''123456'' ''Long-enough1'' db'))"
proof -
  let ?codes = "[new_password_otp 0 ex_draw CHANGE_PASSWORD ''a@b'' (Some ''u'')]"
  let ?db = "(ex_auth (ex_teacher ACCOUNT_ACTIVE ''a@b''))\<lparr>ad_codes := ?codes\<rparr>"
  have ok: "password_ok (ad_codes ?db)" by (simp add: password_ok_def)
  have "fst (verify_change_password 5 ''k'' ''123456'' ?codes) = Inr (''u'', ''a@b'')" by code_simp
  then have run: "verify_change_password 5 ''k'' ''123456'' (ad_codes ?db) = (Inr (''u'', ''a@b''), snd (verify_change_password 5 ''k'' ''123456'' ?codes))"
    by (simp add: prod_eq_iff)
  have "isl (assert_password_policy (\<lambda>_. Some (10, True)) ''u'' (trim ''Short1!'')
      (?db\<lparr>ad_codes := snd (verify_change_password 5 ''k'' ''123456'' ?codes)\<rparr>))"
  proof -
    have "trim ''Short1!'' = ''Short1!''" by code_simp
    moreover have "find_user ''u'' (ex_auth (ex_teacher ACCOUNT_ACTIVE ''a@b'')) = Some (ex_teacher ACCOUNT_ACTIVE ''a@b'')"
      by (simp add: find_user_def ex_auth_def ex_teacher_def)
    moreover have "schools_of_user (ex_teacher ACCOUNT_ACTIVE ''a@b'') = [''A'', ''B'']" by code_simp
    ultimately show ?thesis by (simp add: assert_password_policy_def read_policy_def)
  qed
  from weak_password_spends_code[OF ok run this, where hash = id and now' = 6 and pw' = "''Long-enough1''"] show ?thesis by blast
qed

end
