(* ===== verification/PasswordProperties.thy ===== *)
theory PasswordProperties
  imports AuthProperties
begin

text \<open>
  The checks around a password: the reset link and the page that checks it, the signature of an
  uploaded image, and the generated password.
\<close>

section \<open>Reset links\<close>

lemma find_token_used:
  assumes "find_token k db = Some t"
  shows "find_token k (db\<lparr>ad_tokens := update_first (\<lambda>r. rt_token r = k) (\<lambda>r. r\<lparr>rt_used := Some now\<rparr>) (ad_tokens db)\<rparr>) = Some (t\<lparr>rt_used := Some now\<rparr>)"
proof -
  have "find (\<lambda>r. rt_token r = k) rows = Some t \<Longrightarrow>
      find (\<lambda>r. rt_token r = k) (update_first (\<lambda>r. rt_token r = k) (\<lambda>r. r\<lparr>rt_used := Some now\<rparr>) rows) = Some (t\<lparr>rt_used := Some now\<rparr>)" for rows
    by (induction rows) auto
  then show ?thesis using assms by (simp add: find_token_def)
qed

lemma find_token_update_user [simp]: "find_token k (update_user i f db) = find_token k db"
  by (simp add: find_token_def update_user_def)

lemma reset_password_run:
  assumes "find_token k db = Some t" "find_user (rt_user t) db = Some u" "assert_password_policy policy (rt_user t) pw db = Inr ()"
  shows "reset_password hash policy now k pw db = (if rt_used t = None \<and> \<not> rt_expires t < now - CLOCK_SKEW_MS
    then (Inr (), let db1 = update_user (rt_user t) (set_password now (hash pw) BY_RESET) db in
      db1\<lparr>ad_tokens := update_first (\<lambda>r. rt_token r = k) (\<lambda>r. r\<lparr>rt_used := Some now\<rparr>) (ad_tokens db1)\<rparr>)
    else (fst (reset_password hash policy now k pw db), db)) \<and>
    (isl (fst (reset_password hash policy now k pw db)) \<longleftrightarrow> \<not> (rt_used t = None \<and> \<not> rt_expires t < now - CLOCK_SKEW_MS))"
  using assms by (simp add: reset_password_def apply_password_update_def op_then_def op_bind_def op_require_eval Let_def)

text \<open>
  The page that checks a reset link agrees with the reset itself: for a password the policy
  accepts, the link is reported valid exactly when the reset succeeds, and after the reset the link is
  reported used and the account is active with the new password.
\<close>

theorem reset_link_check_agrees:
  assumes token: "trim token \<noteq> []"
    and owner: "\<And>t. find_token (trim token) db = Some t \<Longrightarrow>
      find_user (rt_user t) db \<noteq> None \<and> assert_password_policy policy (rt_user t) pw db = Inr ()"
    and run: "reset_password hash policy now (trim token) pw db = (res, db')"
  shows "(validate_reset_token now token db = TOKEN_VALID \<longleftrightarrow> res = Inr ()) \<and>
    (res = Inr () \<longrightarrow> validate_reset_token later token db' = TOKEN_USED \<and>
      (\<exists>t u. find_token (trim token) db = Some t \<and> find_user (rt_user t) db = Some u \<and>
        find_user (rt_user t) db' = Some (set_password now (hash pw) BY_RESET u)))"
proof (cases "find_token (trim token) db")
  case None
  then show ?thesis using token run by (auto simp: validate_reset_token_def reset_password_def)
next
  case (Some t)
  then obtain u where u: "find_user (rt_user t) db = Some u" and p: "assert_password_policy policy (rt_user t) pw db = Inr ()"
    using owner by auto
  let ?open = "rt_used t = None \<and> \<not> rt_expires t < now - CLOCK_SKEW_MS"
  have valid: "validate_reset_token now token db = TOKEN_VALID \<longleftrightarrow> ?open"
    using token Some by (simp add: validate_reset_token_def)
  show ?thesis
  proof (cases ?open)
    case True
    then have r: "res = Inr ()" and d: "db' = (let db1 = update_user (rt_user t) (set_password now (hash pw) BY_RESET) db in
      db1\<lparr>ad_tokens := update_first (\<lambda>r. rt_token r = trim token) (\<lambda>r. r\<lparr>rt_used := Some now\<rparr>) (ad_tokens db1)\<rparr>)"
      using reset_password_run[OF Some u p, of hash now] run by simp_all
    have "find_token (trim token) db' = Some (t\<lparr>rt_used := Some now\<rparr>)"
      unfolding d Let_def by (rule find_token_used) (simp add: Some)
    moreover have "find_user (rt_user t) db' = Some (set_password now (hash pw) BY_RESET u)"
      unfolding d Let_def using find_user_update[OF u, of "set_password now (hash pw) BY_RESET"] by (simp add: set_password_def)
    ultimately show ?thesis using valid True r Some u token by (simp add: validate_reset_token_def)
  next
    case False
    then have "isl res" using reset_password_run[OF Some u p, of hash now] run by auto
    then show ?thesis using valid False by auto
  qed
qed

definition ex_link :: reset_token where
  "ex_link = \<lparr>rt_token = ''t'', rt_user = ''u'', rt_expires = 100, rt_used = None, rt_created = 0\<rparr>"

lemma reset_link_check_agrees_witness:
  "validate_reset_token 50 ''t'' ((ex_auth (ex_teacher ACCOUNT_SHADOW ''a@b''))\<lparr>ad_tokens := [ex_link]\<rparr>) = TOKEN_VALID \<and>
   (\<exists>db'. reset_password id (\<lambda>_. None) 50 (trim ''t'') ''longenough'' ((ex_auth (ex_teacher ACCOUNT_SHADOW ''a@b''))\<lparr>ad_tokens := [ex_link]\<rparr>) = (Inr (), db') \<and>
     validate_reset_token 60 ''t'' db' = TOKEN_USED)"
proof -
  let ?db = "(ex_auth (ex_teacher ACCOUNT_SHADOW ''a@b''))\<lparr>ad_tokens := [ex_link]\<rparr>"
  have trim: "trim ''t'' = ''t''" by code_simp
  have found: "find_user ''u'' (ex_auth (ex_teacher ACCOUNT_SHADOW ''a@b'')) = Some (ex_teacher ACCOUNT_SHADOW ''a@b'')" by (simp add: find_user_def ex_auth_def ex_teacher_def)
  have "schools_of_user (ex_teacher ACCOUNT_SHADOW ''a@b'') = [''A'', ''B'']" by code_simp
  then have policy: "assert_password_policy (\<lambda>_. None) ''u'' ''longenough'' ?db = Inr ()"
    by (simp add: assert_password_policy_def found read_policy_def)
  have token: "find_token (trim ''t'') ?db = Some ex_link" by (simp add: trim find_token_def ex_link_def)
  have owner: "find_user (rt_user t) ?db \<noteq> None \<and> assert_password_policy (\<lambda>_. None) (rt_user t) ''longenough'' ?db = Inr ()"
    if "find_token (trim ''t'') ?db = Some t" for t
    using that token found policy by (simp add: ex_link_def)
  obtain res db' where run: "reset_password id (\<lambda>_. None) 50 (trim ''t'') ''longenough'' ?db = (res, db')" by (metis surj_pair)
  have valid: "validate_reset_token 50 ''t'' ?db = TOKEN_VALID"
    using token by (simp add: validate_reset_token_def trim ex_link_def CLOCK_SKEW_MS_def)
  have "trim ''t'' \<noteq> []" by (simp add: trim)
  from reset_link_check_agrees[OF this owner run, of 60] valid run show ?thesis by auto
qed

section \<open>Uploaded images\<close>

lemma matches_signature_prefix: "matches_signature s buffer \<longleftrightarrow> take (length s) buffer = s"
  by (induction s buffer rule: matches_signature.induct) auto

text \<open>
  An upload that claims to be WebP is accepted exactly when it starts with RIFF or, from the
  ninth byte, reads WEBP (top bits aside): the two checks, meant to hold both, are alternatives, so
  any RIFF file (a WAV or an AVI) passes as an image, and so does any file with WEBP in that place.
\<close>

theorem webp_check_is_either:
  "validate_image_file buffer ''image/webp'' \<longleftrightarrow>
    take 4 buffer = [0x52, 0x49, 0x46, 0x46] \<or>
    12 \<le> length buffer \<and> map (\<lambda>b. and b 0x7f) (take 4 (drop 8 buffer)) = [0x57, 0x45, 0x42, 0x50]"
proof -
  have four: "take (Suc (Suc (Suc (Suc 0)))) buffer = take 4 buffer" by (simp add: numeral_eq_Suc)
  have "4 \<le> length buffer" if "take 4 buffer = [0x52, 0x49, 0x46, 0x46]" using arg_cong[OF that, of length] by simp
  then show ?thesis
    unfolding validate_image_file_def image_signatures_def by (auto simp: matches_signature_prefix webp_tag_def four)
qed

lemma webp_check_is_either_witness:
  "validate_image_file [0x52, 0x49, 0x46, 0x46, 0, 0, 0, 0, 0x57, 0x41, 0x56, 0x45] ''image/webp'' \<and>
   validate_image_file [0, 0, 0, 0, 0, 0, 0, 0, 0x57, 0x45, 0x42, 0x50] ''image/webp'' \<and>
   \<not> validate_image_file [0x47, 0x49, 0x46, 0x38, 0x39, 0x61] ''image/webp''"
  by (simp add: webp_check_is_either)

section \<open>Generated passwords\<close>

lemma mset_shuffle_bytes: "i < length xs \<or> xs = [] \<and> i = 0 \<Longrightarrow> mset (shuffle_bytes bytes i xs) = mset xs"
proof (induction i arbitrary: xs)
  case (Suc i)
  let ?j = "unat (bytes ! (Suc i mod length bytes)) mod (Suc i + 1)"
  have "?j < Suc i + 1" by (rule mod_less_divisor) simp
  then have "mset (swap_at (Suc i) ?j xs) = mset xs" using Suc.prems by (intro mset_swap_at) linarith+
  then show ?case using Suc.IH[of "swap_at (Suc i) ?j xs"] Suc.prems by simp
qed simp

lemma pick_in: "chars \<noteq> [] \<Longrightarrow> pick chars b \<in> set chars"
  by (simp add: pick_def)

text \<open>
  A generated password has one character per random byte, only characters of the four sets, and,
  whatever the bytes and however the shuffle falls, at least one of each set; so it meets every
  policy whose least length it reaches.
\<close>

theorem generated_password_strong:
  assumes "generate_secure_password bytes = Some p"
  shows "length p = length bytes \<and> set p \<subseteq> set (pw_uppercase @ pw_lowercase @ pw_numbers @ pw_special) \<and>
    (\<forall>chars \<in> {pw_uppercase, pw_lowercase, pw_numbers, pw_special}. set p \<inter> set chars \<noteq> {})"
proof -
  let ?all = "pw_uppercase @ pw_lowercase @ pw_numbers @ pw_special"
  let ?raw = "[pick pw_uppercase (bytes ! 0), pick pw_lowercase (bytes ! 1), pick pw_numbers (bytes ! 2),
    pick pw_special (bytes ! 3)] @ map (pick ?all) (drop 4 bytes)"
  have sets: "pw_uppercase \<noteq> []" "pw_lowercase \<noteq> []" "pw_numbers \<noteq> []" "pw_special \<noteq> []"
    by (simp_all add: pw_uppercase_def pw_lowercase_def pw_numbers_def pw_special_def)
  have n: "4 \<le> length bytes" using assms by (simp add: generate_secure_password_def split: if_splits)
  have p: "p = shuffle_bytes bytes (length ?raw - 1) ?raw"
    using assms n unfolding generate_secure_password_def Let_def by simp
  have m: "mset p = mset ?raw" unfolding p by (rule mset_shuffle_bytes) simp
  have len: "length p = length bytes" using mset_eq_length[OF m] n by simp
  have set_p: "set p = set ?raw" by (rule mset_eq_setD[OF m])
  have "pick ?all b \<in> set ?all" for b by (rule pick_in) (simp add: sets)
  then have sub: "set p \<subseteq> set ?all" unfolding set_p using sets by (auto intro: pick_in)
  have "set p \<inter> set pw_uppercase \<noteq> {}" "set p \<inter> set pw_lowercase \<noteq> {}" "set p \<inter> set pw_numbers \<noteq> {}" "set p \<inter> set pw_special \<noteq> {}"
    unfolding set_p using pick_in[OF sets(1), of "bytes ! 0"] pick_in[OF sets(2), of "bytes ! 1"]
      pick_in[OF sets(3), of "bytes ! 2"] pick_in[OF sets(4), of "bytes ! 3"] by auto
  then show ?thesis using len sub by blast
qed

lemma generated_password_strong_witness:
  "(\<exists>p. generate_secure_password [200, 17, 3, 90, 255, 8] = Some p \<and> length p = 6 \<and> set p \<inter> set pw_special \<noteq> {})"
proof -
  obtain p where p: "generate_secure_password [200, 17, 3, 90, 255, 8] = Some p" by (simp add: generate_secure_password_def Let_def)
  from generated_password_strong[OF p] p show ?thesis by auto
qed

end
