(* ===== verification/SchoolTables.thy ===== *)
theory SchoolTables
  imports Sessions
begin

text \<open>
  Tables of \<open>src/prisma/schema\<close> that several components share, with the columns they use: teachers,
  subjects, the assignment of teachers to classes (\<open>ClassTeacher\<close>), students and rooms.
\<close>

record teacher_row =
  te_id :: ident
  te_code :: string
  te_user :: ident
  te_school :: ident
  te_first :: string
  te_last :: string

record subject_row =
  sj_id :: ident
  sj_school :: ident
  sj_name :: string
  sj_active :: bool

record duty_row =
  du_id :: ident
  du_class :: "ident option"
  du_arm :: "ident option"
  du_teacher :: ident
  du_subject_id :: "ident option"
  du_subject :: "string option"
  du_session :: "ident option"
  du_primary :: bool

record pupil_row =
  pu_id :: ident
  pu_user :: ident
  pu_first :: string
  pu_last :: string

record room_row =
  ro_id :: ident
  ro_school :: ident
  ro_name :: string

definition find_teacher :: "ident \<Rightarrow> teacher_row list \<Rightarrow> teacher_row option" where
  "find_teacher i rows = find (\<lambda>t. te_id t = i) rows"

definition find_subject :: "ident \<Rightarrow> subject_row list \<Rightarrow> subject_row option" where
  "find_subject i rows = find (\<lambda>s. sj_id s = i) rows"

definition find_room :: "ident \<Rightarrow> room_row list \<Rightarrow> room_row option" where
  "find_room i rows = find (\<lambda>r. ro_id r = i) rows"

text \<open>Class levels, class arms and classes by id, and the school of an arm.\<close>

definition find_class :: "ident \<Rightarrow> session_db \<Rightarrow> school_class option" where
  "find_class i db = find (\<lambda>c. sc_id c = i) (sd_classes db)"

definition find_arm :: "ident \<Rightarrow> session_db \<Rightarrow> level_arm option" where
  "find_arm i db = find (\<lambda>a. la_id a = i) (sd_arms db)"

definition find_level :: "ident \<Rightarrow> session_db \<Rightarrow> class_level_row option" where
  "find_level i db = find (\<lambda>l. lv_id l = i) (sd_levels db)"

definition level_of_arm :: "level_arm \<Rightarrow> session_db \<Rightarrow> class_level_row option" where
  "level_of_arm a db = find_level (la_level a) db"

text \<open>A term, when its session is of the school.\<close>

definition term_of_school :: "ident \<Rightarrow> ident \<Rightarrow> session_db \<Rightarrow> academic_term option" where
  "term_of_school school tid db =
     (case find_term tid db of
        None \<Rightarrow> None
      | Some t \<Rightarrow> if session_where (\<lambda>s. sn_school s = school) t db then Some t else None)"

lemma term_of_school_Some: "term_of_school school tid db = Some t \<Longrightarrow> find_term tid db = Some t"
  by (auto simp: term_of_school_def split: option.splits if_splits)

end
