(* ===== verification/Grades.thy ===== *)
theory Grades
  imports SessionTerms SchoolTables "HOL-Library.AList"
begin

text \<open>
  Grades, \<open>src/src/grades/grades.service.ts\<close>, the grade scale \<open>src/src/common/utils/grade-scale.util.ts\<close>
  and the report card of \<open>src/src/export/export.service.ts\<close>, over the session tables. Decimal
  columns and doubles are rational numbers. The grading policy of a school, which always exists
  (defaults are created on reading), is a function. A null for a column that has no null is not
  modelled; the collation of \<open>localeCompare\<close> is a parameter that gives the sort key of a name.
\<close>

section \<open>Tables\<close>

datatype grade_type = GRADE_CA | GRADE_ASSIGNMENT | GRADE_EXAM

record mark_row =
  mk_id :: ident
  mk_enrolment :: ident
  mk_teacher :: ident
  mk_term_id :: "ident option"
  mk_subject_id :: "ident option"
  mk_subject :: string
  mk_type :: grade_type
  mk_name :: "string option"
  mk_date :: "date option"
  mk_sequence :: "int option"
  mk_score :: rat
  mk_max :: rat
  mk_term :: string
  mk_year :: string
  mk_remarks :: "string option"
  mk_published :: bool
  mk_created :: date

record grade_db =
  gb_base :: session_db
  gb_teachers :: "teacher_row list"
  gb_subjects :: "subject_row list"
  gb_duties :: "duty_row list"
  gb_pupils :: "pupil_row list"
  gb_marks :: "mark_row list"

record grading_policy =
  gp_lock_days :: "int option"
  gp_approval :: bool
  gp_scale :: string
  gp_ca_weight :: rat
  gp_exam_weight :: rat

type_synonym 'a grade_op = "(grade_db, 'a) op"

definition find_mark :: "ident \<Rightarrow> grade_db \<Rightarrow> mark_row option" where
  "find_mark i db = find (\<lambda>m. mk_id m = i) (gb_marks db)"

definition find_enrolment :: "ident \<Rightarrow> grade_db \<Rightarrow> term_enrolment option" where
  "find_enrolment i db = find (\<lambda>e. en_id e = i) (sd_enrolments (gb_base db))"

section \<open>Who grades what\<close>

definition resolve_teacher_profile :: "string \<Rightarrow> grade_db \<Rightarrow> teacher_row option" where
  "resolve_teacher_profile profile db =
     (case find (\<lambda>t. te_id t = profile) (gb_teachers db) of
        Some t \<Rightarrow> Some t
      | None \<Rightarrow> find (\<lambda>t. te_code t = profile) (gb_teachers db))"

text \<open>The checks every write starts with.\<close>

definition grading_teacher :: "ident \<Rightarrow> string option \<Rightarrow> grade_db \<Rightarrow> http_error + teacher_row" where
  "grading_teacher school profile db =
     (if \<not> truthy profile then Inl (Forbidden ''Teacher profile not found'')
      else if find_school school (sd_schools (gb_base db)) = None then Inl (NotFound ''School not found'')
      else case resolve_teacher_profile (the profile) db of
        None \<Rightarrow> Inl (Forbidden ''Teacher not found in this school'')
      | Some t \<Rightarrow> if te_school t \<noteq> school then Inl (Forbidden ''Teacher not found in this school'') else Inr t)"

text \<open>
  The filter on the class of an assignment: by the class arm when there is one, else by the class,
  where a missing class selects the rows without a class. The check by subject name leaves the
  filter out when both are missing.
\<close>

type_synonym class_scope = "ident option \<Rightarrow> ident option \<Rightarrow> bool"

definition class_scope :: "ident option \<Rightarrow> ident option \<Rightarrow> class_scope" where
  "class_scope cls arm = (\<lambda>c a. if truthy arm then a = arm else c = cls)"

definition name_scope :: "ident option \<Rightarrow> ident option \<Rightarrow> class_scope" where
  "name_scope cls arm = (\<lambda>c a. if truthy arm then a = arm else if truthy cls then c = cls else True)"

definition has_duty :: "(duty_row \<Rightarrow> bool) \<Rightarrow> ident \<Rightarrow> class_scope \<Rightarrow> grade_db \<Rightarrow> bool" where
  "has_duty p teacher scope db =
     list_ex (\<lambda>d. du_teacher d = teacher \<and> scope (du_class d) (du_arm d) \<and> p d) (gb_duties db)"

definition may_grade_subject :: "ident \<Rightarrow> ident \<Rightarrow> class_scope \<Rightarrow> grade_db \<Rightarrow> bool" where
  "may_grade_subject teacher subject scope db =
     (has_duty du_primary teacher scope db \<or>
      has_duty (\<lambda>d. du_subject_id d = Some subject) teacher scope db \<or>
      list_ex (\<lambda>p. tt_teacher p = Some teacher \<and> tt_subject p = Some subject \<and> scope (tt_class p) (tt_arm p))
        (sd_periods (gb_base db)))"

definition may_grade_name :: "ident \<Rightarrow> string \<Rightarrow> class_scope \<Rightarrow> grade_db \<Rightarrow> bool" where
  "may_grade_name teacher subject scope db =
     (has_duty (\<lambda>d. du_subject d = Some subject) teacher scope db \<or> has_duty du_primary teacher scope db)"

definition subject_by_name :: "ident \<Rightarrow> string \<Rightarrow> grade_db \<Rightarrow> ident option" where
  "subject_by_name school name db =
     map_option sj_id (find (\<lambda>s. sj_school s = school \<and> to_lower (sj_name s) = to_lower name \<and> sj_active s) (gb_subjects db))"

text \<open>
  The subject of a grade, by id or by name; \<open>unnamed\<close> is what the request meets without either.
\<close>

definition graded_subject ::
  "ident \<Rightarrow> ident \<Rightarrow> class_scope \<Rightarrow> class_scope \<Rightarrow> (grade_db \<Rightarrow> http_error + unit) \<Rightarrow> ident option \<Rightarrow> string option
    \<Rightarrow> grade_db \<Rightarrow> http_error + ident option \<times> string" where
  "graded_subject school teacher scope by_name unnamed sid name db =
     (if truthy sid then
        (case find (\<lambda>s. Some (sj_id s) = sid) (gb_subjects db) of
           None \<Rightarrow> Inl (BadRequest ''Subject not found'')
         | Some s \<Rightarrow>
             if may_grade_subject teacher (sj_id s) scope db then Inr (Some (sj_id s), sj_name s)
             else Inl (Forbidden ''You are not authorized to grade this subject for this class''))
      else if truthy name then
        (if may_grade_name teacher (the name) by_name db then Inr (subject_by_name school (the name) db, the name)
         else Inl (Forbidden ''You are not assigned to teach this subject in this class''))
      else map_sum id (\<lambda>_. (None, [])) (unnamed db))"

definition session_name_of :: "academic_term \<Rightarrow> session_db \<Rightarrow> string option" where
  "session_name_of t db = map_option sn_name (find_session (tr_session t) db)"

text \<open>The name of the term and the academic year: those of the term asked for, when it exists.\<close>

definition term_and_year :: "ident option \<Rightarrow> string option \<Rightarrow> string \<Rightarrow> session_db \<Rightarrow> string option \<times> string" where
  "term_and_year tid name year db =
     (case (if truthy tid then find_term (the tid) db else None) of
        None \<Rightarrow> (name, year)
      | Some t \<Rightarrow> (Some (tr_name t), nullish (or_undefined (session_name_of t db)) year))"

definition score_error :: "rat \<Rightarrow> rat \<Rightarrow> bool" where
  "score_error score maximum = (score < 0 \<or> maximum < score)"

definition future :: "date \<Rightarrow> date option \<Rightarrow> bool" where
  "future now d = (case d of None \<Rightarrow> False | Some t \<Rightarrow> now < t)"

section \<open>Writes\<close>

text \<open>\<open>grade.create\<close>: the id is new and a term, when given, exists (foreign key).\<close>

definition insert_mark :: "mark_row \<Rightarrow> unit grade_op" where
  "insert_mark m =
     op_bind (op_get (\<lambda>db. list_ex (\<lambda>n. mk_id n = mk_id m) (gb_marks db) \<or>
       (case mk_term_id m of None \<Rightarrow> False | Some t \<Rightarrow> find_term t (gb_base db) = None))) (\<lambda>bad.
     op_then (op_require (\<not> bad) (JsError ''Foreign key constraint failed''))
       (op_modify (\<lambda>db. db\<lparr>gb_marks := gb_marks db @ [m]\<rparr>)))"

record grade_dto =
  dg_enrolment :: ident
  dg_subject_id :: "ident option"
  dg_subject :: "string option"
  dg_type :: grade_type
  dg_name :: "string option"
  dg_date :: "date option"
  dg_sequence :: "int option"
  dg_score :: rat
  dg_max :: rat
  dg_term :: "string option"
  dg_term_id :: "ident option"
  dg_year :: "string option"
  dg_remarks :: "string option"
  dg_published :: bool

text \<open>\<open>sequence || null\<close>.\<close>

definition or_null :: "int option \<Rightarrow> int option" where
  "or_null n = (if n = Some 0 then None else n)"

definition new_mark :: "date \<Rightarrow> ident \<Rightarrow> ident \<Rightarrow> grade_dto \<Rightarrow> ident option \<times> string \<Rightarrow> string \<times> string \<Rightarrow> mark_row" where
  "new_mark now new_id teacher dto = (\<lambda>(sid, subject) (term, year).
     \<lparr>mk_id = new_id, mk_enrolment = dg_enrolment dto, mk_teacher = teacher, mk_term_id = or_undefined (dg_term_id dto),
      mk_subject_id = sid, mk_subject = subject, mk_type = dg_type dto, mk_name = or_undefined (dg_name dto),
      mk_date = dg_date dto, mk_sequence = or_null (dg_sequence dto), mk_score = dg_score dto, mk_max = dg_max dto,
      mk_term = term, mk_year = year, mk_remarks = or_undefined (dg_remarks dto), mk_published = dg_published dto, mk_created = now\<rparr>)"

definition create_grade :: "date \<Rightarrow> ident \<Rightarrow> ident \<Rightarrow> grade_dto \<Rightarrow> string option \<Rightarrow> mark_row grade_op" where
  "create_grade now new_id school dto profile =
     op_bind (op_lift (grading_teacher school profile)) (\<lambda>t.
     op_bind (op_get (find_enrolment (dg_enrolment dto))) (\<lambda>found.
     case found of
       None \<Rightarrow> op_throw (NotFound ''Enrollment not found'')
     | Some e \<Rightarrow>
         op_then (op_require (en_school e = school) (Forbidden ''Enrollment does not belong to this school'')) (
         op_then (op_require (en_active e) (BadRequest ''Cannot add grade to inactive enrollment'')) (
         op_then (op_require (\<not> score_error (dg_score dto) (dg_max dto)) (BadRequest ''Score must be between 0 and the maximum'')) (
         op_then (op_require (\<not> future now (dg_date dto)) (BadRequest ''Assessment date cannot be in the future'')) (
         op_bind (op_lift (graded_subject school (te_id t) (class_scope (en_class e) (en_arm e)) (name_scope (en_class e) (en_arm e))
           (\<lambda>_. Inr ()) (dg_subject_id dto) (dg_subject dto))) (\<lambda>subject.
         op_bind (op_get (\<lambda>db. term_and_year (dg_term_id dto) (dg_term dto)
           (nullish (or_undefined (dg_year dto)) (en_year e)) (gb_base db))) (\<lambda>(term, year).
         op_then (op_require (truthy term) (BadRequest ''Term name is required. Please provide termId or ensure term exists.'')) (
         let m = new_mark now new_id (te_id t) dto subject (the term, year)
         in op_then (insert_mark m) (op_ret m))))))))))"

text \<open>In an update an absent field is None; a field that may be set to null has a second option.\<close>

record grade_update =
  ug_score :: "rat option"
  ug_max :: "rat option"
  ug_remarks :: "string option option"
  ug_subject :: "string option"
  ug_name :: "string option option"
  ug_date :: "date option option"
  ug_sequence :: "int option option"
  ug_published :: "bool option"

definition school_of_mark :: "mark_row \<Rightarrow> grade_db \<Rightarrow> ident option" where
  "school_of_mark m db = map_option en_school (find_enrolment (mk_enrolment m) db)"

definition owns_mark :: "teacher_row \<Rightarrow> string option \<Rightarrow> mark_row \<Rightarrow> bool" where
  "owns_mark t profile m = (mk_teacher m = te_id t \<or> Some (mk_teacher m) = profile)"

definition lock_passed :: "grading_policy \<Rightarrow> date \<Rightarrow> mark_row \<Rightarrow> session_db \<Rightarrow> bool" where
  "lock_passed pol now m db =
     (case (if truthy (mk_term_id m) then find_term (the (mk_term_id m)) db else None) of
        None \<Rightarrow> False
      | Some t \<Rightarrow> plus_days (tr_end t) (nullish (gp_lock_days pol) 7) < now)"

text \<open>
  The local \<open>assessmentDate\<close> is null unless the request has a date, never undefined, so that the
  update always writes it.
\<close>

definition edited_mark :: "grade_update \<Rightarrow> mark_row \<Rightarrow> mark_row" where
  "edited_mark u m = m\<lparr>mk_score := nullish (ug_score u) (mk_score m), mk_max := nullish (ug_max u) (mk_max m),
     mk_remarks := nullish (ug_remarks u) (mk_remarks m), mk_subject := nullish (ug_subject u) (mk_subject m),
     mk_name := nullish (ug_name u) (mk_name m), mk_date := nullish (ug_date u) None,
     mk_sequence := nullish (ug_sequence u) (mk_sequence m), mk_published := nullish (ug_published u) (mk_published m)\<rparr>"

definition update_grade ::
  "(ident \<Rightarrow> grading_policy) \<Rightarrow> date \<Rightarrow> ident \<Rightarrow> ident \<Rightarrow> grade_update \<Rightarrow> string option \<Rightarrow> mark_row grade_op" where
  "update_grade policy now school i u profile =
     op_bind (op_lift (grading_teacher school profile)) (\<lambda>t.
     op_bind (op_get (find_mark i)) (\<lambda>found.
     case found of
       None \<Rightarrow> op_throw (NotFound ''Grade not found'')
     | Some m \<Rightarrow>
         op_bind (op_get (school_of_mark m)) (\<lambda>owner.
         op_then (op_require (owner = Some school) (Forbidden ''Grade does not belong to this school'')) (
         op_then (op_require (owns_mark t profile m) (Forbidden ''You can only update grades you created'')) (
         op_bind (op_get (\<lambda>db. lock_passed (policy school) now m (gb_base db))) (\<lambda>locked.
         op_then (op_require (\<not> (locked \<and> (ug_score u \<noteq> None \<or> ug_published u \<noteq> None)))
           (BadRequest ''Grading period is locked for this term.'')) (
         op_then (op_require (\<not> (ug_published u = Some True \<and> gp_approval (policy school) \<and> \<not> mk_published m))
           (BadRequest ''Grade approval is required before publishing. Contact your administrator.'')) (
         op_then (op_require (\<not> score_error (nullish (ug_score u) (mk_score m)) (nullish (ug_max u) (mk_max m)))
           (BadRequest ''Score must be between 0 and the maximum'')) (
         op_then (op_require (\<not> future now (nullish (ug_date u) None)) (BadRequest ''Assessment date cannot be in the future'')) (
         op_then (op_modify (\<lambda>db. db\<lparr>gb_marks := update_first (\<lambda>n. mk_id n = i) (edited_mark u) (gb_marks db)\<rparr>))
           (op_ret (edited_mark u m))))))))))))"

definition delete_grade :: "ident \<Rightarrow> ident \<Rightarrow> string option \<Rightarrow> unit grade_op" where
  "delete_grade school i profile =
     op_bind (op_lift (grading_teacher school profile)) (\<lambda>t.
     op_bind (op_get (find_mark i)) (\<lambda>found.
     case found of
       None \<Rightarrow> op_throw (NotFound ''Grade not found'')
     | Some m \<Rightarrow>
         op_bind (op_get (school_of_mark m)) (\<lambda>owner.
         op_then (op_require (owner = Some school) (Forbidden ''Grade does not belong to this school'')) (
         op_then (op_require (owns_mark t profile m) (Forbidden ''You can only delete grades you created'')) (
           op_modify (\<lambda>db. db\<lparr>gb_marks := delete_where (\<lambda>n. mk_id n = i) (gb_marks db)\<rparr>))))))"

section \<open>Classes and class arms\<close>

record class_data =
  cd_arm :: bool
  cd_level :: string
  cd_year :: string

definition class_of_id :: "ident \<Rightarrow> ident \<Rightarrow> session_db \<Rightarrow> class_data option" where
  "class_of_id school i db =
     (case find (\<lambda>a. la_id a = i) (sd_arms db) of
        Some a \<Rightarrow>
          (case find (\<lambda>l. lv_id l = la_level a \<and> lv_school l = school) (sd_levels db) of
             Some l \<Rightarrow> Some \<lparr>cd_arm = True, cd_level = lv_name l, cd_year = la_year a\<rparr>
           | None \<Rightarrow> map_option (\<lambda>c. \<lparr>cd_arm = False, cd_level = sc_level c, cd_year = sc_year c\<rparr>)
               (find (\<lambda>c. sc_id c = i \<and> sc_school c = school) (sd_classes db)))
      | None \<Rightarrow> map_option (\<lambda>c. \<lparr>cd_arm = False, cd_level = sc_level c, cd_year = sc_year c\<rparr>)
          (find (\<lambda>c. sc_id c = i \<and> sc_school c = school) (sd_classes db)))"

definition scope_of_class :: "ident \<Rightarrow> class_data \<Rightarrow> class_scope" where
  "scope_of_class i c = (if cd_arm c then class_scope None (Some i) else class_scope (Some i) None)"

definition in_class :: "ident \<Rightarrow> ident \<Rightarrow> class_data \<Rightarrow> term_enrolment \<Rightarrow> bool" where
  "in_class school i c e =
     (en_school e = school \<and> en_active e \<and> en_year e = cd_year c \<and>
      (if cd_arm c then en_arm e = Some i
       else en_class e = Some i \<or> (en_level e = cd_level c \<and> en_class e = None)))"

definition class_enrolments :: "ident \<Rightarrow> ident \<Rightarrow> class_data \<Rightarrow> session_db \<Rightarrow> term_enrolment list" where
  "class_enrolments school i c db = filter (in_class school i c) (sd_enrolments db)"

section \<open>Bulk entry\<close>

record bulk_dto =
  bd_class :: ident
  bd_subject_id :: "ident option"
  bd_subject :: "string option"
  bd_type :: grade_type
  bd_name :: "string option"
  bd_date :: "date option"
  bd_sequence :: "int option"
  bd_max :: rat
  bd_term_id :: "ident option"
  bd_year :: "string option"
  bd_published :: bool
  bd_entries :: "(ident \<times> rat \<times> string option) list"

definition bulk_mark :: "date \<Rightarrow> (ident \<Rightarrow> ident) \<Rightarrow> ident \<Rightarrow> bulk_dto \<Rightarrow> ident option \<times> string \<Rightarrow> string \<times> string
    \<Rightarrow> ident \<times> rat \<times> string option \<Rightarrow> mark_row" where
  "bulk_mark now ids teacher dto = (\<lambda>(sid, subject) (term, year) (e, score, remarks).
     \<lparr>mk_id = ids e, mk_enrolment = e, mk_teacher = teacher, mk_term_id = or_undefined (bd_term_id dto), mk_subject_id = sid,
      mk_subject = subject, mk_type = bd_type dto, mk_name = bd_name dto, mk_date = bd_date dto,
      mk_sequence = or_null (bd_sequence dto), mk_score = score, mk_max = bd_max dto, mk_term = term,
      mk_year = nullish (or_undefined (bd_year dto)) year, mk_remarks = or_undefined remarks,
      mk_published = bd_published dto, mk_created = now\<rparr>)"

text \<open>The created ids are a function of the enrollment; the creates run in the order of the entries.\<close>

definition bulk_create_grades ::
  "date \<Rightarrow> (ident \<Rightarrow> ident) \<Rightarrow> ident \<Rightarrow> bulk_dto \<Rightarrow> string option \<Rightarrow> mark_row list grade_op" where
  "bulk_create_grades now ids school dto profile =
     op_bind (op_lift (grading_teacher school profile)) (\<lambda>t.
     op_bind (op_get (\<lambda>db. class_of_id school (bd_class dto) (gb_base db))) (\<lambda>found.
     case found of
       None \<Rightarrow> op_throw (NotFound ''Class or ClassArm not found'')
     | Some c \<Rightarrow>
         let scope = scope_of_class (bd_class dto) c in
         op_bind (op_lift (graded_subject school (te_id t) scope scope
           (\<lambda>db. if has_duty (\<lambda>_. True) (te_id t) scope db then Inr () else Inl (Forbidden ''You are not assigned to this class''))
           (bd_subject_id dto) (bd_subject dto))) (\<lambda>subject.
         op_bind (op_get (\<lambda>db. term_and_year (bd_term_id dto) (Some []) (cd_year c) (gb_base db))) (\<lambda>(term, year).
         op_then (op_require (\<not> future now (bd_date dto)) (BadRequest ''Assessment date cannot be in the future'')) (
         op_bind (op_get (\<lambda>db. length (filter (\<lambda>e. en_id e \<in> set (map fst (bd_entries dto)) \<and> en_school e = school \<and> en_active e)
           (sd_enrolments (gb_base db))))) (\<lambda>n.
         op_then (op_require (n = length (bd_entries dto)) (BadRequest ''Some enrollments are invalid or inactive'')) (
         op_then (op_require (\<not> list_ex (\<lambda>(_, score, _). score_error score (bd_max dto)) (bd_entries dto))
           (BadRequest ''Score must be between 0 and the maximum'')) (
         let marks = map (bulk_mark now ids (te_id t) dto subject (the term, year)) (bd_entries dto)
         in op_then (op_for (\<lambda>m _. insert_mark m) marks ()) (op_ret marks)))))))))"

section \<open>Views\<close>

text \<open>\<open>orderBy\<close> descending, rows of equal key in table order.\<close>

definition sort_desc :: "('a \<Rightarrow> 'k::linorder) \<Rightarrow> 'a list \<Rightarrow> 'a list" where
  "sort_desc k xs = rev (sort_key k (rev xs))"

definition wanted_mark :: "string option \<Rightarrow> ident option \<Rightarrow> grade_type option \<Rightarrow> mark_row \<Rightarrow> bool" where
  "wanted_mark subject tid ty m =
     ((truthy subject \<longrightarrow> Some (mk_subject m) = subject) \<and> (truthy tid \<longrightarrow> mk_term_id m = tid) \<and>
      (case ty of None \<Rightarrow> True | Some g \<Rightarrow> mk_type m = g))"

definition viewer :: "string option \<Rightarrow> grade_db \<Rightarrow> teacher_row option" where
  "viewer profile db = (if truthy profile then resolve_teacher_profile (the profile) db else None)"

text \<open>A teacher sees only the own grades, and without a subject asked for only the subjects of the assignments, if any.\<close>

definition seen_by :: "teacher_row option \<Rightarrow> string option \<Rightarrow> (duty_row \<Rightarrow> bool) \<Rightarrow> grade_db \<Rightarrow> mark_row \<Rightarrow> bool" where
  "seen_by teacher subject here db m =
     (case teacher of
        None \<Rightarrow> True
      | Some t \<Rightarrow>
          let subjects = map the (filter truthy (map du_subject (filter (\<lambda>d. du_teacher d = te_id t \<and> here d) (gb_duties db))))
          in mk_teacher m = te_id t \<and> (truthy subject \<or> subjects = [] \<or> mk_subject m \<in> set subjects))"

definition newest_first :: "mark_row list \<Rightarrow> mark_row list" where
  "newest_first = sort_desc (\<lambda>m. (mk_year m, mk_term m, mk_created m))"

definition get_class_grades ::
  "ident \<Rightarrow> ident \<Rightarrow> string option \<Rightarrow> ident option \<Rightarrow> grade_type option \<Rightarrow> string option \<Rightarrow> grade_db \<Rightarrow> http_error + mark_row list" where
  "get_class_grades school i subject tid ty profile db =
     (if find_school school (sd_schools (gb_base db)) = None then Inl (NotFound ''School not found'')
      else case class_of_id school i (gb_base db) of
        None \<Rightarrow> Inl (NotFound ''Class or ClassArm not found'')
      | Some c \<Rightarrow>
          let ids = map en_id (class_enrolments school i c (gb_base db));
              here = (\<lambda>d. scope_of_class i c (du_class d) (du_arm d))
          in Inr (newest_first (filter (\<lambda>m. mk_enrolment m \<in> set ids \<and> wanted_mark subject tid ty m \<and>
               seen_by (viewer profile db) subject here db m) (gb_marks db))))"

definition percentage :: "mark_row \<Rightarrow> rat" where
  "percentage m = (if 0 < mk_max m then mk_score m / mk_max m * 100 else 0)"

definition duty_of_school :: "ident \<Rightarrow> session_db \<Rightarrow> duty_row \<Rightarrow> bool" where
  "duty_of_school school db d =
     (list_ex (\<lambda>c. Some (sc_id c) = du_class d \<and> sc_school c = school) (sd_classes db) \<or>
      list_ex (\<lambda>a. Some (la_id a) = du_arm d \<and> list_ex (\<lambda>l. lv_id l = la_level a \<and> lv_school l = school) (sd_levels db)) (sd_arms db))"

definition get_student_grades ::
  "ident \<Rightarrow> ident \<Rightarrow> string option \<Rightarrow> string option \<Rightarrow> grade_db \<Rightarrow> http_error + (mark_row \<times> rat) list" where
  "get_student_grades school student subject profile db =
     (if find_school school (sd_schools (gb_base db)) = None then Inl (NotFound ''School not found'')
      else if \<not> list_ex (\<lambda>p. pu_id p = student) (gb_pupils db) then Inl (NotFound ''Student not found'')
      else let ids = map en_id (filter (\<lambda>e. en_student e = student \<and> en_school e = school \<and> en_active e) (sd_enrolments (gb_base db)))
        in if ids = [] then Inl (BadRequest ''Student is not enrolled in this school'')
           else Inr (map (\<lambda>m. (m, percentage m)) (newest_first (filter (\<lambda>m. mk_enrolment m \<in> set ids \<and>
             wanted_mark subject None None m \<and> seen_by (viewer profile db) subject (duty_of_school school (gb_base db)) db m) (gb_marks db)))))"

text \<open>\<open>Math.round\<close>, and rounding to one decimal.\<close>

definition math_round :: "rat \<Rightarrow> int" where
  "math_round x = \<lfloor>x + 1 / 2\<rfloor>"

definition one_decimal :: "rat \<Rightarrow> rat" where
  "one_decimal x = of_int (math_round (x * 10)) / 10"

record student_summary =
  ss_student :: pupil_row
  ss_average :: rat
  ss_graded :: nat
  ss_total :: nat
  ss_status :: string
  ss_marks :: "(mark_row \<times> rat) list"

definition summary_of :: "pupil_row \<Rightarrow> mark_row list \<Rightarrow> student_summary" where
  "summary_of p ms =
     (let score = sum_list (map mk_score ms); maximum = sum_list (map mk_max ms);
          average = (if 0 < maximum then score / maximum * 100 else 0)
      in \<lparr>ss_student = p, ss_average = one_decimal average, ss_graded = count_where mk_published ms, ss_total = length ms,
          ss_status = (if 80 \<le> average then ''above'' else if average < 60 then ''below'' else ''average''),
          ss_marks = map (\<lambda>m. (m, if 0 < mk_max m then one_decimal (percentage m) else 0)) ms\<rparr>)"

definition last_assessed_first :: "mark_row list \<Rightarrow> mark_row list" where
  "last_assessed_first = sort_desc (\<lambda>m. (mk_date m = None, nullish (mk_date m) 0, mk_created m))"

text \<open>The map of the summaries is keyed by the student: a second enrollment of one replaces the first.\<close>

definition get_class_grades_grouped ::
  "(string \<Rightarrow> 'k::linorder) \<Rightarrow> ident \<Rightarrow> ident \<Rightarrow> string option \<Rightarrow> ident option \<Rightarrow> grade_type option \<Rightarrow> string option
    \<Rightarrow> grade_db \<Rightarrow> http_error + student_summary list" where
  "get_class_grades_grouped collate school i subject tid ty profile db =
     (if find_school school (sd_schools (gb_base db)) = None then Inl (NotFound ''School not found'')
      else case class_of_id school i (gb_base db) of
        None \<Rightarrow> Inl (NotFound ''Class or ClassArm not found'')
      | Some c \<Rightarrow>
          let es = class_enrolments school i c (gb_base db);
              marks = last_assessed_first (filter (\<lambda>m. mk_enrolment m \<in> set (map en_id es) \<and> wanted_mark subject tid ty m \<and>
                (case viewer profile db of None \<Rightarrow> True | Some t \<Rightarrow> mk_teacher m = te_id t)) (gb_marks db));
              put = (\<lambda>e summaries. case find (\<lambda>p. pu_id p = en_student e) (gb_pupils db) of
                None \<Rightarrow> summaries
              | Some p \<Rightarrow> AList.update (pu_id p) (summary_of p (filter (\<lambda>m. mk_enrolment m = en_id e) marks)) summaries)
          in Inr (sort_key (\<lambda>s. collate (pu_first (ss_student s) @ '' '' @ pu_last (ss_student s)))
               (map snd (fold put es []))))"

section \<open>Grade scale and report card\<close>

definition to_waec_grade :: "rat \<Rightarrow> string" where
  "to_waec_grade p =
     (if 75 \<le> p then ''A1'' else if 70 \<le> p then ''B2'' else if 65 \<le> p then ''B3'' else if 60 \<le> p then ''C4''
      else if 55 \<le> p then ''C5'' else if 50 \<le> p then ''C6'' else if 45 \<le> p then ''D7'' else if 40 \<le> p then ''E8'' else ''F9'')"

definition percentage_to_display_grade :: "rat \<Rightarrow> string \<Rightarrow> string" where
  "percentage_to_display_grade p scale = (if scale = ''A1_F9'' then to_waec_grade p else show_int (math_round p) @ ''%'')"

definition weighted_subject_percentage :: "rat option \<Rightarrow> rat option \<Rightarrow> rat \<Rightarrow> rat \<Rightarrow> rat" where
  "weighted_subject_percentage ca exam ca_weight exam_weight =
     (case (ca, exam) of
        (Some c, Some x) \<Rightarrow>
          (if ca_weight + exam_weight \<le> 0 then (c + x) / 2
           else (c * ca_weight + x * exam_weight) / (ca_weight + exam_weight))
      | (Some c, None) \<Rightarrow> c
      | (None, Some x) \<Rightarrow> x
      | (None, None) \<Rightarrow> 0)"

record subject_total =
  to_ca :: rat
  to_ca_max :: rat
  to_exam :: rat
  to_exam_max :: rat

definition no_total :: subject_total where
  "no_total = \<lparr>to_ca = 0, to_ca_max = 0, to_exam = 0, to_exam_max = 0\<rparr>"

definition subject_key :: "mark_row \<Rightarrow> string" where
  "subject_key m = (if mk_subject m = [] then ''N/A'' else mk_subject m)"

definition add_mark :: "mark_row \<Rightarrow> subject_total \<Rightarrow> subject_total" where
  "add_mark m t =
     (if mk_type m = GRADE_EXAM then t\<lparr>to_exam := to_exam t + mk_score m, to_exam_max := to_exam_max t + mk_max m\<rparr>
      else t\<lparr>to_ca := to_ca t + mk_score m, to_ca_max := to_ca_max t + mk_max m\<rparr>)"

text \<open>One pass over the rows; the entries of the map are in the order of their first row.\<close>

definition add_to_totals :: "mark_row \<Rightarrow> (string \<times> subject_total) list \<Rightarrow> (string \<times> subject_total) list" where
  "add_to_totals m totals =
     AList.update (subject_key m) (add_mark m (nullish (map_of totals (subject_key m)) no_total)) totals"

definition subject_percentage :: "rat \<Rightarrow> rat \<Rightarrow> subject_total \<Rightarrow> rat" where
  "subject_percentage ca_weight exam_weight t =
     weighted_subject_percentage (if 0 < to_ca_max t then Some (to_ca t / to_ca_max t * 100) else None)
       (if 0 < to_exam_max t then Some (to_exam t / to_exam_max t * 100) else None) ca_weight exam_weight"

record report_card =
  rp_rows :: "(mark_row \<times> rat) list"
  rp_year :: string
  rp_term :: string
  rp_average :: rat
  rp_grade :: string

definition overall_average :: "rat \<Rightarrow> rat \<Rightarrow> mark_row list \<Rightarrow> rat" where
  "overall_average ca_weight exam_weight ms =
     (let pcts = map (subject_percentage ca_weight exam_weight \<circ> snd) (fold add_to_totals ms [])
      in if pcts = [] then 0 else sum_list pcts / of_nat (length pcts))"

text \<open>\<open>Number(x) || d\<close>.\<close>

definition or_number :: "rat \<Rightarrow> rat \<Rightarrow> rat" where
  "or_number x d = (if x = 0 then d else x)"

definition export_report_card :: "(ident \<Rightarrow> grading_policy) \<Rightarrow> ident \<Rightarrow> ident \<Rightarrow> grade_db \<Rightarrow> http_error + report_card" where
  "export_report_card policy user tid db =
     (case find (\<lambda>p. pu_user p = user) (gb_pupils db) of
        None \<Rightarrow> Inl (NotFound ''Student not found.'')
      | Some p \<Rightarrow>
          (case find (\<lambda>e. en_student e = pu_id p \<and> en_term e = Some tid) (sd_enrolments (gb_base db)) of
             None \<Rightarrow> Inl (Forbidden ''Student is not enrolled in the requested term.'')
           | Some e \<Rightarrow>
               let ms = filter (\<lambda>m. mk_enrolment m = en_id e \<and> mk_published m) (gb_marks db);
                   term = find_term tid (gb_base db);
                   pol = policy (en_school e);
                   average = overall_average (or_number (gp_ca_weight pol) 40) (or_number (gp_exam_weight pol) 60) ms
               in if ms = [] then Inl (NotFound ''No published grades found for the requested term.'')
                  else Inr \<lparr>rp_rows = map (\<lambda>m. (m, percentage m)) ms,
                    rp_year = nullish (Option.bind term (\<lambda>t. session_name_of t (gb_base db))) (en_year e),
                    rp_term = nullish (map_option tr_name term) [],
                    rp_average = average, rp_grade = percentage_to_display_grade average (gp_scale pol)\<rparr>))"

end
