(* ===== verification/GradeFacts.thy ===== *)
theory GradeFacts
  imports Grades
begin

text \<open>
  The writes of the grades service: what a success tells of the checks, the invariant of the grade
  table through every run, and the lemmas on the totals of a report card.
\<close>

section \<open>Successful requests\<close>

lemma grading_teacher_Inr: "grading_teacher school profile db = Inr t \<Longrightarrow> te_school t = school \<and> truthy profile"
  by (auto simp: grading_teacher_def split: if_splits option.splits)

lemma insert_mark_Inr:
  "insert_mark m db = (Inr u, db') \<longleftrightarrow> (\<forall>n\<in>set (gb_marks db). mk_id n \<noteq> mk_id m) \<and>
     (case mk_term_id m of None \<Rightarrow> True | Some t \<Rightarrow> find_term t (gb_base db) \<noteq> None) \<and> db' = db\<lparr>gb_marks := gb_marks db @ [m]\<rparr>"
  by (auto simp: insert_mark_def op_then_def op_bind_def list_ex_iff op_require_eval split: option.splits)

lemma new_mark_fields [simp]:
  "mk_id (new_mark now i t dto sj nm) = i" "mk_enrolment (new_mark now i t dto sj nm) = dg_enrolment dto"
  "mk_teacher (new_mark now i t dto sj nm) = t" "mk_term_id (new_mark now i t dto sj nm) = or_undefined (dg_term_id dto)"
  "mk_subject_id (new_mark now i t dto sj nm) = fst sj" "mk_subject (new_mark now i t dto sj nm) = snd sj"
  "mk_score (new_mark now i t dto sj nm) = dg_score dto" "mk_max (new_mark now i t dto sj nm) = dg_max dto"
  "mk_published (new_mark now i t dto sj nm) = dg_published dto"
  by (simp_all add: new_mark_def split_beta)

lemma create_grade_Inr:
  assumes "create_grade now i school dto profile db = (Inr m, db')"
  obtains t e sj nm year where "grading_teacher school profile db = Inr t" "find_enrolment (dg_enrolment dto) db = Some e"
    "en_school e = school" "en_active e" "\<not> score_error (dg_score dto) (dg_max dto)" "\<not> future now (dg_date dto)"
    "graded_subject school (te_id t) (class_scope (en_class e) (en_arm e)) (name_scope (en_class e) (en_arm e)) (\<lambda>_. Inr ())
       (dg_subject_id dto) (dg_subject dto) db = Inr sj"
    "term_and_year (dg_term_id dto) (dg_term dto) (nullish (or_undefined (dg_year dto)) (en_year e)) (gb_base db) = (nm, year)" "truthy nm"
    "m = new_mark now i (te_id t) dto sj (the nm, year)" "insert_mark m db = (Inr (), db')"
proof -
  from assms obtain t where t: "grading_teacher school profile db = Inr t"
    by (cases "grading_teacher school profile db") (simp_all add: create_grade_def op_bind_def)
  from assms t obtain e where e: "find_enrolment (dg_enrolment dto) db = Some e"
    by (cases "find_enrolment (dg_enrolment dto) db") (simp_all add: create_grade_def op_bind_def)
  let ?g = "graded_subject school (te_id t) (class_scope (en_class e) (en_arm e)) (name_scope (en_class e) (en_arm e)) (\<lambda>_. Inr ())
       (dg_subject_id dto) (dg_subject dto) db"
  obtain nm year where n: "term_and_year (dg_term_id dto) (dg_term dto) (nullish (or_undefined (dg_year dto)) (en_year e)) (gb_base db) = (nm, year)"
    by (metis surj_pair)
  show ?thesis
  proof (cases ?g)
    case (Inl err)
    then show ?thesis using assms by (simp add: create_grade_def op_bind_def op_then_def op_require_eval t e split: if_splits)
  next
    case (Inr sj)
    have "en_school e = school \<and> en_active e \<and> \<not> score_error (dg_score dto) (dg_max dto) \<and> \<not> future now (dg_date dto) \<and> truthy nm \<and>
        op_then (insert_mark (new_mark now i (te_id t) dto sj (the nm, year))) (op_ret (new_mark now i (te_id t) dto sj (the nm, year))) db = (Inr m, db')"
      using assms by (simp add: create_grade_def op_bind_def op_then_def op_require_eval t e n Inr Let_def split: if_splits)
    then show ?thesis using that[OF t e _ _ _ _ Inr n] by (auto simp: op_then_Inr)
  qed
qed

lemma create_grade_run:
  assumes "grading_teacher school profile db = Inr t" "find_enrolment (dg_enrolment dto) db = Some e" "en_school e = school" "en_active e"
    "\<not> score_error (dg_score dto) (dg_max dto)" "\<not> future now (dg_date dto)"
    "graded_subject school (te_id t) (class_scope (en_class e) (en_arm e)) (name_scope (en_class e) (en_arm e)) (\<lambda>_. Inr ())
       (dg_subject_id dto) (dg_subject dto) db = Inr sj"
    "term_and_year (dg_term_id dto) (dg_term dto) (nullish (or_undefined (dg_year dto)) (en_year e)) (gb_base db) = (nm, year)" "truthy nm"
    "insert_mark (new_mark now i (te_id t) dto sj (the nm, year)) db = (Inr (), db')"
  shows "create_grade now i school dto profile db = (Inr (new_mark now i (te_id t) dto sj (the nm, year)), db')"
  using assms by (simp add: create_grade_def op_bind_def op_then_def op_require_eval Let_def)

lemma update_grade_Inr:
  assumes "update_grade policy now school i u profile db = (Inr m', db')"
  obtains t m where "grading_teacher school profile db = Inr t" "find_mark i db = Some m" "school_of_mark m db = Some school"
    "owns_mark t profile m" "\<not> (lock_passed (policy school) now m (gb_base db) \<and> (ug_score u \<noteq> None \<or> ug_published u \<noteq> None))"
    "\<not> (ug_published u = Some True \<and> gp_approval (policy school) \<and> \<not> mk_published m)"
    "\<not> score_error (nullish (ug_score u) (mk_score m)) (nullish (ug_max u) (mk_max m))"
    "m' = edited_mark u m" "db' = db\<lparr>gb_marks := update_first (\<lambda>n. mk_id n = i) (edited_mark u) (gb_marks db)\<rparr>"
proof -
  from assms obtain t where t: "grading_teacher school profile db = Inr t"
    by (cases "grading_teacher school profile db") (simp_all add: update_grade_def op_bind_def)
  from assms t obtain m where m: "find_mark i db = Some m"
    by (cases "find_mark i db") (simp_all add: update_grade_def op_bind_def)
  from assms t m show ?thesis
    by (intro that[OF t m]) (simp_all add: update_grade_def op_bind_def op_then_def op_require_eval split: if_splits)
qed

lemma delete_grade_Inr:
  assumes "delete_grade school i profile db = (Inr x, db')"
  obtains t m where "grading_teacher school profile db = Inr t" "find_mark i db = Some m" "school_of_mark m db = Some school"
    "owns_mark t profile m" "db' = db\<lparr>gb_marks := delete_where (\<lambda>n. mk_id n = i) (gb_marks db)\<rparr>"
proof -
  from assms obtain t where t: "grading_teacher school profile db = Inr t"
    by (cases "grading_teacher school profile db") (simp_all add: delete_grade_def op_bind_def)
  from assms t obtain m where m: "find_mark i db = Some m"
    by (cases "find_mark i db") (simp_all add: delete_grade_def op_bind_def)
  from assms t m show ?thesis
    by (intro that[OF t m]) (simp_all add: delete_grade_def op_bind_def op_then_def op_require_eval split: if_splits)
qed

section \<open>Failed requests\<close>

lemma insert_mark_clean: "fails_clean (insert_mark m)"
  unfolding insert_mark_def by (intro fails_clean_intros)

lemma failed_requests:
  "fails_clean (create_grade now i school dto profile)"
  "fails_clean (update_grade policy now school i u profile)"
  "fails_clean (delete_grade school i profile)"
  unfolding create_grade_def update_grade_def delete_grade_def
  by (intro fails_clean_intros fails_clean_write insert_mark_clean)+

section \<open>The invariant of the grade table\<close>

definition mark_ok :: "grade_db \<Rightarrow> mark_row \<Rightarrow> bool" where
  "mark_ok db m \<longleftrightarrow> 0 \<le> mk_score m \<and> mk_score m \<le> mk_max m \<and> find_enrolment (mk_enrolment m) db \<noteq> None"

definition grade_inv :: "grade_db \<Rightarrow> bool" where
  "grade_inv db \<longleftrightarrow> distinct (map mk_id (gb_marks db)) \<and> distinct (map en_id (sd_enrolments (gb_base db))) \<and> (\<forall>m\<in>set (gb_marks db). mark_ok db m)"

lemma mark_ok_frame [simp]: "mark_ok (db\<lparr>gb_marks := ms\<rparr>) m = mark_ok db m" "find_enrolment i (db\<lparr>gb_marks := ms\<rparr>) = find_enrolment i db"
  by (simp_all add: mark_ok_def find_enrolment_def)

lemma grade_inv_insert:
  "grade_inv db \<Longrightarrow> mark_ok db m \<Longrightarrow> grade_inv (snd (insert_mark m db))"
  by (auto simp: insert_mark_def op_then_def op_bind_def op_require_eval grade_inv_def list_ex_iff)

lemma edited_mark_frame [simp]: "mk_id (edited_mark u m) = mk_id m" "mk_enrolment (edited_mark u m) = mk_enrolment m"
  "mk_teacher (edited_mark u m) = mk_teacher m" "mk_term_id (edited_mark u m) = mk_term_id m"
  "mk_score (edited_mark u m) = nullish (ug_score u) (mk_score m)" "mk_max (edited_mark u m) = nullish (ug_max u) (mk_max m)"
  "mk_published (edited_mark u m) = nullish (ug_published u) (mk_published m)" "mk_date (edited_mark u m) = nullish (ug_date u) None"
  by (simp_all add: edited_mark_def)

lemma find_mark_in: "find_mark i db = Some m \<Longrightarrow> m \<in> set (gb_marks db) \<and> mk_id m = i"
  by (auto simp: find_mark_def dest: find_Some_in)

lemma grade_inv_update:
  assumes inv: "grade_inv db" and m: "find_mark i db = Some m" and ok: "\<not> score_error (nullish (ug_score u) (mk_score m)) (nullish (ug_max u) (mk_max m))"
  shows "grade_inv (db\<lparr>gb_marks := update_first (\<lambda>n. mk_id n = i) (edited_mark u) (gb_marks db)\<rparr>)"
proof -
  have dist: "distinct (map mk_id (gb_marks db))" using inv by (simp add: grade_inv_def)
  have "mark_ok db n" if n: "n \<in> set (update_first (\<lambda>n. mk_id n = i) (edited_mark u) (gb_marks db))" for n
  proof -
    from set_update_firstD[OF n] consider "n \<in> set (gb_marks db)" | r where "r \<in> set (gb_marks db)" "mk_id r = i" "n = edited_mark u r" by auto
    then show ?thesis
    proof cases
      case 2
      then have "r = m" using distinct_key_eq[OF dist] find_mark_in[OF m] by blast
      then show ?thesis using 2 ok inv by (auto simp: mark_ok_def grade_inv_def score_error_def not_less)
    qed (use inv in \<open>simp add: grade_inv_def\<close>)
  qed
  then show ?thesis using inv by (auto simp: grade_inv_def map_update_first_frame)
qed

lemma rows_by_ids:
  assumes "distinct (map en_id es)" "length (filter (\<lambda>e. en_id e \<in> set ids \<and> P e) es) = length ids"
  shows "distinct ids \<and> (\<forall>i\<in>set ids. \<exists>e\<in>set es. en_id e = i \<and> P e)"
proof -
  let ?f = "filter (\<lambda>e. en_id e \<in> set ids \<and> P e) es"
  have d: "distinct (map en_id ?f)" using assms(1) by (simp add: distinct_map_filter)
  have sub: "set (map en_id ?f) \<subseteq> set ids" by auto
  have "card (set (map en_id ?f)) = length ids" using distinct_card[OF d] assms(2) by simp
  moreover have "card (set (map en_id ?f)) \<le> card (set ids)" using sub by (simp add: card_mono)
  moreover have "card (set ids) \<le> length ids" by (rule card_length)
  ultimately have c: "card (set ids) = length ids" "card (set (map en_id ?f)) = card (set ids)" by simp_all
  then have all: "set ids \<subseteq> set (map en_id ?f)" using card_subset_eq[OF finite_set sub] by simp
  have "\<exists>e\<in>set es. en_id e = i \<and> P e" if "i \<in> set ids" for i
  proof -
    from that all have "i \<in> en_id ` {e \<in> set es. en_id e \<in> set ids \<and> P e}" by auto
    then show ?thesis by blast
  qed
  then show ?thesis using c(1) card_distinct by blast
qed

lemma bulk_grades_cases:
  obtains (refused) err where "bulk_create_grades now ids school dto profile db = (Inl err, db)"
  | (entered) t subject names marks where "grading_teacher school profile db = Inr t"
      "marks = map (bulk_mark now ids (te_id t) dto subject names) (bd_entries dto)"
      "length (filter (\<lambda>e. en_id e \<in> set (map fst (bd_entries dto)) \<and> en_school e = school \<and> en_active e) (sd_enrolments (gb_base db)))
        = length (bd_entries dto)"
      "\<forall>(e, score, r)\<in>set (bd_entries dto). \<not> score_error score (bd_max dto)"
      "snd (bulk_create_grades now ids school dto profile db) = snd (op_for (\<lambda>m _. insert_mark m) marks () db)"
proof (cases "grading_teacher school profile db")
  case (Inl err)
  then show ?thesis using refused by (simp add: bulk_create_grades_def op_bind_def)
next
  case t: (Inr t)
  show ?thesis
  proof (cases "class_of_id school (bd_class dto) (gb_base db)")
    case None
    then show ?thesis using t refused by (simp add: bulk_create_grades_def op_bind_def)
  next
    case c: (Some c)
    let ?scope = "scope_of_class (bd_class dto) c"
    let ?any = "\<lambda>db. if has_duty (\<lambda>_. True) (te_id t) ?scope db then Inr () else Inl (Forbidden ''You are not assigned to this class'')"
    obtain nm year where n: "term_and_year (bd_term_id dto) (Some []) (cd_year c) (gb_base db) = (nm, year)" by (metis surj_pair)
    let ?n = "length (filter (\<lambda>e. en_id e \<in> set (map fst (bd_entries dto)) \<and> en_school e = school \<and> en_active e) (sd_enrolments (gb_base db)))"
    let ?bad = "list_ex (\<lambda>(_, score, _). score_error score (bd_max dto)) (bd_entries dto)"
    show ?thesis
    proof (cases "graded_subject school (te_id t) ?scope ?scope ?any (bd_subject_id dto) (bd_subject dto) db")
      case (Inl err)
      then show ?thesis using t c refused by (simp add: bulk_create_grades_def op_bind_def Let_def)
    next
      case (Inr subject)
      note run = bulk_create_grades_def op_bind_def op_then_def op_require_eval t c n Inr Let_def
      show ?thesis
      proof (cases "\<not> future now (bd_date dto) \<and> ?n = length (bd_entries dto) \<and> \<not> ?bad")
        case True
        then show ?thesis
          by (intro entered[OF t refl, of subject "(the nm, year)"]) (auto simp: run list_ex_iff split: prod.splits sum.splits)
      next
        case False
        then have "\<exists>err. bulk_create_grades now ids school dto profile db = (Inl err, db)"
          by (auto simp: run)
        then show ?thesis using refused by blast
      qed
    qed
  qed
qed

lemma inserts_run:
  assumes "grade_inv db" "\<And>m. m \<in> set ms \<Longrightarrow> mark_ok db m"
  shows "grade_inv (snd (op_for (\<lambda>m _. insert_mark m) ms () db)) \<and>
    (\<exists>new. set new \<subseteq> set ms \<and> snd (op_for (\<lambda>m _. insert_mark m) ms () db) = db\<lparr>gb_marks := gb_marks db @ new\<rparr>)"
  using assms
proof (induction ms arbitrary: db)
  case Nil
  then show ?case by (auto intro: exI[of _ "[]"])
next
  case (Cons m ms)
  show ?case
  proof (cases "fst (insert_mark m db)")
    case (Inl err)
    then have "insert_mark m db = (Inl err, snd (insert_mark m db))" by (metis prod.collapse)
    then have "insert_mark m db = (Inl err, db)" using fails_cleanD[OF insert_mark_clean] by metis
    then have "op_bind (insert_mark m) (op_for (\<lambda>m _. insert_mark m) ms) db = (Inl err, db)"
      by (simp add: op_bind_def)
    then show ?thesis using Cons.prems(1) by (auto intro: exI[of _ "[]"])
  next
    case (Inr u)
    then have run: "insert_mark m db = (Inr u, snd (insert_mark m db))" by (metis prod.collapse)
    then have db': "snd (insert_mark m db) = db\<lparr>gb_marks := gb_marks db @ [m]\<rparr>" by (simp add: insert_mark_Inr)
    have "grade_inv (snd (insert_mark m db))" using grade_inv_insert Cons.prems by simp
    from Cons.IH[OF this] obtain new where
      "grade_inv (snd (op_for (\<lambda>m _. insert_mark m) ms () (snd (insert_mark m db))))" "set new \<subseteq> set ms"
      "snd (op_for (\<lambda>m _. insert_mark m) ms () (snd (insert_mark m db))) = db\<lparr>gb_marks := gb_marks db @ m # new\<rparr>"
      using Cons.prems(2) by (auto simp: db')
    moreover have "op_for (\<lambda>m _. insert_mark m) (m # ms) () db = op_for (\<lambda>m _. insert_mark m) ms () (snd (insert_mark m db))"
      using op_bind_step[where m = "insert_mark m", OF run] by simp
    ultimately show ?thesis by (auto intro!: exI[of _ "m # new"])
  qed
qed

section \<open>Runs\<close>

datatype grade_event =
    CreateGrade date ident ident grade_dto "string option"
  | BulkGrades date "ident \<Rightarrow> ident" ident bulk_dto "string option"
  | UpdateGrade "ident \<Rightarrow> grading_policy" date ident ident grade_update "string option"
  | DeleteGrade ident ident "string option"

fun grade_step :: "grade_event \<Rightarrow> grade_db \<Rightarrow> grade_db" where
  "grade_step (CreateGrade now i school dto profile) db = snd (create_grade now i school dto profile db)"
| "grade_step (BulkGrades now ids school dto profile) db = snd (bulk_create_grades now ids school dto profile db)"
| "grade_step (UpdateGrade policy now school i u profile) db = snd (update_grade policy now school i u profile db)"
| "grade_step (DeleteGrade school i profile) db = snd (delete_grade school i profile db)"

text \<open>What a request does to the table: nothing, new rows, or a change of one row by its author.\<close>

definition by_author :: "ident \<Rightarrow> string option \<Rightarrow> ident \<Rightarrow> grade_db \<Rightarrow> mark_row \<Rightarrow> bool" where
  "by_author school profile i db m =
     (find_mark i db = Some m \<and> school_of_mark m db = Some school \<and>
      (\<exists>t. grading_teacher school profile db = Inr t \<and> owns_mark t profile m))"

fun actor :: "grade_event \<Rightarrow> ident \<times> string option" where
  "actor (CreateGrade _ _ school _ profile) = (school, profile)"
| "actor (BulkGrades _ _ school _ profile) = (school, profile)"
| "actor (UpdateGrade _ _ school _ _ profile) = (school, profile)"
| "actor (DeleteGrade school _ profile) = (school, profile)"

lemma failed_or_done:
  assumes "fails_clean m"
  obtains "snd (m db) = db" | v where "m db = (Inr v, snd (m db))"
  using assms fails_cleanD[OF assms, of db] by (cases "m db"; cases "fst (m db)") auto

lemma grade_step_effect:
  assumes inv: "grade_inv db"
  shows "grade_inv (grade_step e db) \<and> gb_base (grade_step e db) = gb_base db \<and>
    ((\<exists>new. gb_marks (grade_step e db) = gb_marks db @ new) \<or>
     (\<exists>i m f. by_author (fst (actor e)) (snd (actor e)) i db m \<and>
       gb_marks (grade_step e db) = update_first (\<lambda>n. mk_id n = i) f (gb_marks db)) \<or>
     (\<exists>i m. by_author (fst (actor e)) (snd (actor e)) i db m \<and> gb_marks (grade_step e db) = delete_where (\<lambda>n. mk_id n = i) (gb_marks db)))"
proof (cases e)
  case (CreateGrade now i school dto profile)
  show ?thesis
  proof (cases rule: failed_or_done[OF failed_requests(1), of now i school dto profile db])
    case 1
    then show ?thesis using inv CreateGrade by (auto intro: exI[of _ "[]"])
  next
    case (2 m)
    show ?thesis
    proof (rule create_grade_Inr[OF 2])
      fix t e sj nm year
      assume e: "find_enrolment (dg_enrolment dto) db = Some e" and ok: "\<not> score_error (dg_score dto) (dg_max dto)"
        and m: "m = new_mark now i (te_id t) dto sj (the nm, year)" and ins: "insert_mark m db = (Inr (), snd (create_grade now i school dto profile db))"
      have "mark_ok db m" using e ok m by (simp add: mark_ok_def score_error_def)
      then have "grade_inv (snd (insert_mark m db))" by (rule grade_inv_insert[OF inv])
      moreover have "snd (create_grade now i school dto profile db) = db\<lparr>gb_marks := gb_marks db @ [m]\<rparr>" using ins by (simp add: insert_mark_Inr)
      ultimately show ?thesis using CreateGrade ins by auto
    qed
  qed
next
  case (BulkGrades now ids school dto profile)
  show ?thesis
  proof (cases rule: bulk_grades_cases[of now ids school dto profile db])
    case (refused err)
    then show ?thesis using inv BulkGrades by (auto intro: exI[of _ "[]"])
  next
    case (entered t subject names marks)
    have "\<forall>i\<in>set (map fst (bd_entries dto)). \<exists>e\<in>set (sd_enrolments (gb_base db)). en_id e = i \<and> en_school e = school \<and> en_active e"
      using rows_by_ids[where P = "\<lambda>e. en_school e = school \<and> en_active e" and ids = "map fst (bd_entries dto)" and es = "sd_enrolments (gb_base db)"]
        inv entered(3) by (simp add: grade_inv_def)
    then have "mark_ok db m" if "m \<in> set marks" for m
      using that entered(4) by (fastforce simp: entered(2) mark_ok_def bulk_mark_def score_error_def find_enrolment_def find_None_all split: prod.splits)
    then obtain new where "grade_inv (snd (op_for (\<lambda>m _. insert_mark m) marks () db))"
        "snd (op_for (\<lambda>m _. insert_mark m) marks () db) = db\<lparr>gb_marks := gb_marks db @ new\<rparr>"
      using inserts_run[OF inv, of marks] by blast
    then show ?thesis using BulkGrades entered(5) by auto
  qed
next
  case (UpdateGrade policy now school i u profile)
  show ?thesis
  proof (cases rule: failed_or_done[OF failed_requests(2), of policy now school i u profile db])
    case 1
    then show ?thesis using inv UpdateGrade by (auto intro: exI[of _ "[]"])
  next
    case (2 m')
    obtain t m where "grading_teacher school profile db = Inr t" "find_mark i db = Some m" "school_of_mark m db = Some school" "owns_mark t profile m"
      and ok: "\<not> score_error (nullish (ug_score u) (mk_score m)) (nullish (ug_max u) (mk_max m))"
      and db': "snd (update_grade policy now school i u profile db) = db\<lparr>gb_marks := update_first (\<lambda>n. mk_id n = i) (edited_mark u) (gb_marks db)\<rparr>"
      by (rule update_grade_Inr[OF 2]) blast
    then have "by_author school profile i db m" by (auto simp: by_author_def)
    then show ?thesis using grade_inv_update[OF inv \<open>find_mark i db = Some m\<close> ok] UpdateGrade db' by auto
  qed
next
  case (DeleteGrade school i profile)
  show ?thesis
  proof (cases rule: failed_or_done[OF failed_requests(3), of school i profile db])
    case 1
    then show ?thesis using inv DeleteGrade by (auto intro: exI[of _ "[]"])
  next
    case (2 x)
    obtain t m where "grading_teacher school profile db = Inr t" "find_mark i db = Some m" "school_of_mark m db = Some school" "owns_mark t profile m"
      and db': "snd (delete_grade school i profile db) = db\<lparr>gb_marks := delete_where (\<lambda>n. mk_id n = i) (gb_marks db)\<rparr>"
      by (rule delete_grade_Inr[OF 2]) blast
    then have "by_author school profile i db m" by (auto simp: by_author_def)
    moreover have "grade_inv (db\<lparr>gb_marks := delete_where (\<lambda>n. mk_id n = i) (gb_marks db)\<rparr>)"
      using inv by (auto simp: grade_inv_def delete_where_def distinct_map_filter)
    ultimately show ?thesis using DeleteGrade db' by auto
  qed
qed

interpretation grades: step_system grade_step grade_inv
  by unfold_locales (use grade_step_effect in blast)

end
