(* ===== verification/GradeProperties.thy ===== *)
theory GradeProperties
  imports GradeFacts SchoolExample
begin

text \<open>
  The properties of the grades service and of the report card.
\<close>

section \<open>The grade table\<close>

text \<open>
  C20: through every run of requests that create, enter in bulk, edit or delete grades, in any order
  and by anyone, ids stay unique, every score lies between zero and its maximum, and every grade
  belongs to an enrollment.
\<close>

theorem grade_table_invariant:
  assumes "grade_inv db"
  shows "grade_inv (fold grade_step es db)"
  using assms by (rule grades.all_runs)


section \<open>Entering grades\<close>

text \<open>
  A grade that is created belongs to an active enrollment of the teacher's school, with a score in
  range, and when the request names its subject the teacher is the class teacher, is assigned to the
  subject in the class, or, for a subject by id, teaches it there by the timetable.
\<close>

theorem created_grade_correct:
  assumes run: "create_grade now i school dto profile db = (Inr m, db')"
  shows "db' = db\<lparr>gb_marks := gb_marks db @ [m]\<rparr> \<and> mk_id m = i \<and> 0 \<le> mk_score m \<and> mk_score m \<le> mk_max m \<and>
    (\<exists>t e. grading_teacher school profile db = Inr t \<and> mk_teacher m = te_id t \<and> te_school t = school \<and>
      find_enrolment (mk_enrolment m) db = Some e \<and> en_school e = school \<and> en_active e \<and>
      (if truthy (dg_subject_id dto) then mk_subject_id m = dg_subject_id dto \<and>
         may_grade_subject (te_id t) (the (dg_subject_id dto)) (class_scope (en_class e) (en_arm e)) db
       else truthy (dg_subject dto) \<longrightarrow> Some (mk_subject m) = dg_subject dto \<and>
         may_grade_name (te_id t) (mk_subject m) (name_scope (en_class e) (en_arm e)) db))"
proof (rule create_grade_Inr[OF run])
  fix t e sj nm year
  assume t: "grading_teacher school profile db = Inr t" and e: "find_enrolment (dg_enrolment dto) db = Some e" "en_school e = school" "en_active e"
    and ok: "\<not> score_error (dg_score dto) (dg_max dto)"
    and g: "graded_subject school (te_id t) (class_scope (en_class e) (en_arm e)) (name_scope (en_class e) (en_arm e)) (\<lambda>_. Inr ())
       (dg_subject_id dto) (dg_subject dto) db = Inr sj"
    and m: "m = new_mark now i (te_id t) dto sj (the nm, year)" and ins: "insert_mark m db = (Inr (), db')"
  have "if truthy (dg_subject_id dto) then fst sj = dg_subject_id dto \<and>
        may_grade_subject (te_id t) (the (dg_subject_id dto)) (class_scope (en_class e) (en_arm e)) db
      else truthy (dg_subject dto) \<longrightarrow> Some (snd sj) = dg_subject dto \<and> may_grade_name (te_id t) (snd sj) (name_scope (en_class e) (en_arm e)) db"
    using g by (auto simp: graded_subject_def truthy_def split: if_splits option.splits dest!: find_Some_in)
  moreover have "db' = db\<lparr>gb_marks := gb_marks db @ [m]\<rparr>" using ins by (simp add: insert_mark_Inr)
  ultimately show ?thesis using t e ok m grading_teacher_Inr[OF t] by (simp add: score_error_def not_less)
qed

text \<open>
  A teacher without any assignment or period may still grade every active enrollment of the
  school, published at once, by naming no subject at all; the entry in bulk refuses that request.
\<close>

theorem grade_without_subject_unchecked:
  assumes t: "grading_teacher school profile db = Inr t"
    and e: "find_enrolment (dg_enrolment dto) db = Some e" "en_school e = school" "en_active e"
    and score: "0 \<le> dg_score dto" "dg_score dto \<le> dg_max dto" and date: "\<not> future now (dg_date dto)"
    and no_subject: "\<not> truthy (dg_subject_id dto)" "\<not> truthy (dg_subject dto)"
    and named: "truthy (dg_term dto)" "\<not> truthy (dg_term_id dto)" and fresh: "\<forall>n\<in>set (gb_marks db). mk_id n \<noteq> i"
    and bulk: "\<not> truthy (bd_subject_id bulk)" "\<not> truthy (bd_subject bulk)"
    and no_duty: "\<forall>d\<in>set (gb_duties db). du_teacher d \<noteq> te_id t"
  shows "(\<exists>m. create_grade now i school dto profile db = (Inr m, db\<lparr>gb_marks := gb_marks db @ [m]\<rparr>) \<and>
      mk_subject m = [] \<and> mk_score m = dg_score dto \<and> mk_published m = dg_published dto) \<and>
    isl (fst (bulk_create_grades now ids school bulk profile db))"
proof
  have subject: "graded_subject school (te_id t) scope scope' (\<lambda>_. Inr ()) (dg_subject_id dto) (dg_subject dto) db = Inr (None, [])"
    for scope scope' using no_subject by (simp add: graded_subject_def)
  have names: "term_and_year (dg_term_id dto) (dg_term dto) y (gb_base db) = (dg_term dto, y)" for y
    using named by (simp add: term_and_year_def)
  have ok: "\<not> score_error (dg_score dto) (dg_max dto)" using score by (simp add: score_error_def)
  have no_term: "or_undefined (dg_term_id dto) = None" using named(2) by (simp add: or_undefined_def)
  have insert: "insert_mark m db = (Inr (), db\<lparr>gb_marks := gb_marks db @ [m]\<rparr>)" if "mk_id m = i" "mk_term_id m = None" for m
    using fresh that by (simp add: insert_mark_Inr)
  show "\<exists>m. create_grade now i school dto profile db = (Inr m, db\<lparr>gb_marks := gb_marks db @ [m]\<rparr>) \<and>
      mk_subject m = [] \<and> mk_score m = dg_score dto \<and> mk_published m = dg_published dto"
    using create_grade_run[OF t e ok date subject names named(1) insert[OF new_mark_fields(1)]] no_term by auto
  have "\<not> has_duty (\<lambda>_. True) (te_id t) scope db" for scope using no_duty by (auto simp: has_duty_def list_ex_iff)
  then show "isl (fst (bulk_create_grades now ids school bulk profile db))"
    using t bulk by (auto simp: bulk_create_grades_def op_bind_def graded_subject_def Let_def split: option.splits)
qed

section \<open>Editing grades\<close>

text \<open>
  Once the lock date of the term has passed no edit changes a score or the publication of a grade,
  but the maximum stays open: every maximum not below the score is accepted, and with it any
  percentage.
\<close>

theorem lock_leaves_maximum_open:
  assumes t: "grading_teacher school profile db = Inr t"
    and m: "find_mark i db = Some m" "school_of_mark m db = Some school" "owns_mark t profile m"
    and locked: "lock_passed (policy school) now m (gb_base db)"
  shows "(update_grade policy now school i u profile db = (Inr m', db') \<longrightarrow>
      mk_score m' = mk_score m \<and> mk_published m' = mk_published m) \<and>
    (0 \<le> mk_score m \<and> mk_score m \<le> x \<longrightarrow> (\<exists>m' db'.
      update_grade policy now school i \<lparr>ug_score = None, ug_max = Some x, ug_remarks = None, ug_subject = None, ug_name = None,
        ug_date = None, ug_sequence = None, ug_published = None\<rparr> profile db = (Inr m', db') \<and>
      find_mark i db' = Some m' \<and> mk_score m' = mk_score m \<and> mk_max m' = x))"
proof (intro conjI impI)
  assume "update_grade policy now school i u profile db = (Inr m', db')"
  then have "mk_score m' = mk_score m \<and> mk_published m' = mk_published m"
    by (rule update_grade_Inr) (use m(1) locked in auto)
  then show "mk_score m' = mk_score m" "mk_published m' = mk_published m" by simp_all
next
  let ?u = "\<lparr>ug_score = None, ug_max = Some x, ug_remarks = None, ug_subject = None, ug_name = None,
        ug_date = None, ug_sequence = None, ug_published = None\<rparr>"
  let ?db = "db\<lparr>gb_marks := update_first (\<lambda>n. mk_id n = i) (edited_mark ?u) (gb_marks db)\<rparr>"
  assume "0 \<le> mk_score m \<and> mk_score m \<le> x"
  then have "update_grade policy now school i ?u profile db = (Inr (edited_mark ?u m), ?db)"
    using t m by (simp add: update_grade_def op_bind_def op_then_def op_require_eval score_error_def future_def not_less)
  moreover have "find (\<lambda>n. mk_id n = i) (update_first (\<lambda>n. mk_id n = i) (edited_mark ?u) rows) = map_option (edited_mark ?u) (find (\<lambda>n. mk_id n = i) rows)"
    for rows by (induction rows) auto
  then have "find_mark i ?db = Some (edited_mark ?u m)" using m(1) by (simp add: find_mark_def)
  ultimately show "\<exists>m' db'. update_grade policy now school i ?u profile db = (Inr m', db') \<and>
      find_mark i db' = Some m' \<and> mk_score m' = mk_score m \<and> mk_max m' = x"
    by (intro exI[of _ "edited_mark ?u m"] exI[of _ ?db]) simp
qed

text \<open>
  An edit keeps every field the request does not name, except the date of the assessment, which
  every edit without a date erases.
\<close>

theorem edit_erases_assessment_date:
  assumes run: "update_grade policy now school i u profile db = (Inr m', db')" and m: "find_mark i db = Some m"
    and unnamed: "ug_date u = None" "ug_score u = None" "ug_max u = None" "ug_name u = None"
  shows "mk_date m' = None \<and> m'\<lparr>mk_date := mk_date m\<rparr> =
    m\<lparr>mk_remarks := nullish (ug_remarks u) (mk_remarks m), mk_subject := nullish (ug_subject u) (mk_subject m),
      mk_sequence := nullish (ug_sequence u) (mk_sequence m), mk_published := nullish (ug_published u) (mk_published m)\<rparr>"
proof (rule update_grade_Inr[OF run])
  fix n assume n: "find_mark i db = Some n" and m': "m' = edited_mark u n"
  have "n = m" using n m by simp
  then show ?thesis using unnamed by (simp add: m' edited_mark_def)
qed

text \<open>
  Where grades need approval no edit publishes one, yet the same grade created as published is
  accepted whenever it is accepted unpublished: the approval is asked for at edits only.
\<close>

theorem approval_not_asked_at_creation:
  assumes approval: "gp_approval (policy school)"
    and made: "create_grade now i school dto profile db = (Inr m, db')"
  shows "(\<exists>db''. create_grade now i school (dto\<lparr>dg_published := True\<rparr>) profile db = (Inr (m\<lparr>mk_published := True\<rparr>), db'')) \<and>
    (mk_published m \<or> (ug_published u = Some True \<longrightarrow> isl (fst (update_grade policy now' school i u profile' db'))))"
proof (rule create_grade_Inr[OF made])
  fix t e sj nm year
  assume t: "grading_teacher school profile db = Inr t" and e: "find_enrolment (dg_enrolment dto) db = Some e" "en_school e = school" "en_active e"
    and ok: "\<not> score_error (dg_score dto) (dg_max dto)" "\<not> future now (dg_date dto)"
    and g: "graded_subject school (te_id t) (class_scope (en_class e) (en_arm e)) (name_scope (en_class e) (en_arm e)) (\<lambda>_. Inr ())
       (dg_subject_id dto) (dg_subject dto) db = Inr sj"
    and n: "term_and_year (dg_term_id dto) (dg_term dto) (nullish (or_undefined (dg_year dto)) (en_year e)) (gb_base db) = (nm, year)" "truthy nm"
    and m: "m = new_mark now i (te_id t) dto sj (the nm, year)" and ins: "insert_mark m db = (Inr (), db')"
  let ?dto = "dto\<lparr>dg_published := True\<rparr>"
  have m': "new_mark now i (te_id t) ?dto sj (the nm, year) = m\<lparr>mk_published := True\<rparr>" by (simp add: m new_mark_def split_beta)
  have "insert_mark (m\<lparr>mk_published := True\<rparr>) db = (Inr (), db\<lparr>gb_marks := gb_marks db @ [m\<lparr>mk_published := True\<rparr>]\<rparr>)"
    using ins by (simp add: insert_mark_Inr)
  then have "create_grade now i school ?dto profile db = (Inr (m\<lparr>mk_published := True\<rparr>), db\<lparr>gb_marks := gb_marks db @ [m\<lparr>mk_published := True\<rparr>]\<rparr>)"
    using create_grade_run[where dto = ?dto, OF t _ e(2,3) _ _ _ _ n(2)] e(1) ok g n(1) by (simp add: m')
  moreover have "isl (fst (update_grade policy now' school i u profile' db'))" if "\<not> mk_published m" "ug_published u = Some True"
  proof -
    have found: "find_mark i db' = Some m" using ins by (auto simp: insert_mark_Inr find_mark_def find_append m find_None_all split: option.splits dest: find_Some_in)
    show ?thesis
    proof (rule ccontr)
      let ?r = "update_grade policy now' school i u profile' db'"
      assume "\<not> isl (fst ?r)"
      then have "?r = (Inr (projr (fst ?r)), snd ?r)" by (metis prod.collapse sum.collapse(2))
      then show False by (rule update_grade_Inr) (use found that approval in auto)
    qed
  qed
  ultimately show ?thesis by blast
qed

section \<open>Report cards\<close>

definition subject_sums :: "mark_row list \<Rightarrow> string \<Rightarrow> subject_total" where
  "subject_sums ms k =
     (let ca = filter (\<lambda>m. subject_key m = k \<and> mk_type m \<noteq> GRADE_EXAM) ms;
          ex = filter (\<lambda>m. subject_key m = k \<and> mk_type m = GRADE_EXAM) ms
      in \<lparr>to_ca = sum_list (map mk_score ca), to_ca_max = sum_list (map mk_max ca),
          to_exam = sum_list (map mk_score ex), to_exam_max = sum_list (map mk_max ex)\<rparr>)"

lemma subject_sums_snoc:
  "subject_sums (ms @ [m]) k = (if subject_key m = k then add_mark m (subject_sums ms k) else subject_sums ms k)"
  by (auto simp: subject_sums_def add_mark_def Let_def)

lemma add_to_totals_map:
  "map_of (add_to_totals m ts) k =
    (if k = subject_key m then Some (add_mark m (nullish (map_of ts (subject_key m)) no_total)) else map_of ts k)"
  by (simp add: add_to_totals_def update_conv)

lemma totals_map:
  "map_of (fold add_to_totals ms []) k = (if k \<in> subject_key ` set ms then Some (subject_sums ms k) else None)"
proof (induction ms arbitrary: k rule: rev_induct)
  case (snoc m ms)
  have "no_total = subject_sums ms (subject_key m)" if "subject_key m \<notin> subject_key ` set ms"
  proof -
    have "\<forall>n\<in>set ms. subject_key n \<noteq> subject_key m" using that by (metis image_eqI)
    then have "filter (\<lambda>n. subject_key n = subject_key m \<and> P n) ms = []" for P by (simp add: filter_empty_conv)
    then show ?thesis by (simp add: subject_sums_def no_total_def)
  qed
  then show ?case by (auto simp: add_to_totals_map snoc subject_sums_snoc)
qed simp

lemma totals_keys:
  "distinct (map fst (fold add_to_totals ms [])) \<and> set (map fst (fold add_to_totals ms [])) = subject_key ` set ms"
proof (induction ms rule: rev_induct)
  case (snoc m ms)
  then show ?case by (auto simp: add_to_totals_def update_keys)
qed simp

lemma sum_over_map:
  assumes "distinct (map fst al)"
  shows "sum_list (map (f \<circ> snd) al) = (\<Sum>k\<in>set (map fst al). f (the (map_of al k)))"
proof -
  have "map (f \<circ> snd) al = map (\<lambda>k. f (the (map_of al k))) (map fst al)"
  proof -
    have "f (snd x) = f (the (map_of al (fst x)))" if "x \<in> set al" for x
      using map_of_is_SomeI[OF assms, of "fst x" "snd x"] that by simp
    then show ?thesis by simp
  qed
  then show ?thesis using assms sum_list_distinct_conv_sum_set by metis
qed

lemma overall_average_eq:
  "overall_average ca ex ms = (\<Sum>k\<in>subject_key ` set ms. subject_percentage ca ex (subject_sums ms k)) / of_nat (card (subject_key ` set ms))"
proof -
  let ?t = "fold add_to_totals ms []"
  have d: "distinct (map fst ?t)" and s: "set (map fst ?t) = subject_key ` set ms" using totals_keys by blast+
  have "sum_list (map (subject_percentage ca ex \<circ> snd) ?t) = (\<Sum>k\<in>subject_key ` set ms. subject_percentage ca ex (subject_sums ms k))"
    unfolding sum_over_map[OF d] s by (intro sum.cong) (simp_all add: totals_map)
  moreover have "length ?t = card (subject_key ` set ms)" using distinct_card[OF d] s by simp
  ultimately show ?thesis by (auto simp: overall_average_def Let_def)
qed

lemma weighted_bounds:
  assumes "\<And>p. ca = Some p \<Longrightarrow> 0 \<le> p \<and> p \<le> 100" "\<And>p. ex = Some p \<Longrightarrow> 0 \<le> p \<and> p \<le> 100" "0 \<le> a" "0 \<le> b"
  shows "0 \<le> weighted_subject_percentage ca ex a b \<and> weighted_subject_percentage ca ex a b \<le> 100"
proof (cases "ca \<noteq> None \<and> ex \<noteq> None \<and> 0 < a + b")
  case True
  then obtain c x where cx: "ca = Some c" "ex = Some x" by auto
  have "c * a + x * b \<le> 100 * a + 100 * b" "0 \<le> c * a + x * b"
    using assms cx by (auto intro!: add_mono mult_right_mono)
  then show ?thesis using True cx by (simp add: weighted_subject_percentage_def divide_le_eq field_simps)
next
  case False
  then show ?thesis using assms by (auto simp: weighted_subject_percentage_def split: option.splits)
qed

lemma share_bounds: "0 \<le> s \<Longrightarrow> s \<le> (m::rat) \<Longrightarrow> 0 < m \<Longrightarrow> 0 \<le> s * 100 / m \<and> s * 100 / m \<le> 100"
  by (simp add: divide_le_eq)

lemma subject_percentage_bounds:
  assumes "\<forall>m\<in>set ms. 0 \<le> mk_score m \<and> mk_score m \<le> mk_max m" "0 \<le> a" "0 \<le> b"
  shows "0 \<le> subject_percentage a b (subject_sums ms k) \<and> subject_percentage a b (subject_sums ms k) \<le> 100"
proof -
  have "0 \<le> sum_list (map mk_score (filter P ms)) \<and> sum_list (map mk_score (filter P ms)) \<le> sum_list (map mk_max (filter P ms))" for P
    using assms(1) by (induction ms) (auto intro: add_mono)
  then have "0 \<le> sum_list (map mk_score (filter P ms)) / m * 100 \<and> sum_list (map mk_score (filter P ms)) / m * 100 \<le> 100"
    if "m = sum_list (map mk_max (filter P ms))" "0 < m" for P m using share_bounds that by simp
  then show ?thesis
    unfolding subject_percentage_def subject_sums_def Let_def
    by (intro weighted_bounds assms) (force split: if_splits)+
qed


section \<open>Witnesses\<close>

definition ex_grading_policy :: "ident \<Rightarrow> grading_policy" where
  "ex_grading_policy _ = \<lparr>gp_lock_days = None, gp_approval = True, gp_scale = ''A1_F9'', gp_ca_weight = 40, gp_exam_weight = 60\<rparr>"

definition ex_mark :: "ident \<Rightarrow> grade_type \<Rightarrow> rat \<Rightarrow> bool \<Rightarrow> mark_row" where
  "ex_mark i ty score published = \<lparr>mk_id = i, mk_enrolment = ''e1'', mk_teacher = ''T'', mk_term_id = Some ''t1'', mk_subject_id = None,
     mk_subject = ''Maths'', mk_type = ty, mk_name = None, mk_date = Some 3, mk_sequence = None, mk_score = score, mk_max = 50,
     mk_term = ''1st Term'', mk_year = ''2024/2025'', mk_remarks = None, mk_published = published, mk_created = 4\<rparr>"

definition ex_grade_db :: grade_db where
  "ex_grade_db = \<lparr>gb_base = (ex_session_db [ex_term_enrolment ''e1'' ''ada'' (Some ''t1'')])
       \<lparr>sd_terms := [blank_term ''t1'' ''1st Term'' 1 0 ms_per_day TERM_ACTIVE ''S'']\<rparr>,
     gb_teachers = [\<lparr>te_id = ''T'', te_code = ''TCH'', te_user = ''tu'', te_school = ''s'', te_first = ''Ife'', te_last = ''Ade''\<rparr>], gb_subjects = [], gb_duties = [],
     gb_pupils = [\<lparr>pu_id = ''ada'', pu_user = ''u'', pu_first = ''Ada'', pu_last = ''Obi''\<rparr>],
     gb_marks = [ex_mark ''m1'' GRADE_CA 40 True, ex_mark ''m2'' GRADE_EXAM 25 True, ex_mark ''m3'' GRADE_CA 10 False]\<rparr>"

lemmas ex_grade_defs = ex_grade_db_def ex_mark_def ex_session_db_def ex_term_enrolment_def ex_session_school_def

lemma ex_grade_inv: "grade_inv ex_grade_db"
  by (simp add: ex_grade_defs grade_inv_def mark_ok_def find_enrolment_def)

lemma ex_grading_teacher: "grading_teacher ''s'' (Some ''T'') ex_grade_db = Inr \<lparr>te_id = ''T'', te_code = ''TCH'', te_user = ''tu'', te_school = ''s'', te_first = ''Ife'', te_last = ''Ade''\<rparr>"
  by (simp add: ex_grade_defs grading_teacher_def find_school_def resolve_teacher_profile_def)

definition ex_grade_dto :: grade_dto where
  "ex_grade_dto = \<lparr>dg_enrolment = ''e1'', dg_subject_id = None, dg_subject = None, dg_type = GRADE_CA, dg_name = None, dg_date = None,
     dg_sequence = None, dg_score = 50, dg_max = 50, dg_term = Some ''1st Term'', dg_term_id = None, dg_year = None, dg_remarks = None,
     dg_published = False\<rparr>"

definition ex_bulk_dto :: bulk_dto where
  "ex_bulk_dto = \<lparr>bd_class = ''JSS1A'', bd_subject_id = None, bd_subject = None, bd_type = GRADE_CA, bd_name = None, bd_date = None,
     bd_sequence = None, bd_max = 50, bd_term_id = None, bd_year = None, bd_published = True, bd_entries = [(''e1'', 50, None)]\<rparr>"

definition ex_grade_update :: grade_update where
  "ex_grade_update = \<lparr>ug_score = None, ug_max = None, ug_remarks = Some (Some ''well done''), ug_subject = None, ug_name = None,
     ug_date = None, ug_sequence = None, ug_published = None\<rparr>"

theorem grade_table_invariant_witness:
  "grade_inv (fold grade_step [CreateGrade 5 ''m4'' ''s'' ex_grade_dto (Some ''T''), DeleteGrade ''s'' ''m1'' (Some ''T'')] ex_grade_db)"
  by (rule grade_table_invariant[OF ex_grade_inv])

lemma ex_deleted: "ex_mark ''m1'' GRADE_CA 40 True \<notin> set (gb_marks (grade_step (DeleteGrade ''s'' ''m1'' (Some ''T'')) ex_grade_db))"
  by code_simp


lemma ex_created: "\<not> isl (fst (create_grade 5 ''m4'' ''s'' ex_grade_dto (Some ''T'') ex_grade_db))"
  by code_simp

theorem created_grade_correct_witness:
  "\<exists>m db'. create_grade 5 ''m4'' ''s'' ex_grade_dto (Some ''T'') ex_grade_db = (Inr m, db') \<and>
    db' = ex_grade_db\<lparr>gb_marks := gb_marks ex_grade_db @ [m]\<rparr> \<and> 0 \<le> mk_score m \<and> mk_score m \<le> mk_max m"
proof -
  obtain m db' where "create_grade 5 ''m4'' ''s'' ex_grade_dto (Some ''T'') ex_grade_db = (Inr m, db')"
    using ex_created by (metis prod.collapse sum.collapse(2))
  with created_grade_correct[OF this] show ?thesis by blast
qed

theorem grade_without_subject_unchecked_witness:
  "isl (fst (bulk_create_grades 5 (\<lambda>i. i) ''s'' ex_bulk_dto (Some ''T'') ex_grade_db))"
  using grade_without_subject_unchecked[OF ex_grading_teacher, of ex_grade_dto "ex_term_enrolment ''e1'' ''ada'' (Some ''t1'')" 5 "''m4''" ex_bulk_dto]
  by (simp add: ex_grade_defs ex_grade_dto_def ex_bulk_dto_def find_enrolment_def truthy_def future_def)

definition ex_locked_policy :: "ident \<Rightarrow> grading_policy" where
  "ex_locked_policy s = (ex_grading_policy s)\<lparr>gp_lock_days := Some 0\<rparr>"

theorem lock_leaves_maximum_open_witness:
  "\<exists>m' db'. update_grade ex_locked_policy (5 * ms_per_day) ''s'' ''m1'' \<lparr>ug_score = None, ug_max = Some 400, ug_remarks = None, ug_subject = None,
      ug_name = None, ug_date = None, ug_sequence = None, ug_published = None\<rparr> (Some ''T'') ex_grade_db = (Inr m', db') \<and>
    find_mark ''m1'' db' = Some m' \<and> mk_score m' = 40 \<and> mk_max m' = 400"
proof -
  have "lock_passed (ex_locked_policy ''s'') (5 * ms_per_day) (ex_mark ''m1'' GRADE_CA 40 True) (gb_base ex_grade_db)" by code_simp
  moreover have "school_of_mark (ex_mark ''m1'' GRADE_CA 40 True) ex_grade_db = Some ''s''" by code_simp
  ultimately show ?thesis
    using lock_leaves_maximum_open[OF ex_grading_teacher, of "''m1''" "ex_mark ''m1'' GRADE_CA 40 True"]
    by (auto simp: ex_grade_db_def ex_mark_def find_mark_def owns_mark_def)
qed

lemma ex_report: "\<not> isl (export_report_card ex_grading_policy ''u'' ''t1'' ex_grade_db)"
  by code_simp


end
