(* ===== verification/ExamTimetable.thy ===== *)
theory ExamTimetable
  imports OpMonad SessionDates SchoolTables
begin

text \<open>
  The exam timetable of a term, \<open>src/src/exam-timetable/exam-timetable.service.ts\<close>, over the session
  tables: slots are edited while the timetable is not published, publishing freezes them, and the
  publication of an exam assessment waits for the window, the timetable and the scheme of work.
  Dates of a request are given parsed. The names shown with a slot come from tables of names.
\<close>

section \<open>Tables\<close>

record exam_slot =
  xs_id :: ident
  xs_term :: ident
  xs_date :: date
  xs_start :: string
  xs_end :: string
  xs_subject :: ident
  xs_class :: "ident option"
  xs_arm :: "ident option"
  xs_teacher :: "ident option"
  xs_room :: "ident option"
  xs_notes :: "string option"

datatype scheme_status =
    SCHEME_QUEUED | SCHEME_VERIFYING | SCHEME_GENERATING | SCHEME_DRAFT | SCHEME_APPROVED | SCHEME_PUBLISHED
  | SCHEME_FAILED | SCHEME_CANCELLED | SCHEME_ARCHIVED

text \<open>A scheme of work with the flag \<open>isDelivered\<close> of each of its weeks.\<close>

record scheme_row =
  so_school :: ident
  so_term :: ident
  so_subject :: ident
  so_class :: "ident option"
  so_arm :: "ident option"
  so_status :: scheme_status
  so_updated :: date
  so_delivered :: "bool list"

record exam_db =
  xb_base :: session_db
  xb_slots :: "exam_slot list"
  xb_schemes :: "scheme_row list"
  xb_subjects :: "subject_row list"
  xb_teachers :: "teacher_row list"
  xb_rooms :: "room_row list"

type_synonym 'a exam_op = "(exam_db, 'a) op"

definition find_slot :: "ident \<Rightarrow> exam_db \<Rightarrow> exam_slot option" where
  "find_slot i db = find (\<lambda>s. xs_id s = i) (xb_slots db)"

section \<open>Checks\<close>

definition assert_term_belongs_to_school :: "ident \<Rightarrow> ident \<Rightarrow> exam_db \<Rightarrow> http_error + academic_term" where
  "assert_term_belongs_to_school school tid db =
     (case term_of_school school tid (xb_base db) of
        None \<Rightarrow> Inl (NotFound ''Term not found'')
      | Some t \<Rightarrow> Inr t)"

definition exam_window_set :: "academic_term \<Rightarrow> bool" where
  "exam_window_set t = (tr_exam_start t \<noteq> None \<and> tr_exam_end t \<noteq> None)"

definition window_error :: http_error where
  "window_error = BadRequest ''Set exam start and end dates on the term before managing exam slots.''"

text \<open>\<open>assertDateInExamWindow\<close>, which accepts every date while the window is not set.\<close>

definition date_in_exam_window :: "int \<Rightarrow> date \<Rightarrow> academic_term \<Rightarrow> bool" where
  "date_in_exam_window tz d t =
     (case (tr_exam_start t, tr_exam_end t) of
        (Some s, Some e) \<Rightarrow>
          (let x = start_of_local_day tz d
           in \<not> (x < start_of_local_day tz s \<or> start_of_local_day tz e < x))
      | _ \<Rightarrow> True)"

definition date_error :: http_error where
  "date_error = BadRequest ''Exam slot date must fall within the term exam window.''"

text \<open>The rows a slot points to exist (foreign keys).\<close>

definition slot_refs_ok :: "exam_slot \<Rightarrow> exam_db \<Rightarrow> bool" where
  "slot_refs_ok s db =
     (find_subject (xs_subject s) (xb_subjects db) \<noteq> None \<and>
      (case xs_class s of None \<Rightarrow> True | Some c \<Rightarrow> find_class c (xb_base db) \<noteq> None) \<and>
      (case xs_arm s of None \<Rightarrow> True | Some a \<Rightarrow> find_arm a (xb_base db) \<noteq> None) \<and>
      (case xs_teacher s of None \<Rightarrow> True | Some t \<Rightarrow> find_teacher t (xb_teachers db) \<noteq> None) \<and>
      (case xs_room s of None \<Rightarrow> True | Some r \<Rightarrow> find_room r (xb_rooms db) \<noteq> None))"

definition reference_error :: http_error where
  "reference_error = JsError ''Foreign key constraint failed''"

section \<open>Editing slots\<close>

record slot_dto =
  sf_term :: ident
  sf_date :: date
  sf_start :: string
  sf_end :: string
  sf_subject :: ident
  sf_class :: "ident option"
  sf_arm :: "ident option"
  sf_teacher :: "ident option"
  sf_room :: "ident option"
  sf_notes :: "string option"

definition new_slot :: "int \<Rightarrow> ident \<Rightarrow> slot_dto \<Rightarrow> exam_slot" where
  "new_slot tz i dto =
     \<lparr>xs_id = i, xs_term = sf_term dto, xs_date = start_of_local_day tz (sf_date dto), xs_start = sf_start dto,
      xs_end = sf_end dto, xs_subject = sf_subject dto, xs_class = sf_class dto, xs_arm = sf_arm dto,
      xs_teacher = sf_teacher dto, xs_room = sf_room dto, xs_notes = sf_notes dto\<rparr>"

definition insert_slot :: "exam_slot \<Rightarrow> unit exam_op" where
  "insert_slot s =
     op_bind (op_get (\<lambda>db. slot_refs_ok s db \<and> find_slot (xs_id s) db = None)) (\<lambda>ok.
     op_then (op_require ok reference_error)
       (op_modify (\<lambda>db. db\<lparr>xb_slots := xb_slots db @ [s]\<rparr>)))"

definition create_slot :: "int \<Rightarrow> ident \<Rightarrow> ident \<Rightarrow> slot_dto \<Rightarrow> exam_slot exam_op" where
  "create_slot tz new_id school dto =
     op_bind (op_lift (assert_term_belongs_to_school school (sf_term dto))) (\<lambda>t.
     op_then (op_require (exam_window_set t) window_error) (
     op_then (op_require (date_in_exam_window tz (sf_date dto) t) date_error) (
     op_then (op_require (tr_published t = None) (BadRequest ''Unpublish the exam timetable before adding or editing slots.'')) (
     op_then (insert_slot (new_slot tz new_id dto)) (op_ret (new_slot tz new_id dto))))))"

text \<open>An absent field is None; the second option of a field that can be cleared is its new value.\<close>

record slot_update =
  su_date :: "date option"
  su_start :: "string option"
  su_end :: "string option"
  su_subject :: "string option"
  su_class :: "string option"
  su_arm :: "string option"
  su_teacher :: "string option"
  su_room :: "string option"
  su_notes :: "string option"

text \<open>\<open>dto.x !== undefined && \{ x: dto.x || null \}\<close>.\<close>

definition reset_field :: "string option \<Rightarrow> ident option \<Rightarrow> ident option" where
  "reset_field new old = (case new of None \<Rightarrow> old | Some _ \<Rightarrow> or_undefined new)"

definition edited_slot :: "int \<Rightarrow> slot_update \<Rightarrow> exam_slot \<Rightarrow> exam_slot" where
  "edited_slot tz u s =
     s\<lparr>xs_date := (case su_date u of None \<Rightarrow> xs_date s | Some d \<Rightarrow> start_of_local_day tz d),
       xs_start := nullish (or_undefined (su_start u)) (xs_start s),
       xs_end := nullish (or_undefined (su_end u)) (xs_end s),
       xs_subject := nullish (or_undefined (su_subject u)) (xs_subject s),
       xs_class := reset_field (su_class u) (xs_class s), xs_arm := reset_field (su_arm u) (xs_arm s),
       xs_teacher := reset_field (su_teacher u) (xs_teacher s), xs_room := reset_field (su_room u) (xs_room s),
       xs_notes := (if su_notes u = None then xs_notes s else su_notes u)\<rparr>"

text \<open>The slot with its term, when the term is of the school.\<close>

definition slot_of_school :: "ident \<Rightarrow> ident \<Rightarrow> exam_db \<Rightarrow> http_error + exam_slot \<times> academic_term" where
  "slot_of_school school i db =
     (case find_slot i db of
        None \<Rightarrow> Inl (NotFound ''Exam slot not found'')
      | Some s \<Rightarrow>
          (case term_of_school school (xs_term s) (xb_base db) of
             None \<Rightarrow> Inl (NotFound ''Exam slot not found'')
           | Some t \<Rightarrow> Inr (s, t)))"

definition update_slot :: "int \<Rightarrow> ident \<Rightarrow> ident \<Rightarrow> slot_update \<Rightarrow> exam_slot exam_op" where
  "update_slot tz school i u =
     op_bind (op_lift (slot_of_school school i)) (\<lambda>(s, t).
     op_then (op_require (tr_published t = None) (BadRequest ''Unpublish the exam timetable before editing slots.'')) (
     op_then (op_require (case su_date u of None \<Rightarrow> True | Some d \<Rightarrow> date_in_exam_window tz d t) date_error) (
     op_bind (op_get (slot_refs_ok (edited_slot tz u s))) (\<lambda>ok.
     op_then (op_require ok reference_error) (
     op_then (op_modify (\<lambda>db. db\<lparr>xb_slots := update_first (\<lambda>r. xs_id r = i) (edited_slot tz u) (xb_slots db)\<rparr>))
       (op_ret (edited_slot tz u s)))))))"

definition delete_slot :: "ident \<Rightarrow> ident \<Rightarrow> unit exam_op" where
  "delete_slot school i =
     op_bind (op_lift (slot_of_school school i)) (\<lambda>(s, t).
     op_then (op_require (tr_published t = None) (BadRequest ''Unpublish the exam timetable before deleting slots.''))
       (op_modify (\<lambda>db. db\<lparr>xb_slots := delete_where (\<lambda>r. xs_id r = i) (xb_slots db)\<rparr>)))"

section \<open>Publishing\<close>

definition mark_published :: "date option \<Rightarrow> ident option \<Rightarrow> academic_term \<Rightarrow> academic_term" where
  "mark_published stamp user t = t\<lparr>tr_published := stamp, tr_published_by := user\<rparr>"

definition on_exam_term :: "ident \<Rightarrow> (academic_term \<Rightarrow> academic_term) \<Rightarrow> exam_db \<Rightarrow> exam_db" where
  "on_exam_term tid f db = db\<lparr>xb_base := update_term tid f (xb_base db)\<rparr>"

definition publish_exam_timetable :: "date \<Rightarrow> ident \<Rightarrow> ident \<Rightarrow> ident \<Rightarrow> (date option \<times> nat) exam_op" where
  "publish_exam_timetable now school tid user =
     op_bind (op_lift (assert_term_belongs_to_school school tid)) (\<lambda>t.
     op_then (op_require (exam_window_set t) window_error) (
     op_bind (op_get (\<lambda>db. count_where (\<lambda>s. xs_term s = tid) (xb_slots db))) (\<lambda>n.
     op_then (op_require (n \<noteq> 0) (BadRequest ''Add at least one exam slot before publishing the exam timetable.'')) (
     op_then (op_modify (on_exam_term tid (mark_published (Some now) (Some user))))
       (op_ret (Some now, n))))))"

definition unpublish_exam_timetable :: "ident \<Rightarrow> ident \<Rightarrow> unit exam_op" where
  "unpublish_exam_timetable school tid =
     op_bind (op_lift (assert_term_belongs_to_school school tid)) (\<lambda>t.
       op_modify (on_exam_term tid (mark_published None None)))"

section \<open>Views\<close>

record slot_view =
  sw_slot :: exam_slot
  sw_subject :: "string option"
  sw_class :: "string option"
  sw_arm :: "string option"
  sw_teacher :: "string option"
  sw_room :: "string option"

definition map_slot :: "exam_db \<Rightarrow> exam_slot \<Rightarrow> slot_view" where
  "map_slot db s =
     \<lparr>sw_slot = s, sw_subject = map_option sj_name (find_subject (xs_subject s) (xb_subjects db)),
      sw_class = Option.bind (xs_class s) (\<lambda>c. map_option sc_name (find_class c (xb_base db))),
      sw_arm = Option.bind (xs_arm s) (\<lambda>a. map_option la_name (find_arm a (xb_base db))),
      sw_teacher = Option.bind (xs_teacher s) (\<lambda>t. map_option (\<lambda>r. trim (te_first r @ '' '' @ te_last r)) (find_teacher t (xb_teachers db))),
      sw_room = Option.bind (xs_room s) (\<lambda>r. map_option ro_name (find_room r (xb_rooms db)))\<rparr>"

definition ordered_slots :: "(exam_slot \<Rightarrow> bool) \<Rightarrow> exam_db \<Rightarrow> slot_view list" where
  "ordered_slots p db = map (map_slot db) (sort_key (\<lambda>s. (xs_date s, xs_start s)) (filter p (xb_slots db)))"

definition timetable_published :: "ident \<Rightarrow> exam_db \<Rightarrow> bool" where
  "timetable_published tid db =
     (case find_term tid (xb_base db) of None \<Rightarrow> False | Some t \<Rightarrow> tr_published t \<noteq> None)"

definition list_slots :: "ident \<Rightarrow> ident \<Rightarrow> bool \<Rightarrow> exam_db \<Rightarrow> http_error + slot_view list" where
  "list_slots school tid published_only db =
     (case assert_term_belongs_to_school school tid db of
        Inl e \<Rightarrow> Inl e
      | Inr _ \<Rightarrow>
          if published_only \<and> \<not> timetable_published tid db then Inr []
          else Inr (ordered_slots (\<lambda>s. xs_term s = tid) db))"

definition list_slots_for_teacher :: "ident \<Rightarrow> ident \<Rightarrow> ident \<Rightarrow> exam_db \<Rightarrow> http_error + slot_view list" where
  "list_slots_for_teacher school teacher tid db =
     (case assert_term_belongs_to_school school tid db of
        Inl e \<Rightarrow> Inl e
      | Inr _ \<Rightarrow>
          if \<not> timetable_published tid db then Inr []
          else Inr (ordered_slots (\<lambda>s. xs_term s = tid \<and> xs_teacher s = Some teacher) db))"

definition resolve_active_term_id :: "ident \<Rightarrow> session_db \<Rightarrow> ident option" where
  "resolve_active_term_id school db =
     (case find (\<lambda>s. sn_school s = school \<and> sn_status s = SESSION_ACTIVE) (sd_sessions db) of
        None \<Rightarrow> None
      | Some s \<Rightarrow> map_option tr_id (find (active_term_of (sn_id s)) (sd_terms db)))"

text \<open>The slots of a student: of the arm, else of the class, and those that name none.\<close>

definition slot_for_enrolment :: "term_enrolment \<Rightarrow> exam_slot \<Rightarrow> bool" where
  "slot_for_enrolment e s =
     (if truthy (en_arm e) then xs_arm s = en_arm e \<or> xs_arm s = None
      else if truthy (en_class e) then xs_class s = en_class e \<or> xs_class s = None
      else True)"

definition list_slots_for_student :: "ident \<Rightarrow> ident \<Rightarrow> ident option \<Rightarrow> exam_db \<Rightarrow> slot_view list" where
  "list_slots_for_student school student tid db =
     (case find (\<lambda>e. en_student e = student \<and> en_active e \<and> en_school e = school) (sd_enrolments (xb_base db)) of
        None \<Rightarrow> []
      | Some e \<Rightarrow>
          (case or_else tid (resolve_active_term_id school (xb_base db)) of
             None \<Rightarrow> []
           | Some t \<Rightarrow>
               if t = [] \<or> \<not> timetable_published t db then []
               else ordered_slots (\<lambda>s. xs_term s = t \<and> slot_for_enrolment e s) db))"

section \<open>The gate of exam assessments\<close>

record scheme_coverage =
  cg_found :: bool
  cg_complete :: bool
  cg_delivered :: nat
  cg_total :: nat

definition scheme_for :: "ident \<Rightarrow> ident \<Rightarrow> ident \<Rightarrow> ident option \<Rightarrow> ident option \<Rightarrow> scheme_row \<Rightarrow> bool" where
  "scheme_for school tid subject cls arm s =
     (so_school s = school \<and> so_term s = tid \<and> so_subject s = subject \<and> so_status s \<in> {SCHEME_PUBLISHED, SCHEME_APPROVED} \<and>
      (truthy arm \<or> truthy cls \<longrightarrow> truthy arm \<and> so_arm s = arm \<or> truthy cls \<and> so_class s = cls))"

definition latest_scheme :: "(scheme_row \<Rightarrow> bool) \<Rightarrow> scheme_row list \<Rightarrow> scheme_row option" where
  "latest_scheme p rows = (case sort_key (\<lambda>s. - so_updated s) (filter p rows) of [] \<Rightarrow> None | s # _ \<Rightarrow> Some s)"

definition get_scheme_coverage :: "ident \<Rightarrow> ident \<Rightarrow> ident \<Rightarrow> ident option \<Rightarrow> ident option \<Rightarrow> exam_db \<Rightarrow> scheme_coverage" where
  "get_scheme_coverage school tid subject cls arm db =
     (let missing = \<lparr>cg_found = False, cg_complete = False, cg_delivered = 0, cg_total = 0\<rparr>
      in case latest_scheme (scheme_for school tid subject cls arm) (xb_schemes db) of
           None \<Rightarrow> missing
         | Some s \<Rightarrow>
             if so_delivered s = [] then missing
             else let delivered = length (filter id (so_delivered s)); total = length (so_delivered s)
               in \<lparr>cg_found = True, cg_complete = total \<le> delivered, cg_delivered = delivered, cg_total = total\<rparr>)"

definition coverage_blockers :: "scheme_coverage \<Rightarrow> string list" where
  "coverage_blockers c =
     (if \<not> cg_found c then [''No scheme of work found for this subject.'']
      else if \<not> cg_complete c then
        [''Scheme of work not fully covered ('' @ show_nat (cg_delivered c) @ ''/'' @ show_nat (cg_total c) @ '' weeks delivered).'']
      else [])"

definition window_blockers :: "int \<Rightarrow> date \<Rightarrow> academic_term \<Rightarrow> string list" where
  "window_blockers tz today t =
     (if exam_window_set t then [] else [''School admin has not set exam dates for this term.'']) @
     (if tr_published t = None then [''Exam timetable has not been published by the school admin.''] else []) @
     (case tr_exam_start t of None \<Rightarrow> [] | Some s \<Rightarrow>
        if start_of_local_day tz today < start_of_local_day tz s then [''Exam period has not started yet.''] else []) @
     (case tr_exam_end t of None \<Rightarrow> [] | Some e \<Rightarrow>
        if start_of_local_day tz e < start_of_local_day tz today then [''Exam period has ended.''] else []) @
     (if is_term_in_exam_period tz (phase_input_of t) today then [] else [''Today is outside the exam period.''])"

text \<open>The blockers; the exam may be published when there are none.\<close>

definition can_publish_exam_assessment ::
  "int \<Rightarrow> date \<Rightarrow> ident \<Rightarrow> ident \<Rightarrow> ident \<Rightarrow> ident option \<Rightarrow> ident option \<Rightarrow> exam_db \<Rightarrow> string list" where
  "can_publish_exam_assessment tz today school tid subject cls arm db =
     (case term_of_school school tid (xb_base db) of
        None \<Rightarrow> [''Term not found.'']
      | Some t \<Rightarrow> window_blockers tz today t @ coverage_blockers (get_scheme_coverage school tid subject cls arm db))"

end
