(* ===== verification/ExamTimetableFacts.thy ===== *)
theory ExamTimetableFacts
  imports ExamTimetable SchoolExample
begin

text \<open>
  The exam timetable as a state machine: requests that fail write nothing, the slots of a published
  timetable are frozen, published timetables are not empty and every slot lies in the exam window of
  its term. Then what students see, and the gate of exam assessments as one condition.
\<close>

section \<open>Requests\<close>

lemma failed_exam_requests:
  "fails_clean (create_slot tz i school dto)" "fails_clean (update_slot tz school i u)" "fails_clean (delete_slot school i)"
  "fails_clean (publish_exam_timetable now school tid user)" "fails_clean (unpublish_exam_timetable school tid)"
proof -
  have "fails_clean (insert_slot s)" for s unfolding insert_slot_def by (intro fails_clean_intros)
  then show "fails_clean (create_slot tz i school dto)"
    unfolding create_slot_def by (intro fails_clean_intros fails_clean_write)
  show "fails_clean (update_slot tz school i u)"
    unfolding update_slot_def by (intro fails_clean_intros fails_clean_write)
  show "fails_clean (delete_slot school i)" unfolding delete_slot_def by (intro fails_clean_intros)
  show "fails_clean (publish_exam_timetable now school tid user)"
    unfolding publish_exam_timetable_def by (intro fails_clean_intros fails_clean_write)
  show "fails_clean (unpublish_exam_timetable school tid)"
    unfolding unpublish_exam_timetable_def by (intro fails_clean_intros)
qed

lemma new_slot_fields [simp]: "xs_id (new_slot tz i dto) = i" "xs_term (new_slot tz i dto) = sf_term dto"
  "xs_date (new_slot tz i dto) = start_of_local_day tz (sf_date dto)"
  by (simp_all add: new_slot_def)

lemma create_slot_Inr:
  assumes "create_slot tz i school dto db = (Inr s, db')"
  obtains t where "term_of_school school (sf_term dto) (xb_base db) = Some t" "exam_window_set t" "date_in_exam_window tz (sf_date dto) t"
    "tr_published t = None" "s = new_slot tz i dto" "find_slot i db = None" "db' = db\<lparr>xb_slots := xb_slots db @ [s]\<rparr>"
proof (cases "term_of_school school (sf_term dto) (xb_base db)")
  case (Some t)
  then show ?thesis
    using assms that[of t]
    by (auto simp: create_slot_def insert_slot_def assert_term_belongs_to_school_def op_bind_def op_then_def op_require_eval
      split: if_splits)
qed (use assms in \<open>simp add: create_slot_def assert_term_belongs_to_school_def op_bind_def\<close>)

lemma slot_of_school_Inr:
  "slot_of_school school i db = Inr (s, t) \<longleftrightarrow> find_slot i db = Some s \<and> term_of_school school (xs_term s) (xb_base db) = Some t"
  by (auto simp: slot_of_school_def split: option.splits)

lemma update_slot_Inr:
  assumes "update_slot tz school i u db = (Inr s', db')"
  obtains s t where "find_slot i db = Some s" "term_of_school school (xs_term s) (xb_base db) = Some t" "tr_published t = None"
    "\<And>d. su_date u = Some d \<Longrightarrow> date_in_exam_window tz d t" "s' = edited_slot tz u s"
    "db' = db\<lparr>xb_slots := update_first (\<lambda>r. xs_id r = i) (edited_slot tz u) (xb_slots db)\<rparr>"
proof (cases "slot_of_school school i db")
  case (Inr st)
  obtain s t where st: "st = (s, t)" by force
  show ?thesis
    using assms Inr that[of s t] unfolding st
    by (simp add: update_slot_def op_bind_def op_then_def op_require_eval slot_of_school_Inr split: if_splits option.splits)
qed (use assms in \<open>simp add: update_slot_def op_bind_def\<close>)

lemma delete_slot_Inr:
  assumes "delete_slot school i db = (Inr x, db')"
  obtains s t where "find_slot i db = Some s" "term_of_school school (xs_term s) (xb_base db) = Some t" "tr_published t = None"
    "db' = db\<lparr>xb_slots := delete_where (\<lambda>r. xs_id r = i) (xb_slots db)\<rparr>"
proof (cases "slot_of_school school i db")
  case (Inr st)
  obtain s t where st: "st = (s, t)" by force
  show ?thesis
    using assms Inr that[of s t] unfolding st
    by (simp add: delete_slot_def op_bind_def op_then_def op_require_eval slot_of_school_Inr split: if_splits)
qed (use assms in \<open>simp add: delete_slot_def op_bind_def\<close>)

lemma publish_Inr:
  assumes "publish_exam_timetable now school tid user db = (Inr x, db')"
  obtains t where "term_of_school school tid (xb_base db) = Some t" "exam_window_set t" "\<exists>s\<in>set (xb_slots db). xs_term s = tid"
    "db' = on_exam_term tid (mark_published (Some now) (Some user)) db"
proof (cases "term_of_school school tid (xb_base db)")
  case (Some t)
  have "\<exists>s\<in>set (xb_slots db). xs_term s = tid" if "0 < count_where (\<lambda>s. xs_term s = tid) (xb_slots db)"
    using that by (auto simp: count_where_def filter_empty_conv)
  then show ?thesis
    using assms Some that[of t]
    by (auto simp: publish_exam_timetable_def assert_term_belongs_to_school_def op_bind_def op_then_def op_require_eval split: if_splits)
qed (use assms in \<open>simp add: publish_exam_timetable_def assert_term_belongs_to_school_def op_bind_def\<close>)

lemma unpublish_Inr:
  assumes "unpublish_exam_timetable school tid db = (Inr x, db')"
  shows "db' = on_exam_term tid (mark_published None None) db"
  using assms by (auto simp: unpublish_exam_timetable_def op_bind_def split: sum.splits)

section \<open>The state machine\<close>

text \<open>
  Ids are unique; every slot has its term and keeps a rule with it; a published timetable has a window
  and a slot. The rules are: the slot lies in the exam window of the term, and no rule at all.
\<close>

definition exam_inv :: "(exam_slot \<Rightarrow> academic_term \<Rightarrow> bool) \<Rightarrow> exam_db \<Rightarrow> bool" where
  "exam_inv W db =
     (distinct (map xs_id (xb_slots db)) \<and> distinct (map tr_id (sd_terms (xb_base db))) \<and>
      (\<forall>s\<in>set (xb_slots db). \<exists>t. find_term (xs_term s) (xb_base db) = Some t \<and> W s t) \<and>
      (\<forall>t\<in>set (sd_terms (xb_base db)). tr_published t \<noteq> None \<longrightarrow> exam_window_set t \<and> (\<exists>s\<in>set (xb_slots db). xs_term s = tr_id t)))"

definition in_window :: "int \<Rightarrow> exam_slot \<Rightarrow> academic_term \<Rightarrow> bool" where
  "in_window tz s t = (xs_date s = start_of_local_day tz (xs_date s) \<and> date_in_exam_window tz (xs_date s) t)"

datatype exam_event =
    CreateSlot ident ident slot_dto
  | UpdateSlot ident ident slot_update
  | DeleteSlot ident ident
  | PublishExams date ident ident ident
  | UnpublishExams ident ident

fun exam_step :: "int \<Rightarrow> exam_event \<Rightarrow> exam_db \<Rightarrow> exam_db" where
  "exam_step tz (CreateSlot i school dto) db = snd (create_slot tz i school dto db)"
| "exam_step tz (UpdateSlot school i u) db = snd (update_slot tz school i u db)"
| "exam_step tz (DeleteSlot school i) db = snd (delete_slot school i db)"
| "exam_step tz (PublishExams now school tid user) db = snd (publish_exam_timetable now school tid user db)"
| "exam_step tz (UnpublishExams school tid) db = snd (unpublish_exam_timetable school tid db)"

lemma window_midnight [simp]: "date_in_exam_window tz (start_of_local_day tz d) t = date_in_exam_window tz d t"
  "start_of_local_day tz (start_of_local_day tz d) = start_of_local_day tz d"
  by (simp_all add: date_in_exam_window_def start_of_local_day_def local_midnight_idem Let_def split: option.splits)

lemma find_marked_term:
  "find_term i (xb_base (on_exam_term tid (mark_published a b) db)) =
    map_option (\<lambda>t. if i = tid then mark_published a b t else t) (find_term i (xb_base db))"
proof -
  have "find (\<lambda>t. tr_id t = i) (update_first (\<lambda>t. tr_id t = tid) (mark_published a b) ts) =
      map_option (\<lambda>t. if i = tid then mark_published a b t else t) (find (\<lambda>t. tr_id t = i) ts)" for ts
    by (induction ts) (auto simp: mark_published_def option.map_ident)
  then show ?thesis by (simp add: find_term_def on_exam_term_def update_term_def)
qed

lemma window_marked: "date_in_exam_window tz d (mark_published a b t) = date_in_exam_window tz d t"
  "exam_window_set (mark_published a b t) = exam_window_set t"
  by (simp_all add: date_in_exam_window_def exam_window_set_def mark_published_def)

lemma find_term_key: "distinct (map tr_id (sd_terms db)) \<Longrightarrow> t \<in> set (sd_terms db) \<Longrightarrow> find_term (tr_id t) db = Some t"
  unfolding find_term_def by (rule find_by_key)

lemma find_term_in': "find_term i db = Some t \<Longrightarrow> t \<in> set (sd_terms db) \<and> tr_id t = i"
  unfolding find_term_def by (rule find_Some_in)

lemma edited_slot_frame [simp]: "xs_id (edited_slot tz u s) = xs_id s" "xs_term (edited_slot tz u s) = xs_term s"
  by (simp_all add: edited_slot_def)

text \<open>A rule of slots and terms that the checks of the requests establish and that publishing keeps.\<close>

locale slot_rule =
  fixes tz :: int and W :: "exam_slot \<Rightarrow> academic_term \<Rightarrow> bool"
  assumes W_marked: "W s (mark_published a b t) = W s t"
    and W_new: "date_in_exam_window tz (sf_date dto) t \<Longrightarrow> W (new_slot tz i dto) t"
    and W_edit: "W s t \<Longrightarrow> (\<And>d. su_date u = Some d \<Longrightarrow> date_in_exam_window tz d t) \<Longrightarrow> W (edited_slot tz u s) t"
begin

lemma mark_term_inv:
  assumes inv: "exam_inv W db" and ok: "a \<noteq> None \<Longrightarrow> find_term tid (xb_base db) = Some t \<and> exam_window_set t \<and> (\<exists>s\<in>set (xb_slots db). xs_term s = tid)"
  shows "exam_inv W (on_exam_term tid (mark_published a b) db)"
proof -
  let ?db = "on_exam_term tid (mark_published a b) db"
  let ?new = "update_first (\<lambda>r. tr_id r = tid) (mark_published a b) (sd_terms (xb_base db))"
  have terms: "sd_terms (xb_base ?db) = ?new" and slots: "xb_slots ?db = xb_slots db"
    by (simp_all add: on_exam_term_def update_term_def)
  have dist: "distinct (map tr_id (sd_terms (xb_base db)))" using inv by (simp add: exam_inv_def)
  have "map tr_id ?new = map tr_id (sd_terms (xb_base db))" by (rule map_update_first_frame) (simp add: mark_published_def)
  moreover have "\<exists>t. find_term (xs_term s) (xb_base ?db) = Some t \<and> W s t" if s: "s \<in> set (xb_slots db)" for s
  proof -
    obtain u where "find_term (xs_term s) (xb_base db) = Some u" "W s u" using inv s by (auto simp: exam_inv_def)
    then show ?thesis by (simp add: find_marked_term W_marked)
  qed
  moreover have "exam_window_set r \<and> (\<exists>s\<in>set (xb_slots db). xs_term s = tr_id r)" if r: "r \<in> set ?new" and pub: "tr_published r \<noteq> None" for r
    using set_update_firstD[OF r]
  proof
    assume "r \<in> set (sd_terms (xb_base db))"
    then show ?thesis using inv pub by (simp add: exam_inv_def)
  next
    assume "\<exists>q\<in>set (sd_terms (xb_base db)). tr_id q = tid \<and> r = mark_published a b q"
    then obtain q where q: "q \<in> set (sd_terms (xb_base db))" "tr_id q = tid" "r = mark_published a b q" by blast
    have "a \<noteq> None" using pub q(3) by (simp add: mark_published_def)
    moreover have "find_term tid (xb_base db) = Some q" using find_term_key[OF dist q(1)] q(2) by simp
    ultimately have "exam_window_set q \<and> (\<exists>s\<in>set (xb_slots db). xs_term s = tid)" using ok by auto
    then show ?thesis using q by (auto simp: window_marked mark_published_def exam_window_set_def)
  qed
  ultimately show ?thesis using inv by (simp add: exam_inv_def terms slots)
qed

lemma add_slot_inv:
  assumes inv: "exam_inv W db" and t: "find_term (xs_term s) (xb_base db) = Some t" "W s t" and s: "find_slot (xs_id s) db = None"
  shows "exam_inv W (db\<lparr>xb_slots := xb_slots db @ [s]\<rparr>)"
  using inv t s by (auto simp: exam_inv_def find_slot_def find_None_all)

lemma edit_slot_inv:
  assumes inv: "exam_inv W db" and s: "find_slot i db = Some s" and t: "find_term (xs_term s) (xb_base db) = Some t"
    and d: "\<And>d. su_date u = Some d \<Longrightarrow> date_in_exam_window tz d t"
  shows "exam_inv W (db\<lparr>xb_slots := update_first (\<lambda>r. xs_id r = i) (edited_slot tz u) (xb_slots db)\<rparr>)"
proof -
  let ?new = "update_first (\<lambda>r. xs_id r = i) (edited_slot tz u) (xb_slots db)"
  have dist: "distinct (map xs_id (xb_slots db))" using inv by (simp add: exam_inv_def)
  have s': "s \<in> set (xb_slots db)" "xs_id s = i" using find_Some_in[OF s[unfolded find_slot_def]] by auto
  have keys: "map xs_id ?new = map xs_id (xb_slots db)" "map xs_term ?new = map xs_term (xb_slots db)"
    by (rule map_update_first_frame, simp)+
  have "\<exists>t. find_term (xs_term r) (xb_base db) = Some t \<and> W r t" if r: "r \<in> set ?new" for r
    using set_update_firstD[OF r]
  proof
    assume "r \<in> set (xb_slots db)"
    then show ?thesis using inv by (simp add: exam_inv_def)
  next
    assume "\<exists>q\<in>set (xb_slots db). xs_id q = i \<and> r = edited_slot tz u q"
    then obtain q where q: "q \<in> set (xb_slots db)" "xs_id q = i" "r = edited_slot tz u q" by blast
    then have [simp]: "q = s" using distinct_key_eq[OF dist q(1) s'(1)] s'(2) by simp
    have "W s t" using inv s'(1) t by (auto simp: exam_inv_def)
    then show ?thesis using t q(3) W_edit[OF _ d] by simp
  qed
  moreover have "\<exists>r\<in>set ?new. xs_term r = k" if "\<exists>r\<in>set (xb_slots db). xs_term r = k" for k
  proof -
    have "k \<in> xs_term ` set ?new" using that arg_cong[OF keys(2), of set] by auto
    then show ?thesis by blast
  qed
  ultimately show ?thesis using inv by (simp add: exam_inv_def keys)
qed

lemma remove_slot_inv:
  assumes inv: "exam_inv W db" and s: "find_slot i db = Some s" and t: "find_term (xs_term s) (xb_base db) = Some t" "tr_published t = None"
  shows "exam_inv W (db\<lparr>xb_slots := delete_where (\<lambda>r. xs_id r = i) (xb_slots db)\<rparr>)"
proof -
  have dist: "distinct (map xs_id (xb_slots db))" "distinct (map tr_id (sd_terms (xb_base db)))" using inv by (simp_all add: exam_inv_def)
  have s': "s \<in> set (xb_slots db)" "xs_id s = i" using find_Some_in[OF s[unfolded find_slot_def]] by auto
  have "\<exists>q\<in>set (delete_where (\<lambda>r. xs_id r = i) (xb_slots db)). xs_term q = tr_id r"
    if r: "r \<in> set (sd_terms (xb_base db))" "tr_published r \<noteq> None" for r
  proof -
    obtain q where q: "q \<in> set (xb_slots db)" "xs_term q = tr_id r" using inv r by (auto simp: exam_inv_def)
    have "xs_id q \<noteq> i"
    proof
      assume "xs_id q = i"
      then have "q = s" using distinct_key_eq[OF dist(1) q(1) s'(1)] s'(2) by simp
      then have "r = t" using t(1) q(2) find_term_key[OF dist(2) r(1)] by simp
      then show False using r(2) t(2) by simp
    qed
    then show ?thesis using q by (auto simp: delete_where_def)
  qed
  moreover have "distinct (map xs_id (delete_where (\<lambda>r. xs_id r = i) (xb_slots db)))" unfolding delete_where_def by (rule distinct_map_filter[OF dist(1)])
  ultimately show ?thesis using inv by (auto simp: exam_inv_def delete_where_def)
qed

lemma rule_step_keeps: "exam_inv W db \<Longrightarrow> exam_inv W (exam_step tz e db)"
proof (cases e)
  case (CreateSlot i school dto)
  assume inv: "exam_inv W db"
  show ?thesis unfolding CreateSlot exam_step.simps
  proof (rule step_failed[where P = "exam_inv W", OF failed_exam_requests(1) _ inv])
    fix s assume "create_slot tz i school dto db = (Inr s, snd (create_slot tz i school dto db))"
    then show "exam_inv W (snd (create_slot tz i school dto db))"
    proof (rule create_slot_Inr)
      fix t assume "term_of_school school (sf_term dto) (xb_base db) = Some t" "date_in_exam_window tz (sf_date dto) t"
        "s = new_slot tz i dto" "find_slot i db = None" "snd (create_slot tz i school dto db) = db\<lparr>xb_slots := xb_slots db @ [s]\<rparr>"
      then show ?thesis using add_slot_inv[OF inv, of s t] W_new by (simp add: term_of_school_Some)
    qed
  qed
next
  case (UpdateSlot school i u)
  assume inv: "exam_inv W db"
  show ?thesis unfolding UpdateSlot exam_step.simps
  proof (rule step_failed[where P = "exam_inv W", OF failed_exam_requests(2) _ inv])
    fix s' assume "update_slot tz school i u db = (Inr s', snd (update_slot tz school i u db))"
    then show "exam_inv W (snd (update_slot tz school i u db))"
      by (rule update_slot_Inr) (use edit_slot_inv[OF inv] term_of_school_Some in metis)
  qed
next
  case (DeleteSlot school i)
  assume inv: "exam_inv W db"
  show ?thesis unfolding DeleteSlot exam_step.simps
  proof (rule step_failed[where P = "exam_inv W", OF failed_exam_requests(3) _ inv])
    fix x assume "delete_slot school i db = (Inr x, snd (delete_slot school i db))"
    then show "exam_inv W (snd (delete_slot school i db))"
      by (rule delete_slot_Inr) (use remove_slot_inv[OF inv] term_of_school_Some in metis)
  qed
next
  case (PublishExams now school tid user)
  assume inv: "exam_inv W db"
  show ?thesis unfolding PublishExams exam_step.simps
  proof (rule step_failed[where P = "exam_inv W", OF failed_exam_requests(4) _ inv])
    fix x assume "publish_exam_timetable now school tid user db = (Inr x, snd (publish_exam_timetable now school tid user db))"
    then show "exam_inv W (snd (publish_exam_timetable now school tid user db))"
      by (rule publish_Inr) (use mark_term_inv[OF inv] term_of_school_Some in metis)
  qed
next
  case (UnpublishExams school tid)
  assume inv: "exam_inv W db"
  show ?thesis unfolding UnpublishExams exam_step.simps
  proof (rule step_failed[where P = "exam_inv W", OF failed_exam_requests(5) _ inv])
    fix x assume "unpublish_exam_timetable school tid db = (Inr x, snd (unpublish_exam_timetable school tid db))"
    then have "snd (unpublish_exam_timetable school tid db) = on_exam_term tid (mark_published None None) db" by (rule unpublish_Inr)
    then show "exam_inv W (snd (unpublish_exam_timetable school tid db))" using mark_term_inv[OF inv, of None] by simp
  qed
qed

end

interpretation windows: slot_rule tz "in_window tz" for tz
proof
  fix s t and u :: slot_update assume "in_window tz s t" and d: "\<And>d. su_date u = Some d \<Longrightarrow> date_in_exam_window tz d t"
  then have s: "xs_date s = start_of_local_day tz (xs_date s)" "date_in_exam_window tz (xs_date s) t" by (simp_all only: in_window_def)
  then show "in_window tz (edited_slot tz u s) t"
    unfolding in_window_def by (cases "su_date u") (simp_all add: edited_slot_def d)
qed (simp_all add: in_window_def window_marked)

interpretation placed: slot_rule tz "\<lambda>s t. True" for tz
  by unfold_locales simp_all

section \<open>Together with the dates of the term\<close>

text \<open>Exam requests interleaved with edits of the dates of terms by the session service.\<close>

datatype term_event = ExamEvent exam_event | EditTerm date ident ident ident term_dates_dto

fun term_step :: "int \<Rightarrow> term_event \<Rightarrow> exam_db \<Rightarrow> exam_db" where
  "term_step tz (ExamEvent e) db = exam_step tz e db"
| "term_step tz (EditTerm now school sid tid dto) db = db\<lparr>xb_base := snd (update_term_dates now school sid tid dto (xb_base db))\<rparr>"

lemma update_term_dates_effect:
  "snd (update_term_dates now school sid tid dto b) = b \<or> snd (update_term_dates now school sid tid dto b) = update_term tid (edited_term dto) b"
  by (auto simp: update_term_dates_def op_bind_def op_then_def op_require_eval Let_def split: option.splits)

lemma edited_term_published: "exam_window_set t \<Longrightarrow> tr_published (edited_term dto t) \<noteq> None \<Longrightarrow> exam_window_set (edited_term dto t)"
  "tr_published (edited_term dto t) \<noteq> None \<Longrightarrow> tr_published t \<noteq> None" "tr_id (edited_term dto t) = tr_id t"
  by (auto simp: edited_term_def Let_def exam_window_set_def split: if_splits)

lemma find_term_None: "find_term k b = None \<longleftrightarrow> k \<notin> set (map tr_id (sd_terms b))"
  by (auto simp: find_term_def find_None_all)

lemma term_step_keeps: "exam_inv (\<lambda>s t. True) db \<Longrightarrow> exam_inv (\<lambda>s t. True) (term_step tz e db)"
proof (cases e)
  case (EditTerm now school sid tid dto)
  assume inv: "exam_inv (\<lambda>s t. True) db"
  let ?new = "update_first (\<lambda>t. tr_id t = tid) (edited_term dto) (sd_terms (xb_base db))"
  have ids: "map tr_id ?new = map tr_id (sd_terms (xb_base db))" by (rule map_update_first_frame) (simp add: edited_term_published)
  have "find_term k (update_term tid (edited_term dto) (xb_base db)) = None \<longleftrightarrow> find_term k (xb_base db) = None" for k
    unfolding find_term_None using ids by (simp add: update_term_def)
  moreover have "exam_window_set r \<and> (\<exists>s\<in>set (xb_slots db). xs_term s = tr_id r)" if "r \<in> set ?new" "tr_published r \<noteq> None" for r
    using set_update_firstD[OF that(1)] inv that(2) edited_term_published by (fastforce simp: exam_inv_def)
  ultimately have "exam_inv (\<lambda>s t. True) (db\<lparr>xb_base := update_term tid (edited_term dto) (xb_base db)\<rparr>)"
    using inv ids by (simp add: exam_inv_def update_term_def) (metis option.exhaust)
  then show ?thesis using inv update_term_dates_effect[of now school sid tid dto "xb_base db"] by (auto simp: EditTerm)
qed (use placed.rule_step_keeps in auto)

interpretation exam_terms: step_system "term_step tz" "exam_inv (\<lambda>s t. True)" for tz
  by unfold_locales (rule term_step_keeps)

interpretation exams: step_system "exam_step tz" "exam_inv (in_window tz)" for tz
  by unfold_locales (rule windows.rule_step_keeps)

section \<open>Properties\<close>

text \<open>
  Through every run of exam timetable requests slot ids stay unique, every slot lies in the exam
  window of its term, and a published timetable has its window set and at least one slot; the last also
  when the dates of terms are edited in between.
\<close>

theorem exam_timetable_invariant:
  assumes "exam_inv (in_window tz) db"
  shows "exam_inv (in_window tz) (fold (exam_step tz) es db) \<and> exam_inv (\<lambda>s t. True) (fold (term_step tz) ts db)"
proof
  have "exam_inv (\<lambda>s t. True) db" using assms by (auto simp: exam_inv_def)
  then show "exam_inv (\<lambda>s t. True) (fold (term_step tz) ts db)" by (rule exam_terms.all_runs)
qed (rule exams.all_runs[OF assms])

definition slots_of :: "ident \<Rightarrow> exam_db \<Rightarrow> exam_slot list" where
  "slots_of tid db = filter (\<lambda>s. xs_term s = tid) (xb_slots db)"

text \<open>What ends a publication: the request to unpublish, and an edit of the exam window of the term.\<close>

fun unpublishes :: "ident \<Rightarrow> term_event \<Rightarrow> bool" where
  "unpublishes tid (ExamEvent (UnpublishExams _ t)) = (t = tid)"
| "unpublishes tid (ExamEvent _) = False"
| "unpublishes tid (EditTerm _ _ _ t dto) = (t = tid \<and> (tx_exam_start dto \<noteq> None \<or> tx_exam_end dto \<noteq> None))"

definition frozen :: "ident \<Rightarrow> exam_slot list \<Rightarrow> exam_db \<Rightarrow> bool" where
  "frozen tid slots db = (timetable_published tid db \<and> slots_of tid db = slots)"

lemma published_iff: "timetable_published tid db \<longleftrightarrow> (\<exists>t. find_term tid (xb_base db) = Some t \<and> tr_published t \<noteq> None)"
  by (simp add: timetable_published_def split: option.splits)

lemma slots_of_frames:
  "slots_of tid (db\<lparr>xb_slots := xb_slots db @ [s]\<rparr>) = slots_of tid db @ (if xs_term s = tid then [s] else [])"
  "slots_of tid (on_exam_term k f db) = slots_of tid db" "slots_of tid (db\<lparr>xb_base := b\<rparr>) = slots_of tid db"
  "timetable_published tid (db\<lparr>xb_slots := ss\<rparr>) = timetable_published tid db"
  by (simp_all add: slots_of_def on_exam_term_def timetable_published_def)

lemma other_slots:
  assumes "distinct (map xs_id rows)" "s \<in> set rows" "xs_id s = i" "xs_term s \<noteq> tid"
  shows "filter (\<lambda>r. xs_term r = tid) (update_first (\<lambda>r. xs_id r = i) (edited_slot tz u) rows) = filter (\<lambda>r. xs_term r = tid) rows"
    "filter (\<lambda>r. xs_term r = tid) (delete_where (\<lambda>r. xs_id r = i) rows) = filter (\<lambda>r. xs_term r = tid) rows"
proof -
  have "xs_term r \<noteq> tid" if "r \<in> set rows" "xs_id r = i" for r
    using distinct_key_eq[OF assms(1) that(1) assms(2)] that(2) assms(3,4) by simp
  then show "filter (\<lambda>r. xs_term r = tid) (update_first (\<lambda>r. xs_id r = i) (edited_slot tz u) rows) = filter (\<lambda>r. xs_term r = tid) rows"
    "filter (\<lambda>r. xs_term r = tid) (delete_where (\<lambda>r. xs_id r = i) rows) = filter (\<lambda>r. xs_term r = tid) rows"
    by (induction rows) (auto simp: delete_where_def)
qed

lemma frozen_exam_step:
  assumes inv: "exam_inv (\<lambda>s t. True) db" and fr: "frozen tid slots db" and ev: "\<not> unpublishes tid (ExamEvent e)"
  shows "frozen tid slots (exam_step tz e db)"
proof -
  have pub: "timetable_published tid db" and sl: "slots_of tid db = slots" using fr by (auto simp: frozen_def)
  have other: "k \<noteq> tid" if "term_of_school school k (xb_base db) = Some t" "tr_published t = None" for school k t
    using pub that term_of_school_Some by (auto simp: published_iff)
  note fr' = frozen_def slots_of_frames
  show ?thesis
  proof (cases e)
    case (CreateSlot i school dto)
    show ?thesis unfolding CreateSlot exam_step.simps
      by (rule step_failed[where P = "frozen tid slots", OF failed_exam_requests(1) _ fr], erule create_slot_Inr)
        (use pub sl other in \<open>auto simp: fr'\<close>)
  next
    case (UpdateSlot school i u)
    show ?thesis unfolding UpdateSlot exam_step.simps
      by (rule step_failed[where P = "frozen tid slots", OF failed_exam_requests(2) _ fr], erule update_slot_Inr)
        (use pub sl other inv in \<open>auto simp: fr' slots_of_def find_slot_def exam_inv_def other_slots dest!: find_Some_in\<close>)
  next
    case (DeleteSlot school i)
    show ?thesis unfolding DeleteSlot exam_step.simps
      by (rule step_failed[where P = "frozen tid slots", OF failed_exam_requests(3) _ fr], erule delete_slot_Inr)
        (use pub sl other inv in \<open>auto simp: fr' slots_of_def find_slot_def exam_inv_def other_slots dest!: find_Some_in\<close>)
  next
    case (PublishExams now school k user)
    show ?thesis unfolding PublishExams exam_step.simps
      by (rule step_failed[where P = "frozen tid slots", OF failed_exam_requests(4) _ fr], erule publish_Inr)
        (use pub sl in \<open>auto simp: fr' timetable_published_def find_marked_term mark_published_def term_of_school_Some split: option.splits\<close>)
  next
    case (UnpublishExams school k)
    show ?thesis unfolding UnpublishExams exam_step.simps
      by (rule step_failed[where P = "frozen tid slots", OF failed_exam_requests(5) _ fr], drule unpublish_Inr)
        (use pub sl ev UnpublishExams in \<open>auto simp: fr' published_iff find_marked_term\<close>)
  qed
qed

lemma frozen_step:
  assumes st: "exam_inv (\<lambda>s t. True) db \<and> frozen tid slots db" and ev: "\<not> unpublishes tid e"
  shows "exam_inv (\<lambda>s t. True) (term_step tz e db) \<and> frozen tid slots (term_step tz e db)"
proof (cases e)
  case (ExamEvent e')
  then show ?thesis using st ev frozen_exam_step term_step_keeps[of db tz e] by simp
next
  case (EditTerm now school sid k dto)
  have pub: "timetable_published tid db" using st by (simp add: frozen_def)
  have "find_term tid (update_term k (edited_term dto) b) = map_option (\<lambda>t. if tid = k then edited_term dto t else t) (find_term tid b)" for b
  proof -
    have "find (\<lambda>t. tr_id t = tid) (update_first (\<lambda>t. tr_id t = k) (edited_term dto) ts) =
        map_option (\<lambda>t. if tid = k then edited_term dto t else t) (find (\<lambda>t. tr_id t = tid) ts)" for ts
      by (induction ts) (auto simp: edited_term_published option.map_ident)
    then show ?thesis by (simp add: find_term_def update_term_def)
  qed
  moreover have "tr_published (edited_term dto t) = tr_published t" if "tid = k" for t
    using ev that by (simp add: EditTerm edited_term_def)
  ultimately have "timetable_published tid (db\<lparr>xb_base := update_term k (edited_term dto) (xb_base db)\<rparr>)"
    using pub by (auto simp: timetable_published_def split: option.splits)
  then have "frozen tid slots (term_step tz e db)"
    using st update_term_dates_effect[of now school sid k dto "xb_base db"] by (auto simp: EditTerm frozen_def slots_of_frames)
  then show ?thesis using st term_step_keeps by blast
qed

interpretation freezing: guarded_step_system "term_step tz" "\<lambda>db. exam_inv (\<lambda>s t. True) db \<and> frozen tid slots db" "\<lambda>e. \<not> unpublishes tid e"
  for tz tid slots
  by unfold_locales (rule frozen_step)

text \<open>
  C22: while an exam timetable is published no run of exam requests and date edits, short of unpublishing
  it or moving its window, adds, changes or removes a slot of its term.
\<close>

theorem published_slots_frozen:
  assumes "exam_inv (\<lambda>s t. True) db" "timetable_published tid db" "\<And>e. e \<in> set es \<Longrightarrow> \<not> unpublishes tid e"
  shows "slots_of tid (fold (term_step tz) es db) = slots_of tid db \<and> timetable_published tid (fold (term_step tz) es db)"
  using freezing.run_inv[of db tid "slots_of tid db" es tz] assms by (simp add: frozen_def)

text \<open>The latest scheme of work and its coverage.\<close>

lemma latest_scheme_Some:
  "latest_scheme p rows = Some s \<Longrightarrow> s \<in> set rows \<and> p s \<and> (\<forall>r\<in>set rows. p r \<longrightarrow> so_updated r \<le> so_updated s)"
proof -
  assume "latest_scheme p rows = Some s"
  then obtain ss where ss: "sort_key (\<lambda>s. - so_updated s) (filter p rows) = s # ss"
    by (auto simp: latest_scheme_def split: list.splits)
  have "sorted (map (\<lambda>s. - so_updated s) (s # ss))" unfolding ss[symmetric] by simp
  moreover have "set (s # ss) = {r \<in> set rows. p r}" unfolding ss[symmetric] by auto
  ultimately show ?thesis by fastforce
qed

lemma coverage_complete: "ds \<noteq> [] \<Longrightarrow> length ds \<le> length (filter id ds) \<longleftrightarrow> set ds = {True}"
proof -
  have "length ds \<le> length (filter id ds) \<longleftrightarrow> (\<forall>d\<in>set ds. d)"
  proof (induction ds)
    case (Cons d ds)
    have "length (filter id ds) < Suc (length ds)" by (rule le_imp_less_Suc[OF length_filter_le])
    then show ?case using Cons by auto
  qed simp
  moreover assume "ds \<noteq> []"
  then have "(\<forall>d\<in>set ds. d) \<longleftrightarrow> set ds = {True}" by (cases ds) auto
  ultimately show ?thesis by blast
qed

text \<open>
  An exam assessment may be published exactly when the term is one of the school, its exam window is
  set and contains today, the exam timetable is published, and the latest approved or published scheme
  of work of the subject has weeks, all of them delivered.
\<close>

theorem exam_gate_iff:
  "can_publish_exam_assessment tz today school tid subject cls arm db = [] \<longleftrightarrow>
    (\<exists>t s e w. term_of_school school tid (xb_base db) = Some t \<and> tr_published t \<noteq> None \<and>
      tr_exam_start t = Some s \<and> tr_exam_end t = Some e \<and> date_within tz today s e \<and>
      latest_scheme (scheme_for school tid subject cls arm) (xb_schemes db) = Some w \<and>
      set (so_delivered w) = {True})"
proof -
  have cov: "coverage_blockers (get_scheme_coverage school tid subject cls arm db) = [] \<longleftrightarrow>
      (\<exists>w. latest_scheme (scheme_for school tid subject cls arm) (xb_schemes db) = Some w \<and> set (so_delivered w) = {True})"
    by (auto simp: coverage_blockers_def get_scheme_coverage_def Let_def coverage_complete split: option.splits)
  have win: "window_blockers tz today t = [] \<longleftrightarrow> tr_published t \<noteq> None \<and>
      (\<exists>s e. tr_exam_start t = Some s \<and> tr_exam_end t = Some e \<and> date_within tz today s e)" for t
    by (auto simp: window_blockers_def exam_window_set_def is_term_in_exam_period_def phase_input_of_def date_within_def Let_def split: option.splits)
  show ?thesis
    by (cases "term_of_school school tid (xb_base db)") (auto simp: can_publish_exam_assessment_def win cov)
qed

lemma shown_slots: "sw_slot ` set (ordered_slots p db) = {s \<in> set (xb_slots db). p s}"
  by (force simp: ordered_slots_def map_slot_def)

lemma student_slots_published:
  "v \<in> set (list_slots_for_student school student tid db) \<Longrightarrow> timetable_published (xs_term (sw_slot v)) db"
proof -
  assume v: "v \<in> set (list_slots_for_student school student tid db)"
  then obtain p where "v \<in> set (ordered_slots p db)" "\<And>s. p s \<Longrightarrow> timetable_published (xs_term s) db"
    by (auto simp: list_slots_for_student_def split: option.splits if_splits)
  then show ?thesis using shown_slots[of p db] by blast
qed

text \<open>
  A student with a class arm is shown every published slot that names no arm, whichever class the
  slot is for, and, by asking for its term, whichever school it belongs to; every slot shown is of a
  published timetable.
\<close>

theorem student_sees_other_classes:
  assumes e: "find (\<lambda>e. en_student e = student \<and> en_active e \<and> en_school e = school) (sd_enrolments (xb_base db)) = Some e"
    and arm: "truthy (en_arm e)" and s: "s \<in> set (xb_slots db)" "xs_arm s = None" "xs_term s \<noteq> []" "timetable_published (xs_term s) db"
  shows "s \<in> sw_slot ` set (list_slots_for_student school student (Some (xs_term s)) db) \<and>
    (\<forall>v\<in>set (list_slots_for_student school student (Some (xs_term s)) db). timetable_published (xs_term (sw_slot v)) db)"
proof -
  have "or_else (Some (xs_term s)) r = Some (xs_term s)" for r using s(3) by (simp add: or_else_def truthy_def)
  then have "s \<in> sw_slot ` set (list_slots_for_student school student (Some (xs_term s)) db)"
    using e arm s by (simp add: list_slots_for_student_def shown_slots slot_for_enrolment_def)
  then show ?thesis using student_slots_published by blast
qed

section \<open>Witnesses\<close>

definition ex_exam_db :: exam_db where
  "ex_exam_db = \<lparr>xb_base = (ex_session_db [(ex_term_enrolment ''e1'' ''ada'' (Some ''t1''))\<lparr>en_arm := Some ''A''\<rparr>])
       \<lparr>sd_terms := [(blank_term ''t1'' ''1st Term'' 1 0 (90 * ms_per_day) TERM_ACTIVE ''S'')
          \<lparr>tr_exam_start := Some (70 * ms_per_day), tr_exam_end := Some (80 * ms_per_day)\<rparr>],
        sd_sessions := [\<lparr>sn_id = ''S'', sn_name = ''2024/2025'', sn_start = 0, sn_end = 300 * ms_per_day, sn_status = SESSION_ACTIVE,
          sn_school = ''s'', sn_type = None\<rparr>]\<rparr>,
     xb_slots = [], xb_schemes = [], xb_subjects = [\<lparr>sj_id = ''maths'', sj_school = ''s'', sj_name = ''Maths'', sj_active = True\<rparr>],
     xb_teachers = [], xb_rooms = []\<rparr>"

definition ex_slot_dto :: slot_dto where
  "ex_slot_dto = \<lparr>sf_term = ''t1'', sf_date = 71 * ms_per_day + 5, sf_start = ''09:00'', sf_end = ''11:00'', sf_subject = ''maths'',
     sf_class = None, sf_arm = None, sf_teacher = None, sf_room = None, sf_notes = None\<rparr>"

definition ex_exam_run :: "term_event list" where
  "ex_exam_run = [ExamEvent (CreateSlot ''x1'' ''s'' ex_slot_dto), ExamEvent (PublishExams 5 ''s'' ''t1'' ''admin'')]"

lemma ex_exam_inv: "exam_inv (in_window 0) ex_exam_db"
  by (simp add: exam_inv_def ex_exam_db_def blank_term_def)

lemma ex_exam_placed: "exam_inv (\<lambda>s t. True) ex_exam_db"
  using ex_exam_inv by (auto simp: exam_inv_def)

lemma ex_exam_published:
  "timetable_published ''t1'' (fold (term_step 0) ex_exam_run ex_exam_db)"
  "map xs_id (slots_of ''t1'' (fold (term_step 0) ex_exam_run ex_exam_db)) = [''x1'']"
  by code_simp+

theorem exam_timetable_invariant_witness:
  "exam_inv (in_window 0) (fold (exam_step 0) [CreateSlot ''x1'' ''s'' ex_slot_dto] ex_exam_db) \<and>
   exam_inv (\<lambda>s t. True) (fold (term_step 0) ex_exam_run ex_exam_db)"
  by (rule exam_timetable_invariant[OF ex_exam_inv])

theorem published_slots_frozen_witness:
  "map xs_id (slots_of ''t1'' (fold (term_step 0) [ExamEvent (DeleteSlot ''s'' ''x1''), ExamEvent (CreateSlot ''x2'' ''s'' ex_slot_dto)]
     (fold (term_step 0) ex_exam_run ex_exam_db))) = [''x1'']"
proof -
  let ?run = "[ExamEvent (DeleteSlot ''s'' ''x1''), ExamEvent (CreateSlot ''x2'' ''s'' ex_slot_dto)]"
  have quiet: "\<And>e. e \<in> set ?run \<Longrightarrow> \<not> unpublishes ''t1'' e" by auto
  have "slots_of ''t1'' (fold (term_step 0) ?run (fold (term_step 0) ex_exam_run ex_exam_db)) =
      slots_of ''t1'' (fold (term_step 0) ex_exam_run ex_exam_db)"
    by (rule conjunct1[OF published_slots_frozen[OF exam_terms.all_runs[OF ex_exam_placed] ex_exam_published(1) quiet]])
  then show ?thesis by (simp only: ex_exam_published(2))
qed

definition ex_moved_window :: term_dates_dto where
  "ex_moved_window = \<lparr>tx_start = None, tx_end = None, tx_half_start = None, tx_half_end = None, tx_mid_start = None, tx_mid_end = None,
     tx_exam_start = Some (Some (75 * ms_per_day)), tx_exam_end = Some (Some (80 * ms_per_day))\<rparr>"

text \<open>
  Moving the window unpublishes the timetable, but publishing it again does not look at the slots: the
  published timetable then has a slot before the first day of its window.
\<close>

theorem stranded_slot_published:
  "(let db = fold (term_step 0) (ex_exam_run @ [EditTerm 6 ''s'' ''S'' ''t1'' ex_moved_window, ExamEvent (PublishExams 7 ''s'' ''t1'' ''admin'')]) ex_exam_db
    in timetable_published ''t1'' db \<and> map xs_date (slots_of ''t1'' db) = [71 * ms_per_day] \<and>
       map tr_exam_start (sd_terms (xb_base db)) = [Some (75 * ms_per_day)])"
  by code_simp

end
