(* ===== verification/Timetable.thy ===== *)
theory Timetable
  imports OpMonad SessionTerms SchoolTables
begin

text \<open>
  Timetables, \<open>src/src/timetable/timetable.service.ts\<close>, over the session tables: periods with the
  check for conflicts, the assignment of teachers that follows the timetable, master schedules,
  replacement and deletion, and the timetables of classes, teachers and students. Notifications,
  which never change an outcome, are left out.
\<close>

section \<open>Tables\<close>

record course_registration =
  rg_student :: ident
  rg_subject :: ident
  rg_term :: ident
  rg_active :: bool

record timetable_db =
  tb_base :: session_db
  tb_tertiary :: "ident list"
  tb_teachers :: "teacher_row list"
  tb_subjects :: "subject_row list"
  tb_rooms :: "room_row list"
  tb_duties :: "duty_row list"
  tb_registrations :: "course_registration list"

type_synonym 'a timetable_op = "(timetable_db, 'a) op"

definition find_period :: "ident \<Rightarrow> timetable_db \<Rightarrow> timetable_row option" where
  "find_period i db = find (\<lambda>p. tt_id p = i) (sd_periods (tb_base db))"

definition on_periods :: "(timetable_row list \<Rightarrow> timetable_row list) \<Rightarrow> timetable_db \<Rightarrow> timetable_db" where
  "on_periods f db = db\<lparr>tb_base := (tb_base db)\<lparr>sd_periods := f (sd_periods (tb_base db))\<rparr>\<rparr>"

definition lesson :: string where
  "lesson = ''LESSON''"

section \<open>Checks\<close>

definition school_missing :: "ident \<Rightarrow> timetable_db \<Rightarrow> bool \<times> http_error" where
  "school_missing school db = (find_school school (sd_schools (tb_base db)) = None, BadRequest ''School not found'')"

definition term_missing :: "ident \<Rightarrow> ident \<Rightarrow> timetable_db \<Rightarrow> bool \<times> http_error" where
  "term_missing school tid db = (term_of_school school tid (tb_base db) = None, NotFound ''Term not found'')"

definition class_of_school :: "ident \<Rightarrow> ident \<Rightarrow> session_db \<Rightarrow> bool" where
  "class_of_school school i db = (case find_class i db of None \<Rightarrow> False | Some c \<Rightarrow> sc_school c = school)"

definition level_of :: "ident \<Rightarrow> session_db \<Rightarrow> class_level_row option" where
  "level_of arm db = Option.bind (find_arm arm db) (\<lambda>a. level_of_arm a db)"

definition arm_of_school :: "ident \<Rightarrow> ident \<Rightarrow> session_db \<Rightarrow> bool" where
  "arm_of_school school i db = (case level_of i db of None \<Rightarrow> False | Some l \<Rightarrow> lv_school l = school)"

definition class_missing :: "ident \<Rightarrow> ident option \<Rightarrow> timetable_db \<Rightarrow> bool \<times> http_error" where
  "class_missing school i db = (truthy i \<and> \<not> class_of_school school (the i) (tb_base db), NotFound ''Class not found'')"

definition arm_missing :: "ident \<Rightarrow> ident option \<Rightarrow> timetable_db \<Rightarrow> bool \<times> http_error" where
  "arm_missing school i db = (truthy i \<and> \<not> arm_of_school school (the i) (tb_base db), NotFound ''Class arm not found'')"

text \<open>\<open>/^([0-1][0-9]|2[0-3]):[0-5][0-9]$/\<close>.\<close>

fun hhmm :: "string \<Rightarrow> bool" where
  "hhmm [a, b, c, d, e] =
     ((a \<in> set ''01'' \<and> b \<in> set ''0123456789'' \<or> a = CHR ''2'' \<and> b \<in> set ''0123'') \<and> c = CHR '':'' \<and>
      d \<in> set ''012345'' \<and> e \<in> set ''0123456789'')"
| "hhmm _ = False"

definition bad_format :: "string \<Rightarrow> bool \<times> http_error" where
  "bad_format t = (\<not> hhmm t, BadRequest (''Invalid time format: '' @ t @ ''. Expected HH:mm format (e.g., \"08:00\")''))"

definition bad_range :: "string \<Rightarrow> string \<Rightarrow> bool \<times> http_error" where
  "bad_range start stop = (stop \<le> start, BadRequest ''Start time must be before end time'')"

definition do_periods_overlap :: "string \<Rightarrow> string \<Rightarrow> string \<Rightarrow> string \<Rightarrow> bool" where
  "do_periods_overlap start1 end1 start2 end2 = (start1 < end2 \<and> start2 < end1)"

section \<open>Conflicts\<close>

record period_dto =
  pd_term :: ident
  pd_day :: string
  pd_start :: string
  pd_end :: string
  pd_type :: "string option"
  pd_subject :: "ident option"
  pd_course :: "ident option"
  pd_teacher :: "ident option"
  pd_room :: "ident option"
  pd_class :: "ident option"
  pd_arm :: "ident option"

datatype conflict_kind = CONFLICT_TEACHER | CONFLICT_ROOM

record conflict_info =
  cf_kind :: conflict_kind
  cf_message :: string
  cf_period :: ident

definition teacher_name :: "ident option \<Rightarrow> timetable_db \<Rightarrow> string option" where
  "teacher_name t db = Option.bind t (\<lambda>i. map_option (\<lambda>r. te_first r @ '' '' @ te_last r) (find_teacher i (tb_teachers db)))"

definition arm_name :: "ident option \<Rightarrow> timetable_db \<Rightarrow> string option" where
  "arm_name a db = Option.bind a (\<lambda>i. Option.bind (find_arm i (tb_base db)) (\<lambda>r.
     map_option (\<lambda>l. lv_name l @ '' '' @ la_name r) (level_of_arm r (tb_base db))))"

definition room_name :: "ident option \<Rightarrow> timetable_db \<Rightarrow> string option" where
  "room_name r db = Option.bind r (\<lambda>i. map_option ro_name (find_room i (tb_rooms db)))"

definition class_name :: "ident option \<Rightarrow> timetable_db \<Rightarrow> string option" where
  "class_name c db = Option.bind c (\<lambda>i. map_option sc_name (find_class i (tb_base db)))"

text \<open>The periods looked at: the lessons of the class itself, or of its arm, on the day.\<close>

definition conflict_candidate :: "period_dto \<Rightarrow> ident option \<Rightarrow> timetable_row \<Rightarrow> bool" where
  "conflict_candidate dto exclude p =
     (tt_term p = pd_term dto \<and> tt_day p = pd_day dto \<and> tt_kind p = lesson \<and> (truthy exclude \<longrightarrow> Some (tt_id p) \<noteq> exclude) \<and>
      (if truthy (pd_class dto) then tt_class p = pd_class dto
       else truthy (pd_arm dto) \<longrightarrow> tt_arm p = pd_arm dto))"

definition overlapping_periods :: "period_dto \<Rightarrow> ident option \<Rightarrow> timetable_db \<Rightarrow> timetable_row list" where
  "overlapping_periods dto exclude db =
     filter (\<lambda>p. tt_start p < pd_end dto \<and> pd_start dto < tt_end p)
       (filter (conflict_candidate dto exclude) (sd_periods (tb_base db)))"

definition teacher_conflict :: "period_dto \<Rightarrow> timetable_db \<Rightarrow> timetable_row \<Rightarrow> conflict_info" where
  "teacher_conflict dto db p =
     \<lparr>cf_kind = CONFLICT_TEACHER,
      cf_message = nullish (teacher_name (tt_teacher p) db) ''Unknown'' @ '' is already teaching '' @
        nullish (arm_name (tt_arm p) db) ''Unknown'' @ '' at '' @ tt_start p @ '' on '' @ pd_day dto,
      cf_period = tt_id p\<rparr>"

definition room_conflict :: "period_dto \<Rightarrow> timetable_db \<Rightarrow> timetable_row \<Rightarrow> conflict_info" where
  "room_conflict dto db p =
     \<lparr>cf_kind = CONFLICT_ROOM,
      cf_message = nullish (or_undefined (room_name (tt_room p) db)) ''Unknown'' @ '' is already occupied by '' @
        nullish (arm_name (tt_arm p) db) (nullish (class_name (tt_class p) db) ''Unknown'') @ '' at '' @ tt_start p @
        '' on '' @ pd_day dto,
      cf_period = tt_id p\<rparr>"

definition detect_conflicts :: "period_dto \<Rightarrow> ident option \<Rightarrow> timetable_db \<Rightarrow> conflict_info option" where
  "detect_conflicts dto exclude db =
     (if pd_type dto \<noteq> Some lesson \<or> \<not> truthy (pd_teacher dto) \<and> \<not> truthy (pd_room dto) then None
      else let overlapping = overlapping_periods dto exclude db;
          teacher = (if truthy (pd_teacher dto) then find (\<lambda>p. tt_teacher p = pd_teacher dto) overlapping else None);
          room = (if truthy (pd_room dto) then find (\<lambda>p. tt_room p = pd_room dto) overlapping else None)
        in case teacher of
             Some p \<Rightarrow> Some (teacher_conflict dto db p)
           | None \<Rightarrow> map_option (room_conflict dto db) room)"

definition conflict_found :: "period_dto \<Rightarrow> ident option \<Rightarrow> timetable_db \<Rightarrow> bool \<times> http_error" where
  "conflict_found dto exclude db =
     (case detect_conflicts dto exclude db of None \<Rightarrow> (False, JsError []) | Some c \<Rightarrow> (True, Conflict (cf_message c)))"

section \<open>Assignments that follow the timetable\<close>

definition duty_clash :: "duty_row \<Rightarrow> duty_row \<Rightarrow> bool" where
  "duty_clash d e =
     (du_id d = du_id e \<or>
      (du_arm d \<noteq> None \<and> du_subject_id d \<noteq> None \<and> du_session d \<noteq> None \<and>
       du_arm d = du_arm e \<and> du_subject_id d = du_subject_id e \<and> du_session d = du_session e) \<or>
      (du_class d \<noteq> None \<and> du_arm d \<noteq> None \<and> du_subject d \<noteq> None \<and>
       du_class d = du_class e \<and> du_arm d = du_arm e \<and> du_subject d = du_subject e \<and> du_teacher d = du_teacher e))"

definition insert_duty :: "duty_row \<Rightarrow> unit timetable_op" where
  "insert_duty d =
     op_then (op_guard (\<lambda>db. [(list_ex (duty_clash d) (tb_duties db), unique_error)]))
       (op_modify (\<lambda>db. db\<lparr>tb_duties := tb_duties db @ [d]\<rparr>))"

definition move_duty :: "ident \<Rightarrow> duty_row \<Rightarrow> unit timetable_op" where
  "move_duty teacher d =
     op_then (op_guard (\<lambda>db. [(list_ex (\<lambda>e. du_id e \<noteq> du_id d \<and> duty_clash (d\<lparr>du_teacher := teacher\<rparr>) e) (tb_duties db), unique_error)]))
       (op_modify (\<lambda>db. db\<lparr>tb_duties := update_first (\<lambda>e. du_id e = du_id d) (\<lambda>e. e\<lparr>du_teacher := teacher\<rparr>) (tb_duties db)\<rparr>))"

definition sync_warning :: "duty_row \<Rightarrow> ident \<Rightarrow> ident \<Rightarrow> timetable_db \<Rightarrow> string" where
  "sync_warning d subject arm db =
     ''Class assignment updated: \"'' @ nullish (or_undefined (map_option sj_name (find_subject subject (tb_subjects db)))) subject @
     ''\" in '' @ nullish (arm_name (Some arm) db) arm @ '' was designated to '' @
     nullish (teacher_name (Some (du_teacher d)) db) (du_teacher d) @
     ''. Timetable assignment has been synced to the new teacher.''"

text \<open>\<open>syncClassTeacherFromPeriod\<close>: the assignment of the subject in the arm follows the period.\<close>

definition sync_class_teacher_from_period :: "ident \<Rightarrow> timetable_row \<Rightarrow> string list timetable_op" where
  "sync_class_teacher_from_period new_id p =
     (let arm = the (tt_arm p); subject = the (tt_subject p); teacher = the (tt_teacher p) in
      op_bind (op_get (\<lambda>db. (map_option lv_type (level_of arm (tb_base db)), find_term (tt_term p) (tb_base db)))) (\<lambda>(type, term).
      if type \<noteq> Some ''SECONDARY'' then op_ret []
      else case term of
        None \<Rightarrow> op_ret []
      | Some t \<Rightarrow>
          op_bind (op_get (\<lambda>db. find (\<lambda>d. du_subject_id d = Some subject \<and> du_arm d = Some arm \<and> du_session d = Some (tr_session t))
            (tb_duties db))) (\<lambda>existing.
          case existing of
            None \<Rightarrow>
              op_then (insert_duty \<lparr>du_id = new_id, du_class = None, du_arm = Some arm, du_teacher = teacher, du_subject_id = Some subject,
                du_subject = None, du_session = Some (tr_session t), du_primary = False\<rparr>) (op_ret [])
          | Some d \<Rightarrow>
              if du_teacher d = teacher then op_ret []
              else op_bind (op_get (sync_warning d subject arm)) (\<lambda>w.
                op_then (move_duty teacher d) (op_ret [w])))))"

definition synced :: "timetable_row \<Rightarrow> bool" where
  "synced p = (truthy (tt_subject p) \<and> truthy (tt_arm p) \<and> truthy (tt_teacher p) \<and> tt_kind p = lesson)"

definition sync_if_lesson :: "ident \<Rightarrow> timetable_row \<Rightarrow> string list timetable_op" where
  "sync_if_lesson new_id p = (if synced p then sync_class_teacher_from_period new_id p else op_ret [])"

definition resolve_primary_teacher :: "ident \<Rightarrow> timetable_db \<Rightarrow> ident option" where
  "resolve_primary_teacher arm db = map_option du_teacher (find (\<lambda>d. du_arm d = Some arm \<and> du_primary d) (tb_duties db))"

section \<open>Creating a period\<close>

text \<open>The rows a period points to exist (foreign keys), and its slots in class and arm are free.\<close>

definition refs_exist :: "timetable_row \<Rightarrow> timetable_db \<Rightarrow> bool" where
  "refs_exist p db =
     (find_term (tt_term p) (tb_base db) \<noteq> None \<and>
      (case tt_subject p of None \<Rightarrow> True | Some s \<Rightarrow> find_subject s (tb_subjects db) \<noteq> None) \<and>
      (case tt_course p of None \<Rightarrow> True | Some c \<Rightarrow> find_class c (tb_base db) \<noteq> None) \<and>
      (case tt_teacher p of None \<Rightarrow> True | Some t \<Rightarrow> find_teacher t (tb_teachers db) \<noteq> None) \<and>
      (case tt_room p of None \<Rightarrow> True | Some r \<Rightarrow> find_room r (tb_rooms db) \<noteq> None) \<and>
      (case tt_class p of None \<Rightarrow> True | Some c \<Rightarrow> find_class c (tb_base db) \<noteq> None) \<and>
      (case tt_arm p of None \<Rightarrow> True | Some a \<Rightarrow> find_arm a (tb_base db) \<noteq> None))"

definition foreign_key_error :: http_error where
  "foreign_key_error = JsError ''Foreign key constraint failed''"

definition insert_period :: "timetable_row \<Rightarrow> unit timetable_op" where
  "insert_period p =
     op_then (op_guard (\<lambda>db. [(\<not> refs_exist p db, foreign_key_error),
         (list_ex (period_clash p) (sd_periods (tb_base db)), unique_error)]))
       (op_modify (on_periods (\<lambda>ps. ps @ [p])))"

definition create_period_checks :: "ident \<Rightarrow> period_dto \<Rightarrow> timetable_db \<Rightarrow> (bool \<times> http_error) list" where
  "create_period_checks school dto db =
     [school_missing school db, term_missing school (pd_term dto) db,
      (\<not> truthy (pd_class dto) \<and> \<not> truthy (pd_arm dto), BadRequest ''Either classId or classArmId must be provided''),
      class_missing school (pd_class dto) db, arm_missing school (pd_arm dto) db, conflict_found dto None db,
      bad_format (pd_start dto), bad_format (pd_end dto), bad_range (pd_start dto) (pd_end dto)]"

definition kind_or_lesson :: "string option \<Rightarrow> string" where
  "kind_or_lesson k = nullish (or_undefined k) lesson"

definition teacher_of_new_period :: "period_dto \<Rightarrow> timetable_db \<Rightarrow> ident option" where
  "teacher_of_new_period dto db =
     (if truthy (pd_arm dto) \<and> \<not> truthy (pd_teacher dto) \<and>
         map_option lv_type (level_of (the (pd_arm dto)) (tb_base db)) = Some ''PRIMARY'' \<and> kind_or_lesson (pd_type dto) = lesson
      then resolve_primary_teacher (the (pd_arm dto)) db
      else or_undefined (pd_teacher dto))"

definition new_period :: "ident \<Rightarrow> period_dto \<Rightarrow> ident option \<Rightarrow> timetable_row" where
  "new_period i dto teacher =
     \<lparr>tt_id = i, tt_term = pd_term dto, tt_class = or_undefined (pd_class dto), tt_arm = or_undefined (pd_arm dto),
      tt_day = pd_day dto, tt_start = pd_start dto, tt_end = pd_end dto, tt_kind = kind_or_lesson (pd_type dto),
      tt_subject = or_undefined (pd_subject dto), tt_course = or_undefined (pd_course dto), tt_teacher = teacher,
      tt_room = or_undefined (pd_room dto)\<rparr>"

definition create_period :: "ident \<Rightarrow> ident \<Rightarrow> ident \<Rightarrow> period_dto \<Rightarrow> (timetable_row \<times> string list) timetable_op" where
  "create_period new_id duty_id school dto =
     op_then (op_guard (create_period_checks school dto)) (
     op_bind (op_get (\<lambda>db. new_period new_id dto (teacher_of_new_period dto db))) (\<lambda>p.
     op_then (insert_period p) (
     op_bind (sync_if_lesson duty_id p) (\<lambda>warnings. op_ret (p, warnings)))))"

section \<open>Master schedules\<close>

record slot_def =
  mp_day :: string
  mp_start :: string
  mp_end :: string
  mp_type :: "string option"

definition schedule_row :: "ident \<Rightarrow> ident \<Rightarrow> ident option \<times> ident option \<Rightarrow> slot_def \<Rightarrow> timetable_row" where
  "schedule_row i tid target d =
     \<lparr>tt_id = i, tt_term = tid, tt_class = fst target, tt_arm = snd target, tt_day = mp_day d, tt_start = mp_start d,
      tt_end = mp_end d, tt_kind = kind_or_lesson (mp_type d), tt_subject = None, tt_course = None, tt_teacher = None, tt_room = None\<rparr>"

text \<open>\<open>createMany\<close> with \<open>skipDuplicates\<close>: a row that breaks a unique key is left out.\<close>

definition add_unless_clash :: "timetable_row \<Rightarrow> timetable_row list \<Rightarrow> timetable_row list" where
  "add_unless_clash p ps = (if list_ex (period_clash p) ps then ps else ps @ [p])"

definition master_targets :: "ident \<Rightarrow> ident option \<Rightarrow> ident option \<Rightarrow> timetable_db \<Rightarrow> (ident option \<times> ident option) list" where
  "master_targets school cls arm db =
     (if truthy cls then [(cls, None)]
      else if truthy arm then [(None, arm)]
      else map (\<lambda>a. (None, Some (la_id a)))
        (filter (\<lambda>a. la_active a \<and> arm_of_school school (la_id a) (tb_base db)) (sd_arms (tb_base db))))"

definition master_checks :: "ident \<Rightarrow> ident \<Rightarrow> ident option \<Rightarrow> ident option \<Rightarrow> timetable_db \<Rightarrow> (bool \<times> http_error) list" where
  "master_checks school tid cls arm db =
     [school_missing school db, term_missing school tid db, class_missing school cls db,
      (\<not> truthy cls \<and> fst (arm_missing school arm db), NotFound ''Class arm not found'')]"

text \<open>The id of the new row number n is \<open>ids n\<close>.\<close>

definition create_master_schedule ::
  "(nat \<Rightarrow> ident) \<Rightarrow> ident \<Rightarrow> ident \<Rightarrow> ident option \<Rightarrow> ident option \<Rightarrow> slot_def list \<Rightarrow> (nat \<times> nat) timetable_op" where
  "create_master_schedule ids school tid cls arm defs =
     op_then (op_guard (master_checks school tid cls arm)) (
     op_bind (op_get (\<lambda>db. concat (map (\<lambda>t. map (Pair t) defs) (master_targets school cls arm db)))) (\<lambda>slots.
     op_bind (op_get (\<lambda>db. length (sd_periods (tb_base db)))) (\<lambda>before.
     op_then (op_modify (on_periods (fold add_unless_clash (map (\<lambda>(n, t, d). schedule_row (ids n) tid t d) (List.enumerate 0 slots))))) (
     op_bind (op_get (\<lambda>db. length (sd_periods (tb_base db)))) (\<lambda>after.
       op_ret (after - before, length slots - (after - before)))))))"

section \<open>Updating a period\<close>

text \<open>
  A field that is not in the request is None. The second option of a column that may be null is its
  new value. The body of this request is not validated.
\<close>

record period_update =
  pu_day :: "string option"
  pu_start :: "string option"
  pu_end :: "string option"
  pu_type :: "string option"
  pu_term :: "ident option"
  pu_subject :: "ident option option"
  pu_course :: "ident option option"
  pu_teacher :: "ident option option"
  pu_room :: "ident option option"
  pu_class :: "ident option option"
  pu_arm :: "ident option option"

text \<open>\<open>dto.x ?? period.x\<close>: null counts as absent.\<close>

definition or_stored :: "ident option option \<Rightarrow> ident option \<Rightarrow> ident option" where
  "or_stored new old = (case new of Some (Some x) \<Rightarrow> Some x | _ \<Rightarrow> old)"

definition or_kept :: "string option \<Rightarrow> string \<Rightarrow> string" where
  "or_kept new old = nullish (or_undefined new) old"

text \<open>The merged request \<open>\{ ...period, ...dto, ... \}\<close> the conflicts are looked up for.\<close>

definition merged_dto :: "period_update \<Rightarrow> timetable_row \<Rightarrow> period_dto" where
  "merged_dto u p =
     \<lparr>pd_term = or_kept (pu_term u) (tt_term p), pd_day = or_kept (pu_day u) (tt_day p), pd_start = or_kept (pu_start u) (tt_start p),
      pd_end = or_kept (pu_end u) (tt_end p), pd_type = Some (nullish (pu_type u) (tt_kind p)),
      pd_subject = nullish (pu_subject u) (tt_subject p), pd_course = nullish (pu_course u) (tt_course p),
      pd_teacher = nullish (pu_teacher u) (tt_teacher p), pd_room = nullish (pu_room u) (tt_room p),
      pd_class = nullish (pu_class u) (tt_class p), pd_arm = or_else (Option.bind (pu_arm u) id) (tt_arm p)\<rparr>"

definition same_class_day :: "period_update \<Rightarrow> timetable_row \<Rightarrow> timetable_row \<Rightarrow> bool" where
  "same_class_day u p q =
     (let arm = or_stored (pu_arm u) (tt_arm p); cls = or_stored (pu_class u) (tt_class p) in
      tt_id q \<noteq> tt_id p \<and> tt_day q = nullish (pu_day u) (tt_day p) \<and> tt_term q = nullish (pu_term u) (tt_term p) \<and>
      (if truthy arm then tt_arm q = arm else truthy cls \<longrightarrow> tt_class q = cls))"

definition overlapping_in_class :: "period_update \<Rightarrow> timetable_row \<Rightarrow> timetable_db \<Rightarrow> timetable_row option" where
  "overlapping_in_class u p db =
     find (\<lambda>q. do_periods_overlap (nullish (pu_start u) (tt_start p)) (nullish (pu_end u) (tt_end p)) (tt_start q) (tt_end q))
       (filter (same_class_day u p) (sd_periods (tb_base db)))"

definition slot_taken :: "period_update \<Rightarrow> timetable_row \<Rightarrow> timetable_db \<Rightarrow> bool \<times> http_error" where
  "slot_taken u p db =
     (case overlapping_in_class u p db of
        None \<Rightarrow> (False, JsError [])
      | Some q \<Rightarrow>
          (pu_start u \<noteq> None \<or> pu_end u \<noteq> None,
           Conflict (''Time slot '' @ nullish (pu_start u) (tt_start p) @ ''-'' @ nullish (pu_end u) (tt_end p) @ '' on '' @
             nullish (pu_day u) (tt_day p) @ '' overlaps with an existing period ('' @ tt_start q @ ''-'' @ tt_end q @ '')'')))"

definition when_given :: "string option \<Rightarrow> (string \<Rightarrow> bool \<times> http_error) \<Rightarrow> (bool \<times> http_error) list" where
  "when_given x f = (if truthy x then [f (the x)] else [])"

text \<open>The range is compared with the stored end or start, when there is one.\<close>

definition range_checks :: "period_update \<Rightarrow> timetable_row \<Rightarrow> (bool \<times> http_error) list" where
  "range_checks u p =
     (if truthy (pu_start u) \<and> truthy (pu_end u) then [bad_range (the (pu_start u)) (the (pu_end u))]
      else if truthy (pu_start u) \<and> tt_end p \<noteq> [] then [bad_range (the (pu_start u)) (tt_end p)]
      else if truthy (pu_end u) \<and> tt_start p \<noteq> [] then [bad_range (tt_start p) (the (pu_end u))]
      else [])"

definition update_period_checks :: "period_update \<Rightarrow> timetable_row \<Rightarrow> timetable_db \<Rightarrow> (bool \<times> http_error) list" where
  "update_period_checks u p db =
     (if truthy (Option.bind (pu_teacher u) id) \<or> truthy (Option.bind (pu_room u) id)
      then [conflict_found (merged_dto u p) (Some (tt_id p)) db] else []) @
     [slot_taken u p db] @ when_given (pu_start u) bad_format @ when_given (pu_end u) bad_format @ range_checks u p"

text \<open>The new columns; the term of a period never changes.\<close>

definition edited_period :: "period_update \<Rightarrow> timetable_row \<Rightarrow> timetable_row" where
  "edited_period u p =
     p\<lparr>tt_day := nullish (pu_day u) (tt_day p), tt_start := nullish (pu_start u) (tt_start p), tt_end := nullish (pu_end u) (tt_end p),
       tt_kind := nullish (pu_type u) (tt_kind p), tt_subject := nullish (pu_subject u) (tt_subject p),
       tt_course := nullish (pu_course u) (tt_course p), tt_class := nullish (pu_class u) (tt_class p),
       tt_teacher := nullish (pu_teacher u) (tt_teacher p), tt_room := nullish (pu_room u) (tt_room p),
       tt_arm := nullish (pu_arm u) (tt_arm p)\<rparr>"

definition fill_primary_teacher :: "period_update \<Rightarrow> timetable_row \<Rightarrow> timetable_db \<Rightarrow> timetable_row \<Rightarrow> timetable_row" where
  "fill_primary_teacher u p db r =
     (let arm = or_stored (pu_arm u) (tt_arm p); teacher = or_stored (pu_teacher u) (tt_teacher p);
          primary = (if truthy arm \<and> \<not> truthy teacher \<and> nullish (pu_type u) (tt_kind p) = lesson \<and>
                        map_option lv_type (level_of (the arm) (tb_base db)) = Some ''PRIMARY''
                     then resolve_primary_teacher (the arm) db else None)
      in if truthy primary then r\<lparr>tt_teacher := primary\<rparr> else r)"

definition find_school_period :: "ident \<Rightarrow> ident \<Rightarrow> timetable_db \<Rightarrow> http_error + timetable_row" where
  "find_school_period school i db =
     (if fst (school_missing school db) then Inl (BadRequest ''School not found'')
      else case find_period i db of
        None \<Rightarrow> Inl (NotFound ''Timetable period not found'')
      | Some p \<Rightarrow> if term_of_school school (tt_term p) (tb_base db) = None then Inl (NotFound ''Timetable period not found'') else Inr p)"

definition write_period :: "timetable_row \<Rightarrow> unit timetable_op" where
  "write_period r =
     op_then (op_guard (\<lambda>db. [(\<not> refs_exist r db, foreign_key_error),
         (list_ex (\<lambda>q. tt_id q \<noteq> tt_id r \<and> period_clash r q) (sd_periods (tb_base db)), unique_error)]))
       (op_modify (on_periods (update_first (\<lambda>q. tt_id q = tt_id r) (\<lambda>_. r))))"

definition update_period :: "ident \<Rightarrow> ident \<Rightarrow> ident \<Rightarrow> period_update \<Rightarrow> (timetable_row \<times> string list) timetable_op" where
  "update_period duty_id school i u =
     op_bind (op_lift (find_school_period school i)) (\<lambda>p.
     op_then (op_guard (update_period_checks u p)) (
     op_bind (op_get (\<lambda>db. fill_primary_teacher u p db (edited_period u p))) (\<lambda>r.
     op_then (write_period r) (
     op_bind (sync_if_lesson duty_id r) (\<lambda>warnings. op_ret (r, warnings))))))"

section \<open>Deleting and replacing\<close>

definition delete_period :: "ident \<Rightarrow> ident \<Rightarrow> unit timetable_op" where
  "delete_period school i =
     op_bind (op_lift (find_school_period school i)) (\<lambda>p.
       op_modify (on_periods (delete_where (\<lambda>q. tt_id q = i))))"

definition delete_timetable_for_class :: "ident \<Rightarrow> ident \<Rightarrow> ident \<Rightarrow> unit timetable_op" where
  "delete_timetable_for_class school i tid =
     op_bind (op_get (\<lambda>db. find_arm i (tb_base db) \<noteq> None)) (\<lambda>is_arm.
     op_then (op_guard (\<lambda>db. [school_missing school db,
         (if is_arm then \<not> arm_of_school school i (tb_base db) else \<not> class_of_school school i (tb_base db), NotFound ''Class not found''),
         term_missing school tid db]))
       (op_modify (on_periods (delete_where (\<lambda>p. tt_term p = tid \<and> (if is_arm then tt_arm p = Some i else tt_class p = Some i))))))"

definition replace_checks :: "ident \<Rightarrow> ident \<Rightarrow> ident option \<Rightarrow> ident option \<Rightarrow> period_dto list \<Rightarrow> timetable_db \<Rightarrow> (bool \<times> http_error) list" where
  "replace_checks school tid cls arm ps db =
     [school_missing school db, term_missing school tid db,
      (\<not> truthy cls \<and> \<not> truthy arm, BadRequest ''Either classId or classArmId must be provided''),
      class_missing school cls db, arm_missing school arm db] @
     concat (map (\<lambda>p.
       [(\<not> hhmm (pd_start p), BadRequest (''Invalid startTime format: '' @ pd_start p)),
        (\<not> hhmm (pd_end p), BadRequest (''Invalid endTime format: '' @ pd_end p)),
        (pd_end p \<le> pd_start p, BadRequest (''Period '' @ pd_start p @ ''-'' @ pd_end p @ '': start must be before end''))]) ps)"

text \<open>The class of the whole timetable goes before the one a period names.\<close>

definition replacement_row :: "ident \<Rightarrow> ident \<Rightarrow> ident option \<Rightarrow> ident option \<Rightarrow> period_dto \<Rightarrow> timetable_row" where
  "replacement_row i tid cls arm p =
     (new_period i p (or_undefined (pd_teacher p)))\<lparr>tt_term := tid, tt_class := or_undefined (or_else cls (pd_class p)),
       tt_arm := or_undefined (or_else arm (pd_arm p))\<rparr>"

definition in_replaced :: "ident \<Rightarrow> ident option \<Rightarrow> ident option \<Rightarrow> timetable_row \<Rightarrow> bool" where
  "in_replaced tid cls arm p = (tt_term p = tid \<and> (if truthy arm then tt_arm p = arm else tt_class p = cls))"

text \<open>
  The transaction: when a row breaks a key or points to a missing row nothing is written.
\<close>

fun add_all :: "timetable_row list \<Rightarrow> timetable_row list \<Rightarrow> timetable_row list option" where
  "add_all [] ps = Some ps"
| "add_all (r # rs) ps = (if list_ex (period_clash r) ps then None else add_all rs (ps @ [r]))"

definition replace_timetable ::
  "(nat \<Rightarrow> ident) \<Rightarrow> ident \<Rightarrow> ident \<Rightarrow> ident option \<Rightarrow> ident option \<Rightarrow> period_dto list \<Rightarrow> nat timetable_op" where
  "replace_timetable ids school tid cls arm ps =
     op_then (op_guard (replace_checks school tid cls arm ps)) (
     let rows = map (\<lambda>(n, p). replacement_row (ids n) tid cls arm p) (List.enumerate 0 ps) in
     op_then (op_guard (\<lambda>db. [(\<not> list_all (\<lambda>r. refs_exist r db) rows, foreign_key_error)])) (
     op_bind (op_get (\<lambda>db. add_all rows (delete_where (in_replaced tid cls arm) (sd_periods (tb_base db))))) (\<lambda>result.
     case result of
       None \<Rightarrow> op_throw unique_error
     | Some all \<Rightarrow> op_then (op_modify (on_periods (\<lambda>_. all))) (op_ret (length ps)))))"

text \<open>The daily job; \<open>created\<close> is the column \<open>createdAt\<close> of the periods.\<close>

definition handle_auto_deletion :: "int \<Rightarrow> date \<Rightarrow> (ident \<Rightarrow> date) \<Rightarrow> timetable_db \<Rightarrow> timetable_db" where
  "handle_auto_deletion tz now created = on_periods (delete_where (\<lambda>p. created (tt_id p) < plus_years tz now (- 1)))"

section \<open>Timetables of classes, teachers and students\<close>

record period_view =
  pv_row :: timetable_row
  pv_subject :: "string option"
  pv_course :: "string option"
  pv_teacher :: "string option"
  pv_room :: "string option"
  pv_arm :: string
  pv_conflict :: bool
  pv_message :: "string option"
  pv_conflicts :: "ident list option"
  pv_registered :: bool

definition map_to_period_dto :: "timetable_db \<Rightarrow> timetable_row \<Rightarrow> period_view" where
  "map_to_period_dto db p =
     \<lparr>pv_row = p, pv_subject = Option.bind (tt_subject p) (\<lambda>s. map_option sj_name (find_subject s (tb_subjects db))),
      pv_course = class_name (tt_course p) db, pv_teacher = teacher_name (tt_teacher p) db, pv_room = room_name (tt_room p) db,
      pv_arm = nullish (arm_name (tt_arm p) db) [], pv_conflict = False, pv_message = None, pv_conflicts = None, pv_registered = False\<rparr>"

text \<open>The order of the days is that of the enumeration of the database.\<close>

definition week_days :: "string list" where
  "week_days = [''MONDAY'', ''TUESDAY'', ''WEDNESDAY'', ''THURSDAY'', ''FRIDAY'', ''SATURDAY'', ''SUNDAY'']"

definition day_rank :: "string \<Rightarrow> nat" where
  "day_rank d = length (takeWhile (\<lambda>x. x \<noteq> d) week_days)"

definition ordered_periods :: "(timetable_row \<Rightarrow> bool) \<Rightarrow> timetable_db \<Rightarrow> period_view list" where
  "ordered_periods p db =
     map (map_to_period_dto db) (sort_key (\<lambda>q. (day_rank (tt_day q), tt_start q)) (filter p (sd_periods (tb_base db))))"

definition get_timetable_for_class_arm :: "ident \<Rightarrow> ident \<Rightarrow> ident \<Rightarrow> timetable_db \<Rightarrow> http_error + period_view list" where
  "get_timetable_for_class_arm school arm tid db =
     (if fst (school_missing school db) then Inl (BadRequest ''School not found'')
      else Inr (ordered_periods (\<lambda>p. tt_arm p = Some arm \<and> tt_term p = tid) db))"

definition get_timetable_for_class :: "ident \<Rightarrow> ident \<Rightarrow> ident \<Rightarrow> timetable_db \<Rightarrow> http_error + period_view list" where
  "get_timetable_for_class school i tid db =
     (if fst (school_missing school db) then Inl (BadRequest ''School not found'')
      else Inr (ordered_periods (\<lambda>p. tt_term p = tid \<and>
        (if find_arm i (tb_base db) \<noteq> None then tt_arm p = Some i else tt_class p = Some i \<or> tt_course p = Some i)) db))"

text \<open>The periods an assignment adds to those of the teacher.\<close>

definition duty_covers :: "timetable_db \<Rightarrow> duty_row \<Rightarrow> timetable_row \<Rightarrow> bool" where
  "duty_covers db d p =
     (if truthy (du_arm d) \<and> find_arm (the (du_arm d)) (tb_base db) \<noteq> None then
        map_option lv_type (level_of (the (du_arm d)) (tb_base db)) = Some ''PRIMARY'' \<and> tt_arm p = du_arm d
      else if truthy (du_class d) then
        (case find_class (the (du_class d)) (tb_base db) of
           None \<Rightarrow> False
         | Some c \<Rightarrow>
             if sc_type c = ''TERTIARY'' then tt_course p = du_class d
             else sc_type c = ''PRIMARY'' \<and> tt_class p = du_class d)
      else False)"

definition get_timetable_for_teacher :: "ident \<Rightarrow> string \<Rightarrow> ident \<Rightarrow> timetable_db \<Rightarrow> http_error + period_view list" where
  "get_timetable_for_teacher school i tid db =
     (if fst (school_missing school db) then Inl (BadRequest ''School not found'')
      else case find (\<lambda>t. (te_id t = i \<or> te_code t = i) \<and> te_school t = school) (tb_teachers db) of
        None \<Rightarrow> Inl (NotFound ''Teacher not found'')
      | Some t \<Rightarrow>
          Inr (ordered_periods (\<lambda>p. tt_term p = tid \<and>
            (tt_teacher p = Some (te_id t) \<or>
             list_ex (\<lambda>d. du_teacher d = te_id t \<and> duty_covers db d p) (tb_duties db))) db))"

text \<open>Clashes in the merged timetable of a student: one pass that marks each pair of clashing entries.\<close>

definition clash :: "period_view \<Rightarrow> period_view \<Rightarrow> bool" where
  "clash a b =
     (tt_day (pv_row a) = tt_day (pv_row b) \<and>
      do_periods_overlap (tt_start (pv_row a)) (tt_end (pv_row a)) (tt_start (pv_row b)) (tt_end (pv_row b)))"

definition subject_label :: "period_view \<Rightarrow> string" where
  "subject_label v = nullish (or_undefined (pv_subject v)) (nullish (or_undefined (pv_course v)) ''Unknown'')"

definition clash_message :: "period_view \<Rightarrow> period_view \<Rightarrow> string" where
  "clash_message a b =
     ''Course clash: '' @ subject_label a @ '' conflicts with '' @ subject_label b @ '' at '' @ tt_start (pv_row a) @
     '' on '' @ tt_day (pv_row a)"

definition mark_second :: "period_view \<Rightarrow> period_view \<Rightarrow> period_view" where
  "mark_second a b =
     (if clash a b \<and> \<not> pv_conflict b
      then b\<lparr>pv_conflict := True, pv_conflicts := Some (nullish (pv_conflicts b) [] @ [tt_id (pv_row a)])\<rparr> else b)"

definition mark_first :: "period_view \<Rightarrow> period_view list \<Rightarrow> period_view" where
  "mark_first a rest =
     (let hits = filter (clash a) rest
      in if hits = [] then a
         else a\<lparr>pv_conflict := True, pv_conflicts := Some (map (tt_id \<circ> pv_row) hits), pv_message := Some (clash_message a (last hits))\<rparr>)"

fun detect_time_conflicts :: "period_view list \<Rightarrow> period_view list" where
  "detect_time_conflicts [] = []"
| "detect_time_conflicts (a # rest) = mark_first a rest # detect_time_conflicts (map (mark_second a) rest)"

definition registered_timetable :: "ident \<Rightarrow> ident \<Rightarrow> timetable_db \<Rightarrow> period_view list" where
  "registered_timetable student tid db =
     (let subjects = map rg_subject (filter (\<lambda>r. rg_student r = student \<and> rg_term r = tid \<and> rg_active r) (tb_registrations db))
      in map (\<lambda>v. v\<lparr>pv_registered := True\<rparr>)
           (ordered_periods (\<lambda>p. tt_term p = tid \<and> (\<exists>s\<in>set subjects. tt_subject p = Some s)) db))"

definition get_timetable_for_student :: "ident \<Rightarrow> ident \<Rightarrow> ident \<Rightarrow> timetable_db \<Rightarrow> http_error + period_view list" where
  "get_timetable_for_student school student tid db =
     (if fst (school_missing school db) then Inl (BadRequest ''School not found'')
      else case find (\<lambda>e. en_student e = student \<and> en_school e = school \<and> en_active e) (sd_enrolments (tb_base db)) of
        None \<Rightarrow> Inl (NotFound ''Student not found or not enrolled in this school'')
      | Some e \<Rightarrow>
          (let cls = Option.bind (en_class e) (\<lambda>c. find_class c (tb_base db)) in
           if \<not> (school \<in> set (tb_tertiary db) \<and> map_option sc_type cls = Some ''TERTIARY'') then
             (if truthy (en_arm e) \<and> find_arm (the (en_arm e)) (tb_base db) \<noteq> None
              then get_timetable_for_class_arm school (the (en_arm e)) tid db
              else case cls of None \<Rightarrow> Inr [] | Some c \<Rightarrow> get_timetable_for_class school (sc_id c) tid db)
           else map_sum id (\<lambda>home. detect_time_conflicts (home @ registered_timetable student tid db))
             (get_timetable_for_class school (sc_id (the cls)) tid db)))"

text \<open>All timetables of a school, grouped by class arm or class in the order of their first period.\<close>

definition of_school_type :: "ident \<Rightarrow> string option \<Rightarrow> timetable_db \<Rightarrow> timetable_row \<Rightarrow> bool" where
  "of_school_type school ty db p =
     ((case Option.bind (tt_class p) (\<lambda>c. find_class c (tb_base db)) of
         None \<Rightarrow> False
       | Some c \<Rightarrow> sc_school c = school \<and> (truthy ty \<longrightarrow> Some (sc_type c) = ty)) \<or>
      ((\<not> truthy ty \<or> ty = Some ''PRIMARY'' \<or> ty = Some ''SECONDARY'') \<and>
       (case Option.bind (tt_arm p) (\<lambda>a. level_of a (tb_base db)) of
          None \<Rightarrow> False
        | Some l \<Rightarrow> lv_school l = school \<and> (truthy ty \<longrightarrow> Some (lv_type l) = ty))))"

definition period_group :: "timetable_row \<Rightarrow> ident option" where
  "period_group p = or_undefined (or_else (tt_arm p) (tt_class p))"

definition get_timetables_for_school_type ::
  "ident \<Rightarrow> string option \<Rightarrow> ident option \<Rightarrow> timetable_db \<Rightarrow> http_error + (ident \<times> period_view list) list" where
  "get_timetables_for_school_type school ty tid db =
     (if fst (school_missing school db) then Inl (BadRequest ''School not found'')
      else let views = ordered_periods (\<lambda>p. of_school_type school ty db p \<and> (truthy tid \<longrightarrow> Some (tt_term p) = tid)) db;
          groups = uniq (List.map_filter (period_group \<circ> pv_row) views)
        in Inr (map (\<lambda>g. (g, filter (\<lambda>v. period_group (pv_row v) = Some g) views)) groups))"

end
