(* ===== verification/TimetableFacts.thy ===== *)
theory TimetableFacts
  imports Timetable SchoolExample
begin

text \<open>
  The keys and references of the timetable through every run of requests, what the check for conflicts
  finds and misses, the marks of clashes, and replacement and master schedules as changes of the list
  of periods.
\<close>

section \<open>The tables\<close>

definition keys_ok :: "timetable_row list \<Rightarrow> bool" where
  "keys_ok ps = (distinct (map tt_id ps) \<and> (\<forall>p\<in>set ps. \<forall>q\<in>set ps. tt_id p \<noteq> tt_id q \<longrightarrow> \<not> period_clash p q))"

definition duties_ok :: "duty_row list \<Rightarrow> bool" where
  "duties_ok ds = (distinct (map du_id ds) \<and> (\<forall>d\<in>set ds. \<forall>e\<in>set ds. du_id d \<noteq> du_id e \<longrightarrow> \<not> duty_clash d e))"

definition timetable_inv :: "timetable_db \<Rightarrow> bool" where
  "timetable_inv db =
     (keys_ok (sd_periods (tb_base db)) \<and> duties_ok (tb_duties db) \<and> (\<forall>p\<in>set (sd_periods (tb_base db)). refs_exist p db))"

lemma period_clash_sym: "period_clash p q = period_clash q p"
  by (auto simp: period_clash_def)

lemma duty_clash_sym: "duty_clash p q = duty_clash q p"
  by (auto simp: duty_clash_def)

lemma period_clash_id: "period_clash p p" "tt_id p = tt_id q \<Longrightarrow> period_clash p q"
  by (simp_all add: period_clash_def)

lemma refs_exist_frame [simp]:
  "refs_exist p (on_periods f db) = refs_exist p db" "refs_exist p (db\<lparr>tb_duties := ds\<rparr>) = refs_exist p db"
  by (simp_all add: refs_exist_def on_periods_def find_term_def find_class_def find_arm_def cong: option.case_cong)

lemma on_periods_frame [simp]:
  "sd_periods (tb_base (on_periods f db)) = f (sd_periods (tb_base db))" "tb_duties (on_periods f db) = tb_duties db"
  by (simp_all add: on_periods_def)

lemma unique_append:
  assumes sym: "\<And>x y. C x y = C y x" and key: "\<And>x y. k x = k y \<Longrightarrow> C x y"
    and ok: "distinct (map k xs)" "\<forall>x\<in>set xs. \<forall>y\<in>set xs. k x \<noteq> k y \<longrightarrow> \<not> C x y" and free: "\<not> list_ex (C x) xs"
  shows "distinct (map k (xs @ [x])) \<and> (\<forall>a\<in>set (xs @ [x]). \<forall>b\<in>set (xs @ [x]). k a \<noteq> k b \<longrightarrow> \<not> C a b)"
proof -
  have "\<not> C x y \<and> \<not> C y x" if "y \<in> set xs" for y using free sym[of x y] that by (auto simp: list_ex_iff)
  moreover have "k x \<noteq> k y" if "y \<in> set xs" for y using free key[of x y] that by (auto simp: list_ex_iff)
  ultimately show ?thesis using ok by auto
qed

lemma keys_ok_append: "keys_ok ps \<Longrightarrow> \<not> list_ex (period_clash p) ps \<Longrightarrow> keys_ok (ps @ [p])"
  unfolding keys_ok_def by (rule unique_append[OF period_clash_sym period_clash_id(2)]) auto

lemma keys_ok_filter: "keys_ok ps \<Longrightarrow> keys_ok (filter f ps)"
  by (auto simp: keys_ok_def distinct_map_filter)

lemma keys_ok_add: "keys_ok ps \<Longrightarrow> keys_ok (add_unless_clash p ps)"
  by (simp add: add_unless_clash_def keys_ok_append)

lemma keys_ok_adds: "keys_ok ps \<Longrightarrow> keys_ok (fold add_unless_clash rows ps)"
  by (induction rows arbitrary: ps) (auto simp: keys_ok_add)

lemma add_all_Some: "add_all rows ps = Some all \<Longrightarrow> all = ps @ rows \<and> (keys_ok ps \<longrightarrow> keys_ok all)"
  by (induction rows ps rule: add_all.induct) (auto simp: keys_ok_append split: if_splits)

lemma keys_ok_write:
  assumes ok: "keys_ok ps" and free: "\<not> list_ex (\<lambda>q. tt_id q \<noteq> tt_id r \<and> period_clash r q) ps"
  shows "keys_ok (update_first (\<lambda>q. tt_id q = tt_id r) (\<lambda>_. r) ps)"
proof -
  let ?new = "update_first (\<lambda>q. tt_id q = tt_id r) (\<lambda>_. r) ps"
  have "map tt_id ?new = map tt_id ps" by (rule map_update_first_frame) simp
  moreover have "\<not> period_clash p q" if "p \<in> set ?new" "q \<in> set ?new" "tt_id p \<noteq> tt_id q" for p q
  proof -
    have new: "x = r \<or> x \<in> set ps" if "x \<in> set ?new" for x using set_update_firstD[OF that] by blast
    show ?thesis
      using new[OF that(1)] new[OF that(2)] that(3) ok free period_clash_sym[of p q] by (auto simp: keys_ok_def list_ex_iff)
  qed
  ultimately show ?thesis using ok by (simp add: keys_ok_def)
qed

section \<open>Every request keeps the tables\<close>

lemma insert_period_keeps: "op_keeps timetable_inv (insert_period p)"
  unfolding insert_period_def
  by (rule op_keeps_guarded) (auto simp: timetable_inv_def keys_ok_append)

lemma write_period_keeps: "op_keeps timetable_inv (write_period r)"
  unfolding write_period_def
  by (rule op_keeps_guarded) (auto simp: timetable_inv_def keys_ok_write dest!: set_update_firstD)

lemma duty_clash_id: "du_id d = du_id e \<Longrightarrow> duty_clash d e"
  by (simp add: duty_clash_def)

lemma duties_ok_append: "duties_ok ds \<Longrightarrow> \<not> list_ex (duty_clash d) ds \<Longrightarrow> duties_ok (ds @ [d])"
  unfolding duties_ok_def by (rule unique_append[OF duty_clash_sym]) (auto intro: duty_clash_id)

lemma insert_duty_keeps: "op_keeps timetable_inv (insert_duty d)"
  unfolding insert_duty_def
  by (rule op_keeps_guarded)
    (auto simp: timetable_inv_def duties_ok_append)

lemma move_duty_inv:
  assumes inv: "timetable_inv db" and d: "d \<in> set (tb_duties db)"
  shows "timetable_inv (snd (move_duty teacher d db))"
proof (cases "list_ex (\<lambda>e. du_id e \<noteq> du_id d \<and> duty_clash (d\<lparr>du_teacher := teacher\<rparr>) e) (tb_duties db)")
  case False
  let ?f = "\<lambda>e. e\<lparr>du_teacher := teacher\<rparr>"
  let ?new = "update_first (\<lambda>e. du_id e = du_id d) ?f (tb_duties db)"
  have ok: "duties_ok (tb_duties db)" using inv by (simp add: timetable_inv_def)
  have ids: "map du_id ?new = map du_id (tb_duties db)" by (rule map_update_first_frame) simp
  have new: "x = ?f d \<or> x \<in> set (tb_duties db)" if "x \<in> set ?new" for x
    using set_update_firstD[OF that] distinct_key_eq[of du_id "tb_duties db" _ d] ok d by (auto simp: duties_ok_def)
  have "\<not> duty_clash a b" if "a \<in> set ?new" "b \<in> set ?new" "du_id a \<noteq> du_id b" for a b
    using new[OF that(1)] new[OF that(2)] that(3) ok False duty_clash_sym[of a b] by (auto simp: duties_ok_def list_ex_iff)
  then have "duties_ok ?new" using ok ids by (simp add: duties_ok_def)
  then show ?thesis
    using inv False by (simp add: move_duty_def op_then_def op_bind_def op_guard_def timetable_inv_def)
qed (use inv in \<open>simp add: move_duty_def op_then_def op_bind_def op_guard_def\<close>)

lemma sync_keeps: "op_keeps timetable_inv (sync_class_teacher_from_period i p)"
  unfolding op_keeps_def
proof (intro allI impI)
  fix db assume inv: "timetable_inv db"
  have then_ret: "timetable_inv (snd (op_then m (op_ret x) db))" if "timetable_inv (snd (m db))" for m and x :: "string list"
    using that by (cases "m db"; cases "fst (m db)") (auto simp: op_then_def op_bind_def)
  show "timetable_inv (snd (sync_class_teacher_from_period i p db))"
    using inv
    by (auto simp: sync_class_teacher_from_period_def Let_def intro!: then_ret move_duty_inv op_keepsD[OF insert_duty_keeps]
      split: option.splits dest!: find_Some_in)
qed

lemma set_adds: "p \<in> set (fold add_unless_clash rows ps) \<Longrightarrow> p \<in> set ps \<or> p \<in> set rows"
  by (induction rows arbitrary: ps) (force simp: add_unless_clash_def split: if_splits)+

lemma arm_of_school_found: "arm_of_school school i b \<Longrightarrow> find_arm i b \<noteq> None"
  by (auto simp: arm_of_school_def level_of_def bind_eq_Some_conv split: option.splits)

lemma class_of_school_found: "class_of_school school i b \<Longrightarrow> find_class i b \<noteq> None"
  by (auto simp: class_of_school_def split: option.splits)

lemma schedule_rows_refer:
  assumes ok: "first_thrown (master_checks school tid cls arm db) = None"
    and r: "r \<in> set (map (\<lambda>(n, t, d). schedule_row (ids n) tid t d)
      (List.enumerate 0 (concat (map (\<lambda>t. map (Pair t) defs) (master_targets school cls arm db)))))"
  shows "refs_exist r db"
proof -
  have enum: "x \<in> set xs" if "(n, x) \<in> set (List.enumerate 0 xs)" for n and x :: 'x and xs
    using that by (auto simp: in_set_enumerate_eq)
  obtain n t d where r: "r = schedule_row (ids n) tid t d" and t: "t \<in> set (master_targets school cls arm db)"
    using r enum by fastforce
  have "find_term tid (tb_base db) \<noteq> None"
    using ok by (auto simp: master_checks_def term_missing_def dest: term_of_school_Some)
  moreover have "(case fst t of None \<Rightarrow> True | Some c \<Rightarrow> find_class c (tb_base db) \<noteq> None) \<and>
      (case snd t of None \<Rightarrow> True | Some a \<Rightarrow> find_arm a (tb_base db) \<noteq> None)"
    using t ok class_of_school_found arm_of_school_found
    by (auto simp: master_targets_def master_checks_def class_missing_def arm_missing_def truthy_def split: option.splits if_splits)
  ultimately show ?thesis by (simp add: r schedule_row_def refs_exist_def)
qed

lemma requests_keep:
  "op_keeps timetable_inv (create_period i j school dto)" "op_keeps timetable_inv (update_period j school i u)"
  "op_keeps timetable_inv (delete_period school i)" "op_keeps timetable_inv (delete_timetable_for_class school i tid)"
  "op_keeps timetable_inv (create_master_schedule ids school tid cls arm defs)"
  "op_keeps timetable_inv (replace_timetable ids school tid cls arm ps)"
proof -
  have removed: "timetable_inv (on_periods (delete_where f) db)" if "timetable_inv db" for f db
    using that by (auto simp: timetable_inv_def delete_where_def keys_ok_filter)
  have sync: "op_keeps timetable_inv (sync_if_lesson j p)" for j p
    by (auto simp: sync_if_lesson_def intro: sync_keeps)
  show "op_keeps timetable_inv (create_period i j school dto)"
    unfolding create_period_def by (intro op_keeps_intros insert_period_keeps sync)
  show "op_keeps timetable_inv (update_period j school i u)"
    unfolding update_period_def by (intro op_keeps_intros write_period_keeps sync)
  show "op_keeps timetable_inv (delete_period school i)"
    unfolding delete_period_def by (intro op_keeps_intros op_keeps_modify removed)
  show "op_keeps timetable_inv (delete_timetable_for_class school i tid)"
    unfolding delete_timetable_for_class_def by (intro op_keeps_intros op_keeps_modify removed)
  show "op_keeps timetable_inv (create_master_schedule ids school tid cls arm defs)"
    unfolding op_keeps_def
  proof (intro allI impI)
    fix db assume inv: "timetable_inv db"
    let ?slots = "concat (map (\<lambda>t. map (Pair t) defs) (master_targets school cls arm db))"
    let ?rows = "map (\<lambda>(n, t, d). schedule_row (ids n) tid t d) (List.enumerate 0 ?slots)"
    show "timetable_inv (snd (create_master_schedule ids school tid cls arm defs db))"
    proof (cases "first_thrown (master_checks school tid cls arm db) = None")
      case True
      have refs: "refs_exist r db" if "r \<in> set ?rows" for r using that schedule_rows_refer[OF True] by auto
      have "timetable_inv (on_periods (fold add_unless_clash ?rows) db)"
        using inv refs by (auto simp: timetable_inv_def keys_ok_adds dest!: set_adds)
      then show ?thesis using True by (simp add: create_master_schedule_def op_guard_then)
    qed (use inv in \<open>auto simp: create_master_schedule_def op_then_def op_bind_def op_guard_def split: option.splits\<close>)
  qed
  show "op_keeps timetable_inv (replace_timetable ids school tid cls arm ps)"
    unfolding replace_timetable_def Let_def
  proof (rule op_keeps_then[OF op_keeps_pure(6)], rule op_keeps_guarded)
    let ?rows = "map (\<lambda>(n, p). replacement_row (ids n) tid cls arm p) (List.enumerate 0 ps)"
    fix db assume inv: "timetable_inv db" and "first_thrown [(\<not> list_all (\<lambda>r. refs_exist r db) ?rows, foreign_key_error)] = None"
    then have refs: "\<forall>r\<in>set ?rows. refs_exist r db" by (simp add: list_all_iff)
    show "timetable_inv (snd (op_bind (op_get (\<lambda>db. add_all ?rows (delete_where (in_replaced tid cls arm) (sd_periods (tb_base db)))))
      (\<lambda>result. case result of None \<Rightarrow> op_throw unique_error | Some all \<Rightarrow> op_then (op_modify (on_periods (\<lambda>_. all))) (op_ret (length ps))) db))"
      using inv refs
      by (auto simp: timetable_inv_def delete_where_def keys_ok_filter split: option.splits dest!: add_all_Some)
  qed
qed

datatype timetable_event =
    CreatePeriod ident ident ident period_dto
  | UpdatePeriod ident ident ident period_update
  | DeletePeriod ident ident
  | DeleteClassTimetable ident ident ident
  | MasterSchedule "nat \<Rightarrow> ident" ident ident "ident option" "ident option" "slot_def list"
  | ReplaceTimetable "nat \<Rightarrow> ident" ident ident "ident option" "ident option" "period_dto list"
  | DailyDeletion int date "ident \<Rightarrow> date"

fun timetable_step :: "timetable_event \<Rightarrow> timetable_db \<Rightarrow> timetable_db" where
  "timetable_step (CreatePeriod i j school dto) db = snd (create_period i j school dto db)"
| "timetable_step (UpdatePeriod j school i u) db = snd (update_period j school i u db)"
| "timetable_step (DeletePeriod school i) db = snd (delete_period school i db)"
| "timetable_step (DeleteClassTimetable school i tid) db = snd (delete_timetable_for_class school i tid db)"
| "timetable_step (MasterSchedule ids school tid cls arm defs) db = snd (create_master_schedule ids school tid cls arm defs db)"
| "timetable_step (ReplaceTimetable ids school tid cls arm ps) db = snd (replace_timetable ids school tid cls arm ps db)"
| "timetable_step (DailyDeletion tz now created) db = handle_auto_deletion tz now created db"

lemma timetable_step_keeps: "timetable_inv db \<Longrightarrow> timetable_inv (timetable_step e db)"
  by (cases e)
    (auto simp: handle_auto_deletion_def timetable_inv_def[of "on_periods f db" for f] delete_where_def keys_ok_filter
      intro: op_keepsD[OF requests_keep(1)] op_keepsD[OF requests_keep(2)] op_keepsD[OF requests_keep(3)]
        op_keepsD[OF requests_keep(4)] op_keepsD[OF requests_keep(5)] op_keepsD[OF requests_keep(6)] simp: timetable_inv_def[of db])

interpretation timetables: step_system timetable_step timetable_inv
  by unfold_locales (rule timetable_step_keeps)

end
