(* ===== verification/TimetableProperties.thy ===== *)
theory TimetableProperties
  imports TimetableFacts
begin

text \<open>
  The properties of the timetable service.
\<close>

section \<open>Keys and references\<close>


section \<open>Creating a period\<close>

lemma sync_keeps_periods: "sd_periods (tb_base (snd (sync_if_lesson j p db))) = sd_periods (tb_base db)"
  "tb_base (snd (sync_if_lesson j p db)) = tb_base db"
proof -
  have "op_keeps (\<lambda>d. tb_base d = tb_base db) (sync_if_lesson j p)"
    unfolding sync_if_lesson_def sync_class_teacher_from_period_def insert_duty_def move_duty_def Let_def split_beta
    by (intro op_keeps_intros op_keeps_modify) simp_all
  then show "tb_base (snd (sync_if_lesson j p db)) = tb_base db" by (auto dest: op_keepsD)
  then show "sd_periods (tb_base (snd (sync_if_lesson j p db))) = sd_periods (tb_base db)" by simp
qed

lemma create_period_Inr:
  assumes run: "create_period i j school dto db = (Inr (p, w), db')"
  obtains "first_thrown (create_period_checks school dto db) = None" "p = new_period i dto (teacher_of_new_period dto db)"
    "refs_exist p db" "\<not> list_ex (period_clash p) (sd_periods (tb_base db))"
    "sync_if_lesson j p (on_periods (\<lambda>ps. ps @ [p]) db) = (Inr w, db')"
    "sd_periods (tb_base db') = sd_periods (tb_base db) @ [p]"
proof -
  have ok: "first_thrown (create_period_checks school dto db) = None"
    using run by (auto simp: create_period_def op_then_Inr op_guard_Inr)
  let ?p = "new_period i dto (teacher_of_new_period dto db)"
  obtain d where ins: "insert_period ?p db = (Inr (), d)" and sync: "op_bind (sync_if_lesson j ?p) (\<lambda>w. op_ret (?p, w)) d = (Inr (p, w), db')"
    using run by (auto simp: create_period_def op_guard_then ok op_then_Inr)
  have refs: "refs_exist ?p db" "\<not> list_ex (period_clash ?p) (sd_periods (tb_base db))" and d: "d = on_periods (\<lambda>ps. ps @ [?p]) db"
    using ins by (auto simp: insert_period_def op_then_Inr op_guard_Inr op_Inr_iffs)
  have w: "sync_if_lesson j ?p d = (Inr w, db')" and p: "p = ?p" using sync by (auto simp: op_bind_Inr op_Inr_iffs)
  have "sd_periods (tb_base db') = sd_periods (tb_base db) @ [?p]"
    using sync_keeps_periods(1)[of j ?p d] w d by simp
  then show ?thesis using that ok refs w d p by blast
qed

lemma detect_None:
  assumes "detect_conflicts dto ex db = None" "pd_type dto = Some lesson" "q \<in> set (sd_periods (tb_base db))" "conflict_candidate dto ex q"
    "do_periods_overlap (pd_start dto) (pd_end dto) (tt_start q) (tt_end q)"
  shows "(truthy (pd_teacher dto) \<longrightarrow> tt_teacher q \<noteq> pd_teacher dto) \<and> (truthy (pd_room dto) \<longrightarrow> tt_room q \<noteq> pd_room dto)"
proof -
  have "q \<in> set (overlapping_periods dto ex db)"
    using assms(3-5) by (auto simp: overlapping_periods_def do_periods_overlap_def)
  then show ?thesis
    using assms(1,2) by (auto simp: detect_conflicts_def Let_def find_None_all split: option.splits if_splits)
qed

text \<open>
  A created period lies in a term of the school, starts before it ends, is added to the others, and
  a lesson that names a teacher or a room overlaps no lesson of the same class, or else of the same arm,
  with that teacher or in that room.
\<close>

theorem created_period_fits:
  assumes run: "create_period i j school dto db = (Inr (p, w), db')"
  shows "sd_periods (tb_base db') = sd_periods (tb_base db) @ [p] \<and> term_of_school school (tt_term p) (tb_base db) \<noteq> None \<and>
    hhmm (tt_start p) \<and> hhmm (tt_end p) \<and> tt_start p < tt_end p \<and>
    \<not> (\<exists>q\<in>set (sd_periods (tb_base db)). pd_type dto = Some lesson \<and> tt_kind q = lesson \<and> tt_term q = tt_term p \<and> tt_day q = tt_day p \<and>
        do_periods_overlap (tt_start p) (tt_end p) (tt_start q) (tt_end q) \<and>
        (if truthy (pd_class dto) then tt_class q = tt_class p else tt_arm q = tt_arm p) \<and>
        (truthy (pd_teacher dto) \<and> tt_teacher q = pd_teacher dto \<or> truthy (pd_room dto) \<and> tt_room q = pd_room dto))"
proof (rule create_period_Inr[OF run])
  assume ok: "first_thrown (create_period_checks school dto db) = None" and p: "p = new_period i dto (teacher_of_new_period dto db)"
    and ps: "sd_periods (tb_base db') = sd_periods (tb_base db) @ [p]"
  have none: "detect_conflicts dto None db = None" using ok by (auto simp: create_period_checks_def conflict_found_def split: option.splits)
  have some: "truthy (pd_class dto) \<or> truthy (pd_arm dto)" using ok by (auto simp: create_period_checks_def)
  have "\<not> (truthy (pd_teacher dto) \<and> tt_teacher q = pd_teacher dto \<or> truthy (pd_room dto) \<and> tt_room q = pd_room dto)"
    if q: "q \<in> set (sd_periods (tb_base db))" "pd_type dto = Some lesson" "tt_kind q = lesson" "tt_term q = tt_term p" "tt_day q = tt_day p"
      "do_periods_overlap (tt_start p) (tt_end p) (tt_start q) (tt_end q)"
      "if truthy (pd_class dto) then tt_class q = tt_class p else tt_arm q = tt_arm p" for q
  proof -
    have "conflict_candidate dto None q"
      using q some by (auto simp: conflict_candidate_def p new_period_def or_undefined_def)
    then show ?thesis using detect_None[OF none q(2,1)] q(6) by (simp add: p new_period_def)
  qed
  then show ?thesis
    using ok ps by (auto simp: create_period_checks_def term_missing_def bad_format_def bad_range_def p new_period_def not_le)
qed

text \<open>
  The check for conflicts looks at the class of the request only, so a teacher who already teaches
  another arm at the time is booked a second time.
\<close>

theorem teacher_double_booked:
  assumes q: "q \<in> set (sd_periods (tb_base db))" "tt_teacher q = Some t" "tt_term q = pd_term dto" "tt_day q = pd_day dto"
      "do_periods_overlap (pd_start dto) (pd_end dto) (tt_start q) (tt_end q)"
    and dto: "pd_class dto = None" "pd_arm dto = Some a" "pd_teacher dto = Some t" "pd_subject dto = None" "pd_course dto = None" "pd_room dto = None"
    and ids: "a \<noteq> []" "t \<noteq> []" "find_teacher t (tb_teachers db) \<noteq> None" "\<forall>r\<in>set (sd_periods (tb_base db)). tt_id r \<noteq> i"
    and school: "find_school school (sd_schools (tb_base db)) \<noteq> None" "term_of_school school (pd_term dto) (tb_base db) \<noteq> None"
      "arm_of_school school a (tb_base db)"
    and times: "hhmm (pd_start dto)" "hhmm (pd_end dto)" "pd_start dto < pd_end dto"
    and free: "\<forall>r\<in>set (sd_periods (tb_base db)). tt_term r = pd_term dto \<and> tt_day r = pd_day dto \<longrightarrow> tt_arm r \<noteq> Some a"
  shows "\<exists>p db'. create_period i j school dto db = (Inr (p, []), db') \<and> {p, q} \<subseteq> set (sd_periods (tb_base db')) \<and> p \<noteq> q \<and>
    tt_term p = tt_term q \<and> tt_day p = tt_day q \<and> do_periods_overlap (tt_start p) (tt_end p) (tt_start q) (tt_end q) \<and>
    tt_teacher p = Some t \<and> tt_teacher q = Some t"
proof -
  let ?p = "new_period i dto (teacher_of_new_period dto db)" and ?d = "on_periods (\<lambda>ps. ps @ [new_period i dto (teacher_of_new_period dto db)]) db"
  have fields: "tt_id ?p = i" "tt_class ?p = None" "tt_arm ?p = Some a" "tt_term ?p = pd_term dto" "tt_day ?p = pd_day dto"
    "tt_start ?p = pd_start dto" "tt_end ?p = pd_end dto" "tt_subject ?p = None" "tt_course ?p = None" "tt_room ?p = None" "tt_teacher ?p = Some t"
    using dto ids by (auto simp: new_period_def or_undefined_def truthy_def teacher_of_new_period_def split: list.splits)
  have none: "conflict_candidate dto None r = False" if "r \<in> set (sd_periods (tb_base db))" for r
    using free that dto(1,2) ids(1) by (auto simp: conflict_candidate_def truthy_def)
  have "detect_conflicts dto None db = None"
    using none by (auto simp: detect_conflicts_def overlapping_periods_def Let_def find_None_all split: option.splits)
  then have ok: "first_thrown (create_period_checks school dto db) = None"
    using dto ids school times
    by (auto simp: create_period_checks_def school_missing_def term_missing_def class_missing_def arm_missing_def conflict_found_def
      bad_format_def bad_range_def truthy_def split: list.splits)
  have "refs_exist ?p db"
    using school ids arm_of_school_found by (auto simp: refs_exist_def fields dest!: term_of_school_Some)
  moreover have "\<not> list_ex (period_clash ?p) (sd_periods (tb_base db))"
    using free ids(4) by (auto simp: list_ex_iff period_clash_def fields)
  ultimately have "insert_period ?p db = (Inr (), ?d)" by (simp add: insert_period_def op_guard_then)
  moreover have "sync_if_lesson j ?p ?d = (Inr [], ?d)" by (simp add: sync_if_lesson_def synced_def fields)
  ultimately have "create_period i j school dto db = (Inr (?p, []), ?d)"
    by (simp add: create_period_def op_guard_then ok) (simp add: op_then_def op_bind_def)
  moreover have "?p \<noteq> q" using ids(4) q(1) fields(1) by metis
  ultimately show ?thesis using q fields by (intro exI[of _ ?p] exI[of _ ?d]) simp
qed

text \<open>The assignment a request leaves for the subject of a lesson in an arm of secondary level.\<close>

lemma sync_follows:
  assumes run: "sync_class_teacher_from_period j p db = (Inr w, db')"
    and type: "map_option lv_type (level_of (the (tt_arm p)) (tb_base db)) = Some ''SECONDARY''" and t: "find_term (tt_term p) (tb_base db) = Some t"
    and ids: "distinct (map du_id (tb_duties db))"
  shows "\<exists>d\<in>set (tb_duties db'). du_arm d = Some (the (tt_arm p)) \<and> du_subject_id d = Some (the (tt_subject p)) \<and>
    du_session d = Some (tr_session t) \<and> du_teacher d = the (tt_teacher p)"
proof (cases "find (\<lambda>d. du_subject_id d = Some (the (tt_subject p)) \<and> du_arm d = Some (the (tt_arm p)) \<and> du_session d = Some (tr_session t)) (tb_duties db)")
  case None
  then show ?thesis
    using run type t by (auto simp: sync_class_teacher_from_period_def Let_def op_then_Inr insert_duty_def op_guard_Inr op_Inr_iffs)
next
  case (Some d)
  then have d: "d \<in> set (tb_duties db)" "du_subject_id d = Some (the (tt_subject p))" "du_arm d = Some (the (tt_arm p))" "du_session d = Some (tr_session t)"
    by (auto dest: find_Some_in)
  show ?thesis
  proof (cases "du_teacher d = the (tt_teacher p)")
    case True
    then show ?thesis using run type t Some d by (auto simp: sync_class_teacher_from_period_def Let_def op_Inr_iffs)
  next
    case False
    have "\<exists>e\<in>set (update_first (\<lambda>e. du_id e = du_id d) (\<lambda>e. e\<lparr>du_teacher := the (tt_teacher p)\<rparr>) (tb_duties db)).
        e = d\<lparr>du_teacher := the (tt_teacher p)\<rparr>"
      unfolding distinct_update_first[OF ids] set_update_where using d(1) by force
    then have "d\<lparr>du_teacher := the (tt_teacher p)\<rparr> \<in> set (tb_duties db')"
      using run type t Some False
      by (auto simp: sync_class_teacher_from_period_def Let_def op_then_Inr move_duty_def op_guard_Inr op_Inr_iffs)
    then show ?thesis by (rule bexI[rotated]) (simp add: d)
  qed
qed

text \<open>
  After a lesson with a subject and a teacher is put into an arm of secondary level, the assignment
  of that subject in the arm for the session of the term names the teacher of the lesson.
\<close>

theorem class_teacher_follows_timetable:
  assumes run: "create_period i j school dto db = (Inr (p, w), db')" and inv: "timetable_inv db"
    and lesson: "synced p" and level: "level_of (the (tt_arm p)) (tb_base db) = Some l" "lv_type l = ''SECONDARY''"
  shows "\<exists>t d. find_term (tt_term p) (tb_base db) = Some t \<and> d \<in> set (tb_duties db') \<and> du_arm d = tt_arm p \<and>
    du_subject_id d = tt_subject p \<and> du_session d = Some (tr_session t) \<and> Some (du_teacher d) = tt_teacher p"
proof (rule create_period_Inr[OF run])
  assume refs: "refs_exist p db" and sync: "sync_if_lesson j p (on_periods (\<lambda>ps. ps @ [p]) db) = (Inr w, db')"
  let ?d = "on_periods (\<lambda>ps. ps @ [p]) db"
  obtain t where t: "find_term (tt_term p) (tb_base db) = Some t" using refs by (auto simp: refs_exist_def)
  have same: "level_of a (tb_base ?d) = level_of a (tb_base db)" "find_term k (tb_base ?d) = find_term k (tb_base db)" for a k
    by (simp_all add: on_periods_def level_of_def find_arm_def level_of_arm_def find_level_def find_term_def)
  have "distinct (map du_id (tb_duties ?d))" using inv by (simp add: timetable_inv_def duties_ok_def)
  moreover have "sync_class_teacher_from_period j p ?d = (Inr w, db')" using sync lesson by (simp add: sync_if_lesson_def)
  ultimately obtain d where "d \<in> set (tb_duties db')" "du_arm d = Some (the (tt_arm p))" "du_subject_id d = Some (the (tt_subject p))"
    "du_session d = Some (tr_session t)" "du_teacher d = the (tt_teacher p)"
    using sync_follows[of j p ?d w db' t] t level by (auto simp: same)
  then show ?thesis using t lesson by (auto simp: synced_def truthy_def split: option.splits)
qed

section \<open>Clashes in the timetable of a student\<close>

lemma clash_sym: "clash a b = clash b a"
  by (auto simp: clash_def do_periods_overlap_def)

lemma mark_frames [simp]:
  "pv_row (mark_second a b) = pv_row b" "pv_row (mark_first a rest) = pv_row a"
  "clash x (mark_second a b) = clash x b" "clash (mark_second a b) x = clash b x"
  by (simp_all add: mark_second_def mark_first_def clash_def Let_def)

lemma marked: "pv_conflict (mark_second a b) \<longleftrightarrow> pv_conflict b \<or> clash a b"
  "pv_conflict (mark_first a rest) \<longleftrightarrow> pv_conflict a \<or> (\<exists>b\<in>set rest. clash a b)"
  by (auto simp: mark_second_def mark_first_def Let_def filter_empty_conv)

lemma detect_length [simp]: "length (detect_time_conflicts vs) = length vs"
  by (induction vs rule: detect_time_conflicts.induct) simp_all

lemma detect_rows [simp]: "map pv_row (detect_time_conflicts vs) = map pv_row vs"
  by (induction vs rule: detect_time_conflicts.induct) (simp_all add: comp_def)

lemma detect_flags:
  "i < length vs \<Longrightarrow> pv_conflict (detect_time_conflicts vs ! i) \<longleftrightarrow>
    pv_conflict (vs ! i) \<or> (\<exists>j<length vs. j \<noteq> i \<and> clash (vs ! i) (vs ! j))"
proof (induction vs arbitrary: i rule: detect_time_conflicts.induct)
  case (2 a rest)
  show ?case
  proof (cases i)
    case 0
    have "(\<exists>b\<in>set rest. clash a b) \<longleftrightarrow> (\<exists>j<length (a # rest). j \<noteq> 0 \<and> clash a ((a # rest) ! j))"
      by (simp add: Ex_less_Suc2) (metis in_set_conv_nth)
    then show ?thesis using 0 by (simp add: marked)
  next
    case (Suc k)
    then have k: "k < length rest" using 2(2) by simp
    have "(\<exists>j<length (a # rest). j \<noteq> Suc k \<and> clash (rest ! k) ((a # rest) ! j)) \<longleftrightarrow>
        clash (rest ! k) a \<or> (\<exists>j<length rest. j \<noteq> k \<and> clash (rest ! k) (rest ! j))"
      by (auto simp: less_Suc_eq_0_disj)
    then show ?thesis using 2(1)[of k] k Suc clash_sym[of a "rest ! k"] by (auto simp: marked)
  qed
qed simp

text \<open>
  In the merged timetable of a student an entry is marked as a clash exactly when it overlaps another
  entry of its day, and no entry is lost, added or moved.
\<close>

theorem time_conflicts_correct:
  "map pv_row (detect_time_conflicts vs) = map pv_row vs \<and>
   map pv_conflict (detect_time_conflicts vs) =
     map (\<lambda>i. pv_conflict (vs ! i) \<or> list_ex (\<lambda>j. j \<noteq> i \<and> clash (vs ! i) (vs ! j)) [0..<length vs]) [0..<length vs]"
  by (intro conjI detect_rows nth_equalityI) (simp_all add: detect_flags list_ex_iff Bex_def conj_commute)

text \<open>
  A subject of the home class that the student is also registered for appears twice in the timetable
  and is reported as a clash with itself.
\<close>

theorem registered_home_subject_clashes:
  assumes home: "get_timetable_for_class school c tid db = Inr home" and v: "v \<in> set home" "tt_subject (pv_row v) = Some s"
      "tt_start (pv_row v) < tt_end (pv_row v)"
    and reg: "r \<in> set (tb_registrations db)" "rg_student r = student" "rg_term r = tid" "rg_active r" "rg_subject r = s"
  shows "\<exists>x\<in>set (detect_time_conflicts (home @ registered_timetable student tid db)). pv_row x = pv_row v \<and> pv_conflict x"
proof -
  let ?vs = "home @ registered_timetable student tid db"
  have row: "pv_row v \<in> set (sd_periods (tb_base db))" "tt_term (pv_row v) = tid"
    using home v by (auto simp: get_timetable_for_class_def ordered_periods_def map_to_period_dto_def split: if_splits)
  have rows: "pv_row ` set (registered_timetable student tid db) = {p \<in> set (sd_periods (tb_base db)). tt_term p = tid \<and>
      (\<exists>r\<in>set (tb_registrations db). rg_student r = student \<and> rg_term r = tid \<and> rg_active r \<and> tt_subject p = Some (rg_subject r))}"
    by (simp add: registered_timetable_def ordered_periods_def Let_def image_image map_to_period_dto_def) auto
  have "pv_row v \<in> pv_row ` set (registered_timetable student tid db)"
    unfolding rows using row v reg by auto
  then obtain u where u: "u \<in> set (registered_timetable student tid db)" "pv_row u = pv_row v" by force
  obtain i j where i: "i < length home" "home ! i = v" and j: "j < length (registered_timetable student tid db)" "registered_timetable student tid db ! j = u"
    using v(1) u(1) by (auto simp: in_set_conv_nth)
  have "?vs ! i = v" "?vs ! (length home + j) = u" using i j by (simp_all add: nth_append)
  moreover have "clash v u" using u(2) v(3) by (simp add: clash_def do_periods_overlap_def)
  ultimately have "pv_conflict (detect_time_conflicts ?vs ! i)"
    using detect_flags[of i ?vs] i j by (auto intro!: exI[of _ "length home + j"])
  moreover have "pv_row (detect_time_conflicts ?vs ! i) = pv_row v"
    using nth_map[of i "detect_time_conflicts ?vs" pv_row] nth_map[of i ?vs pv_row] i by (simp add: nth_append)
  moreover have "detect_time_conflicts ?vs ! i \<in> set (detect_time_conflicts ?vs)" using i by (simp add: nth_mem)
  ultimately show ?thesis by blast
qed

section \<open>Changing the times\<close>

lemma find_school_period_Inr: "find_school_period school i db = Inr p \<Longrightarrow> tt_id p = i \<and> p \<in> set (sd_periods (tb_base db))"
  by (auto simp: find_school_period_def find_period_def dest!: find_Some_in split: if_splits option.splits)

lemma update_period_Inr:
  assumes run: "update_period j school i u db = (Inr (r, w), db')"
  obtains p where "find_school_period school i db = Inr p" "tt_id p = i" "first_thrown (update_period_checks u p db) = None"
    "r = fill_primary_teacher u p db (edited_period u p)"
  using run find_school_period_Inr by (auto simp: update_period_def op_bind_Inr op_then_Inr op_guard_Inr op_Inr_iffs)

text \<open>
  A period whose start or end is changed overlaps no other period of its arm on its day, of any
  kind, unless the request also names another term or sets the arm to null.
\<close>

theorem retimed_period_fits:
  assumes run: "update_period j school i u db = (Inr (r, w), db')" and times: "pu_start u \<noteq> None \<or> pu_end u \<noteq> None"
    and plain: "pu_term u = None" "pu_arm u \<noteq> Some None"
    and q: "q \<in> set (sd_periods (tb_base db))" "tt_id q \<noteq> i" "tt_term q = tt_term r" "tt_day q = tt_day r" "tt_arm q = tt_arm r" "truthy (tt_arm r)"
  shows "\<not> do_periods_overlap (tt_start r) (tt_end r) (tt_start q) (tt_end q)"
proof (rule update_period_Inr[OF run])
  fix p assume p: "tt_id p = i" and ok: "first_thrown (update_period_checks u p db) = None"
    and r: "r = fill_primary_teacher u p db (edited_period u p)"
  have none: "overlapping_in_class u p db = None"
    using ok times by (auto simp: update_period_checks_def slot_taken_def split: option.splits)
  have arm: "or_stored (pu_arm u) (tt_arm p) = nullish (pu_arm u) (tt_arm p)"
    using plain(2) by (auto simp: or_stored_def nullish_def split: option.splits)
  have fields: "tt_arm r = nullish (pu_arm u) (tt_arm p)" "tt_term r = tt_term p" "tt_day r = nullish (pu_day u) (tt_day p)"
    "tt_start r = nullish (pu_start u) (tt_start p)" "tt_end r = nullish (pu_end u) (tt_end p)"
    by (simp_all add: r fill_primary_teacher_def edited_period_def Let_def)
  have "same_class_day u p q"
    using q plain(1) by (simp add: same_class_day_def Let_def arm fields p nullish_def)
  then show ?thesis using none q(1) by (auto simp: overlapping_in_class_def find_None_all fields)
qed

section \<open>Replacing a timetable\<close>


section \<open>Master schedules\<close>

lemma adds_prefix: "\<exists>new. fold add_unless_clash rows ps = ps @ new \<and> length new \<le> length rows \<and> set new \<subseteq> set rows"
proof (induction rows arbitrary: ps)
  case (Cons r rows)
  obtain new where "fold add_unless_clash rows (add_unless_clash r ps) = add_unless_clash r ps @ new" "length new \<le> length rows"
    "set new \<subseteq> set rows"
    using Cons by blast
  moreover have "add_unless_clash r ps = ps \<or> add_unless_clash r ps = ps @ [r]" by (simp add: add_unless_clash_def)
  ultimately show ?case by fastforce
qed simp

lemma adds_present: "r \<in> set rows \<Longrightarrow> \<exists>q\<in>set (fold add_unless_clash rows ps). period_clash r q"
proof (induction rows arbitrary: ps)
  case (Cons s rows)
  have here: "\<exists>q\<in>set (add_unless_clash s ps). period_clash s q"
    by (auto simp: add_unless_clash_def list_ex_iff period_clash_id)
  have "set (add_unless_clash s ps) \<subseteq> set (fold add_unless_clash rows (add_unless_clash s ps))"
    using adds_prefix[of rows "add_unless_clash s ps"] by auto
  then show ?case using here Cons by auto
qed simp

text \<open>
  A master schedule keeps all periods, adds as many as it reports created, reports the rest of the
  slots as skipped, and afterwards each class or arm it is for has a period at the start of every slot.
\<close>

theorem master_schedule_correct:
  assumes run: "create_master_schedule ids school tid cls arm defs db = (Inr (created, skipped), db')"
    and fresh: "\<forall>n. \<forall>q\<in>set (sd_periods (tb_base db)). tt_id q \<noteq> ids n" "inj ids"
  shows "\<exists>new. sd_periods (tb_base db') = sd_periods (tb_base db) @ new \<and> length new = created \<and>
    created + skipped = length (master_targets school cls arm db) * length defs \<and>
    (\<forall>t\<in>set (master_targets school cls arm db). \<forall>d\<in>set defs. \<exists>q\<in>set (sd_periods (tb_base db')).
      tt_term q = tid \<and> tt_day q = mp_day d \<and> tt_start q = mp_start d \<and>
      (fst t \<noteq> None \<and> tt_class q = fst t \<or> snd t \<noteq> None \<and> tt_arm q = snd t))"
proof -
  define slots where "slots = concat (map (\<lambda>t. map (Pair t) defs) (master_targets school cls arm db))"
  define rows where "rows = map (\<lambda>(n, t, d). schedule_row (ids n) tid t d) (List.enumerate 0 slots)"
  have len: "length slots = length (master_targets school cls arm db) * length defs"
    by (simp add: slots_def length_concat comp_def sum_list_triv)
  have ok: "first_thrown (master_checks school tid cls arm db) = None"
    using run by (auto simp: create_master_schedule_def op_then_Inr op_guard_Inr)
  have db': "db' = on_periods (fold add_unless_clash rows) db"
    and counts: "created = length (sd_periods (tb_base db')) - length (sd_periods (tb_base db))" "skipped = length slots - created"
    using run by (auto simp: create_master_schedule_def op_guard_then ok op_Inr_iffs rows_def slots_def)
  obtain new where new: "sd_periods (tb_base db') = sd_periods (tb_base db) @ new" "length new \<le> length slots" "set new \<subseteq> set rows"
    using adds_prefix[of rows "sd_periods (tb_base db)"] by (auto simp: db' rows_def)
  have "\<exists>q\<in>set (sd_periods (tb_base db')). tt_term q = tid \<and> tt_day q = mp_day d \<and> tt_start q = mp_start d \<and>
      (fst t \<noteq> None \<and> tt_class q = fst t \<or> snd t \<noteq> None \<and> tt_arm q = snd t)"
    if t: "t \<in> set (master_targets school cls arm db)" and d: "d \<in> set defs" for t d
  proof -
    have "(t, d) \<in> set slots" using t d by (auto simp: slots_def)
    then obtain n where n: "n < length slots" "slots ! n = (t, d)" by (auto simp: in_set_conv_nth)
    let ?r = "schedule_row (ids n) tid t d"
    have "(n, t, d) \<in> set (List.enumerate 0 slots)" using n by (simp add: in_set_enumerate_eq)
    then have "?r \<in> set rows" unfolding rows_def by force
    then have "\<exists>q\<in>set (sd_periods (tb_base db')). period_clash ?r q"
      using adds_present[of ?r rows "sd_periods (tb_base db)"] by (simp add: db')
    then obtain q where q: "q \<in> set (sd_periods (tb_base db'))" "period_clash ?r q" by blast
    have targets: "fst t \<noteq> None \<or> snd t \<noteq> None" using t by (auto simp: master_targets_def truthy_def split: if_splits option.splits)
    show ?thesis
    proof (cases "tt_id q = ids n")
      case True
      then have "q \<in> set rows" using q(1) new fresh(1) by auto
      then obtain m t' d' where m: "(m, t', d') \<in> set (List.enumerate 0 slots)" "q = schedule_row (ids m) tid t' d'"
        by (auto simp: rows_def)
      then have "m = n" using True fresh(2) by (auto simp: schedule_row_def dest: injD)
      then have "t' = t" "d' = d" using m n by (auto simp: in_set_enumerate_eq)
      then show ?thesis using q(1) m(2) targets by (intro bexI[of _ q]) (auto simp: schedule_row_def)
    next
      case False
      then show ?thesis using q by (intro bexI[of _ q]) (auto simp: period_clash_def schedule_row_def)
    qed
  qed
  then show ?thesis using new counts len by auto
qed

section \<open>Witnesses\<close>

definition ex_arm :: "string \<Rightarrow> level_arm" where
  "ex_arm i = \<lparr>la_id = i, la_level = ''JSS1'', la_name = i, la_year = ''2024/2025'', la_active = True\<rparr>"

definition ex_lesson :: "string \<Rightarrow> string \<Rightarrow> string \<Rightarrow> timetable_row" where
  "ex_lesson i arm start = \<lparr>tt_id = i, tt_term = ''t1'', tt_class = None, tt_arm = Some arm, tt_day = ''MONDAY'', tt_start = start,
     tt_end = ''08:40'', tt_kind = lesson, tt_subject = None, tt_course = None, tt_teacher = Some ''ben'', tt_room = None\<rparr>"

definition ex_timetable_db :: timetable_db where
  "ex_timetable_db = \<lparr>tb_base = (ex_session_db [])
       \<lparr>sd_terms := [blank_term ''t1'' ''1st Term'' 1 0 (90 * ms_per_day) TERM_ACTIVE ''S''],
        sd_sessions := [\<lparr>sn_id = ''S'', sn_name = ''2024/2025'', sn_start = 0, sn_end = 300 * ms_per_day, sn_status = SESSION_ACTIVE,
          sn_school = ''s'', sn_type = None\<rparr>],
        sd_arms := [ex_arm ''A'', ex_arm ''B''], sd_periods := [ex_lesson ''p1'' ''A'' ''08:00'']\<rparr>,
     tb_tertiary = [],
     tb_teachers = [\<lparr>te_id = ''ben'', te_code = ''T1'', te_user = ''u1'', te_school = ''s'', te_first = ''Ben'', te_last = ''Obi''\<rparr>],
     tb_subjects = [\<lparr>sj_id = ''maths'', sj_school = ''s'', sj_name = ''Maths'', sj_active = True\<rparr>], tb_rooms = [],
     tb_duties = [\<lparr>du_id = ''d1'', du_class = None, du_arm = Some ''B'', du_teacher = ''eve'', du_subject_id = Some ''maths'',
       du_subject = None, du_session = Some ''S'', du_primary = False\<rparr>],
     tb_registrations = []\<rparr>"

definition ex_period_dto :: period_dto where
  "ex_period_dto = \<lparr>pd_term = ''t1'', pd_day = ''MONDAY'', pd_start = ''08:20'', pd_end = ''09:00'', pd_type = Some lesson,
     pd_subject = None, pd_course = None, pd_teacher = Some ''ben'', pd_room = None, pd_class = None, pd_arm = Some ''B''\<rparr>"

lemma ex_timetable_inv: "timetable_inv ex_timetable_db"
  by code_simp

lemma Inr_result: "\<not> isl (fst r) \<Longrightarrow> r = (Inr (projr (fst r)), snd r)"
  by (cases r; cases "fst r") auto


theorem created_period_fits_witness:
  "let (r, db') = create_period ''p2'' ''d2'' ''s'' ex_period_dto ex_timetable_db; p = fst (projr r)
   in sd_periods (tb_base db') = [ex_lesson ''p1'' ''A'' ''08:00'', p] \<and> tt_start p < tt_end p"
proof -
  let ?run = "create_period ''p2'' ''d2'' ''s'' ex_period_dto ex_timetable_db"
  have "\<not> isl (fst ?run)" by code_simp
  then have run: "?run = (Inr (fst (projr (fst ?run)), snd (projr (fst ?run))), snd ?run)" using Inr_result[of ?run] by simp
  have "sd_periods (tb_base ex_timetable_db) = [ex_lesson ''p1'' ''A'' ''08:00'']" by (simp add: ex_timetable_db_def)
  then show ?thesis using created_period_fits[OF run] by (simp add: Let_def split_beta)
qed

theorem teacher_double_booked_witness:
  "\<exists>p db'. create_period ''p2'' ''d2'' ''s'' ex_period_dto ex_timetable_db = (Inr (p, []), db') \<and>
    {p, ex_lesson ''p1'' ''A'' ''08:00''} \<subseteq> set (sd_periods (tb_base db')) \<and> p \<noteq> ex_lesson ''p1'' ''A'' ''08:00'' \<and> tt_teacher p = Some ''ben''"
proof -
  have "\<exists>p db'. create_period ''p2'' ''d2'' ''s'' ex_period_dto ex_timetable_db = (Inr (p, []), db') \<and>
    {p, ex_lesson ''p1'' ''A'' ''08:00''} \<subseteq> set (sd_periods (tb_base db')) \<and> p \<noteq> ex_lesson ''p1'' ''A'' ''08:00'' \<and>
    tt_term p = tt_term (ex_lesson ''p1'' ''A'' ''08:00'') \<and> tt_day p = tt_day (ex_lesson ''p1'' ''A'' ''08:00'') \<and>
    do_periods_overlap (tt_start p) (tt_end p) (tt_start (ex_lesson ''p1'' ''A'' ''08:00'')) (tt_end (ex_lesson ''p1'' ''A'' ''08:00'')) \<and>
    tt_teacher p = Some ''ben'' \<and> tt_teacher (ex_lesson ''p1'' ''A'' ''08:00'') = Some ''ben''"
    by (rule teacher_double_booked[where a = "''B''"]) code_simp+
  then show ?thesis by blast
qed

theorem class_teacher_follows_timetable_witness:
  "list_ex (\<lambda>d. du_arm d = Some ''B'' \<and> du_teacher d = ''ben'')
     (tb_duties (snd (create_period ''p2'' ''d2'' ''s'' (ex_period_dto\<lparr>pd_subject := Some ''maths''\<rparr>) ex_timetable_db)))"
proof -
  let ?run = "create_period ''p2'' ''d2'' ''s'' (ex_period_dto\<lparr>pd_subject := Some ''maths''\<rparr>) ex_timetable_db"
  let ?p = "fst (projr (fst ?run))"
  have "\<not> isl (fst ?run)" by code_simp
  then have run: "?run = (Inr (?p, snd (projr (fst ?run))), snd ?run)" using Inr_result[of ?run] by simp
  have p: "synced ?p" "tt_arm ?p = Some ''B''" "tt_teacher ?p = Some ''ben''" by code_simp+
  have level: "level_of ''B'' (tb_base ex_timetable_db) = Some (ex_level ''JSS1'' 1)" "lv_type (ex_level ''JSS1'' 1) = ''SECONDARY''"
    by code_simp+
  show ?thesis
    using class_teacher_follows_timetable[OF run ex_timetable_inv p(1), of "ex_level ''JSS1'' 1"] level p(2,3)
    by (auto simp: list_ex_iff)
qed

definition ex_retime :: period_update where
  "ex_retime = \<lparr>pu_day = None, pu_start = Some ''09:00'', pu_end = Some ''09:40'', pu_type = None, pu_term = None, pu_subject = None,
     pu_course = None, pu_teacher = None, pu_room = None, pu_class = None, pu_arm = None\<rparr>"

theorem retimed_period_fits_witness:
  "let db = snd (create_period ''p2'' ''d2'' ''s'' (ex_period_dto\<lparr>pd_arm := Some ''A'', pd_teacher := None\<rparr>) ex_timetable_db);
     r = fst (projr (fst (update_period ''d2'' ''s'' ''p1'' ex_retime db)))
   in \<not> do_periods_overlap (tt_start r) (tt_end r) ''08:20'' ''09:00''"
proof -
  let ?db = "snd (create_period ''p2'' ''d2'' ''s'' (ex_period_dto\<lparr>pd_arm := Some ''A'', pd_teacher := None\<rparr>) ex_timetable_db)"
  let ?run = "update_period ''d2'' ''s'' ''p1'' ex_retime ?db"
  let ?r = "fst (projr (fst ?run))" and ?q = "last (sd_periods (tb_base ?db))"
  have "\<not> isl (fst ?run)" by code_simp
  then have run: "?run = (Inr (?r, snd (projr (fst ?run))), snd ?run)" using Inr_result[of ?run] by simp
  have "\<not> do_periods_overlap (tt_start ?r) (tt_end ?r) (tt_start ?q) (tt_end ?q)"
    by (rule retimed_period_fits[OF run]) code_simp+
  moreover have "tt_start ?q = ''08:20''" "tt_end ?q = ''09:00''" by code_simp+
  ultimately show ?thesis by (simp add: Let_def)
qed

definition ex_slots :: "slot_def list" where
  "ex_slots = [\<lparr>mp_day = ''MONDAY'', mp_start = ''08:00'', mp_end = ''08:40'', mp_type = None\<rparr>,
     \<lparr>mp_day = ''MONDAY'', mp_start = ''08:40'', mp_end = ''09:20'', mp_type = None\<rparr>]"

theorem master_schedule_correct_witness:
  "let db' = snd (create_master_schedule (\<lambda>n. replicate n CHR ''x'') ''s'' ''t1'' None None ex_slots ex_timetable_db)
   in \<exists>new. sd_periods (tb_base db') = sd_periods (tb_base ex_timetable_db) @ new \<and> length new = 3"
proof -
  let ?run = "create_master_schedule (\<lambda>n. replicate n CHR ''x'') ''s'' ''t1'' None None ex_slots ex_timetable_db"
  have "fst ?run = Inr (3, 1)" by code_simp
  then have run: "?run = (Inr (3, 1), snd ?run)" using prod.collapse[of ?run] by simp
  have "\<forall>n. \<forall>q\<in>set (sd_periods (tb_base ex_timetable_db)). tt_id q \<noteq> replicate n CHR ''x''"
  proof
    fix n show "\<forall>q\<in>set (sd_periods (tb_base ex_timetable_db)). tt_id q \<noteq> replicate n CHR ''x''"
      by (cases n) (simp_all add: ex_timetable_db_def ex_lesson_def)
  qed
  moreover have "inj (\<lambda>n. replicate n CHR ''x'')" by (rule injI) (metis length_replicate)
  ultimately show ?thesis using master_schedule_correct[OF run] by (auto simp: Let_def)
qed

end
