(* ===== verification/Assessments.thy ===== *)
theory Assessments
  imports Billing Grades ExamTimetable
begin

text \<open>
  Assessments, \<open>src/src/assessments/assessments.service.ts\<close> with \<open>assessment-deadline.util.ts\<close>, over
  the grade tables, the billing tables (where an enrollment and a member of staff carry their
  billing columns) and the schemes the exam gate reads. The grading of short answers by the AI
  service is a parameter; notifications and metrics are left out. Options of a question are the
  array that \<open>createAssessment\<close> writes; a deduction that is null reads as zero everywhere and is
  stored as zero here.
\<close>

section \<open>Deadlines\<close>

definition TIMER_GRACE_MINUTES :: int where
  "TIMER_GRACE_MINUTES = 2"

definition get_due_date_deadline :: "date \<Rightarrow> date" where
  "get_due_date_deadline due = due div ms_per_day * ms_per_day + ms_per_day - 1"

definition is_past_due_date :: "date option \<Rightarrow> date \<Rightarrow> bool" where
  "is_past_due_date due now = (case due of None \<Rightarrow> False | Some d \<Rightarrow> get_due_date_deadline d < now)"

definition get_timer_expiry :: "date \<Rightarrow> int \<Rightarrow> date" where
  "get_timer_expiry started minutes = started + minutes * 60 * 1000"

definition is_timer_expired :: "date option \<Rightarrow> int option \<Rightarrow> date \<Rightarrow> int \<Rightarrow> bool" where
  "is_timer_expired started minutes now grace =
     (case (started, or_null minutes) of
        (Some s, Some m) \<Rightarrow> get_timer_expiry s m + grace * 60 * 1000 < now
      | _ \<Rightarrow> False)"

record deadline_assessment =
  dl_due :: "date option"
  dl_late_due :: bool
  dl_timed :: bool
  dl_duration :: "int option"
  dl_late_timer :: bool

datatype submission_status = STARTED | SUBMITTED | GRADED

record deadline_submission =
  ds_status :: "submission_status option"
  ds_started :: "date option"

definition submitted_message :: string where
  "submitted_message = ''You have already submitted this assessment.''"

definition deadline_message :: string where
  "deadline_message = ''The submission deadline has passed. Late submissions are not allowed.''"

text \<open>The reason a start is refused, None when it is allowed.\<close>

definition evaluate_start_deadline :: "deadline_assessment \<Rightarrow> deadline_submission option \<Rightarrow> date \<Rightarrow> string option" where
  "evaluate_start_deadline a s now =
     (let status = Option.bind s ds_status in
      if status = Some SUBMITTED \<or> status = Some GRADED then Some submitted_message
      else if \<not> is_past_due_date (dl_due a) now then None
      else if dl_late_due a then None
      else if status = Some STARTED then None
      else Some deadline_message)"

record submit_check =
  sk_late_due :: bool
  sk_late_timer :: bool
  sk_auto :: bool
  sk_reason :: "string option"

definition evaluate_submit_deadline :: "deadline_assessment \<Rightarrow> deadline_submission \<Rightarrow> date \<Rightarrow> bool \<Rightarrow> submit_check" where
  "evaluate_submit_deadline a s now auto_request =
     (let past_due = is_past_due_date (dl_due a) now;
          expired = (dl_timed a \<and> is_timer_expired (ds_started s) (dl_duration a) now TIMER_GRACE_MINUTES);
          auto = (auto_request \<and> expired);
          on_time = (case (ds_started s, dl_due a) of (Some t, Some d) \<Rightarrow> t \<le> get_due_date_deadline d | _ \<Rightarrow> False);
          result = \<lparr>sk_late_due = past_due, sk_late_timer = expired, sk_auto = auto, sk_reason = None\<rparr>
      in if past_due \<and> \<not> dl_late_due a \<and> \<not> on_time then result\<lparr>sk_reason := Some deadline_message\<rparr>
         else if expired \<and> \<not> dl_late_timer a \<and> \<not> auto
         then result\<lparr>sk_auto := False, sk_reason := Some ''The exam time limit has expired. Late submissions are not allowed.''\<rparr>
         else result)"

section \<open>Tables\<close>

datatype assessment_type = QUIZ | EXAM | ASSIGNMENT

datatype assessment_status = DRAFT | PUBLISHED | CLOSED

datatype question_type = MULTIPLE_CHOICE | SHORT_ANSWER | ESSAY

record assessment =
  as_id :: ident
  as_school :: ident
  as_class :: "ident option"
  as_arm :: "ident option"
  as_subject :: ident
  as_teacher :: ident
  as_term :: "ident option"
  as_year :: "string option"
  as_title :: string
  as_type :: assessment_type
  as_status :: assessment_status
  as_due :: "date option"
  as_max :: rat
  as_timed :: bool
  as_duration :: "int option"
  as_late_due :: bool
  as_late_timer :: bool
  as_due_penalty :: rat
  as_timer_penalty :: rat
  as_integrity :: bool
  as_auto_submit :: bool
  as_threshold :: int
  as_violation_points :: rat
  as_scheme :: "ident option"
  as_created :: date

record question =
  qn_id :: ident
  qn_assessment :: ident
  qn_text :: string
  qn_type :: question_type
  qn_options :: "string list"
  qn_correct :: "string option"
  qn_points :: rat
  qn_order :: int

record submission =
  sb_id :: ident
  sb_assessment :: ident
  sb_student :: ident
  sb_status :: submission_status
  sb_total :: "rat option"
  sb_feedback :: "string option"
  sb_submitted :: date
  sb_graded :: "date option"
  sb_started :: "date option"
  sb_token :: "string option"
  sb_violations :: int
  sb_flagged :: bool
  sb_deductions :: rat
  sb_auto :: bool
  sb_late_due :: bool
  sb_late_timer :: bool
  sb_due_deduction :: rat
  sb_timer_deduction :: rat

datatype grader = BY_AUTO | BY_AI | BY_TEACHER

record answer =
  an_submission :: ident
  an_question :: ident
  an_text :: "string option"
  an_option :: "string option"
  an_correct :: "bool option"
  an_score :: rat
  an_ai_feedback :: "string option"
  an_feedback :: "string option"
  an_graded_by :: grader

record assessment_db =
  ab_grades :: grade_db
  ab_billing :: billing_db
  ab_schemes :: "scheme_row list"
  ab_assessments :: "assessment list"
  ab_questions :: "question list"
  ab_submissions :: "submission list"
  ab_answers :: "answer list"
  ab_violations :: "(ident \<times> string) list"

type_synonym 'a assessment_op = "(assessment_db, 'a) op"

definition base_of :: "assessment_db \<Rightarrow> session_db" where
  "base_of db = gb_base (ab_grades db)"

definition exam_view :: "assessment_db \<Rightarrow> exam_db" where
  "exam_view db = \<lparr>xb_base = base_of db, xb_slots = [], xb_schemes = ab_schemes db, xb_subjects = gb_subjects (ab_grades db),
     xb_teachers = gb_teachers (ab_grades db), xb_rooms = []\<rparr>"

definition find_assessment :: "ident \<Rightarrow> assessment_db \<Rightarrow> assessment option" where
  "find_assessment i db = find (\<lambda>a. as_id a = i) (ab_assessments db)"

definition assessment_of_school :: "ident \<Rightarrow> ident \<Rightarrow> assessment_db \<Rightarrow> http_error + assessment" where
  "assessment_of_school school i db =
     (case find_assessment i db of
        None \<Rightarrow> Inl (NotFound ''Assessment not found'')
      | Some a \<Rightarrow> if as_school a \<noteq> school then Inl (NotFound ''Assessment not found'') else Inr a)"

definition questions_of :: "ident \<Rightarrow> assessment_db \<Rightarrow> question list" where
  "questions_of a db = filter (\<lambda>q. qn_assessment q = a) (ab_questions db)"

definition find_submission :: "ident \<Rightarrow> ident \<Rightarrow> assessment_db \<Rightarrow> submission option" where
  "find_submission a student db = find (\<lambda>s. sb_assessment s = a \<and> sb_student s = student) (ab_submissions db)"

definition rule_of :: "assessment \<Rightarrow> deadline_assessment" where
  "rule_of a = \<lparr>dl_due = as_due a, dl_late_due = as_late_due a, dl_timed = as_timed a, dl_duration = as_duration a,
     dl_late_timer = as_late_timer a\<rparr>"

definition state_of :: "submission \<Rightarrow> deadline_submission" where
  "state_of s = \<lparr>ds_status = Some (sb_status s), ds_started = sb_started s\<rparr>"

section \<open>Callers\<close>

record caller =
  ca_user :: ident
  ca_role :: string
  ca_profile :: "ident option"

definition student_of :: "caller \<Rightarrow> assessment_db \<Rightarrow> pupil_row option" where
  "student_of c db = find (\<lambda>p. pu_user p = ca_user c) (gb_pupils (ab_grades db))"

text \<open>The student behind a request, whose enrollment in the school must be operational.\<close>

definition active_student :: "string \<Rightarrow> ident \<Rightarrow> caller \<Rightarrow> assessment_db \<Rightarrow> http_error + pupil_row" where
  "active_student message school c db =
     (case student_of c db of
        None \<Rightarrow> Inl (Forbidden message)
      | Some p \<Rightarrow> map_sum id (\<lambda>_. p) (assert_student_enrollment_operational (pu_id p) school (ab_billing db)))"

definition no_student_profile :: string where
  "no_student_profile = ''Student profile not found''"

text \<open>A teacher acts on own assessments only; an admin must not be suspended for billing.\<close>

definition may_act_on :: "string \<Rightarrow> ident \<Rightarrow> caller \<Rightarrow> ident \<Rightarrow> assessment_db \<Rightarrow> http_error + unit" where
  "may_act_on message school c owner db =
     (if ca_role c = ''TEACHER'' then
        (case find (\<lambda>t. te_user t = ca_user c \<and> te_school t = school) (gb_teachers (ab_grades db)) of
           None \<Rightarrow> Inl (Forbidden message)
         | Some t \<Rightarrow> if owner \<noteq> te_id t then Inl (Forbidden message) else assert_teacher_may_write school (te_id t) (ab_billing db))
      else if ca_role c = ''SCHOOL_ADMIN'' \<and> truthy (ca_profile c)
      then assert_school_admin_not_billing_suspended school (the (ca_profile c)) (ab_billing db)
      else Inr ())"

section \<open>Creating an assessment\<close>

record question_dto =
  qd_text :: string
  qd_type :: question_type
  qd_options :: "string list option"
  qd_correct :: "string option"
  qd_points :: rat
  qd_order :: int

record assessment_dto =
  ad_title :: string
  ad_type :: assessment_type
  ad_class :: "ident option"
  ad_arm :: "ident option"
  ad_subject :: ident
  ad_term :: "ident option"
  ad_due :: "date option"
  ad_max :: rat
  ad_timed :: "bool option"
  ad_duration :: "int option"
  ad_integrity :: "bool option"
  ad_auto_submit :: "bool option"
  ad_late_due :: "bool option"
  ad_late_timer :: "bool option"
  ad_due_penalty :: "rat option"
  ad_timer_penalty :: "rat option"
  ad_threshold :: "int option"
  ad_violation_points :: "rat option"
  ad_status :: "assessment_status option"
  ad_questions :: "question_dto list"
  ad_scheme :: "ident option"

text \<open>The defaults of the grading policy of the school.\<close>

record assessment_policy =
  ap_late_due :: bool
  ap_late_timer :: bool
  ap_due_penalty :: rat
  ap_timer_penalty :: rat
  ap_integrity :: bool
  ap_threshold :: int
  ap_violation_points :: rat

definition assessment_author :: "ident \<Rightarrow> caller \<Rightarrow> assessment_db \<Rightarrow> http_error + ident" where
  "assessment_author school c db =
     (if \<not> truthy (ca_profile c) then Inl (Forbidden ''Teacher profile not found'')
      else let i = the (ca_profile c) in
        if \<not> list_ex (\<lambda>t. te_id t = i \<and> te_school t = school) (gb_teachers (ab_grades db))
        then Inl (Forbidden ''Teacher not found in this school'')
        else map_sum id (\<lambda>_. i) (assert_teacher_may_write school i (ab_billing db)))"

text \<open>The class of the request may name a class arm.\<close>

definition resolve_class_ids :: "assessment_dto \<Rightarrow> session_db \<Rightarrow> http_error + ident option \<times> ident option" where
  "resolve_class_ids dto db =
     (if truthy (ad_class dto) then
        (let i = the (ad_class dto) in
         if find_arm i db \<noteq> None then Inr (None, Some i)
         else if find_class i db = None then Inl (NotFound (''Class or ClassArm with ID '' @ i @ '' not found''))
         else Inr (ad_class dto, ad_arm dto))
      else Inr (ad_class dto, ad_arm dto))"

definition exam_gate_checks ::
  "int \<Rightarrow> date \<Rightarrow> ident \<Rightarrow> assessment_dto \<Rightarrow> ident option \<Rightarrow> ident option \<Rightarrow> assessment_db \<Rightarrow> (bool \<times> http_error) list" where
  "exam_gate_checks tz now school dto cls arm db =
     (if ad_type dto = EXAM \<and> ad_status dto = Some PUBLISHED then
        let blockers = can_publish_exam_assessment tz now school (the (ad_term dto)) (ad_subject dto) cls arm (exam_view db)
        in [(\<not> truthy (ad_term dto) \<or> ad_subject dto = [], BadRequest ''EXAM assessments require termId and subjectId to publish.''),
            (blockers \<noteq> [], BadRequest (''Cannot publish exam assessment: '' @ join_with '' '' blockers))]
      else [])"

definition create_assessment_checks ::
  "int \<Rightarrow> date \<Rightarrow> ident \<Rightarrow> assessment_dto \<Rightarrow> ident option \<Rightarrow> ident option \<Rightarrow> assessment_db \<Rightarrow> (bool \<times> http_error) list" where
  "create_assessment_checks tz now school dto cls arm db =
     [(ad_subject dto \<noteq> [] \<and> find_subject (ad_subject dto) (gb_subjects (ab_grades db)) = None,
         NotFound (''Subject with ID '' @ ad_subject dto @ '' not found'')),
      (truthy (ad_term dto) \<and> find_term (the (ad_term dto)) (base_of db) = None,
         NotFound (''Academic Term with ID '' @ the (ad_term dto) @ '' not found''))] @
     exam_gate_checks tz now school dto cls arm db"

definition new_assessment ::
  "(ident \<Rightarrow> assessment_policy) \<Rightarrow> date \<Rightarrow> ident \<Rightarrow> ident \<Rightarrow> ident \<Rightarrow> assessment_dto \<Rightarrow> ident option \<Rightarrow> ident option \<Rightarrow> assessment" where
  "new_assessment policy now i school teacher dto cls arm =
     (let p = policy school in
      \<lparr>as_id = i, as_school = school, as_class = cls, as_arm = arm, as_subject = ad_subject dto, as_teacher = teacher,
       as_term = ad_term dto, as_year = None, as_title = ad_title dto, as_type = ad_type dto, as_status = nullish (ad_status dto) DRAFT,
       as_due = ad_due dto, as_max = ad_max dto, as_timed = nullish (ad_timed dto) False, as_duration = or_null (ad_duration dto),
       as_late_due = nullish (ad_late_due dto) (ap_late_due p), as_late_timer = nullish (ad_late_timer dto) (ap_late_timer p),
       as_due_penalty = nullish (ad_due_penalty dto) (ap_due_penalty p), as_timer_penalty = nullish (ad_timer_penalty dto) (ap_timer_penalty p),
       as_integrity = nullish (ad_integrity dto) (ap_integrity p), as_auto_submit = nullish (ad_auto_submit dto) True,
       as_threshold = nullish (ad_threshold dto) (ap_threshold p), as_violation_points = nullish (ad_violation_points dto) (ap_violation_points p),
       as_scheme = or_undefined (ad_scheme dto), as_created = now\<rparr>)"

definition new_question :: "ident \<Rightarrow> ident \<Rightarrow> question_dto \<Rightarrow> question" where
  "new_question i a q = \<lparr>qn_id = i, qn_assessment = a, qn_text = qd_text q, qn_type = qd_type q, qn_options = nullish (qd_options q) [],
     qn_correct = qd_correct q, qn_points = qd_points q, qn_order = qd_order q\<rparr>"

definition assessment_refs_ok :: "(ident \<Rightarrow> bool) \<Rightarrow> assessment \<Rightarrow> assessment_db \<Rightarrow> bool" where
  "assessment_refs_ok scheme_exists a db =
     ((case as_class a of None \<Rightarrow> True | Some c \<Rightarrow> find_class c (base_of db) \<noteq> None) \<and>
      (case as_arm a of None \<Rightarrow> True | Some r \<Rightarrow> find_arm r (base_of db) \<noteq> None) \<and>
      (case as_term a of None \<Rightarrow> True | Some t \<Rightarrow> find_term t (base_of db) \<noteq> None) \<and>
      (case as_scheme a of None \<Rightarrow> True | Some s \<Rightarrow> scheme_exists s) \<and>
      find_subject (as_subject a) (gb_subjects (ab_grades db)) \<noteq> None)"

text \<open>\<open>assessment.create\<close> with its questions; ids are new, and references exist (foreign keys).\<close>

definition insert_assessment :: "(ident \<Rightarrow> bool) \<Rightarrow> assessment \<Rightarrow> question list \<Rightarrow> unit assessment_op" where
  "insert_assessment scheme_exists a qs =
     op_then (op_guard (\<lambda>db. [(\<not> assessment_refs_ok scheme_exists a db, JsError ''Foreign key constraint failed''),
         (list_ex (\<lambda>b. as_id b = as_id a) (ab_assessments db) \<or> \<not> distinct (map qn_id (ab_questions db @ qs)), unique_error)]))
       (op_modify (\<lambda>db. db\<lparr>ab_assessments := ab_assessments db @ [a], ab_questions := ab_questions db @ qs\<rparr>))"

text \<open>The id of the question number n is \<open>qids n\<close>; \<open>scheme_exists\<close> is the table of schemes by id.\<close>

definition create_assessment ::
  "int \<Rightarrow> date \<Rightarrow> (ident \<Rightarrow> assessment_policy) \<Rightarrow> (ident \<Rightarrow> bool) \<Rightarrow> ident \<Rightarrow> (nat \<Rightarrow> ident) \<Rightarrow> ident \<Rightarrow> assessment_dto \<Rightarrow> caller
    \<Rightarrow> assessment assessment_op" where
  "create_assessment tz now policy scheme_exists i qids school dto c =
     op_bind (op_lift (assessment_author school c)) (\<lambda>teacher.
     op_bind (op_lift (\<lambda>db. resolve_class_ids dto (base_of db))) (\<lambda>(cls, arm).
     op_then (op_guard (create_assessment_checks tz now school dto cls arm)) (
     let a = new_assessment policy now i school teacher dto cls arm in
     op_then (insert_assessment scheme_exists a (map (\<lambda>(n, q). new_question (qids n) i q) (List.enumerate 0 (ad_questions dto))))
       (op_ret a))))"

text \<open>The questions go with the assessment, and with them the answers that name one of them.\<close>

definition delete_assessment :: "ident \<Rightarrow> ident \<Rightarrow> caller \<Rightarrow> unit assessment_op" where
  "delete_assessment school i c =
     op_bind (op_lift (assessment_of_school school i)) (\<lambda>a.
     op_bind (op_lift (may_act_on ''You do not have permission to delete this assessment'' school c (as_teacher a))) (\<lambda>_.
     op_then (op_guard (\<lambda>db. [(list_ex (\<lambda>s. sb_assessment s = i) (ab_submissions db),
         BadRequest ''Cannot delete assessment because it already has student submissions. Please archive it instead or contact administration.'')]))
       (op_modify (\<lambda>db. db\<lparr>ab_assessments := delete_where (\<lambda>b. as_id b = i) (ab_assessments db),
         ab_questions := delete_where (\<lambda>q. qn_assessment q = i) (ab_questions db),
         ab_answers := delete_where (\<lambda>w. list_ex (\<lambda>q. qn_id q = an_question w \<and> qn_assessment q = i) (ab_questions db)) (ab_answers db)\<rparr>))))"

section \<open>Taking an assessment\<close>

definition write_submission :: "ident \<Rightarrow> (submission \<Rightarrow> submission) \<Rightarrow> unit assessment_op" where
  "write_submission i f = op_modify (\<lambda>db. db\<lparr>ab_submissions := update_first (\<lambda>s. sb_id s = i) f (ab_submissions db)\<rparr>)"

definition blank_submission :: "date \<Rightarrow> ident \<Rightarrow> ident \<Rightarrow> ident \<Rightarrow> submission_status \<Rightarrow> submission" where
  "blank_submission now i a student status = \<lparr>sb_id = i, sb_assessment = a, sb_student = student, sb_status = status, sb_total = None,
     sb_feedback = None, sb_submitted = now, sb_graded = None, sb_started = None, sb_token = None, sb_violations = 0, sb_flagged = False,
     sb_deductions = 0, sb_auto = False, sb_late_due = False, sb_late_timer = False, sb_due_deduction = 0, sb_timer_deduction = 0\<rparr>"

definition insert_submission :: "submission \<Rightarrow> unit assessment_op" where
  "insert_submission s =
     op_then (op_guard (\<lambda>db. [(list_ex (\<lambda>r. sb_id r = sb_id s \<or> sb_assessment r = sb_assessment s \<and> sb_student r = sb_student s)
         (ab_submissions db), unique_error)]))
       (op_modify (\<lambda>db. db\<lparr>ab_submissions := ab_submissions db @ [s]\<rparr>))"

record start_view =
  vs_token :: string
  vs_started :: date
  vs_duration :: "int option"
  vs_expires :: "date option"
  vs_past_due :: bool
  vs_late_due :: bool
  vs_late_timer :: bool

definition started_view :: "date \<Rightarrow> string \<Rightarrow> assessment \<Rightarrow> date \<Rightarrow> start_view" where
  "started_view now token a started = \<lparr>vs_token = token, vs_started = started, vs_duration = (if as_timed a then as_duration a else None),
     vs_expires = (if as_timed a then map_option (get_timer_expiry started) (or_null (as_duration a)) else None),
     vs_past_due = is_past_due_date (as_due a) now, vs_late_due = as_late_due a, vs_late_timer = as_late_timer a\<rparr>"

definition token_taken :: "string \<Rightarrow> ident \<Rightarrow> assessment_db \<Rightarrow> bool" where
  "token_taken token i db = list_ex (\<lambda>s. sb_token s = Some token \<and> sb_id s \<noteq> i) (ab_submissions db)"

text \<open>The upsert: a new attempt gets a row and a start, an old one a new token and keeps its start.\<close>

definition upsert_attempt :: "date \<Rightarrow> string \<Rightarrow> ident \<Rightarrow> ident \<Rightarrow> ident \<Rightarrow> submission option \<Rightarrow> date assessment_op" where
  "upsert_attempt now token i a student existing =
     (case existing of
        None \<Rightarrow>
          op_then (op_guard (\<lambda>db. [(token_taken token i db, unique_error)])) (
          op_then (insert_submission ((blank_submission now i a student STARTED)\<lparr>sb_started := Some now, sb_token := Some token\<rparr>))
            (op_ret now))
      | Some s \<Rightarrow>
          op_then (op_guard (\<lambda>db. [(token_taken token (sb_id s) db, unique_error)])) (
          op_then (write_submission (sb_id s) (\<lambda>r. r\<lparr>sb_token := Some token\<rparr>)) (
          case sb_started s of
            Some t \<Rightarrow> op_ret t
          | None \<Rightarrow> op_then (write_submission (sb_id s) (\<lambda>r. r\<lparr>sb_started := Some now\<rparr>)) (op_ret now))))"

definition start_assessment :: "date \<Rightarrow> string \<Rightarrow> ident \<Rightarrow> ident \<Rightarrow> ident \<Rightarrow> caller \<Rightarrow> start_view assessment_op" where
  "start_assessment now token new_id school i c =
     op_bind (op_lift (active_student no_student_profile school c)) (\<lambda>p.
     op_bind (op_lift (assessment_of_school school i)) (\<lambda>a.
     op_then (op_require (as_status a = PUBLISHED) (Forbidden ''Assessment is not available'')) (
     op_bind (op_get (find_submission i (pu_id p))) (\<lambda>existing.
     case evaluate_start_deadline (rule_of a) (map_option state_of existing) now of
       Some reason \<Rightarrow> op_throw (Forbidden reason)
     | None \<Rightarrow>
         op_bind (upsert_attempt now token new_id i (pu_id p) existing) (\<lambda>started.
           op_ret (started_view now token a started))))))"

text \<open>\<open>violationThreshold || 1\<close>: no threshold of zero.\<close>

definition violation_limit :: "assessment \<Rightarrow> int" where
  "violation_limit a = (if as_threshold a = 0 then 1 else as_threshold a)"

definition add_violation :: "assessment \<Rightarrow> submission \<Rightarrow> submission" where
  "add_violation a s =
     (let n = sb_violations s + 1; over = violation_limit a < n
      in s\<lparr>sb_violations := n, sb_flagged := sb_flagged s \<or> over,
          sb_deductions := sb_deductions s + (if over \<and> 0 < as_violation_points a then as_violation_points a else 0)\<rparr>)"

text \<open>The school of the request is not compared with that of the assessment.\<close>

definition log_violation :: "ident \<Rightarrow> ident \<Rightarrow> string \<Rightarrow> caller \<Rightarrow> submission assessment_op" where
  "log_violation school i kind c =
     op_bind (op_lift (active_student ''Forbidden'' school c)) (\<lambda>p.
     op_bind (op_get (\<lambda>db. (find_submission i (pu_id p) db, find_assessment i db))) (\<lambda>(found, a).
     case found of
       None \<Rightarrow> op_throw (NotFound ''Submission not found'')
     | Some s \<Rightarrow>
         op_then (op_require (sb_status s \<noteq> GRADED) (Forbidden ''Already graded'')) (
         op_then (op_modify (\<lambda>db. db\<lparr>ab_violations := ab_violations db @ [(sb_id s, kind)]\<rparr>)) (
         op_then (write_submission (sb_id s) (add_violation (the a))) (op_ret (add_violation (the a) s))))))"

section \<open>Submitting\<close>

definition letter_index :: "char \<Rightarrow> nat option" where
  "letter_index ch = (let up = to_upper_char ch in
     if up = CHR ''A'' then Some 0 else if up = CHR ''B'' then Some 1 else if up = CHR ''C'' then Some 2
     else if up = CHR ''D'' then Some 3 else None)"

text \<open>
  The text of a chosen or expected option: a letter names an option, a label such as \<open>B.\<close> or \<open>b)\<close>
  before the text is dropped.
\<close>

definition option_at :: "string list \<Rightarrow> nat \<Rightarrow> string \<Rightarrow> string" where
  "option_at options n other = (if n < length options \<and> options ! n \<noteq> [] then options ! n else other)"

definition first_line :: "string \<Rightarrow> string" where
  "first_line s = takeWhile (\<lambda>ch. (of_char ch :: nat) \<noteq> 10 \<and> (of_char ch :: nat) \<noteq> 13) s"

definition get_opt_text :: "string \<Rightarrow> string list \<Rightarrow> string" where
  "get_opt_text v options =
     (let clean = trim v in
      case clean of
        [] \<Rightarrow> []
      | [ch] \<Rightarrow> (case letter_index ch of None \<Rightarrow> clean | Some n \<Rightarrow> option_at options n clean)
      | ch # dot # rest \<Rightarrow>
          if letter_index ch \<noteq> None \<and> (dot = CHR ''.'' \<or> dot = CHR '')'') then first_line (dropWhile is_space_char rest) else clean)"

definition mcq_correct :: "question \<Rightarrow> string option \<Rightarrow> bool" where
  "mcq_correct q chosen =
     (let expected = to_lower (get_opt_text (nullish (qn_correct q) []) (qn_options q));
          actual = to_lower (get_opt_text (nullish chosen []) (qn_options q))
      in expected = actual \<and> expected \<noteq> [])"

record ai_item =
  ai_question :: string
  ai_answer :: string
  ai_sample :: string
  ai_max :: rat

record ai_result =
  ar_correct :: "bool option"
  ar_score :: rat
  ar_feedback :: "string option"

type_synonym ai_grader = "ai_item list \<Rightarrow> ai_result list option"

record answer_dto =
  wd_question :: ident
  wd_text :: "string option"
  wd_option :: "string option"

record submit_dto =
  wd_answers :: "answer_dto list"
  wd_token :: "string option"
  wd_auto :: bool

definition find_question :: "ident \<Rightarrow> question list \<Rightarrow> question option" where
  "find_question i qs = find (\<lambda>q. qn_id q = i) qs"

definition ai_items :: "question list \<Rightarrow> answer_dto list \<Rightarrow> ai_item list" where
  "ai_items qs answers =
     List.map_filter (\<lambda>w. map_option (\<lambda>q. \<lparr>ai_question = qn_text q, ai_answer = nullish (wd_text w) [], ai_sample = nullish (qn_correct q) [],
         ai_max = (if qn_points q = 0 then 1 else qn_points q)\<rparr>)
       (find_question (wd_question w) (filter (\<lambda>q. qn_type q = SHORT_ANSWER) qs))) answers"

text \<open>A failed call of the service leaves no results; without items it is not called.\<close>

definition ai_grades :: "ai_grader \<Rightarrow> ai_item list \<Rightarrow> (ai_result \<times> ai_item) list" where
  "ai_grades grader items = (if items = [] then [] else zip (nullish (grader items) []) items)"

definition graded_answer :: "ident \<Rightarrow> question list \<Rightarrow> (ai_result \<times> ai_item) list \<Rightarrow> answer_dto \<Rightarrow> answer" where
  "graded_answer submission qs results w =
     (let plain = \<lparr>an_submission = submission, an_question = wd_question w, an_text = wd_text w, an_option = wd_option w, an_correct = None,
            an_score = 0, an_ai_feedback = None, an_feedback = None, an_graded_by = BY_TEACHER\<rparr>
      in case find_question (wd_question w) qs of
           None \<Rightarrow> plain
         | Some q \<Rightarrow>
             (case qn_type q of
                MULTIPLE_CHOICE \<Rightarrow>
                  (let ok = mcq_correct q (wd_option w)
                   in plain\<lparr>an_correct := Some ok, an_score := (if ok then qn_points q else 0), an_graded_by := BY_AUTO\<rparr>)
              | SHORT_ANSWER \<Rightarrow>
                  (case find (\<lambda>(r, item). ai_question item = qn_text q) results of
                     None \<Rightarrow> plain
                   | Some (r, _) \<Rightarrow> plain\<lparr>an_correct := ar_correct r, an_score := ar_score r, an_ai_feedback := ar_feedback r,
                       an_graded_by := BY_AI\<rparr>)
              | ESSAY \<Rightarrow> plain))"

definition total_of :: "answer list \<Rightarrow> rat" where
  "total_of answers = sum_list (map an_score answers)"

definition penalty :: "bool \<Rightarrow> rat \<Rightarrow> rat" where
  "penalty late points = (if late \<and> 0 < points then points else 0)"

definition submit_checks :: "date \<Rightarrow> assessment \<Rightarrow> submission option \<Rightarrow> submit_dto \<Rightarrow> (bool \<times> http_error) list" where
  "submit_checks now a existing dto =
     (case existing of
        None \<Rightarrow> []
      | Some s \<Rightarrow>
          [(truthy (wd_token dto) \<and> truthy (sb_token s) \<and> wd_token dto \<noteq> sb_token s,
              Conflict ''Multiple sessions detected. This attempt is no longer valid.''),
           (sb_status s = GRADED \<or> sb_status s = SUBMITTED, Forbidden submitted_message)]) @
     [(as_timed a \<and> Option.bind existing sb_started = None, BadRequest ''You must launch the assessment before submitting.'')]"

definition fresh_state :: deadline_submission where
  "fresh_state = \<lparr>ds_status = Some STARTED, ds_started = None\<rparr>"

text \<open>The answers point to existing questions (foreign key), one to each (unique index).\<close>

definition write_answers :: "ident \<Rightarrow> answer list \<Rightarrow> unit assessment_op" where
  "write_answers i answers =
     op_then (op_guard (\<lambda>db. [(\<not> list_all (\<lambda>w. find_question (an_question w) (ab_questions db) \<noteq> None) answers, JsError ''Foreign key constraint failed''),
         (\<not> distinct (map an_question answers), unique_error)]))
       (op_modify (\<lambda>db. db\<lparr>ab_answers := delete_where (\<lambda>w. an_submission w = i) (ab_answers db) @ answers\<rparr>))"

definition mark_submitted :: "assessment \<Rightarrow> submit_check \<Rightarrow> rat \<Rightarrow> submission \<Rightarrow> submission" where
  "mark_submitted a k total_score s =
     s\<lparr>sb_total := Some total_score, sb_status := SUBMITTED, sb_late_due := sk_late_due k, sb_late_timer := sk_late_timer k,
       sb_auto := sk_auto k, sb_due_deduction := penalty (sk_late_due k) (as_due_penalty a),
       sb_timer_deduction := penalty (sk_late_timer k) (as_timer_penalty a)\<rparr>"

definition save_submission :: "date \<Rightarrow> ident \<Rightarrow> submission option \<Rightarrow> (submission \<Rightarrow> submission) \<Rightarrow> ident \<Rightarrow> ident \<Rightarrow> (ident \<Rightarrow> answer list) \<Rightarrow> submission assessment_op" where
  "save_submission now new_id existing done_with a student answers =
     op_transaction (
       case existing of
         Some s \<Rightarrow>
           (let f = (\<lambda>r. (done_with r)\<lparr>sb_submitted := now\<rparr>) in
            op_then (write_submission (sb_id s) f) (op_then (write_answers (sb_id s) (answers (sb_id s))) (op_ret (f s))))
       | None \<Rightarrow>
           (let s = done_with (blank_submission now new_id a student SUBMITTED) in
            op_then (insert_submission s) (op_then (write_answers new_id (answers new_id)) (op_ret s))))"

definition submit_assessment :: "date \<Rightarrow> ai_grader \<Rightarrow> ident \<Rightarrow> ident \<Rightarrow> ident \<Rightarrow> submit_dto \<Rightarrow> caller \<Rightarrow> submission assessment_op" where
  "submit_assessment now grader new_id school i dto c =
     op_bind (op_lift (active_student no_student_profile school c)) (\<lambda>p.
     op_bind (op_lift (assessment_of_school school i)) (\<lambda>a.
     op_bind (op_get (find_submission i (pu_id p))) (\<lambda>existing.
     op_then (op_guard (\<lambda>_. submit_checks now a existing dto)) (
     let k = evaluate_submit_deadline (rule_of a) (nullish (map_option state_of existing) fresh_state) now (wd_auto dto) in
     case sk_reason k of
       Some reason \<Rightarrow> op_throw (Forbidden reason)
     | None \<Rightarrow>
         op_bind (op_get (questions_of i)) (\<lambda>qs.
         let results = ai_grades grader (ai_items qs (wd_answers dto));
             answers = (\<lambda>s. map (graded_answer s qs results) (wd_answers dto))
         in save_submission now new_id existing (mark_submitted a k (total_of (answers []))) i (pu_id p) answers)))))"

section \<open>Grading\<close>

record grading_dto =
  wg_total :: "rat option"
  wg_feedback :: "string option"
  wg_scores :: "(ident \<times> rat) list option"
  wg_comments :: "ident \<Rightarrow> string option"
  wg_due_deduction :: "rat option"
  wg_timer_deduction :: "rat option"

definition raw_score :: "grading_dto \<Rightarrow> answer list \<Rightarrow> rat" where
  "raw_score dto answers = (case wg_scores dto of None \<Rightarrow> total_of answers | Some scores \<Rightarrow> sum_list (map snd scores))"

definition deduction :: "rat option \<Rightarrow> rat \<Rightarrow> rat" where
  "deduction given stored = (case given of None \<Rightarrow> stored | Some d \<Rightarrow> max 0 d)"

definition final_score :: "assessment \<Rightarrow> submission \<Rightarrow> grading_dto \<Rightarrow> answer list \<Rightarrow> rat" where
  "final_score a s dto answers =
     nullish (wg_total dto)
       (max 0 (min (as_max a) (raw_score dto answers - sb_deductions s - deduction (wg_due_deduction dto) (sb_due_deduction s) -
          deduction (wg_timer_deduction dto) (sb_timer_deduction s))))"

definition mark_graded :: "date \<Rightarrow> grading_dto \<Rightarrow> rat \<Rightarrow> submission \<Rightarrow> submission" where
  "mark_graded now dto score s =
     s\<lparr>sb_status := GRADED, sb_total := Some score, sb_feedback := (case wg_feedback dto of None \<Rightarrow> sb_feedback s | Some f \<Rightarrow> Some f), sb_graded := Some now,
       sb_due_deduction := deduction (wg_due_deduction dto) (sb_due_deduction s),
       sb_timer_deduction := deduction (wg_timer_deduction dto) (sb_timer_deduction s)\<rparr>"

definition answers_of :: "ident \<Rightarrow> assessment_db \<Rightarrow> answer list" where
  "answers_of i db = filter (\<lambda>w. an_submission w = i) (ab_answers db)"

definition grade_answer :: "ident \<Rightarrow> grading_dto \<Rightarrow> ident \<Rightarrow> rat \<Rightarrow> unit assessment_op" where
  "grade_answer i dto qid score =
     (let here = (\<lambda>w. an_submission w = i \<and> an_question w = qid) in
      op_then (op_guard (\<lambda>db. [(\<not> list_ex here (ab_answers db), JsError ''Record to update not found'')]))
        (op_modify (\<lambda>db. db\<lparr>ab_answers := update_first here (\<lambda>w. w\<lparr>an_score := score,
           an_feedback := (case wg_comments dto qid of None \<Rightarrow> an_feedback w | Some f \<Rightarrow> Some f)\<rparr>) (ab_answers db)\<rparr>)))"

text \<open>The newest active enrollment of the student in any school; \<open>created\<close> is its column \<open>createdAt\<close>.\<close>

definition newest_enrolment :: "(ident \<Rightarrow> date) \<Rightarrow> ident \<Rightarrow> session_db \<Rightarrow> term_enrolment option" where
  "newest_enrolment created student db =
     (case sort_key (\<lambda>e. - created (en_id e)) (filter (\<lambda>e. en_student e = student \<and> en_active e) (sd_enrolments db)) of
        [] \<Rightarrow> None
      | e # _ \<Rightarrow> Some e)"

definition grade_kind :: "assessment_type \<Rightarrow> grade_type" where
  "grade_kind t = (case t of EXAM \<Rightarrow> GRADE_EXAM | ASSIGNMENT \<Rightarrow> GRADE_ASSIGNMENT | QUIZ \<Rightarrow> GRADE_CA)"

definition same_grade :: "term_enrolment \<Rightarrow> assessment \<Rightarrow> mark_row \<Rightarrow> bool" where
  "same_grade e a m = (mk_enrolment m = en_id e \<and> mk_subject_id m = Some (as_subject a) \<and> mk_term_id m = as_term a \<and>
     mk_name m = Some (as_title a))"

definition grade_of_assessment :: "date \<Rightarrow> ident \<Rightarrow> term_enrolment \<Rightarrow> assessment \<Rightarrow> rat \<Rightarrow> string option \<Rightarrow> assessment_db \<Rightarrow> mark_row" where
  "grade_of_assessment now i e a score feedback db =
     \<lparr>mk_id = i, mk_enrolment = en_id e, mk_teacher = as_teacher a, mk_term_id = as_term a, mk_subject_id = Some (as_subject a),
      mk_subject = nullish (map_option sj_name (find_subject (as_subject a) (gb_subjects (ab_grades db)))) [],
      mk_type = grade_kind (as_type a), mk_name = Some (as_title a), mk_date = Some (as_created a), mk_sequence = None,
      mk_score = score, mk_max = as_max a,
      mk_term = nullish (or_undefined (Option.bind (as_term a) (\<lambda>t. map_option tr_name (find_term t (base_of db))))) ''Unknown'',
      mk_year = nullish (as_year a) [], mk_remarks = feedback, mk_published = True, mk_created = now\<rparr>"

definition on_grades :: "'a grade_op \<Rightarrow> 'a assessment_op" where
  "on_grades m = (\<lambda>db. case m (ab_grades db) of (r, g) \<Rightarrow> (r, db\<lparr>ab_grades := g\<rparr>))"

text \<open>The grade keeps its maximum when it exists already.\<close>

definition record_grade :: "date \<Rightarrow> ident \<Rightarrow> term_enrolment \<Rightarrow> assessment \<Rightarrow> rat \<Rightarrow> string option \<Rightarrow> unit assessment_op" where
  "record_grade now i e a score feedback =
     op_bind (op_get (\<lambda>db. find (same_grade e a) (gb_marks (ab_grades db)))) (\<lambda>existing.
     case existing of
       Some m \<Rightarrow>
         on_grades (op_modify (\<lambda>g. g\<lparr>gb_marks := update_first (\<lambda>n. mk_id n = mk_id m)
           (\<lambda>n. n\<lparr>mk_score := score, mk_remarks := (case feedback of None \<Rightarrow> mk_remarks n | Some f \<Rightarrow> Some f), mk_published := True\<rparr>) (gb_marks g)\<rparr>))
     | None \<Rightarrow>
         op_bind (op_get (grade_of_assessment now i e a score feedback)) (\<lambda>m. on_grades (insert_mark m)))"

definition submission_with :: "ident \<Rightarrow> assessment_db \<Rightarrow> (submission \<times> assessment) option" where
  "submission_with i db =
     Option.bind (find (\<lambda>s. sb_id s = i) (ab_submissions db)) (\<lambda>s. map_option (Pair s) (find_assessment (sb_assessment s) db))"

definition submission_of_school :: "ident \<Rightarrow> ident \<Rightarrow> assessment_db \<Rightarrow> http_error + submission \<times> assessment" where
  "submission_of_school school i db =
     (case submission_with i db of
        None \<Rightarrow> Inl (NotFound ''Submission not found'')
      | Some (s, a) \<Rightarrow> if as_school a \<noteq> school then Inl (NotFound ''Submission not found'') else Inr (s, a))"

definition grade_submission ::
  "date \<Rightarrow> (ident \<Rightarrow> date) \<Rightarrow> ident \<Rightarrow> ident \<Rightarrow> ident \<Rightarrow> grading_dto \<Rightarrow> caller \<Rightarrow> submission assessment_op" where
  "grade_submission now created grade_id school i dto c =
     op_bind (op_lift (submission_of_school school i)) (\<lambda>(s, a).
     op_bind (op_lift (may_act_on ''You do not have permission to grade this assessment'' school c (as_teacher a))) (\<lambda>_.
     op_bind (op_get (\<lambda>db. (final_score a s dto (answers_of i db), newest_enrolment created (sb_student s) (base_of db)))) (\<lambda>(score, enrolment).
     op_transaction (
       op_then (write_submission i (mark_graded now dto score)) (
       op_then (op_for (\<lambda>(qid, x) _. grade_answer i dto qid x) (nullish (wg_scores dto) []) ()) (
       op_then (case enrolment of None \<Rightarrow> op_ret () | Some e \<Rightarrow> record_grade now grade_id e a score (wg_feedback dto))
         (op_ret (mark_graded now dto score s))))))))"

section \<open>Views\<close>

definition submissions_of :: "ident \<Rightarrow> assessment_db \<Rightarrow> submission list" where
  "submissions_of i db = filter (\<lambda>s. sb_assessment s = i) (ab_submissions db)"

record student_view =
  sv_submitted :: bool
  sv_past_due :: bool
  sv_missed :: bool
  sv_submission :: "submission option"

definition student_view_of :: "date \<Rightarrow> assessment \<Rightarrow> submission option \<Rightarrow> student_view" where
  "student_view_of now a s =
     (let status = map_option sb_status s;
          done = (status = Some SUBMITTED \<or> status = Some GRADED);
          past = is_past_due_date (as_due a) now
      in \<lparr>sv_submitted = done, sv_past_due = past, sv_missed = (\<not> done \<and> past \<and> \<not> as_late_due a \<and> status \<noteq> Some STARTED),
          sv_submission = s\<rparr>)"

record assessment_view =
  av_row :: assessment
  av_count :: nat
  av_student :: "student_view option"

definition listed_assessments :: "ident \<Rightarrow> ident \<Rightarrow> ident option \<Rightarrow> assessment_db \<Rightarrow> assessment list" where
  "listed_assessments school cls tid db =
     sort_desc as_created (filter (\<lambda>a. as_school a = school \<and> (as_class a = Some cls \<or> as_arm a = Some cls) \<and> as_status a = PUBLISHED \<and>
       (truthy tid \<longrightarrow> as_term a = tid)) (ab_assessments db))"

definition get_class_assessments ::
  "date \<Rightarrow> ident \<Rightarrow> ident \<Rightarrow> ident option \<Rightarrow> ident option \<Rightarrow> caller option \<Rightarrow> assessment_db \<Rightarrow> http_error + assessment_view list" where
  "get_class_assessments now school cls tid student c db =
     (case (if map_option ca_role c = Some ''STUDENT''
            then map_sum id (\<lambda>p. Some (pu_id p)) (active_student no_student_profile school (the c) db) else Inr student) of
        Inl e \<Rightarrow> Inl e
      | Inr who \<Rightarrow>
          Inr (map (\<lambda>a. \<lparr>av_row = a, av_count = length (submissions_of (as_id a) db),
              av_student = (if truthy who then Some (student_view_of now a (find_submission (as_id a) (the who) db)) else None)\<rparr>)
            (listed_assessments school cls tid db)))"

record assessment_page =
  pg_row :: assessment
  pg_questions :: "question list"
  pg_submissions :: "submission list"

definition hide_answers :: "question list \<Rightarrow> question list" where
  "hide_answers qs = map (\<lambda>q. q\<lparr>qn_correct := None\<rparr>) qs"

text \<open>A student sees the own submission only, and the expected answers once there is one.\<close>

definition own_submissions :: "caller \<Rightarrow> assessment_db \<Rightarrow> submission list \<Rightarrow> submission list" where
  "own_submissions c db rows =
     filter (\<lambda>s. list_ex (\<lambda>p. pu_id p = sb_student s \<and> pu_user p = ca_user c) (gb_pupils (ab_grades db))) rows"

definition get_assessment_by_id :: "ident \<Rightarrow> ident \<Rightarrow> caller \<Rightarrow> assessment_db \<Rightarrow> http_error + assessment_page" where
  "get_assessment_by_id school i c db =
     (case (if ca_role c = ''STUDENT'' then map_sum id (\<lambda>_. ()) (active_student no_student_profile school c db) else Inr ()) of
        Inl e \<Rightarrow> Inl e
      | Inr _ \<Rightarrow>
          (case assessment_of_school school i db of
             Inl e \<Rightarrow> Inl e
           | Inr a \<Rightarrow>
               (let qs = sort_key qn_order (questions_of i db); subs = submissions_of i db;
                    own = own_submissions c db subs
                in if ca_role c = ''STUDENT''
                   then Inr \<lparr>pg_row = a, pg_questions = (if own = [] then hide_answers qs else qs), pg_submissions = own\<rparr>
                   else Inr \<lparr>pg_row = a, pg_questions = qs, pg_submissions = subs\<rparr>)))"

definition get_submission_by_id :: "ident \<Rightarrow> ident \<Rightarrow> caller \<Rightarrow> assessment_db \<Rightarrow> http_error + submission \<times> answer list" where
  "get_submission_by_id school i c db =
     (case submission_of_school school i db of
        Inl e \<Rightarrow> Inl e
      | Inr (s, a) \<Rightarrow>
          if ca_role c = ''STUDENT'' then
            (if map_option pu_id (student_of c db) \<noteq> Some (sb_student s)
             then Inl (Forbidden ''You do not have permission to view this submission'')
             else map_sum id (\<lambda>_. (s, answers_of i db)) (assert_student_enrollment_operational (sb_student s) school (ab_billing db)))
          else Inr (s, answers_of i db))"

end
