(* ===== verification/AssessmentFacts.thy ===== *)
theory AssessmentFacts
  imports Assessments GradeFacts
begin

text \<open>
  The tables of assessments through every request: one attempt of a student at an assessment, the
  penalty of an attempt as a function of its violations, and what a student can no longer change.
\<close>

section \<open>Deadlines in days and minutes\<close>

lemma before_next_multiple:
  assumes "0 < (M::int)"
  shows "n < (x + 1) * M \<longleftrightarrow> n div M \<le> x"
proof
  assume n: "n < (x + 1) * M"
  show "n div M \<le> x"
  proof (rule ccontr)
    assume "\<not> n div M \<le> x"
    then have "(x + 1) * M \<le> n div M * M" using assms by (intro mult_right_mono) simp_all
    moreover have "n div M * M \<le> n" using pos_mod_sign[OF assms, of n] div_mult_mod_eq[of n M] by linarith
    ultimately show False using n by linarith
  qed
next
  assume x: "n div M \<le> x"
  have "n < (n div M + 1) * M"
    using pos_mod_bound[OF assms, of n] div_mult_mod_eq[of n M] unfolding distrib_right by linarith
  also have "\<dots> \<le> (x + 1) * M" using x assms by (intro mult_right_mono) simp_all
  finally show "n < (x + 1) * M" .
qed

lemma day_end: "t \<le> d div ms_per_day * ms_per_day + ms_per_day - 1 \<longleftrightarrow> t div ms_per_day \<le> d div ms_per_day"
  using before_next_multiple[of ms_per_day t "d div ms_per_day"] by (simp add: ms_per_day_def algebra_simps) linarith

lemma past_due_iff: "is_past_due_date due now \<longleftrightarrow> (\<exists>d. due = Some d \<and> d div ms_per_day < now div ms_per_day)"
proof -
  have "d div ms_per_day * ms_per_day + ms_per_day - 1 < now \<longleftrightarrow> d div ms_per_day < now div ms_per_day" for d
    using day_end[of now d] by linarith
  then show ?thesis by (auto simp: is_past_due_date_def get_due_date_deadline_def split: option.splits)
qed

lemma started_by_due_iff: "t \<le> get_due_date_deadline d \<longleftrightarrow> t div ms_per_day \<le> d div ms_per_day"
  unfolding get_due_date_deadline_def by (rule day_end)

lemma timer_expired_iff:
  "is_timer_expired started minutes now TIMER_GRACE_MINUTES \<longleftrightarrow>
    (\<exists>t m. started = Some t \<and> minutes = Some m \<and> m \<noteq> 0 \<and> (m + 2) * 60000 < now - t)"
  by (auto simp: is_timer_expired_def get_timer_expiry_def TIMER_GRACE_MINUTES_def or_null_def split: option.splits)

section \<open>The tables\<close>

text \<open>The penalty of an attempt with n violations.\<close>

definition penalty_after :: "assessment \<Rightarrow> int \<Rightarrow> rat" where
  "penalty_after a n = (if 0 < as_violation_points a then as_violation_points a * of_int (max 0 (n - max 0 (violation_limit a))) else 0)"

definition attempt_ok :: "assessment_db \<Rightarrow> submission \<Rightarrow> bool" where
  "attempt_ok db s =
     (case find_assessment (sb_assessment s) db of
        None \<Rightarrow> False
      | Some a \<Rightarrow> 0 \<le> sb_violations s \<and> sb_flagged s = (0 < sb_violations s \<and> violation_limit a < sb_violations s) \<and>
          sb_deductions s = penalty_after a (sb_violations s))"

definition answer_ok :: "assessment_db \<Rightarrow> answer \<Rightarrow> bool" where
  "answer_ok db w = (list_ex (\<lambda>s. sb_id s = an_submission w) (ab_submissions db) \<and> list_ex (\<lambda>q. qn_id q = an_question w) (ab_questions db))"

definition assessment_inv :: "assessment_db \<Rightarrow> bool" where
  "assessment_inv db =
     (distinct (map as_id (ab_assessments db)) \<and> distinct (map sb_id (ab_submissions db)) \<and>
      distinct (map (\<lambda>s. (sb_assessment s, sb_student s)) (ab_submissions db)) \<and>
      (\<forall>s\<in>set (ab_submissions db). attempt_ok db s) \<and> (\<forall>w\<in>set (ab_answers db). answer_ok db w))"

lemma attempt_ok_frame [simp]:
  "attempt_ok (db\<lparr>ab_submissions := x\<rparr>) s = attempt_ok db s" "attempt_ok (db\<lparr>ab_answers := y\<rparr>) s = attempt_ok db s"
  "attempt_ok (db\<lparr>ab_violations := z\<rparr>) s = attempt_ok db s" "attempt_ok (db\<lparr>ab_grades := g\<rparr>) s = attempt_ok db s"
  by (simp_all add: attempt_ok_def find_assessment_def)

lemma answer_ok_frame [simp]:
  "answer_ok (db\<lparr>ab_answers := y\<rparr>) w = answer_ok db w" "answer_ok (db\<lparr>ab_violations := z\<rparr>) w = answer_ok db w"
  "answer_ok (db\<lparr>ab_grades := g\<rparr>) w = answer_ok db w"
  by (simp_all add: answer_ok_def)

lemma penalty_step:
  assumes "0 \<le> n"
  shows "penalty_after a n + (if violation_limit a < n + 1 \<and> 0 < as_violation_points a then as_violation_points a else 0) = penalty_after a (n + 1)"
proof (cases "violation_limit a < n + 1")
  case True
  then have "max 0 (n + 1 - max 0 (violation_limit a)) = max 0 (n - max 0 (violation_limit a)) + 1"
    using assms by (auto simp: max_def)
  then show ?thesis using True by (simp add: penalty_after_def distrib_left)
next
  case False
  then have "max 0 (n + 1 - max 0 (violation_limit a)) = 0" "max 0 (n - max 0 (violation_limit a)) = 0" using assms by auto
  then show ?thesis using False by (simp add: penalty_after_def)
qed

lemma add_violation_ok: "attempt_ok db s \<Longrightarrow> find_assessment (sb_assessment s) db = Some a \<Longrightarrow> attempt_ok db (add_violation a s)"
  using penalty_step[of "sb_violations s" a]
  by (auto simp: attempt_ok_def add_violation_def Let_def violation_limit_def)

lemma blank_ok: "find_assessment a db \<noteq> None \<Longrightarrow> attempt_ok db (blank_submission now i a student status)"
  by (auto simp: attempt_ok_def blank_submission_def penalty_after_def violation_limit_def)

text \<open>A change of one attempt that keeps its keys and its penalty.\<close>

lemma write_submission_keeps:
  assumes inv: "assessment_inv db" and keys: "\<And>s. sb_id (f s) = sb_id s \<and> sb_assessment (f s) = sb_assessment s \<and> sb_student (f s) = sb_student s"
    and ok: "\<And>s. s \<in> set (ab_submissions db) \<Longrightarrow> sb_id s = i \<Longrightarrow> attempt_ok db (f s)"
  shows "assessment_inv (snd (write_submission i f db))"
proof -
  let ?new = "update_first (\<lambda>s. sb_id s = i) f (ab_submissions db)"
  have ids: "map sb_id ?new = map sb_id (ab_submissions db)"
    and pairs: "map (\<lambda>s. (sb_assessment s, sb_student s)) ?new = map (\<lambda>s. (sb_assessment s, sb_student s)) (ab_submissions db)"
    by (rule map_update_first_frame; simp add: keys)+
  have ok_new: "attempt_ok db s" if "s \<in> set ?new" for s
    using set_update_firstD[OF that] inv ok by (auto simp: assessment_inv_def)
  have ex: "list_ex (\<lambda>s. sb_id s = k) rows \<longleftrightarrow> k \<in> set (map sb_id rows)" for k rows by (auto simp: list_ex_iff)
  have "list_ex (\<lambda>s. sb_id s = k) ?new = list_ex (\<lambda>s. sb_id s = k) (ab_submissions db)" for k by (simp only: ex ids)
  then show ?thesis
    using inv ok_new by (auto simp: assessment_inv_def write_submission_def ids pairs answer_ok_def)
qed

lemma assessment_ok_after_insert:
  "find_assessment i db \<noteq> None \<Longrightarrow> \<forall>b\<in>set (ab_assessments db). as_id b \<noteq> as_id a \<Longrightarrow>
    find_assessment i (db\<lparr>ab_assessments := ab_assessments db @ [a]\<rparr>) = find_assessment i db"
  by (auto simp: find_assessment_def find_append split: option.splits)

lemma insert_submission_keeps:
  assumes "assessment_inv db" "attempt_ok db s"
  shows "assessment_inv (snd (insert_submission s db))"
proof (cases "list_ex (\<lambda>r. sb_id r = sb_id s \<or> sb_assessment r = sb_assessment s \<and> sb_student r = sb_student s) (ab_submissions db)")
  case False
  then have "insert_submission s db = (Inr (), db\<lparr>ab_submissions := ab_submissions db @ [s]\<rparr>)"
    by (simp add: insert_submission_def op_guard_then)
  moreover have "answer_ok (db\<lparr>ab_submissions := ab_submissions db @ [s]\<rparr>) w" if "answer_ok db w" for w
    using that by (auto simp: answer_ok_def)
  ultimately show ?thesis using assms False by (auto simp: assessment_inv_def list_ex_iff)
qed (use assms in \<open>simp add: insert_submission_def op_then_def op_bind_def op_guard_def\<close>)

lemma insert_assessment_keeps: "op_keeps assessment_inv (insert_assessment ex a qs)"
  unfolding insert_assessment_def
proof (rule op_keeps_guarded)
  fix db :: assessment_db
  let ?d = "db\<lparr>ab_assessments := ab_assessments db @ [a], ab_questions := ab_questions db @ qs\<rparr>"
  assume inv: "assessment_inv db" and ok: "first_thrown [(\<not> assessment_refs_ok ex a db, JsError ''Foreign key constraint failed''),
      (list_ex (\<lambda>b. as_id b = as_id a) (ab_assessments db) \<or> \<not> distinct (map qn_id (ab_questions db @ qs)), unique_error)] = None"
  have fresh: "\<forall>b\<in>set (ab_assessments db). as_id b \<noteq> as_id a" using ok by (auto simp: list_ex_iff)
  have "attempt_ok ?d s" if "attempt_ok db s" for s
    using that assessment_ok_after_insert[of "sb_assessment s" db a] fresh
    by (auto simp: attempt_ok_def find_assessment_def split: option.splits)
  moreover have "answer_ok ?d w" if "answer_ok db w" for w using that by (auto simp: answer_ok_def)
  ultimately show "assessment_inv (snd (op_modify (\<lambda>db. db\<lparr>ab_assessments := ab_assessments db @ [a], ab_questions := ab_questions db @ qs\<rparr>) db))"
    using inv fresh by (auto simp: assessment_inv_def)
qed

lemma write_answers_keeps:
  assumes "assessment_inv db" "list_ex (\<lambda>s. sb_id s = i) (ab_submissions db)" "\<forall>w\<in>set answers. an_submission w = i"
  shows "assessment_inv (snd (write_answers i answers db))"
proof (cases "first_thrown [(\<not> list_all (\<lambda>w. find_question (an_question w) (ab_questions db) \<noteq> None) answers, JsError ''Foreign key constraint failed''),
         (\<not> distinct (map an_question answers), unique_error)]")
  case None
  then have "answer_ok db w" if "w \<in> set answers" for w
    using that assms(2,3) by (fastforce simp: answer_ok_def list_all_iff list_ex_iff find_question_def find_None_all)
  then show ?thesis
    using assms(1) None by (auto simp: write_answers_def op_guard_then delete_where_def assessment_inv_def)
qed (use assms in \<open>simp add: write_answers_def op_then_def op_bind_def op_guard_def\<close>)

section \<open>Every request keeps the tables\<close>

lemma on_grades_keeps: "op_keeps assessment_inv (on_grades m)"
  by (auto simp: op_keeps_def on_grades_def assessment_inv_def split: prod.splits)

lemma find_submission_in: "find_submission i student db = Some s \<Longrightarrow> s \<in> set (ab_submissions db) \<and> sb_assessment s = i \<and> sb_student s = student"
  by (auto simp: find_submission_def dest!: find_Some_in)

text \<open>A change that leaves the keys, the violations and the penalty of an attempt alone.\<close>

definition same_penalty :: "(submission \<Rightarrow> submission) \<Rightarrow> bool" where
  "same_penalty f = (\<forall>s. sb_id (f s) = sb_id s \<and> sb_assessment (f s) = sb_assessment s \<and> sb_student (f s) = sb_student s \<and>
     sb_violations (f s) = sb_violations s \<and> sb_flagged (f s) = sb_flagged s \<and> sb_deductions (f s) = sb_deductions s)"

lemma attempt_ok_same: "same_penalty f \<Longrightarrow> attempt_ok db (f s) = attempt_ok db s"
  by (simp add: attempt_ok_def same_penalty_def cong: option.case_cong)

lemma write_same_penalty: "same_penalty f \<Longrightarrow> assessment_inv db \<Longrightarrow> assessment_inv (snd (write_submission i f db))"
  by (rule write_submission_keeps) (auto simp: attempt_ok_same assessment_inv_def same_penalty_def[of f])

lemma same_penalties [simp]:
  "same_penalty (\<lambda>r. r\<lparr>sb_started := t, sb_token := x\<rparr>)" "same_penalty (\<lambda>r. r\<lparr>sb_token := x\<rparr>)" "same_penalty (\<lambda>r. r\<lparr>sb_started := t\<rparr>)" "same_penalty (mark_graded now dto score)"
  "same_penalty (mark_submitted a k n)" "same_penalty (\<lambda>r. mark_submitted a k n r\<lparr>sb_submitted := now\<rparr>)"
  by (simp_all add: same_penalty_def mark_graded_def mark_submitted_def)

lemma start_keeps: "op_keeps assessment_inv (start_assessment now token new_id school i c)"
  unfolding op_keeps_def
proof (intro allI impI)
  fix db assume inv: "assessment_inv db"
  have step: "assessment_inv (snd (op_then m (op_ret x) d))" if "assessment_inv (snd (m d))" for m d and x :: date
    using that by (cases "m d"; cases "fst (m d)") (auto simp: op_then_def op_bind_def)
  have attempt: "assessment_inv (snd (upsert_attempt now token new_id i student e db))"
    if a: "find_assessment i db \<noteq> None" for student e
  proof (cases e)
    case None
    have "attempt_ok db ((blank_submission now new_id i student STARTED)\<lparr>sb_started := Some now, sb_token := Some token\<rparr>)"
      using attempt_ok_same[OF same_penalties(1)] blank_ok[OF a] by blast
    then show ?thesis
      using None inv by (auto simp: upsert_attempt_def op_then_def op_bind_def op_guard_def split: option.splits
        intro!: insert_submission_keeps step[unfolded op_then_def op_bind_def])
  next
    case (Some s)
    have "op_keeps assessment_inv (upsert_attempt now token new_id i student (Some s))"
      unfolding upsert_attempt_def option.case
      by (intro op_keeps_intros) (auto simp: op_keeps_def intro: write_same_penalty)
    then show ?thesis using Some inv by (simp add: op_keepsD)
  qed
  show "assessment_inv (snd (start_assessment now token new_id school i c db))"
  proof (cases "assessment_of_school school i db")
    case (Inr a)
    then have a: "find_assessment i db \<noteq> None" by (auto simp: assessment_of_school_def split: option.splits)
    have "assessment_inv (snd (op_bind (upsert_attempt now token new_id i s e) (\<lambda>t. op_ret (started_view now token a t)) db))" for s e
      using attempt[OF a, of s e]
      by (cases "upsert_attempt now token new_id i s e db"; cases "fst (upsert_attempt now token new_id i s e db)") (auto simp: op_bind_def)
    then show ?thesis
      using inv Inr unfolding start_assessment_def
      by (auto simp: op_bind_def op_then_def op_require_eval split: sum.splits option.splits prod.splits)
  qed (use inv in \<open>auto simp: start_assessment_def op_bind_def split: sum.splits\<close>)
qed

lemma violation_keeps: "op_keeps assessment_inv (log_violation school i kind c)"
  unfolding op_keeps_def
proof (intro allI impI)
  fix db assume inv: "assessment_inv db"
  have logged: "assessment_inv (snd (op_then (write_submission (sb_id s) (add_violation (the a))) (op_ret x)
      (db\<lparr>ab_violations := vs\<rparr>)))"
    if s: "find_submission i student db = Some s" and a: "a = find_assessment i db" for s a student vs and x :: submission
  proof -
    let ?d = "db\<lparr>ab_violations := vs\<rparr>"
    have inv': "assessment_inv ?d" using inv by (auto simp: assessment_inv_def)
    have s_in: "s \<in> set (ab_submissions db)" "sb_assessment s = i" using find_submission_in[OF s] by auto
    then have "attempt_ok db s" using inv by (auto simp: assessment_inv_def)
    then obtain b where b: "find_assessment i db = Some b" using s_in by (auto simp: attempt_ok_def split: option.splits)
    have "r = s" if "r \<in> set (ab_submissions db)" "sb_id r = sb_id s" for r
      using distinct_key_eq[of sb_id "ab_submissions db" r s] inv that s_in(1) by (simp add: assessment_inv_def)
    then have "attempt_ok ?d (add_violation (the a) r)" if "r \<in> set (ab_submissions ?d)" "sb_id r = sb_id s" for r
      using add_violation_ok[OF \<open>attempt_ok db s\<close>] that b s_in(2) a by auto
    then have "assessment_inv (snd (write_submission (sb_id s) (add_violation (the a)) ?d))"
      by (intro write_submission_keeps[OF inv']) (auto simp: add_violation_def Let_def)
    then show ?thesis by (simp add: write_submission_def)
  qed
  show "assessment_inv (snd (log_violation school i kind c db))"
    unfolding log_violation_def using inv
    by (auto simp: op_heads logged split: sum.splits option.splits)
qed

lemma submit_keeps: "op_keeps assessment_inv (submit_assessment now grader new_id school i dto c)"
  unfolding op_keeps_def
proof (intro allI impI)
  fix db assume inv: "assessment_inv db"
  have saved: "assessment_inv (snd (save_submission now new_id (find_submission i student db) (mark_submitted a k n) i student
      (\<lambda>s. map (graded_answer s qs results) ws) db))"
    if a: "find_assessment i db \<noteq> None" for student a k n qs results ws
  proof -
    have id: "an_submission (graded_answer x qs results w) = x" for x w
      by (auto simp: graded_answer_def Let_def split: option.splits question_type.splits)
    have answers: "assessment_inv (snd (op_then (write_answers x (map (graded_answer x qs results) ws)) (op_ret r) d))"
      if "assessment_inv d" "list_ex (\<lambda>s. sb_id s = x) (ab_submissions d)" for x d and r :: submission
      by (rule op_then_ends; use write_answers_keeps[OF that, of "map (graded_answer x qs results) ws"] id in auto)
    show ?thesis
    proof (cases "find_submission i student db")
      case (Some s)
      let ?f = "\<lambda>r. mark_submitted a k n r\<lparr>sb_submitted := now\<rparr>"
      let ?d = "db\<lparr>ab_submissions := update_first (\<lambda>r. sb_id r = sb_id s) ?f (ab_submissions db)\<rparr>"
      have "same_penalty ?f" by simp
      then have "assessment_inv ?d" using write_same_penalty[OF _ inv, of ?f "sb_id s"] by (simp add: write_submission_def)
      moreover have "map sb_id (ab_submissions ?d) = map sb_id (ab_submissions db)"
        by (simp, rule map_update_first_frame) (simp add: mark_submitted_def)
      then have "sb_id s \<in> sb_id ` set (ab_submissions ?d)" using find_submission_in[OF Some] by (metis image_eqI set_map)
      then have "list_ex (\<lambda>r. sb_id r = sb_id s) (ab_submissions ?d)" by (force simp: list_ex_iff)
      ultimately have "assessment_inv (snd (op_then (write_submission (sb_id s) ?f)
          (op_then (write_answers (sb_id s) (map (graded_answer (sb_id s) qs results) ws)) (op_ret (?f s))) db))"
        using answers[of ?d "sb_id s" "?f s"] by (simp add: write_submission_def)
      then show ?thesis using Some inv by (auto simp: save_submission_def Let_def intro: op_transaction_keeps)
    next
      case None
      let ?s = "mark_submitted a k n (blank_submission now new_id i student SUBMITTED)"
      have "attempt_ok db ?s" using attempt_ok_same[OF same_penalties(5)] blank_ok[OF a] by blast
      then have ins: "assessment_inv (snd (insert_submission ?s db))" using insert_submission_keeps[OF inv] by blast
      have "assessment_inv (snd (op_then (insert_submission ?s)
          (op_then (write_answers new_id (map (graded_answer new_id qs results) ws)) (op_ret ?s)) db))"
      proof (rule op_then_ends)
        show "assessment_inv d" if "insert_submission ?s db = (Inl e, d)" for e d using ins that by simp
        fix d assume d: "insert_submission ?s db = (Inr (), d)"
        have "sb_id ?s = new_id" by (simp add: mark_submitted_def blank_submission_def)
        then have "list_ex (\<lambda>r. sb_id r = new_id) (ab_submissions d)"
          using d by (auto simp: insert_submission_def op_then_Inr op_guard_Inr op_Inr_iffs)
        then show "assessment_inv (snd (op_then (write_answers new_id (map (graded_answer new_id qs results) ws)) (op_ret ?s) d))"
          using ins d by (intro answers) simp_all
      qed
      then show ?thesis using None inv by (auto simp: save_submission_def Let_def intro: op_transaction_keeps)
    qed
  qed
  show "assessment_inv (snd (submit_assessment now grader new_id school i dto c db))"
  proof (cases "assessment_of_school school i db")
    case (Inr a)
    then have "find_assessment i db \<noteq> None" by (auto simp: assessment_of_school_def split: option.splits)
    then show ?thesis
      using inv Inr unfolding submit_assessment_def Let_def
      by (auto simp: op_heads saved split: sum.splits option.splits)
  qed (use inv in \<open>auto simp: submit_assessment_def op_heads split: sum.splits\<close>)
qed

lemma grade_answer_keeps: "op_keeps assessment_inv (grade_answer i dto qid score)"
  unfolding grade_answer_def Let_def
  by (rule op_keeps_guarded) (auto simp: assessment_inv_def answer_ok_def dest!: set_update_firstD)

lemma grading_keeps: "op_keeps assessment_inv (grade_submission now created grade_id school i dto c)"
proof -
  have "op_keeps assessment_inv (write_submission i (mark_graded now dto score))" for score
    by (simp add: op_keeps_def write_same_penalty)
  then show ?thesis
    unfolding grade_submission_def record_grade_def split_beta
    by (intro op_keeps_intros on_grades_keeps grade_answer_keeps)
qed

lemma creation_keeps: "op_keeps assessment_inv (create_assessment tz now policy ex i qids school dto c)"
  unfolding create_assessment_def Let_def split_beta
  by (intro op_keeps_intros insert_assessment_keeps)

lemma find_filtered: "(\<And>x. p x \<Longrightarrow> q x) \<Longrightarrow> find p (filter q xs) = find p xs"
  by (induction xs) auto

lemma deletion_keeps: "op_keeps assessment_inv (delete_assessment school i c)"
  unfolding delete_assessment_def
proof (intro op_keeps_bind op_keeps_pure op_keeps_guarded)
  fix db :: assessment_db
  let ?d = "db\<lparr>ab_assessments := delete_where (\<lambda>b. as_id b = i) (ab_assessments db), ab_questions := delete_where (\<lambda>q. qn_assessment q = i) (ab_questions db),
     ab_answers := delete_where (\<lambda>w. list_ex (\<lambda>q. qn_id q = an_question w \<and> qn_assessment q = i) (ab_questions db)) (ab_answers db)\<rparr>"
  assume inv: "assessment_inv db" and ok: "first_thrown [(list_ex (\<lambda>s. sb_assessment s = i) (ab_submissions db),
         BadRequest ''Cannot delete assessment because it already has student submissions. Please archive it instead or contact administration.'')] = None"
  have "find_assessment k ?d = find_assessment k db" if "k \<noteq> i" for k
    using that by (simp add: find_assessment_def delete_where_def) (rule find_filtered, simp)
  then have "attempt_ok ?d s" if "s \<in> set (ab_submissions db)" for s
    using that inv ok by (auto simp: assessment_inv_def attempt_ok_def list_ex_iff)
  moreover have "answer_ok ?d w" if "w \<in> set (ab_answers ?d)" for w
    using that inv by (auto simp: assessment_inv_def answer_ok_def delete_where_def list_ex_iff) blast
  ultimately show "assessment_inv (snd (op_modify (\<lambda>db. db\<lparr>ab_assessments := delete_where (\<lambda>b. as_id b = i) (ab_assessments db),
     ab_questions := delete_where (\<lambda>q. qn_assessment q = i) (ab_questions db),
     ab_answers := delete_where (\<lambda>w. list_ex (\<lambda>q. qn_id q = an_question w \<and> qn_assessment q = i) (ab_questions db)) (ab_answers db)\<rparr>) db))"
    using inv by (auto simp: assessment_inv_def delete_where_def distinct_map_filter)
qed

datatype assessment_event =
    CreateAssessment int date "ident \<Rightarrow> assessment_policy" "ident \<Rightarrow> bool" ident "nat \<Rightarrow> ident" ident assessment_dto caller
  | DeleteAssessment ident ident caller
  | StartAssessment date string ident ident ident caller
  | LogViolation ident ident string caller
  | SubmitAssessment date ai_grader ident ident ident submit_dto caller
  | GradeSubmission date "ident \<Rightarrow> date" ident ident ident grading_dto caller

fun assessment_step :: "assessment_event \<Rightarrow> assessment_db \<Rightarrow> assessment_db" where
  "assessment_step (CreateAssessment tz now policy ex i qids school dto c) db = snd (create_assessment tz now policy ex i qids school dto c db)"
| "assessment_step (DeleteAssessment school i c) db = snd (delete_assessment school i c db)"
| "assessment_step (StartAssessment now token n school i c) db = snd (start_assessment now token n school i c db)"
| "assessment_step (LogViolation school i kind c) db = snd (log_violation school i kind c db)"
| "assessment_step (SubmitAssessment now grader n school i dto c) db = snd (submit_assessment now grader n school i dto c db)"
| "assessment_step (GradeSubmission now created n school i dto c) db = snd (grade_submission now created n school i dto c db)"

lemmas assessment_requests_keep = start_keeps violation_keeps submit_keeps grading_keeps creation_keeps deletion_keeps

interpretation assessments: step_system assessment_step assessment_inv
proof unfold_locales
  show "assessment_inv (assessment_step e db)" if "assessment_inv db" for e db
    using that by (cases e) (simp_all add: assessment_requests_keep[THEN op_keepsD])
qed

section \<open>What a student can no longer change\<close>

definition attempt_kept :: "submission \<Rightarrow> answer list \<Rightarrow> assessment_db \<Rightarrow> bool" where
  "attempt_kept s answers db = (s \<in> set (ab_submissions db) \<and> answers_of (sb_id s) db = answers)"

lemma in_update_first: "x \<in> set rows \<Longrightarrow> \<not> p x \<Longrightarrow> x \<in> set (update_first p f rows)"
  by (induction rows) auto

lemma kept_elsewhere: "x \<noteq> sb_id s \<Longrightarrow> op_keeps (attempt_kept s ws) (write_submission x f)"
  by (auto simp: op_keeps_def write_submission_def attempt_kept_def answers_of_def intro: in_update_first)

lemma kept_insert: "op_keeps (attempt_kept s ws) (insert_submission t)"
  unfolding insert_submission_def
  by (rule op_keeps_guarded) (auto simp: attempt_kept_def answers_of_def)

lemma kept_answers: "x \<noteq> sb_id s \<Longrightarrow> \<forall>w\<in>set new. an_submission w = x \<Longrightarrow> op_keeps (attempt_kept s ws) (write_answers x new)"
  unfolding write_answers_def
  by (rule op_keeps_guarded) (auto simp: attempt_kept_def answers_of_def delete_where_def filter_empty_conv intro!: filter_cong)

lemma other_attempt:
  assumes "assessment_inv db" "s \<in> set (ab_submissions db)" "find_submission i student db = Some r" "r \<noteq> s"
  shows "sb_id r \<noteq> sb_id s"
  using assms distinct_key_eq[of sb_id "ab_submissions db" r s] find_submission_in[OF assms(3)] by (auto simp: assessment_inv_def)

lemma start_kept:
  assumes inv: "assessment_inv db" and s: "attempt_kept s ws db" "sb_status s \<noteq> STARTED"
  shows "attempt_kept s ws (snd (start_assessment now token new_id school i c db))"
proof -
  have refused: "e \<noteq> Some s" if "evaluate_start_deadline a (map_option state_of e) now = None" for a e
    using s(2) that by (cases "sb_status s") (auto simp: evaluate_start_deadline_def state_of_def)
  have kept: "attempt_kept s ws (snd (op_bind (upsert_attempt now token new_id i student (find_submission i student db)) h db))"
    if "find_submission i student db \<noteq> Some s" "\<And>t d. snd (h t d) = d" for student and h :: "date \<Rightarrow> start_view assessment_op"
  proof -
    have "op_keeps (attempt_kept s ws) (upsert_attempt now token new_id i student (find_submission i student db))"
    proof (cases "find_submission i student db")
      case (Some r)
      then have "sb_id r \<noteq> sb_id s" using other_attempt[OF inv _ Some] s(1) that(1) by (auto simp: attempt_kept_def)
      then show ?thesis unfolding Some upsert_attempt_def option.case by (intro op_keeps_intros kept_elsewhere)
    qed (auto simp: upsert_attempt_def intro!: op_keeps_intros kept_insert)
    then have "op_keeps (attempt_kept s ws) (op_bind (upsert_attempt now token new_id i student (find_submission i student db)) h)"
      by (rule op_keeps_bind) (simp add: op_keeps_def that(2))
    then show ?thesis using s(1) by (rule op_keepsD)
  qed
  then show ?thesis
    using s(1) by (auto simp: start_assessment_def op_heads dest: refused intro!: kept split: sum.splits option.splits)
qed

lemma submit_kept:
  assumes inv: "assessment_inv db" and s: "attempt_kept s ws db" "sb_status s \<noteq> STARTED"
  shows "attempt_kept s ws (snd (submit_assessment now grader new_id school i dto c db))"
proof -
  have refused: "e \<noteq> Some s" if "first_thrown (submit_checks now a e dto) = None" for a e
    using s(2) that by (cases "sb_status s") (auto simp: submit_checks_def)
  have id: "an_submission (graded_answer x qs results w) = x" for x qs results w
    by (auto simp: graded_answer_def Let_def split: option.splits question_type.splits)
  have kept: "attempt_kept s ws (snd (save_submission now new_id (find_submission i student db) (mark_submitted a k n) i student
      (\<lambda>x. map (graded_answer x qs results) given) db))"
    if other: "find_submission i student db \<noteq> Some s" for student a k n qs results given
  proof (cases "find_submission i student db")
    case (Some r)
    then have "sb_id r \<noteq> sb_id s" using other_attempt[OF inv _ Some] s(1) other by (auto simp: attempt_kept_def)
    then have "op_keeps (attempt_kept s ws) (save_submission now new_id (Some r) (mark_submitted a k n) i student
        (\<lambda>x. map (graded_answer x qs results) given))"
      unfolding save_submission_def option.case Let_def
      by (intro op_keeps_intros kept_elsewhere kept_answers) (auto simp: id)
    then show ?thesis using s(1) Some by (simp add: op_keepsD)
  next
    case None
    let ?t = "mark_submitted a k n (blank_submission now new_id i student SUBMITTED)"
    have t: "sb_id ?t = new_id" by (simp add: mark_submitted_def blank_submission_def)
    show ?thesis
    proof (cases "new_id = sb_id s")
      case True
      then have "insert_submission ?t db = (Inl unique_error, db)"
        using s(1) t by (auto simp: insert_submission_def op_guard_def op_then_def op_bind_def attempt_kept_def list_ex_iff first_thrown.simps)
      then show ?thesis using None s(1) by (simp add: save_submission_def Let_def op_transaction_def op_then_def op_bind_def)
    next
      case False
      then have "op_keeps (attempt_kept s ws) (save_submission now new_id None (mark_submitted a k n) i student
          (\<lambda>x. map (graded_answer x qs results) given))"
        unfolding save_submission_def option.case Let_def
        by (intro op_keeps_intros kept_insert kept_answers) (auto simp: id)
      then show ?thesis using s(1) None by (simp add: op_keepsD)
    qed
  qed
  then show ?thesis
    using s(1) by (auto simp: submit_assessment_def Let_def op_heads dest: refused intro!: kept split: sum.splits option.splits)
qed

text \<open>A violation changes nothing of a handed in attempt but its violations, and nothing of a graded one.\<close>

definition same_but_violations :: "submission \<Rightarrow> submission \<Rightarrow> bool" where
  "same_but_violations s r = (\<exists>n f d. r = s\<lparr>sb_violations := n, sb_flagged := f, sb_deductions := d\<rparr>)"

lemma same_refl: "same_but_violations s s"
  unfolding same_but_violations_def
  by (rule exI[of _ "sb_violations s"], rule exI[of _ "sb_flagged s"], rule exI[of _ "sb_deductions s"]) simp

lemma same_trans: "same_but_violations s r \<Longrightarrow> same_but_violations r q \<Longrightarrow> same_but_violations s q"
  by (clarsimp simp: same_but_violations_def) (intro exI, rule refl)

definition handed_in :: "submission \<Rightarrow> answer list \<Rightarrow> assessment_db \<Rightarrow> bool" where
  "handed_in s ws db =
     (assessment_inv db \<and> sb_status s \<noteq> STARTED \<and>
      (\<exists>r. same_but_violations s r \<and> (sb_status s = GRADED \<longrightarrow> r = s) \<and> attempt_kept r ws db))"

fun student_event :: "assessment_event \<Rightarrow> bool" where
  "student_event (StartAssessment now token n school i c) = True"
| "student_event (LogViolation school i kind c) = True"
| "student_event (SubmitAssessment now grader n school i dto c) = True"
| "student_event _ = False"

lemma violation_kept:
  assumes inv: "assessment_inv db" and r: "attempt_kept r ws db"
  shows "\<exists>q. same_but_violations r q \<and> (sb_status r = GRADED \<longrightarrow> q = r) \<and> attempt_kept q ws (snd (log_violation school i kind c db))"
proof -
  have "attempt_kept r ws (snd (op_then (write_submission (sb_id t) f) (op_ret x) (db\<lparr>ab_violations := vs\<rparr>)))"
    if "find_submission i student db = Some t" "t \<noteq> r" for t f x vs student
  proof -
    have "sb_id t \<noteq> sb_id r" using other_attempt[OF inv _ that] r by (simp add: attempt_kept_def)
    then have "op_keeps (attempt_kept r ws) (op_then (write_submission (sb_id t) f) (op_ret x))" by (intro op_keeps_intros kept_elsewhere)
    moreover have "attempt_kept r ws (db\<lparr>ab_violations := vs\<rparr>)" using r by (simp add: attempt_kept_def answers_of_def)
    ultimately show ?thesis by (rule op_keepsD)
  qed
  moreover have "attempt_kept (add_violation a r) ws (snd (op_then (write_submission (sb_id r) (add_violation a)) (op_ret x) (db\<lparr>ab_violations := vs\<rparr>)))" for a x vs
  proof -
    have "add_violation a r \<in> set (update_first (\<lambda>s. sb_id s = sb_id r) (add_violation a) (ab_submissions db))"
      using r inv by (auto simp: attempt_kept_def assessment_inv_def distinct_update_first set_update_where)
    moreover have "sb_id (add_violation a r) = sb_id r" by (simp add: add_violation_def Let_def)
    ultimately show ?thesis using r by (simp add: attempt_kept_def write_submission_def answers_of_def)
  qed
  moreover have "same_but_violations r (add_violation a r)" for a
    unfolding same_but_violations_def add_violation_def Let_def by (intro exI) (rule refl)
  ultimately show ?thesis
    using r same_refl
    by (cases "find_submission i (pu_id (projr (active_student ''Forbidden'' school c db))) db = Some r")
      (fastforce simp: log_violation_def op_heads split: sum.splits option.splits)+
qed

interpretation handing_in: guarded_step_system assessment_step "handed_in s ws" student_event for s ws
proof unfold_locales
  fix db e assume old: "handed_in s ws db" and e: "student_event e"
  then obtain r where r: "same_but_violations s r" "sb_status s = GRADED \<longrightarrow> r = s" "attempt_kept r ws db" and inv: "assessment_inv db"
    and st: "sb_status s \<noteq> STARTED" by (auto simp: handed_in_def)
  have st_r: "sb_status r = sb_status s" using r(1) by (auto simp: same_but_violations_def)
  have inv': "assessment_inv (assessment_step e db)" using inv by (rule assessments.step_keeps)
  have "\<exists>q. same_but_violations r q \<and> (sb_status r = GRADED \<longrightarrow> q = r) \<and> attempt_kept q ws (assessment_step e db)"
  proof (cases e)
    case (StartAssessment now token n school i c)
    then show ?thesis using start_kept[OF inv r(3)] st st_r same_refl by (intro exI[of _ r]) simp
  next
    case (SubmitAssessment now grader n school i dto c)
    then show ?thesis using submit_kept[OF inv r(3)] st st_r same_refl by (intro exI[of _ r]) simp
  next
    case (LogViolation school i kind c)
    then show ?thesis using violation_kept[OF inv r(3)] by simp
  qed (use e in simp_all)
  then obtain q where q: "same_but_violations r q" "sb_status r = GRADED \<longrightarrow> q = r" "attempt_kept q ws (assessment_step e db)" by blast
  have "same_but_violations s q \<and> (sb_status s = GRADED \<longrightarrow> q = s)" using same_trans[OF r(1) q(1)] r(2) q(2) st_r by simp
  then show "handed_in s ws (assessment_step e db)"
    unfolding handed_in_def using q(3) st inv' by blast
qed

end
