(* ===== verification/AssessmentProperties.thy ===== *)
theory AssessmentProperties
  imports AssessmentFacts SchoolExample
begin

text \<open>
  The properties of assessments: deadlines, attempts that stay as handed in, scores, and grades.
\<close>

section \<open>Attempts\<close>

text \<open>
  C25: through every run of assessment requests, failed ones included, a student has one attempt at an
  assessment, the penalty of an attempt is the points per violation times the violations beyond the
  limit, it is flagged exactly when there are such, and every answer belongs to an attempt and a question.
\<close>

theorem assessment_invariant:
  assumes "assessment_inv db"
  shows "assessment_inv (fold assessment_step es db)"
  using assms by (rule assessments.all_runs)

text \<open>
  C24: once an attempt is handed in no run of requests by students changes its answers, its score or its
  times, only violations are still counted, and once it is graded it does not change at all.
\<close>

theorem handed_in_attempt_final:
  assumes "assessment_inv db" "s \<in> set (ab_submissions db)" "sb_status s \<noteq> STARTED" "\<And>e. e \<in> set es \<Longrightarrow> student_event e"
  shows "\<exists>r\<in>set (ab_submissions (fold assessment_step es db)). same_but_violations s r \<and> (sb_status s = GRADED \<longrightarrow> r = s) \<and>
    answers_of (sb_id r) (fold assessment_step es db) = answers_of (sb_id s) db"
proof -
  have "handed_in s (answers_of (sb_id s) db) db"
    using assms(1-3) same_refl by (auto simp: handed_in_def attempt_kept_def)
  then have "handed_in s (answers_of (sb_id s) db) (fold assessment_step es db)"
    using assms(4) by (rule handing_in.run_inv)
  then show ?thesis by (auto simp: handed_in_def attempt_kept_def)
qed

section \<open>Deadlines\<close>

text \<open>
  A submission is refused exactly when its day is after the due day, late ones are not allowed and
  the attempt was not started by the due day, or when a timed attempt is handed in more than two
  minutes after its time, late ones are not allowed and the request does not call itself automatic.
\<close>

theorem submit_refused_iff:
  "sk_reason (evaluate_submit_deadline a s now auto) \<noteq> None \<longleftrightarrow>
    (\<exists>d. dl_due a = Some d \<and> d div ms_per_day < now div ms_per_day \<and> \<not> dl_late_due a \<and>
      (\<nexists>t. ds_started s = Some t \<and> t div ms_per_day \<le> d div ms_per_day)) \<or>
    (\<exists>t m. dl_timed a \<and> ds_started s = Some t \<and> dl_duration a = Some m \<and> m \<noteq> 0 \<and> (m + 2) * 60000 < now - t \<and>
      \<not> dl_late_timer a \<and> \<not> auto)"
proof -
  have "(case (ds_started s, dl_due a) of (Some t, Some d) \<Rightarrow> t \<le> get_due_date_deadline d | _ \<Rightarrow> False) \<longleftrightarrow>
      (\<exists>t d. ds_started s = Some t \<and> dl_due a = Some d \<and> t div ms_per_day \<le> d div ms_per_day)"
    by (auto simp: started_by_due_iff split: option.splits)
  then show ?thesis
    unfolding evaluate_submit_deadline_def Let_def timer_expired_iff past_due_iff by auto
qed

section \<open>Scores\<close>

lemma submit_Inr:
  assumes run: "submit_assessment now grader new_id school i dto c db = (Inr s, db')" and inv: "assessment_inv db"
  obtains p a where "active_student no_student_profile school c db = Inr p" "assessment_of_school school i db = Inr a"
    "first_thrown (submit_checks now a (find_submission i (pu_id p) db) dto) = None" "sb_status s = SUBMITTED" "sb_student s = pu_id p" "sb_assessment s = i"
    "s \<in> set (ab_submissions db')" "sb_total s = Some (total_of (answers_of (sb_id s) db'))"
    "answers_of (sb_id s) db' = map (graded_answer (sb_id s) (questions_of i db) (ai_grades grader (ai_items (questions_of i db) (wd_answers dto)))) (wd_answers dto)"
proof -
  obtain p a where p: "active_student no_student_profile school c db = Inr p" and a: "assessment_of_school school i db = Inr a"
    and ok: "first_thrown (submit_checks now a (find_submission i (pu_id p) db) dto) = None"
    using run by (auto simp: submit_assessment_def op_heads split: sum.splits option.splits)
  define results where "results = ai_grades grader (ai_items (questions_of i db) (wd_answers dto))"
  define answers where "answers = (\<lambda>x. map (graded_answer x (questions_of i db) results) (wd_answers dto))"
  define k where "k = evaluate_submit_deadline (rule_of a) (nullish (map_option state_of (find_submission i (pu_id p) db)) fresh_state) now (wd_auto dto)"
  have save: "save_submission now new_id (find_submission i (pu_id p) db) (mark_submitted a k (total_of (answers []))) i (pu_id p) answers db = (Inr s, db')"
    using run ok by (auto simp: submit_assessment_def op_heads p a Let_def k_def answers_def results_def split: option.splits)
  have sub: "filter (\<lambda>w. an_submission w = x) (answers x) = answers x" "filter (\<lambda>w. an_submission w = x) (delete_where (\<lambda>w. an_submission w = x) rows) = []" for x rows
    by (auto simp: delete_where_def answers_def graded_answer_def Let_def filter_empty_conv filter_id_conv split: option.splits question_type.splits)
  have total: "total_of (answers x) = total_of (answers [])" for x
    by (auto simp: total_of_def answers_def graded_answer_def Let_def comp_def split: option.splits question_type.splits
      intro!: arg_cong[of _ _ sum_list])
  have "s \<in> set (ab_submissions db') \<and> answers_of (sb_id s) db' = answers (sb_id s) \<and> sb_status s = SUBMITTED \<and> sb_student s = pu_id p \<and>
      sb_assessment s = i \<and> sb_total s = Some (total_of (answers []))"
  proof (cases "find_submission i (pu_id p) db")
    case None
    then show ?thesis
      using save by (auto simp: save_submission_def Let_def op_transaction_Inr op_then_Inr insert_submission_def write_answers_def op_guard_Inr
        op_Inr_iffs mark_submitted_def blank_submission_def answers_of_def sub)
  next
    case (Some r)
    have "f r \<in> set (update_first (\<lambda>x. sb_id x = sb_id r) f (ab_submissions db))" for f
      using inv find_submission_in[OF Some] by (auto simp: assessment_inv_def distinct_update_first set_update_where)
    then show ?thesis
      using save Some find_submission_in[OF Some] by (auto simp: save_submission_def Let_def op_transaction_Inr op_then_Inr write_submission_def write_answers_def op_guard_Inr
        op_Inr_iffs mark_submitted_def answers_of_def sub)
  qed
  then have "s \<in> set (ab_submissions db')" "answers_of (sb_id s) db' = answers (sb_id s)" "sb_status s = SUBMITTED" "sb_student s = pu_id p"
      "sb_assessment s = i" "sb_total s = Some (total_of (answers_of (sb_id s) db'))"
    using total[of "sb_id s"] by simp_all
  then show ?thesis using that[OF p a ok] unfolding answers_def results_def by blast
qed


lemma trim_solid: "trim s = s \<longleftrightarrow> s = [] \<or> \<not> is_space_char (hd s) \<and> \<not> is_space_char (last s)"
proof (cases "s = []")
  case False
  have "trim s = s \<longleftrightarrow> dropWhile is_space_char s = s \<and> dropWhile is_space_char (rev s) = rev s"
  proof
    assume t: "trim s = s"
    have "length (trim s) \<le> length (dropWhile is_space_char s)" by (simp add: trim_def) (metis length_dropWhile_le length_rev)
    then have "length s \<le> length (dropWhile is_space_char s)" by (simp add: t)
    then have d: "dropWhile is_space_char s = s"
      by (metis length_dropWhile_le le_antisym length_append add_cancel_left_left length_0_conv append_Nil takeWhile_dropWhile_id)
    then show "dropWhile is_space_char s = s \<and> dropWhile is_space_char (rev s) = rev s"
      using t by (simp add: trim_def) (metis rev_rev_ident)
  qed (simp add: trim_def)
  then show ?thesis using False by (simp add: dropWhile_eq_self_iff hd_rev)
qed (simp add: trim_def)

lemma letter_not_space: "letter_index ch = Some n \<Longrightarrow> \<not> is_space_char ch"
  by (cases "is_space_char ch")
    (auto simp: letter_index_def Let_def is_space_char_def to_upper_char_def is_lower_char_def split: if_splits)

text \<open>
  A letter, the letter with a dot or a bracket before the text, and the text of the option itself all
  answer a multiple choice question alike, unless the text itself reads as a letter or a label.
\<close>

theorem option_forms_agree:
  assumes n: "n < length options" "letter_index ch = Some n" "options ! n = opt" "opt \<noteq> []" "trim opt = opt" "first_line opt = opt"
    and plain: "letter_index (hd opt) = None \<or> 1 < length opt \<and> hd (tl opt) \<notin> set ''.)''"
  shows "get_opt_text [ch] options = opt \<and> get_opt_text opt options = opt \<and>
    get_opt_text (ch # ''. '' @ opt) options = opt \<and> get_opt_text (ch # '')'' @ opt) options = opt"
proof -
  have solid: "\<not> is_space_char ch" "\<not> is_space_char (hd opt)" "\<not> is_space_char (last opt)"
    using letter_not_space[OF n(2)] n(4,5) trim_solid[of opt] by auto
  have trims: "trim [ch] = [ch]" "trim (ch # ''. '' @ opt) = ch # ''. '' @ opt" "trim (ch # '')'' @ opt) = ch # '')'' @ opt"
    using solid n(4) by (auto simp: trim_solid)
  have rest: "dropWhile is_space_char opt = opt" "dropWhile is_space_char (CHR '' '' # opt) = opt"
    using solid(2) n(4) by (cases opt; simp add: is_space_char_def)+
  have "get_opt_text opt options = opt"
    using n(4,5) plain by (auto simp: get_opt_text_def split: list.split option.split)
  moreover have "get_opt_text [ch] options = opt" using n by (simp add: get_opt_text_def trims option_at_def)
  moreover have "get_opt_text (ch # ''. '' @ opt) options = opt" "get_opt_text (ch # '')'' @ opt) options = opt"
    using n(2,6) trims rest by (simp_all add: get_opt_text_def)
  ultimately show ?thesis by blast
qed

section \<open>Grades\<close>

lemma grade_for_frame:
  assumes "op_for (\<lambda>(q, x) _. grade_answer i dto q x) scores () db = (Inr u, db')"
  shows "ab_submissions db' = ab_submissions db \<and> ab_grades db' = ab_grades db \<and> ab_assessments db' = ab_assessments db"
  using assms
proof (induction scores arbitrary: db)
  case (Cons qx scores)
  obtain q x where qx: "qx = (q, x)" by (cases qx)
  obtain d where d: "grade_answer i dto q x db = (Inr (), d)" "op_for (\<lambda>(q, x) _. grade_answer i dto q x) scores () d = (Inr u, db')"
    using Cons.prems by (auto simp: op_bind_Inr qx)
  have "ab_submissions d = ab_submissions db \<and> ab_grades d = ab_grades db \<and> ab_assessments d = ab_assessments db"
    using d(1) by (auto simp: grade_answer_def Let_def op_then_Inr op_guard_Inr op_Inr_iffs)
  then show ?case using Cons.IH[OF d(2)] by simp
qed (simp add: op_Inr_iffs)

lemma grade_Inr:
  assumes run: "grade_submission now created gid school i dto c db = (Inr r, db')"
  obtains s a score d where "submission_of_school school i db = Inr (s, a)"
    "may_act_on ''You do not have permission to grade this assessment'' school c (as_teacher a) db = Inr ()"
    "score = final_score a s dto (answers_of i db)" "r = mark_graded now dto score s"
    "ab_submissions d = update_first (\<lambda>s. sb_id s = i) (mark_graded now dto score) (ab_submissions db)" "ab_grades d = ab_grades db"
    "(case newest_enrolment created (sb_student s) (base_of db) of None \<Rightarrow> op_ret () | Some e \<Rightarrow> record_grade now gid e a score (wg_feedback dto)) d = (Inr (), db')"
proof -
  obtain s a where s: "submission_of_school school i db = Inr (s, a)"
    and m: "may_act_on ''You do not have permission to grade this assessment'' school c (as_teacher a) db = Inr ()"
    using run by (auto simp: grade_submission_def op_heads split: sum.splits)
  obtain d where d: "op_for (\<lambda>(q, x) _. grade_answer i dto q x) (nullish (wg_scores dto) []) ()
        (db\<lparr>ab_submissions := update_first (\<lambda>s. sb_id s = i) (mark_graded now dto (final_score a s dto (answers_of i db))) (ab_submissions db)\<rparr>) = (Inr (), d)"
      "(case newest_enrolment created (sb_student s) (base_of db) of None \<Rightarrow> op_ret () | Some e \<Rightarrow> record_grade now gid e a (final_score a s dto (answers_of i db)) (wg_feedback dto)) d = (Inr (), db')"
      and r: "r = mark_graded now dto (final_score a s dto (answers_of i db)) s"
    using run by (auto simp: grade_submission_def op_heads s m op_transaction_Inr op_then_Inr write_submission_def op_Inr_iffs)
  show ?thesis using that[OF s m refl r _ _ d(2)] grade_for_frame[OF d(1)] by simp
qed

lemma record_grade_Inr:
  assumes "record_grade now gid e a score feedback d = (Inr (), db')"
  obtains (changed) m where "m \<in> set (gb_marks (ab_grades d))" "same_grade e a m" "ab_submissions db' = ab_submissions d"
    "gb_marks (ab_grades db') = update_first (\<lambda>n. mk_id n = mk_id m)
       (\<lambda>n. n\<lparr>mk_score := score, mk_remarks := (case feedback of None \<Rightarrow> mk_remarks n | Some f \<Rightarrow> Some f), mk_published := True\<rparr>) (gb_marks (ab_grades d))"
  | (added) "find (same_grade e a) (gb_marks (ab_grades d)) = None" "ab_submissions db' = ab_submissions d"
    "gb_marks (ab_grades db') = gb_marks (ab_grades d) @ [grade_of_assessment now gid e a score feedback d]"
proof (cases "find (same_grade e a) (gb_marks (ab_grades d))")
  case None
  then have "insert_mark (grade_of_assessment now gid e a score feedback d) (ab_grades d) = (Inr (), ab_grades db')" "ab_submissions db' = ab_submissions d"
    using assms by (auto simp: record_grade_def on_grades_def split: prod.splits)
  moreover from this(1) have "ab_grades db' = (ab_grades d)\<lparr>gb_marks := gb_marks (ab_grades d) @ [grade_of_assessment now gid e a score feedback d]\<rparr>"
    by (auto simp: insert_mark_def op_then_Inr op_bind_Inr op_require_Inr op_Inr_iffs)
  ultimately show ?thesis using added None by simp
next
  case (Some m)
  then show ?thesis
    using assms changed[of m] by (auto simp: record_grade_def on_grades_def op_Inr_iffs dest: find_Some_in)
qed

text \<open>
  C27: without a score of its own choice a grading gives the scores less the deductions, cut to the range
  from zero to the maximum; the attempt is graded with it, and the newest active enrollment of the
  student has a published grade of the assessment with that score.
\<close>

theorem grading_correct:
  assumes run: "grade_submission now created gid school i dto c db = (Inr r, db')" and inv: "assessment_inv db"
    and ids: "distinct (map mk_id (gb_marks (ab_grades db)))" and plain: "wg_total dto = None"
    and sub: "submission_of_school school i db = Inr (s, a)" "newest_enrolment created (sb_student s) (base_of db) = Some e" "0 \<le> as_max a"
  shows "\<exists>score. sb_total r = Some score \<and> 0 \<le> score \<and> score \<le> as_max a \<and>
    score = max 0 (min (as_max a) (raw_score dto (answers_of i db) - sb_deductions s - sb_due_deduction r - sb_timer_deduction r)) \<and>
    sb_status r = GRADED \<and> r \<in> set (ab_submissions db') \<and>
    (\<exists>m\<in>set (gb_marks (ab_grades db')). same_grade e a m \<and> mk_score m = score \<and> mk_published m)"
proof (rule grade_Inr[OF run])
  fix s' a' score d
  assume "submission_of_school school i db = Inr (s', a')" and score': "score = final_score a' s' dto (answers_of i db)"
    and r': "r = mark_graded now dto score s'"
    and subs: "ab_submissions d = update_first (\<lambda>s. sb_id s = i) (mark_graded now dto score) (ab_submissions db)" and grades: "ab_grades d = ab_grades db"
    and rec: "(case newest_enrolment created (sb_student s') (base_of db) of None \<Rightarrow> op_ret ()
      | Some e \<Rightarrow> record_grade now gid e a' score (wg_feedback dto)) d = (Inr (), db')"
  then have same: "s' = s" "a' = a" using sub by auto
  have rowed: "record_grade now gid e a score (wg_feedback dto) d = (Inr (), db')" using rec sub(2) by (simp add: same)
  have s: "s \<in> set (ab_submissions db)" "sb_id s = i"
    using sub(1) by (auto simp: submission_of_school_def submission_with_def bind_eq_Some_conv split: option.splits if_splits dest: find_Some_in)
  have "mark_graded now dto score s \<in> set (update_first (\<lambda>s. sb_id s = i) (mark_graded now dto score) (ab_submissions db))"
    using inv s by (auto simp: assessment_inv_def distinct_update_first set_update_where)
  then have stored: "r \<in> set (ab_submissions db')" using rowed r' same subs by (auto elim: record_grade_Inr)
  have "\<exists>m\<in>set (gb_marks (ab_grades db')). same_grade e a m \<and> mk_score m = score \<and> mk_published m"
    using rowed
  proof (cases rule: record_grade_Inr)
    case (changed m)
    let ?f = "\<lambda>n. n\<lparr>mk_score := score, mk_remarks := (case wg_feedback dto of None \<Rightarrow> mk_remarks n | Some f \<Rightarrow> Some f), mk_published := True\<rparr>"
    have "?f m \<in> set (update_first (\<lambda>n. mk_id n = mk_id m) ?f (gb_marks (ab_grades d)))"
      using changed(1) ids grades by (auto simp: distinct_update_first set_update_where)
    then show ?thesis using changed(2,4) by (intro bexI[of _ "?f m"]) (simp_all add: same_grade_def)
  next
    case added
    then show ?thesis by (auto simp: grade_of_assessment_def same_grade_def)
  qed
  then show ?thesis
    using stored score' r' plain sub(3) by (intro exI[of _ score]) (auto simp: same mark_graded_def final_score_def nullish_def)
qed

text \<open>
  A score of the teacher's own choice is not compared with the maximum; one above it becomes a
  grade that every other way into the table refuses.
\<close>

theorem override_breaks_maximum:
  assumes run: "grade_submission now created gid school i dto c db = (Inr r, db')" and inv: "grade_inv (ab_grades db)"
    and sub: "submission_of_school school i db = Inr (s, a)" "newest_enrolment created (sb_student s) (base_of db) = Some e"
    and over: "wg_total dto = Some x" "as_max a < x" and fresh: "find (same_grade e a) (gb_marks (ab_grades db)) = None"
  shows "\<not> grade_inv (ab_grades db')"
proof (rule grade_Inr[OF run])
  fix s' a' score d
  assume "submission_of_school school i db = Inr (s', a')" and score': "score = final_score a' s' dto (answers_of i db)" and grades: "ab_grades d = ab_grades db"
    and rec: "(case newest_enrolment created (sb_student s') (base_of db) of None \<Rightarrow> op_ret ()
      | Some e \<Rightarrow> record_grade now gid e a' score (wg_feedback dto)) d = (Inr (), db')"
  then have same: "s' = s" "a' = a" using sub by auto
  have rowed: "record_grade now gid e a score (wg_feedback dto) d = (Inr (), db')" using rec sub(2) by (simp add: same)
  have "score = x" using score' over(1) by (simp add: final_score_def nullish_def)
  show ?thesis
    using rowed
  proof (cases rule: record_grade_Inr)
    case (changed m)
    then show ?thesis using fresh grades by (auto simp: find_None_all)
  next
    case added
    then have "grade_of_assessment now gid e a score (wg_feedback dto) d \<in> set (gb_marks (ab_grades db'))" by simp
    then show ?thesis using over(2) \<open>score = x\<close> by (force simp: grade_inv_def mark_ok_def grade_of_assessment_def)
  qed
qed

text \<open>
  A teacher grades only submissions to assessments of an own teacher row in the school.
\<close>

theorem teacher_grades_own:
  assumes run: "grade_submission now created gid school i dto c db = (Inr r, db')" and role: "ca_role c = ''TEACHER''"
  shows "\<exists>s a t. submission_of_school school i db = Inr (s, a) \<and> t \<in> set (gb_teachers (ab_grades db)) \<and> te_user t = ca_user c \<and>
    te_school t = school \<and> as_teacher a = te_id t \<and> as_school a = school"
proof (rule grade_Inr[OF run])
  fix s a
  assume sub: "submission_of_school school i db = Inr (s, a)"
    and may: "may_act_on ''You do not have permission to grade this assessment'' school c (as_teacher a) db = Inr ()"
  have "as_school a = school" using sub by (auto simp: submission_of_school_def split: option.splits if_splits)
  moreover obtain t where "find (\<lambda>t. te_user t = ca_user c \<and> te_school t = school) (gb_teachers (ab_grades db)) = Some t" "as_teacher a = te_id t"
    using may role by (auto simp: may_act_on_def split: option.splits if_splits)
  ultimately show ?thesis using sub by (auto dest!: find_Some_in)
qed

section \<open>The expected answers\<close>

lemma active_student_Inr:
  assumes "active_student m school c db = Inr p"
  shows "p \<in> set (gb_pupils (ab_grades db)) \<and> pu_user p = ca_user c"
proof (cases "student_of c db")
  case (Some q)
  then have "q = p"
    using assms by (cases "assert_student_enrollment_operational (pu_id q) school (ab_billing db)") (simp_all add: active_student_def)
  then show ?thesis using Some by (auto simp: student_of_def dest!: find_Some_in)
qed (use assms in \<open>simp add: active_student_def\<close>)

text \<open>
  A student who has not started sees no expected answers, and sees all of them right after the start.
\<close>

theorem start_reveals_answers:
  assumes run: "start_assessment now token new_id school i c db = (Inr v, db')" and role: "ca_role c = ''STUDENT''"
    and none: "own_submissions c db (submissions_of i db) = []"
  shows "(\<exists>p. get_assessment_by_id school i c db = Inr p \<and> list_all (\<lambda>q. qn_correct q = None) (pg_questions p)) \<and>
    (\<exists>p. get_assessment_by_id school i c db' = Inr p \<and> pg_questions p = sort_key qn_order (questions_of i db))"
proof -
  obtain p a where p: "active_student no_student_profile school c db = Inr p" and a: "assessment_of_school school i db = Inr a"
    and up: "\<exists>t. upsert_attempt now token new_id i (pu_id p) (find_submission i (pu_id p) db) db = (Inr t, db')"
    using run by (auto simp: start_assessment_def op_heads op_bind_Inr op_Inr_iffs split: sum.splits option.splits if_splits)
  have pupil: "p \<in> set (gb_pupils (ab_grades db))" "pu_user p = ca_user c"
    using active_student_Inr[OF p] by simp_all
  have "find_submission i (pu_id p) db = None"
  proof (rule ccontr)
    assume "find_submission i (pu_id p) db \<noteq> None"
    then obtain s where "find_submission i (pu_id p) db = Some s" by auto
    then show False using none pupil find_submission_in[of i "pu_id p" db s]
      by (auto simp: own_submissions_def submissions_of_def filter_empty_conv list_ex_iff)
  qed
  then have db': "\<exists>t. db' = db\<lparr>ab_submissions := ab_submissions db @ [t]\<rparr> \<and> sb_assessment t = i \<and> sb_student t = pu_id p"
    using up by (auto simp: upsert_attempt_def insert_submission_def op_then_Inr op_guard_Inr op_Inr_iffs blank_submission_def)
  then obtain t where t: "db' = db\<lparr>ab_submissions := ab_submissions db @ [t]\<rparr>" "sb_assessment t = i" "sb_student t = pu_id p" by blast
  have "active_student no_student_profile school c db' = Inr p" "assessment_of_school school i db' = Inr a" "questions_of i db' = questions_of i db"
    using p a by (simp_all add: t active_student_def student_of_def assessment_of_school_def find_assessment_def questions_of_def cong: option.case_cong)
  moreover have "own_submissions c db' (submissions_of i db') \<noteq> []"
    using pupil t by (auto simp: own_submissions_def submissions_of_def filter_empty_conv list_ex_iff)
  ultimately show ?thesis
    using p a role none by (auto simp: get_assessment_by_id_def Let_def hide_answers_def list_all_iff)
qed

section \<open>Witnesses\<close>

definition ex_assessment :: assessment where
  "ex_assessment = \<lparr>as_id = ''A1'', as_school = ''s'', as_class = None, as_arm = None, as_subject = ''geo'', as_teacher = ''T'', as_term = None,
     as_year = None, as_title = ''Capitals'', as_type = QUIZ, as_status = PUBLISHED, as_due = None, as_max = 10, as_timed = False,
     as_duration = None, as_late_due = False, as_late_timer = False, as_due_penalty = 0, as_timer_penalty = 0, as_integrity = True,
     as_auto_submit = True, as_threshold = 0, as_violation_points = 2, as_scheme = None, as_created = 1\<rparr>"

definition ex_assessment_db :: assessment_db where
  "ex_assessment_db = \<lparr>ab_grades = \<lparr>gb_base = ex_session_db [ex_term_enrolment ''e1'' ''ada'' None],
       gb_teachers = [\<lparr>te_id = ''T'', te_code = ''TCH'', te_user = ''tu'', te_school = ''s'', te_first = ''Ife'', te_last = ''Ade''\<rparr>],
       gb_subjects = [\<lparr>sj_id = ''geo'', sj_school = ''s'', sj_name = ''Geography'', sj_active = True\<rparr>], gb_duties = [],
       gb_pupils = [\<lparr>pu_id = ''ada'', pu_user = ''au'', pu_first = ''Ada'', pu_last = ''Eze''\<rparr>], gb_marks = []\<rparr>,
     ab_billing = \<lparr>bd_subs = [], bd_plans = [], bd_schools = [], bd_enrollments = [enrollment.make ''e1'' ''ada'' ''s'' 0 True False],
       bd_teachers = [], bd_admins = [], bd_tools = [], bd_access = [], bd_payments = [], bd_processed = [], bd_usage = [], bd_audit = [],
       bd_reminders = [], bd_revenue = []\<rparr>,
     ab_schemes = [], ab_assessments = [ex_assessment],
     ab_questions = [\<lparr>qn_id = ''q1'', qn_assessment = ''A1'', qn_text = ''Capital of France'', qn_type = MULTIPLE_CHOICE,
       qn_options = [''Paris'', ''Rome''], qn_correct = Some ''A'', qn_points = 5, qn_order = 1\<rparr>],
     ab_submissions = [], ab_answers = [], ab_violations = []\<rparr>"

definition ex_student :: caller where
  "ex_student = \<lparr>ca_user = ''au'', ca_role = ''STUDENT'', ca_profile = None\<rparr>"

definition ex_marker :: caller where
  "ex_marker = \<lparr>ca_user = ''tu'', ca_role = ''TEACHER'', ca_profile = Some ''T''\<rparr>"

definition ex_submit :: submit_dto where
  "ex_submit = \<lparr>wd_answers = [\<lparr>wd_question = ''q1'', wd_text = None, wd_option = Some ''a) Paris''\<rparr>], wd_token = Some ''tok'', wd_auto = False\<rparr>"

definition ex_grading :: "rat option \<Rightarrow> grading_dto" where
  "ex_grading x = \<lparr>wg_total = x, wg_feedback = None, wg_scores = None, wg_comments = (\<lambda>_. None), wg_due_deduction = None, wg_timer_deduction = None\<rparr>"

definition ex_attempt :: "assessment_event list" where
  "ex_attempt = [StartAssessment 5 ''tok'' ''S1'' ''s'' ''A1'' ex_student, LogViolation ''s'' ''A1'' ''TAB_SWITCH'' ex_student,
     LogViolation ''s'' ''A1'' ''TAB_SWITCH'' ex_student, SubmitAssessment 9 (\<lambda>_. None) ''S2'' ''s'' ''A1'' ex_submit ex_student]"

definition ex_attempted :: assessment_db where
  "ex_attempted = fold assessment_step ex_attempt ex_assessment_db"

lemma ex_assessment_inv: "assessment_inv ex_assessment_db"
  by code_simp

lemma ex_attempted_inv: "assessment_inv ex_attempted"
  unfolding ex_attempted_def by (rule assessments.all_runs[OF ex_assessment_inv])

lemma result_Inr: "\<not> isl (fst r) \<Longrightarrow> r = (Inr (projr (fst r)), snd r)"
  by (cases r; cases "fst r") auto

theorem assessment_invariant_witness: "assessment_inv (fold assessment_step ex_attempt ex_assessment_db)"
  by (rule assessment_invariant[OF ex_assessment_inv])

theorem handed_in_attempt_final_witness:
  "\<exists>r\<in>set (ab_submissions (fold assessment_step ex_attempt ex_attempted)). sb_total r = Some 5 \<and> sb_submitted r = 9"
proof -
  let ?s = "hd (ab_submissions ex_attempted)"
  have "ab_submissions ex_attempted \<noteq> []" by code_simp
  then have s: "?s \<in> set (ab_submissions ex_attempted)" by simp
  have status: "sb_status ?s \<noteq> STARTED" by code_simp
  have score: "sb_total ?s = Some 5" by code_simp
  have time: "sb_submitted ?s = 9" by code_simp
  have events: "student_event e" if "e \<in> set ex_attempt" for e using that by (auto simp: ex_attempt_def)
  have "\<exists>r\<in>set (ab_submissions (fold assessment_step ex_attempt ex_attempted)). same_but_violations ?s r \<and> (sb_status ?s = GRADED \<longrightarrow> r = ?s) \<and>
      answers_of (sb_id r) (fold assessment_step ex_attempt ex_attempted) = answers_of (sb_id ?s) ex_attempted"
    by (rule handed_in_attempt_final[OF ex_attempted_inv s status events])
  then obtain r where r: "r \<in> set (ab_submissions (fold assessment_step ex_attempt ex_attempted))" "same_but_violations ?s r" by blast
  then have "sb_total r = Some 5" "sb_submitted r = 9" using score time by (auto simp: same_but_violations_def)
  then show ?thesis using r(1) by blast
qed


theorem option_forms_agree_witness:
  "get_opt_text ''b'' [''Paris'', ''Rome''] = ''Rome'' \<and> get_opt_text ''Rome'' [''Paris'', ''Rome''] = ''Rome'' \<and>
   get_opt_text ''b. Rome'' [''Paris'', ''Rome''] = ''Rome'' \<and> get_opt_text ''b)Rome'' [''Paris'', ''Rome''] = ''Rome''"
proof -
  have "1 < length [''Paris'', ''Rome'']" "letter_index (CHR ''b'') = Some 1" "[''Paris'', ''Rome''] ! 1 = ''Rome''" "''Rome'' \<noteq> []"
    "trim ''Rome'' = ''Rome''" "first_line ''Rome'' = ''Rome''" "letter_index (hd ''Rome'') = None"
    by code_simp+
  then show ?thesis using option_forms_agree[of 1 "[''Paris'', ''Rome'']" "CHR ''b''" "''Rome''"] by simp
qed

lemma ex_submission:
  obtains s a e where "submission_of_school ''s'' ''S1'' ex_attempted = Inr (s, a)"
    "newest_enrolment (\<lambda>_. 0) (sb_student s) (base_of ex_attempted) = Some e" "as_max a = 10" "gb_marks (ab_grades ex_attempted) = []"
proof -
  have "case submission_of_school ''s'' ''S1'' ex_attempted of Inl _ \<Rightarrow> False
    | Inr (s, a) \<Rightarrow> newest_enrolment (\<lambda>_. 0) (sb_student s) (base_of ex_attempted) \<noteq> None \<and> as_max a = 10"
    by code_simp
  moreover have "gb_marks (ab_grades ex_attempted) = []" by code_simp
  ultimately show ?thesis using that by (auto split: sum.splits)
qed

theorem grading_correct_witness:
  "let (r, db') = grade_submission 20 (\<lambda>_. 0) ''G1'' ''s'' ''S1'' (ex_grading None) ex_marker ex_attempted
   in sb_total (projr r) = Some 3 \<and> (\<exists>m\<in>set (gb_marks (ab_grades db')). mk_score m = 3 \<and> mk_published m)"
proof -
  let ?run = "grade_submission 20 (\<lambda>_. 0) ''G1'' ''s'' ''S1'' (ex_grading None) ex_marker ex_attempted"
  have ok: "\<not> isl (fst ?run)" "sb_total (projr (fst ?run)) = Some 3" by code_simp+
  obtain s a e where sub: "submission_of_school ''s'' ''S1'' ex_attempted = Inr (s, a)"
    "newest_enrolment (\<lambda>_. 0) (sb_student s) (base_of ex_attempted) = Some e" "as_max a = 10" "gb_marks (ab_grades ex_attempted) = []"
    by (rule ex_submission)
  then have facts: "0 \<le> as_max a" "distinct (map mk_id (gb_marks (ab_grades ex_attempted)))" "wg_total (ex_grading None) = None"
    by (simp_all add: ex_grading_def)
  obtain score where score: "sb_total (projr (fst ?run)) = Some score"
    "\<exists>m\<in>set (gb_marks (ab_grades (snd ?run))). mk_score m = score \<and> mk_published m"
    using grading_correct[OF result_Inr[OF ok(1)] ex_attempted_inv facts(2,3) sub(1,2) facts(1)] by blast
  then have "score = 3" using ok(2) by simp
  then show ?thesis using score by (simp only: Let_def split_beta)
qed

theorem override_breaks_maximum_witness:
  "\<not> grade_inv (ab_grades (snd (grade_submission 20 (\<lambda>_. 0) ''G1'' ''s'' ''S1'' (ex_grading (Some 50)) ex_marker ex_attempted)))"
proof -
  let ?run = "grade_submission 20 (\<lambda>_. 0) ''G1'' ''s'' ''S1'' (ex_grading (Some 50)) ex_marker ex_attempted"
  have ok: "\<not> isl (fst ?run)" by code_simp
  have inv: "grade_inv (ab_grades ex_attempted)" by code_simp
  obtain s a e where sub: "submission_of_school ''s'' ''S1'' ex_attempted = Inr (s, a)"
    "newest_enrolment (\<lambda>_. 0) (sb_student s) (base_of ex_attempted) = Some e" "as_max a = 10" "gb_marks (ab_grades ex_attempted) = []"
    by (rule ex_submission)
  then have over: "wg_total (ex_grading (Some 50)) = Some 50" "as_max a < 50" "find (same_grade e a) (gb_marks (ab_grades ex_attempted)) = None"
    by (simp_all add: ex_grading_def)
  show ?thesis by (rule override_breaks_maximum[OF result_Inr[OF ok] inv sub(1,2) over])
qed

theorem teacher_grades_own_witness:
  "\<exists>s a t. submission_of_school ''s'' ''S1'' ex_attempted = Inr (s, a) \<and> t \<in> set (gb_teachers (ab_grades ex_attempted)) \<and> te_user t = ''tu'' \<and>
    as_teacher a = te_id t"
proof -
  have ok: "\<not> isl (fst (grade_submission 20 (\<lambda>_. 0) ''G1'' ''s'' ''S1'' (ex_grading None) ex_marker ex_attempted))" by code_simp
  have "ca_role ex_marker = ''TEACHER''" "ca_user ex_marker = ''tu''" by (simp_all add: ex_marker_def)
  then show ?thesis using teacher_grades_own[OF result_Inr[OF ok]] by auto
qed

theorem start_reveals_answers_witness:
  "let db' = snd (start_assessment 5 ''tok'' ''S1'' ''s'' ''A1'' ex_student ex_assessment_db)
   in \<exists>p. get_assessment_by_id ''s'' ''A1'' ex_student db' = Inr p \<and> map qn_correct (pg_questions p) = [Some ''A'']"
proof -
  have ok: "\<not> isl (fst (start_assessment 5 ''tok'' ''S1'' ''s'' ''A1'' ex_student ex_assessment_db))" by code_simp
  have "ca_role ex_student = ''STUDENT''" "own_submissions ex_student ex_assessment_db (submissions_of ''A1'' ex_assessment_db) = []"
    "map qn_correct (sort_key qn_order (questions_of ''A1'' ex_assessment_db)) = [Some ''A'']" by code_simp+
  then show ?thesis using start_reveals_answers[OF result_Inr[OF ok]] by (auto simp: Let_def)
qed

end
