(* ===== verification/Portals.thy ===== *)
theory Portals
  imports SchoolLifecycle SubscriptionConfig OpMonad
begin

text \<open>
  The portal addresses of schools: \<open>src/src/portals/slug.util.ts\<close>, the address part of
  \<open>src/src/portals/portals.service.ts\<close>, and what the registration, verification and rejection of
  a school do to its address. The state is the school table (the columns of an address) and the
  table of old addresses. Strings are ASCII; \<open>new URL\<close> is modelled for http and https
  addresses without user information.
\<close>

section \<open>Slugs\<close>

definition reserved_slugs :: "string list" where
  "reserved_slugs = [''www'', ''www2'', ''app'', ''api'', ''admin'', ''auth'', ''mail'', ''status'', ''help'', ''docs'',
     ''staging'', ''dev'', ''cdn'', ''static'', ''public'', ''assets'', ''login'', ''register'', ''super-admin'', ''superadmin'']"

definition portal_roots :: "string list" where
  "portal_roots = [''dev.myschoolbud.com'', ''myschoolbud.com'']"

definition sort_roots :: "string list \<Rightarrow> string list" where
  "sort_roots roots =
     sort_key (\<lambda>r. - int (length r)) (uniq (filter (\<lambda>r. r \<noteq> []) (map (\<lambda>r. to_lower (trim r)) roots)))"

datatype slug_reason = SLUG_TAKEN | SLUG_RESERVED | SLUG_INVALID

definition is_slug_letter :: "char \<Rightarrow> bool" where
  "is_slug_letter c = (is_lower_char c \<or> is_digit_char c)"

definition is_slug_char :: "char \<Rightarrow> bool" where
  "is_slug_char c = (is_slug_letter c \<or> c = CHR ''-'')"

text \<open>\<open>replace(/[^a-z0-9]+/g, '-')\<close>.\<close>

function dash_runs :: "string \<Rightarrow> string" where
  "dash_runs [] = []"
| "dash_runs (c # s) =
     (if is_slug_letter c then c # dash_runs s
      else CHR ''-'' # dash_runs (dropWhile (\<lambda>d. \<not> is_slug_letter d) s))"
  by pat_completeness auto
termination
  by (relation "measure length") (auto simp: le_imp_less_Suc length_dropWhile_le)

definition strip_dashes :: "string \<Rightarrow> string" where
  "strip_dashes s = rev (dropWhile (\<lambda>c. c = CHR ''-'') (rev (dropWhile (\<lambda>c. c = CHR ''-'') s)))"

definition normalize_slug :: "string \<Rightarrow> string" where
  "normalize_slug raw =
     take 32 (strip_dashes (dash_runs (filter (\<lambda>c. c \<noteq> char_of (39::nat)) (trim (to_lower raw)))))"

definition suggest_slug_from_name :: "string \<Rightarrow> string" where
  "suggest_slug_from_name name = normalize_slug name"

text \<open>\<open>/^[a-z0-9](?:[a-z0-9-]{1,30}[a-z0-9])$/\<close>.\<close>

definition slug_re :: "string \<Rightarrow> bool" where
  "slug_re s =
     (3 \<le> length s \<and> length s \<le> 32 \<and> is_slug_letter (hd s) \<and> is_slug_letter (last s)
      \<and> list_all is_slug_char s)"

definition validate_slug_format :: "string \<Rightarrow> slug_reason option" where
  "validate_slug_format slug =
     (if slug = [] \<or> length slug < 3 \<or> 32 < length slug \<or> \<not> slug_re slug then Some SLUG_INVALID
      else if slug \<in> set reserved_slugs then Some SLUG_RESERVED
      else None)"

definition ends_with :: "string \<Rightarrow> string \<Rightarrow> bool" where
  "ends_with s p = (length p \<le> length s \<and> drop (length s - length p) s = p)"

definition before_suffix :: "string \<Rightarrow> string \<Rightarrow> string" where
  "before_suffix s p = take (length s - length p) s"

definition host_name :: "string \<Rightarrow> string" where
  "host_name host = to_lower (takeWhile (\<lambda>c. c \<noteq> CHR '':'') host)"

fun sub_of_roots :: "string \<Rightarrow> string list \<Rightarrow> string option" where
  "sub_of_roots h [] = None"
| "sub_of_roots h (r # roots) =
     (if h = r \<or> h = ''www.'' @ r then None
      else if ends_with h (''.'' @ r) then
        (let sub = before_suffix h (''.'' @ r)
         in if sub \<noteq> [] \<and> CHR ''.'' \<notin> set sub \<and> sub \<notin> set reserved_slugs then Some sub else None)
      else sub_of_roots h roots)"

definition extract_subdomain :: "string \<Rightarrow> string list \<Rightarrow> string option" where
  "extract_subdomain host roots =
     (let h = host_name host
      in if h = ''localhost'' \<or> h = ''127.0.0.1'' then None
         else if ends_with h ''.localhost'' then
           (let sub = before_suffix h ''.localhost''
            in if sub \<noteq> [] \<and> CHR ''.'' \<notin> set sub then Some sub else None)
         else sub_of_roots h (sort_roots roots))"

definition is_apex_host :: "string \<Rightarrow> string list \<Rightarrow> bool" where
  "is_apex_host host roots =
     (let h = host_name host
      in h = ''localhost'' \<or> h = ''127.0.0.1''
         \<or> list_ex (\<lambda>r. h = r \<or> h = ''www.'' @ r) (sort_roots roots))"

section \<open>State\<close>

record branding_row =
  br_accent :: "string option"
  br_favicon :: "string option"
  br_tagline :: "string option"
  br_hide_mark :: bool

record portal_school =
  ps_id :: ident
  ps_name :: string
  ps_logo :: "string option"
  ps_active :: bool
  ps_registration :: registration
  ps_slug :: "string option"
  ps_locked_at :: "date option"
  ps_hold_until :: "date option"
  ps_domain :: "string option"
  ps_domain_status :: "string option"
  ps_branding :: "branding_row option"

record slug_redirect =
  rd_from :: string
  rd_school :: ident

record portal_db =
  pd_schools :: "portal_school list"
  pd_redirects :: "slug_redirect list"

record branding_dto =
  bd_school :: ident
  bd_name :: string
  bd_slug :: string
  bd_logo :: "string option"
  bd_accent :: "string option"
  bd_favicon :: "string option"
  bd_tagline :: "string option"
  bd_hide_mark :: bool
  bd_domain :: "string option"
  bd_url :: string

record slug_availability =
  sa_available :: bool
  sa_slug :: string
  sa_reason :: "slug_reason option"

definition SLUG_HOLD_MS :: int where
  "SLUG_HOLD_MS = 30 * 24 * 60 * 60 * 1000"

definition portal_school_of :: "ident \<Rightarrow> portal_db \<Rightarrow> portal_school option" where
  "portal_school_of i db = find (\<lambda>s. ps_id s = i) (pd_schools db)"

definition school_with_slug :: "string \<Rightarrow> portal_db \<Rightarrow> portal_school option" where
  "school_with_slug slug db = find (\<lambda>s. ps_slug s = Some slug) (pd_schools db)"

definition redirect_from :: "string \<Rightarrow> portal_db \<Rightarrow> slug_redirect option" where
  "redirect_from slug db = find (\<lambda>r. rd_from r = slug) (pd_redirects db)"

definition update_portal :: "ident \<Rightarrow> (portal_school \<Rightarrow> portal_school) \<Rightarrow> (portal_db, unit) op" where
  "update_portal i f =
     op_then (op_guard (\<lambda>db. [(portal_school_of i db = None, JsError ''Record to update not found'')]))
       (op_modify (\<lambda>db. db\<lparr>pd_schools := update_first (\<lambda>s. ps_id s = i) f (pd_schools db)\<rparr>))"

section \<open>Addresses\<close>

fun split_on :: "char \<Rightarrow> string \<Rightarrow> string list" where
  "split_on d [] = [[]]"
| "split_on d (c # s) =
     (if c = d then [] # split_on d s
      else (case split_on d s of [] \<Rightarrow> [[c]] | w # ws \<Rightarrow> (c # w) # ws))"

definition root_domains :: "env \<Rightarrow> string list" where
  "root_domains env =
     sort_roots (portal_roots @
       filter (\<lambda>r. r \<noteq> []) (map (\<lambda>r. to_lower (trim r)) (split_on CHR '','' (nullish (env ''PORTAL_ROOT_DOMAINS'') []))))"

definition strip_slashes :: "string \<Rightarrow> string" where
  "strip_slashes s = rev (dropWhile (\<lambda>c. c = CHR ''/'') (rev s))"

definition apex_frontend_url :: "env \<Rightarrow> string" where
  "apex_frontend_url env =
     (if truthy (env ''FRONTEND_URL'') then strip_slashes (nullish (env ''FRONTEND_URL'') [])
      else if env ''NODE_ENV'' = Some ''production'' then ''https://myschoolbud.com''
      else ''http://localhost:3000'')"

record url_parts =
  url_protocol :: string
  url_host :: string
  url_port :: string

text \<open>
  \<open>new URL(s)\<close>: protocol, host name in lower case and port, empty for the default port of the
  protocol; None where it throws.
\<close>

definition parse_authority :: "string \<Rightarrow> nat \<Rightarrow> string \<Rightarrow> url_parts option" where
  "parse_authority protocol default_port rest =
     (let authority = takeWhile (\<lambda>c. c \<notin> {CHR ''/'', CHR ''?'', CHR ''#''}) rest;
          h = takeWhile (\<lambda>c. c \<noteq> CHR '':'') authority;
          p = drop 1 (dropWhile (\<lambda>c. c \<noteq> CHR '':'') authority);
          n = digits_value 0 p
      in if h = [] \<or> \<not> list_all is_digit_char p \<or> 65535 < n then None
         else Some \<lparr>url_protocol = protocol, url_host = to_lower h,
           url_port = (if p = [] \<or> n = default_port then [] else show_nat n)\<rparr>)"

definition parse_url :: "string \<Rightarrow> url_parts option" where
  "parse_url s =
     (if starts_with s ''https://'' then parse_authority ''https:'' 443 (drop 8 s)
      else if starts_with s ''http://'' then parse_authority ''http:'' 80 (drop 7 s)
      else None)"

definition drop_www :: "string \<Rightarrow> string" where
  "drop_www h = (if starts_with h ''www.'' then drop 4 h else h)"

definition portal_host_url :: "url_parts \<Rightarrow> string \<Rightarrow> string" where
  "portal_host_url url slug =
     (if url_host url = ''localhost'' \<or> url_host url = ''127.0.0.1'' \<or> ends_with (url_host url) ''.localhost'' then
        url_protocol url @ ''//'' @ slug @ ''.localhost'' @ (if url_port url = [] then [] else '':'' @ url_port url)
      else url_protocol url @ ''//'' @ slug @ ''.'' @ drop_www (url_host url))"

definition build_portal_url :: "env \<Rightarrow> portal_school \<Rightarrow> string" where
  "build_portal_url env s =
     (if truthy (ps_domain s) \<and> ps_domain_status s = Some ''ACTIVE'' then
        ''https://'' @ strip_slashes (nullish (ps_domain s) [])
      else if \<not> truthy (ps_slug s) then apex_frontend_url env
      else (case parse_url (apex_frontend_url env) of
              None \<Rightarrow> apex_frontend_url env
            | Some url \<Rightarrow> portal_host_url url (nullish (ps_slug s) [])))"

definition school_frontend_url :: "env \<Rightarrow> ident option \<Rightarrow> portal_db \<Rightarrow> string" where
  "school_frontend_url env school db =
     (if \<not> truthy school then apex_frontend_url env
      else (case portal_school_of (nullish school []) db of
              None \<Rightarrow> apex_frontend_url env
            | Some s \<Rightarrow> build_portal_url env s))"

section \<open>Reserving an address\<close>

definition hold_expired :: "date \<Rightarrow> string \<Rightarrow> portal_school \<Rightarrow> bool" where
  "hold_expired now slug s =
     (ps_slug s = Some slug \<and> ps_registration s = REG_REJECTED
      \<and> (case ps_hold_until s of None \<Rightarrow> False | Some h \<Rightarrow> h < now))"

definition release_expired_holds :: "date \<Rightarrow> string \<Rightarrow> portal_db \<Rightarrow> portal_db" where
  "release_expired_holds now slug db =
     db\<lparr>pd_schools := update_where (hold_expired now slug) (\<lambda>s. s\<lparr>ps_slug := None, ps_hold_until := None\<rparr>) (pd_schools db)\<rparr>"

definition slug_status :: "string \<Rightarrow> ident option \<Rightarrow> portal_db \<Rightarrow> slug_availability" where
  "slug_status slug except db =
     (if (case school_with_slug slug db of None \<Rightarrow> False | Some s \<Rightarrow> Some (ps_id s) \<noteq> except) then
        \<lparr>sa_available = False, sa_slug = slug, sa_reason = Some SLUG_TAKEN\<rparr>
      else if (case redirect_from slug db of None \<Rightarrow> False | Some r \<Rightarrow> Some (rd_school r) \<noteq> except) then
        \<lparr>sa_available = False, sa_slug = slug, sa_reason = Some SLUG_RESERVED\<rparr>
      else \<lparr>sa_available = True, sa_slug = slug, sa_reason = None\<rparr>)"

definition check_slug_available :: "date \<Rightarrow> string \<Rightarrow> ident option \<Rightarrow> (portal_db, slug_availability) op" where
  "check_slug_available now raw except =
     (let slug = normalize_slug raw
      in case validate_slug_format slug of
           Some reason \<Rightarrow> op_ret \<lparr>sa_available = False, sa_slug = slug, sa_reason = Some reason\<rparr>
         | None \<Rightarrow>
             op_then (op_modify (release_expired_holds now slug)) (op_get (slug_status slug except)))"

definition reserve_slug :: "date \<Rightarrow> string \<Rightarrow> ident option \<Rightarrow> (portal_db, string) op" where
  "reserve_slug now raw except =
     op_bind (check_slug_available now raw except) (\<lambda>check.
       if \<not> sa_available check then
         (if sa_reason check \<in> {Some SLUG_INVALID, Some SLUG_RESERVED} then
            op_throw (BadRequest ''This portal address is not available.'')
          else op_throw (Conflict ''This portal address is already taken.''))
       else op_ret (sa_slug check))"

text \<open>\<open>replace(/-+/g, '-').replace(/-$/, '')\<close>.\<close>

fun collapse_dashes :: "string \<Rightarrow> string" where
  "collapse_dashes [] = []"
| "collapse_dashes [c] = [c]"
| "collapse_dashes (c # d # s) =
     (if c = CHR ''-'' \<and> d = CHR ''-'' then collapse_dashes (d # s) else c # collapse_dashes (d # s))"

definition drop_last_dash :: "string \<Rightarrow> string" where
  "drop_last_dash s = (if s \<noteq> [] \<and> last s = CHR ''-'' then butlast s else s)"

definition numbered_slug :: "string \<Rightarrow> nat \<Rightarrow> string" where
  "numbered_slug candidate i = drop_last_dash (collapse_dashes (take 28 candidate @ ''-'' @ show_nat i))"

fun try_numbers :: "date \<Rightarrow> string \<Rightarrow> ident option \<Rightarrow> nat list \<Rightarrow> (portal_db, string) op" where
  "try_numbers now candidate except [] =
     op_throw (Conflict ''Could not allocate a unique portal address. Please choose one.'')"
| "try_numbers now candidate except (i # is) =
     op_bind (check_slug_available now (numbered_slug candidate i) except) (\<lambda>check.
       if sa_available check then op_ret (sa_slug check) else try_numbers now candidate except is)"

definition slug_candidate :: "string \<Rightarrow> string" where
  "slug_candidate name =
     (let suggested = suggest_slug_from_name name; base = (if suggested = [] then ''school'' else suggested)
      in if validate_slug_format base \<noteq> None then take 32 (base @ ''-school'') else base)"

definition assign_slug_from_name :: "date \<Rightarrow> string \<Rightarrow> ident option \<Rightarrow> (portal_db, string) op" where
  "assign_slug_from_name now name except =
     op_bind (check_slug_available now (slug_candidate name) except) (\<lambda>check.
       if sa_available check then op_ret (sa_slug check)
       else try_numbers now (slug_candidate name) except [2..<50])"

definition ensure_slug :: "date \<Rightarrow> ident \<Rightarrow> string option \<Rightarrow> (portal_db, string) op" where
  "ensure_slug now school preferred =
     op_bind (op_get (portal_school_of school)) (\<lambda>found.
       case found of
         None \<Rightarrow> op_throw (NotFound ''School not found'')
       | Some s \<Rightarrow>
           if truthy (ps_slug s) then op_ret (nullish (ps_slug s) [])
           else
             op_bind (if truthy preferred then reserve_slug now (nullish preferred []) (Some school)
                      else assign_slug_from_name now (ps_name s) (Some school)) (\<lambda>slug.
               op_then (update_portal school (\<lambda>s. s\<lparr>ps_slug := Some slug\<rparr>)) (op_ret slug)))"

definition lock_slug :: "date \<Rightarrow> ident \<Rightarrow> (portal_db, unit) op" where
  "lock_slug now school = update_portal school (\<lambda>s. s\<lparr>ps_locked_at := Some now, ps_hold_until := None\<rparr>)"

definition hold_slug_on_reject :: "date \<Rightarrow> ident \<Rightarrow> (portal_db, unit) op" where
  "hold_slug_on_reject now school = update_portal school (\<lambda>s. s\<lparr>ps_hold_until := Some (now + SLUG_HOLD_MS)\<rparr>)"

definition upsert_redirect :: "string \<Rightarrow> ident \<Rightarrow> portal_db \<Rightarrow> portal_db" where
  "upsert_redirect slug school db =
     db\<lparr>pd_redirects :=
       (if redirect_from slug db = None then pd_redirects db @ [\<lparr>rd_from = slug, rd_school = school\<rparr>]
        else update_first (\<lambda>r. rd_from r = slug) (\<lambda>r. r\<lparr>rd_school := school\<rparr>) (pd_redirects db))\<rparr>"

definition rename_slug :: "date \<Rightarrow> ident \<Rightarrow> string \<Rightarrow> (portal_db, string) op" where
  "rename_slug now school raw =
     op_bind (op_get (portal_school_of school)) (\<lambda>found.
       case found of
         None \<Rightarrow> op_throw (NotFound ''School not found'')
       | Some s \<Rightarrow>
           op_bind (reserve_slug now raw (Some school)) (\<lambda>next_slug.
             op_then
               (if truthy (ps_slug s) \<and> ps_slug s \<noteq> Some next_slug
                then op_modify (upsert_redirect (nullish (ps_slug s) []) school) else op_ret ())
               (op_then
                 (update_portal school (\<lambda>s. s\<lparr>ps_slug := Some next_slug, ps_locked_at := Some now, ps_hold_until := None\<rparr>))
                 (op_ret next_slug))))"

section \<open>Resolving a host\<close>

definition is_live :: "portal_school \<Rightarrow> bool" where
  "is_live s = (ps_active s \<and> ps_registration s = REG_VERIFIED)"

definition find_live_by_slug :: "string \<Rightarrow> portal_db \<Rightarrow> portal_school option" where
  "find_live_by_slug slug db = find (\<lambda>s. ps_slug s = Some slug \<and> is_live s) (pd_schools db)"

definition find_live_by_id :: "ident \<Rightarrow> portal_db \<Rightarrow> portal_school option" where
  "find_live_by_id i db = find (\<lambda>s. ps_id s = i \<and> is_live s) (pd_schools db)"

definition find_live_by_domain :: "string \<Rightarrow> portal_db \<Rightarrow> portal_school option" where
  "find_live_by_domain h db =
     find (\<lambda>s. ps_domain s = Some h \<and> ps_domain_status s = Some ''ACTIVE'' \<and> is_live s) (pd_schools db)"

definition to_branding_dto :: "env \<Rightarrow> portal_school \<Rightarrow> branding_dto" where
  "to_branding_dto env s =
     \<lparr>bd_school = ps_id s, bd_name = ps_name s, bd_slug = nullish (ps_slug s) [], bd_logo = ps_logo s,
      bd_accent = Option.bind (ps_branding s) br_accent, bd_favicon = Option.bind (ps_branding s) br_favicon,
      bd_tagline = Option.bind (ps_branding s) br_tagline,
      bd_hide_mark = (case ps_branding s of None \<Rightarrow> False | Some b \<Rightarrow> br_hide_mark b),
      bd_domain = (if ps_domain_status s = Some ''ACTIVE'' then ps_domain s else None),
      bd_url = build_portal_url env s\<rparr>"

definition clean_host :: "string \<Rightarrow> string" where
  "clean_host host = (let h = host_name host in if h \<noteq> [] \<and> last h = CHR ''.'' then butlast h else h)"

definition school_of_slug :: "string \<Rightarrow> portal_db \<Rightarrow> portal_school option" where
  "school_of_slug slug db =
     (case find_live_by_slug slug db of
        Some s \<Rightarrow> Some s
      | None \<Rightarrow>
          (case redirect_from slug db of None \<Rightarrow> None | Some r \<Rightarrow> find_live_by_id (rd_school r) db))"

definition resolve_by_host :: "env \<Rightarrow> string \<Rightarrow> portal_db \<Rightarrow> branding_dto option" where
  "resolve_by_host env host db =
     (let h = clean_host host
      in if h = [] \<or> is_apex_host h (root_domains env) then None
         else (case find_live_by_domain h db of
                 Some s \<Rightarrow>
                   if truthy (ps_slug s) then Some (to_branding_dto env s)
                   else (case extract_subdomain h (root_domains env) of
                           None \<Rightarrow> None | Some slug \<Rightarrow> map_option (to_branding_dto env) (school_of_slug slug db))
               | None \<Rightarrow>
                   (case extract_subdomain h (root_domains env) of
                      None \<Rightarrow> None | Some slug \<Rightarrow> map_option (to_branding_dto env) (school_of_slug slug db))))"

section \<open>Registration, verification and rejection\<close>

text \<open>
  \<open>registerSchool\<close>, \<open>verifySchool\<close> and \<open>rejectSchool\<close>, their columns of the address; \<open>i\<close> is the id
  the database gives the new row.
\<close>

definition new_portal_school :: "ident \<Rightarrow> string \<Rightarrow> string option \<Rightarrow> portal_school" where
  "new_portal_school i name slug =
     \<lparr>ps_id = i, ps_name = name, ps_logo = None, ps_active = False, ps_registration = REG_UNAPPROVED, ps_slug = slug,
      ps_locked_at = None, ps_hold_until = None, ps_domain = None, ps_domain_status = None, ps_branding = None\<rparr>"

definition register_portal :: "date \<Rightarrow> ident \<Rightarrow> string \<Rightarrow> string option \<Rightarrow> (portal_db, ident) op" where
  "register_portal now i name requested =
     op_bind (if truthy (map_option trim requested)
              then op_bind (reserve_slug now (nullish requested []) None) (\<lambda>slug. op_ret (Some slug))
              else op_ret None) (\<lambda>slug.
       op_then (op_modify (\<lambda>db. db\<lparr>pd_schools := pd_schools db @ [new_portal_school i name slug]\<rparr>)) (op_ret i))"

definition verify_portal :: "date \<Rightarrow> ident \<Rightarrow> (portal_db, unit) op" where
  "verify_portal now i =
     op_bind (op_get (portal_school_of i)) (\<lambda>found.
       case found of
         None \<Rightarrow> op_throw (BadRequest ''School not found'')
       | Some s \<Rightarrow>
           if ps_registration s = REG_VERIFIED then op_throw (BadRequest ''School is already verified'')
           else op_bind (ensure_slug now i None) (\<lambda>_.
             op_then (update_portal i (\<lambda>s. s\<lparr>ps_registration := REG_VERIFIED, ps_active := True\<rparr>)) (lock_slug now i)))"

definition reject_portal :: "date \<Rightarrow> ident \<Rightarrow> (portal_db, unit) op" where
  "reject_portal now i =
     op_bind (op_get (portal_school_of i)) (\<lambda>found.
       case found of
         None \<Rightarrow> op_throw (NotFound ''School not found'')
       | Some s \<Rightarrow>
           if ps_registration s = REG_VERIFIED then op_throw (BadRequest ''Cannot reject a verified school'')
           else op_then (update_portal i (\<lambda>s. s\<lparr>ps_registration := REG_REJECTED\<rparr>)) (hold_slug_on_reject now i))"

end
