(* ===== verification/PortalFacts.thy ===== *)
theory PortalFacts
  imports Portals
begin

text \<open>
  The addresses of schools: what \<open>normalizeSlug\<close> gives, that a host below a root domain is read back
  as its slug, the invariant of the table of addresses through every run of requests, and that a
  school is found under its address, also under an earlier one.
\<close>

section \<open>Slugs\<close>

lemma dash_runs_chars: "c \<in> set (dash_runs s) \<Longrightarrow> is_slug_char c"
  by (induction s rule: dash_runs.induct) (auto simp: is_slug_char_def split: if_splits)

lemma strip_dashes_subset: "set (strip_dashes s) \<subseteq> set s"
  by (auto simp: strip_dashes_def dest!: set_dropWhileD)

lemma normalize_chars: "c \<in> set (normalize_slug raw) \<Longrightarrow> is_slug_char c"
  using strip_dashes_subset dash_runs_chars by (fastforce simp: normalize_slug_def dest: in_set_takeD)

lemma normalize_length: "length (normalize_slug raw) \<le> 32"
  by (simp add: normalize_slug_def)

lemma strip_dashes_ends:
  assumes "strip_dashes s \<noteq> []"
  shows "hd (strip_dashes s) \<noteq> CHR ''-''" "last (strip_dashes s) \<noteq> CHR ''-''"
proof -
  define u where "u = dropWhile (\<lambda>c. c = CHR ''-'') s"
  define v where "v = dropWhile (\<lambda>c. c = CHR ''-'') (rev u)"
  have v: "strip_dashes s = rev v" "v \<noteq> []" using assms by (auto simp: strip_dashes_def u_def v_def)
  then show "last (strip_dashes s) \<noteq> CHR ''-''"
    using hd_dropWhile [of "\<lambda>c. c = CHR ''-''" "rev u"] by (simp add: last_rev v_def)
  have "u \<noteq> []" using v(2) by (auto simp: v_def)
  then have "hd u \<noteq> CHR ''-''" using hd_dropWhile [of "\<lambda>c. c = CHR ''-''" s] by (simp add: u_def)
  moreover obtain w where "rev u = w @ v" using takeWhile_dropWhile_id v_def by metis
  then have "u = rev v @ rev w" by (metis rev_append rev_rev_ident)
  then have "hd u = hd (rev v)" using v(2) by (simp add: hd_append)
  ultimately show "hd (strip_dashes s) \<noteq> CHR ''-''" using v(1) by simp
qed

lemma normalize_hd: "normalize_slug raw \<noteq> [] \<Longrightarrow> is_slug_letter (hd (normalize_slug raw))"
proof -
  assume ne: "normalize_slug raw \<noteq> []"
  then have "hd (normalize_slug raw) \<noteq> CHR ''-''"
    using strip_dashes_ends(1) by (auto simp: normalize_slug_def hd_take)
  then show ?thesis using normalize_chars [OF hd_in_set [OF ne]] by (simp add: is_slug_char_def)
qed

lemma normalize_last:
  assumes "normalize_slug raw \<noteq> []" "length (normalize_slug raw) < 32"
  shows "is_slug_letter (last (normalize_slug raw))"
proof -
  let ?u = "strip_dashes (dash_runs (filter (\<lambda>c. c \<noteq> char_of (39::nat)) (trim (to_lower raw))))"
  have "normalize_slug raw = ?u" using assms(2) by (simp add: normalize_slug_def)
  then have "last (normalize_slug raw) \<noteq> CHR ''-''" using strip_dashes_ends(2) assms(1) by metis
  then show ?thesis using normalize_chars [OF last_in_set [OF assms(1)]] by (simp add: is_slug_char_def)
qed

text \<open>
  What the address of a request becomes is refused exactly when it is shorter than three
  characters, a reserved word, or cut after thirty-two characters behind a dash.
\<close>

lemma normalized_valid_iff:
  "validate_slug_format (normalize_slug raw) = None \<longleftrightarrow>
     3 \<le> length (normalize_slug raw) \<and> normalize_slug raw \<notin> set reserved_slugs
     \<and> (length (normalize_slug raw) = 32 \<longrightarrow> last (normalize_slug raw) \<noteq> CHR ''-'')"
proof (cases "3 \<le> length (normalize_slug raw)")
  case True
  then have ne: "normalize_slug raw \<noteq> []" by auto
  have chars: "list_all is_slug_char (normalize_slug raw)" by (simp add: list_all_iff normalize_chars)
  have "is_slug_letter (last (normalize_slug raw)) \<longleftrightarrow>
      (length (normalize_slug raw) = 32 \<longrightarrow> last (normalize_slug raw) \<noteq> CHR ''-'')"
    using normalize_last [OF ne] normalize_length [of raw] normalize_chars [OF last_in_set [OF ne]]
    by (auto simp: is_slug_char_def is_slug_letter_def is_lower_char_def is_digit_char_def le_less)
  then show ?thesis
    using True ne normalize_hd [OF ne] normalize_length [of raw] chars
    by (auto simp: validate_slug_format_def slug_re_def split: if_splits)
qed (auto simp: validate_slug_format_def split: if_splits)

lemma valid_slug:
  assumes "validate_slug_format s = None"
  shows "s \<noteq> []" "3 \<le> length s" "\<And>c. c \<in> set s \<Longrightarrow> is_slug_char c" "s \<notin> set reserved_slugs"
  using assms by (auto simp: validate_slug_format_def slug_re_def list_all_iff split: if_splits)

lemma slug_char_plain: "is_slug_char c \<Longrightarrow> c \<noteq> CHR ''.'' \<and> c \<noteq> CHR '':'' \<and> to_lower_char c = c"
  by (auto simp: is_slug_char_def is_slug_letter_def is_lower_char_def is_digit_char_def to_lower_char_def is_upper_char_def)

lemma valid_no_dot: "validate_slug_format s = None \<Longrightarrow> CHR ''.'' \<notin> set s"
  using valid_slug(3) slug_char_plain by blast

section \<open>Roots\<close>

lemma space_lower: "is_space_char (to_lower_char c) = is_space_char c"
  by (auto simp: is_space_char_def to_lower_char_def is_upper_char_def)

lemma dropWhile_to_lower: "dropWhile is_space_char (to_lower s) = to_lower (dropWhile is_space_char s)"
  by (induction s) (auto simp: to_lower_def space_lower)

lemma trim_to_lower: "trim (to_lower s) = to_lower (trim s)"
proof -
  have "rev (to_lower u) = to_lower (rev u)" for u by (simp add: to_lower_def rev_map)
  then show ?thesis by (simp add: trim_def dropWhile_to_lower)
qed

lemma dropWhile_idle: "s = [] \<or> \<not> P (hd s) \<Longrightarrow> dropWhile P s = s"
  by (cases s) auto

lemma trim_trim: "trim (trim s) = trim s"
proof -
  define u where "u = dropWhile is_space_char s"
  define v where "v = dropWhile is_space_char (rev u)"
  obtain w where w: "rev u = w @ v" using takeWhile_dropWhile_id v_def by metis
  have ends: "u = [] \<or> \<not> is_space_char (hd u)" "v = [] \<or> \<not> is_space_char (hd v)"
    using hd_dropWhile [of is_space_char] unfolding u_def v_def by blast+
  have "u = rev v @ rev w" using w by (metis rev_append rev_rev_ident)
  then have "rev v = [] \<or> \<not> is_space_char (hd (rev v))" using ends(1) by (cases "v = []") (auto simp: hd_append)
  then have "dropWhile is_space_char (rev v) = rev v" by (rule dropWhile_idle)
  then have "trim (rev v) = rev v" using ends(2) by (simp add: trim_def dropWhile_idle)
  moreover have "trim s = rev v" by (simp add: trim_def u_def v_def)
  ultimately show ?thesis by simp
qed

lemma to_lower_to_lower: "to_lower (to_lower s) = to_lower s"
  by (auto simp: to_lower_def to_lower_char_def is_upper_char_def)

lemma set_uniq [simp]: "set (uniq xs) = set xs"
  by (induction xs rule: uniq.induct) auto

lemma set_sort_roots: "set (sort_roots rs) = (\<lambda>r. to_lower (trim r)) ` set rs - {[]}"
  by (auto simp: sort_roots_def)

lemma sort_roots_desc: "sorted_wrt (\<lambda>a b. length b \<le> length a) (sort_roots rs)"
proof -
  have "sorted (map (\<lambda>r. - int (length r)) (sort_roots rs))" by (simp add: sort_roots_def)
  then show ?thesis by (simp add: sorted_wrt_map)
qed

lemma sort_roots_again: "set (sort_roots (sort_roots rs)) = set (sort_roots rs)"
proof -
  have "to_lower (trim (to_lower (trim r))) = to_lower (trim r)" for r
    by (simp add: trim_to_lower trim_trim to_lower_to_lower)
  then have same: "to_lower (trim x) = x" if "x \<in> set (sort_roots rs)" for x
    using that unfolding set_sort_roots by blast
  have "[] \<notin> set (sort_roots rs)" by (simp add: set_sort_roots)
  then have "(\<lambda>r. to_lower (trim r)) ` set (sort_roots rs) - {[]} = set (sort_roots rs)"
    by (simp add: same)
  then show ?thesis by (simp add: set_sort_roots [of "sort_roots rs"])
qed

section \<open>Hosts below a root\<close>

lemma suffix_of_host:
  assumes "CHR ''.'' \<notin> set slug" "ends_with (slug @ ''.'' @ base) (''.'' @ r)" "length base \<le> length r"
  shows "r = base"
proof -
  let ?h = "slug @ ''.'' @ base"
  let ?k = "length ?h - length (''.'' @ r)"
  have tail: "drop ?k ?h = ''.'' @ r" and len: "length (''.'' @ r) \<le> length ?h"
    using assms(2) by (auto simp: ends_with_def)
  have "\<not> ?k < length slug"
  proof
    assume k: "?k < length slug"
    have "hd (drop ?k ?h) = ?h ! ?k" by (rule hd_drop_conv_nth) (use k in auto)
    then have "?h ! ?k = CHR ''.''" unfolding tail by simp
    then have "slug ! ?k = CHR ''.''" unfolding nth_append using k by simp
    moreover have "slug ! ?k \<in> set slug" using k by (rule nth_mem)
    ultimately show False using assms(1) by simp
  qed
  then have "?k = length slug" using assms(3) len by auto
  then show ?thesis using tail by simp
qed

lemma dotted_prefix: "CHR ''.'' \<notin> set s \<Longrightarrow> CHR ''.'' \<notin> set t \<Longrightarrow> s @ ''.'' @ a = t @ ''.'' @ b \<Longrightarrow> s = t"
  by (induction s arbitrary: t; case_tac t) auto

lemma sub_of_roots_found:
  assumes "validate_slug_format slug = None" "slug @ ''.'' @ base \<notin> set rs" "base \<in> set rs"
    "sorted_wrt (\<lambda>a b. length b \<le> length a) rs"
  shows "sub_of_roots (slug @ ''.'' @ base) rs = Some slug"
  using assms(2-4)
proof (induction rs)
  case (Cons r rs)
  let ?h = "slug @ ''.'' @ base"
  note nodot = valid_no_dot [OF assms(1)]
  have "slug \<noteq> ''www''" using valid_slug(4) [OF assms(1)] by (auto simp: reserved_slugs_def)
  then have "?h \<noteq> ''www.'' @ r" using dotted_prefix [OF nodot, of "''www''" base r] by auto
  moreover have "?h \<noteq> r" using Cons.prems(1) by auto
  ultimately have step: "sub_of_roots ?h (r # rs) =
      (if ends_with ?h (''.'' @ r) then
         (let sub = before_suffix ?h (''.'' @ r)
          in if sub \<noteq> [] \<and> CHR ''.'' \<notin> set sub \<and> sub \<notin> set reserved_slugs then Some sub else None)
       else sub_of_roots ?h rs)" by simp
  show ?case
  proof (cases "ends_with ?h (''.'' @ r)")
    case True
    have "length base \<le> length r" using Cons.prems(2,3) by auto
    then have "r = base" by (rule suffix_of_host [OF nodot True])
    then show ?thesis using step True nodot valid_slug(1,4) [OF assms(1)] by (simp add: before_suffix_def)
  next
    case False
    then have "r \<noteq> base" by (auto simp: ends_with_def)
    then have "base \<in> set rs" using Cons.prems(2) by simp
    then show ?thesis using step False Cons by simp
  qed
qed simp

text \<open>The hosts a portal is reached at: the slug below one of the built-in roots.\<close>

definition portal_host :: "string \<Rightarrow> string \<Rightarrow> string" where
  "portal_host slug base = slug @ ''.'' @ base"

lemma takeWhile_all: "(\<And>c. c \<in> set s \<Longrightarrow> P c) \<Longrightarrow> takeWhile P s = s"
  by simp

lemma portal_host_name:
  assumes "validate_slug_format slug = None" "base \<in> set portal_roots"
  shows "host_name (portal_host slug base) = portal_host slug base" "clean_host (portal_host slug base) = portal_host slug base"
proof -
  have base: "\<forall>c\<in>set base. c \<noteq> CHR '':'' \<and> to_lower_char c = c" "base \<noteq> []" "last base = CHR ''m''"
    using assms(2) by (auto simp: portal_roots_def to_lower_char_def is_upper_char_def)
  have slug: "\<And>c. c \<in> set slug \<Longrightarrow> c \<noteq> CHR '':'' \<and> to_lower_char c = c"
    using valid_slug(3) [OF assms(1)] slug_char_plain by blast
  have "to_lower_char CHR ''.'' = CHR ''.''" by (simp add: to_lower_char_def is_upper_char_def)
  then have low: "map to_lower_char (portal_host slug base) = portal_host slug base"
    using base(1) slug by (auto simp: portal_host_def intro: map_idI)
  have whole: "takeWhile (\<lambda>c. c \<noteq> CHR '':'') (portal_host slug base) = portal_host slug base"
    by (rule takeWhile_all) (use base(1) slug in \<open>auto simp: portal_host_def\<close>)
  then show h: "host_name (portal_host slug base) = portal_host slug base" by (simp only: host_name_def to_lower_def whole low)
  have "last (portal_host slug base) = CHR ''m''" using base(2,3) by (simp add: portal_host_def)
  then show "clean_host (portal_host slug base) = portal_host slug base" by (simp add: clean_host_def h)
qed

lemma portal_host_not_local:
  assumes "validate_slug_format slug = None" "base \<in> set portal_roots"
  shows "portal_host slug base \<noteq> ''localhost''" "portal_host slug base \<noteq> ''127.0.0.1''" "\<not> ends_with (portal_host slug base) ''.localhost''"
proof -
  have "last base = CHR ''m''" "base \<noteq> []" using assms(2) by (auto simp: portal_roots_def)
  then have l: "last (portal_host slug base) = CHR ''m''" by (simp add: portal_host_def)
  then show "portal_host slug base \<noteq> ''localhost''" "portal_host slug base \<noteq> ''127.0.0.1''" by auto
  show "\<not> ends_with (portal_host slug base) ''.localhost''"
  proof
    assume "ends_with (portal_host slug base) ''.localhost''"
    then obtain n where n: "drop n (portal_host slug base) = ''.localhost''" by (auto simp: ends_with_def)
    then have "n < length (portal_host slug base)" by (metis drop_eq_Nil list.distinct(1) not_le)
    then have "last (drop n (portal_host slug base)) = last (portal_host slug base)" by (rule last_drop)
    then show False using l unfolding n by simp
  qed
qed

lemma portal_roots_in: "base \<in> set portal_roots \<Longrightarrow> base \<in> set (root_domains env)"
proof -
  assume r: "base \<in> set portal_roots"
  have "to_lower (trim r) = r \<and> r \<noteq> []" if "r \<in> set portal_roots" for r
    using that by (auto simp: portal_roots_def to_lower_def trim_def is_space_char_def to_lower_char_def is_upper_char_def)
  then show ?thesis using r unfolding root_domains_def set_sort_roots by (metis (no_types, lifting) DiffI UnCI empty_iff image_eqI insert_iff set_append)
qed

lemma extract_portal_host:
  assumes "validate_slug_format slug = None" "base \<in> set portal_roots"
    and apex: "\<not> is_apex_host (portal_host slug base) (root_domains env)"
  shows "extract_subdomain (portal_host slug base) (root_domains env) = Some slug"
proof -
  let ?h = "portal_host slug base"
  note hn = portal_host_name(1) [OF assms(1,2)]
  note loc = portal_host_not_local [OF assms(1,2)]
  have "?h \<notin> set (sort_roots (root_domains env))" using apex by (auto simp: is_apex_host_def list_ex_iff hn Let_def)
  moreover have "base \<in> set (sort_roots (root_domains env))"
    using portal_roots_in [OF assms(2), of env] by (simp add: root_domains_def sort_roots_again)
  ultimately have "sub_of_roots ?h (sort_roots (root_domains env)) = Some slug"
    using sub_of_roots_found [OF assms(1) _ _ sort_roots_desc] by (simp add: portal_host_def)
  then show ?thesis using hn loc by (simp add: extract_subdomain_def)
qed

section \<open>The table of addresses\<close>

definition slug_ok :: "string \<Rightarrow> bool" where
  "slug_ok s = (validate_slug_format s = None)"

definition owns :: "portal_db \<Rightarrow> string \<Rightarrow> ident \<Rightarrow> bool" where
  "owns db slug i = (\<exists>s\<in>set (pd_schools db). ps_slug s = Some slug \<and> ps_id s = i)"

definition portal_ok :: "portal_db \<Rightarrow> bool" where
  "portal_ok db =
     (distinct (map ps_id (pd_schools db)) \<and> distinct (map rd_from (pd_redirects db))
      \<and> (\<forall>slug i. owns db slug i \<longrightarrow> slug_ok slug \<and> (\<forall>j. owns db slug j \<longrightarrow> i = j)
           \<and> (\<forall>r\<in>set (pd_redirects db). rd_from r = slug \<longrightarrow> rd_school r = i))
      \<and> (\<forall>r\<in>set (pd_redirects db). slug_ok (rd_from r))
      \<and> (\<forall>s\<in>set (pd_schools db). ps_registration s = REG_VERIFIED \<longrightarrow> ps_slug s \<noteq> None))"

lemma portal_okI:
  assumes "distinct (map ps_id (pd_schools db))" "distinct (map rd_from (pd_redirects db))"
    "\<And>slug i. owns db slug i \<Longrightarrow> slug_ok slug" "\<And>slug i j. owns db slug i \<Longrightarrow> owns db slug j \<Longrightarrow> i = j"
    "\<And>slug i r. owns db slug i \<Longrightarrow> r \<in> set (pd_redirects db) \<Longrightarrow> rd_from r = slug \<Longrightarrow> rd_school r = i"
    "\<And>r. r \<in> set (pd_redirects db) \<Longrightarrow> slug_ok (rd_from r)"
    "\<And>s. s \<in> set (pd_schools db) \<Longrightarrow> ps_registration s = REG_VERIFIED \<Longrightarrow> ps_slug s \<noteq> None"
  shows "portal_ok db"
  using assms unfolding portal_ok_def by blast

lemma portal_okD:
  assumes "portal_ok db"
  shows "distinct (map ps_id (pd_schools db))" "distinct (map rd_from (pd_redirects db))"
    "\<And>slug i. owns db slug i \<Longrightarrow> slug_ok slug" "\<And>slug i j. owns db slug i \<Longrightarrow> owns db slug j \<Longrightarrow> i = j"
    "\<And>slug i r. owns db slug i \<Longrightarrow> r \<in> set (pd_redirects db) \<Longrightarrow> rd_from r = slug \<Longrightarrow> rd_school r = i"
    "\<And>r. r \<in> set (pd_redirects db) \<Longrightarrow> slug_ok (rd_from r)"
    "\<And>s. s \<in> set (pd_schools db) \<Longrightarrow> ps_registration s = REG_VERIFIED \<Longrightarrow> ps_slug s \<noteq> None"
  using assms unfolding portal_ok_def by blast+

text \<open>Schools are changed one at a time; what a change may do to the slugs.\<close>

lemma update_first_id:
  assumes "distinct (map ps_id rows)" "\<And>s. ps_id (f s) = ps_id s"
  shows "x \<in> set (update_first (\<lambda>s. ps_id s = i) f rows) \<longleftrightarrow>
    (\<exists>s\<in>set rows. x = (if ps_id s = i then f s else s))"
  using assms(1)
proof (induction rows)
  case (Cons a rows)
  show ?case
  proof (cases "ps_id a = i")
    case True
    then have "\<And>s. s \<in> set rows \<Longrightarrow> ps_id s \<noteq> i" using Cons.prems by (auto simp: image_iff)
    with True show ?thesis by auto
  next
    case False
    with Cons show ?thesis by auto
  qed
qed simp

lemma ids_update_first: "(\<And>s. ps_id (f s) = ps_id s) \<Longrightarrow> map ps_id (update_first p f rows) = map ps_id rows"
  by (induction rows) auto

lemma portal_school_of_unique:
  "distinct (map ps_id (pd_schools db)) \<Longrightarrow> portal_school_of i db = Some s \<longleftrightarrow> s \<in> set (pd_schools db) \<and> ps_id s = i"
  unfolding portal_school_of_def using find_by_key [of ps_id "pd_schools db" s] find_Some_in [of "\<lambda>s. ps_id s = i" "pd_schools db" s]
  by auto

lemma owns_update:
  assumes "distinct (map ps_id (pd_schools db))" "\<And>s. ps_id (f s) = ps_id s"
  shows "owns (db\<lparr>pd_schools := update_first (\<lambda>s. ps_id s = i) f (pd_schools db)\<rparr>) sl j \<longleftrightarrow>
    (\<exists>s\<in>set (pd_schools db). ps_id s = j \<and> ps_slug (if j = i then f s else s) = Some sl)" (is "?l = ?r")
proof
  assume ?l
  then obtain x where x: "x \<in> set (update_first (\<lambda>s. ps_id s = i) f (pd_schools db))" "ps_slug x = Some sl" "ps_id x = j"
    by (auto simp: owns_def)
  then obtain s where "s \<in> set (pd_schools db)" "x = (if ps_id s = i then f s else s)"
    unfolding update_first_id [OF assms, of x i] by blast
  with x(2,3) assms(2) show ?r by (intro bexI [of _ s]) (auto split: if_splits)
next
  assume ?r
  then obtain s where s: "s \<in> set (pd_schools db)" "ps_id s = j" "ps_slug (if j = i then f s else s) = Some sl" by blast
  let ?x = "if ps_id s = i then f s else s"
  have "?x \<in> set (update_first (\<lambda>s. ps_id s = i) f (pd_schools db))"
    unfolding update_first_id [OF assms, of ?x i] using s(1) by blast
  moreover have "ps_slug ?x = Some sl" "ps_id ?x = j" using s(2,3) assms(2) by auto
  ultimately show ?l unfolding owns_def by auto
qed

text \<open>A change that keeps a school's slug, or removes it.\<close>

lemma portal_ok_shrink:
  assumes ok: "portal_ok db" and ids: "map ps_id (pd_schools db') = map ps_id (pd_schools db)"
    and same: "pd_redirects db' = pd_redirects db"
    and owns: "\<And>slug i. owns db' slug i \<Longrightarrow> owns db slug i"
    and live: "\<And>s. s \<in> set (pd_schools db') \<Longrightarrow> ps_registration s = REG_VERIFIED \<Longrightarrow> ps_slug s \<noteq> None"
  shows "portal_ok db'"
proof (rule portal_okI)
  show "distinct (map ps_id (pd_schools db'))" "distinct (map rd_from (pd_redirects db'))"
    using portal_okD(1,2) [OF ok] by (simp_all only: ids same)
  show "slug_ok slug" if "owns db' slug i" for slug i by (rule portal_okD(3) [OF ok owns [OF that]])
  show "i = j" if "owns db' slug i" "owns db' slug j" for slug i j
    by (rule portal_okD(4) [OF ok owns [OF that(1)] owns [OF that(2)]])
  show "rd_school r = i" if "owns db' slug i" "r \<in> set (pd_redirects db')" "rd_from r = slug" for slug i r
    by (rule portal_okD(5) [OF ok owns [OF that(1)] that(2) [unfolded same] that(3)])
  show "slug_ok (rd_from r)" if "r \<in> set (pd_redirects db')" for r
    by (rule portal_okD(6) [OF ok that [unfolded same]])
qed (rule live)

lemma release_ok:
  assumes ok: "portal_ok db"
  shows "portal_ok (release_expired_holds now slug db)"
proof (rule portal_ok_shrink [OF ok])
  show "map ps_id (pd_schools (release_expired_holds now slug db)) = map ps_id (pd_schools db)"
    by (simp add: release_expired_holds_def update_where_def)
  show "ps_slug s \<noteq> None"
    if "s \<in> set (pd_schools (release_expired_holds now slug db))" "ps_registration s = REG_VERIFIED" for s
    using that portal_okD(7) [OF ok]
    by (auto simp: release_expired_holds_def set_update_where hold_expired_def split: if_splits)
qed (auto simp: release_expired_holds_def owns_def set_update_where split: if_splits)

lemma update_portal_ok:
  assumes ok: "portal_ok db" and id: "\<And>s. ps_id (f s) = ps_id s" and slug: "\<And>s. ps_slug (f s) = ps_slug s"
    and live: "\<And>s. s \<in> set (pd_schools db) \<Longrightarrow> ps_id s = i \<Longrightarrow> ps_registration (f s) = REG_VERIFIED \<Longrightarrow> ps_slug s \<noteq> None"
  shows "portal_ok (db\<lparr>pd_schools := update_first (\<lambda>s. ps_id s = i) f (pd_schools db)\<rparr>)"
proof (rule portal_ok_shrink [OF ok])
  note mem = update_first_id [OF portal_okD(1) [OF ok] id, of _ i]
  show "owns db sl j" if "owns (db\<lparr>pd_schools := update_first (\<lambda>s. ps_id s = i) f (pd_schools db)\<rparr>) sl j" for sl j
    using that slug unfolding owns_update [OF portal_okD(1) [OF ok] id] by (auto simp: owns_def split: if_splits)
  show "ps_slug s \<noteq> None"
    if "s \<in> set (pd_schools (db\<lparr>pd_schools := update_first (\<lambda>s. ps_id s = i) f (pd_schools db)\<rparr>))" "ps_registration s = REG_VERIFIED" for s
    using that live portal_okD(7) [OF ok] slug by (auto simp: mem split: if_splits)
qed (simp_all add: ids_update_first id)

text \<open>Giving a school a slug that nobody else owns and no redirect of another school has.\<close>

lemma new_slug_ok:
  assumes ok: "portal_ok db" and id: "\<And>s. ps_id (f s) = ps_id s" and slug: "\<And>s. ps_slug (f s) = Some new"
    and valid: "slug_ok new" and free: "\<And>j. owns db new j \<Longrightarrow> j = i"
    and redirects: "\<And>r. r \<in> set (pd_redirects db) \<Longrightarrow> rd_from r = new \<Longrightarrow> rd_school r = i"
  shows "portal_ok (db\<lparr>pd_schools := update_first (\<lambda>s. ps_id s = i) f (pd_schools db)\<rparr>)" (is "portal_ok ?db'")
proof (rule portal_okI)
  note mem = update_first_id [OF portal_okD(1) [OF ok] id, of _ i]
  have owns: "owns ?db' sl j \<Longrightarrow> (sl = new \<and> j = i) \<or> (j \<noteq> i \<and> owns db sl j)" for sl j
    using slug unfolding owns_update [OF portal_okD(1) [OF ok] id] by (auto simp: owns_def split: if_splits)
  show "slug_ok sl" if "owns ?db' sl j" for sl j
    using owns [OF that] valid portal_okD(3) [OF ok] by blast
  show "j = k" if "owns ?db' sl j" "owns ?db' sl k" for sl j k
    using owns [OF that(1)] owns [OF that(2)] free portal_okD(4) [OF ok] by blast
  show "rd_school r = j" if "owns ?db' sl j" "r \<in> set (pd_redirects ?db')" "rd_from r = sl" for sl j r
    using owns [OF that(1)] that(2,3) redirects portal_okD(5) [OF ok] by auto
  show "ps_slug s \<noteq> None" if "s \<in> set (pd_schools ?db')" "ps_registration s = REG_VERIFIED" for s
    using that slug portal_okD(7) [OF ok] by (auto simp: mem split: if_splits)
qed (use portal_okD [OF ok] in \<open>simp_all add: ids_update_first id\<close>)

section \<open>Operations keep the table\<close>

lemma op_keeps_update_portal:
  assumes "\<And>s. ps_id (f s) = ps_id s" "\<And>s. ps_slug (f s) = ps_slug s" "\<And>s. ps_registration (f s) = ps_registration s"
  shows "op_keeps portal_ok (update_portal i f)"
  unfolding update_portal_def
  by (intro op_keeps_intros op_keeps_modify update_portal_ok) (use assms portal_okD(7) in auto)

lemma check_keeps [op_keeps_intros]: "op_keeps portal_ok (check_slug_available now raw except)"
  unfolding check_slug_available_def Let_def
  by (intro op_keeps_intros op_keeps_modify release_ok) auto

lemma reserve_keeps [op_keeps_intros]: "op_keeps portal_ok (reserve_slug now raw except)"
  unfolding reserve_slug_def by (intro op_keeps_intros)

lemma try_numbers_keeps [op_keeps_intros]: "op_keeps portal_ok (try_numbers now candidate except is)"
proof (induction "is")
  case Nil
  show ?case unfolding try_numbers.simps by (intro op_keeps_intros)
next
  case (Cons i "is")
  show ?case unfolding try_numbers.simps by (intro op_keeps_intros Cons.IH)
qed

lemma assign_portal_keeps [op_keeps_intros]: "op_keeps portal_ok (assign_slug_from_name now name except)"
  unfolding assign_slug_from_name_def by (intro op_keeps_intros)

lemma lock_keeps [op_keeps_intros]: "op_keeps portal_ok (lock_slug now i)"
  unfolding lock_slug_def by (rule op_keeps_update_portal) auto

lemma hold_keeps [op_keeps_intros]: "op_keeps portal_ok (hold_slug_on_reject now i)"
  unfolding hold_slug_on_reject_def by (rule op_keeps_update_portal) auto

text \<open>A slug that a check reported free for a school.\<close>

definition free_for :: "string \<Rightarrow> ident option \<Rightarrow> portal_db \<Rightarrow> bool" where
  "free_for slug except db =
     (slug_ok slug \<and> (\<forall>j. owns db slug j \<longrightarrow> Some j = except)
      \<and> (\<forall>r\<in>set (pd_redirects db). rd_from r = slug \<longrightarrow> Some (rd_school r) = except))"

lemma slug_status_free:
  assumes ok: "portal_ok db" and avail: "sa_available (slug_status slug except db)" and valid: "slug_ok slug"
  shows "free_for slug except db"
proof -
  have "Some j = except" if owner: "owns db slug j" for j
  proof -
    obtain s where s: "s \<in> set (pd_schools db)" "ps_slug s = Some slug" "ps_id s = j" using owner by (auto simp: owns_def)
    then obtain t where t: "school_with_slug slug db = Some t"
      unfolding school_with_slug_def by (cases "find (\<lambda>s. ps_slug s = Some slug) (pd_schools db)") (auto simp: find_None_all)
    then have "owns db slug (ps_id t)" unfolding school_with_slug_def owns_def by (auto dest: find_Some_in)
    then have "ps_id t = j" using portal_okD(4) [OF ok _ owner] by blast
    then show ?thesis using avail t by (auto simp: slug_status_def split: if_splits)
  qed
  moreover have "Some (rd_school r) = except" if "r \<in> set (pd_redirects db)" "rd_from r = slug" for r
  proof -
    have "redirect_from slug db = Some r"
      unfolding redirect_from_def using find_by_key [OF portal_okD(2) [OF ok] that(1)] that(2) by simp
    then show ?thesis using avail by (auto simp: slug_status_def split: if_splits option.splits)
  qed
  ultimately show ?thesis using valid by (auto simp: free_for_def)
qed

lemma check_free:
  assumes "portal_ok db" "check_slug_available now raw except db = (Inr check, db')" "sa_available check"
  shows "free_for (sa_slug check) except db'" "db' = release_expired_holds now (sa_slug check) db"
proof -
  have valid: "validate_slug_format (normalize_slug raw) = None"
    using assms(2,3) by (auto simp: check_slug_available_def Let_def split: option.splits)
  then have run: "check = slug_status (normalize_slug raw) except db'" "db' = release_expired_holds now (normalize_slug raw) db"
    using assms(2) by (auto simp: check_slug_available_def Let_def op_then_Inr)
  have "sa_slug (slug_status slug except db) = slug" for slug db by (simp add: slug_status_def)
  then show "free_for (sa_slug check) except db'" "db' = release_expired_holds now (sa_slug check) db"
    using slug_status_free [OF release_ok [OF assms(1)]] assms(3) valid run by (simp_all add: slug_ok_def)
qed

lemma reserve_free:
  assumes "portal_ok db" "reserve_slug now raw except db = (Inr slug, db')"
  shows "free_for slug except db'" "db' = release_expired_holds now slug db"
proof -
  obtain check where c: "check_slug_available now raw except db = (Inr check, db')" "sa_available check" "slug = sa_slug check"
    using assms(2) by (auto simp: reserve_slug_def op_bind_Inr split: if_splits)
  show "free_for slug except db'" "db' = release_expired_holds now slug db"
    using check_free [OF assms(1) c(1,2)] c(3) by simp_all
qed

lemma try_numbers_free:
  "portal_ok db \<Longrightarrow> try_numbers now candidate except is db = (Inr slug, db') \<Longrightarrow> free_for slug except db'"
proof (induction "is" arbitrary: db)
  case (Cons i "is")
  obtain check d where c: "check_slug_available now (numbered_slug candidate i) except db = (Inr check, d)"
    "(if sa_available check then op_ret (sa_slug check) else try_numbers now candidate except is) d = (Inr slug, db')"
    using Cons.prems(2) by (auto simp: op_bind_Inr)
  have "portal_ok d" using op_keeps_result [OF check_keeps Cons.prems(1) c(1)] .
  then show ?case using c Cons.IH check_free(1) [OF Cons.prems(1) c(1)] by (auto split: if_splits)
qed simp

lemma assign_free:
  assumes "portal_ok db" "assign_slug_from_name now name except db = (Inr slug, db')"
  shows "free_for slug except db'"
proof -
  define numbers :: "nat list" where "numbers = [2..<50]"
  obtain check d where c: "check_slug_available now (slug_candidate name) except db = (Inr check, d)"
    "(if sa_available check then op_ret (sa_slug check) else try_numbers now (slug_candidate name) except numbers) d = (Inr slug, db')"
    using assms(2) unfolding assign_slug_from_name_def op_bind_Inr numbers_def [symmetric] by blast
  have "portal_ok d" using op_keeps_result [OF check_keeps assms(1) c(1)] .
  then show ?thesis using c try_numbers_free check_free(1) [OF assms(1) c(1)] by (auto split: if_splits)
qed

lemma update_portal_Inr:
  "update_portal i f db = (Inr u, db') \<longleftrightarrow>
     portal_school_of i db \<noteq> None \<and> db' = db\<lparr>pd_schools := update_first (\<lambda>s. ps_id s = i) f (pd_schools db)\<rparr>"
  by (auto simp: update_portal_def op_then_Inr op_guard_Inr)

text \<open>The slug a school is given by an operation keeps the table.\<close>

lemma give_slug_ok:
  assumes "portal_ok db" "free_for slug (Some i) db" "\<And>s. ps_id (f s) = ps_id s" "\<And>s. ps_slug (f s) = Some slug"
  shows "portal_ok (snd (update_portal i f db))"
proof (cases "portal_school_of i db")
  case (Some s)
  then have "update_portal i f db = (Inr (), db\<lparr>pd_schools := update_first (\<lambda>s. ps_id s = i) f (pd_schools db)\<rparr>)"
    by (simp add: update_portal_Inr)
  then show ?thesis using new_slug_ok [OF assms(1,3,4)] assms(2) by (auto simp: free_for_def)
qed (use assms(1) in \<open>simp add: update_portal_def op_then_def op_guard_def op_bind_def\<close>)

definition chosen_slug :: "date \<Rightarrow> string option \<Rightarrow> portal_school \<Rightarrow> ident \<Rightarrow> (portal_db, string) op" where
  "chosen_slug now preferred s i =
     (if truthy preferred then reserve_slug now (nullish preferred []) (Some i)
      else assign_slug_from_name now (ps_name s) (Some i))"

lemma chosen_slug_ok:
  assumes "portal_ok db" "chosen_slug now preferred s i db = (r, db')"
  shows "portal_ok db'" "r = Inr slug \<Longrightarrow> free_for slug (Some i) db'"
proof -
  have keeps: "op_keeps portal_ok (chosen_slug now preferred s i)"
    unfolding chosen_slug_def by (intro op_keeps_intros)
  show "portal_ok db'" using op_keepsD [OF keeps assms(1)] assms(2) by simp
  show "r = Inr slug \<Longrightarrow> free_for slug (Some i) db'"
    using assms reserve_free(1) assign_free by (auto simp: chosen_slug_def split: if_splits)
qed

lemma ensure_keeps [op_keeps_intros]: "op_keeps portal_ok (ensure_slug now i preferred)"
proof (unfold op_keeps_def, intro allI impI)
  fix db
  assume ok: "portal_ok db"
  show "portal_ok (snd (ensure_slug now i preferred db))"
  proof (cases "portal_school_of i db")
    case (Some s)
    show ?thesis
    proof (cases "truthy (ps_slug s)")
      case False
      obtain r d where run: "chosen_slug now preferred s i db = (r, d)" by fastforce
      have eq: "ensure_slug now i preferred db =
          op_bind (chosen_slug now preferred s i) (\<lambda>slug. op_then (update_portal i (\<lambda>s. s\<lparr>ps_slug := Some slug\<rparr>)) (op_ret slug)) db"
        using Some False by (simp add: ensure_slug_def chosen_slug_def)
      show ?thesis
      proof (cases r)
        case (Inl e)
        then show ?thesis using eq run chosen_slug_ok(1) [OF ok run] by (simp add: op_bind_def)
      next
        case (Inr slug)
        have "portal_ok (snd (update_portal i (\<lambda>s. s\<lparr>ps_slug := Some slug\<rparr>) d))"
          using give_slug_ok [OF chosen_slug_ok(1) [OF ok run] chosen_slug_ok(2) [OF ok run Inr]] by simp
        moreover have "snd (ensure_slug now i preferred db) = snd (update_portal i (\<lambda>s. s\<lparr>ps_slug := Some slug\<rparr>) d)"
          using eq run Inr by (simp add: op_bind_def op_then_def op_ret_def split: prod.splits sum.splits)
        ultimately show ?thesis by simp
      qed
    qed (use Some ok in \<open>simp add: ensure_slug_def\<close>)
  qed (use ok in \<open>simp add: ensure_slug_def\<close>)
qed

lemma verified_has_slug: "portal_ok db \<Longrightarrow> portal_school_of i db = Some s \<Longrightarrow> ps_registration s = REG_VERIFIED \<Longrightarrow> ps_slug s \<noteq> None"
  using portal_okD(7) find_Some_in by (fastforce simp: portal_school_of_def)

lemma upsert_redirect_ok:
  assumes ok: "portal_ok db" and own: "owns db slug i"
  shows "portal_ok (upsert_redirect slug i db)"
proof (rule portal_okI)
  have schools: "pd_schools (upsert_redirect slug i db) = pd_schools db" by (simp add: upsert_redirect_def)
  then have owns: "owns (upsert_redirect slug i db) sl j = owns db sl j" for sl j by (simp add: owns_def)
  have mem: "r \<in> set (pd_redirects (upsert_redirect slug i db)) \<Longrightarrow> rd_from r = slug \<and> rd_school r = i \<or> r \<in> set (pd_redirects db)" for r
    by (auto simp: upsert_redirect_def redirect_from_def split: if_splits dest!: set_update_firstD)
  show "distinct (map ps_id (pd_schools (upsert_redirect slug i db)))" using portal_okD(1) [OF ok] schools by simp
  have "map rd_from (update_first (\<lambda>r. rd_from r = slug) (\<lambda>r. r\<lparr>rd_school := i\<rparr>) rows) = map rd_from rows" for rows
    by (induction rows) auto
  then have "map rd_from (update_first (\<lambda>r. rd_from r = slug) (\<lambda>r. r\<lparr>rd_school := i\<rparr>) (pd_redirects db)) = map rd_from (pd_redirects db)" .
  then show "distinct (map rd_from (pd_redirects (upsert_redirect slug i db)))"
    using portal_okD(2) [OF ok] by (auto simp: upsert_redirect_def redirect_from_def find_None_all image_iff simp del: map_update_first_frame)
  show "slug_ok sl" if "owns (upsert_redirect slug i db) sl j" for sl j using that portal_okD(3) [OF ok] owns by blast
  show "j = k" if "owns (upsert_redirect slug i db) sl j" "owns (upsert_redirect slug i db) sl k" for sl j k
    using that portal_okD(4) [OF ok] owns by blast
  show "rd_school r = j"
    if "owns (upsert_redirect slug i db) sl j" "r \<in> set (pd_redirects (upsert_redirect slug i db))" "rd_from r = sl" for sl j r
    using mem [OF that(2)] that(1,3) owns portal_okD(4) [OF ok own] portal_okD(5) [OF ok] by auto
  show "slug_ok (rd_from r)" if "r \<in> set (pd_redirects (upsert_redirect slug i db))" for r
    using mem [OF that] portal_okD(3) [OF ok own] portal_okD(6) [OF ok] by auto
  show "ps_slug s \<noteq> None" if "s \<in> set (pd_schools (upsert_redirect slug i db))" "ps_registration s = REG_VERIFIED" for s
    using that portal_okD(7) [OF ok] schools by auto
qed

section \<open>Renaming\<close>

lemma rename_Inr:
  assumes "rename_slug now i raw db = (Inr new, db')"
  obtains s d where "portal_school_of i db = Some s" "reserve_slug now raw (Some i) db = (Inr new, d)"
    "db' = (let d1 = (if truthy (ps_slug s) \<and> ps_slug s \<noteq> Some new then upsert_redirect (nullish (ps_slug s) []) i d else d)
            in d1\<lparr>pd_schools := update_first (\<lambda>s. ps_id s = i)
                 (\<lambda>s. s\<lparr>ps_slug := Some new, ps_locked_at := Some now, ps_hold_until := None\<rparr>) (pd_schools d1)\<rparr>)"
  using assms unfolding rename_slug_def
  by (auto simp: op_bind_Inr op_then_Inr update_portal_Inr Let_def split: option.splits if_splits)

lemma release_owns:
  "portal_school_of i db = Some s \<Longrightarrow> ps_registration s = REG_VERIFIED \<or> ps_slug s \<noteq> Some slug \<Longrightarrow>
   distinct (map ps_id (pd_schools db)) \<Longrightarrow> portal_school_of i (release_expired_holds now slug db) = Some s"
proof -
  assume s: "portal_school_of i db = Some s" "ps_registration s = REG_VERIFIED \<or> ps_slug s \<noteq> Some slug"
    and d: "distinct (map ps_id (pd_schools db))"
  have "map ps_id (pd_schools (release_expired_holds now slug db)) = map ps_id (pd_schools db)"
    by (simp add: release_expired_holds_def update_where_def)
  moreover have "s \<in> set (pd_schools (release_expired_holds now slug db))"
    using s find_Some_in unfolding portal_school_of_def
    by (fastforce simp: release_expired_holds_def set_update_where hold_expired_def image_iff)
  moreover have "ps_id s = i" using s(1) unfolding portal_school_of_def by (auto dest: find_Some_in)
  ultimately show ?thesis using portal_school_of_unique d by metis
qed

lemma rename_keeps_ok:
  assumes ok: "portal_ok db" and run: "rename_slug now i raw db = (Inr new, db')"
  shows "portal_ok db'"
proof -
  obtain s d where s: "portal_school_of i db = Some s" and res: "reserve_slug now raw (Some i) db = (Inr new, d)"
    and db': "db' = (let d1 = (if truthy (ps_slug s) \<and> ps_slug s \<noteq> Some new then upsert_redirect (nullish (ps_slug s) []) i d else d)
            in d1\<lparr>pd_schools := update_first (\<lambda>s. ps_id s = i)
                 (\<lambda>s. s\<lparr>ps_slug := Some new, ps_locked_at := Some now, ps_hold_until := None\<rparr>) (pd_schools d1)\<rparr>)"
    by (rule rename_Inr [OF run])
  note free = reserve_free [OF ok res]
  have okd: "portal_ok d" using release_ok [OF ok] free(2) by simp
  define d1 where "d1 = (if truthy (ps_slug s) \<and> ps_slug s \<noteq> Some new then upsert_redirect (nullish (ps_slug s) []) i d else d)"
  have d1: "portal_ok d1 \<and> free_for new (Some i) d1"
  proof (cases "truthy (ps_slug s) \<and> ps_slug s \<noteq> Some new")
    case True
    then obtain old where old: "ps_slug s = Some old" "old \<noteq> new" by (cases "ps_slug s") auto
    have "portal_school_of i d = Some s"
      using release_owns [OF s _ portal_okD(1) [OF ok]] old free(2) by simp
    then have own: "owns d old i" using old(1) unfolding owns_def portal_school_of_def by (auto dest: find_Some_in)
    have "free_for new (Some i) (upsert_redirect old i d)"
      using free(1) unfolding free_for_def owns_def
      by (auto simp: upsert_redirect_def split: if_splits dest!: set_update_firstD)
    then show ?thesis using upsert_redirect_ok [OF okd own] True old(1) by (simp add: d1_def)
  qed (use okd free(1) in \<open>auto simp: d1_def\<close>)
  have "db' = d1\<lparr>pd_schools := update_first (\<lambda>s. ps_id s = i)
                 (\<lambda>s. s\<lparr>ps_slug := Some new, ps_locked_at := Some now, ps_hold_until := None\<rparr>) (pd_schools d1)\<rparr>"
    using db' by (simp add: d1_def Let_def)
  then show ?thesis
    using new_slug_ok [OF conjunct1 [OF d1], of "\<lambda>s. s\<lparr>ps_slug := Some new, ps_locked_at := Some now, ps_hold_until := None\<rparr>" new i]
      conjunct2 [OF d1] by (auto simp: free_for_def)
qed

lemma portal_school_of_updated:
  "portal_school_of i db = Some s \<Longrightarrow> (\<And>s. ps_id (f s) = ps_id s) \<Longrightarrow>
   portal_school_of i (db\<lparr>pd_schools := update_first (\<lambda>s. ps_id s = i) f (pd_schools db)\<rparr>) = Some (f s)"
proof -
  assume "portal_school_of i db = Some s" and id: "\<And>s. ps_id (f s) = ps_id s"
  moreover have "find (\<lambda>s. ps_id s = i) (update_first (\<lambda>s. ps_id s = i) f rows) = map_option f (find (\<lambda>s. ps_id s = i) rows)" for rows
    by (induction rows) (auto simp: id)
  ultimately show ?thesis by (simp add: portal_school_of_def)
qed

lemma redirect_upserted: "\<exists>r. redirect_from slug (upsert_redirect slug i db) = Some r \<and> rd_school r = i"
proof -
  have "find (\<lambda>r. rd_from r = slug) (update_first (\<lambda>r. rd_from r = slug) (\<lambda>r. r\<lparr>rd_school := i\<rparr>) rows)
      = map_option (\<lambda>r. r\<lparr>rd_school := i\<rparr>) (find (\<lambda>r. rd_from r = slug) rows)" for rows
    by (induction rows) auto
  from this [of "pd_redirects db"] show ?thesis
    by (cases "redirect_from slug db") (simp_all add: upsert_redirect_def redirect_from_def find_append)
qed

lemma portal_school_of_upsert [simp]: "portal_school_of i (upsert_redirect sl j db) = portal_school_of i db"
  by (simp add: portal_school_of_def upsert_redirect_def)

lemma rename_error_ok:
  assumes ok: "portal_ok db" and run: "rename_slug now i raw db = (Inl e, db')"
  shows "portal_ok db'"
proof (cases "portal_school_of i db")
  case (Some s)
  obtain r d where res: "reserve_slug now raw (Some i) db = (r, d)" by fastforce
  have okd: "portal_ok d" by (rule op_keeps_result [of portal_ok, OF reserve_keeps ok res])
  show ?thesis
  proof (cases r)
    case (Inl e')
    then have "db' = d" using run Some res by (simp add: rename_slug_def op_bind_def)
    then show ?thesis using okd by simp
  next
    case (Inr new)
    have ids: "map ps_id (pd_schools d) = map ps_id (pd_schools db)"
      using reserve_free(2) [OF ok res [unfolded Inr]] by (simp add: release_expired_holds_def update_where_def)
    have "i \<in> set (map ps_id (pd_schools db))" using Some unfolding portal_school_of_def by (auto dest: find_Some_in)
    then obtain t where "portal_school_of i d = Some t"
      unfolding ids [symmetric] by (cases "portal_school_of i d") (auto simp: portal_school_of_def find_None_all)
    then have "fst (rename_slug now i raw db) = Inr new"
      using Some res Inr by (auto simp: rename_slug_def op_bind_def op_then_def update_portal_def op_guard_def split: sum.splits)
    then show ?thesis using run by simp
  qed
qed (use ok run in \<open>simp add: rename_slug_def\<close>)

lemma rename_keeps [op_keeps_intros]: "op_keeps portal_ok (rename_slug now i raw)"
proof (unfold op_keeps_def, intro allI impI)
  fix db
  assume ok: "portal_ok db"
  obtain r d where "rename_slug now i raw db = (r, d)" by fastforce
  then show "portal_ok (snd (rename_slug now i raw db))"
    using rename_keeps_ok [OF ok] rename_error_ok [OF ok] by (cases r) auto
qed

section \<open>Registration, verification, rejection\<close>

lemma register_keeps:
  assumes ok: "portal_ok db" and fresh: "portal_school_of i db = None"
  shows "portal_ok (snd (register_portal now i name requested db))"
proof -
  have insert: "portal_ok (d\<lparr>pd_schools := pd_schools d @ [new_portal_school i name slug]\<rparr>)"
    if d: "portal_ok d" "i \<notin> ps_id ` set (pd_schools d)" "\<And>s. slug = Some s \<Longrightarrow> free_for s None d" for d slug
  proof (rule portal_okI)
    let ?d = "d\<lparr>pd_schools := pd_schools d @ [new_portal_school i name slug]\<rparr>"
    have owns: "owns ?d sl j \<longleftrightarrow> owns d sl j \<or> (slug = Some sl \<and> j = i)" for sl j
      by (auto simp: owns_def new_portal_school_def)
    have not_owned: "slug = Some sl \<Longrightarrow> \<not> owns d sl j" for sl j using d(3) by (auto simp: free_for_def)
    show "distinct (map ps_id (pd_schools ?d))" using portal_okD(1) [OF d(1)] d(2) by (simp add: new_portal_school_def)
    show "slug_ok sl" if "owns ?d sl j" for sl j using that owns portal_okD(3) [OF d(1)] d(3) by (auto simp: free_for_def)
    show "j = k" if "owns ?d sl j" "owns ?d sl k" for sl j k using that [unfolded owns] not_owned [of sl] portal_okD(4) [OF d(1), of sl j k] by auto
    show "rd_school r = j" if "owns ?d sl j" "r \<in> set (pd_redirects ?d)" "rd_from r = sl" for sl j r
    proof (cases "slug = Some sl \<and> j = i")
      case True
      then show ?thesis using d(3) [of sl] that(2,3) by (auto simp: free_for_def)
    next
      case False
      then have "owns d sl j" using that(1) owns by blast
      then show ?thesis using portal_okD(5) [OF d(1)] that(2,3) by auto
    qed
    show "ps_slug s \<noteq> None" if "s \<in> set (pd_schools ?d)" "ps_registration s = REG_VERIFIED" for s
      using that portal_okD(7) [OF d(1)] by (auto simp: new_portal_school_def)
  qed (use portal_okD [OF d(1)] in simp_all)
  have gone: "i \<notin> ps_id ` set (pd_schools db)" using fresh by (auto simp: portal_school_of_def find_None_all)
  show ?thesis
  proof (cases "truthy (map_option trim requested)")
    case True
    obtain r d where res: "reserve_slug now (nullish requested []) None db = (r, d)" by fastforce
    have okd: "portal_ok d" by (rule op_keeps_result [of portal_ok, OF reserve_keeps ok res])
    show ?thesis
    proof (cases r)
      case (Inr slug)
      note free = reserve_free [OF ok res [unfolded Inr]]
      have "i \<notin> ps_id ` set (pd_schools d)"
        using gone by (auto simp: free(2) release_expired_holds_def set_update_where image_iff)
      then show ?thesis using insert [OF okd, of "Some slug"] free(1) True res Inr
        by (simp add: register_portal_def op_bind_def op_then_def op_modify_def op_ret_def)
    qed (use True res okd in \<open>simp add: register_portal_def op_bind_def\<close>)
  qed (use insert [OF ok gone, of None] in \<open>simp add: register_portal_def\<close>)
qed

lemma ensure_gives_slug:
  assumes "ensure_slug now i preferred db = (Inr slug, db')" "portal_ok db"
  shows "\<exists>s. portal_school_of i db' = Some s \<and> ps_slug s \<noteq> None"
proof -
  obtain s where s: "portal_school_of i db = Some s" using assms(1) by (auto simp: ensure_slug_def split: option.splits)
  show ?thesis
  proof (cases "truthy (ps_slug s)")
    case True
    then have "db' = db" using s assms(1) by (simp add: ensure_slug_def)
    then show ?thesis using s True by (cases "ps_slug s") auto
  next
    case False
    then obtain d where "chosen_slug now preferred s i db = (Inr slug, d)" "portal_school_of i d \<noteq> None"
      "db' = d\<lparr>pd_schools := update_first (\<lambda>s. ps_id s = i) (\<lambda>s. s\<lparr>ps_slug := Some slug\<rparr>) (pd_schools d)\<rparr>"
      using s assms(1) by (auto simp: ensure_slug_def chosen_slug_def [symmetric] op_bind_Inr op_then_Inr update_portal_Inr)
    then show ?thesis using portal_school_of_updated [of i d _ "\<lambda>s. s\<lparr>ps_slug := Some slug\<rparr>"] by auto
  qed
qed

lemma verify_keeps [op_keeps_intros]: "op_keeps portal_ok (verify_portal now i)"
proof (unfold op_keeps_def, intro allI impI)
  fix db
  assume ok: "portal_ok db"
  obtain r d where run: "ensure_slug now i None db = (r, d)" by fastforce
  have okd: "portal_ok d" by (rule op_keeps_result [of portal_ok, OF ensure_keeps ok run])
  show "portal_ok (snd (verify_portal now i db))"
  proof (cases "portal_school_of i db = None \<or> map_option ps_registration (portal_school_of i db) = Some REG_VERIFIED")
    case False
    then obtain s where s: "portal_school_of i db = Some s" "ps_registration s \<noteq> REG_VERIFIED" by auto
    show ?thesis
    proof (cases r)
      case (Inr slug)
      obtain t where t: "portal_school_of i d = Some t" "ps_slug t \<noteq> None"
        using ensure_gives_slug [OF run [unfolded Inr] ok] by blast
      let ?f = "\<lambda>s. s\<lparr>ps_registration := REG_VERIFIED, ps_active := True\<rparr>"
      have "ps_slug s \<noteq> None" if "s \<in> set (pd_schools d)" "ps_id s = i" for s
        using that t portal_school_of_unique [OF portal_okD(1) [OF okd], of i s] by simp
      then have "portal_ok (d\<lparr>pd_schools := update_first (\<lambda>s. ps_id s = i) ?f (pd_schools d)\<rparr>)"
        by (intro update_portal_ok okd) auto
      moreover have "update_portal i ?f d = (Inr (), d\<lparr>pd_schools := update_first (\<lambda>s. ps_id s = i) ?f (pd_schools d)\<rparr>)"
        using t(1) by (simp add: update_portal_Inr)
      ultimately show ?thesis using s run Inr op_keepsD [OF lock_keeps]
        by (simp add: verify_portal_def op_bind_def op_then_def)
    qed (use s run okd in \<open>simp add: verify_portal_def op_bind_def\<close>)
  qed (use ok in \<open>auto simp: verify_portal_def\<close>)
qed

lemma reject_keeps [op_keeps_intros]: "op_keeps portal_ok (reject_portal now i)"
proof -
  have "op_keeps portal_ok (update_portal i (\<lambda>s. s\<lparr>ps_registration := REG_REJECTED\<rparr>))"
    unfolding update_portal_def by (intro op_keeps_intros op_keeps_modify update_portal_ok) auto
  then show ?thesis unfolding reject_portal_def by (intro op_keeps_intros)
qed

section \<open>Runs of requests\<close>

datatype portal_event =
    PortalCheck date string "ident option"
  | PortalRegister date ident string "string option"
  | PortalVerify date ident
  | PortalReject date ident
  | PortalEnsure date ident "string option"
  | PortalLock date ident
  | PortalRename date ident string

text \<open>The id of a new row is one the table does not have.\<close>

fun portal_step :: "portal_event \<Rightarrow> portal_db \<Rightarrow> portal_db" where
  "portal_step (PortalCheck now raw except) db = snd (check_slug_available now raw except db)"
| "portal_step (PortalRegister now i name requested) db =
     (if portal_school_of i db = None then snd (register_portal now i name requested db) else db)"
| "portal_step (PortalVerify now i) db = snd (verify_portal now i db)"
| "portal_step (PortalReject now i) db = snd (reject_portal now i db)"
| "portal_step (PortalEnsure now i preferred) db = snd (ensure_slug now i preferred db)"
| "portal_step (PortalLock now i) db = snd (lock_slug now i db)"
| "portal_step (PortalRename now i raw) db = snd (rename_slug now i raw db)"

interpretation portal_run: step_system portal_step portal_ok
proof unfold_locales
  fix db e
  assume ok: "portal_ok db"
  then show "portal_ok (portal_step e db)"
    using op_keepsD [OF check_keeps ok] op_keepsD [OF verify_keeps ok] op_keepsD [OF reject_keeps ok]
      op_keepsD [OF ensure_keeps ok] op_keepsD [OF lock_keeps ok] op_keepsD [OF rename_keeps ok] register_keeps [OF ok]
    by (cases e) auto
qed

section \<open>Finding a school\<close>

lemma find_unique_row: "x \<in> set xs \<Longrightarrow> P x \<Longrightarrow> (\<And>y. y \<in> set xs \<Longrightarrow> P y \<Longrightarrow> y = x) \<Longrightarrow> find P xs = Some x"
  by (cases "find P xs") (metis find_None_all, metis find_Some_in)

lemma find_live_unique:
  assumes ok: "portal_ok db" and s: "portal_school_of i db = Some s" "is_live s"
  shows "ps_slug s = Some slug \<Longrightarrow> find_live_by_slug slug db = Some s" "find_live_by_id i db = Some s"
proof -
  have mem: "s \<in> set (pd_schools db)" "ps_id s = i" using s(1) portal_school_of_unique [OF portal_okD(1) [OF ok]] by auto
  have unique: "t = s" if "t \<in> set (pd_schools db)" "ps_id t = i" for t
    by (rule distinct_key_eq [OF portal_okD(1) [OF ok] that(1) mem(1)]) (simp add: that(2) mem(2))
  show "find_live_by_id i db = Some s"
    unfolding find_live_by_id_def by (rule find_unique_row [OF mem(1)]) (use mem(2) s(2) unique in \<open>simp, blast\<close>)
  assume slug: "ps_slug s = Some slug"
  then have own: "owns db slug i" using mem by (auto simp: owns_def)
  have "t = s" if "t \<in> set (pd_schools db)" "ps_slug t = Some slug" for t
  proof -
    have "owns db slug (ps_id t)" using that by (auto simp: owns_def)
    then have "ps_id t = i" by (rule portal_okD(4) [OF ok _ own])
    then show ?thesis by (rule unique [OF that(1)])
  qed
  then show "find_live_by_slug slug db = Some s"
    unfolding find_live_by_slug_def by (intro find_unique_row [OF mem(1)]) (use s(2) slug in \<open>simp, blast\<close>)
qed

lemma resolve_portal_host:
  assumes "validate_slug_format slug = None" "base \<in> set portal_roots"
    and "\<not> is_apex_host (portal_host slug base) (root_domains env)" "find_live_by_domain (portal_host slug base) db = None"
  shows "resolve_by_host env (portal_host slug base) db = map_option (to_branding_dto env) (school_of_slug slug db)"
proof -
  have "portal_host slug base \<noteq> []" by (simp add: portal_host_def)
  then show ?thesis
    using assms portal_host_name(2) [OF assms(1,2)] extract_portal_host [OF assms(1-3)]
    by (simp add: resolve_by_host_def)
qed

section \<open>Properties\<close>

text \<open>
  C30: through every run of requests (checks, registrations, verifications, rejections, renamings) the
  addresses of the schools differ, each is a valid slug, no school has an address that another
  school has left behind, and a verified school always has an address.
\<close>

theorem portal_invariant:
  assumes "portal_ok db"
  shows "portal_ok (fold portal_step es db)"
  by (rule portal_run.all_runs) (rule assms)

text \<open>
  C29: an address that a school has left still leads to it: after a renaming a live school is
  found under its new and under its old address, below each of the built-in root domains (where
  the host is no root itself and no school's own domain).
\<close>

theorem renamed_school_found:
  assumes ok: "portal_ok db" and run: "rename_slug now i raw db = (Inr new, db')"
    and s: "portal_school_of i db = Some s" "is_live s" "ps_slug s = Some old"
    and base: "base \<in> set portal_roots"
    and hosts: "\<not> is_apex_host (portal_host old base) (root_domains env)" "\<not> is_apex_host (portal_host new base) (root_domains env)"
      "find_live_by_domain (portal_host old base) db' = None" "find_live_by_domain (portal_host new base) db' = None"
  shows "\<exists>s'. portal_school_of i db' = Some s' \<and> ps_slug s' = Some new
    \<and> resolve_by_host env (portal_host new base) db' = Some (to_branding_dto env s')
    \<and> resolve_by_host env (portal_host old base) db' = Some (to_branding_dto env s')"
proof -
  let ?f = "\<lambda>s. s\<lparr>ps_slug := Some new, ps_locked_at := Some now, ps_hold_until := None\<rparr>"
  obtain s0 d where s0: "portal_school_of i db = Some s0" and res: "reserve_slug now raw (Some i) db = (Inr new, d)"
    and db': "db' = (let d1 = (if truthy (ps_slug s0) \<and> ps_slug s0 \<noteq> Some new then upsert_redirect (nullish (ps_slug s0) []) i d else d)
            in d1\<lparr>pd_schools := update_first (\<lambda>s. ps_id s = i) ?f (pd_schools d1)\<rparr>)"
    by (rule rename_Inr [OF run])
  have s0s: "s0 = s" using s0 s(1) by simp
  define d1 where "d1 = (if truthy (ps_slug s) \<and> ps_slug s \<noteq> Some new then upsert_redirect (nullish (ps_slug s) []) i d else d)"
  have d': "db' = d1\<lparr>pd_schools := update_first (\<lambda>s. ps_id s = i) ?f (pd_schools d1)\<rparr>"
    using db' by (simp add: d1_def s0s Let_def)
  have ok': "portal_ok db'" by (rule rename_keeps_ok [OF ok run])
  have "portal_school_of i d = Some s"
    using release_owns [OF s(1) _ portal_okD(1) [OF ok]] s(2) reserve_free(2) [OF ok res] by (simp add: is_live_def)
  then have "portal_school_of i d1 = Some s" by (simp add: d1_def)
  then have s': "portal_school_of i db' = Some (?f s)" unfolding d' by (rule portal_school_of_updated) simp
  have live': "is_live (?f s)" using s(2) by (simp add: is_live_def)
  note found = find_live_unique [OF ok' s' live']
  have "owns db old i" using s(1,3) unfolding owns_def portal_school_of_unique [OF portal_okD(1) [OF ok]] by auto
  then have valid_old: "validate_slug_format old = None" using portal_okD(3) [OF ok] by (simp add: slug_ok_def)
  have own': "owns db' new i" using s' unfolding owns_def portal_school_of_unique [OF portal_okD(1) [OF ok']] by (intro bexI [of _ "?f s"]) auto
  then have valid_new: "validate_slug_format new = None" using portal_okD(3) [OF ok'] by (simp add: slug_ok_def)
  have new: "school_of_slug new db' = Some (?f s)" using found(1) by (simp add: school_of_slug_def)
  have old: "school_of_slug old db' = Some (?f s)"
  proof (cases "old = new")
    case False
    have "truthy (ps_slug s)" using s(3) valid_slug(1) [OF valid_old] by (cases old) auto
    then have moved: "pd_redirects db' = pd_redirects (upsert_redirect old i d)" using False s(3) d' by (simp add: d1_def)
    obtain r where r: "redirect_from old db' = Some r" "rd_school r = i"
      using redirect_upserted [of old i d] unfolding redirect_from_def moved by blast
    then have rin: "r \<in> set (pd_redirects db')" "rd_from r = old" unfolding redirect_from_def by (auto dest: find_Some_in)
    have "find_live_by_slug old db' = None"
    proof (rule ccontr)
      assume "find_live_by_slug old db' \<noteq> None"
      then obtain t where t: "t \<in> set (pd_schools db')" "ps_slug t = Some old"
        unfolding find_live_by_slug_def by (auto dest: find_Some_in)
      then have "owns db' old (ps_id t)" by (auto simp: owns_def)
      then have "ps_id t = i" using portal_okD(5) [OF ok' _ rin] r(2) by simp
      then have "portal_school_of i db' = Some t" using t(1) portal_school_of_unique [OF portal_okD(1) [OF ok']] by blast
      then show False using s' t(2) False by auto
    qed
    then show ?thesis using r found(2) by (simp add: school_of_slug_def)
  qed (use new in simp)
  have host: "resolve_by_host env (portal_host sl base) db' = Some (to_branding_dto env (?f s))"
    if "sl \<in> {old, new}" for sl
    using that resolve_portal_host [OF valid_old base hosts(1,3)] resolve_portal_host [OF valid_new base hosts(2,4)] old new by auto
  show ?thesis by (intro exI [of _ "?f s"]) (use s' host in simp)
qed


section \<open>Witnesses\<close>

lemma portal_ok_empty: "portal_ok \<lparr>pd_schools = [], pd_redirects = []\<rparr>"
  by (simp add: portal_ok_def owns_def)

definition ex_portal_events :: "portal_event list" where
  "ex_portal_events =
     [PortalRegister 5 ''S1'' ''Beulah College'' None, PortalVerify 10 ''S1'',
      PortalRegister 15 ''S2'' ''Kings'' (Some '' Beulah-College! ''), PortalRegister 16 ''S3'' ''Beulah College'' None,
      PortalVerify 20 ''S3'']"

definition ex_portals :: portal_db where
  "ex_portals = fold portal_step ex_portal_events \<lparr>pd_schools = [], pd_redirects = []\<rparr>"

lemma ex_portals_ok: "portal_ok ex_portals"
  unfolding ex_portals_def by (rule portal_run.all_runs) (rule portal_ok_empty)

text \<open>The second registration is refused, the third school gets a number.\<close>

lemma portal_invariant_witness:
  "portal_ok ex_portals \<and> map ps_slug (pd_schools ex_portals) = [Some ''beulah-college'', Some ''beulah-college-2'']"
proof
  show "portal_ok ex_portals" unfolding ex_portals_def by (rule portal_invariant [OF portal_ok_empty])
  show "map ps_slug (pd_schools ex_portals) = [Some ''beulah-college'', Some ''beulah-college-2'']" by code_simp
qed

definition ex_env :: env where
  "ex_env = (\<lambda>k. if k = ''NODE_ENV'' then Some ''production'' else None)"

lemma renamed_school_found_witness:
  "\<exists>s'. resolve_by_host ex_env ''beulah.myschoolbud.com'' (snd (rename_slug 30 ''S1'' ''Beulah'' ex_portals)) = Some (to_branding_dto ex_env s')
    \<and> resolve_by_host ex_env ''beulah-college.myschoolbud.com'' (snd (rename_slug 30 ''S1'' ''Beulah'' ex_portals)) = Some (to_branding_dto ex_env s')
    \<and> ps_slug s' = Some ''beulah''"
proof -
  obtain db' where run: "rename_slug 30 ''S1'' ''Beulah'' ex_portals = (Inr ''beulah'', db')" "db' = snd (rename_slug 30 ''S1'' ''Beulah'' ex_portals)"
  proof -
    have "fst (rename_slug 30 ''S1'' ''Beulah'' ex_portals) = Inr ''beulah''" by code_simp
    then show ?thesis by (intro that [of "snd (rename_slug 30 ''S1'' ''Beulah'' ex_portals)"]) (simp_all add: prod_eq_iff)
  qed
  obtain s where s: "portal_school_of ''S1'' ex_portals = Some s" "is_live s" "ps_slug s = Some ''beulah-college''"
  proof -
    have "case portal_school_of ''S1'' ex_portals of None \<Rightarrow> False | Some s \<Rightarrow> is_live s \<and> ps_slug s = Some ''beulah-college''" by code_simp
    then show ?thesis using that by (auto split: option.splits)
  qed
  have base: "''myschoolbud.com'' \<in> set portal_roots" by (simp add: portal_roots_def)
  have apex: "\<not> is_apex_host (portal_host ''beulah-college'' ''myschoolbud.com'') (root_domains ex_env)"
    "\<not> is_apex_host (portal_host ''beulah'' ''myschoolbud.com'') (root_domains ex_env)" by code_simp+
  have free: "find_live_by_domain (portal_host ''beulah-college'' ''myschoolbud.com'') db' = None"
    "find_live_by_domain (portal_host ''beulah'' ''myschoolbud.com'') db' = None"
    unfolding run(2) by code_simp+
  have hosts: "portal_host ''beulah-college'' ''myschoolbud.com'' = ''beulah-college.myschoolbud.com''"
    "portal_host ''beulah'' ''myschoolbud.com'' = ''beulah.myschoolbud.com''" by (simp_all add: portal_host_def)
  show ?thesis
    using renamed_school_found [OF ex_portals_ok run(1) s base apex free] unfolding run(2) hosts by blast
qed


text \<open>
  A long name whose thirty-third character follows a dash is refused as an address, though it is
  one when normalized again.
\<close>

lemma cut_slug_refused:
  "validate_slug_format (normalize_slug ''our lady of apostles grammarsch lagos'') = Some SLUG_INVALID
   \<and> validate_slug_format (normalize_slug (normalize_slug ''our lady of apostles grammarsch lagos'')) = None"
  by code_simp

end
