(* ===== verification/Identifiers.thy ===== *)
theory Identifiers
  imports SubscriptionConfig
begin

text \<open>
  The generated identifiers of schools, staff and students,
  \<open>src/src/schools/shared/id-generator.service.ts\<close>. Neither \<open>uuidv4()\<close> nor \<open>Math.random()\<close> is
  under the repository: a call reads them as streams, \<open>uuids n\<close> the uuid of the \<open>n\<close>-th call and
  \<open>rnd n\<close> the value of \<open>Math.floor(Math.random() * 32)\<close>. The loops that draw until an unused
  value is found need not end, so they are partial functions whose value None is an endless
  loop; a generator also returns the next position of its stream. The tables are the columns the
  look-ups read. Names are ASCII.
\<close>

section \<open>Tables and words\<close>

record id_tables =
  it_schools :: "string list"
  it_admin_ids :: "string list"
  it_admin_public :: "string list"
  it_teacher_ids :: "string list"
  it_teacher_public :: "string list"
  it_student_uids :: "string list"
  it_student_public :: "string list"

datatype person_kind = KIND_ADMIN | KIND_TEACHER | KIND_STUDENT

definition DEFAULT_SUFFIX :: int where "DEFAULT_SUFFIX = 6"
definition MIN_SUFFIX :: int where "MIN_SUFFIX = 4"
definition MAX_SUFFIX :: int where "MAX_SUFFIX = 10"

definition suffix_length :: "env \<Rightarrow> nat" where
  "suffix_length env = nat
     (case env ''STUDENT_UID_SUFFIX_LENGTH'' of
        None \<Rightarrow> DEFAULT_SUFFIX
      | Some raw \<Rightarrow>
          if raw = [] then DEFAULT_SUFFIX
          else (case parse_int raw of
                  None \<Rightarrow> DEFAULT_SUFFIX
                | Some n \<Rightarrow> max MIN_SUFFIX (min MAX_SUFFIX n)))"

definition is_id_char :: "char \<Rightarrow> bool" where
  "is_id_char c = (is_upper_char c \<or> is_digit_char c)"

text \<open>A word character of a JavaScript regular expression.\<close>

definition is_regex_word :: "char \<Rightarrow> bool" where
  "is_regex_word c = (is_upper_char c \<or> is_lower_char c \<or> is_digit_char c \<or> c = CHR ''_'')"

definition common_words :: "string list" where
  "common_words = [''SCHOOL'', ''ACADEMY'', ''COLLEGE'', ''UNIVERSITY'', ''INSTITUTE'', ''SECONDARY'', ''PRIMARY'', ''HIGH'']"

text \<open>
  \<open>/\b(SCHOOL|...)\b/gi\<close> replaced by nothing: a match between two word boundaries is a maximal
  run of word characters.
\<close>

function drop_common :: "string \<Rightarrow> string" where
  "drop_common [] = []"
| "drop_common (c # s) =
     (if is_regex_word c then
        (let w = c # takeWhile is_regex_word s
         in (if w \<in> set common_words then [] else w) @ drop_common (dropWhile is_regex_word s))
      else c # drop_common s)"
  by pat_completeness auto
termination
  by (relation "measure length") (auto simp: le_imp_less_Suc length_dropWhile_le)

definition pad_end :: "nat \<Rightarrow> char \<Rightarrow> string \<Rightarrow> string" where
  "pad_end n c s = s @ replicate (n - length s) c"

definition shorten_school_name :: "string \<Rightarrow> string" where
  "shorten_school_name name =
     (let cleaned = take 2 (filter is_id_char (drop_common (to_upper name)))
      in if length cleaned < 2 then pad_end 2 CHR ''X'' (take 2 (filter is_upper_char (to_upper name)))
         else cleaned)"

section \<open>Drawing\<close>

definition short_id_chars :: string where
  "short_id_chars = ''ABCDEFGHJKLMNPQRSTUVWXYZ23456789''"

definition char_at :: "string \<Rightarrow> nat \<Rightarrow> string" where
  "char_at s i = (if i < length s then [s ! i] else [])"

fun short_id :: "(nat \<Rightarrow> nat) \<Rightarrow> nat \<Rightarrow> nat \<Rightarrow> string" where
  "short_id rnd p 0 = []"
| "short_id rnd p (Suc n) = char_at short_id_chars (rnd p) @ short_id rnd (Suc p) n"

definition legacy_id :: "string \<Rightarrow> string \<Rightarrow> string" where
  "legacy_id prefix uuid = prefix @ to_upper (filter (\<lambda>c. c \<noteq> CHR ''-'') uuid)"

text \<open>\<open>while (exists) { draw; look up }\<close>.\<close>

partial_function (option) first_unused ::
  "(string \<Rightarrow> bool) \<Rightarrow> (nat \<Rightarrow> string) \<Rightarrow> nat \<Rightarrow> (string \<times> nat) option" where
  "first_unused taken draw n =
     (if taken (draw n) then first_unused taken draw (Suc n) else Some (draw n, Suc n))"

definition generate_school_id :: "(nat \<Rightarrow> string) \<Rightarrow> nat \<Rightarrow> id_tables \<Rightarrow> (string \<times> nat) option" where
  "generate_school_id uuids n db =
     first_unused (\<lambda>i. i \<in> set (it_schools db)) (\<lambda>k. legacy_id ''AG-SCH-'' (uuids k)) n"

definition generate_principal_id :: "(nat \<Rightarrow> string) \<Rightarrow> nat \<Rightarrow> id_tables \<Rightarrow> (string \<times> nat) option" where
  "generate_principal_id uuids n db =
     first_unused (\<lambda>i. i \<in> set (it_admin_ids db)) (\<lambda>k. legacy_id ''AG-PR-'' (uuids k)) n"

definition generate_admin_id :: "(nat \<Rightarrow> string) \<Rightarrow> nat \<Rightarrow> id_tables \<Rightarrow> (string \<times> nat) option" where
  "generate_admin_id uuids n db =
     first_unused (\<lambda>i. i \<in> set (it_admin_ids db)) (\<lambda>k. legacy_id ''AG-AD-'' (uuids k)) n"

definition generate_teacher_id :: "(nat \<Rightarrow> string) \<Rightarrow> nat \<Rightarrow> id_tables \<Rightarrow> (string \<times> nat) option" where
  "generate_teacher_id uuids n db =
     first_unused (\<lambda>i. i \<in> set (it_teacher_ids db)) (\<lambda>k. legacy_id ''AG-TE-'' (uuids k)) n"

definition year_digits :: "int \<Rightarrow> string" where
  "year_digits year = (let s = show_int year in drop (length s - 2) s)"

text \<open>
  The student number: at most fifty draws of a suffix, then one uuid. \<open>year\<close> is the local year of
  the call.
\<close>

fun draw_uid :: "nat \<Rightarrow> (string \<Rightarrow> bool) \<Rightarrow> (nat \<Rightarrow> string) \<Rightarrow> nat \<Rightarrow> string option" where
  "draw_uid 0 taken draw n = None"
| "draw_uid (Suc attempts) taken draw n =
     (if taken (draw n) then draw_uid attempts taken draw (Suc n) else Some (draw n))"

definition MAX_ATTEMPTS :: nat where "MAX_ATTEMPTS = 50"

definition student_uid :: "env \<Rightarrow> int \<Rightarrow> string \<Rightarrow> (nat \<Rightarrow> nat) \<Rightarrow> nat \<Rightarrow> string" where
  "student_uid env year name rnd k =
     ''AG-'' @ shorten_school_name name @ ''-'' @ year_digits year @ ''-''
       @ short_id rnd (k * suffix_length env) (suffix_length env)"

definition generate_student_id ::
  "env \<Rightarrow> int \<Rightarrow> string \<Rightarrow> (nat \<Rightarrow> nat) \<Rightarrow> string \<Rightarrow> id_tables \<Rightarrow> http_error + string" where
  "generate_student_id env year name rnd uuid db =
     (let taken = (\<lambda>u. u \<in> set (it_student_uids db))
      in case draw_uid MAX_ATTEMPTS taken (student_uid env year name rnd) 0 of
           Some uid \<Rightarrow> Inr uid
         | None \<Rightarrow>
             let uid = legacy_id ''AG-ST-'' uuid
             in if taken uid then Inl (JsError ''Unable to generate unique student UID. Please try again.'')
                else Inr uid)"

definition public_taken :: "person_kind \<Rightarrow> id_tables \<Rightarrow> string \<Rightarrow> bool" where
  "public_taken kind db i =
     (i \<in> set (it_admin_public db) \<or> i \<in> set (it_teacher_public db)
      \<or> (kind = KIND_STUDENT \<and> i \<in> set (it_student_public db)))"

definition public_id :: "string \<Rightarrow> (nat \<Rightarrow> nat) \<Rightarrow> nat \<Rightarrow> string" where
  "public_id name rnd k = ''AG-'' @ shorten_school_name name @ ''-'' @ short_id rnd (k * 6) 6"

definition generate_public_id ::
  "string \<Rightarrow> person_kind \<Rightarrow> (nat \<Rightarrow> nat) \<Rightarrow> nat \<Rightarrow> id_tables \<Rightarrow> (string \<times> nat) option" where
  "generate_public_id name kind rnd n db =
     first_unused (public_taken kind db) (public_id name rnd) n"

section \<open>The loops\<close>

lemma first_unused_result:
  assumes ret: "first_unused taken draw n = Some r"
  shows "\<not> taken (fst r) \<and> n < snd r \<and> fst r = draw (snd r - 1)"
proof (rule first_unused.raw_induct [where P = "\<lambda>t d n r. \<not> t (fst r) \<and> n < snd r \<and> fst r = d (snd r - 1)", OF _ ret])
  fix f :: "(string \<Rightarrow> bool) \<Rightarrow> (nat \<Rightarrow> string) \<Rightarrow> nat \<Rightarrow> (string \<times> nat) option"
  fix t d n r
  assume IH: "\<And>t d n r. f t d n = Some r \<Longrightarrow> \<not> t (fst r) \<and> n < snd r \<and> fst r = d (snd r - 1)"
    and eq: "(if t (d n) then f t d (Suc n) else Some (d n, Suc n)) = Some r"
  show "\<not> t (fst r) \<and> n < snd r \<and> fst r = d (snd r - 1)"
    using eq IH [of t d "Suc n" r] by (cases "t (d n)") auto
qed

lemma first_unused_stops:
  "\<not> taken (draw (n + k)) \<Longrightarrow> \<exists>i m. first_unused taken draw n = Some (i, m) \<and> m \<le> Suc (n + k)"
proof (induction k arbitrary: n)
  case 0
  then show ?case by (simp add: first_unused.simps [of taken draw n])
next
  case (Suc k)
  show ?case
  proof (cases "taken (draw n)")
    case True
    obtain i m where "first_unused taken draw (Suc n) = Some (i, m)" "m \<le> Suc (Suc n + k)"
      using Suc.IH [of "Suc n"] Suc.prems by auto
    then show ?thesis using True by (simp add: first_unused.simps [of taken draw n])
  next
    case False
    then show ?thesis by (simp add: first_unused.simps [of taken draw n])
  qed
qed

text \<open>With one more different draw than there are taken values, one of the draws is unused.\<close>

lemma some_draw_unused:
  assumes "inj_on draw {n..n + length rows}"
  shows "\<exists>k\<le>length rows. draw (n + k) \<notin> set rows"
proof (rule ccontr)
  assume "\<not> ?thesis"
  then have "\<And>k. k \<le> length rows \<Longrightarrow> draw (n + k) \<in> set rows" by blast
  then have "draw ` {n..n + length rows} \<subseteq> set rows"
    by (auto simp: atLeastAtMost_iff image_iff) (metis add_diff_inverse_nat le_diff_conv2 linorder_not_less nat_add_left_cancel_le)
  then have "card (draw ` {n..n + length rows}) \<le> length rows"
    by (meson List.finite_set card_length card_mono le_trans)
  then show False using card_image [OF assms] by simp
qed

lemma first_unused_total:
  assumes "inj_on draw {n..n + length rows}" "\<And>i. taken i \<longleftrightarrow> i \<in> set rows"
  shows "\<exists>i m. first_unused taken draw n = Some (i, m) \<and> i \<notin> set rows \<and> m \<le> Suc (n + length rows)"
proof -
  obtain k where k: "k \<le> length rows" "draw (n + k) \<notin> set rows"
    using some_draw_unused [OF assms(1)] by blast
  then obtain i m where "first_unused taken draw n = Some (i, m)" "m \<le> Suc (n + k)"
    using first_unused_stops [of taken draw n k] assms(2) by auto
  then show ?thesis using k(1) first_unused_result [of taken draw n "(i, m)"] assms(2) by auto
qed

lemma first_unused_endless:
  assumes "\<And>k. n \<le> k \<Longrightarrow> taken (draw k)"
  shows "first_unused taken draw n = None"
proof (cases "first_unused taken draw n")
  case (Some r)
  have "taken (draw (snd r - 1))" using assms [of "snd r - 1"] first_unused_result [OF Some] by linarith
  then show ?thesis using first_unused_result [OF Some] by metis
qed simp

lemma draw_uid_result: "draw_uid a taken draw n = Some u \<Longrightarrow> \<not> taken u \<and> (\<exists>k. n \<le> k \<and> k < n + a \<and> u = draw k)"
proof (induction a arbitrary: n)
  case (Suc a)
  show ?case
  proof (cases "taken (draw n)")
    case True
    with Suc.prems have "draw_uid a taken draw (Suc n) = Some u" by simp
    from Suc.IH [OF this] obtain k where "\<not> taken u" "Suc n \<le> k" "k < Suc n + a" "u = draw k" by blast
    then show ?thesis by (intro conjI exI [of _ k]) auto
  next
    case False
    with Suc.prems show ?thesis by auto
  qed
qed simp

lemma draw_uid_None: "draw_uid a taken draw n = None \<longleftrightarrow> (\<forall>k<a. taken (draw (n + k)))"
  by (induction a arbitrary: n) (auto simp: less_Suc_eq_0_disj)

section \<open>Shape of the identifiers\<close>

lemma char_at_short: "\<forall>c\<in>set (char_at short_id_chars i). is_id_char c"
proof -
  have "\<forall>c\<in>set short_id_chars. is_id_char c"
    by (simp add: short_id_chars_def is_id_char_def is_upper_char_def is_digit_char_def)
  then show ?thesis by (auto simp: char_at_def)
qed

lemma short_id_chars_ok: "c \<in> set (short_id rnd p n) \<Longrightarrow> is_id_char c"
  by (induction rnd p n rule: short_id.induct) (use char_at_short in auto)

lemma length_short_id: "(\<And>k. rnd k < 32) \<Longrightarrow> length (short_id rnd p n) = n"
proof (induction rnd p n rule: short_id.induct)
  case (2 rnd p n)
  have "rnd p < length short_id_chars" using 2(2) [of p] by (simp add: short_id_chars_def)
  then show ?case using 2 by (simp add: char_at_def)
qed simp

lemma shorten_length [simp]: "length (shorten_school_name name) = 2"
  by (auto simp: shorten_school_name_def pad_end_def Let_def)

lemma shorten_chars: "c \<in> set (shorten_school_name name) \<Longrightarrow> is_id_char c"
  by (auto simp: shorten_school_name_def pad_end_def Let_def is_id_char_def is_upper_char_def
      dest: in_set_takeD split: if_splits)

lemma suffix_bounds: "4 \<le> suffix_length env \<and> suffix_length env \<le> 10"
  by (auto simp: suffix_length_def DEFAULT_SUFFIX_def MIN_SUFFIX_def MAX_SUFFIX_def split: option.splits)

section \<open>Properties\<close>

lemma legacy_id_inj: "inj_on (\<lambda>k. legacy_id [] (uuids k)) A \<Longrightarrow> inj_on (\<lambda>k. legacy_id p (uuids k)) A"
  by (simp add: inj_on_def legacy_id_def)

lemma legacy_draw_total:
  assumes "inj_on (\<lambda>k. legacy_id [] (uuids k)) {n..n + N}" "length rows \<le> N"
  shows "\<exists>i m. first_unused (\<lambda>i. i \<in> set rows) (\<lambda>k. legacy_id p (uuids k)) n = Some (i, m)
    \<and> i \<notin> set rows \<and> m \<le> Suc (n + length rows)"
proof (rule first_unused_total)
  show "inj_on (\<lambda>k. legacy_id p (uuids k)) {n..n + length rows}"
    by (rule inj_on_subset [OF legacy_id_inj [OF assms(1)]]) (use assms(2) in auto)
qed simp

text \<open>
  C32: the loops that generate the identifiers of schools, principals, admins and teachers end:
  when the uuids of the next calls differ, as many of them as the largest table has rows and one
  more, each of the four loops returns an identifier its table does not have, after at most one
  draw more than the table has rows.
\<close>

theorem staff_ids_terminate:
  assumes "inj_on (\<lambda>k. legacy_id [] (uuids k)) {n..n + N}"
    and "length (it_schools db) \<le> N" "length (it_admin_ids db) \<le> N" "length (it_teacher_ids db) \<le> N"
  shows "(\<exists>i m. generate_school_id uuids n db = Some (i, m) \<and> i \<notin> set (it_schools db)
            \<and> m \<le> Suc (n + length (it_schools db)))
    \<and> (\<exists>i m. generate_principal_id uuids n db = Some (i, m) \<and> i \<notin> set (it_admin_ids db)
            \<and> m \<le> Suc (n + length (it_admin_ids db)))
    \<and> (\<exists>i m. generate_admin_id uuids n db = Some (i, m) \<and> i \<notin> set (it_admin_ids db)
            \<and> m \<le> Suc (n + length (it_admin_ids db)))
    \<and> (\<exists>i m. generate_teacher_id uuids n db = Some (i, m) \<and> i \<notin> set (it_teacher_ids db)
            \<and> m \<le> Suc (n + length (it_teacher_ids db)))"
  unfolding generate_school_id_def generate_principal_id_def generate_admin_id_def generate_teacher_id_def
  by (intro conjI legacy_draw_total [OF assms(1)] assms(2-4))

definition ex_uuids :: "nat \<Rightarrow> string" where
  "ex_uuids n = show_nat (n div 2) @ ''-'' @ show_nat (7 * n)"

definition ex_ids :: id_tables where
  "ex_ids = \<lparr>it_schools = [''AG-SCH-00'', ''AG-SCH-07''], it_admin_ids = [''AG-PR-00''], it_admin_public = [''AG-GR-AAAAAA''],
     it_teacher_ids = [], it_teacher_public = [], it_student_uids = [''AG-GR-26-AAAAAA''],
     it_student_public = [''AG-GR-BBBBBB'']\<rparr>"

lemma staff_ids_terminate_witness:
  "(\<exists>i m. generate_school_id ex_uuids 0 ex_ids = Some (i, m) \<and> i \<notin> set (it_schools ex_ids) \<and> m \<le> 3)
   \<and> generate_school_id ex_uuids 0 ex_ids = Some (''AG-SCH-114'', 3)"
proof
  have plain: "legacy_id [] (ex_uuids 0) = ''00''" "legacy_id [] (ex_uuids (Suc 0)) = ''07''"
    "legacy_id [] (ex_uuids (Suc (Suc 0))) = ''114''"
    by code_simp+
  have "{0..0 + 2::nat} = {0, Suc 0, Suc (Suc 0)}" by auto
  then have "inj_on (\<lambda>k. legacy_id [] (ex_uuids k)) {0..0 + 2}" by (simp add: plain)
  moreover have "length (it_schools ex_ids) \<le> 2" "length (it_admin_ids ex_ids) \<le> 2" "length (it_teacher_ids ex_ids) \<le> 2"
    by (simp_all add: ex_ids_def)
  moreover have "Suc (0 + length (it_schools ex_ids)) = 3" by (simp add: ex_ids_def)
  ultimately show "\<exists>i m. generate_school_id ex_uuids 0 ex_ids = Some (i, m) \<and> i \<notin> set (it_schools ex_ids) \<and> m \<le> 3"
    using staff_ids_terminate [of ex_uuids 0 2 ex_ids] by metis
  have draws: "legacy_id ''AG-SCH-'' (ex_uuids 0) = ''AG-SCH-00''" "legacy_id ''AG-SCH-'' (ex_uuids (Suc 0)) = ''AG-SCH-07''"
    "legacy_id ''AG-SCH-'' (ex_uuids (Suc (Suc 0))) = ''AG-SCH-114''"
    by code_simp+
  show "generate_school_id ex_uuids 0 ex_ids = Some (''AG-SCH-114'', 3)"
    unfolding generate_school_id_def
    by (simp add: first_unused.simps [of _ _ "0"] first_unused.simps [of _ _ "Suc 0"] first_unused.simps [of _ _ "Suc (Suc 0)"]
        draws ex_ids_def)
qed

text \<open>
  A student number is unused among the students and is one of the first fifty draws or, when all
  of them are taken, the uuid in the legacy format; the generation fails exactly when the fifty
  draws and the uuid are all taken.
\<close>

theorem student_uid_correct:
  "case generate_student_id env year name rnd uuid db of
     Inr uid \<Rightarrow> uid \<notin> set (it_student_uids db)
       \<and> ((\<exists>k<50. uid = student_uid env year name rnd k)
          \<or> uid = legacy_id ''AG-ST-'' uuid \<and> (\<forall>k<50. student_uid env year name rnd k \<in> set (it_student_uids db)))
   | Inl e \<Rightarrow> legacy_id ''AG-ST-'' uuid \<in> set (it_student_uids db)
       \<and> (\<forall>k<50. student_uid env year name rnd k \<in> set (it_student_uids db))"
proof (cases "draw_uid MAX_ATTEMPTS (\<lambda>u. u \<in> set (it_student_uids db)) (student_uid env year name rnd) 0")
  case None
  then have "\<forall>k<50. student_uid env year name rnd k \<in> set (it_student_uids db)"
    by (simp add: draw_uid_None MAX_ATTEMPTS_def)
  with None show ?thesis by (simp add: generate_student_id_def Let_def)
next
  case (Some u)
  from draw_uid_result [OF Some] show ?thesis
    using Some by (auto simp: generate_student_id_def MAX_ATTEMPTS_def)
qed

text \<open>
  A student number of a draw is \<open>AG-\<close>, two letters or digits, the two digits of the year and
  a suffix of four to ten letters or digits.
\<close>

lemma student_uid_shape:
  assumes "\<And>k. rnd k < 32"
  shows "\<exists>short suffix. student_uid env year name rnd k = ''AG-'' @ short @ ''-'' @ year_digits year @ ''-'' @ suffix
    \<and> length short = 2 \<and> length suffix \<in> {4..10} \<and> (\<forall>c\<in>set (short @ suffix). is_id_char c)"
proof (intro exI conjI)
  show "\<forall>c\<in>set (shorten_school_name name @ short_id rnd (k * suffix_length env) (suffix_length env)). is_id_char c"
    by (auto dest: shorten_chars short_id_chars_ok)
  show "length (short_id rnd (k * suffix_length env) (suffix_length env)) \<in> {4..10}"
    using suffix_bounds [of env] by (simp add: length_short_id [OF assms])
qed (simp_all add: student_uid_def)

text \<open>
  The loop of a public identifier returns exactly when one of the coming draws is unused among
  admins and teachers, and among students for a student; then its result is such a draw. So a
  public identifier of an admin or teacher may be the one of a student.
\<close>

theorem public_id_returns_iff:
  "(generate_public_id name kind rnd n db \<noteq> None \<longleftrightarrow> (\<exists>k. \<not> public_taken kind db (public_id name rnd (n + k))))
   \<and> (case generate_public_id name kind rnd n db of
        None \<Rightarrow> True
      | Some (i, m) \<Rightarrow> i \<notin> set (it_admin_public db) \<and> i \<notin> set (it_teacher_public db)
          \<and> (kind \<noteq> KIND_STUDENT \<or> i \<notin> set (it_student_public db)) \<and> i = public_id name rnd (m - 1))"
proof
  show "generate_public_id name kind rnd n db \<noteq> None \<longleftrightarrow> (\<exists>k. \<not> public_taken kind db (public_id name rnd (n + k)))"
  proof
    assume "generate_public_id name kind rnd n db \<noteq> None"
    then show "\<exists>k. \<not> public_taken kind db (public_id name rnd (n + k))"
      using first_unused_endless [of n "public_taken kind db" "public_id name rnd"]
      unfolding generate_public_id_def by (metis le_Suc_ex)
  next
    assume "\<exists>k. \<not> public_taken kind db (public_id name rnd (n + k))"
    then obtain k where "\<not> public_taken kind db (public_id name rnd (n + k))" by blast
    from first_unused_stops [where taken = "public_taken kind db" and draw = "public_id name rnd" and n = n and k = k, OF this]
    show "generate_public_id name kind rnd n db \<noteq> None"
      by (auto simp: generate_public_id_def)
  qed
  show "case generate_public_id name kind rnd n db of
        None \<Rightarrow> True
      | Some (i, m) \<Rightarrow> i \<notin> set (it_admin_public db) \<and> i \<notin> set (it_teacher_public db)
          \<and> (kind \<noteq> KIND_STUDENT \<or> i \<notin> set (it_student_public db)) \<and> i = public_id name rnd (m - 1)"
  proof (cases "generate_public_id name kind rnd n db")
    case (Some r)
    then have "first_unused (public_taken kind db) (public_id name rnd) n = Some r" by (simp add: generate_public_id_def)
    from first_unused_result [OF this] Some show ?thesis by (cases r) (auto simp: public_taken_def)
  qed simp
qed

end
