(* ===== verification/Settings.thy ===== *)
theory Settings
  imports Permissions SchoolTables OpMonad
begin

text \<open>
  The settings of a school, \<open>src/src/school-settings/\<close>: nine policy tables with one row a
  school, created with its defaults on the first use, and the partial updates of its sections; bell
  schedules, holiday presets, role templates, fee schedules and the fees made from them. A partial
  update is the list of the columns it has. The controller does not validate the body of a section
  update, so in the sections that hand the body to the database it may have the column \<open>schoolId\<close>
  as well (\<open>TakeSchool\<close>). JSON columns are their text, decimals rationals.
\<close>

section \<open>Policy tables\<close>

datatype naming_mode = NAMING_STANDARD | NAMING_CUSTOM
datatype registry_mode = AGORA_DEFAULT | AGORA_PLUS_CUSTOM | CUSTOM_ONLY
datatype scope_mode = SCOPE_ASSIGNED_ONLY | SCOPE_ALL_SCHOOL
datatype scale_type = SCALE_PERCENTAGE | SCALE_A1_F9 | SCALE_CUSTOM
datatype templates_mode = MODE_SCHOOL_TEMPLATES | MODE_TEACHER_DISCRETION
datatype release_mode = RELEASE_MANUAL | RELEASE_AFTER_LOCK | RELEASE_ON_TERM_END
datatype transfer_mode = TRANSFER_MANUAL_REVIEW | TRANSFER_AUTO_ACCEPT | TRANSFER_DISABLED
datatype curriculum_mode = SOURCE_AGORA_NATIONAL | SOURCE_SCHOOL_UPLOAD | SOURCE_MERGED

record structure_config =
  sg_school :: ident
  sg_terms :: "string option"
  sg_arm_names :: "string list"
  sg_naming :: naming_mode
  sg_registry :: registry_mode
  sg_subjects :: "ident list"
  sg_faculty :: bool
  sg_scope :: scope_mode
  sg_roles :: "string list"
  sg_admission_roles :: "string list"
  sg_transfer_roles :: "string list"

record grading_settings =
  gs_school :: ident
  gs_scale :: scale_type
  gs_bands :: "string option"
  gs_pass_mark :: rat
  gs_ca_weight :: rat
  gs_exam_weight :: rat
  gs_due_penalty :: rat
  gs_timer_penalty :: rat
  gs_integrity :: bool
  gs_threshold :: int
  gs_points :: rat
  gs_after_due :: bool
  gs_after_timer :: bool
  gs_templates_mode :: templates_mode
  gs_lock_days :: int
  gs_release :: release_mode
  gs_approval :: bool
  gs_approver_roles :: "string list"
  gs_exam_attendance :: rat

record form_field =
  ff_key :: string
  ff_label :: string
  ff_required :: bool
  ff_visible :: bool

record document_field =
  df_key :: string
  df_label :: string
  df_required :: bool
  df_description :: string

record admission_settings =
  ad_school :: ident
  ad_open :: bool
  ad_deadline :: "date option"
  ad_tac_days :: int
  ad_transfer :: transfer_mode
  ad_fields :: "form_field list"
  ad_documents :: "document_field list"

record timetable_settings =
  ts_school :: ident
  ts_period_minutes :: int
  ts_max_periods :: int
  ts_capacity_warning :: bool
  ts_exam_blackout :: bool
  ts_substitute_roles :: "string list"

record attendance_settings =
  ap_school :: ident
  ap_window_hours :: int
  ap_statuses :: "string list"
  ap_minimum :: rat
  ap_channels :: "string list"
  ap_edit_roles :: "string list"

record notification_settings =
  ns_school :: ident
  ns_sender :: "string option"
  ns_channels :: "string list"
  ns_triggers :: "(string \<times> bool) list"
  ns_quiet_start :: "string option"
  ns_quiet_end :: "string option"
  ns_zone :: string

record finance_settings =
  fs_school :: ident
  fs_methods :: "string list"
  fs_visible :: bool

record curriculum_settings =
  cs_school :: ident
  cs_source :: curriculum_mode
  cs_approval :: bool
  cs_approvers :: "string list"
  cs_teacher_limit :: "int option"
  cs_department_limit :: "int option"
  cs_overrides :: "string option"

record security_settings =
  sy_school :: ident
  sy_timeout :: int
  sy_min_length :: int
  sy_special :: bool
  sy_reset_days :: int
  sy_audit_days :: int
  sy_alumni_years :: int
  sy_photo_consent :: bool
  sy_email_check :: bool

section \<open>Defaults\<close>

definition visible_field :: "string \<Rightarrow> string \<Rightarrow> bool \<Rightarrow> form_field" where
  "visible_field key label required = \<lparr>ff_key = key, ff_label = label, ff_required = required, ff_visible = True\<rparr>"

definition DEFAULT_ADMISSION_FORM_FIELDS :: "form_field list" where
  "DEFAULT_ADMISSION_FORM_FIELDS =
     [visible_field ''firstName'' ''First Name'' True, visible_field ''lastName'' ''Last Name'' True,
      visible_field ''middleName'' ''Middle Name'' False, visible_field ''email'' ''Email'' True,
      visible_field ''phone'' ''Phone'' False, visible_field ''dateOfBirth'' ''Date of Birth'' True,
      visible_field ''gender'' ''Gender'' True, visible_field ''address'' ''Address'' False,
      visible_field ''nationality'' ''Nationality'' True, visible_field ''state'' ''State'' True,
      visible_field ''parentName'' ''Parent/Guardian Name'' True, visible_field ''parentPhone'' ''Parent Phone'' True,
      visible_field ''parentEmail'' ''Parent Email'' False, visible_field ''parentRelationship'' ''Relationship'' True,
      visible_field ''bloodGroup'' ''Blood Group'' False, visible_field ''allergies'' ''Allergies'' False,
      visible_field ''medications'' ''Medications'' False, visible_field ''emergencyContact'' ''Emergency Contact'' False,
      visible_field ''emergencyContactPhone'' ''Emergency Contact Phone'' False,
      visible_field ''medicalNotes'' ''Medical Notes'' False]"

definition DEFAULT_DOCUMENT_REQUIREMENTS :: "document_field list" where
  "DEFAULT_DOCUMENT_REQUIREMENTS =
     [\<lparr>df_key = ''birth_certificate'', df_label = ''Birth Certificate'', df_required = False,
       df_description = ''Upload a copy of birth certificate''\<rparr>,
      \<lparr>df_key = ''previous_report'', df_label = ''Previous Report Card'', df_required = False,
       df_description = ''Most recent academic report''\<rparr>]"

definition DEFAULT_EVENT_TRIGGERS :: "(string \<times> bool) list" where
  "DEFAULT_EVENT_TRIGGERS =
     [(''GRADE_PUBLISHED'', True), (''ABSENCE'', True), (''TRANSFER_APPROVED'', True), (''FEE_DUE'', True),
      (''ADMISSION_RECEIVED'', True), (''SESSION_STARTED'', False)]"

definition DEFAULT_STRUCTURE_CONFIG :: "ident \<Rightarrow> structure_config" where
  "DEFAULT_STRUCTURE_CONFIG i =
     \<lparr>sg_school = i, sg_terms = None, sg_arm_names = [''A'', ''B'', ''C''], sg_naming = NAMING_STANDARD,
      sg_registry = AGORA_PLUS_CUSTOM, sg_subjects = [], sg_faculty = True, sg_scope = SCOPE_ASSIGNED_ONLY,
      sg_roles = [], sg_admission_roles = [], sg_transfer_roles = []\<rparr>"

definition DEFAULT_GRADING_POLICY :: "ident \<Rightarrow> grading_settings" where
  "DEFAULT_GRADING_POLICY i =
     \<lparr>gs_school = i, gs_scale = SCALE_PERCENTAGE, gs_bands = None, gs_pass_mark = 40, gs_ca_weight = 40,
      gs_exam_weight = 60, gs_due_penalty = 0, gs_timer_penalty = 0, gs_integrity = False, gs_threshold = 1,
      gs_points = 0, gs_after_due = False, gs_after_timer = False, gs_templates_mode = MODE_TEACHER_DISCRETION,
      gs_lock_days = 7, gs_release = RELEASE_MANUAL, gs_approval = False, gs_approver_roles = [],
      gs_exam_attendance = 75\<rparr>"

definition DEFAULT_ADMISSION_POLICY :: "ident \<Rightarrow> admission_settings" where
  "DEFAULT_ADMISSION_POLICY i =
     \<lparr>ad_school = i, ad_open = True, ad_deadline = None, ad_tac_days = 30, ad_transfer = TRANSFER_MANUAL_REVIEW,
      ad_fields = DEFAULT_ADMISSION_FORM_FIELDS, ad_documents = DEFAULT_DOCUMENT_REQUIREMENTS\<rparr>"

definition DEFAULT_TIMETABLE_POLICY :: "ident \<Rightarrow> timetable_settings" where
  "DEFAULT_TIMETABLE_POLICY i =
     \<lparr>ts_school = i, ts_period_minutes = 40, ts_max_periods = 6, ts_capacity_warning = True,
      ts_exam_blackout = True, ts_substitute_roles = []\<rparr>"

definition DEFAULT_ATTENDANCE_POLICY :: "ident \<Rightarrow> attendance_settings" where
  "DEFAULT_ATTENDANCE_POLICY i =
     \<lparr>ap_school = i, ap_window_hours = 24, ap_statuses = [''PRESENT'', ''ABSENT'', ''LATE'', ''EXCUSED'', ''SICK''],
      ap_minimum = 75, ap_channels = [''EMAIL'', ''IN_APP''], ap_edit_roles = [''TEACHER'', ''ADMIN'']\<rparr>"

definition DEFAULT_NOTIFICATION_POLICY :: "ident \<Rightarrow> notification_settings" where
  "DEFAULT_NOTIFICATION_POLICY i =
     \<lparr>ns_school = i, ns_sender = None, ns_channels = [''EMAIL'', ''IN_APP'', ''PUSH''], ns_triggers = DEFAULT_EVENT_TRIGGERS,
      ns_quiet_start = None, ns_quiet_end = None, ns_zone = ''Africa/Lagos''\<rparr>"

definition DEFAULT_FINANCE_POLICY :: "ident \<Rightarrow> finance_settings" where
  "DEFAULT_FINANCE_POLICY i =
     \<lparr>fs_school = i, fs_methods = [''BANK_TRANSFER'', ''PAYSTACK'', ''CASH''], fs_visible = False\<rparr>"

definition DEFAULT_CURRICULUM_POLICY :: "ident \<Rightarrow> curriculum_settings" where
  "DEFAULT_CURRICULUM_POLICY i =
     \<lparr>cs_school = i, cs_source = SOURCE_MERGED, cs_approval = False, cs_approvers = [], cs_teacher_limit = None,
      cs_department_limit = None, cs_overrides = None\<rparr>"

definition DEFAULT_SECURITY_POLICY :: "ident \<Rightarrow> security_settings" where
  "DEFAULT_SECURITY_POLICY i =
     \<lparr>sy_school = i, sy_timeout = 480, sy_min_length = 8, sy_special = True, sy_reset_days = 90, sy_audit_days = 365,
      sy_alumni_years = 7, sy_photo_consent = False, sy_email_check = True\<rparr>"

section \<open>Partial updates\<close>

text \<open>The columns that \<open>updateStructure\<close> and \<open>updatePermissions\<close> take from the body.\<close>

datatype structure_change =
    PutTerms "string option" | PutArmNames "string list" | PutNaming naming_mode | PutRegistry registry_mode
  | PutSubjects "ident list" | PutFaculty bool | PutScope scope_mode | PutRoles "string list"
  | PutAdmissionRoles "string list" | PutTransferRoles "string list"

primrec change_structure :: "structure_change \<Rightarrow> structure_config \<Rightarrow> structure_config" where
  "change_structure (PutTerms t) r = r\<lparr>sg_terms := t\<rparr>"
| "change_structure (PutArmNames ns) r = r\<lparr>sg_arm_names := ns\<rparr>"
| "change_structure (PutNaming n) r = r\<lparr>sg_naming := n\<rparr>"
| "change_structure (PutRegistry n) r = r\<lparr>sg_registry := n\<rparr>"
| "change_structure (PutSubjects ss) r = r\<lparr>sg_subjects := ss\<rparr>"
| "change_structure (PutFaculty b) r = r\<lparr>sg_faculty := b\<rparr>"
| "change_structure (PutScope s) r = r\<lparr>sg_scope := s\<rparr>"
| "change_structure (PutRoles rs) r = r\<lparr>sg_roles := rs\<rparr>"
| "change_structure (PutAdmissionRoles rs) r = r\<lparr>sg_admission_roles := rs\<rparr>"
| "change_structure (PutTransferRoles rs) r = r\<lparr>sg_transfer_roles := rs\<rparr>"

definition permission_column :: "structure_change \<Rightarrow> bool" where
  "permission_column c =
     (case c of PutRoles _ \<Rightarrow> True | PutScope _ \<Rightarrow> True | PutAdmissionRoles _ \<Rightarrow> True | PutTransferRoles _ \<Rightarrow> True
      | _ \<Rightarrow> False)"

text \<open>\<open>updateAdmissions\<close>; a null deadline is kept apart from an absent one.\<close>

datatype admission_change =
    PutOpen bool | PutDeadline "date option" | PutTacDays int | PutTransferMode transfer_mode
  | PutFields "form_field list" | PutDocuments "document_field list"

primrec change_admission :: "admission_change \<Rightarrow> admission_settings \<Rightarrow> admission_settings" where
  "change_admission (PutOpen b) r = r\<lparr>ad_open := b\<rparr>"
| "change_admission (PutDeadline d) r = r\<lparr>ad_deadline := d\<rparr>"
| "change_admission (PutTacDays n) r = r\<lparr>ad_tac_days := n\<rparr>"
| "change_admission (PutTransferMode m) r = r\<lparr>ad_transfer := m\<rparr>"
| "change_admission (PutFields fs) r = r\<lparr>ad_fields := fs\<rparr>"
| "change_admission (PutDocuments ds) r = r\<lparr>ad_documents := ds\<rparr>"

text \<open>
  The sections whose body goes to the database as it is may have every column, also \<open>schoolId\<close>.
\<close>

datatype grading_change =
    TakeGrading ident | PutScale scale_type | PutBands "string option" | PutPassMark rat | PutCaWeight rat
  | PutExamWeight rat | PutDuePenalty rat | PutTimerPenalty rat | PutIntegrity bool | PutThreshold int
  | PutPoints rat | PutAfterDue bool | PutAfterTimer bool | PutTemplatesMode templates_mode | PutLockDays int
  | PutRelease release_mode | PutGradeApproval bool | PutGradeApprovers "string list" | PutExamAttendance rat

primrec change_grading :: "grading_change \<Rightarrow> grading_settings \<Rightarrow> grading_settings" where
  "change_grading (TakeGrading i) r = r\<lparr>gs_school := i\<rparr>"
| "change_grading (PutScale x) r = r\<lparr>gs_scale := x\<rparr>"
| "change_grading (PutBands x) r = r\<lparr>gs_bands := x\<rparr>"
| "change_grading (PutPassMark x) r = r\<lparr>gs_pass_mark := x\<rparr>"
| "change_grading (PutCaWeight x) r = r\<lparr>gs_ca_weight := x\<rparr>"
| "change_grading (PutExamWeight x) r = r\<lparr>gs_exam_weight := x\<rparr>"
| "change_grading (PutDuePenalty x) r = r\<lparr>gs_due_penalty := x\<rparr>"
| "change_grading (PutTimerPenalty x) r = r\<lparr>gs_timer_penalty := x\<rparr>"
| "change_grading (PutIntegrity x) r = r\<lparr>gs_integrity := x\<rparr>"
| "change_grading (PutThreshold x) r = r\<lparr>gs_threshold := x\<rparr>"
| "change_grading (PutPoints x) r = r\<lparr>gs_points := x\<rparr>"
| "change_grading (PutAfterDue x) r = r\<lparr>gs_after_due := x\<rparr>"
| "change_grading (PutAfterTimer x) r = r\<lparr>gs_after_timer := x\<rparr>"
| "change_grading (PutTemplatesMode x) r = r\<lparr>gs_templates_mode := x\<rparr>"
| "change_grading (PutLockDays x) r = r\<lparr>gs_lock_days := x\<rparr>"
| "change_grading (PutRelease x) r = r\<lparr>gs_release := x\<rparr>"
| "change_grading (PutGradeApproval x) r = r\<lparr>gs_approval := x\<rparr>"
| "change_grading (PutGradeApprovers x) r = r\<lparr>gs_approver_roles := x\<rparr>"
| "change_grading (PutExamAttendance x) r = r\<lparr>gs_exam_attendance := x\<rparr>"

datatype timetable_change =
    TakeTimetable ident | PutPeriodMinutes int | PutMaxPeriods int | PutCapacityWarning bool | PutExamBlackout bool
  | PutSubstituteRoles "string list"

primrec change_timetable :: "timetable_change \<Rightarrow> timetable_settings \<Rightarrow> timetable_settings" where
  "change_timetable (TakeTimetable i) r = r\<lparr>ts_school := i\<rparr>"
| "change_timetable (PutPeriodMinutes x) r = r\<lparr>ts_period_minutes := x\<rparr>"
| "change_timetable (PutMaxPeriods x) r = r\<lparr>ts_max_periods := x\<rparr>"
| "change_timetable (PutCapacityWarning x) r = r\<lparr>ts_capacity_warning := x\<rparr>"
| "change_timetable (PutExamBlackout x) r = r\<lparr>ts_exam_blackout := x\<rparr>"
| "change_timetable (PutSubstituteRoles x) r = r\<lparr>ts_substitute_roles := x\<rparr>"

datatype attendance_change =
    TakeAttendance ident | PutWindowHours int | PutStatuses "string list" | PutMinimum rat | PutChannels "string list"
  | PutEditRoles "string list"

primrec change_attendance :: "attendance_change \<Rightarrow> attendance_settings \<Rightarrow> attendance_settings" where
  "change_attendance (TakeAttendance i) r = r\<lparr>ap_school := i\<rparr>"
| "change_attendance (PutWindowHours x) r = r\<lparr>ap_window_hours := x\<rparr>"
| "change_attendance (PutStatuses x) r = r\<lparr>ap_statuses := x\<rparr>"
| "change_attendance (PutMinimum x) r = r\<lparr>ap_minimum := x\<rparr>"
| "change_attendance (PutChannels x) r = r\<lparr>ap_channels := x\<rparr>"
| "change_attendance (PutEditRoles x) r = r\<lparr>ap_edit_roles := x\<rparr>"

datatype notification_change =
    TakeNotification ident | PutSender "string option" | PutEnabled "string list" | PutTriggers "(string \<times> bool) list"
  | PutQuietStart "string option" | PutQuietEnd "string option" | PutZone string

primrec change_notification :: "notification_change \<Rightarrow> notification_settings \<Rightarrow> notification_settings" where
  "change_notification (TakeNotification i) r = r\<lparr>ns_school := i\<rparr>"
| "change_notification (PutSender x) r = r\<lparr>ns_sender := x\<rparr>"
| "change_notification (PutEnabled x) r = r\<lparr>ns_channels := x\<rparr>"
| "change_notification (PutTriggers x) r = r\<lparr>ns_triggers := x\<rparr>"
| "change_notification (PutQuietStart x) r = r\<lparr>ns_quiet_start := x\<rparr>"
| "change_notification (PutQuietEnd x) r = r\<lparr>ns_quiet_end := x\<rparr>"
| "change_notification (PutZone x) r = r\<lparr>ns_zone := x\<rparr>"

datatype finance_change = TakeFinance ident | PutMethods "string list" | PutFeeVisible bool

primrec change_finance :: "finance_change \<Rightarrow> finance_settings \<Rightarrow> finance_settings" where
  "change_finance (TakeFinance i) r = r\<lparr>fs_school := i\<rparr>"
| "change_finance (PutMethods x) r = r\<lparr>fs_methods := x\<rparr>"
| "change_finance (PutFeeVisible x) r = r\<lparr>fs_visible := x\<rparr>"

datatype curriculum_change =
    TakeCurriculum ident | PutSource curriculum_mode | PutSchemeApproval bool | PutSchemeApprovers "string list"
  | PutTeacherLimit "int option" | PutDepartmentLimit "int option" | PutOverrides "string option"

primrec change_curriculum :: "curriculum_change \<Rightarrow> curriculum_settings \<Rightarrow> curriculum_settings" where
  "change_curriculum (TakeCurriculum i) r = r\<lparr>cs_school := i\<rparr>"
| "change_curriculum (PutSource x) r = r\<lparr>cs_source := x\<rparr>"
| "change_curriculum (PutSchemeApproval x) r = r\<lparr>cs_approval := x\<rparr>"
| "change_curriculum (PutSchemeApprovers x) r = r\<lparr>cs_approvers := x\<rparr>"
| "change_curriculum (PutTeacherLimit x) r = r\<lparr>cs_teacher_limit := x\<rparr>"
| "change_curriculum (PutDepartmentLimit x) r = r\<lparr>cs_department_limit := x\<rparr>"
| "change_curriculum (PutOverrides x) r = r\<lparr>cs_overrides := x\<rparr>"

datatype security_change =
    TakeSecurity ident | PutTimeout int | PutMinLength int | PutSpecial bool | PutResetDays int | PutAuditDays int
  | PutAlumniYears int | PutPhotoConsent bool | PutEmailCheck bool

primrec change_security :: "security_change \<Rightarrow> security_settings \<Rightarrow> security_settings" where
  "change_security (TakeSecurity i) r = r\<lparr>sy_school := i\<rparr>"
| "change_security (PutTimeout x) r = r\<lparr>sy_timeout := x\<rparr>"
| "change_security (PutMinLength x) r = r\<lparr>sy_min_length := x\<rparr>"
| "change_security (PutSpecial x) r = r\<lparr>sy_special := x\<rparr>"
| "change_security (PutResetDays x) r = r\<lparr>sy_reset_days := x\<rparr>"
| "change_security (PutAuditDays x) r = r\<lparr>sy_audit_days := x\<rparr>"
| "change_security (PutAlumniYears x) r = r\<lparr>sy_alumni_years := x\<rparr>"
| "change_security (PutPhotoConsent x) r = r\<lparr>sy_photo_consent := x\<rparr>"
| "change_security (PutEmailCheck x) r = r\<lparr>sy_email_check := x\<rparr>"

section \<open>State\<close>

record bell_row =
  be_id :: ident
  be_school :: ident
  be_type :: string
  be_periods :: string
  be_default :: bool

record preset_row =
  hp_id :: ident
  hp_school :: ident
  hp_name :: string
  hp_start :: date
  hp_end :: date
  hp_rule :: "string option"
  hp_type :: "string option"

record grade_template =
  gt_id :: ident
  gt_school :: ident
  gt_name :: string
  gt_subject :: "ident option"
  gt_school_type :: "string option"
  gt_type :: string
  gt_max :: rat
  gt_weight :: "rat option"
  gt_sequence :: "int option"
  gt_description :: "string option"
  gt_active :: bool

record fee_category =
  fc_id :: ident
  fc_school :: ident
  fc_name :: string
  fc_description :: "string option"
  fc_active :: bool

record fee_schedule =
  fl_id :: ident
  fl_school :: ident
  fl_category :: ident
  fl_level :: "ident option"
  fl_term :: "ident option"
  fl_amount :: rat
  fl_due :: date
  fl_grace_days :: int
  fl_penalty :: rat

record fee_row =
  fe_id :: ident
  fe_enrolment :: ident
  fe_school :: ident
  fe_description :: string
  fe_amount :: rat
  fe_due :: date
  fe_schedule :: "ident option"
  fe_status :: string

record holiday_row =
  ho_id :: ident
  ho_school :: ident
  ho_title :: string
  ho_text :: string
  ho_start :: date
  ho_end :: date

record settings_db =
  sb_structure :: "structure_config list"
  sb_grading :: "grading_settings list"
  sb_admission :: "admission_settings list"
  sb_timetable :: "timetable_settings list"
  sb_attendance :: "attendance_settings list"
  sb_notification :: "notification_settings list"
  sb_finance :: "finance_settings list"
  sb_curriculum :: "curriculum_settings list"
  sb_security :: "security_settings list"
  sb_working :: "(ident \<times> working_day list) list"
  sb_bells :: "bell_row list"
  sb_presets :: "preset_row list"
  sb_holidays :: "holiday_row list"
  sb_templates :: "grade_template list"
  sb_categories :: "fee_category list"
  sb_schedules :: "fee_schedule list"
  sb_fees :: "fee_row list"
  sb_perm :: perm_db
  sb_base :: session_db

section \<open>A policy table\<close>

text \<open>\<open>upsert({ where: { schoolId }, create: { schoolId, ...defaults }, update: {} })\<close>.\<close>

definition ensure_row :: "('r \<Rightarrow> ident) \<Rightarrow> 'r \<Rightarrow> 'r list \<Rightarrow> 'r list" where
  "ensure_row school d rows = (if list_ex (\<lambda>r. school r = school d) rows then rows else rows @ [d])"

definition policy_of :: "('r \<Rightarrow> ident) \<Rightarrow> ident \<Rightarrow> 'r list \<Rightarrow> 'r option" where
  "policy_of school i rows = find (\<lambda>r. school r = i) rows"

text \<open>
  \<open>update({ where: { schoolId }, data })\<close>: the column is unique, so a row cannot take the school
  of another.
\<close>

definition update_policy ::
  "('r \<Rightarrow> ident) \<Rightarrow> ident \<Rightarrow> ('r \<Rightarrow> 'r) \<Rightarrow> 'r list \<Rightarrow> http_error + 'r \<times> 'r list" where
  "update_policy school i f rows =
     (case policy_of school i rows of
        None \<Rightarrow> Inl (JsError ''Record to update not found'')
      | Some r \<Rightarrow>
          if school (f r) \<noteq> i \<and> policy_of school (school (f r)) rows \<noteq> None then Inl unique_error
          else Inr (f r, update_first (\<lambda>r. school r = i) f rows))"

definition put_table ::
  "('r list \<Rightarrow> http_error + 'r \<times> 'r list) \<Rightarrow> (settings_db \<Rightarrow> 'r list) \<Rightarrow> (('r list \<Rightarrow> 'r list) \<Rightarrow> settings_db \<Rightarrow> settings_db)
    \<Rightarrow> (settings_db, 'r) op" where
  "put_table u get put =
     (\<lambda>db. case u (get db) of Inl e \<Rightarrow> (Inl e, db) | Inr (r, rows) \<Rightarrow> (Inr r, put (\<lambda>_. rows) db))"

section \<open>Defaults on first use\<close>

definition with_defaults :: "ident \<Rightarrow> settings_db \<Rightarrow> settings_db" where
  "with_defaults i db =
     db\<lparr>sb_structure := ensure_row sg_school (DEFAULT_STRUCTURE_CONFIG i) (sb_structure db),
        sb_grading := ensure_row gs_school (DEFAULT_GRADING_POLICY i) (sb_grading db),
        sb_admission := ensure_row ad_school (DEFAULT_ADMISSION_POLICY i) (sb_admission db),
        sb_timetable := ensure_row ts_school (DEFAULT_TIMETABLE_POLICY i) (sb_timetable db),
        sb_attendance := ensure_row ap_school (DEFAULT_ATTENDANCE_POLICY i) (sb_attendance db),
        sb_notification := ensure_row ns_school (DEFAULT_NOTIFICATION_POLICY i) (sb_notification db),
        sb_finance := ensure_row fs_school (DEFAULT_FINANCE_POLICY i) (sb_finance db),
        sb_curriculum := ensure_row cs_school (DEFAULT_CURRICULUM_POLICY i) (sb_curriculum db),
        sb_security := ensure_row sy_school (DEFAULT_SECURITY_POLICY i) (sb_security db)\<rparr>"

definition ensure_defaults :: "ident \<Rightarrow> (settings_db, unit) op" where
  "ensure_defaults i =
     op_then (op_require (i \<noteq> []) (BadRequest ''School context is required to load settings.''))
       (op_modify (with_defaults i))"

text \<open>A policy of a school, as the other services read it.\<close>

definition stored_policy :: "(settings_db \<Rightarrow> 'r list) \<Rightarrow> ('r \<Rightarrow> ident) \<Rightarrow> ident \<Rightarrow> (settings_db, 'r) op" where
  "stored_policy get school i =
     op_then (ensure_defaults i)
       (op_lift (\<lambda>db. case policy_of school i (get db) of None \<Rightarrow> Inl (JsError ''No record found'') | Some r \<Rightarrow> Inr r))"

definition get_attendance_policy :: "ident \<Rightarrow> (settings_db, attendance_settings) op" where
  "get_attendance_policy i = stored_policy sb_attendance ap_school i"

definition get_grading_policy :: "ident \<Rightarrow> (settings_db, grading_settings) op" where
  "get_grading_policy i = stored_policy sb_grading gs_school i"

definition get_admission_policy :: "ident \<Rightarrow> (settings_db, admission_settings) op" where
  "get_admission_policy i = stored_policy sb_admission ad_school i"

definition get_timetable_policy :: "ident \<Rightarrow> (settings_db, timetable_settings) op" where
  "get_timetable_policy i = stored_policy sb_timetable ts_school i"

definition get_notification_policy :: "ident \<Rightarrow> (settings_db, notification_settings) op" where
  "get_notification_policy i = stored_policy sb_notification ns_school i"

definition get_curriculum_policy :: "ident \<Rightarrow> (settings_db, curriculum_settings) op" where
  "get_curriculum_policy i = stored_policy sb_curriculum cs_school i"

definition get_security_policy :: "ident \<Rightarrow> (settings_db, security_settings) op" where
  "get_security_policy i = stored_policy sb_security sy_school i"

definition get_structure_config :: "ident \<Rightarrow> (settings_db, structure_config) op" where
  "get_structure_config i = stored_policy sb_structure sg_school i"

definition get_bell_schedule_for_type :: "ident \<Rightarrow> string \<Rightarrow> settings_db \<Rightarrow> bell_row option" where
  "get_bell_schedule_for_type i ty db = find (\<lambda>b. be_school b = i \<and> be_type b = ty \<and> be_default b) (sb_bells db)"

definition get_working_days :: "ident \<Rightarrow> settings_db \<Rightarrow> http_error + working_day list" where
  "get_working_days i db =
     (case map_of (sb_working db) i of None \<Rightarrow> Inl (JsError ''No record found'') | Some ds \<Rightarrow> Inr ds)"

section \<open>Updates of a section\<close>

definition update_structure :: "ident \<Rightarrow> structure_change list \<Rightarrow> (settings_db, structure_config) op" where
  "update_structure i cs =
     put_table (update_policy sg_school i (fold change_structure cs)) sb_structure sb_structure_update"

definition update_calendar :: "ident \<Rightarrow> working_day list option \<Rightarrow> (settings_db, unit) op" where
  "update_calendar i days =
     (if nullish days [] = [] then op_ret ()
      else op_then (op_guard (\<lambda>db. [(map_of (sb_working db) i = None, JsError ''Record to update not found'')]))
        (op_modify (\<lambda>db. db\<lparr>sb_working := map (\<lambda>(j, ds). (j, if j = i then nullish days [] else ds)) (sb_working db)\<rparr>)))"

definition update_grading :: "ident \<Rightarrow> grading_change list \<Rightarrow> (settings_db, grading_settings) op" where
  "update_grading i cs = put_table (update_policy gs_school i (fold change_grading cs)) sb_grading sb_grading_update"

definition update_permissions :: "ident \<Rightarrow> structure_change list \<Rightarrow> (settings_db, structure_config) op" where
  "update_permissions i cs = update_structure i (filter permission_column cs)"

definition update_admissions :: "ident \<Rightarrow> admission_change list \<Rightarrow> (settings_db, admission_settings) op" where
  "update_admissions i cs =
     put_table (update_policy ad_school i (fold change_admission cs)) sb_admission sb_admission_update"

record bell_dto =
  bx_id :: "ident option"
  bx_type :: string
  bx_periods :: string
  bx_default :: "bool option"

definition put_bell :: "ident \<Rightarrow> ident \<Rightarrow> bell_dto \<Rightarrow> (settings_db, unit) op" where
  "put_bell new_id i t =
     (if truthy (bx_id t) then
        op_then (op_guard (\<lambda>db. [(find (\<lambda>b. Some (be_id b) = bx_id t) (sb_bells db) = None, JsError ''Record to update not found'')]))
          (op_modify (\<lambda>db. db\<lparr>sb_bells := update_first (\<lambda>b. Some (be_id b) = bx_id t)
             (\<lambda>b. b\<lparr>be_periods := bx_periods t, be_default := nullish (bx_default t) True\<rparr>) (sb_bells db)\<rparr>))
      else op_modify (\<lambda>db. db\<lparr>sb_bells := sb_bells db @
        [\<lparr>be_id = new_id, be_school = i, be_type = bx_type t, be_periods = bx_periods t, be_default = nullish (bx_default t) True\<rparr>]\<rparr>))"

fun put_bells :: "(nat \<Rightarrow> ident) \<Rightarrow> nat \<Rightarrow> ident \<Rightarrow> bell_dto list \<Rightarrow> (settings_db, unit) op" where
  "put_bells ids n i [] = op_ret ()"
| "put_bells ids n i (t # ts) = op_then (put_bell (ids n) i t) (put_bells ids (Suc n) i ts)"

definition update_timetable ::
  "(nat \<Rightarrow> ident) \<Rightarrow> ident \<Rightarrow> timetable_change list \<Rightarrow> bell_dto list \<Rightarrow> (settings_db, unit) op" where
  "update_timetable ids i cs bells =
     op_bind (put_table (update_policy ts_school i (fold change_timetable cs)) sb_timetable sb_timetable_update) (\<lambda>_.
       put_bells ids 0 i bells)"

definition update_attendance :: "ident \<Rightarrow> attendance_change list \<Rightarrow> (settings_db, attendance_settings) op" where
  "update_attendance i cs =
     put_table (update_policy ap_school i (fold change_attendance cs)) sb_attendance sb_attendance_update"

definition update_communications :: "ident \<Rightarrow> notification_change list \<Rightarrow> (settings_db, notification_settings) op" where
  "update_communications i cs =
     put_table (update_policy ns_school i (fold change_notification cs)) sb_notification sb_notification_update"

definition update_finance :: "ident \<Rightarrow> finance_change list \<Rightarrow> (settings_db, finance_settings) op" where
  "update_finance i cs = put_table (update_policy fs_school i (fold change_finance cs)) sb_finance sb_finance_update"

definition update_curriculum :: "ident \<Rightarrow> curriculum_change list \<Rightarrow> (settings_db, curriculum_settings) op" where
  "update_curriculum i cs =
     put_table (update_policy cs_school i (fold change_curriculum cs)) sb_curriculum sb_curriculum_update"

definition update_security :: "ident \<Rightarrow> security_change list \<Rightarrow> (settings_db, security_settings) op" where
  "update_security i cs = put_table (update_policy sy_school i (fold change_security cs)) sb_security sb_security_update"

datatype section_update =
    Structure_section "structure_change list"
  | Calendar_section "working_day list option"
  | Grading_section "grading_change list"
  | Permissions_section "structure_change list"
  | Admissions_section "admission_change list"
  | Timetable_section "timetable_change list" "bell_dto list"
  | Attendance_section "attendance_change list"
  | Communications_section "notification_change list"
  | Finance_section "finance_change list"
  | Curriculum_section "curriculum_change list"
  | Security_section "security_change list"

definition discard :: "('s, 'a) op \<Rightarrow> ('s, unit) op" where
  "discard m = op_bind m (\<lambda>_. op_ret ())"

text \<open>The answer, the new row or the section read again, is left out.\<close>

definition update_section :: "(nat \<Rightarrow> ident) \<Rightarrow> ident \<Rightarrow> section_update \<Rightarrow> (settings_db, unit) op" where
  "update_section ids i u =
     op_then (ensure_defaults i)
       (case u of
          Structure_section cs \<Rightarrow> discard (update_structure i cs)
        | Calendar_section days \<Rightarrow> update_calendar i days
        | Grading_section cs \<Rightarrow> discard (update_grading i cs)
        | Permissions_section cs \<Rightarrow> discard (update_permissions i cs)
        | Admissions_section cs \<Rightarrow> discard (update_admissions i cs)
        | Timetable_section cs bells \<Rightarrow> update_timetable ids i cs bells
        | Attendance_section cs \<Rightarrow> discard (update_attendance i cs)
        | Communications_section cs \<Rightarrow> discard (update_communications i cs)
        | Finance_section cs \<Rightarrow> discard (update_finance i cs)
        | Curriculum_section cs \<Rightarrow> discard (update_curriculum i cs)
        | Security_section cs \<Rightarrow> discard (update_security i cs))"

end
