(* ===== verification/Attendance.thy ===== *)
theory Attendance
  imports Settings
begin

text \<open>
  The marking of attendance, \<open>src/src/attendance/attendance.service.ts\<close>: the policy of the school,
  one row for an enrollment and a day, and the reports of a class. The state is the settings (with
  the sessions and enrollments below them), the teachers and the attendance rows. A column of type
  \<open>Date\<close> keeps the day of its moment in UTC. \<open>tz\<close> is the offset of the server.
\<close>

record attendance_row =
  at_id :: ident
  at_enrolment :: ident
  at_teacher :: ident
  at_date :: date
  at_status :: string
  at_remarks :: "string option"

record attendance_db =
  ab_settings :: settings_db
  ab_staff :: "teacher_row list"
  ab_rows :: "attendance_row list"

record mark_dto =
  md_enrolment :: ident
  md_status :: string
  md_remarks :: "string option"

record attendance_user =
  au_user :: ident
  au_school :: "ident option"

definition date_column :: "date \<Rightarrow> date" where
  "date_column t = day_number t * ms_per_day"

definition attendance_enrolment :: "ident \<Rightarrow> attendance_db \<Rightarrow> term_enrolment option" where
  "attendance_enrolment i db = find (\<lambda>e. en_id e = i) (sd_enrolments (sb_base (ab_settings db)))"

text \<open>An absent \<open>currentSchoolId\<close> is no condition on the school.\<close>

definition get_teacher_profile :: "attendance_user \<Rightarrow> attendance_db \<Rightarrow> http_error + teacher_row" where
  "get_teacher_profile u db =
     (case find (\<lambda>t. te_user t = au_user u \<and> (case au_school u of None \<Rightarrow> True | Some s \<Rightarrow> te_school t = s)) (ab_staff db) of
        None \<Rightarrow> Inl (Forbidden ''Teacher profile not found for this school'')
      | Some t \<Rightarrow> Inr t)"

section \<open>Policy\<close>

definition window_checks :: "int \<Rightarrow> date \<Rightarrow> date \<Rightarrow> string \<Rightarrow> attendance_settings \<Rightarrow> (bool \<times> http_error) list" where
  "window_checks tz now day status p =
     [(status \<notin> set (ap_statuses p),
       BadRequest (''Status '' @ [CHR 0x22] @ status @ [CHR 0x22] @ '' is not allowed by school policy.'')),
      (ap_window_hours p = 0 \<and> local_midnight tz day \<noteq> local_midnight tz now, BadRequest ''Attendance can only be marked for today.''),
      (ap_window_hours p \<noteq> 0 \<and> ap_window_hours p * (60 * 60 * 1000) < now - day,
       BadRequest (''Attendance marking window ('' @ show_int (ap_window_hours p) @ ''h) has expired.''))]"

definition on_settings :: "(settings_db, 'a) op \<Rightarrow> (attendance_db, 'a) op" where
  "on_settings m = (\<lambda>db. case m (ab_settings db) of (r, s) \<Rightarrow> (r, db\<lparr>ab_settings := s\<rparr>))"

definition validate_attendance_policy :: "int \<Rightarrow> date \<Rightarrow> ident \<Rightarrow> date \<Rightarrow> string \<Rightarrow> (attendance_db, unit) op" where
  "validate_attendance_policy tz now school day status =
     op_bind (on_settings (get_attendance_policy school)) (\<lambda>p. op_guard (\<lambda>_. window_checks tz now day status p))"

section \<open>Marking\<close>

definition same_mark :: "ident \<Rightarrow> date \<Rightarrow> attendance_row \<Rightarrow> bool" where
  "same_mark e day r = (at_enrolment r = e \<and> at_date r = date_column day)"

text \<open>The upsert on enrollment and day; remarks that are absent leave the column as it is.\<close>

definition upsert_attendance :: "ident \<Rightarrow> ident \<Rightarrow> date \<Rightarrow> mark_dto \<Rightarrow> attendance_row list \<Rightarrow> attendance_row list" where
  "upsert_attendance new_id teacher day m rows =
     (if list_ex (same_mark (md_enrolment m) day) rows then
        update_first (same_mark (md_enrolment m) day)
          (\<lambda>r. r\<lparr>at_status := md_status m, at_remarks := (if md_remarks m = None then at_remarks r else md_remarks m),
             at_teacher := teacher\<rparr>) rows
      else rows @ [\<lparr>at_id = new_id, at_enrolment = md_enrolment m, at_teacher = teacher, at_date = date_column day,
        at_status = md_status m, at_remarks = md_remarks m\<rparr>])"

definition mark_attendance :: "int \<Rightarrow> date \<Rightarrow> ident \<Rightarrow> attendance_user \<Rightarrow> date \<Rightarrow> mark_dto \<Rightarrow> (attendance_db, unit) op" where
  "mark_attendance tz now new_id u day m =
     op_bind (op_lift (get_teacher_profile u)) (\<lambda>t.
     op_bind (op_get (attendance_enrolment (md_enrolment m))) (\<lambda>found.
     case found of
       None \<Rightarrow> op_throw (NotFound ''Enrollment not found'')
     | Some e \<Rightarrow>
         op_then (validate_attendance_policy tz now (en_school e) day (md_status m))
           (op_modify (\<lambda>db. db\<lparr>ab_rows := upsert_attendance new_id (te_id t) day m (ab_rows db)\<rparr>))))"

fun check_all :: "int \<Rightarrow> date \<Rightarrow> ident \<Rightarrow> date \<Rightarrow> mark_dto list \<Rightarrow> (attendance_db, unit) op" where
  "check_all tz now school day [] = op_ret ()"
| "check_all tz now school day (m # ms) =
     op_then (validate_attendance_policy tz now school day (md_status m)) (check_all tz now school day ms)"

text \<open>
  \<open>Promise.all\<close> of the upserts: each is a statement of its own, one without its enrollment fails by
  the foreign key, and the others are written all the same.
\<close>

fun upsert_all :: "(nat \<Rightarrow> ident) \<Rightarrow> nat \<Rightarrow> ident \<Rightarrow> date \<Rightarrow> mark_dto list \<Rightarrow> attendance_db \<Rightarrow> attendance_db" where
  "upsert_all ids n teacher day [] db = db"
| "upsert_all ids n teacher day (m # ms) db =
     upsert_all ids (Suc n) teacher day ms
       (if attendance_enrolment (md_enrolment m) db = None then db
        else db\<lparr>ab_rows := upsert_attendance (ids n) teacher day m (ab_rows db)\<rparr>)"

definition missing_enrolment :: "mark_dto list \<Rightarrow> attendance_db \<Rightarrow> bool" where
  "missing_enrolment ms db = list_ex (\<lambda>m. attendance_enrolment (md_enrolment m) db = None) ms"

definition mark_bulk_attendance ::
  "int \<Rightarrow> date \<Rightarrow> (nat \<Rightarrow> ident) \<Rightarrow> attendance_user \<Rightarrow> date \<Rightarrow> mark_dto list \<Rightarrow> (attendance_db, unit) op" where
  "mark_bulk_attendance tz now ids u day ms =
     op_bind (op_lift (get_teacher_profile u)) (\<lambda>t.
       case ms of
         [] \<Rightarrow> op_throw (JsError ''Argument `where` needs at least one of `id` arguments.'')
       | m # _ \<Rightarrow>
           op_bind (op_get (attendance_enrolment (md_enrolment m))) (\<lambda>first.
           op_then (case first of None \<Rightarrow> op_ret () | Some e \<Rightarrow> check_all tz now (en_school e) day ms)
             (\<lambda>db. (if missing_enrolment ms db then Inl (JsError ''Foreign key constraint failed'') else Inr (),
                    upsert_all ids 0 (te_id t) day ms db))))"

section \<open>Reports\<close>

definition of_class :: "ident \<Rightarrow> ident \<Rightarrow> bool \<Rightarrow> attendance_db \<Rightarrow> attendance_row \<Rightarrow> bool" where
  "of_class school cls is_arm db r =
     (case attendance_enrolment (at_enrolment r) db of
        None \<Rightarrow> False
      | Some e \<Rightarrow> en_school e = school \<and> en_active e \<and> (if is_arm then en_arm e = Some cls else en_class e = Some cls))"

definition get_class_attendance :: "ident \<Rightarrow> ident \<Rightarrow> bool \<Rightarrow> date \<Rightarrow> attendance_db \<Rightarrow> attendance_row list" where
  "get_class_attendance school cls is_arm day db =
     filter (\<lambda>r. of_class school cls is_arm db r \<and> at_date r = date_column day) (ab_rows db)"

record attendance_stats =
  ah_student :: ident
  ah_present :: nat
  ah_absent :: nat
  ah_late :: nat
  ah_total :: nat

definition student_of_row :: "attendance_db \<Rightarrow> attendance_row \<Rightarrow> ident" where
  "student_of_row db r = (case attendance_enrolment (at_enrolment r) db of None \<Rightarrow> [] | Some e \<Rightarrow> en_student e)"

text \<open>The map of the code in insertion order: the first row of a student makes its entry.\<close>

definition count_row :: "string \<Rightarrow> attendance_stats \<Rightarrow> attendance_stats" where
  "count_row status s =
     (let t = s\<lparr>ah_total := ah_total s + 1\<rparr>
      in if status = ''PRESENT'' then t\<lparr>ah_present := ah_present t + 1\<rparr>
         else if status = ''ABSENT'' then t\<lparr>ah_absent := ah_absent t + 1\<rparr>
         else if status = ''LATE'' then t\<lparr>ah_late := ah_late t + 1\<rparr>
         else t)"

definition no_stats :: "ident \<Rightarrow> attendance_stats" where
  "no_stats i = \<lparr>ah_student = i, ah_present = 0, ah_absent = 0, ah_late = 0, ah_total = 0\<rparr>"

definition add_row :: "(ident \<times> string) \<Rightarrow> attendance_stats list \<Rightarrow> attendance_stats list" where
  "add_row r stats =
     (let known = (if list_ex (\<lambda>s. ah_student s = fst r) stats then stats else stats @ [no_stats (fst r)])
      in update_first (\<lambda>s. ah_student s = fst r) (count_row (snd r)) known)"

definition summary_rows :: "ident \<Rightarrow> ident \<Rightarrow> bool \<Rightarrow> date \<Rightarrow> date \<Rightarrow> attendance_db \<Rightarrow> attendance_row list" where
  "summary_rows school cls is_arm start end_day db =
     filter (\<lambda>r. of_class school cls is_arm db r \<and> date_column start \<le> at_date r \<and> at_date r \<le> date_column end_day)
       (ab_rows db)"

definition get_class_attendance_summary ::
  "ident \<Rightarrow> ident \<Rightarrow> bool \<Rightarrow> date \<Rightarrow> date \<Rightarrow> attendance_db \<Rightarrow> attendance_stats list" where
  "get_class_attendance_summary school cls is_arm start end_day db =
     fold (\<lambda>r. add_row (student_of_row db r, at_status r)) (summary_rows school cls is_arm start end_day db) []"

end
