(* ===== verification/SettingsRecords.thy ===== *)
theory SettingsRecords
  imports Settings
begin

text \<open>
  The records that the settings service keeps beside the policies: holiday presets and their
  copies in the calendar, role templates and their application to an administrator, templates of
  assessments, fee categories and schedules and the fees made from a schedule, and the policies
  as the screens read them. The knowledge base (a queue of embeddings) and the audit rows are left
  out. An absent column of a partial update is None.
\<close>

section \<open>Holiday presets\<close>

record preset_dto =
  px_name :: "string option"
  px_start :: "date option"
  px_end :: "date option"
  px_rule :: "string option"
  px_type :: "string option"

definition create_holiday_preset :: "ident \<Rightarrow> ident \<Rightarrow> preset_row \<Rightarrow> (settings_db, preset_row) op" where
  "create_holiday_preset new_id school p =
     (let row = p\<lparr>hp_id := new_id, hp_school := school\<rparr>
      in op_then (op_modify (\<lambda>db. db\<lparr>sb_presets := sb_presets db @ [row]\<rparr>)) (op_ret row))"

definition own_preset :: "ident \<Rightarrow> ident \<Rightarrow> settings_db \<Rightarrow> http_error + preset_row" where
  "own_preset school i db =
     (case find (\<lambda>p. hp_id p = i \<and> hp_school p = school) (sb_presets db) of
        None \<Rightarrow> Inl (NotFound ''Holiday preset not found'') | Some p \<Rightarrow> Inr p)"

definition update_holiday_preset :: "ident \<Rightarrow> ident \<Rightarrow> preset_dto \<Rightarrow> (settings_db, unit) op" where
  "update_holiday_preset school i dto =
     op_bind (op_lift (own_preset school i)) (\<lambda>_.
       op_modify (\<lambda>db. db\<lparr>sb_presets := update_first (\<lambda>p. hp_id p = i)
         (\<lambda>p. p\<lparr>hp_name := nullish (px_name dto) (hp_name p), hp_start := nullish (px_start dto) (hp_start p),
            hp_end := nullish (px_end dto) (hp_end p),
            hp_rule := (if px_rule dto = None then hp_rule p else px_rule dto),
            hp_type := (if px_type dto = None then hp_type p else px_type dto)\<rparr>) (sb_presets db)\<rparr>))"

definition delete_holiday_preset :: "ident \<Rightarrow> ident \<Rightarrow> (settings_db, unit) op" where
  "delete_holiday_preset school i =
     op_bind (op_lift (own_preset school i)) (\<lambda>_.
       op_modify (\<lambda>db. db\<lparr>sb_presets := delete_where (\<lambda>p. hp_id p = i) (sb_presets db)\<rparr>))"

definition apply_holiday_preset_to_calendar :: "ident \<Rightarrow> ident \<Rightarrow> ident \<Rightarrow> (settings_db, holiday_row) op" where
  "apply_holiday_preset_to_calendar new_id school i =
     op_bind (op_lift (own_preset school i)) (\<lambda>p.
       let row = \<lparr>ho_id = new_id, ho_school = school, ho_title = hp_name p, ho_text = ''Holiday: '' @ hp_name p,
                  ho_start = hp_start p, ho_end = hp_end p\<rparr>
       in op_then (op_modify (\<lambda>db. db\<lparr>sb_holidays := sb_holidays db @ [row]\<rparr>)) (op_ret row))"

section \<open>Role templates\<close>

record role_dto =
  rx_name :: string
  rx_description :: "string option"
  rx_permissions :: "ident list"
  rx_system :: "bool option"

definition role_name_taken :: "ident \<Rightarrow> ident option \<Rightarrow> string \<Rightarrow> settings_db \<Rightarrow> bool" where
  "role_name_taken school except name db =
     list_ex (\<lambda>t. rt_school t = Some school \<and> rt_name t = name \<and> Some (rt_id t) \<noteq> except) (pd_templates (sb_perm db))"

definition with_perm :: "(perm_db \<Rightarrow> perm_db) \<Rightarrow> (settings_db, unit) op" where
  "with_perm f = op_modify (\<lambda>db. db\<lparr>sb_perm := f (sb_perm db)\<rparr>)"

definition create_role_template :: "ident \<Rightarrow> ident \<Rightarrow> role_dto \<Rightarrow> (settings_db, unit) op" where
  "create_role_template new_id school dto =
     op_then (op_guard (\<lambda>db. [(role_name_taken school None (rx_name dto) db, unique_error)]))
       (with_perm (\<lambda>p. p\<lparr>pd_templates := pd_templates p @
          [\<lparr>rt_id = new_id, rt_school = Some school, rt_name = rx_name dto, rt_slug = None,
            rt_description = rx_description dto, rt_suggested = None, rt_permissions = rx_permissions dto,
            rt_system = nullish (rx_system dto) False\<rparr>]\<rparr>))"

definition school_role_template :: "ident \<Rightarrow> ident \<Rightarrow> settings_db \<Rightarrow> http_error + role_template" where
  "school_role_template school i db =
     (case find (\<lambda>t. rt_id t = i \<and> rt_school t = Some school) (pd_templates (sb_perm db)) of
        None \<Rightarrow> Inl (NotFound ''Role template not found'') | Some t \<Rightarrow> Inr t)"

record role_update =
  ru_name :: "string option"
  ru_description :: "string option"
  ru_permissions :: "ident list option"

definition update_role_template :: "ident \<Rightarrow> ident \<Rightarrow> role_update \<Rightarrow> (settings_db, unit) op" where
  "update_role_template school i dto =
     op_bind (op_lift (school_role_template school i)) (\<lambda>t.
       op_then (op_guard (\<lambda>db. [(role_name_taken school (Some i) (nullish (ru_name dto) (rt_name t)) db, unique_error)]))
         (with_perm (\<lambda>p. p\<lparr>pd_templates := update_first (\<lambda>u. rt_id u = i)
            (\<lambda>u. u\<lparr>rt_name := nullish (ru_name dto) (rt_name u),
               rt_description := (if ru_description dto = None then rt_description u else ru_description dto),
               rt_permissions := nullish (ru_permissions dto) (rt_permissions u)\<rparr>) (pd_templates p)\<rparr>)))"

definition delete_role_template :: "ident \<Rightarrow> ident \<Rightarrow> (settings_db, unit) op" where
  "delete_role_template school i =
     op_bind (op_lift (school_role_template school i)) (\<lambda>t.
       if rt_system t then op_throw (BadRequest ''Cannot delete system role template'')
       else with_perm (\<lambda>p. p\<lparr>pd_templates := delete_where (\<lambda>u. rt_id u = i) (pd_templates p),
         pd_admins := update_where (\<lambda>a. pa_template a = Some i) (\<lambda>a. a\<lparr>pa_template := None\<rparr>) (pd_admins p)\<rparr>))"

definition principal_covered :: http_error where
  "principal_covered = BadRequest (''This administrator has principal-level access, which already covers every '' @
     ''screen. Move them to staff-level access first if you want a role to define '' @ ''what they can see.'')"

definition write_role :: "role_template \<Rightarrow> ident \<Rightarrow> perm_db \<Rightarrow> perm_db" where
  "write_role t admin p =
     p\<lparr>pd_grants := add_grants admin (rt_permissions t) (clear_grants admin (pd_grants p)),
       pd_admins := update_admin admin (\<lambda>a. a\<lparr>pa_template := Some (rt_id t), pa_customised := False\<rparr>) (pd_admins p)\<rparr>"

definition apply_role_template :: "ident \<Rightarrow> ident \<Rightarrow> ident \<Rightarrow> (settings_db, ident \<times> ident list) op" where
  "apply_role_template school template admin =
     op_bind (op_get (\<lambda>db. find (\<lambda>t. rt_id t = template \<and> visible_template school t) (pd_templates (sb_perm db)))) (\<lambda>found.
     case found of
       None \<Rightarrow> op_throw (NotFound ''Role template not found'')
     | Some t \<Rightarrow>
         op_bind (op_get (\<lambda>db. find (\<lambda>a. pa_id a = admin \<and> pa_school a = school) (pd_admins (sb_perm db)))) (\<lambda>seat.
         case seat of
           None \<Rightarrow> op_throw (NotFound ''Admin not found'')
         | Some a \<Rightarrow>
             if pa_tier a = PRINCIPAL_TIER then op_throw principal_covered
             else op_then (op_guard (\<lambda>db. [(list_ex (\<lambda>p. find_perm p (sb_perm db) = None) (rt_permissions t),
                 JsError ''Foreign key constraint failed'')]))
               (op_then (with_perm (write_role t admin)) (op_ret (admin, rt_permissions t)))))"

section \<open>Templates of assessments\<close>

definition create_assessment_template :: "ident \<Rightarrow> ident \<Rightarrow> grade_template \<Rightarrow> (settings_db, unit) op" where
  "create_assessment_template new_id school t =
     op_modify (\<lambda>db. db\<lparr>sb_templates := sb_templates db @ [t\<lparr>gt_id := new_id, gt_school := school, gt_active := True\<rparr>]\<rparr>)"

record grade_template_update =
  gu_name :: "string option"
  gu_max :: "rat option"
  gu_weight :: "rat option"
  gu_sequence :: "int option"
  gu_description :: "string option"
  gu_active :: "bool option"

definition own_grade_template :: "ident \<Rightarrow> ident \<Rightarrow> settings_db \<Rightarrow> http_error + grade_template" where
  "own_grade_template school i db =
     (case find (\<lambda>t. gt_id t = i \<and> gt_school t = school) (sb_templates db) of
        None \<Rightarrow> Inl (NotFound ''Assessment template not found'') | Some t \<Rightarrow> Inr t)"

definition update_assessment_template :: "ident \<Rightarrow> ident \<Rightarrow> grade_template_update \<Rightarrow> (settings_db, unit) op" where
  "update_assessment_template school i dto =
     op_bind (op_lift (own_grade_template school i)) (\<lambda>_.
       op_modify (\<lambda>db. db\<lparr>sb_templates := update_first (\<lambda>t. gt_id t = i)
         (\<lambda>t. t\<lparr>gt_name := nullish (gu_name dto) (gt_name t), gt_max := nullish (gu_max dto) (gt_max t),
            gt_weight := (if gu_weight dto = None then gt_weight t else gu_weight dto),
            gt_sequence := (if gu_sequence dto = None then gt_sequence t else gu_sequence dto),
            gt_description := (if gu_description dto = None then gt_description t else gu_description dto),
            gt_active := nullish (gu_active dto) (gt_active t)\<rparr>) (sb_templates db)\<rparr>))"

definition delete_assessment_template :: "ident \<Rightarrow> ident \<Rightarrow> (settings_db, unit) op" where
  "delete_assessment_template school i =
     op_bind (op_lift (own_grade_template school i)) (\<lambda>_.
       op_modify (\<lambda>db. db\<lparr>sb_templates := update_first (\<lambda>t. gt_id t = i) (\<lambda>t. t\<lparr>gt_active := False\<rparr>) (sb_templates db)\<rparr>))"

section \<open>Fees\<close>

definition category_name_taken :: "ident \<Rightarrow> ident option \<Rightarrow> string \<Rightarrow> settings_db \<Rightarrow> bool" where
  "category_name_taken school except name db =
     list_ex (\<lambda>c. fc_school c = school \<and> fc_name c = name \<and> Some (fc_id c) \<noteq> except) (sb_categories db)"

definition create_fee_category :: "ident \<Rightarrow> ident \<Rightarrow> string \<Rightarrow> string option \<Rightarrow> (settings_db, unit) op" where
  "create_fee_category new_id school name description =
     op_then (op_guard (\<lambda>db. [(category_name_taken school None name db, unique_error)]))
       (op_modify (\<lambda>db. db\<lparr>sb_categories := sb_categories db @
          [\<lparr>fc_id = new_id, fc_school = school, fc_name = name, fc_description = description, fc_active = True\<rparr>]\<rparr>))"

definition update_fee_category ::
  "ident \<Rightarrow> ident \<Rightarrow> string option \<Rightarrow> string option \<Rightarrow> bool option \<Rightarrow> (settings_db, unit) op" where
  "update_fee_category school i name description active =
     op_bind (op_get (\<lambda>db. find (\<lambda>c. fc_id c = i \<and> fc_school c = school) (sb_categories db))) (\<lambda>found.
     case found of
       None \<Rightarrow> op_throw (NotFound ''Fee category not found'')
     | Some c \<Rightarrow>
         op_then (op_guard (\<lambda>db. [(category_name_taken school (Some i) (nullish name (fc_name c)) db, unique_error)]))
           (op_modify (\<lambda>db. db\<lparr>sb_categories := update_first (\<lambda>c. fc_id c = i)
              (\<lambda>c. c\<lparr>fc_name := nullish name (fc_name c),
                 fc_description := (if description = None then fc_description c else description),
                 fc_active := nullish active (fc_active c)\<rparr>) (sb_categories db)\<rparr>)))"

record schedule_dto =
  sx_category :: ident
  sx_level :: "ident option"
  sx_term :: "ident option"
  sx_amount :: rat
  sx_due :: date
  sx_grace_days :: "int option"
  sx_penalty :: "rat option"

text \<open>The foreign keys ask for the rows, not for rows of the school.\<close>

definition create_fee_schedule :: "ident \<Rightarrow> ident \<Rightarrow> schedule_dto \<Rightarrow> (settings_db, unit) op" where
  "create_fee_schedule new_id school dto =
     op_then (op_guard (\<lambda>db.
         [(find (\<lambda>c. fc_id c = sx_category dto) (sb_categories db) = None, JsError ''Foreign key constraint failed''),
          (case sx_level dto of None \<Rightarrow> False | Some l \<Rightarrow> find_level l (sb_base db) = None, JsError ''Foreign key constraint failed''),
          (case sx_term dto of None \<Rightarrow> False | Some t \<Rightarrow> find_term t (sb_base db) = None, JsError ''Foreign key constraint failed'')]))
       (op_modify (\<lambda>db. db\<lparr>sb_schedules := sb_schedules db @
          [\<lparr>fl_id = new_id, fl_school = school, fl_category = sx_category dto, fl_level = sx_level dto, fl_term = sx_term dto,
            fl_amount = sx_amount dto, fl_due = sx_due dto, fl_grace_days = nullish (sx_grace_days dto) 0,
            fl_penalty = nullish (sx_penalty dto) 0\<rparr>]\<rparr>))"

definition own_schedule :: "ident \<Rightarrow> ident \<Rightarrow> settings_db \<Rightarrow> http_error + fee_schedule" where
  "own_schedule school i db =
     (case find (\<lambda>s. fl_id s = i \<and> fl_school s = school) (sb_schedules db) of
        None \<Rightarrow> Inl (NotFound ''Fee schedule not found'') | Some s \<Rightarrow> Inr s)"

definition update_fee_schedule ::
  "ident \<Rightarrow> ident \<Rightarrow> rat option \<Rightarrow> date option \<Rightarrow> int option \<Rightarrow> rat option \<Rightarrow> (settings_db, unit) op" where
  "update_fee_schedule school i amount due grace_days penalty =
     op_bind (op_lift (own_schedule school i)) (\<lambda>_.
       op_modify (\<lambda>db. db\<lparr>sb_schedules := update_first (\<lambda>s. fl_id s = i)
         (\<lambda>s. s\<lparr>fl_amount := nullish amount (fl_amount s), fl_due := nullish due (fl_due s),
            fl_grace_days := nullish grace_days (fl_grace_days s), fl_penalty := nullish penalty (fl_penalty s)\<rparr>)
         (sb_schedules db)\<rparr>))"

text \<open>The active enrollments of the school, in the term and below the class level of the schedule.\<close>

definition scheduled_enrolment :: "ident \<Rightarrow> fee_schedule \<Rightarrow> session_db \<Rightarrow> term_enrolment \<Rightarrow> bool" where
  "scheduled_enrolment school s base e =
     (en_school e = school \<and> (\<not> truthy (fl_term s) \<or> en_term e = fl_term s) \<and> en_active e
      \<and> (\<not> truthy (fl_level s) \<or>
         (case en_arm e of None \<Rightarrow> False
          | Some a \<Rightarrow> (case find_arm a base of None \<Rightarrow> False | Some arm \<Rightarrow> Some (la_level arm) = fl_level s))))"

definition fee_of :: "ident \<Rightarrow> fee_schedule \<Rightarrow> string \<Rightarrow> ident \<Rightarrow> term_enrolment \<Rightarrow> fee_row" where
  "fee_of school s category new_id e =
     \<lparr>fe_id = new_id, fe_enrolment = en_id e, fe_school = school, fe_description = category, fe_amount = fl_amount s,
      fe_due = fl_due s, fe_schedule = Some (fl_id s), fe_status = ''PENDING''\<rparr>"

text \<open>\<open>new_id\<close> gives the id of the fee of an enrollment.\<close>

definition generate_fees_from_schedule :: "(ident \<Rightarrow> ident) \<Rightarrow> ident \<Rightarrow> ident \<Rightarrow> (settings_db, nat) op" where
  "generate_fees_from_schedule new_id school i =
     op_bind (op_lift (own_schedule school i)) (\<lambda>s.
     op_bind (op_get (\<lambda>db. (filter (scheduled_enrolment school s (sb_base db)) (sd_enrolments (sb_base db)),
         case find (\<lambda>c. fc_id c = fl_category s) (sb_categories db) of None \<Rightarrow> [] | Some c \<Rightarrow> fc_name c))) (\<lambda>(es, name).
       op_then (op_modify (\<lambda>db. db\<lparr>sb_fees := sb_fees db @ map (\<lambda>e. fee_of school s name (new_id (en_id e)) e) es\<rparr>))
         (op_ret (length es))))"

section \<open>The policies of the screens\<close>

record runtime_template =
  rq_id :: ident
  rq_name :: string
  rq_type :: string
  rq_max :: rat
  rq_weight :: "rat option"
  rq_sequence :: "int option"

record runtime_policies =
  rp_working :: "working_day list"
  rp_terms :: "string option"
  rp_faculty :: bool
  rp_scope :: scope_mode
  rp_registry :: registry_mode
  rp_arm_names :: "string list"
  rp_naming :: naming_mode
  rp_statuses :: "string list"
  rp_grading :: grading_settings
  rp_templates :: "runtime_template list"
  rp_timetable :: timetable_settings
  rp_bells :: "bell_row list"

text \<open>
  \<open>getRuntimePolicies\<close>; the grading and timetable parts are the rows, of which the code gives out
  some columns. The order of templates puts an absent sequence last, as the database does.
\<close>

definition get_runtime_policies :: "ident \<Rightarrow> (settings_db, runtime_policies) op" where
  "get_runtime_policies i =
     op_bind (op_then (ensure_defaults i) (op_lift (get_working_days i))) (\<lambda>days.
     op_bind (get_structure_config i) (\<lambda>st.
     op_bind (get_grading_policy i) (\<lambda>gr.
     op_bind (get_attendance_policy i) (\<lambda>att.
     op_bind (get_timetable_policy i) (\<lambda>tt.
     op_get (\<lambda>db.
       \<lparr>rp_working = (if days = [] then default_working_days else days), rp_terms = sg_terms st, rp_faculty = sg_faculty st,
        rp_scope = sg_scope st, rp_registry = sg_registry st,
        rp_arm_names = (if sg_arm_names st = [] then [''A'', ''B'', ''C''] else sg_arm_names st), rp_naming = sg_naming st,
        rp_statuses = (if ap_statuses att = [] then [''PRESENT'', ''ABSENT'', ''LATE'', ''EXCUSED'', ''SICK''] else ap_statuses att),
        rp_grading = gr,
        rp_templates = map (\<lambda>t. \<lparr>rq_id = gt_id t, rq_name = gt_name t, rq_type = gt_type t, rq_max = gt_max t,
            rq_weight = gt_weight t, rq_sequence = gt_sequence t\<rparr>)
          (sort_key (\<lambda>t. (gt_sequence t = None, nullish (gt_sequence t) 0))
             (filter (\<lambda>t. gt_school t = i \<and> gt_active t) (sb_templates db))),
        rp_timetable = tt,
        rp_bells = filter (\<lambda>b. be_school b = i \<and> be_default b) (sb_bells db)\<rparr>))))))"

end
