(* ===== verification/SettingsFacts.thy ===== *)
theory SettingsFacts
  imports SettingsRecords PermissionFacts
begin

text \<open>
  The settings: the locale \<open>policy_table\<close> has what holds of every policy table (the row of a school
  after its creation, an update, for the school and for the others), and is interpreted on the nine
  tables; from it the defaults, the isolation of the schools and what an unvalidated body breaks.
\<close>

section \<open>One policy table\<close>

locale policy_table =
  fixes get :: "'d \<Rightarrow> 'r list" and put :: "('r list \<Rightarrow> 'r list) \<Rightarrow> 'd \<Rightarrow> 'd"
    and school :: "'r \<Rightarrow> ident" and initial :: "ident \<Rightarrow> 'r"
  assumes get_put: "get (put f d) = f (get d)"
    and put_get: "put (\<lambda>_. get d) d = d"
    and school_initial: "school (initial i) = i"
begin

lemma ensured:
  "policy_of school j (ensure_row school (initial i) rows) =
     (if j = i then Some (nullish (policy_of school i rows) (initial i)) else policy_of school j rows)"
proof (cases "list_ex (\<lambda>r. school r = i) rows")
  case True
  then have "policy_of school i rows \<noteq> None" by (auto simp: policy_of_def find_None_all list_ex_iff)
  then show ?thesis using True by (auto simp: ensure_row_def school_initial)
next
  case False
  then have none: "find (\<lambda>r. school r = i) rows = None" by (auto simp: find_None_all list_ex_iff)
  show ?thesis using False none
    by (auto simp: ensure_row_def school_initial policy_of_def find_append split: option.splits)
qed

lemma ensured_distinct: "distinct (map school rows) \<Longrightarrow> distinct (map school (ensure_row school (initial i) rows))"
  by (auto simp: ensure_row_def list_ex_iff school_initial)

lemma ensured_twice: "ensure_row school (initial i) (ensure_row school (initial i) rows) = ensure_row school (initial i) rows"
  by (auto simp: ensure_row_def list_ex_iff)

lemma find_updated:
  assumes "distinct (map school rows)" "policy_of school i rows = Some r" "policy_of school (school (f r)) rows = None \<or> school (f r) = i"
  shows "policy_of school j (update_first (\<lambda>r. school r = i) f rows) =
     (if j = school (f r) then Some (f r) else if j = i then None else policy_of school j rows)"
  using assms
proof (induction rows)
  case (Cons a rows)
  show ?case
  proof (cases "school a = i")
    case True
    then have "r = a" using Cons.prems(2) by (simp add: policy_of_def)
    have "school a \<notin> school ` set rows" using Cons.prems(1) by simp
    then have none: "find (\<lambda>r. school r = i) rows = None" using True unfolding find_None_all image_iff by metis
    show ?thesis using True none \<open>r = a\<close> Cons.prems(3) by (auto simp: policy_of_def split: if_splits)
  next
    case False
    then have "policy_of school i rows = Some r" "policy_of school (school (f r)) rows = None \<or> school (f r) = i"
      using Cons.prems by (auto simp: policy_of_def split: if_splits)
    then have IH: "policy_of school j (update_first (\<lambda>r. school r = i) f rows) =
        (if j = school (f r) then Some (f r) else if j = i then None else policy_of school j rows)"
      using Cons.IH Cons.prems(1) by simp
    have "school (f r) \<noteq> school a" using Cons.prems(3) False by (auto simp: policy_of_def split: if_splits)
    then show ?thesis using IH False by (auto simp: policy_of_def)
  qed
qed (simp add: policy_of_def)

lemma updated:
  assumes "distinct (map school rows)" "update_policy school i f rows = Inr (r', rows')"
  shows "\<exists>r. policy_of school i rows = Some r \<and> r' = f r
    \<and> (\<forall>j. policy_of school j rows' =
          (if j = school r' then Some r' else if j = i then None else policy_of school j rows))"
proof -
  obtain r where r: "policy_of school i rows = Some r" "r' = f r" "rows' = update_first (\<lambda>r. school r = i) f rows"
    "policy_of school (school (f r)) rows = None \<or> school (f r) = i"
    using assms(2) by (auto simp: update_policy_def split: option.splits if_splits)
  show ?thesis using r(1-3) find_updated [where f = f, OF assms(1) r(1) r(4)] by auto
qed

lemma updated_distinct:
  assumes d: "distinct (map school rows)" and u: "update_policy school i f rows = Inr (r', rows')"
  shows "distinct (map school rows')"
proof -
  obtain r where r: "policy_of school i rows = Some r" "rows' = update_first (\<lambda>r. school r = i) f rows"
    "policy_of school (school (f r)) rows = None \<or> school (f r) = i"
    using u by (auto simp: update_policy_def split: option.splits if_splits)
  show ?thesis using d r(1,3) unfolding r(2)
  proof (induction rows)
    case (Cons a rows)
    have fresh: "school b \<noteq> school (f r) \<or> school (f r) = i" if "b \<in> set (a # rows)" for b
      using Cons.prems(3) that by (auto simp: policy_of_def find_None_all split: if_splits)
    show ?case
    proof (cases "school a = i")
      case True
      then have "r = a" using Cons.prems(2) by (simp add: policy_of_def)
      have "school (f r) \<notin> school ` set rows"
      proof
        assume "school (f r) \<in> school ` set rows"
        then obtain b where b: "b \<in> set rows" "school b = school (f r)" by auto
        then have "school b = school a" using fresh [of b] True by auto
        then have "school a \<in> school ` set rows" using b(1) by (metis image_eqI)
        then show False using Cons.prems(1) by simp
      qed
      then show ?thesis using True \<open>r = a\<close> Cons.prems(1) by simp
    next
      case False
      then have tail: "policy_of school i rows = Some r" "policy_of school (school (f r)) rows = None \<or> school (f r) = i"
        using Cons.prems by (auto simp: policy_of_def split: if_splits)
      have "school a \<notin> school ` set (update_first (\<lambda>r. school r = i) f rows)"
      proof
        assume "school a \<in> school ` set (update_first (\<lambda>r. school r = i) f rows)"
        then obtain b where b: "b \<in> set (update_first (\<lambda>r. school r = i) f rows)" "school b = school a" by auto
        then have "b \<in> set rows \<or> (\<exists>c\<in>set rows. school c = i \<and> b = f c)" using set_update_firstD [OF b(1)] by blast
        then show False
        proof
          assume "b \<in> set rows"
          then show False using b(2) Cons.prems(1) by (metis distinct.simps(2) image_eqI list.map(2) list.set_map)
        next
          assume "\<exists>c\<in>set rows. school c = i \<and> b = f c"
          then obtain c where c: "c \<in> set rows" "school c = i" "b = f c" by blast
          have "policy_of school i rows = Some c"
            unfolding policy_of_def using find_by_key [of school rows c] c Cons.prems(1) by simp
          then have "c = r" using tail(1) by simp
          then show False using fresh [of a] b(2) c(3) False by auto
        qed
      qed
      then show ?thesis using Cons.IH [OF _ tail] Cons.prems(1) False by simp
    qed
  qed simp
qed

lemma updated_rows:
  assumes d: "distinct (map school rows)" and u: "update_policy school i f rows = Inr (r, rows')"
    and kept: "\<And>r. school (f r) = school r"
  shows "j \<noteq> i \<Longrightarrow> policy_of school j rows' = policy_of school j rows"
proof -
  obtain r0 where r0: "policy_of school i rows = Some r0" "r = f r0"
    "policy_of school j rows' = (if j = school r then Some r else if j = i then None else policy_of school j rows)"
    using updated [OF d u] by blast
  then have "school r = i" using kept unfolding policy_of_def by (auto dest: find_Some_in)
  then show "j \<noteq> i \<Longrightarrow> policy_of school j rows' = policy_of school j rows" using r0(3) by simp
qed

end

interpretation structure_table: policy_table sb_structure sb_structure_update sg_school DEFAULT_STRUCTURE_CONFIG
  by unfold_locales (simp_all add: DEFAULT_STRUCTURE_CONFIG_def)

interpretation grading_table: policy_table sb_grading sb_grading_update gs_school DEFAULT_GRADING_POLICY
  by unfold_locales (simp_all add: DEFAULT_GRADING_POLICY_def)

interpretation admission_table: policy_table sb_admission sb_admission_update ad_school DEFAULT_ADMISSION_POLICY
  by unfold_locales (simp_all add: DEFAULT_ADMISSION_POLICY_def)

interpretation timetable_table: policy_table sb_timetable sb_timetable_update ts_school DEFAULT_TIMETABLE_POLICY
  by unfold_locales (simp_all add: DEFAULT_TIMETABLE_POLICY_def)

interpretation attendance_table: policy_table sb_attendance sb_attendance_update ap_school DEFAULT_ATTENDANCE_POLICY
  by unfold_locales (simp_all add: DEFAULT_ATTENDANCE_POLICY_def)

interpretation notification_table: policy_table sb_notification sb_notification_update ns_school DEFAULT_NOTIFICATION_POLICY
  by unfold_locales (simp_all add: DEFAULT_NOTIFICATION_POLICY_def)

interpretation finance_table: policy_table sb_finance sb_finance_update fs_school DEFAULT_FINANCE_POLICY
  by unfold_locales (simp_all add: DEFAULT_FINANCE_POLICY_def)

interpretation curriculum_table: policy_table sb_curriculum sb_curriculum_update cs_school DEFAULT_CURRICULUM_POLICY
  by unfold_locales (simp_all add: DEFAULT_CURRICULUM_POLICY_def)

interpretation security_table: policy_table sb_security sb_security_update sy_school DEFAULT_SECURITY_POLICY
  by unfold_locales (simp_all add: DEFAULT_SECURITY_POLICY_def)

section \<open>Defaults\<close>

text \<open>All that the settings hold for a school.\<close>

definition school_settings :: "ident \<Rightarrow> settings_db \<Rightarrow>
    (structure_config option \<times> grading_settings option \<times> admission_settings option \<times> timetable_settings option
     \<times> attendance_settings option \<times> notification_settings option \<times> finance_settings option
     \<times> curriculum_settings option \<times> security_settings option) \<times> working_day list option \<times> bell_row list" where
  "school_settings i db =
     ((policy_of sg_school i (sb_structure db), policy_of gs_school i (sb_grading db), policy_of ad_school i (sb_admission db),
       policy_of ts_school i (sb_timetable db), policy_of ap_school i (sb_attendance db),
       policy_of ns_school i (sb_notification db), policy_of fs_school i (sb_finance db),
       policy_of cs_school i (sb_curriculum db), policy_of sy_school i (sb_security db)),
      map_of (sb_working db) i, filter (\<lambda>b. be_school b = i) (sb_bells db))"

definition settings_ok :: "settings_db \<Rightarrow> bool" where
  "settings_ok db =
     (distinct (map sg_school (sb_structure db)) \<and> distinct (map gs_school (sb_grading db))
      \<and> distinct (map ad_school (sb_admission db)) \<and> distinct (map ts_school (sb_timetable db))
      \<and> distinct (map ap_school (sb_attendance db)) \<and> distinct (map ns_school (sb_notification db))
      \<and> distinct (map fs_school (sb_finance db)) \<and> distinct (map cs_school (sb_curriculum db))
      \<and> distinct (map sy_school (sb_security db)))"

lemmas table_ensured =
  structure_table.ensured grading_table.ensured admission_table.ensured timetable_table.ensured attendance_table.ensured
  notification_table.ensured finance_table.ensured curriculum_table.ensured security_table.ensured

lemmas table_ensured_twice =
  structure_table.ensured_twice grading_table.ensured_twice admission_table.ensured_twice timetable_table.ensured_twice
  attendance_table.ensured_twice notification_table.ensured_twice finance_table.ensured_twice
  curriculum_table.ensured_twice security_table.ensured_twice

lemmas table_ensured_distinct =
  structure_table.ensured_distinct grading_table.ensured_distinct admission_table.ensured_distinct
  timetable_table.ensured_distinct attendance_table.ensured_distinct notification_table.ensured_distinct
  finance_table.ensured_distinct curriculum_table.ensured_distinct security_table.ensured_distinct

lemma with_defaults_twice: "with_defaults i (with_defaults i db) = with_defaults i db"
  by (simp add: with_defaults_def table_ensured_twice)

lemma with_defaults_ok: "settings_ok db \<Longrightarrow> settings_ok (with_defaults i db)"
  by (simp add: settings_ok_def with_defaults_def table_ensured_distinct)

lemma with_defaults_other: "j \<noteq> i \<Longrightarrow> school_settings j (with_defaults i db) = school_settings j db"
  by (simp add: school_settings_def with_defaults_def table_ensured)

lemma ensure_defaults_eval:
  "ensure_defaults i db = (if i = [] then (Inl (BadRequest ''School context is required to load settings.''), db) else (Inr (), with_defaults i db))"
  by (simp add: ensure_defaults_def op_then_def op_bind_def op_require_def op_modify_def)

section \<open>Updates of a section\<close>

text \<open>What the body of a section update must not have, for the others to be safe from it.\<close>

definition takes_school :: "section_update \<Rightarrow> bool" where
  "takes_school u =
     (case u of
        Grading_section cs \<Rightarrow> list_ex (\<lambda>c. case c of TakeGrading _ \<Rightarrow> True | _ \<Rightarrow> False) cs
      | Timetable_section cs _ \<Rightarrow> list_ex (\<lambda>c. case c of TakeTimetable _ \<Rightarrow> True | _ \<Rightarrow> False) cs
      | Attendance_section cs \<Rightarrow> list_ex (\<lambda>c. case c of TakeAttendance _ \<Rightarrow> True | _ \<Rightarrow> False) cs
      | Communications_section cs \<Rightarrow> list_ex (\<lambda>c. case c of TakeNotification _ \<Rightarrow> True | _ \<Rightarrow> False) cs
      | Finance_section cs \<Rightarrow> list_ex (\<lambda>c. case c of TakeFinance _ \<Rightarrow> True | _ \<Rightarrow> False) cs
      | Curriculum_section cs \<Rightarrow> list_ex (\<lambda>c. case c of TakeCurriculum _ \<Rightarrow> True | _ \<Rightarrow> False) cs
      | Security_section cs \<Rightarrow> list_ex (\<lambda>c. case c of TakeSecurity _ \<Rightarrow> True | _ \<Rightarrow> False) cs
      | _ \<Rightarrow> False)"

definition foreign_bell :: "ident \<Rightarrow> section_update \<Rightarrow> settings_db \<Rightarrow> bool" where
  "foreign_bell i u db =
     (case u of
        Timetable_section _ bells \<Rightarrow>
          list_ex (\<lambda>t. list_ex (\<lambda>b. Some (be_id b) = bx_id t \<and> be_school b \<noteq> i) (sb_bells db)) bells
      | _ \<Rightarrow> False)"

lemma fold_keeps: "(\<And>c r. c \<in> set cs \<Longrightarrow> g (f c r) = g r) \<Longrightarrow> g (fold f cs r) = g r"
  by (induction cs arbitrary: r) auto

lemma fold_keeps_unless: "\<not> list_ex P cs \<Longrightarrow> (\<And>c r. \<not> P c \<Longrightarrow> g (f c r) = g r) \<Longrightarrow> g (fold f cs r) = g r"
  by (induction cs arbitrary: r) auto

lemma structure_school: "sg_school (fold change_structure cs r) = sg_school r"
proof (rule fold_keeps)
  show "sg_school (change_structure c r) = sg_school r" for c r by (cases c) auto
qed

lemma admission_school: "ad_school (fold change_admission cs r) = ad_school r"
proof (rule fold_keeps)
  show "ad_school (change_admission c r) = ad_school r" for c r by (cases c) auto
qed

lemma grading_school: "\<not> takes_school (Grading_section cs) \<Longrightarrow> gs_school (fold change_grading cs r) = gs_school r"
  unfolding takes_school_def section_update.case by (erule fold_keeps_unless) (case_tac c; simp)

lemma timetable_school: "\<not> takes_school (Timetable_section cs bells) \<Longrightarrow> ts_school (fold change_timetable cs r) = ts_school r"
  unfolding takes_school_def section_update.case by (erule fold_keeps_unless) (case_tac c; simp)

lemma attendance_school: "\<not> takes_school (Attendance_section cs) \<Longrightarrow> ap_school (fold change_attendance cs r) = ap_school r"
  unfolding takes_school_def section_update.case by (erule fold_keeps_unless) (case_tac c; simp)

lemma notification_school: "\<not> takes_school (Communications_section cs) \<Longrightarrow> ns_school (fold change_notification cs r) = ns_school r"
  unfolding takes_school_def section_update.case by (erule fold_keeps_unless) (case_tac c; simp)

lemma finance_school: "\<not> takes_school (Finance_section cs) \<Longrightarrow> fs_school (fold change_finance cs r) = fs_school r"
  unfolding takes_school_def section_update.case by (erule fold_keeps_unless) (case_tac c; simp)

lemma curriculum_school: "\<not> takes_school (Curriculum_section cs) \<Longrightarrow> cs_school (fold change_curriculum cs r) = cs_school r"
  unfolding takes_school_def section_update.case by (erule fold_keeps_unless) (case_tac c; simp)

lemma security_school: "\<not> takes_school (Security_section cs) \<Longrightarrow> sy_school (fold change_security cs r) = sy_school r"
  unfolding takes_school_def section_update.case by (erule fold_keeps_unless) (case_tac c; simp)

text \<open>An update of one table: the row of the school changes, the other tables and schools stay.\<close>

lemma put_table_cases:
  obtains (failed) e where "put_table u get put db = (Inl e, db)"
    | (stored) r rows where "u (get db) = Inr (r, rows)" "put_table u get put db = (Inr r, put (\<lambda>_. rows) db)"
  by (cases "u (get db)") (auto simp: put_table_def)

lemma discard_snd: "snd (discard m db) = snd (m db)"
  by (simp add: discard_def op_bind_def op_ret_def split: prod.splits sum.splits)

lemma put_bell_other:
  assumes "\<not> list_ex (\<lambda>b. Some (be_id b) = bx_id t \<and> be_school b \<noteq> i) (sb_bells db)" "j \<noteq> i"
  shows "school_settings j (snd (put_bell n i t db)) = school_settings j db"
    "list_ex (\<lambda>b. Some (be_id b) = k \<and> be_school b \<noteq> i) (sb_bells (snd (put_bell n i t db)))
      \<longleftrightarrow> list_ex (\<lambda>b. Some (be_id b) = k \<and> be_school b \<noteq> i) (sb_bells db)"
proof -
  let ?p = "\<lambda>b. Some (be_id b) = bx_id t"
  let ?f = "\<lambda>b. b\<lparr>be_periods := bx_periods t, be_default := nullish (bx_default t) True\<rparr>"
  have upd: "filter (\<lambda>b. be_school b = j) (update_first ?p ?f rows) = filter (\<lambda>b. be_school b = j) rows"
    if "\<not> list_ex (\<lambda>b. ?p b \<and> be_school b \<noteq> i) rows" for rows
    using that by (induction rows) (auto simp: assms(2) [symmetric])
  have ids: "list_ex (\<lambda>b. Some (be_id b) = k \<and> be_school b \<noteq> i) (update_first ?p ?f rows)
      \<longleftrightarrow> list_ex (\<lambda>b. Some (be_id b) = k \<and> be_school b \<noteq> i) rows" for rows
    by (induction rows) auto
  show "school_settings j (snd (put_bell n i t db)) = school_settings j db"
    using upd [OF assms(1)] assms(2)
    by (auto simp: put_bell_def school_settings_def op_then_def op_bind_def op_guard_def op_modify_def split: option.splits sum.splits)
  show "list_ex (\<lambda>b. Some (be_id b) = k \<and> be_school b \<noteq> i) (sb_bells (snd (put_bell n i t db)))
      \<longleftrightarrow> list_ex (\<lambda>b. Some (be_id b) = k \<and> be_school b \<noteq> i) (sb_bells db)"
    using ids by (auto simp: put_bell_def op_then_def op_bind_def op_guard_def op_modify_def split: option.splits sum.splits)
qed

lemma put_bells_other:
  assumes "\<not> list_ex (\<lambda>t. list_ex (\<lambda>b. Some (be_id b) = bx_id t \<and> be_school b \<noteq> i) (sb_bells db)) ts" "j \<noteq> i"
  shows "school_settings j (snd (put_bells ids n i ts db)) = school_settings j db"
  using assms(1)
proof (induction ts arbitrary: db n)
  case (Cons t ts)
  obtain r d where run: "put_bell (ids n) i t db = (r, d)" by fastforce
  have here: "\<not> list_ex (\<lambda>b. Some (be_id b) = bx_id t \<and> be_school b \<noteq> i) (sb_bells db)" using Cons.prems by simp
  note step = put_bell_other [OF here assms(2), where n = "ids n"]
  have "school_settings j d = school_settings j db" using step(1) run by simp
  moreover have "\<not> list_ex (\<lambda>t. list_ex (\<lambda>b. Some (be_id b) = bx_id t \<and> be_school b \<noteq> i) (sb_bells d)) ts"
    using Cons.prems step(2) run by simp
  ultimately show ?case using Cons.IH [of d "Suc n"] run
    by (cases r) (simp_all add: op_then_def op_bind_def)
qed simp

lemma update_calendar_other: "j \<noteq> i \<Longrightarrow> school_settings j (snd (update_calendar i days db)) = school_settings j db"
proof -
  assume "j \<noteq> i"
  then have "map_of (map (\<lambda>(k, ds). (k, if k = i then x else ds)) ws) j = map_of ws j" for x :: "working_day list" and ws
    by (induction ws) auto
  then show ?thesis
    by (auto simp: update_calendar_def school_settings_def op_then_def op_bind_def op_guard_def op_modify_def
        split: option.splits sum.splits)
qed

lemma table_other:
  assumes table: "\<And>rows r rows'. u rows = Inr (r, rows') \<Longrightarrow> distinct (map school rows) \<Longrightarrow> policy_of school j rows' = policy_of school j rows"
    and d: "distinct (map school (get db))"
    and frame: "\<And>rows. policy_of school j rows = policy_of school j (get db) \<Longrightarrow> school_settings j (put (\<lambda>_. rows) db) = school_settings j db"
  shows "school_settings j (snd (put_table u get put db)) = school_settings j db"
proof (cases rule: put_table_cases [of u get put db])
  case (stored r rows)
  then show ?thesis using frame [OF table [OF stored(1) d]] by simp
qed simp

lemma structure_other: "settings_ok db \<Longrightarrow> j \<noteq> i \<Longrightarrow> school_settings j (snd (update_structure i cs db)) = school_settings j db"
  unfolding update_structure_def
  by (rule table_other [where school = sg_school])
    (auto simp: settings_ok_def school_settings_def intro: structure_table.updated_rows structure_school)

lemma grading_other: "\<not> takes_school (Grading_section cs) \<Longrightarrow> settings_ok db \<Longrightarrow> j \<noteq> i \<Longrightarrow> school_settings j (snd (update_grading i cs db)) = school_settings j db"
  unfolding update_grading_def
  by (rule table_other [where school = gs_school])
    (auto simp: settings_ok_def school_settings_def intro: grading_table.updated_rows grading_school)

lemma admissions_other: "settings_ok db \<Longrightarrow> j \<noteq> i \<Longrightarrow> school_settings j (snd (update_admissions i cs db)) = school_settings j db"
  unfolding update_admissions_def
  by (rule table_other [where school = ad_school])
    (auto simp: settings_ok_def school_settings_def intro: admission_table.updated_rows admission_school)

lemma attendance_other: "\<not> takes_school (Attendance_section cs) \<Longrightarrow> settings_ok db \<Longrightarrow> j \<noteq> i \<Longrightarrow> school_settings j (snd (update_attendance i cs db)) = school_settings j db"
  unfolding update_attendance_def
  by (rule table_other [where school = ap_school])
    (auto simp: settings_ok_def school_settings_def intro: attendance_table.updated_rows attendance_school)

lemma communications_other: "\<not> takes_school (Communications_section cs) \<Longrightarrow> settings_ok db \<Longrightarrow> j \<noteq> i \<Longrightarrow> school_settings j (snd (update_communications i cs db)) = school_settings j db"
  unfolding update_communications_def
  by (rule table_other [where school = ns_school])
    (auto simp: settings_ok_def school_settings_def intro: notification_table.updated_rows notification_school)

lemma finance_other: "\<not> takes_school (Finance_section cs) \<Longrightarrow> settings_ok db \<Longrightarrow> j \<noteq> i \<Longrightarrow> school_settings j (snd (update_finance i cs db)) = school_settings j db"
  unfolding update_finance_def
  by (rule table_other [where school = fs_school])
    (auto simp: settings_ok_def school_settings_def intro: finance_table.updated_rows finance_school)

lemma curriculum_other: "\<not> takes_school (Curriculum_section cs) \<Longrightarrow> settings_ok db \<Longrightarrow> j \<noteq> i \<Longrightarrow> school_settings j (snd (update_curriculum i cs db)) = school_settings j db"
  unfolding update_curriculum_def
  by (rule table_other [where school = cs_school])
    (auto simp: settings_ok_def school_settings_def intro: curriculum_table.updated_rows curriculum_school)

lemma security_other: "\<not> takes_school (Security_section cs) \<Longrightarrow> settings_ok db \<Longrightarrow> j \<noteq> i \<Longrightarrow> school_settings j (snd (update_security i cs db)) = school_settings j db"
  unfolding update_security_def
  by (rule table_other [where school = sy_school])
    (auto simp: settings_ok_def school_settings_def intro: security_table.updated_rows security_school)

lemma timetable_other:
  assumes "\<not> takes_school (Timetable_section cs bells)" "settings_ok db" "j \<noteq> i"
  shows "school_settings j (snd (put_table (update_policy ts_school i (fold change_timetable cs)) sb_timetable sb_timetable_update db)) = school_settings j db"
  by (rule table_other [where school = ts_school])
    (use assms in \<open>auto simp: settings_ok_def school_settings_def intro: timetable_table.updated_rows timetable_school\<close>)

lemma section_other:
  assumes ok: "settings_ok db" and safe: "\<not> takes_school u" "\<not> foreign_bell i u db" and j: "j \<noteq> i"
  shows "school_settings j (snd (update_section ids i u db)) = school_settings j db"
proof (cases "i = []")
  case False
  let ?d = "with_defaults i db"
  have okd: "settings_ok ?d" by (rule with_defaults_ok [OF ok])
  have bells: "sb_bells ?d = sb_bells db" by (simp add: with_defaults_def)
  have "school_settings j (snd (update_section ids i u db)) = school_settings j ?d"
  proof (cases u)
    case (Timetable_section cs bs)
    have free: "\<not> list_ex (\<lambda>t. list_ex (\<lambda>b. Some (be_id b) = bx_id t \<and> be_school b \<noteq> i) (sb_bells ?d)) bs"
      using safe(2) Timetable_section bells by (simp add: foreign_bell_def)
    have first: "school_settings j (snd (put_table (update_policy ts_school i (fold change_timetable cs)) sb_timetable sb_timetable_update ?d)) = school_settings j ?d"
      by (rule timetable_other) (use safe(1) Timetable_section okd j in auto)
    show ?thesis
    proof (cases rule: put_table_cases [of "update_policy ts_school i (fold change_timetable cs)" sb_timetable sb_timetable_update ?d])
      case (stored r rows)
      have "school_settings j (snd (put_bells ids 0 i bs (sb_timetable_update (\<lambda>_. rows) ?d))) = school_settings j (sb_timetable_update (\<lambda>_. rows) ?d)"
        by (rule put_bells_other) (use free j in simp_all)
      then show ?thesis using first stored(2) Timetable_section False
        by (simp add: update_section_def update_timetable_def op_then_def op_bind_def ensure_defaults_eval)
    next
      case (failed e)
      then show ?thesis using Timetable_section False
        by (simp add: update_section_def update_timetable_def op_then_def op_bind_def ensure_defaults_eval)
    qed
  next
    case (Permissions_section cs)
    then show ?thesis using structure_other [OF okd j] False
      by (simp add: update_section_def update_permissions_def op_then_def op_bind_def ensure_defaults_eval discard_snd)
  qed (use okd j safe(1) False in \<open>auto simp: update_section_def op_then_def op_bind_def ensure_defaults_eval discard_snd
      intro: structure_other grading_other admissions_other attendance_other communications_other finance_other
        curriculum_other security_other update_calendar_other\<close>)
  then show ?thesis using with_defaults_other [OF j] by simp
qed (simp add: update_section_def op_then_def op_bind_def ensure_defaults_eval)

section \<open>Each school keeps one row\<close>

lemma table_ok:
  assumes table: "\<And>rows r rows'. u rows = Inr (r, rows') \<Longrightarrow> distinct (map school rows) \<Longrightarrow> distinct (map school rows')"
    and ok: "settings_ok db" and d: "distinct (map school (get db))"
    and frame: "\<And>rows. distinct (map school rows) \<Longrightarrow> settings_ok (put (\<lambda>_. rows) db)"
  shows "settings_ok (snd (put_table u get put db))"
proof (cases rule: put_table_cases [of u get put db])
  case (stored r rows)
  then show ?thesis using frame [OF table [OF stored(1) d]] by simp
qed (use ok in simp)

lemma structure_ok: "settings_ok db \<Longrightarrow> settings_ok (snd (update_structure i cs db))"
  unfolding update_structure_def
  by (rule table_ok [where school = sg_school]) (auto simp: settings_ok_def elim: structure_table.updated_distinct)

lemma grading_ok: "settings_ok db \<Longrightarrow> settings_ok (snd (update_grading i cs db))"
  unfolding update_grading_def
  by (rule table_ok [where school = gs_school]) (auto simp: settings_ok_def elim: grading_table.updated_distinct)

lemma admissions_ok: "settings_ok db \<Longrightarrow> settings_ok (snd (update_admissions i cs db))"
  unfolding update_admissions_def
  by (rule table_ok [where school = ad_school]) (auto simp: settings_ok_def elim: admission_table.updated_distinct)

lemma attendance_ok: "settings_ok db \<Longrightarrow> settings_ok (snd (update_attendance i cs db))"
  unfolding update_attendance_def
  by (rule table_ok [where school = ap_school]) (auto simp: settings_ok_def elim: attendance_table.updated_distinct)

lemma communications_ok: "settings_ok db \<Longrightarrow> settings_ok (snd (update_communications i cs db))"
  unfolding update_communications_def
  by (rule table_ok [where school = ns_school]) (auto simp: settings_ok_def elim: notification_table.updated_distinct)

lemma finance_ok: "settings_ok db \<Longrightarrow> settings_ok (snd (update_finance i cs db))"
  unfolding update_finance_def
  by (rule table_ok [where school = fs_school]) (auto simp: settings_ok_def elim: finance_table.updated_distinct)

lemma curriculum_ok: "settings_ok db \<Longrightarrow> settings_ok (snd (update_curriculum i cs db))"
  unfolding update_curriculum_def
  by (rule table_ok [where school = cs_school]) (auto simp: settings_ok_def elim: curriculum_table.updated_distinct)

lemma security_ok: "settings_ok db \<Longrightarrow> settings_ok (snd (update_security i cs db))"
  unfolding update_security_def
  by (rule table_ok [where school = sy_school]) (auto simp: settings_ok_def elim: security_table.updated_distinct)

lemma timetable_ok:
  "settings_ok db \<Longrightarrow> settings_ok (snd (put_table (update_policy ts_school i f) sb_timetable sb_timetable_update db))"
  by (rule table_ok [where school = ts_school]) (auto simp: settings_ok_def elim: timetable_table.updated_distinct)

lemma put_bells_keeps: "op_keeps settings_ok (put_bells ids n i ts)"
proof (induction ts arbitrary: n)
  case Nil
  show ?case unfolding put_bells.simps by (intro op_keeps_intros)
next
  case (Cons t ts)
  have "op_keeps settings_ok (put_bell (ids n) i t)"
    unfolding put_bell_def by (intro op_keeps_intros op_keeps_modify) (auto simp: settings_ok_def)
  then show ?case unfolding put_bells.simps by (intro op_keeps_intros Cons.IH)
qed

lemma section_keeps: "op_keeps settings_ok (update_section ids i u)"
proof -
  have defaults: "op_keeps settings_ok (ensure_defaults i)"
    by (simp add: op_keeps_def ensure_defaults_eval with_defaults_ok)
  have days: "op_keeps settings_ok (update_calendar i d)" for d
    unfolding update_calendar_def by (intro op_keeps_intros op_keeps_modify) (auto simp: settings_ok_def)
  have tables: "op_keeps settings_ok (update_structure i a)" "op_keeps settings_ok (update_grading i b)"
    "op_keeps settings_ok (update_admissions i c)" "op_keeps settings_ok (update_attendance i d)"
    "op_keeps settings_ok (update_communications i e)" "op_keeps settings_ok (update_finance i f)"
    "op_keeps settings_ok (update_curriculum i g)" "op_keeps settings_ok (update_security i h)"
    "op_keeps settings_ok (put_table (update_policy ts_school i k) sb_timetable sb_timetable_update)" for a b c d e f g h k
    by (simp_all add: op_keeps_def structure_ok grading_ok admissions_ok attendance_ok communications_ok finance_ok
        curriculum_ok security_ok timetable_ok)
  show ?thesis
    unfolding update_section_def
    by (cases u) (auto simp: discard_def update_permissions_def update_timetable_def
        intro!: op_keeps_intros defaults days tables put_bells_keeps)
qed

section \<open>Properties\<close>

text \<open>
  The settings of a school read for the first time are the defaults, the rows it already has stay
  as they are, no other school is touched, and a second run changes nothing.
\<close>

theorem ensure_defaults_correct:
  assumes "i \<noteq> []"
  shows "ensure_defaults i db = (Inr (), with_defaults i db)
    \<and> ensure_defaults i (with_defaults i db) = (Inr (), with_defaults i db)
    \<and> fst (school_settings i (with_defaults i db)) =
        (Some (nullish (policy_of sg_school i (sb_structure db)) (DEFAULT_STRUCTURE_CONFIG i)),
         Some (nullish (policy_of gs_school i (sb_grading db)) (DEFAULT_GRADING_POLICY i)),
         Some (nullish (policy_of ad_school i (sb_admission db)) (DEFAULT_ADMISSION_POLICY i)),
         Some (nullish (policy_of ts_school i (sb_timetable db)) (DEFAULT_TIMETABLE_POLICY i)),
         Some (nullish (policy_of ap_school i (sb_attendance db)) (DEFAULT_ATTENDANCE_POLICY i)),
         Some (nullish (policy_of ns_school i (sb_notification db)) (DEFAULT_NOTIFICATION_POLICY i)),
         Some (nullish (policy_of fs_school i (sb_finance db)) (DEFAULT_FINANCE_POLICY i)),
         Some (nullish (policy_of cs_school i (sb_curriculum db)) (DEFAULT_CURRICULUM_POLICY i)),
         Some (nullish (policy_of sy_school i (sb_security db)) (DEFAULT_SECURITY_POLICY i)))
    \<and> (\<forall>j. j \<noteq> i \<longrightarrow> school_settings j (with_defaults i db) = school_settings j db)"
  using assms with_defaults_other
  by (simp add: ensure_defaults_eval with_defaults_twice)
    (simp add: school_settings_def with_defaults_def table_ensured)

text \<open>
  C28: an update of a section of the settings whose body has no \<open>schoolId\<close> and names no bell schedule of
  another school leaves every policy, the working days and the bell schedules of every other school as
  they are, and each school keeps at most one row of each policy.
\<close>

theorem section_isolated:
  assumes "settings_ok db" "\<not> takes_school u" "\<not> foreign_bell i u db"
  shows "settings_ok (snd (update_section ids i u db))
    \<and> (\<forall>j. j \<noteq> i \<longrightarrow> school_settings j (snd (update_section ids i u db)) = school_settings j db)"
  using op_keepsD [OF section_keeps assms(1)] section_other [OF assms] by blast


text \<open>
  A role template that is applied to an administrator of the school gives the administrator exactly
  the permissions of the template and leaves the permissions of everybody else; an administrator with
  principal-level access is refused.
\<close>

theorem apply_role_template_correct:
  assumes run: "apply_role_template school template admin db = (Inr (a, ids), db')"
  shows "\<exists>t seat. t \<in> set (pd_templates (sb_perm db)) \<and> rt_id t = template \<and> visible_template school t
      \<and> seat \<in> set (pd_admins (sb_perm db)) \<and> pa_id seat = admin \<and> pa_school seat = school \<and> pa_tier seat \<noteq> PRINCIPAL_TIER
      \<and> a = admin \<and> ids = rt_permissions t
      \<and> {p. (admin, p) \<in> set (pd_grants (sb_perm db'))} = set (rt_permissions t)
      \<and> (\<forall>b p. b \<noteq> admin \<longrightarrow> (b, p) \<in> set (pd_grants (sb_perm db')) \<longleftrightarrow> (b, p) \<in> set (pd_grants (sb_perm db)))"
proof -
  obtain t seat where t: "find (\<lambda>t. rt_id t = template \<and> visible_template school t) (pd_templates (sb_perm db)) = Some t"
    and seat: "find (\<lambda>a. pa_id a = admin \<and> pa_school a = school) (pd_admins (sb_perm db)) = Some seat"
      "pa_tier seat \<noteq> PRINCIPAL_TIER"
    and res: "a = admin" "ids = rt_permissions t" "db' = db\<lparr>sb_perm := write_role t admin (sb_perm db)\<rparr>"
    using run by (auto simp: apply_role_template_def op_bind_Inr op_then_Inr op_guard_Inr with_perm_def split: option.splits if_splits)
  have "(b, p) \<in> set (pd_grants (sb_perm db')) \<longleftrightarrow>
      (if b = admin then p \<in> set (rt_permissions t) else (b, p) \<in> set (pd_grants (sb_perm db)))" for b p
    by (auto simp: res(3) write_role_def clear_grants_def)
  then show ?thesis using find_Some_in [OF t] find_Some_in [OF seat(1)] seat(2) res(1,2)
    by (intro exI [of _ t] exI [of _ seat]) auto
qed

definition charges_of :: "ident \<Rightarrow> ident \<Rightarrow> settings_db \<Rightarrow> nat" where
  "charges_of schedule e db = count_where (\<lambda>f. fe_schedule f = Some schedule \<and> fe_enrolment f = e) (sb_fees db)"

lemma count_where_map: "count_where p (map f xs) = count_where (\<lambda>x. p (f x)) xs"
  by (induction xs) auto

lemma count_unique: "distinct (map en_id es) \<Longrightarrow> count_where (\<lambda>x. en_id x = k) es = (if k \<in> en_id ` set es then 1 else 0)"
  by (induction es) (auto simp: count_where_zero)

lemma fees_run:
  assumes "generate_fees_from_schedule new_id school i db = (Inr n, db')"
  shows "\<exists>s name. own_schedule school i db = Inr s \<and> n = length (filter (scheduled_enrolment school s (sb_base db)) (sd_enrolments (sb_base db)))
    \<and> db' = db\<lparr>sb_fees := sb_fees db @ map (\<lambda>e. fee_of school s name (new_id (en_id e)) e)
        (filter (scheduled_enrolment school s (sb_base db)) (sd_enrolments (sb_base db)))\<rparr>"
  using assms by (auto simp: generate_fees_from_schedule_def op_bind_Inr op_then_Inr op_lift_def split: prod.splits)

text \<open>
  The fees made from a schedule are one pending fee for each active enrollment of the school in its
  term and class level, with the amount and due date of the schedule; but a second run makes them
  all a second time.
\<close>

theorem fees_generated_twice:
  assumes distinct: "distinct (map en_id (sd_enrolments (sb_base db)))"
    and first: "generate_fees_from_schedule f school i db = (Inr n, db1)"
    and second: "generate_fees_from_schedule g school i db1 = (Inr m, db2)"
  shows "\<exists>s. own_schedule school i db = Inr s \<and> m = n
    \<and> (\<forall>fee\<in>set (sb_fees db1) - set (sb_fees db). fe_amount fee = fl_amount s \<and> fe_due fee = fl_due s \<and> fe_status fee = ''PENDING'')
    \<and> (\<forall>e\<in>set (sd_enrolments (sb_base db)).
         charges_of i (en_id e) db1 = charges_of i (en_id e) db + (if scheduled_enrolment school s (sb_base db) e then 1 else 0)
       \<and> charges_of i (en_id e) db2 = charges_of i (en_id e) db + (if scheduled_enrolment school s (sb_base db) e then 2 else 0))"
proof -
  obtain s name where s: "own_schedule school i db = Inr s"
    and n: "n = length (filter (scheduled_enrolment school s (sb_base db)) (sd_enrolments (sb_base db)))"
    and db1: "db1 = db\<lparr>sb_fees := sb_fees db @ map (\<lambda>e. fee_of school s name (f (en_id e)) e)
        (filter (scheduled_enrolment school s (sb_base db)) (sd_enrolments (sb_base db)))\<rparr>"
    using fees_run [OF first] by blast
  define es where "es = filter (scheduled_enrolment school s (sb_base db)) (sd_enrolments (sb_base db))"
  have same: "own_schedule school i db1 = Inr s" "sb_base db1 = sb_base db" using s by (simp_all add: db1 own_schedule_def)
  obtain name' where m: "m = length es" and db2: "db2 = db1\<lparr>sb_fees := sb_fees db1 @ map (\<lambda>e. fee_of school s name' (g (en_id e)) e) es\<rparr>"
    using fees_run [OF second] same by (auto simp: es_def)
  have id: "fl_id s = i" using s by (auto simp: own_schedule_def split: option.splits dest: find_Some_in)
  have des: "distinct (map en_id es)" unfolding es_def using distinct by (rule distinct_map_filter)
  have new: "count_where (\<lambda>x. fe_schedule x = Some i \<and> fe_enrolment x = en_id e) (map (\<lambda>e. fee_of school s nm (h (en_id e)) e) es)
      = (if scheduled_enrolment school s (sb_base db) e then 1 else 0)" if "e \<in> set (sd_enrolments (sb_base db))" for e nm h
  proof -
    have "en_id e \<in> en_id ` set es \<longleftrightarrow> e \<in> set es"
      using distinct_key_eq [OF distinct] that by (auto simp: es_def)
    then show ?thesis using count_unique [OF des, of "en_id e"] that id by (simp add: count_where_map fee_of_def es_def)
  qed
  have "\<forall>e\<in>set (sd_enrolments (sb_base db)).
         charges_of i (en_id e) db1 = charges_of i (en_id e) db + (if scheduled_enrolment school s (sb_base db) e then 1 else 0)
       \<and> charges_of i (en_id e) db2 = charges_of i (en_id e) db + (if scheduled_enrolment school s (sb_base db) e then 2 else 0)"
    using new by (auto simp: charges_of_def db2 db1 es_def [symmetric])
  moreover have "\<forall>fee\<in>set (sb_fees db1) - set (sb_fees db). fe_amount fee = fl_amount s \<and> fe_due fee = fl_due s \<and> fe_status fee = ''PENDING''"
    by (auto simp: db1 fee_of_def)
  ultimately show ?thesis using s n m by (intro exI [of _ s]) (simp add: es_def)
qed

section \<open>Witnesses\<close>

definition ex_base :: session_db where
  "ex_base = \<lparr>sd_schools = [], sd_sessions = [], sd_terms = [],
     sd_enrolments =
       [\<lparr>en_id = ''E1'', en_student = ''S1'', en_school = ''A'', en_class = Some ''C1'', en_arm = Some ''R1'', en_term = Some ''T1'',
         en_level = ''JSS1'', en_year = ''2026'', en_active = True, en_debt = 0\<rparr>,
        \<lparr>en_id = ''E2'', en_student = ''S2'', en_school = ''A'', en_class = Some ''C1'', en_arm = Some ''R1'', en_term = Some ''T1'',
         en_level = ''JSS1'', en_year = ''2026'', en_active = True, en_debt = 0\<rparr>,
        \<lparr>en_id = ''E3'', en_student = ''S3'', en_school = ''B'', en_class = None, en_arm = None, en_term = None,
         en_level = ''JSS1'', en_year = ''2026'', en_active = True, en_debt = 0\<rparr>],
     sd_levels = [], sd_arms = [], sd_classes = [], sd_periods = [], sd_holidays = []\<rparr>"

definition ex_perm :: perm_db where
  "ex_perm = \<lparr>pd_catalog = [\<lparr>pr_id = ''p1'', pr_resource = RES_GRADES, pr_type = PERM_READ\<rparr>],
     pd_admins = [\<lparr>pa_id = ''a1'', pa_user = ''u1'', pa_school = ''A'', pa_title = ''Bursar'', pa_tier = STAFF_TIER,
       pa_template = None, pa_customised = True\<rparr>],
     pd_grants = [(''a1'', ''p9''), (''a2'', ''p9'')],
     pd_templates = [\<lparr>rt_id = ''t1'', rt_school = None, rt_name = ''Reader'', rt_slug = None, rt_description = None,
       rt_suggested = None, rt_permissions = [''p1''], rt_system = True\<rparr>]\<rparr>"

definition ex_settings :: settings_db where
  "ex_settings = \<lparr>sb_structure = [], sb_grading = [], sb_admission = [], sb_timetable = [],
     sb_attendance = [(DEFAULT_ATTENDANCE_POLICY ''B'')\<lparr>ap_window_hours := 48\<rparr>],
     sb_notification = [], sb_finance = [], sb_curriculum = [], sb_security = [], sb_working = [(''A'', []), (''B'', [])],
     sb_bells = [\<lparr>be_id = ''b1'', be_school = ''B'', be_type = ''PRIMARY'', be_periods = ''[]'', be_default = True\<rparr>],
     sb_presets = [], sb_holidays = [], sb_templates = [],
     sb_categories = [\<lparr>fc_id = ''c1'', fc_school = ''A'', fc_name = ''Tuition'', fc_description = None, fc_active = True\<rparr>],
     sb_schedules = [\<lparr>fl_id = ''f1'', fl_school = ''A'', fl_category = ''c1'', fl_level = None, fl_term = Some ''T1'',
       fl_amount = 500, fl_due = 9, fl_grace_days = 0, fl_penalty = 0\<rparr>],
     sb_fees = [], sb_perm = ex_perm, sb_base = ex_base\<rparr>"

lemma ex_settings_ok: "settings_ok ex_settings"
  by (simp add: settings_ok_def ex_settings_def)

lemma ensure_defaults_correct_witness:
  "ensure_defaults ''A'' ex_settings = (Inr (), with_defaults ''A'' ex_settings)
   \<and> school_settings ''B'' (with_defaults ''A'' ex_settings) = school_settings ''B'' ex_settings
   \<and> policy_of ap_school ''A'' (sb_attendance (with_defaults ''A'' ex_settings)) = Some (DEFAULT_ATTENDANCE_POLICY ''A'')"
proof -
  have "policy_of ap_school ''A'' (sb_attendance ex_settings) = None"
    by (simp add: ex_settings_def policy_of_def DEFAULT_ATTENDANCE_POLICY_def)
  then show ?thesis using ensure_defaults_correct [of "''A''" ex_settings] by (simp add: school_settings_def)
qed

lemma section_isolated_witness:
  "school_settings ''B'' (snd (update_section (\<lambda>_. ''n'') ''A'' (Attendance_section [PutWindowHours 0]) ex_settings)) = school_settings ''B'' ex_settings"
proof -
  have "\<not> takes_school (Attendance_section [PutWindowHours 0])" "\<not> foreign_bell ''A'' (Attendance_section [PutWindowHours 0]) ex_settings"
    by (simp_all add: takes_school_def foreign_bell_def)
  then show ?thesis using section_isolated [OF ex_settings_ok, of "Attendance_section [PutWindowHours 0]" "''A''" "\<lambda>_. ''n''"] by simp
qed


lemma apply_role_template_correct_witness:
  "{p. (''a1'', p) \<in> set (pd_grants (sb_perm (snd (apply_role_template ''A'' ''t1'' ''a1'' ex_settings))))} = {''p1''}"
proof -
  have "apply_role_template ''A'' ''t1'' ''a1'' ex_settings =
      (Inr (''a1'', [''p1'']), snd (apply_role_template ''A'' ''t1'' ''a1'' ex_settings))"
    unfolding prod_eq_iff
    by (simp add: apply_role_template_def ex_settings_def ex_perm_def visible_template_def op_then_def op_bind_def op_guard_def
        find_perm_def with_perm_def op_modify_def)
  from apply_role_template_correct [OF this] obtain t :: role_template where t: "[''p1''] = rt_permissions t"
    "{p. (''a1'', p) \<in> set (pd_grants (sb_perm (snd (apply_role_template ''A'' ''t1'' ''a1'' ex_settings))))} = set (rt_permissions t)"
    by (elim exE conjE)
  from t(1) have "rt_permissions t = [''p1'']" by (rule sym)
  then show ?thesis using t(2) by simp
qed

lemma fees_generated_twice_witness:
  "\<exists>db1 db2 n. generate_fees_from_schedule (\<lambda>e. ''x'' @ e) ''A'' ''f1'' ex_settings = (Inr n, db1)
     \<and> generate_fees_from_schedule (\<lambda>e. ''y'' @ e) ''A'' ''f1'' db1 = (Inr n, db2)
     \<and> charges_of ''f1'' ''E1'' db2 = 2 \<and> n = 2"
proof -
  have d: "distinct (map en_id (sd_enrolments (sb_base ex_settings)))" by (simp add: ex_settings_def ex_base_def)
  obtain db1 where run1: "generate_fees_from_schedule (\<lambda>e. ''x'' @ e) ''A'' ''f1'' ex_settings = (Inr 2, db1)"
    by (simp add: generate_fees_from_schedule_def op_bind_def op_lift_def op_then_def own_schedule_def ex_settings_def ex_base_def
        scheduled_enrolment_def)
  obtain m db2 where run2: "generate_fees_from_schedule (\<lambda>e. ''y'' @ e) ''A'' ''f1'' db1 = (Inr m, db2)"
    using fees_run [OF run1]
    by (auto simp: generate_fees_from_schedule_def op_bind_def op_lift_def op_then_def own_schedule_def split: option.splits)
  have charged: "charges_of ''f1'' ''E1'' ex_settings = 0" by (simp add: charges_of_def ex_settings_def)
  obtain s where s: "own_schedule ''A'' ''f1'' ex_settings = Inr s" "m = 2"
    "\<forall>e\<in>set (sd_enrolments (sb_base ex_settings)). charges_of ''f1'' (en_id e) db2 =
       charges_of ''f1'' (en_id e) ex_settings + (if scheduled_enrolment ''A'' s (sb_base ex_settings) e then 2 else 0)"
    using fees_generated_twice [OF d run1 run2] by auto
  have "charges_of ''f1'' ''E1'' db2 = 2"
    using s(1,3) charged by (auto simp: own_schedule_def ex_settings_def ex_base_def scheduled_enrolment_def)
  then show ?thesis using run1 run2 s(2) by blast
qed

end
