(* ===== verification/AttendanceFacts.thy ===== *)
theory AttendanceFacts
  imports Attendance SettingsFacts
begin

text \<open>
  Attendance: an enrollment has at most one row a day, what a marking writes and what it leaves, the
  summary of a class as counts over its rows, and the bulk marking that skips the policy.
\<close>

section \<open>The policy\<close>

lemma base_defaults [simp]: "sb_base (with_defaults i db) = sb_base db"
  by (simp add: with_defaults_def)

lemma enrolment_settings [simp]:
  "attendance_enrolment e (db\<lparr>ab_settings := with_defaults i (ab_settings db)\<rparr>) = attendance_enrolment e db"
  by (simp add: attendance_enrolment_def)

lemma enrolment_rows [simp]: "attendance_enrolment e (db\<lparr>ab_rows := rows\<rparr>) = attendance_enrolment e db"
  by (simp add: attendance_enrolment_def)

definition policy_now :: "ident \<Rightarrow> attendance_db \<Rightarrow> attendance_settings" where
  "policy_now school db = nullish (policy_of ap_school school (sb_attendance (ab_settings db))) (DEFAULT_ATTENDANCE_POLICY school)"

lemma policy_read:
  "on_settings (get_attendance_policy i) db =
     (if i = [] then (Inl (BadRequest ''School context is required to load settings.''), db)
      else (Inr (policy_now i db), db\<lparr>ab_settings := with_defaults i (ab_settings db)\<rparr>))"
proof -
  have "policy_of ap_school i (sb_attendance (with_defaults i (ab_settings db))) = Some (policy_now i db)"
    by (simp add: with_defaults_def policy_now_def attendance_table.ensured)
  then show ?thesis
    by (simp add: on_settings_def get_attendance_policy_def stored_policy_def op_then_def op_bind_def ensure_defaults_eval op_lift_def)
qed

lemma policy_checked:
  "validate_attendance_policy tz now i day st db =
     (if i = [] then (Inl (BadRequest ''School context is required to load settings.''), db)
      else ((case first_thrown (window_checks tz now day st (policy_now i db)) of None \<Rightarrow> Inr () | Some e \<Rightarrow> Inl e),
            db\<lparr>ab_settings := with_defaults i (ab_settings db)\<rparr>))"
  by (simp add: validate_attendance_policy_def op_bind_def policy_read op_guard_def)

lemma policy_again [simp]: "policy_now i (db\<lparr>ab_settings := with_defaults i (ab_settings db)\<rparr>) = policy_now i db"
  by (simp add: policy_now_def with_defaults_def attendance_table.ensured)

section \<open>The upsert\<close>

definition mark_key :: "attendance_row \<Rightarrow> ident \<times> date" where
  "mark_key r = (at_enrolment r, at_date r)"

lemma same_mark_key: "same_mark e day r \<longleftrightarrow> mark_key r = (e, date_column day)"
  by (simp add: same_mark_def mark_key_def)

lemma keys_update_first:
  "map mark_key (update_first p (\<lambda>r. r\<lparr>at_status := s, at_remarks := f r, at_teacher := t\<rparr>) rows) = map mark_key rows"
  by (induction rows) (auto simp: mark_key_def)

lemma upsert_distinct: "distinct (map mark_key rows) \<Longrightarrow> distinct (map mark_key (upsert_attendance n t day m rows))"
proof -
  assume d: "distinct (map mark_key rows)"
  show ?thesis
  proof (cases "list_ex (same_mark (md_enrolment m) day) rows")
    case True
    then show ?thesis using d by (simp add: upsert_attendance_def keys_update_first)
  next
    case False
    then have "(md_enrolment m, date_column day) \<notin> mark_key ` set rows"
      by (auto simp: list_ex_iff same_mark_key image_iff)
    then show ?thesis using False d by (simp add: upsert_attendance_def mark_key_def)
  qed
qed

lemma filter_keys_update:
  "(\<And>r. mark_key (f r) = mark_key r) \<Longrightarrow> \<not> q k \<Longrightarrow>
   filter (\<lambda>r. q (mark_key r)) (update_first (\<lambda>r. mark_key r = k) f rows) = filter (\<lambda>r. q (mark_key r)) rows"
  by (induction rows) auto

text \<open>The rows of the other enrollments and days are those of before, in the same order.\<close>

lemma upsert_others:
  "filter (\<lambda>r. mark_key r \<noteq> (md_enrolment m, date_column day)) (upsert_attendance n t day m rows)
     = filter (\<lambda>r. mark_key r \<noteq> (md_enrolment m, date_column day)) rows"
proof (cases "list_ex (same_mark (md_enrolment m) day) rows")
  case True
  let ?f = "\<lambda>r. r\<lparr>at_status := md_status m, at_remarks := (if md_remarks m = None then at_remarks r else md_remarks m), at_teacher := t\<rparr>"
  have "filter (\<lambda>r. (\<lambda>k. k \<noteq> (md_enrolment m, date_column day)) (mark_key r))
      (update_first (\<lambda>r. mark_key r = (md_enrolment m, date_column day)) ?f rows)
      = filter (\<lambda>r. (\<lambda>k. k \<noteq> (md_enrolment m, date_column day)) (mark_key r)) rows"
    by (rule filter_keys_update) (simp_all add: mark_key_def)
  then show ?thesis using True by (simp add: upsert_attendance_def same_mark_key [abs_def])
next
  case False
  then show ?thesis by (simp add: upsert_attendance_def mark_key_def)
qed

lemma update_first_hit:
  "list_ex p rows \<Longrightarrow> (\<And>r. p r \<Longrightarrow> p (f r)) \<Longrightarrow> \<exists>r0. find p rows = Some r0 \<and> find p (update_first p f rows) = Some (f r0)"
  by (induction rows) auto

lemma upsert_written:
  "\<exists>r. find (same_mark (md_enrolment m) day) (upsert_attendance n t day m rows) = Some r
    \<and> at_status r = md_status m \<and> at_teacher r = t
    \<and> at_remarks r = (case md_remarks m of Some x \<Rightarrow> Some x
        | None \<Rightarrow> Option.bind (find (same_mark (md_enrolment m) day) rows) at_remarks)"
proof (cases "list_ex (same_mark (md_enrolment m) day) rows")
  case True
  let ?f = "\<lambda>r. r\<lparr>at_status := md_status m, at_remarks := (if md_remarks m = None then at_remarks r else md_remarks m), at_teacher := t\<rparr>"
  obtain r0 where "find (same_mark (md_enrolment m) day) rows = Some r0"
    "find (same_mark (md_enrolment m) day) (update_first (same_mark (md_enrolment m) day) ?f rows) = Some (?f r0)"
    using update_first_hit [OF True, of ?f] by (auto simp: same_mark_def)
  then show ?thesis using True by (auto simp: upsert_attendance_def split: option.splits)
next
  case False
  then have "find (same_mark (md_enrolment m) day) rows = None" by (auto simp: find_None_all list_ex_iff)
  then show ?thesis using False by (auto simp: upsert_attendance_def find_append same_mark_def split: option.splits)
qed

section \<open>The table of attendance\<close>

definition attendance_inv :: "attendance_db \<Rightarrow> bool" where
  "attendance_inv db =
     (distinct (map mark_key (ab_rows db))
      \<and> (\<forall>r\<in>set (ab_rows db). at_date r = date_column (at_date r) \<and> attendance_enrolment (at_enrolment r) db \<noteq> None))"

lemma date_column_twice: "date_column (date_column t) = date_column t"
  by (simp add: date_column_def day_number_def)

lemma upsert_inv:
  assumes inv: "attendance_inv db" and e: "attendance_enrolment (md_enrolment m) db \<noteq> None"
  shows "attendance_inv (db\<lparr>ab_rows := upsert_attendance n t day m (ab_rows db)\<rparr>)"
proof -
  have "at_date r = date_column (at_date r) \<and> attendance_enrolment (at_enrolment r) db \<noteq> None"
    if r: "r \<in> set (upsert_attendance n t day m (ab_rows db))" for r
  proof (cases "list_ex (same_mark (md_enrolment m) day) (ab_rows db)")
    case True
    then obtain r' where "r' \<in> set (ab_rows db)" "at_date r = at_date r'" "at_enrolment r = at_enrolment r'"
      using r by (auto simp: upsert_attendance_def dest!: set_update_firstD)
    then show ?thesis using inv by (auto simp: attendance_inv_def)
  next
    case False
    then show ?thesis using r inv e by (auto simp: upsert_attendance_def attendance_inv_def date_column_twice)
  qed
  then show ?thesis using upsert_distinct inv by (auto simp: attendance_inv_def)
qed

lemma settings_inv [simp]:
  "attendance_inv (db\<lparr>ab_settings := with_defaults i (ab_settings db)\<rparr>) = attendance_inv db"
  by (simp add: attendance_inv_def)

lemma validate_keeps: "op_keeps attendance_inv (validate_attendance_policy tz now i day st)"
  by (simp add: op_keeps_def policy_checked)

lemma check_all_keeps: "op_keeps attendance_inv (check_all tz now i day ms)"
proof (induction ms)
  case Nil
  show ?case unfolding check_all.simps by (intro op_keeps_intros)
next
  case (Cons m ms)
  show ?case unfolding check_all.simps by (intro op_keeps_intros validate_keeps Cons.IH)
qed

lemma upsert_all_inv: "attendance_inv db \<Longrightarrow> attendance_inv (upsert_all ids n t day ms db)"
  by (induction ms arbitrary: n db) (auto intro!: upsert_inv)

lemma mark_inv: "attendance_inv db \<Longrightarrow> attendance_inv (snd (mark_attendance tz now n u day m db))"
proof (cases "get_teacher_profile u db")
  case (Inr t)
  assume inv: "attendance_inv db"
  then show ?thesis
    using Inr upsert_inv [of "db\<lparr>ab_settings := s\<rparr>" m n "te_id t" day for s]
    by (cases "attendance_enrolment (md_enrolment m) db")
      (auto simp: mark_attendance_def op_bind_def op_lift_def op_then_def policy_checked op_modify_def
        intro: upsert_inv split: option.splits)
qed (simp add: mark_attendance_def op_bind_def op_lift_def)

lemma bulk_inv: "attendance_inv db \<Longrightarrow> attendance_inv (snd (mark_bulk_attendance tz now ids u day ms db))"
proof (cases "get_teacher_profile u db")
  case (Inr t)
  assume inv: "attendance_inv db"
  show ?thesis
  proof (cases ms)
    case (Cons m ms')
    define first where "first = attendance_enrolment (md_enrolment m) db"
    define chk where "chk = (case first of None \<Rightarrow> op_ret () | Some e \<Rightarrow> check_all tz now (en_school e) day ms)"
    obtain r d where run: "chk db = (r, d)" by fastforce
    have keeps: "op_keeps attendance_inv chk"
      unfolding chk_def by (cases first) (auto intro: check_all_keeps op_keeps_pure)
    have "attendance_inv d" using op_keepsD [OF keeps inv] run by simp
    moreover have "mark_bulk_attendance tz now ids u day ms db =
        op_then chk (\<lambda>db. (if missing_enrolment ms db then Inl (JsError ''Foreign key constraint failed'') else Inr (),
          upsert_all ids 0 (te_id t) day ms db)) db"
      using Inr Cons by (simp add: mark_bulk_attendance_def op_bind_def op_lift_def chk_def first_def del: upsert_all.simps check_all.simps cong: option.case_cong)
    ultimately show ?thesis using run upsert_all_inv [of d ids 0 "te_id t" day ms]
      by (cases r) (simp_all add: op_then_def op_bind_def)
  qed (use Inr inv in \<open>simp add: mark_bulk_attendance_def op_bind_def op_lift_def\<close>)
qed (simp add: mark_bulk_attendance_def op_bind_def op_lift_def)

datatype attendance_event =
    MarkOne int date ident attendance_user date mark_dto
  | MarkMany int date "nat \<Rightarrow> ident" attendance_user date "mark_dto list"

fun attendance_step :: "attendance_event \<Rightarrow> attendance_db \<Rightarrow> attendance_db" where
  "attendance_step (MarkOne tz now n u day m) db = snd (mark_attendance tz now n u day m db)"
| "attendance_step (MarkMany tz now ids u day ms) db = snd (mark_bulk_attendance tz now ids u day ms db)"

interpretation attendance_run: step_system attendance_step attendance_inv
proof unfold_locales
  fix db e
  assume "attendance_inv db"
  then show "attendance_inv (attendance_step e db)" by (cases e) (auto intro: mark_inv bulk_inv)
qed

section \<open>The summary\<close>

definition stats_for :: "(ident \<times> string) list \<Rightarrow> ident \<Rightarrow> attendance_stats" where
  "stats_for rs i =
     \<lparr>ah_student = i, ah_present = count_where (\<lambda>r. r = (i, ''PRESENT'')) rs, ah_absent = count_where (\<lambda>r. r = (i, ''ABSENT'')) rs,
      ah_late = count_where (\<lambda>r. r = (i, ''LATE'')) rs, ah_total = count_where (\<lambda>r. fst r = i) rs\<rparr>"

lemma set_uniq_list: "set (uniq xs) = set xs"
  by (induction xs rule: uniq.induct) auto

lemma uniq_filter: "uniq (filter p xs) = filter p (uniq xs)"
proof (induction xs rule: uniq.induct)
  case (2 x xs)
  have swap: "filter (\<lambda>y. y \<noteq> x) (filter p xs) = filter p (filter (\<lambda>y. y \<noteq> x) xs)"
    by (simp add: conj_commute)
  have gone: "\<not> p x \<Longrightarrow> filter p (filter (\<lambda>y. y \<noteq> x) xs) = filter p xs" by (auto simp: filter_filter intro!: filter_cong)
  show ?case
  proof (cases "p x")
    case True
    then show ?thesis using 2 swap by simp
  next
    case False
    then show ?thesis using 2 gone [OF False] by simp
  qed
qed simp

lemma uniq_distinct [simp]: "distinct (uniq xs)"
  by (induction xs rule: uniq.induct) (auto simp: set_uniq_list)

lemma uniq_snoc: "uniq (xs @ [x]) = (if x \<in> set xs then uniq xs else uniq xs @ [x])"
proof (induction xs rule: uniq.induct)
  case (2 y ys)
  then show ?case by (cases "x = y") auto
qed simp

lemma update_first_keyed:
  "distinct is \<Longrightarrow> update_first (\<lambda>s. ah_student s = i) f (map g is) = map (\<lambda>k. if k = i then f (g k) else g k) is"
  if "\<And>k. ah_student (g k) = k"
  using that by (induction "is") auto

lemma summary_counts:
  "fold add_row rs [] = map (stats_for rs) (uniq (map fst rs))"
proof (induction rs rule: rev_induct)
  case (snoc r rs)
  obtain i s where r: "r = (i, s)" by (cases r)
  have known: "list_ex (\<lambda>s. ah_student s = i) (map (stats_for rs) (uniq (map fst rs))) \<longleftrightarrow> i \<in> fst ` set rs"
    by (auto simp: list_ex_iff set_uniq_list stats_for_def)
  have none: "i \<notin> fst ` set rs \<Longrightarrow> stats_for rs i = no_stats i"
    by (auto simp: stats_for_def no_stats_def image_iff intro!: count_where_zero)
  let ?U = "uniq (map fst rs @ [i])"
  have base: "(if list_ex (\<lambda>s. ah_student s = i) (map (stats_for rs) (uniq (map fst rs)))
      then map (stats_for rs) (uniq (map fst rs)) else map (stats_for rs) (uniq (map fst rs)) @ [no_stats i])
      = map (stats_for rs) ?U"
    using none by (auto simp: known uniq_snoc)
  have "fold add_row (rs @ [r]) [] = add_row r (map (stats_for rs) (uniq (map fst rs)))" by (simp add: snoc)
  also have "\<dots> = update_first (\<lambda>s. ah_student s = i) (count_row s) (map (stats_for rs) ?U)"
    unfolding add_row_def r fst_conv snd_conv Let_def base ..
  also have "\<dots> = map (\<lambda>k. if k = i then count_row s (stats_for rs k) else stats_for rs k) ?U"
    by (rule update_first_keyed) (simp_all add: stats_for_def)
  also have "(\<lambda>k. if k = i then count_row s (stats_for rs k) else stats_for rs k) = stats_for (rs @ [r])"
    by (rule ext) (auto simp: r stats_for_def count_row_def Let_def)
  finally show ?case by (simp add: r)
qed simp

section \<open>Properties\<close>

text \<open>
  Through every run of markings, single and bulk, an enrollment has at most one attendance row a
  day, each row is dated with a day and belongs to an enrollment.
\<close>

theorem attendance_invariant:
  assumes "attendance_inv db"
  shows "attendance_inv (fold attendance_step es db)"
  by (rule attendance_run.all_runs) (rule assms)

text \<open>
  C33: a marking that succeeds was allowed by the policy of the school of the enrollment (a status of its
  list, today or within its hours) and leaves one row for the enrollment and day with that status
  and the marking teacher, and every other row as it was; one that fails changes no row.
\<close>

theorem mark_attendance_correct:
  assumes run: "mark_attendance tz now n u day m db = (r, db')"
  shows "case r of
      Inl e \<Rightarrow> ab_rows db' = ab_rows db
    | Inr _ \<Rightarrow> \<exists>t e p. get_teacher_profile u db = Inr t \<and> attendance_enrolment (md_enrolment m) db = Some e
        \<and> p = policy_now (en_school e) db \<and> md_status m \<in> set (ap_statuses p)
        \<and> (if ap_window_hours p = 0 then local_midnight tz day = local_midnight tz now
           else now - day \<le> ap_window_hours p * (60 * 60 * 1000))
        \<and> (\<exists>row. find (same_mark (md_enrolment m) day) (ab_rows db') = Some row \<and> at_status row = md_status m \<and> at_teacher row = te_id t)
        \<and> filter (\<lambda>r. mark_key r \<noteq> (md_enrolment m, date_column day)) (ab_rows db')
            = filter (\<lambda>r. mark_key r \<noteq> (md_enrolment m, date_column day)) (ab_rows db)"
proof (cases "get_teacher_profile u db")
  case (Inl e)
  then show ?thesis using run by (auto simp: mark_attendance_def op_bind_def op_lift_def)
next
  case (Inr t)
  note teacher = Inr
  show ?thesis
  proof (cases "attendance_enrolment (md_enrolment m) db")
    case None
    then show ?thesis using run teacher by (auto simp: mark_attendance_def op_bind_def op_lift_def)
  next
    case (Some e)
    let ?p = "policy_now (en_school e) db"
    have eq: "mark_attendance tz now n u day m db =
        op_then (validate_attendance_policy tz now (en_school e) day (md_status m))
          (op_modify (\<lambda>db. db\<lparr>ab_rows := upsert_attendance n (te_id t) day m (ab_rows db)\<rparr>)) db"
      using teacher Some by (simp add: mark_attendance_def op_bind_def op_lift_def)
    show ?thesis
    proof (cases "en_school e \<noteq> [] \<and> first_thrown (window_checks tz now day (md_status m) ?p) = None")
      case True
      then have res: "r = Inr ()" "ab_rows db' = upsert_attendance n (te_id t) day m (ab_rows db)"
        using run eq by (auto simp: op_then_def op_bind_def policy_checked op_modify_def)
      have allowed: "md_status m \<in> set (ap_statuses ?p)"
        "if ap_window_hours ?p = 0 then local_midnight tz day = local_midnight tz now
         else now - day \<le> ap_window_hours ?p * (60 * 60 * 1000)"
        using True by (auto simp: window_checks_def split: if_splits)
      have "\<exists>row. find (same_mark (md_enrolment m) day) (ab_rows db') = Some row \<and> at_status row = md_status m \<and> at_teacher row = te_id t"
        using upsert_written [of m day n "te_id t" "ab_rows db"] unfolding res(2) by blast
      then show ?thesis using teacher Some allowed res upsert_others [of m day n "te_id t" "ab_rows db"] by auto
    next
      case False
      then obtain err where "r = Inl err" "ab_rows db' = ab_rows db"
        using run eq by (auto simp: op_then_def op_bind_def policy_checked split: if_splits option.splits)
      then show ?thesis by simp
    qed
  qed
qed


text \<open>The numbers of an entry do not exceed its total.\<close>

lemma stats_bounded: "ah_present (stats_for rs i) + ah_absent (stats_for rs i) + ah_late (stats_for rs i) \<le> ah_total (stats_for rs i)"
proof -
  have "count_where (\<lambda>r. r = (i, ''PRESENT'')) rs + count_where (\<lambda>r. r = (i, ''ABSENT'')) rs + count_where (\<lambda>r. r = (i, ''LATE'')) rs
      \<le> count_where (\<lambda>r. fst r = i) rs"
    by (induction rs) auto
  then show ?thesis by (simp add: stats_for_def)
qed

text \<open>
  A bulk marking whose first enrollment does not exist fails, but the other rows are written, with
  any status and for any day: the policy is not asked.
\<close>

theorem bulk_skips_policy:
  assumes t: "get_teacher_profile u db = Inr t" and missing: "attendance_enrolment (md_enrolment m) db = None"
    and e: "attendance_enrolment (md_enrolment m') db \<noteq> None"
  shows "mark_bulk_attendance tz now ids u day [m, m'] db =
    (Inl (JsError ''Foreign key constraint failed''), db\<lparr>ab_rows := upsert_attendance (ids 1) (te_id t) day m' (ab_rows db)\<rparr>)"
  using t missing e
  by (auto simp: mark_bulk_attendance_def op_bind_def op_lift_def op_then_def missing_enrolment_def)

section \<open>Witnesses\<close>

definition ex_attendance :: attendance_db where
  "ex_attendance = \<lparr>ab_settings = ex_settings,
     ab_staff = [\<lparr>te_id = ''T'', te_code = ''TC'', te_user = ''u'', te_school = ''A'', te_first = ''F'', te_last = ''L''\<rparr>],
     ab_rows = []\<rparr>"

definition ex_marker_user :: attendance_user where
  "ex_marker_user = \<lparr>au_user = ''u'', au_school = Some ''A''\<rparr>"

definition ex_mark :: "ident \<Rightarrow> string \<Rightarrow> mark_dto" where
  "ex_mark e s = \<lparr>md_enrolment = e, md_status = s, md_remarks = None\<rparr>"

lemma ex_attendance_inv: "attendance_inv ex_attendance"
  by (simp add: attendance_inv_def ex_attendance_def)

lemma attendance_invariant_witness:
  "attendance_inv (fold attendance_step
     [MarkMany 0 100 (\<lambda>n. show_nat n) ex_marker_user 50 [ex_mark ''E1'' ''PRESENT'', ex_mark ''E2'' ''SICK'', ex_mark ''E1'' ''LATE''],
      MarkOne 0 90000 ''x'' ex_marker_user 60000 (ex_mark ''E2'' ''ABSENT'')] ex_attendance)"
  by (rule attendance_invariant [OF ex_attendance_inv])

lemma bulk_skips_policy_witness:
  "map at_status (ab_rows (snd (mark_bulk_attendance 0 (100 * ms_per_day) (\<lambda>n. ''n'') ex_marker_user 0
     [ex_mark ''none'' ''PRESENT'', ex_mark ''E1'' ''HOLIDAY''] ex_attendance))) = [''HOLIDAY'']"
proof -
  have t: "get_teacher_profile ex_marker_user ex_attendance =
      Inr \<lparr>te_id = ''T'', te_code = ''TC'', te_user = ''u'', te_school = ''A'', te_first = ''F'', te_last = ''L''\<rparr>"
    by (simp add: get_teacher_profile_def ex_marker_user_def ex_attendance_def)
  have "attendance_enrolment (md_enrolment (ex_mark ''none'' ''PRESENT'')) ex_attendance = None"
    "attendance_enrolment (md_enrolment (ex_mark ''E1'' ''HOLIDAY'')) ex_attendance \<noteq> None"
    by (simp_all add: attendance_enrolment_def ex_attendance_def ex_settings_def ex_base_def ex_mark_def)
  then show ?thesis
    by (subst bulk_skips_policy [OF t]) (simp_all add: upsert_attendance_def ex_attendance_def ex_mark_def)
qed

lemma mark_attendance_correct_witness:
  "\<exists>row. find (same_mark ''E1'' 50) (ab_rows (snd (mark_attendance 0 100 ''n'' ex_marker_user 50 (ex_mark ''E1'' ''LATE'') ex_attendance))) = Some row
     \<and> at_status row = ''LATE'' \<and> at_teacher row = ''T''"
proof -
  have t: "get_teacher_profile ex_marker_user ex_attendance =
      Inr \<lparr>te_id = ''T'', te_code = ''TC'', te_user = ''u'', te_school = ''A'', te_first = ''F'', te_last = ''L''\<rparr>"
    by (simp add: get_teacher_profile_def ex_marker_user_def ex_attendance_def)
  have "attendance_enrolment ''E1'' ex_attendance = Some (hd (sd_enrolments ex_base))" "en_school (hd (sd_enrolments ex_base)) = ''A''"
    by (simp_all add: attendance_enrolment_def ex_attendance_def ex_settings_def ex_base_def)
  moreover have "policy_now ''A'' ex_attendance = DEFAULT_ATTENDANCE_POLICY ''A''"
    by (simp add: policy_now_def ex_attendance_def ex_settings_def policy_of_def DEFAULT_ATTENDANCE_POLICY_def)
  ultimately have "fst (mark_attendance 0 100 ''n'' ex_marker_user 50 (ex_mark ''E1'' ''LATE'') ex_attendance) = Inr ()"
    using t by (simp add: mark_attendance_def op_bind_def op_lift_def op_then_def policy_checked op_modify_def ex_mark_def
        window_checks_def DEFAULT_ATTENDANCE_POLICY_def)
  then have run: "mark_attendance 0 100 ''n'' ex_marker_user 50 (ex_mark ''E1'' ''LATE'') ex_attendance =
      (Inr (), snd (mark_attendance 0 100 ''n'' ex_marker_user 50 (ex_mark ''E1'' ''LATE'') ex_attendance))"
    by (simp add: prod_eq_iff)
  show ?thesis using mark_attendance_correct [OF run] t by (auto simp: ex_mark_def)
qed

end
