(* ===== verification/Spec2Isabelle.thy ===== *)
theory Spec2Isabelle
  imports SchemeGrid CuratorFacts BillingProperties TransferProperties SchoolLifecycle
    PermissionFacts SessionEdits PasswordProperties GradeProperties ExamTimetableFacts
    TimetableProperties AssessmentProperties PortalFacts Identifiers AttendanceFacts
begin

text \<open>
  A verification development of the school management backend (NestJS services over Prisma
  tables). Its subject is the logic of the services under \<open>src/src\<close>: what a request or a job
  does to the tables, on every branch, and what the pure utilities compute. Controllers only
  route and check roles, the database engine, e-mail, payment and AI providers are outside.

  \<^bold>\<open>How the model reads the code.\<close> A table is the list of its rows in the database's row order
  (\<open>findFirst\<close> is \<open>find\<close>, \<open>updateMany\<close> is \<open>update_where\<close>, an update by key is \<open>update_first\<close>,
  a stable \<open>orderBy\<close> is \<open>sort_key\<close>); a service's tables are the fields of one record
  (\<open>billing_db\<close>, \<open>transfer_db\<close>, \<open>session_db\<close>, \<open>auth_db\<close> and so on). An exception is a value of
  \<open>http_error\<close> in the left of a sum. A method that may throw after it has written is an
  operation of \<open>OpMonad\<close>: it returns its result or exception together with the tables as they
  are then, so that what a failed request leaves behind is visible. A unique index of
  \<open>prisma/schema\<close> makes a create throw. Times are milliseconds, \<open>new Date()\<close> is an argument
  \<open>now\<close> that is the same through one call, the server's time zone is a constant offset \<open>tz\<close>,
  dates of a request are given parsed. Random values and new ids are arguments. Strings are
  ASCII; the rule of JavaScript that null, undefined and the empty string are false is \<open>truthy\<close>
  and \<open>or_undefined\<close>. Doubles are rational numbers, except where the code floors them.

  \<^bold>\<open>Library.\<close> \<open>Prelude\<close> holds the exceptions, the string and table operations and their lemmas,
  and the locales \<open>guarded_step_system\<close> and \<open>step_system\<close>: a step that keeps an invariant keeps
  it through every run. \<open>OpMonad\<close> has the operations and the rules that carry an invariant
  through their composition (\<open>op_keeps\<close>). \<open>JsDate\<close> is the calendar of JavaScript dates.

  \<^bold>\<open>Calendar and schemes of work.\<close> \<open>InstructionalDays\<close> models
  \<open>common/utils/instructional-day.util.ts\<close> and \<open>term-phase.util.ts\<close>: which days are taught, the
  teaching weeks of a term, the phase of a term. \<open>SchemePacker\<close> models
  \<open>schools/curriculum/scheme-calendar-packer.util.ts\<close>; \<open>SchemeGrid\<close> proves, through the locale
  \<open>week_grid\<close>, that the weeks are exactly the teaching weeks and that the packers place every
  topic, with the topics the overflow branch of \<open>place\<close> doubles.

  \<^bold>\<open>Timetable curator.\<close> \<open>CuratorSolver\<close> models \<open>timetable/timetable-curator.solver.ts\<close>, its types
  and \<open>timetable-schedule.util.ts\<close>; the random numbers of the shuffle are a stream argument.
  \<open>CuratorFacts\<close> follows one slot, a day and the whole run: no assignment is overwritten, the
  cap of a teacher holds, every lesson slot gets a row.

  \<^bold>\<open>Subscriptions, billing and payments.\<close> \<open>SubscriptionConfig\<close>, \<open>Subscriptions\<close>, \<open>Billing\<close> and
  \<open>Payments\<close> model the services under \<open>subscriptions\<close> and \<open>payments\<close> and the tool guard, over
  \<open>billing_db\<close>. \<open>BillingFacts\<close> has the lemmas (the phase as a function of the paid period, the
  credit pool as an invariant of runs, downgrade and renewal as inverses), \<open>BillingProperties\<close>
  the properties.

  \<^bold>\<open>Transfers.\<close> \<open>Transfers\<close> models \<open>transfers/transfers.service.ts\<close> as the state machine of a
  transfer row with its code; the search of a free code makes ten attempts, as the code does, and
  fails after them. \<open>TransferFacts\<close> proves what each status promises over all runs,
  \<open>TransferProperties\<close> what completing moves and keeps, and the codes that get lost or reissued.

  \<^bold>\<open>Closing of schools.\<close> \<open>SchoolLifecycle\<close> models \<open>schools/lifecycle/school-lifecycle.service.ts\<close>
  and the routes to it; the job queue is the list of commands an operation returns, and a job may
  run at any time or never.

  \<^bold>\<open>Permissions.\<close> \<open>AccessTier\<close> and \<open>Permissions\<close> model the guards, the titles and the permission
  and role-template services under \<open>schools/staff/permissions\<close>; \<open>PermissionFacts\<close> proves the
  decision of the guard and that no run touches a principal.

  \<^bold>\<open>Sessions and terms.\<close> \<open>Sessions\<close>, \<open>SessionTerms\<close> and \<open>SessionDates\<close> model
  \<open>sessions/session.service.ts\<close> and \<open>common/utils/nigerian-holidays.util.ts\<close>: starting a session
  or a term with its promotion, carry-over and cloned timetables, ending, reactivating, edits of
  dates, and the views. \<open>SessionFacts\<close> has the invariant through every operation and the runs as
  the inductive relation \<open>session_reach\<close>; \<open>SessionMoves\<close> has the loops as list functions;
  \<open>SessionProperties\<close>, \<open>SessionBehaviour\<close> and \<open>SessionEdits\<close> have the properties, among them
  what a failed start and a start after an ended term leave behind.

  \<^bold>\<open>Sign-in.\<close> \<open>OneTimeCodes\<close> models \<open>auth/otp.service.ts\<close>, \<open>auth/password-otp.service.ts\<close> and
  the transfer codes of \<open>portals/portals.service.ts\<close>, with the locale \<open>one_time_key\<close> of a key
  accepted at most once; \<open>OneTimeFacts\<close> interprets it on the three tables. \<open>Auth\<close> models the
  sign-in, the tokens and the change of school of \<open>auth/auth.service.ts\<close> and
  \<open>strategies/jwt.strategy.ts\<close>, \<open>Passwords\<close> the policy, change, reset and links, the check of an
  uploaded image and \<open>common/utils/password.utils.ts\<close>. bcrypt and SHA-256 are parameters, a
  token is its payload. \<open>AuthProperties\<close> and \<open>PasswordProperties\<close> have the properties.

  \<^bold>\<open>Grades.\<close> \<open>Grades\<close> models \<open>grades/grades.service.ts\<close>, \<open>common/utils/grade-scale.util.ts\<close>
  and the report card of \<open>export/export.service.ts\<close>; decimals are rational numbers, the grading
  policy of a school is a parameter. \<open>GradeFacts\<close> splits each request into its refusals, which
  write nothing, and its one effect on the table, \<open>GradeProperties\<close> has the invariant of the
  table, who may change a grade, what an edit writes, and the average of the report card.

  \<^bold>\<open>Timetables.\<close> \<open>SchoolTables\<close> has the tables several services share (teachers, subjects,
  rooms, the assignment of teachers). \<open>Timetable\<close> models \<open>timetable/timetable.service.ts\<close>: the
  periods with the check for conflicts, the assignments that follow a lesson, master schedules,
  replacement and the views; \<open>TimetableFacts\<close> shows that every request keeps the unique keys and
  references, \<open>TimetableProperties\<close> what each request does and what the conflict check misses.

  \<^bold>\<open>Exams.\<close> \<open>ExamTimetable\<close> models \<open>exam-timetable/exam-timetable.service.ts\<close>, the slots, their
  publication and the gate for exam papers; \<open>ExamTimetableFacts\<close> has the locale \<open>slot_rule\<close> of a
  rule that every write of a slot obeys, its two instances, and the properties.

  \<^bold>\<open>Assessments.\<close> \<open>Assessments\<close> models \<open>assessments/assessments.service.ts\<close> and its deadline
  utility over the grade, billing and exam tables: papers, attempts with their violations,
  submission with the marking of the answers, grading into the grade table, and the views. The
  marking of short answers by the AI service is a parameter. \<open>AssessmentFacts\<close> has the invariant
  of the tables and what a student can no longer change, \<open>AssessmentProperties\<close> the properties.

  \<^bold>\<open>Portals and identifiers.\<close> \<open>Portals\<close> models \<open>portals/slug.util.ts\<close>, the addresses of
  \<open>portals/portals.service.ts\<close> and what registration, verification and rejection of a school do to
  its address; \<open>PortalFacts\<close> shows that a host below a root domain is read back as its slug, the
  invariant of the table of addresses, and that a school is found under its addresses. \<open>Identifiers\<close>
  models \<open>schools/shared/id-generator.service.ts\<close>, with when its loops end.

  \<^bold>\<open>Settings and attendance.\<close> \<open>Settings\<close> and \<open>SettingsRecords\<close> model \<open>school-settings\<close>: nine policy
  tables with defaults, the partial updates of the sections, presets, templates and fees;
  \<open>SettingsFacts\<close> has the locale \<open>policy_table\<close>, interpreted on the nine tables, and the isolation of
  the schools. \<open>Attendance\<close> models \<open>attendance/attendance.service.ts\<close> over them, \<open>AttendanceFacts\<close> its
  invariant, the markings and the summary.

  \<^bold>\<open>Loops.\<close> All loops recurse structurally over a list of rows or days, or over a number of days
  or attempts that is computed beforehand; no function takes fuel beyond that. The loops of
  \<open>Identifiers\<close> that draw until a value is unused are partial functions, with a theorem on when
  they return.

  \<^bold>\<open>Not modelled.\<close> E-mails, notifications, logging and metrics, which never change an outcome
  except where the code awaits a mail (then its success is an argument); the calls of payment,
  image and AI services (their answers are arguments where the code uses them); the
  admissions, curriculum, and resource services, which are next in
  the plan; the AI assistant, analytics and screens, whose
  content is in queries and prompts.
\<close>

end
